(* ===== verification/Prelude.thy ===== *)
theory Prelude
  imports Main "HOL-Library.Char_ord" "HOL-Library.List_Lexorder"
    "HOL-Library.Multiset" "HOL-Library.AList"
begin

text \<open>
  Shared vocabulary of the development: the Go values the components of Viaduct exchange (byte
  strings, times, errors, maps), the part of the Go standard library the modelled code calls
  (\<open>strings\<close>, \<open>sort\<close>), and generic lemmas on lists, association lists and loops that the
  component theories use.

  Conventions.
  \<^item> A Go \<open>string\<close> is a byte sequence, the HOL type \<^typ>\<open>string\<close>. The case and white-space
    functions of package \<open>strings\<close> are given on ASCII; bytes above 127 are left as they are.
  \<^item> A Go \<open>time.Time\<close> is an \<^typ>\<open>int\<close>: nanoseconds since the zero time, so that \<open>IsZero\<close> is
    equality with 0 and \<open>Before\<close> is \<open><\<close>. A \<open>time.Duration\<close> is an \<^typ>\<open>int\<close> of nanoseconds.
  \<^item> A Go \<open>int\<close> is an \<^typ>\<open>int\<close> where the values are counters far below the 64-bit bound; where the
    code's arithmetic can leave the range, the wrap-around is written out with \<open>wrap64\<close>.
  \<^item> A Go map is an association list; lookup is \<open>map_of\<close>, a store is \<open>AList.update\<close>, a delete is
    \<open>AList.delete\<close>. A nil map and an empty map are both \<open>[]\<close>: the modelled code never writes to a
    nil map.
  \<^item> A Go \<open>error\<close> is a value of \<open>goerror\<close>; \<open>nil\<close> is \<open>None\<close>.
\<close>

named_theorems go_string \<open>unfolding rules for the modelled functions of package strings\<close>
named_theorems go_loop \<open>facts on loops over slices and maps\<close>

section \<open>Times, integers, errors\<close>

type_synonym time = int
type_synonym duration = int

definition isZero :: "time \<Rightarrow> bool" where
  "isZero t = (t = 0)"

lemma isZero_iff [simp]: "isZero t \<longleftrightarrow> t = 0"
  by (simp add: isZero_def)

text \<open>Two's complement wrap-around of a 64-bit Go \<open>int\<close>.\<close>

definition wrap64 :: "int \<Rightarrow> int" where
  "wrap64 x = (x + 2 ^ 63) mod 2 ^ 64 - 2 ^ 63"

definition in_int64 :: "int \<Rightarrow> bool" where
  "in_int64 x = (- (2 ^ 63) \<le> x \<and> x < 2 ^ 63)"

lemma wrap64_range: "in_int64 (wrap64 x)"
proof -
  have "0 \<le> (x + 2 ^ 63) mod 2 ^ 64" and "(x + 2 ^ 63) mod 2 ^ 64 < 2 ^ 64"
    by simp_all
  then show ?thesis by (simp add: wrap64_def in_int64_def)
qed

lemma wrap64_id: "in_int64 x \<Longrightarrow> wrap64 x = x"
  by (simp add: wrap64_def in_int64_def)

text \<open>
  Error values: a format with its rendered arguments (\<open>fmt.Errorf\<close> without a wrapped error), a
  format whose argument is a time, a format that wraps an error (\<open>%w\<close> or \<open>%v\<close>), and
  \<open>errors.Join\<close>. Where the code keeps the text \<open>err.Error()\<close>, the model keeps the error.
\<close>

datatype goerror =
    Errorf string "string list"
  | ErrorfTime string time
  | Wrap string "string list" goerror
  | ErrJoin "goerror list"

text \<open>Decimal rendering of a number, \<open>%d\<close>.\<close>

fun itoa :: "nat \<Rightarrow> string" where
  "itoa n = (if n < 10 then [char_of (48 + n)] else itoa (n div 10) @ [char_of (48 + n mod 10)])"

declare itoa.simps [simp del]

definition itoaInt :: "int \<Rightarrow> string" where
  "itoaInt i = (if i < 0 then ''-'' @ itoa (nat (- i)) else itoa (nat i))"

section \<open>Package strings\<close>

definition charCode :: "char \<Rightarrow> nat" where
  "charCode c = of_char c"

definition isSpace :: "char \<Rightarrow> bool" where
  "isSpace c = (charCode c = 32 \<or> (9 \<le> charCode c \<and> charCode c \<le> 13))"

definition TrimLeftSpace :: "string \<Rightarrow> string" where
  "TrimLeftSpace s = dropWhile isSpace s"

definition TrimSpace :: "string \<Rightarrow> string" where
  "TrimSpace s = rev (dropWhile isSpace (rev (TrimLeftSpace s)))"

definition toLowerChar :: "char \<Rightarrow> char" where
  "toLowerChar c = (if 65 \<le> charCode c \<and> charCode c \<le> 90 then char_of (charCode c + 32) else c)"

definition ToLower :: "string \<Rightarrow> string" where
  "ToLower s = map toLowerChar s"

definition EqualFold :: "string \<Rightarrow> string \<Rightarrow> bool" where
  "EqualFold a b = (ToLower a = ToLower b)"

fun HasPrefix :: "string \<Rightarrow> string \<Rightarrow> bool" where
  "HasPrefix s [] = True"
| "HasPrefix [] (p # ps) = False"
| "HasPrefix (c # cs) (p # ps) = (c = p \<and> HasPrefix cs ps)"

definition TrimPrefix :: "string \<Rightarrow> string \<Rightarrow> string" where
  "TrimPrefix s p = (if HasPrefix s p then drop (length p) s else s)"

definition HasSuffix :: "string \<Rightarrow> string \<Rightarrow> bool" where
  "HasSuffix s p = HasPrefix (rev s) (rev p)"

definition TrimSuffix :: "string \<Rightarrow> string \<Rightarrow> string" where
  "TrimSuffix s p = (if HasSuffix s p then take (length s - length p) s else s)"

fun Contains :: "string \<Rightarrow> string \<Rightarrow> bool" where
  "Contains [] p = (p = [])"
| "Contains (c # cs) p = (HasPrefix (c # cs) p \<or> Contains cs p)"

lemma HasPrefix_iff: "HasPrefix s p \<longleftrightarrow> (\<exists>r. s = p @ r)"
  by (induction s p rule: HasPrefix.induct) auto

lemma HasSuffix_iff: "HasSuffix s p \<longleftrightarrow> (\<exists>r. s = r @ p)"
proof -
  have "HasSuffix s p \<longleftrightarrow> (\<exists>r. rev s = rev p @ r)"
    by (simp add: HasSuffix_def HasPrefix_iff)
  also have "\<dots> \<longleftrightarrow> (\<exists>r. s = r @ p)"
    by (metis rev_append rev_rev_ident)
  finally show ?thesis .
qed

lemma Contains_iff: "Contains s p \<longleftrightarrow> (\<exists>a b. s = a @ p @ b)"
proof (induction s)
  case Nil
  then show ?case by simp
next
  case (Cons c cs)
  have "(\<exists>a b. c # cs = a @ p @ b) \<longleftrightarrow> (\<exists>b. c # cs = p @ b) \<or> (\<exists>a b. cs = a @ p @ b)"
    by (metis (no_types, opaque_lifting) append_Cons append_Nil list.exhaust list.inject)
  with Cons show ?case by (simp add: HasPrefix_iff)
qed

lemma TrimPrefix_append [simp]: "TrimPrefix (p @ s) p = s"
  by (simp add: TrimPrefix_def HasPrefix_iff)

lemma TrimSuffix_append [simp]: "TrimSuffix (s @ p) p = s"
  by (simp add: TrimSuffix_def HasSuffix_iff)

lemma TrimSpace_empty [simp]: "TrimSpace [] = []"
  by (simp add: TrimSpace_def TrimLeftSpace_def)

lemma ToLower_Nil [simp]: "ToLower [] = []"
  by (simp add: ToLower_def)

lemma EqualFold_refl [simp]: "EqualFold a a"
  by (simp add: EqualFold_def)

lemma EqualFold_sym: "EqualFold a b \<Longrightarrow> EqualFold b a"
  by (simp add: EqualFold_def)

lemmas go_string_defs [go_string] =
  TrimSpace_def TrimLeftSpace_def isSpace_def charCode_def ToLower_def toLowerChar_def
  EqualFold_def TrimPrefix_def HasSuffix_def TrimSuffix_def

text \<open>A trimmed string is a fixed point of \<open>TrimSpace\<close>.\<close>

lemma dropWhile_rev_dropWhile:
  "dropWhile P (rev (dropWhile P (rev (dropWhile P xs)))) = rev (dropWhile P (rev (dropWhile P xs)))"
proof (cases "dropWhile P (rev (dropWhile P xs))")
  case Nil
  then show ?thesis by (simp only: Nil rev.simps dropWhile.simps)
next
  case (Cons a as)
  let ?ys = "dropWhile P xs"
  have nonempty: "?ys \<noteq> []" using Cons by (metis dropWhile.simps(1) list.discI rev.simps(1))
  obtain y ys where ys: "?ys = y # ys" using nonempty by (cases ?ys) auto
  then have ny: "\<not> P y" by (metis hd_dropWhile list.discI list.sel(1))
  have "rev (dropWhile P (rev (y # ys))) = y # rev (dropWhile P (rev ys))"
    using ny by (simp add: dropWhile_append)
  with ny ys show ?thesis by simp
qed

lemma TrimSpace_idem [simp]: "TrimSpace (TrimSpace s) = TrimSpace s"
  using dropWhile_rev_dropWhile [of isSpace s]
  by (simp add: TrimSpace_def TrimLeftSpace_def dropWhile_idem)

section \<open>Package path/filepath (Unix)\<close>

definition slash :: char where "slash = CHR ''/''"

text \<open>\<open>Ext\<close>: the suffix from the last dot of the last path element, empty without one.\<close>

fun extRev :: "string \<Rightarrow> string \<Rightarrow> string" where
  "extRev [] acc = []"
| "extRev (c # cs) acc =
     (if c = slash then [] else if c = CHR ''.'' then c # acc else extRev cs (c # acc))"

definition Ext :: "string \<Rightarrow> string" where
  "Ext path = extRev (rev path) []"

definition Base :: "string \<Rightarrow> string" where
  "Base path =
     (if path = [] then ''.''
      else let p = dropWhile (\<lambda>c. c = slash) (rev path)
           in if p = [] then ''/'' else rev (takeWhile (\<lambda>c. c \<noteq> slash) p))"

fun splitSlash :: "string \<Rightarrow> string list" where
  "splitSlash [] = [[]]"
| "splitSlash (c # cs) =
     (if c = slash then [] # splitSlash cs
      else (case splitSlash cs of [] \<Rightarrow> [[c]] | w # ws \<Rightarrow> (c # w) # ws))"

text \<open>
  \<open>Clean\<close>: drop empty and \<open>.\<close> elements, resolve \<open>..\<close> against the element before it, drop a leading
  \<open>..\<close> of a rooted path. The accumulator holds the kept elements, last first.
\<close>

fun cleanElems :: "bool \<Rightarrow> string list \<Rightarrow> string list \<Rightarrow> string list" where
  "cleanElems rooted [] acc = rev acc"
| "cleanElems rooted (e # es) acc =
     (if e = [] \<or> e = ''.'' then cleanElems rooted es acc
      else if e = ''..'' then
        (case acc of
           [] \<Rightarrow> cleanElems rooted es (if rooted then [] else [e])
         | a # as \<Rightarrow> if a = ''..'' then cleanElems rooted es (e # acc) else cleanElems rooted es as)
      else cleanElems rooted es (e # acc))"

fun joinSlash :: "string list \<Rightarrow> string" where
  "joinSlash [] = []"
| "joinSlash [w] = w"
| "joinSlash (w # ws) = w @ slash # joinSlash ws"

definition Clean :: "string \<Rightarrow> string" where
  "Clean path =
     (let rooted = (case path of c # _ \<Rightarrow> c = slash | [] \<Rightarrow> False);
          body = joinSlash (cleanElems rooted (splitSlash path) [])
      in if rooted then slash # body else if body = [] then ''.'' else body)"

definition filepathJoin :: "string list \<Rightarrow> string" where
  "filepathJoin es =
     (let ne = filter (\<lambda>e. e \<noteq> []) es in if ne = [] then [] else Clean (joinSlash ne))"

text \<open>The extension is a suffix of the path, so that \<open>TrimSuffix\<close> removes exactly it.\<close>

lemma extRev_suffix: "extRev cs acc = [] \<or> (\<exists>r. rev cs @ acc = r @ extRev cs acc)"
proof (induction cs acc rule: extRev.induct)
  case (2 c cs acc)
  then show ?case by auto
qed simp

lemma Ext_suffix: "\<exists>r. path = r @ Ext path"
  using extRev_suffix [of "rev path" "[]"] by (auto simp: Ext_def)

lemma TrimSuffix_Ext: "TrimSuffix path (Ext path) @ Ext path = path"
proof -
  obtain r where "path = r @ Ext path" using Ext_suffix by blast
  then show ?thesis by (metis TrimSuffix_append)
qed

section \<open>Package sort\<close>

text \<open>
  \<open>sort.Slice\<close> is not stable: where keys are equal the order of the result is not specified. The
  model takes the permutation the runtime chooses as a parameter: for a list of keys, the list of
  indices in their new order. What is not a permutation of the indices is no behaviour of
  package \<open>sort\<close> and leaves the slice as it is. The locale states what the package documents: the
  result is ordered.
\<close>

definition sort_slice :: "('k list \<Rightarrow> nat list) \<Rightarrow> ('a \<Rightarrow> 'k) \<Rightarrow> 'a list \<Rightarrow> 'a list" where
  "sort_slice p key xs =
     (let q = p (map key xs)
      in if sort q = [0..<length xs] then map (nth xs) q else xs)"

lemma mset_sort_slice: "mset (sort_slice p key xs) = mset xs"
proof (cases "sort (p (map key xs)) = [0..<length xs]")
  case True
  then have perm: "mset (p (map key xs)) = mset [0..<length xs]" by (metis mset_sort)
  have "mset (sort_slice p key xs) = image_mset (nth xs) (mset (p (map key xs)))"
    using True by (simp add: sort_slice_def)
  also have "\<dots> = mset (map (nth xs) [0..<length xs])"
    using perm by (simp del: mset_upt)
  also have "\<dots> = mset xs" by (simp add: map_nth)
  finally show ?thesis .
qed (simp add: sort_slice_def Let_def)

lemma set_sort_slice [simp]: "set (sort_slice p key xs) = set xs"
  by (metis mset_sort_slice set_mset_mset)

lemma length_sort_slice [simp]: "length (sort_slice p key xs) = length xs"
  by (metis mset_sort_slice size_mset)

lemma distinct_sort_slice [simp]: "distinct (sort_slice p key xs) = distinct xs"
  by (metis mset_sort_slice mset_eq_imp_distinct_iff)

lemma distinct_map_sort_slice [simp]: "distinct (map f (sort_slice p key xs)) = distinct (map f xs)"
  by (metis mset_sort_slice mset_eq_imp_distinct_iff mset_map)

lemma sort_slice_eq_Nil [simp]: "sort_slice p key xs = [] \<longleftrightarrow> xs = []"
  by (metis length_0_conv length_sort_slice)

locale go_sort =
  fixes p :: "'k::linorder list \<Rightarrow> nat list"
  assumes sort_perm: "sort (p ks) = [0..<length ks]"
    and sort_sorted: "sorted (map (nth ks) (p ks))"
begin

lemma sorted_sort_slice: "sorted (map key (sort_slice p key xs))"
proof -
  have perm: "sort (p (map key xs)) = [0..<length xs]"
    using sort_perm [of "map key xs"] by simp
  then have "set (p (map key xs)) = {0..<length xs}"
    by (metis set_sort set_upt)
  with perm have "map key (sort_slice p key xs) = map (nth (map key xs)) (p (map key xs))"
    by (auto simp: sort_slice_def)
  then show ?thesis by (simp add: sort_sorted)
qed

text \<open>The first element of the sorted slice has the least key.\<close>

lemma hd_sort_slice_le:
  assumes "x \<in> set xs"
  shows "key (hd (sort_slice p key xs)) \<le> key x"
proof -
  have "x \<in> set (sort_slice p key xs)" using assms by simp
  then show ?thesis
    using sorted_sort_slice [of key xs] by (cases "sort_slice p key xs") (auto split: if_splits)
qed

end

text \<open>The permutation of a stable sort is one the contract allows.\<close>

definition stable_perm :: "'k::linorder list \<Rightarrow> nat list" where
  "stable_perm ks = sort_key (nth ks) [0..<length ks]"

lemma sort_sort_key_upt: "sort (sort_key f [0..<n]) = [0..<n]"
  by (metis mset_sort properties_for_sort sorted_upt)

interpretation stable: go_sort stable_perm
  by unfold_locales (simp_all add: stable_perm_def sort_sort_key_upt)

section \<open>Lists, association lists, loops\<close>

lemma map_of_AList_update [simp]:
  "map_of (AList.update k v m) = (map_of m)(k \<mapsto> v)"
  by (simp add: update_conv')

lemma map_of_AList_delete [simp]:
  "map_of (AList.delete k m) = (map_of m)(k := None)"
  by (simp add: delete_conv')

lemma distinct_fst_update [simp]:
  "distinct (map fst (AList.update k v m)) = distinct (map fst m)"
proof (induction m)
  case Nil
  then show ?case by simp
next
  case (Cons p m)
  have "fst ` set (AList.update k v m) = insert k (fst ` set m)"
    by (rule dom_update [THEN trans]) simp_all
  with Cons show ?case by auto
qed

end
