(* ===== verification/Models.thy ===== *)
theory Models
  imports Prelude
begin

text \<open>
  The shared data model of package \<open>internal/models\<close>: the normalised inventory
  (\<open>inventory.go\<close>), backup inventory (\<open>backup.go\<close>), tenants, roles and permissions
  (\<open>tenant.go\<close>) and audit events (\<open>audit.go\<close>). A Go struct is a record with the source's fields,
  each under a prefix of its own because the structs share field names; a Go string type with named
  constants (\<open>Platform\<close>, \<open>PowerState\<close>, ...) stays a string, because the code receives such values
  from documents and requests and has to reject the ones it does not know.
\<close>

section \<open>inventory.go\<close>

type_synonym Platform = string

definition PlatformVMware :: Platform where "PlatformVMware = ''vmware''"
definition PlatformProxmox :: Platform where "PlatformProxmox = ''proxmox''"
definition PlatformHyperV :: Platform where "PlatformHyperV = ''hyperv''"
definition PlatformKVM :: Platform where "PlatformKVM = ''kvm''"
definition PlatformNutanix :: Platform where "PlatformNutanix = ''nutanix''"

lemmas platform_defs =
  PlatformVMware_def PlatformProxmox_def PlatformHyperV_def PlatformKVM_def PlatformNutanix_def

definition Platform_Valid :: "Platform \<Rightarrow> bool" where
  "Platform_Valid p =
     (p = PlatformVMware \<or> p = PlatformProxmox \<or> p = PlatformHyperV \<or> p = PlatformKVM
      \<or> p = PlatformNutanix)"

definition SupportedPlatforms :: "Platform list" where
  "SupportedPlatforms =
     [PlatformHyperV, PlatformKVM, PlatformNutanix, PlatformProxmox, PlatformVMware]"

type_synonym PowerState = string

definition PowerOn :: PowerState where "PowerOn = ''on''"
definition PowerOff :: PowerState where "PowerOff = ''off''"
definition PowerSuspend :: PowerState where "PowerSuspend = ''suspended''"
definition PowerUnknown :: PowerState where "PowerUnknown = ''unknown''"

record Disk =
  disk_ID :: string
  disk_Name :: string
  disk_SizeMB :: int
  disk_Thin :: bool
  disk_StorageBackend :: string

record NIC =
  nic_ID :: string
  nic_Name :: string
  nic_MACAddress :: string
  nic_Network :: string
  nic_Connected :: bool
  nic_IPAddresses :: "string list"

record Snapshot =
  snap_ID :: string
  snap_Name :: string
  snap_Description :: string
  snap_CreatedAt :: time
  snap_SizeMB :: int

record NetworkInfo =
  net_ID :: string
  net_Name :: string
  net_Type :: string
  net_VlanID :: int
  net_Switch :: string

record DatastoreInfo =
  ds_ID :: string
  ds_Name :: string
  ds_Type :: string
  ds_CapacityMB :: int
  ds_FreeMB :: int
  ds_Hosts :: "string list"

record HostInfo =
  host_ID :: string
  host_Name :: string
  host_Cluster :: string
  host_CPUCores :: int
  host_MemoryMB :: int
  host_PowerState :: PowerState
  host_ConnectionState :: string

record ClusterInfo =
  cl_ID :: string
  cl_Name :: string
  cl_Hosts :: "string list"
  cl_TotalCPUCores :: int
  cl_TotalMemoryMB :: int
  cl_HAEnabled :: bool
  cl_DRSEnabled :: bool

record ResourcePoolInfo =
  rp_ID :: string
  rp_Name :: string
  rp_Cluster :: string
  rp_CPULimitMHz :: int
  rp_MemoryLimitMB :: int

record VirtualMachine =
  vm_ID :: string
  vm_Name :: string
  vm_Platform :: Platform
  vm_PowerState :: PowerState
  vm_CPUCount :: int
  vm_MemoryMB :: int
  vm_Disks :: "Disk list"
  vm_NICs :: "NIC list"
  vm_GuestOS :: string
  vm_Host :: string
  vm_Cluster :: string
  vm_ResourcePool :: string
  vm_Folder :: string
  vm_Tags :: "(string \<times> string) list"
  vm_Snapshots :: "Snapshot list"
  vm_CreatedAt :: time
  vm_DiscoveredAt :: time
  vm_SourceRef :: string

record DiscoveryResult =
  dr_Source :: string
  dr_Platform :: Platform
  dr_VMs :: "VirtualMachine list"
  dr_Networks :: "NetworkInfo list"
  dr_Datastores :: "DatastoreInfo list"
  dr_Hosts :: "HostInfo list"
  dr_Clusters :: "ClusterInfo list"
  dr_ResourcePools :: "ResourcePoolInfo list"
  dr_DiscoveredAt :: time
  dr_Duration :: duration
  dr_Errors :: "string list"

text \<open>The zero values of the two structs the witnesses build on.\<close>

definition zeroVM :: VirtualMachine where
  "zeroVM = \<lparr>vm_ID = [], vm_Name = [], vm_Platform = [], vm_PowerState = [], vm_CPUCount = 0,
     vm_MemoryMB = 0, vm_Disks = [], vm_NICs = [], vm_GuestOS = [], vm_Host = [], vm_Cluster = [],
     vm_ResourcePool = [], vm_Folder = [], vm_Tags = [], vm_Snapshots = [], vm_CreatedAt = 0,
     vm_DiscoveredAt = 0, vm_SourceRef = []\<rparr>"

definition zeroDR :: DiscoveryResult where
  "zeroDR = \<lparr>dr_Source = [], dr_Platform = [], dr_VMs = [], dr_Networks = [], dr_Datastores = [],
     dr_Hosts = [], dr_Clusters = [], dr_ResourcePools = [], dr_DiscoveredAt = 0, dr_Duration = 0,
     dr_Errors = []\<rparr>"

section \<open>backup.go\<close>

record BackupJob =
  job_ID :: string
  job_Name :: string
  job_Type :: string
  job_Schedule :: string
  job_TargetRepo :: string
  job_RetentionDays :: int
  job_ProtectedVMs :: "string list"
  job_LastRun :: time
  job_LastResult :: string
  job_Enabled :: bool

record RestorePoint =
  rst_ID :: string
  rst_VMID :: string
  rst_VMName :: string
  rst_JobName :: string
  rst_CreatedAt :: time
  rst_SizeMB :: int
  rst_Type :: string

record BackupRepository =
  repo_ID :: string
  repo_Name :: string
  repo_Type :: string
  repo_CapacityMB :: int
  repo_FreeMB :: int
  repo_UsedMB :: int

record BackupDiscoveryResult =
  bdr_Jobs :: "BackupJob list"
  bdr_RestorePoints :: "RestorePoint list"
  bdr_Repositories :: "BackupRepository list"
  bdr_DiscoveredAt :: time
  bdr_Duration :: duration
  bdr_Errors :: "string list"

section \<open>audit.go\<close>

type_synonym AuditOutcome = string

definition AuditOutcomeSuccess :: AuditOutcome where "AuditOutcomeSuccess = ''success''"
definition AuditOutcomeFailure :: AuditOutcome where "AuditOutcomeFailure = ''failure''"

record AuditEvent =
  ae_ID :: string
  ae_TenantID :: string
  ae_Actor :: string
  ae_RequestID :: string
  ae_Category :: string
  ae_Action :: string
  ae_Resource :: string
  ae_Outcome :: AuditOutcome
  ae_Message :: string
  ae_Details :: "(string \<times> string) list"
  ae_CreatedAt :: time

section \<open>tenant.go\<close>

type_synonym TenantPermission = string
type_synonym TenantRole = string

definition TenantPermissionInventoryRead :: TenantPermission where
  "TenantPermissionInventoryRead = ''inventory.read''"
definition TenantPermissionReportsRead :: TenantPermission where
  "TenantPermissionReportsRead = ''reports.read''"
definition TenantPermissionLifecycleRead :: TenantPermission where
  "TenantPermissionLifecycleRead = ''lifecycle.read''"
definition TenantPermissionMigrationManage :: TenantPermission where
  "TenantPermissionMigrationManage = ''migration.manage''"
definition TenantPermissionTenantRead :: TenantPermission where
  "TenantPermissionTenantRead = ''tenant.read''"
definition TenantPermissionTenantManage :: TenantPermission where
  "TenantPermissionTenantManage = ''tenant.manage''"

definition TenantRoleViewer :: TenantRole where "TenantRoleViewer = ''viewer''"
definition TenantRoleOperator :: TenantRole where "TenantRoleOperator = ''operator''"
definition TenantRoleAdmin :: TenantRole where "TenantRoleAdmin = ''admin''"

lemmas permission_defs =
  TenantPermissionInventoryRead_def TenantPermissionReportsRead_def
  TenantPermissionLifecycleRead_def TenantPermissionMigrationManage_def
  TenantPermissionTenantRead_def TenantPermissionTenantManage_def

lemmas role_defs = TenantRoleViewer_def TenantRoleOperator_def TenantRoleAdmin_def

record ServiceAccount =
  sa_ID :: string
  sa_Name :: string
  sa_Description :: string
  sa_APIKey :: string
  sa_APIKeyHash :: string
  sa_Role :: TenantRole
  sa_Active :: bool
  sa_CreatedAt :: time
  sa_LastRotatedAt :: time
  sa_ExpiresAt :: time
  sa_Metadata :: "(string \<times> string) list"
  sa_Permissions :: "TenantPermission list"

record TenantQuota =
  q_RequestsPerMinute :: int
  q_MaxSnapshots :: int
  q_MaxMigrations :: int

record Tenant =
  tn_ID :: string
  tn_Name :: string
  tn_APIKey :: string
  tn_APIKeyHash :: string
  tn_CreatedAt :: time
  tn_Active :: bool
  tn_Settings :: "(string \<times> string) list"
  tn_Quotas :: TenantQuota
  tn_ServiceAccounts :: "ServiceAccount list"

definition tenantRoleRank :: "TenantRole \<Rightarrow> int" where
  "tenantRoleRank role =
     (if role = TenantRoleAdmin then 3
      else if role = TenantRoleOperator then 2
      else if role = TenantRoleViewer then 1
      else 0)"

definition TenantRole_Allows :: "TenantRole \<Rightarrow> TenantRole \<Rightarrow> bool" where
  "TenantRole_Allows r required = (tenantRoleRank required \<le> tenantRoleRank r)"

definition DefaultPermissions :: "TenantRole \<Rightarrow> TenantPermission list" where
  "DefaultPermissions r =
     (if r = TenantRoleAdmin then
        [TenantPermissionInventoryRead, TenantPermissionReportsRead, TenantPermissionLifecycleRead,
         TenantPermissionMigrationManage, TenantPermissionTenantRead, TenantPermissionTenantManage]
      else if r = TenantRoleOperator then
        [TenantPermissionInventoryRead, TenantPermissionReportsRead, TenantPermissionLifecycleRead,
         TenantPermissionMigrationManage, TenantPermissionTenantRead]
      else if r = TenantRoleViewer then
        [TenantPermissionInventoryRead, TenantPermissionReportsRead, TenantPermissionLifecycleRead,
         TenantPermissionTenantRead]
      else [])"

definition TenantPermission_Valid :: "TenantPermission \<Rightarrow> bool" where
  "TenantPermission_Valid p =
     (p = TenantPermissionInventoryRead \<or> p = TenantPermissionReportsRead
      \<or> p = TenantPermissionLifecycleRead \<or> p = TenantPermissionMigrationManage
      \<or> p = TenantPermissionTenantRead \<or> p = TenantPermissionTenantManage)"

definition EffectivePermissions :: "ServiceAccount \<Rightarrow> TenantPermission list" where
  "EffectivePermissions a =
     (if 0 < length (sa_Permissions a)
      then filter TenantPermission_Valid (sa_Permissions a)
      else DefaultPermissions (sa_Role a))"

definition ServiceAccount_Allows :: "ServiceAccount \<Rightarrow> TenantPermission \<Rightarrow> bool" where
  "ServiceAccount_Allows a permission =
     (if \<not> TenantPermission_Valid permission then False
      else list_ex (\<lambda>candidate. candidate = permission) (EffectivePermissions a))"

definition EffectiveRequestsPerMinute :: "TenantQuota \<Rightarrow> int \<Rightarrow> int" where
  "EffectiveRequestsPerMinute q defaultLimit =
     (if 0 < q_RequestsPerMinute q then q_RequestsPerMinute q else defaultLimit)"

section \<open>Roles and permissions\<close>

lemma SupportedPlatforms_set: "set SupportedPlatforms = {p. Platform_Valid p}"
  by (auto simp: SupportedPlatforms_def Platform_Valid_def)

lemma DefaultPermissions_valid: "p \<in> set (DefaultPermissions r) \<Longrightarrow> TenantPermission_Valid p"
  by (auto simp: DefaultPermissions_def TenantPermission_Valid_def split: if_splits)

lemma EffectivePermissions_valid:
  "p \<in> set (EffectivePermissions a) \<Longrightarrow> TenantPermission_Valid p"
  by (auto simp: EffectivePermissions_def intro: DefaultPermissions_valid split: if_splits)

lemma ServiceAccount_Allows_iff:
  "ServiceAccount_Allows a p \<longleftrightarrow> p \<in> set (EffectivePermissions a)"
  using EffectivePermissions_valid [of p a]
  by (auto simp: ServiceAccount_Allows_def list_ex_iff)

text \<open>The four ranks the role order distinguishes.\<close>

lemma tenantRoleRank_cases:
  obtains (admin) "r = TenantRoleAdmin" "tenantRoleRank r = 3"
  | (operator) "r = TenantRoleOperator" "tenantRoleRank r = 2"
  | (viewer) "r = TenantRoleViewer" "tenantRoleRank r = 1"
  | (other) "tenantRoleRank r = 0" "DefaultPermissions r = []"
proof -
  consider "r = TenantRoleAdmin" | "r = TenantRoleOperator" | "r = TenantRoleViewer"
    | "r \<notin> {TenantRoleAdmin, TenantRoleOperator, TenantRoleViewer}"
    by blast
  then show thesis
  proof cases
    case 4
    then show ?thesis by (intro other) (simp_all add: tenantRoleRank_def DefaultPermissions_def)
  qed (simp_all add: that tenantRoleRank_def role_defs)
qed

lemma DefaultPermissions_mono:
  assumes "tenantRoleRank lo \<le> tenantRoleRank hi"
  shows "set (DefaultPermissions lo) \<subseteq> set (DefaultPermissions hi)"
  using assms
  by (cases lo rule: tenantRoleRank_cases; cases hi rule: tenantRoleRank_cases)
     (auto simp: DefaultPermissions_def role_defs)

end
