(* ===== verification/MigrationSpec.thy ===== *)
theory MigrationSpec
  imports Models
begin

text \<open>
  The declarative migration specification, \<open>internal/migrate/spec.go\<close>: its data, the approval gate,
  \<open>ValidateSpec\<close> and \<open>ParseSpec\<close>.

  Reading the document and decoding the YAML (\<open>os.ReadFile\<close>, \<open>yaml.Unmarshal\<close>) is a parameter of
  \<open>ParseSpec\<close>. The pattern engines are parameters too: \<open>regexpCompile\<close> is \<open>regexp.Compile\<close> followed
  by \<open>MatchString\<close>, \<open>filepathMatch\<close> is \<open>filepath.Match\<close> with the pattern first.
\<close>

record patternLib =
  regexpCompile :: "string \<Rightarrow> goerror + (string \<Rightarrow> bool)"
  filepathMatch :: "string \<Rightarrow> string \<Rightarrow> goerror + bool"

section \<open>Data\<close>

record SourceSpec =
  src_Address :: string
  src_Platform :: Platform
  src_CredentialRef :: string

record TargetSpec =
  tgt_Address :: string
  tgt_Platform :: Platform
  tgt_CredentialRef :: string
  tgt_DefaultHost :: string
  tgt_DefaultStorage :: string

record MatchCriteria =
  mc_NamePattern :: string
  mc_Tags :: "(string \<times> string) list"
  mc_Folder :: string
  mc_PowerState :: PowerState
  mc_Exclude :: "string list"

record WorkloadOverrides =
  wo_TargetHost :: string
  wo_TargetStorage :: string
  wo_NetworkMap :: "(string \<times> string) list"
  wo_StorageMap :: "(string \<times> string) list"
  wo_Dependencies :: "string list"

record WorkloadSelector =
  ws_Match :: MatchCriteria
  ws_Overrides :: WorkloadOverrides

record ExecutionWindow =
  win_NotBefore :: time
  win_NotAfter :: time

record ApprovalGate =
  ag_Required :: bool
  ag_ApprovedBy :: string
  ag_ApprovedAt :: time
  ag_Ticket :: string

definition Approved :: "ApprovalGate \<Rightarrow> bool" where
  "Approved a = (\<not> ag_Required a \<or> TrimSpace (ag_ApprovedBy a) \<noteq> [])"

record WaveStrategy =
  wv_Size :: int
  wv_DependencyAware :: bool

record MigrationOptions =
  opt_DryRun :: bool
  opt_Parallel :: int
  opt_ShutdownSource :: bool
  opt_RemoveSource :: bool
  opt_VerifyBoot :: bool
  opt_Window :: ExecutionWindow
  opt_Approval :: ApprovalGate
  opt_Waves :: WaveStrategy

record MigrationSpec =
  spec_Name :: string
  spec_Source :: SourceSpec
  spec_Target :: TargetSpec
  spec_Workloads :: "WorkloadSelector list"
  spec_Options :: MigrationOptions

section \<open>Validation\<close>

definition validPlatform :: "Platform \<Rightarrow> bool" where
  "validPlatform p =
     (p = PlatformVMware \<or> p = PlatformProxmox \<or> p = PlatformHyperV \<or> p = PlatformKVM
      \<or> p = PlatformNutanix)"

definition validPowerState :: "PowerState \<Rightarrow> bool" where
  "validPowerState s = (s = PowerOn \<or> s = PowerOff \<or> s = PowerSuspend \<or> s = PowerUnknown)"

definition regexPrefix :: string where "regexPrefix = ''regex:''"

text \<open>The body of the loop over \<open>spec.Workloads\<close>: the errors one selector contributes.\<close>

definition validateSelector :: "patternLib \<Rightarrow> nat \<Rightarrow> WorkloadSelector \<Rightarrow> goerror list" where
  "validateSelector lib idx selector =
     (let m = ws_Match selector; o' = ws_Overrides selector; i = itoa idx in
      (if mc_NamePattern m = [] \<and> length (mc_Tags m) = 0 \<and> mc_Folder m = [] \<and> mc_PowerState m = []
       then [Errorf ''workloads[%d] requires at least one match criterion'' [i]] else [])
      @ (if mc_PowerState m \<noteq> [] \<and> \<not> validPowerState (mc_PowerState m)
         then [Errorf ''workloads[%d].match.power_state %q is invalid'' [i, mc_PowerState m]]
         else [])
      @ (if mc_NamePattern m \<noteq> [] then
           (if HasPrefix (mc_NamePattern m) regexPrefix then
              (case regexpCompile lib (TrimPrefix (mc_NamePattern m) regexPrefix) of
                 Inl err \<Rightarrow>
                   [Wrap ''workloads[%d].match.name_pattern regex is invalid: %w'' [i] err]
               | Inr _ \<Rightarrow> [])
            else
              (case filepathMatch lib (mc_NamePattern m) ''sample'' of
                 Inl err \<Rightarrow>
                   [Wrap ''workloads[%d].match.name_pattern glob is invalid: %w'' [i] err]
               | Inr _ \<Rightarrow> []))
         else [])
      @ (if list_ex (\<lambda>excluded. excluded = []) (mc_Exclude m)
         then [Errorf ''workloads[%d].match.exclude contains an empty pattern'' [i]] else [])
      @ (if list_ex (\<lambda>dependency. TrimSpace dependency = []) (wo_Dependencies o')
         then [Errorf ''workloads[%d].overrides.dependencies contains an empty dependency'' [i]]
         else []))"

fun validateSelectors :: "patternLib \<Rightarrow> nat \<Rightarrow> WorkloadSelector list \<Rightarrow> goerror list" where
  "validateSelectors lib idx [] = []"
| "validateSelectors lib idx (s # ss) =
     validateSelector lib idx s @ validateSelectors lib (Suc idx) ss"

definition ValidateSpec :: "patternLib \<Rightarrow> MigrationSpec option \<Rightarrow> goerror list" where
  "ValidateSpec lib ospec =
     (case ospec of
        None \<Rightarrow> [Errorf ''spec is nil'' []]
      | Some spec \<Rightarrow>
          (let opts = spec_Options spec; window = opt_Window opts; approval = opt_Approval opts in
           (if TrimSpace (spec_Name spec) = [] then [Errorf ''name is required'' []] else [])
           @ (if TrimSpace (src_Address (spec_Source spec)) = []
              then [Errorf ''source.address is required'' []] else [])
           @ (if \<not> validPlatform (src_Platform (spec_Source spec))
              then [Errorf ''source.platform %q is invalid'' [src_Platform (spec_Source spec)]]
              else [])
           @ (if TrimSpace (tgt_Address (spec_Target spec)) = []
              then [Errorf ''target.address is required'' []] else [])
           @ (if \<not> validPlatform (tgt_Platform (spec_Target spec))
              then [Errorf ''target.platform %q is invalid'' [tgt_Platform (spec_Target spec)]]
              else [])
           @ (if length (spec_Workloads spec) = 0
              then [Errorf ''at least one workload selector is required'' []] else [])
           @ (if opt_Parallel opts < 1
              then [Errorf ''options.parallel must be at least 1'' []] else [])
           @ (if wv_Size (opt_Waves opts) < 1
              then [Errorf ''options.waves.size must be at least 1'' []] else [])
           @ (if \<not> isZero (win_NotBefore window) \<and> \<not> isZero (win_NotAfter window)
                 \<and> win_NotAfter window < win_NotBefore window
              then [Errorf ''options.window.not_after must be after options.window.not_before'' []]
              else [])
           @ (if isZero (ag_ApprovedAt approval) \<noteq> (TrimSpace (ag_ApprovedBy approval) = [])
              then [Errorf ''options.approval.approved_by and options.approval.approved_at must be set together'' []]
              else [])
           @ validateSelectors lib 0 (spec_Workloads spec)))"

text \<open>
  \<open>ParseSpec\<close>: the parameter \<open>readSpec\<close> reads and decodes the document at the path; then the
  defaults are filled in, in the source's order (the wave size falls back to the parallelism already
  normalised), and the result is validated.
\<close>

definition normalizeSpec :: "string \<Rightarrow> MigrationSpec \<Rightarrow> MigrationSpec" where
  "normalizeSpec path spec0 =
     (let spec1 = (if opt_Parallel (spec_Options spec0) \<le> 0
                   then spec0\<lparr>spec_Options := (spec_Options spec0)\<lparr>opt_Parallel := 1\<rparr>\<rparr>
                   else spec0);
          opts = spec_Options spec1;
          spec2 = (if wv_Size (opt_Waves opts) \<le> 0
                   then spec1\<lparr>spec_Options := opts\<lparr>opt_Waves :=
                          (opt_Waves opts)\<lparr>wv_Size := opt_Parallel opts\<rparr>\<rparr>\<rparr>
                   else spec1)
      in if spec_Name spec2 = [] then spec2\<lparr>spec_Name := TrimSuffix (Base path) (Ext path)\<rparr>
         else spec2)"

definition ParseSpec ::
  "patternLib \<Rightarrow> (string \<Rightarrow> goerror + MigrationSpec) \<Rightarrow> string \<Rightarrow> goerror + MigrationSpec" where
  "ParseSpec lib readSpec path =
     (case readSpec path of
        Inl err \<Rightarrow> Inl err
      | Inr spec0 \<Rightarrow>
          (let spec = normalizeSpec path spec0; errs = ValidateSpec lib (Some spec) in
           if 0 < length errs
           then Inl (Wrap ''parse spec: validation failed: %s'' [] (ErrJoin errs))
           else Inr spec))"

section \<open>What validation accepts\<close>

text \<open>The declarative reading of the checks: what a selector and a specification must satisfy.\<close>

definition selector_ok :: "patternLib \<Rightarrow> WorkloadSelector \<Rightarrow> bool" where
  "selector_ok lib s =
     (let m = ws_Match s in
      (mc_NamePattern m \<noteq> [] \<or> mc_Tags m \<noteq> [] \<or> mc_Folder m \<noteq> [] \<or> mc_PowerState m \<noteq> [])
      \<and> (mc_PowerState m = [] \<or> validPowerState (mc_PowerState m))
      \<and> (mc_NamePattern m = []
         \<or> (if HasPrefix (mc_NamePattern m) regexPrefix
            then \<exists>f. regexpCompile lib (TrimPrefix (mc_NamePattern m) regexPrefix) = Inr f
            else \<exists>b. filepathMatch lib (mc_NamePattern m) ''sample'' = Inr b))
      \<and> [] \<notin> set (mc_Exclude m)
      \<and> (\<forall>d \<in> set (wo_Dependencies (ws_Overrides s)). TrimSpace d \<noteq> []))"

definition spec_ok :: "patternLib \<Rightarrow> MigrationSpec \<Rightarrow> bool" where
  "spec_ok lib spec =
     (let opts = spec_Options spec; window = opt_Window opts; approval = opt_Approval opts in
      TrimSpace (spec_Name spec) \<noteq> []
      \<and> TrimSpace (src_Address (spec_Source spec)) \<noteq> []
      \<and> Platform_Valid (src_Platform (spec_Source spec))
      \<and> TrimSpace (tgt_Address (spec_Target spec)) \<noteq> []
      \<and> Platform_Valid (tgt_Platform (spec_Target spec))
      \<and> spec_Workloads spec \<noteq> []
      \<and> 1 \<le> opt_Parallel opts \<and> 1 \<le> wv_Size (opt_Waves opts)
      \<and> (win_NotBefore window = 0 \<or> win_NotAfter window = 0
         \<or> win_NotBefore window \<le> win_NotAfter window)
      \<and> (ag_ApprovedAt approval = 0 \<longleftrightarrow> TrimSpace (ag_ApprovedBy approval) = [])
      \<and> (\<forall>s \<in> set (spec_Workloads spec). selector_ok lib s))"

lemma validPlatform_eq: "validPlatform p = Platform_Valid p"
  by (simp add: validPlatform_def Platform_Valid_def)

lemma validateSelector_Nil: "validateSelector lib idx s = [] \<longleftrightarrow> selector_ok lib s"
  by (auto simp: validateSelector_def selector_ok_def Let_def list_ex_iff
      split: sum.splits if_splits)

lemma validateSelectors_Nil:
  "validateSelectors lib idx ss = [] \<longleftrightarrow> (\<forall>s \<in> set ss. selector_ok lib s)"
  by (induction ss arbitrary: idx) (auto simp: validateSelector_Nil)

lemma ValidateSpec_Nil: "ValidateSpec lib (Some spec) = [] \<longleftrightarrow> spec_ok lib spec"
  by (auto simp: ValidateSpec_def spec_ok_def Let_def validateSelectors_Nil validPlatform_eq)

lemma normalizeSpec_sizes:
  "1 \<le> opt_Parallel (spec_Options (normalizeSpec path spec))"
  "1 \<le> wv_Size (opt_Waves (spec_Options (normalizeSpec path spec)))"
  by (auto simp: normalizeSpec_def Let_def)

lemma normalizeSpec_id:
  assumes "1 \<le> opt_Parallel (spec_Options spec)" "1 \<le> wv_Size (opt_Waves (spec_Options spec))"
    and "spec_Name spec \<noteq> []"
  shows "normalizeSpec path spec = spec"
  using assms by (auto simp: normalizeSpec_def Let_def)

lemma spec_ok_normal:
  "spec_ok lib spec \<Longrightarrow> normalizeSpec path spec = spec"
  by (rule normalizeSpec_id) (auto simp: spec_ok_def Let_def)

text \<open>
  Parsing succeeds exactly when the document can be read and the specification
  with its defaults filled in satisfies the declarative conditions, and the result is that
  specification; a specification that parsed is parsed again to itself.
\<close>

theorem parse_spec_exact:
  "(ParseSpec lib readSpec path = Inr spec \<longleftrightarrow>
      (\<exists>spec0. readSpec path = Inr spec0 \<and> spec = normalizeSpec path spec0 \<and> spec_ok lib spec))
   \<and> (ParseSpec lib readSpec path = Inr spec \<longrightarrow> ParseSpec lib (\<lambda>_. Inr spec) path' = Inr spec)"
  by (auto simp: ParseSpec_def Let_def ValidateSpec_Nil spec_ok_normal split: sum.splits)

end
