(* ===== verification/MigrationData.thy ===== *)
theory MigrationData
  imports MigrationSpec
begin

text \<open>
  The persisted data of a migration: the phases and per-workload progress of
  \<open>internal/migrate/orchestrator.go\<close> and the plan, wave and checkpoint structs of
  \<open>internal/migrate/plan.go\<close>.
\<close>

text \<open>\<open>PhaseUnset\<close> is the zero value of the type, the empty string.\<close>

datatype MigrationPhase =
    PhasePlan | PhaseExport | PhaseConvert | PhaseImport | PhaseConfigure | PhaseVerify
  | PhaseComplete | PhaseFailed | PhaseRolledBack | PhaseUnset

fun phaseString :: "MigrationPhase \<Rightarrow> string" where
  "phaseString PhasePlan = ''plan''"
| "phaseString PhaseExport = ''export''"
| "phaseString PhaseConvert = ''convert''"
| "phaseString PhaseImport = ''import''"
| "phaseString PhaseConfigure = ''configure''"
| "phaseString PhaseVerify = ''verify''"
| "phaseString PhaseComplete = ''complete''"
| "phaseString PhaseFailed = ''failed''"
| "phaseString PhaseRolledBack = ''rolled_back''"
| "phaseString PhaseUnset = []"

lemma phaseString_inject: "phaseString p = phaseString q \<longleftrightarrow> p = q"
  by (cases p; cases q) simp_all

datatype CheckpointStatus =
    CheckpointPending | CheckpointRunning | CheckpointCompleted | CheckpointFailed

record PlannedWorkload =
  pw_VMID :: string
  pw_Name :: string
  pw_Dependencies :: "string list"
  pw_TargetHost :: string
  pw_TargetStorage :: string
  pw_NetworkMap :: "(string \<times> string) list"

record MigrationWave =
  wave_Index :: int
  wave_Reason :: string
  wave_Workloads :: "PlannedWorkload list"
  wave_Dependency :: bool

record MigrationPlan =
  plan_GeneratedAt :: time
  plan_TotalWorkloads :: int
  plan_Window :: ExecutionWindow
  plan_RequiresApproval :: bool
  plan_ApprovalSatisfied :: bool
  plan_WaveStrategy :: WaveStrategy
  plan_Waves :: "MigrationWave list"

record MigrationCheckpoint =
  cp_Phase :: MigrationPhase
  cp_Status :: CheckpointStatus
  cp_StartedAt :: time
  cp_CompletedAt :: time
  cp_Message :: "goerror option"
  cp_Diagnostics :: "goerror list"

text \<open>
  A checkpoint message is either a fixed text or the text of an error; both are kept as an error
  value, the fixed text \<open>s\<close> as \<open>Errorf s []\<close>, the empty message as \<open>None\<close>.
\<close>

record WorkloadMigration =
  wm_VM :: VirtualMachine
  wm_Phase :: MigrationPhase
  wm_SourceDiskPaths :: "string list"
  wm_ConvertedDiskPaths :: "string list"
  wm_TargetVMID :: string
  wm_NetworkMappings :: "(string \<times> string) list"
  wm_Error :: "goerror option"

record MigrationState =
  ms_ID :: string
  ms_SpecName :: string
  ms_SourceAddress :: string
  ms_SourcePlatform :: Platform
  ms_TargetAddress :: string
  ms_TargetPlatform :: Platform
  ms_Phase :: MigrationPhase
  ms_Workloads :: "WorkloadMigration list"
  ms_Plan :: "MigrationPlan option"
  ms_Checkpoints :: "MigrationCheckpoint list"
  ms_Window :: ExecutionWindow
  ms_Approval :: ApprovalGate
  ms_PendingApproval :: bool
  ms_StartedAt :: time
  ms_UpdatedAt :: time
  ms_CompletedAt :: time
  ms_Errors :: "goerror list"

record MigrationEvent =
  ev_Timestamp :: time
  ev_Phase :: MigrationPhase
  ev_VM :: string
  ev_Message :: string
  ev_Progress :: int

end
