(* ===== verification/Matcher.thy ===== *)
theory Matcher
  imports MigrationData "HOL-Library.Sublist"
begin

text \<open>
  Workload selection, \<open>internal/migrate/matcher.go\<close>: which virtual machines a migration covers and
  which overrides apply to each. The lemmas show that both entry points select the same machines
  (the ones some selector matches, one per key) and that overrides merge with later selectors
  winning.
\<close>

section \<open>Matching\<close>

definition matchGlob :: "patternLib \<Rightarrow> string \<Rightarrow> string \<Rightarrow> bool" where
  "matchGlob lib name pattern =
     (if pattern = [] then True
      else case filepathMatch lib pattern name of Inl _ \<Rightarrow> False | Inr matched \<Rightarrow> matched)"

definition matchPattern :: "patternLib \<Rightarrow> string \<Rightarrow> string \<Rightarrow> bool" where
  "matchPattern lib name pattern =
     (if HasPrefix pattern regexPrefix then
        (case regexpCompile lib (TrimPrefix pattern regexPrefix) of
           Inl _ \<Rightarrow> False
         | Inr matchString \<Rightarrow> matchString name)
      else matchGlob lib name pattern)"

definition matchTags :: "(string \<times> string) list \<Rightarrow> (string \<times> string) list \<Rightarrow> bool" where
  "matchTags vmTags selectorTags =
     (if length selectorTags = 0 then True
      else if length vmTags = 0 then False
      else list_all (\<lambda>(key, value). map_of vmTags key = Some value) selectorTags)"

definition selectorMatches :: "patternLib \<Rightarrow> VirtualMachine \<Rightarrow> WorkloadSelector \<Rightarrow> bool" where
  "selectorMatches lib vm selector =
     (let m = ws_Match selector in
      if list_ex (\<lambda>pattern. matchPattern lib (vm_Name vm) pattern) (mc_Exclude m) then False
      else if mc_NamePattern m \<noteq> [] \<and> \<not> matchPattern lib (vm_Name vm) (mc_NamePattern m) then False
      else if \<not> matchTags (vm_Tags vm) (mc_Tags m) then False
      else if mc_Folder m \<noteq> [] \<and> \<not> EqualFold (vm_Folder vm) (mc_Folder m) then False
      else if mc_PowerState m \<noteq> [] \<and> vm_PowerState vm \<noteq> mc_PowerState m then False
      else True)"

definition matchesAnySelector :: "patternLib \<Rightarrow> VirtualMachine \<Rightarrow> WorkloadSelector list \<Rightarrow> bool" where
  "matchesAnySelector lib vm selectors = list_ex (\<lambda>s. selectorMatches lib vm s) selectors"

text \<open>The key both selection loops use to drop duplicates: the ID, or the name when it is empty.\<close>

definition matchKey :: "VirtualMachine \<Rightarrow> string" where
  "matchKey vm = (if vm_ID vm = [] then vm_Name vm else vm_ID vm)"

fun matchLoop ::
  "patternLib \<Rightarrow> WorkloadSelector list \<Rightarrow> VirtualMachine list \<Rightarrow> string list \<Rightarrow> VirtualMachine list"
where
  "matchLoop lib selectors [] seen = []"
| "matchLoop lib selectors (vm # vms) seen =
     (if \<not> matchesAnySelector lib vm selectors then matchLoop lib selectors vms seen
      else if matchKey vm \<in> set seen then matchLoop lib selectors vms seen
      else vm # matchLoop lib selectors vms (matchKey vm # seen))"

definition MatchWorkloads ::
  "patternLib \<Rightarrow> VirtualMachine list \<Rightarrow> WorkloadSelector list \<Rightarrow> VirtualMachine list" where
  "MatchWorkloads lib vms selectors = matchLoop lib selectors vms []"

section \<open>Overrides\<close>

definition copyStringMap :: "(string \<times> string) list \<Rightarrow> (string \<times> string) list" where
  "copyStringMap input =
     (if length input = 0 then [] else fold (\<lambda>(key, value). AList.update key value) input [])"

definition containsString :: "string list \<Rightarrow> string \<Rightarrow> bool" where
  "containsString items value = list_ex (\<lambda>item. item = value) items"

definition mergeStringMap ::
  "(string \<times> string) list \<Rightarrow> (string \<times> string) list \<Rightarrow> (string \<times> string) list" where
  "mergeStringMap into from = fold (\<lambda>(key, value). AList.update key value) from into"

definition addDependency :: "string \<Rightarrow> string list \<Rightarrow> string list" where
  "addDependency dependency deps =
     (if dependency = [] then deps
      else if \<not> containsString deps dependency then deps @ [dependency] else deps)"

definition emptyOverrides :: WorkloadOverrides where
  "emptyOverrides = \<lparr>wo_TargetHost = [], wo_TargetStorage = [], wo_NetworkMap = [],
     wo_StorageMap = [], wo_Dependencies = []\<rparr>"

definition mergeOverride :: "WorkloadOverrides \<Rightarrow> WorkloadOverrides \<Rightarrow> WorkloadOverrides" where
  "mergeOverride acc o' =
     \<lparr>wo_TargetHost = (if wo_TargetHost o' \<noteq> [] then wo_TargetHost o' else wo_TargetHost acc),
      wo_TargetStorage =
        (if wo_TargetStorage o' \<noteq> [] then wo_TargetStorage o' else wo_TargetStorage acc),
      wo_NetworkMap = mergeStringMap (wo_NetworkMap acc) (wo_NetworkMap o'),
      wo_StorageMap = mergeStringMap (wo_StorageMap acc) (wo_StorageMap o'),
      wo_Dependencies = fold addDependency (wo_Dependencies o') (wo_Dependencies acc)\<rparr>"

fun mergeLoop ::
  "patternLib \<Rightarrow> VirtualMachine \<Rightarrow> WorkloadSelector list \<Rightarrow> WorkloadOverrides \<Rightarrow> bool
   \<Rightarrow> WorkloadOverrides \<times> bool" where
  "mergeLoop lib vm [] acc matched = (acc, matched)"
| "mergeLoop lib vm (s # ss) acc matched =
     (if \<not> selectorMatches lib vm s then mergeLoop lib vm ss acc matched
      else mergeLoop lib vm ss (mergeOverride acc (ws_Overrides s)) True)"

definition mergedOverridesForVM ::
  "patternLib \<Rightarrow> VirtualMachine \<Rightarrow> WorkloadSelector list \<Rightarrow> WorkloadOverrides \<times> bool" where
  "mergedOverridesForVM lib vm selectors = mergeLoop lib vm selectors emptyOverrides False"

definition newWorkload :: "VirtualMachine \<Rightarrow> WorkloadOverrides \<Rightarrow> WorkloadMigration" where
  "newWorkload vm overrides =
     \<lparr>wm_VM = vm, wm_Phase = PhasePlan, wm_SourceDiskPaths = [], wm_ConvertedDiskPaths = [],
      wm_TargetVMID = [], wm_NetworkMappings = copyStringMap (wo_NetworkMap overrides),
      wm_Error = None\<rparr>"

fun buildLoop ::
  "patternLib \<Rightarrow> WorkloadSelector list \<Rightarrow> VirtualMachine list \<Rightarrow> string list
   \<Rightarrow> WorkloadMigration list" where
  "buildLoop lib selectors [] seen = []"
| "buildLoop lib selectors (vm # vms) seen =
     (case mergedOverridesForVM lib vm selectors of (overrides, ok) \<Rightarrow>
        if \<not> ok then buildLoop lib selectors vms seen
        else if matchKey vm \<in> set seen then buildLoop lib selectors vms seen
        else newWorkload vm overrides # buildLoop lib selectors vms (matchKey vm # seen))"

definition buildWorkloadMigrations ::
  "patternLib \<Rightarrow> VirtualMachine list \<Rightarrow> WorkloadSelector list \<Rightarrow> WorkloadMigration list" where
  "buildWorkloadMigrations lib vms selectors = buildLoop lib selectors vms []"

section \<open>Selection\<close>

lemma matchesAnySelector_iff:
  "matchesAnySelector lib vm selectors \<longleftrightarrow> (\<exists>s \<in> set selectors. selectorMatches lib vm s)"
  by (simp add: matchesAnySelector_def list_ex_iff)

lemma matchLoop_subseq_set:
  "set (matchLoop lib ss vms seen)
     \<subseteq> {vm \<in> set vms. matchesAnySelector lib vm ss \<and> matchKey vm \<notin> set seen}"
proof (induction vms arbitrary: seen)
  case (Cons v vms)
  show ?case
    using Cons [of seen] Cons [of "matchKey v # seen"] by auto
qed simp

lemma matchLoop_distinct: "distinct (map matchKey (matchLoop lib ss vms seen))"
proof (induction vms arbitrary: seen)
  case (Cons vm vms)
  have "matchKey vm \<notin> matchKey ` set (matchLoop lib ss vms (matchKey vm # seen))"
    using matchLoop_subseq_set [of lib ss vms "matchKey vm # seen"] by auto
  with Cons show ?case by simp
qed simp

lemma matchLoop_complete:
  "vm \<in> set vms \<Longrightarrow> matchesAnySelector lib vm ss \<Longrightarrow>
     matchKey vm \<in> set seen \<union> matchKey ` set (matchLoop lib ss vms seen)"
proof (induction vms arbitrary: seen)
  case (Cons v vms)
  show ?case
  proof (cases "v = vm")
    case True
    with Cons.prems show ?thesis by auto
  next
    case False
    with Cons.prems have "vm \<in> set vms" by simp
    from Cons.IH [OF this Cons.prems(2), of seen] Cons.IH [OF this Cons.prems(2), of "matchKey v # seen"]
    show ?thesis by auto
  qed
qed simp

lemma mergeLoop_matched:
  "snd (mergeLoop lib vm ss acc matched) \<longleftrightarrow> matched \<or> matchesAnySelector lib vm ss"
  by (induction ss arbitrary: acc matched) (auto simp: matchesAnySelector_def)

lemma mergedOverrides_matched:
  "snd (mergedOverridesForVM lib vm ss) \<longleftrightarrow> matchesAnySelector lib vm ss"
  by (simp add: mergedOverridesForVM_def mergeLoop_matched)

text \<open>The two loops select the same machines in the same order.\<close>

lemma buildLoop_vms: "map wm_VM (buildLoop lib ss vms seen) = matchLoop lib ss vms seen"
proof (induction vms arbitrary: seen)
  case (Cons vm vms)
  show ?case
    using Cons mergedOverrides_matched [of lib vm ss]
    by (cases "mergedOverridesForVM lib vm ss") (auto simp: newWorkload_def)
qed simp

section \<open>Merging\<close>

lemma map_of_mergeStringMap:
  "distinct (map fst from) \<Longrightarrow> map_of (mergeStringMap into from) = map_of into ++ map_of from"
proof (induction "from" arbitrary: into)
  case (Cons kv "from")
  obtain k v where kv: "kv = (k, v)" by (cases kv)
  have "map_of (mergeStringMap into (kv # from))
          = (map_of into)(k \<mapsto> v) ++ map_of from"
    using Cons by (simp add: mergeStringMap_def kv)
  also have "\<dots> = map_of into ++ map_of (kv # from)"
    using Cons.prems kv by (simp add: map_add_upd_left dom_map_of_conv_image_fst)
  finally show ?case .
qed (simp add: mergeStringMap_def)

lemma copyStringMap_merge: "copyStringMap m = mergeStringMap [] m"
  by (simp add: copyStringMap_def mergeStringMap_def)

lemma map_of_copyStringMap:
  "distinct (map fst m) \<Longrightarrow> map_of (copyStringMap m) = map_of m"
  by (simp add: copyStringMap_merge map_of_mergeStringMap)

lemma distinct_mergeStringMap:
  "distinct (map fst into) \<Longrightarrow> distinct (map fst (mergeStringMap into from))"
  unfolding mergeStringMap_def
  by (induction "from" arbitrary: into) (auto split: prod.split)

lemma set_fold_addDependency:
  "set (fold addDependency ds deps) = set deps \<union> (set ds - {[]})"
  by (induction ds arbitrary: deps) (auto simp: addDependency_def containsString_def list_ex_iff)

lemma distinct_fold_addDependency:
  "distinct deps \<Longrightarrow> distinct (fold addDependency ds deps)"
  by (induction ds arbitrary: deps) (auto simp: addDependency_def containsString_def list_ex_iff)

text \<open>The matching selectors of a machine, in order, and the merge as a fold over them.\<close>

definition matchingOverrides ::
  "patternLib \<Rightarrow> VirtualMachine \<Rightarrow> WorkloadSelector list \<Rightarrow> WorkloadOverrides list" where
  "matchingOverrides lib vm ss = map ws_Overrides (filter (selectorMatches lib vm) ss)"

lemma mergeLoop_fold:
  "fst (mergeLoop lib vm ss acc matched) = fold (\<lambda>o' a. mergeOverride a o') (matchingOverrides lib vm ss) acc"
  by (induction ss arbitrary: acc matched) (auto simp: matchingOverrides_def)

lemma fold_mergeOverride_deps:
  "set (wo_Dependencies (fold (\<lambda>o' a. mergeOverride a o') os acc))
     = set (wo_Dependencies acc) \<union> (\<Union>o' \<in> set os. set (wo_Dependencies o') - {[]})"
  by (induction os arbitrary: acc) (auto simp: mergeOverride_def set_fold_addDependency)

lemma fold_mergeOverride_distinct:
  "distinct (wo_Dependencies acc) \<Longrightarrow> distinct (wo_Dependencies (fold (\<lambda>o' a. mergeOverride a o') os acc))"
  by (induction os arbitrary: acc) (auto simp: mergeOverride_def distinct_fold_addDependency)

lemma fold_mergeOverride_network:
  "\<forall>o' \<in> set os. distinct (map fst (wo_NetworkMap o')) \<Longrightarrow>
   map_of (wo_NetworkMap (fold (\<lambda>o' a. mergeOverride a o') os acc))
     = foldl (++) (map_of (wo_NetworkMap acc)) (map (\<lambda>o'. map_of (wo_NetworkMap o')) os)"
  by (induction os arbitrary: acc) (auto simp: mergeOverride_def map_of_mergeStringMap)

lemma fold_mergeOverride_host:
  "wo_TargetHost (fold (\<lambda>o' a. mergeOverride a o') os acc)
     = last (wo_TargetHost acc # filter (\<lambda>h. h \<noteq> []) (map wo_TargetHost os))"
  by (induction os arbitrary: acc) (auto simp: mergeOverride_def)

lemma fold_mergeOverride_storage:
  "wo_TargetStorage (fold (\<lambda>o' a. mergeOverride a o') os acc)
     = last (wo_TargetStorage acc # filter (\<lambda>h. h \<noteq> []) (map wo_TargetStorage os))"
  by (induction os arbitrary: acc) (auto simp: mergeOverride_def)

lemma matchLoop_subseq: "subseq (matchLoop lib ss vms seen) vms"
  by (induction vms arbitrary: seen) auto

text \<open>
  The machines selected for a migration are a subsequence of the inventory,
  each matched by some selector and each key once; every machine a selector matches is represented by
  its key; and the workloads built for execution are for the same machines in the same order.
\<close>

theorem match_workloads_exact:
  "subseq (MatchWorkloads lib vms ss) vms
   \<and> (\<forall>vm \<in> set (MatchWorkloads lib vms ss). \<exists>s \<in> set ss. selectorMatches lib vm s)
   \<and> distinct (map matchKey (MatchWorkloads lib vms ss))
   \<and> (\<forall>vm \<in> set vms. \<forall>s \<in> set ss. selectorMatches lib vm s \<longrightarrow>
        matchKey vm \<in> matchKey ` set (MatchWorkloads lib vms ss))
   \<and> map wm_VM (buildWorkloadMigrations lib vms ss) = MatchWorkloads lib vms ss"
proof -
  have "matchKey vm \<in> matchKey ` set (matchLoop lib ss vms [])" if "vm \<in> set vms" "s \<in> set ss" "selectorMatches lib vm s" for vm s
    using matchLoop_complete [OF that(1), of lib ss "[]"] that(2,3) by (auto simp: matchesAnySelector_iff)
  then show ?thesis
    using matchLoop_subseq_set [of lib ss vms "[]"]
    by (auto simp: MatchWorkloads_def buildWorkloadMigrations_def matchLoop_subseq matchLoop_distinct buildLoop_vms
        matchesAnySelector_iff)
qed

text \<open>
  The overrides of a machine are those of its matching selectors: the last
  nonempty target host and storage, the network maps laid over each other with later entries winning, and
  every nonempty dependency once.
\<close>

theorem merged_overrides_exact:
  assumes "\<forall>o' \<in> set (matchingOverrides lib vm ss). distinct (map fst (wo_NetworkMap o'))"
  shows "let r = fst (mergedOverridesForVM lib vm ss); os = matchingOverrides lib vm ss in
      wo_TargetHost r = last ([] # filter (\<lambda>h. h \<noteq> []) (map wo_TargetHost os))
      \<and> wo_TargetStorage r = last ([] # filter (\<lambda>h. h \<noteq> []) (map wo_TargetStorage os))
      \<and> map_of (wo_NetworkMap r) = foldl (++) Map.empty (map (\<lambda>o'. map_of (wo_NetworkMap o')) os)
      \<and> set (wo_Dependencies r) = (\<Union>o' \<in> set os. set (wo_Dependencies o') - {[]})
      \<and> distinct (wo_Dependencies r)
      \<and> (snd (mergedOverridesForVM lib vm ss) \<longleftrightarrow> os \<noteq> [])"
proof -
  have e: "wo_TargetHost emptyOverrides = []" "wo_TargetStorage emptyOverrides = []"
      "map_of (wo_NetworkMap emptyOverrides) = Map.empty" "wo_Dependencies emptyOverrides = []"
    by (simp_all add: emptyOverrides_def)
  have m: "snd (mergedOverridesForVM lib vm ss) \<longleftrightarrow> matchingOverrides lib vm ss \<noteq> []"
    by (simp add: mergedOverrides_matched matchesAnySelector_iff matchingOverrides_def filter_empty_conv)
  show ?thesis
    unfolding Let_def m
    using fold_mergeOverride_network [OF assms, of emptyOverrides]
    by (simp add: mergedOverridesForVM_def mergeLoop_fold fold_mergeOverride_host fold_mergeOverride_storage
        fold_mergeOverride_deps fold_mergeOverride_distinct e)
qed

end
