(* ===== verification/Plan.thy ===== *)
theory Plan
  imports Matcher
begin

text \<open>
  Execution planning and checkpoints, \<open>internal/migrate/plan.go\<close>. \<open>BuildExecutionPlan\<close> batches the
  selected workloads into waves, either by size or, when dependencies are declared, by a
  topological sort (\<open>buildDependencyAwareWaves\<close>); \<open>reorderWorkloadsByPlan\<close> orders the workloads
  accordingly; the checkpoint functions record the progress of the phases.

  The parameter \<open>p\<close> is the permutation \<open>sort.Slice\<close> chooses. The code also ranges over the map
  \<open>indegree\<close>, whose order is not specified, but sorts the result at once, so that the choice of \<open>p\<close>
  covers it. Clock readings are parameters.
\<close>

section \<open>Waves\<close>

definition workloadKey :: "VirtualMachine \<Rightarrow> string" where
  "workloadKey vm = (if TrimSpace (vm_ID vm) \<noteq> [] then vm_ID vm else vm_Name vm)"

definition normalizedWaveStrategy :: "MigrationOptions \<Rightarrow> WaveStrategy" where
  "normalizedWaveStrategy options =
     (let s0 = opt_Waves options;
          s1 = (if wv_Size s0 \<le> 0 then s0\<lparr>wv_Size := opt_Parallel options\<rparr> else s0)
      in if wv_Size s1 \<le> 0 then s1\<lparr>wv_Size := 1\<rparr> else s1)"

text \<open>
  \<open>chunkWorkloads\<close>: the capacity expression divides by the wave size, so that an empty slice with a
  size that is not positive ends in a division by zero, the result \<open>None\<close>.
\<close>

function chunkFrom :: "nat \<Rightarrow> 'a list \<Rightarrow> nat \<Rightarrow> 'a list list" where
  "chunkFrom waveSize workloads start =
     (if start < length workloads \<and> 0 < waveSize then
        (let stop = (if start + waveSize > length workloads then length workloads
                     else start + waveSize)
         in drop start (take stop workloads) # chunkFrom waveSize workloads (start + waveSize))
      else [])"
  by pat_completeness auto
termination
  by (relation "measure (\<lambda>(waveSize, workloads, start). length workloads - start)") auto

declare chunkFrom.simps [simp del]

definition chunkWorkloads :: "'a list \<Rightarrow> int \<Rightarrow> 'a list list option" where
  "chunkWorkloads workloads waveSize0 =
     (let waveSize = (if waveSize0 \<le> 0 then int (length workloads) else waveSize0)
      in if waveSize = 0 then None else Some (chunkFrom (nat waveSize) workloads 0))"

text \<open>The maps the topological sort builds in its first loop.\<close>

definition nodesOf :: "PlannedWorkload list \<Rightarrow> (string \<times> PlannedWorkload) list" where
  "nodesOf ws = fold (\<lambda>w. AList.update (pw_VMID w) w) ws []"

definition nameIndexOf :: "PlannedWorkload list \<Rightarrow> (string \<times> string) list" where
  "nameIndexOf ws =
     fold (\<lambda>w m. AList.update (ToLower (pw_Name w)) (pw_VMID w)
                   (AList.update (ToLower (pw_VMID w)) (pw_VMID w) m)) ws []"

definition indegreeZero :: "PlannedWorkload list \<Rightarrow> (string \<times> int) list" where
  "indegreeZero ws = fold (\<lambda>w. AList.update (pw_VMID w) 0) ws []"

definition getInt :: "(string \<times> int) list \<Rightarrow> string \<Rightarrow> int" where
  "getInt m k = (case map_of m k of None \<Rightarrow> 0 | Some n \<Rightarrow> n)"

definition getList :: "(string \<times> string list) list \<Rightarrow> string \<Rightarrow> string list" where
  "getList m k = (case map_of m k of None \<Rightarrow> [] | Some xs \<Rightarrow> xs)"

definition zeroPlanned :: PlannedWorkload where
  "zeroPlanned = \<lparr>pw_VMID = [], pw_Name = [], pw_Dependencies = [], pw_TargetHost = [],
     pw_TargetStorage = [], pw_NetworkMap = []\<rparr>"

definition nodeAt :: "(string \<times> PlannedWorkload) list \<Rightarrow> string \<Rightarrow> PlannedWorkload" where
  "nodeAt nodes k = (case map_of nodes k of None \<Rightarrow> zeroPlanned | Some w \<Rightarrow> w)"

definition resolveDep :: "(string \<times> string) list \<Rightarrow> string \<Rightarrow> string option" where
  "resolveDep nameIndex dependency = map_of nameIndex (ToLower (TrimSpace dependency))"

text \<open>The second loop: count the dependencies of each workload and record the reverse edges.\<close>

fun addDeps ::
  "(string \<times> string) list \<Rightarrow> PlannedWorkload \<Rightarrow> string list
   \<Rightarrow> (string \<times> int) list \<Rightarrow> (string \<times> string list) list
   \<Rightarrow> goerror + (string \<times> int) list \<times> (string \<times> string list) list" where
  "addDeps nameIndex w [] indegree rev' = Inr (indegree, rev')"
| "addDeps nameIndex w (dependency # ds) indegree rev' =
     (case resolveDep nameIndex dependency of
        None \<Rightarrow>
          Inl (Errorf ''workload %s depends on unknown workload %q'' [pw_Name w, dependency])
      | Some dependencyKey \<Rightarrow>
          if dependencyKey = pw_VMID w
          then Inl (Errorf ''workload %s depends on itself'' [pw_Name w])
          else addDeps nameIndex w ds
                 (AList.update (pw_VMID w) (getInt indegree (pw_VMID w) + 1) indegree)
                 (AList.update dependencyKey (getList rev' dependencyKey @ [pw_VMID w]) rev'))"

fun addAllDeps ::
  "(string \<times> string) list \<Rightarrow> PlannedWorkload list
   \<Rightarrow> (string \<times> int) list \<Rightarrow> (string \<times> string list) list
   \<Rightarrow> goerror + (string \<times> int) list \<times> (string \<times> string list) list" where
  "addAllDeps nameIndex [] indegree rev' = Inr (indegree, rev')"
| "addAllDeps nameIndex (w # ws) indegree rev' =
     (case addDeps nameIndex w (pw_Dependencies w) indegree rev' of
        Inl err \<Rightarrow> Inl err
      | Inr (indegree', rev'') \<Rightarrow> addAllDeps nameIndex ws indegree' rev'')"

text \<open>Releasing the dependents of a wave: each one loses a dependency and is ready at zero.\<close>

fun releaseDeps ::
  "string list \<Rightarrow> (string \<times> int) list \<Rightarrow> string list \<Rightarrow> string list \<times> (string \<times> int) list" where
  "releaseDeps [] indegree ready = (ready, indegree)"
| "releaseDeps (dependent # ds) indegree ready =
     (let n = getInt indegree dependent - 1;
          indegree' = AList.update dependent n indegree
      in releaseDeps ds indegree' (if n = 0 then ready @ [dependent] else ready))"

definition waveCount :: "int \<Rightarrow> 'a list \<Rightarrow> nat" where
  "waveCount waveSize available =
     (if waveSize \<le> 0 \<or> waveSize > int (length available) then length available
      else nat waveSize)"

definition dependencyWave ::
  "(string \<times> PlannedWorkload) list \<Rightarrow> nat \<Rightarrow> string list \<Rightarrow> MigrationWave" where
  "dependencyWave nodes index current =
     \<lparr>wave_Index = int index, wave_Reason = ''dependency_wave'',
      wave_Workloads = map (nodeAt nodes) current, wave_Dependency = True\<rparr>"

definition positives :: "(string \<times> int) list \<Rightarrow> nat" where
  "positives m = length (filter (\<lambda>(k, n). 0 < n) m)"

lemma positives_update_one:
  "getInt m k = 1 \<Longrightarrow> Suc (positives (AList.update k 0 m)) = positives m"
  by (induction m) (auto simp: getInt_def positives_def split: option.splits)

lemma positives_update_le:
  "n < getInt m k \<Longrightarrow> positives (AList.update k n m) \<le> positives m"
  by (induction m) (auto simp: getInt_def positives_def split: option.splits if_splits)

lemma releaseDeps_measure:
  "releaseDeps ds m ready = (r, m') \<Longrightarrow> length r + positives m' \<le> length ready + positives m"
proof (induction ds arbitrary: m ready)
  case (Cons d ds)
  let ?n = "getInt m d - 1"
  have step: "releaseDeps ds (AList.update d ?n m) (if ?n = 0 then ready @ [d] else ready) = (r, m')"
    using Cons.prems by (simp add: Let_def)
  have "length r + positives m'
          \<le> length (if ?n = 0 then ready @ [d] else ready) + positives (AList.update d ?n m)"
    by (rule Cons.IH [OF step])
  also have "\<dots> \<le> length ready + positives m"
    using positives_update_one [of m d] positives_update_le [of ?n m d] by auto
  finally show ?case .
qed simp

function waveLoop ::
  "(string list \<Rightarrow> nat list) \<Rightarrow> (string \<times> PlannedWorkload) list \<Rightarrow> (string \<times> string list) list \<Rightarrow> int
   \<Rightarrow> string list \<Rightarrow> (string \<times> int) list \<Rightarrow> MigrationWave list \<Rightarrow> nat
   \<Rightarrow> MigrationWave list \<times> nat" where
  "waveLoop p nodes rev' waveSize available indegree waves processed =
     (if available = [] then (waves, processed)
      else
        (let key = (\<lambda>k. ToLower (pw_Name (nodeAt nodes k)));
             count = waveCount waveSize available;
             current = take count available;
             rest = drop count available;
             wave = dependencyWave nodes (length waves + 1) current;
             released = releaseDeps (concat (map (getList rev') current)) indegree [];
             newlyReady = sort_slice p key (fst released)
         in waveLoop p nodes rev' waveSize (sort_slice p key (rest @ newlyReady)) (snd released)
              (waves @ [wave]) (processed + length current)))"
  by pat_completeness auto
termination
proof (relation "measure (\<lambda>(p, nodes, rev', waveSize, available, indegree, waves, processed).
                   length available + positives indegree)")
  fix p :: "string list \<Rightarrow> nat list" and nodes :: "(string \<times> PlannedWorkload) list"
    and rev' :: "(string \<times> string list) list" and waveSize :: int and available :: "string list"
    and indegree :: "(string \<times> int) list" and waves :: "MigrationWave list" and processed :: nat
    and key count current rest wave released newlyReady
  assume ne: "available \<noteq> []" and c: "count = waveCount waveSize available"
    and r: "rest = drop count available"
    and rel: "released = releaseDeps (concat (map (getList rev') current)) indegree []"
    and nr: "newlyReady = sort_slice p key (fst released)"
  have "0 < count" using ne c by (auto simp: waveCount_def)
  then have "length rest < length available" using r ne by (simp add: length_greater_0_conv)
  moreover have "length (fst released) + positives (snd released) \<le> positives indegree"
    using releaseDeps_measure [of _ indegree "[]" "fst released" "snd released"] rel by force
  ultimately show "((p, nodes, rev', waveSize, sort_slice p key (rest @ newlyReady), snd released,
        waves @ [wave], processed + length current),
      p, nodes, rev', waveSize, available, indegree, waves, processed)
    \<in> measure (\<lambda>(p, nodes, rev', waveSize, available, indegree, waves, processed).
                   length available + positives indegree)"
    by (simp add: nr)
qed simp

declare waveLoop.simps [simp del]

definition buildDependencyAwareWaves ::
  "(string list \<Rightarrow> nat list) \<Rightarrow> PlannedWorkload list \<Rightarrow> int \<Rightarrow> goerror + MigrationWave list" where
  "buildDependencyAwareWaves p workloads waveSize =
     (let nodes = nodesOf workloads; nameIndex = nameIndexOf workloads in
      case addAllDeps nameIndex workloads (indegreeZero workloads) [] of
        Inl err \<Rightarrow> Inl err
      | Inr (indegree, rev') \<Rightarrow>
          (let key = (\<lambda>k. ToLower (pw_Name (nodeAt nodes k)));
               available = sort_slice p key (map fst (filter (\<lambda>(k, degree). degree = 0) indegree));
               (waves, processed) = waveLoop p nodes rev' waveSize available indegree [] 0
           in if processed \<noteq> length workloads
              then Inl (Errorf ''dependency cycle detected in migration wave planning'' [])
              else Inr waves))"

section \<open>The execution plan\<close>

definition planWorkload ::
  "patternLib \<Rightarrow> MigrationSpec \<Rightarrow> VirtualMachine \<Rightarrow> PlannedWorkload option" where
  "planWorkload lib spec vm =
     (case mergedOverridesForVM lib vm (spec_Workloads spec) of (overrides, ok) \<Rightarrow>
        if \<not> ok then None
        else Some
          \<lparr>pw_VMID = workloadKey vm, pw_Name = vm_Name vm,
           pw_Dependencies = wo_Dependencies overrides,
           pw_TargetHost = (if wo_TargetHost overrides = [] then tgt_DefaultHost (spec_Target spec)
                            else wo_TargetHost overrides),
           pw_TargetStorage =
             (if wo_TargetStorage overrides = [] then tgt_DefaultStorage (spec_Target spec)
              else wo_TargetStorage overrides),
           pw_NetworkMap = copyStringMap (wo_NetworkMap overrides)\<rparr>)"

definition plannedWorkloads ::
  "patternLib \<Rightarrow> MigrationSpec \<Rightarrow> VirtualMachine list \<Rightarrow> PlannedWorkload list" where
  "plannedWorkloads lib spec sourceVMs =
     List.map_filter (planWorkload lib spec) (MatchWorkloads lib sourceVMs (spec_Workloads spec))"

definition batchWaves :: "PlannedWorkload list list \<Rightarrow> MigrationWave list" where
  "batchWaves batches =
     map (\<lambda>(index, batch). \<lparr>wave_Index = int index + 1, wave_Reason = ''batch_size'',
            wave_Workloads = batch, wave_Dependency = False\<rparr>)
       (zip [0..<length batches] batches)"

definition BuildExecutionPlan ::
  "patternLib \<Rightarrow> (string list \<Rightarrow> nat list) \<Rightarrow> time \<Rightarrow> MigrationSpec option \<Rightarrow> VirtualMachine list
   \<Rightarrow> goerror + MigrationPlan" where
  "BuildExecutionPlan lib p now ospec sourceVMs =
     (case ospec of
        None \<Rightarrow> Inl (Errorf ''build execution plan: spec is nil'' [])
      | Some spec \<Rightarrow>
          (let workloads0 = plannedWorkloads lib spec sourceVMs;
               opts = spec_Options spec;
               strategy0 = normalizedWaveStrategy opts;
               strategy = (if \<not> wv_DependencyAware strategy0
                              \<and> list_ex (\<lambda>w. 0 < length (pw_Dependencies w)) workloads0
                           then strategy0\<lparr>wv_DependencyAware := True\<rparr> else strategy0);
               plan = \<lparr>plan_GeneratedAt = now, plan_TotalWorkloads = int (length workloads0),
                       plan_Window = opt_Window opts,
                       plan_RequiresApproval = ag_Required (opt_Approval opts),
                       plan_ApprovalSatisfied = Approved (opt_Approval opts),
                       plan_WaveStrategy = strategy, plan_Waves = []\<rparr>
           in if length workloads0 = 0 then Inr plan
              else
                (let workloads = sort_slice p (\<lambda>w. ToLower (pw_Name w)) workloads0 in
                 if \<not> wv_DependencyAware strategy then
                   (case chunkWorkloads workloads (wv_Size strategy) of
                      None \<Rightarrow> Inl (Errorf ''runtime error: integer divide by zero'' [])
                    | Some batches \<Rightarrow> Inr (plan\<lparr>plan_Waves := batchWaves batches\<rparr>))
                 else
                   (case buildDependencyAwareWaves p workloads (wv_Size strategy) of
                      Inl err \<Rightarrow> Inl (Wrap ''build execution plan: %w'' [] err)
                    | Inr waves \<Rightarrow> Inr (plan\<lparr>plan_Waves := waves\<rparr>)))))"

section \<open>Ordering the workloads by the plan\<close>

fun orderByItems ::
  "(string \<times> WorkloadMigration) list \<Rightarrow> PlannedWorkload list \<Rightarrow> string list
   \<Rightarrow> WorkloadMigration list \<times> string list" where
  "orderByItems index [] seen = ([], seen)"
| "orderByItems index (item # items) seen =
     (case map_of index (pw_VMID item) of
        None \<Rightarrow> orderByItems index items seen
      | Some workload \<Rightarrow>
          if pw_VMID item \<in> set seen then orderByItems index items seen
          else (case orderByItems index items (pw_VMID item # seen) of
                  (ordered, seen') \<Rightarrow> (workload # ordered, seen')))"

definition reorderWorkloadsByPlan ::
  "WorkloadMigration list \<Rightarrow> MigrationPlan option \<Rightarrow> WorkloadMigration list" where
  "reorderWorkloadsByPlan workloads oplan =
     (case oplan of
        None \<Rightarrow> workloads
      | Some plan \<Rightarrow>
          if length workloads = 0 \<or> length (plan_Waves plan) = 0 then workloads
          else
            (let index = fold (\<lambda>w. AList.update (workloadKey (wm_VM w)) w) workloads [];
                 (ordered, seen) =
                   orderByItems index (concat (map wave_Workloads (plan_Waves plan))) []
             in ordered @ filter (\<lambda>w. workloadKey (wm_VM w) \<notin> set seen) workloads))"

section \<open>Checkpoints\<close>

definition newCheckpoint :: "MigrationPhase \<Rightarrow> MigrationCheckpoint" where
  "newCheckpoint phase =
     \<lparr>cp_Phase = phase, cp_Status = CheckpointPending, cp_StartedAt = 0, cp_CompletedAt = 0,
      cp_Message = None, cp_Diagnostics = []\<rparr>"

definition checkpointPhases :: "MigrationPhase list" where
  "checkpointPhases =
     [PhasePlan, PhaseExport, PhaseConvert, PhaseImport, PhaseConfigure, PhaseVerify]"

definition initializeCheckpoints :: "MigrationCheckpoint list" where
  "initializeCheckpoints = map newCheckpoint checkpointPhases"

fun updateFirst ::
  "MigrationPhase \<Rightarrow> (MigrationCheckpoint \<Rightarrow> MigrationCheckpoint) \<Rightarrow> MigrationCheckpoint list
   \<Rightarrow> MigrationCheckpoint list" where
  "updateFirst phase update [] = [update (newCheckpoint phase)]"
| "updateFirst phase update (c # cs) =
     (if cp_Phase c \<noteq> phase then c # updateFirst phase update cs else update c # cs)"

definition updateCheckpoint ::
  "MigrationState \<Rightarrow> MigrationPhase \<Rightarrow> (MigrationCheckpoint \<Rightarrow> MigrationCheckpoint)
   \<Rightarrow> MigrationState" where
  "updateCheckpoint state phase update =
     (let cps = (if length (ms_Checkpoints state) = 0 then initializeCheckpoints
                 else ms_Checkpoints state)
      in state\<lparr>ms_Checkpoints := updateFirst phase update cps\<rparr>)"

definition markCheckpointRunning ::
  "time \<Rightarrow> MigrationState \<Rightarrow> MigrationPhase \<Rightarrow> string \<Rightarrow> MigrationState" where
  "markCheckpointRunning now state phase message =
     updateCheckpoint state phase
       (\<lambda>c. c\<lparr>cp_Status := CheckpointRunning,
             cp_StartedAt := (if isZero (cp_StartedAt c) then now else cp_StartedAt c),
             cp_Message := Some (Errorf message [])\<rparr>)"

text \<open>\<open>now1\<close> and \<open>now2\<close> are the two clock readings of the closure, in order.\<close>

definition markCheckpointCompleted ::
  "time \<Rightarrow> time \<Rightarrow> MigrationState \<Rightarrow> MigrationPhase \<Rightarrow> string \<Rightarrow> MigrationState" where
  "markCheckpointCompleted now1 now2 state phase message =
     updateCheckpoint state phase
       (\<lambda>c. c\<lparr>cp_StartedAt := (if isZero (cp_StartedAt c) then now1 else cp_StartedAt c),
             cp_Status := CheckpointCompleted, cp_CompletedAt := now2,
             cp_Message := Some (Errorf message [])\<rparr>)"

definition markCheckpointFailed ::
  "time \<Rightarrow> time \<Rightarrow> MigrationState \<Rightarrow> MigrationPhase \<Rightarrow> goerror option \<Rightarrow> MigrationState" where
  "markCheckpointFailed now1 now2 state phase oerr =
     updateCheckpoint state phase
       (\<lambda>c. let c1 = c\<lparr>cp_StartedAt := (if isZero (cp_StartedAt c) then now1 else cp_StartedAt c),
                        cp_Status := CheckpointFailed, cp_CompletedAt := now2\<rparr>
            in case oerr of
                 None \<Rightarrow> c1
               | Some err \<Rightarrow> c1\<lparr>cp_Diagnostics := cp_Diagnostics c1 @ [err],
                                 cp_Message := Some err\<rparr>)"

fun checkpointStatusIn :: "MigrationCheckpoint list \<Rightarrow> MigrationPhase \<Rightarrow> CheckpointStatus" where
  "checkpointStatusIn [] phase = CheckpointPending"
| "checkpointStatusIn (c # cs) phase =
     (if cp_Phase c = phase then cp_Status c else checkpointStatusIn cs phase)"

definition checkpointStatus :: "MigrationState \<Rightarrow> MigrationPhase \<Rightarrow> CheckpointStatus" where
  "checkpointStatus state phase = checkpointStatusIn (ms_Checkpoints state) phase"

definition executionPhases :: "MigrationPhase list" where
  "executionPhases = [PhaseExport, PhaseConvert, PhaseImport, PhaseConfigure, PhaseVerify]"

fun nextPhaseLoop :: "MigrationState \<Rightarrow> nat \<Rightarrow> MigrationPhase list \<Rightarrow> nat option" where
  "nextPhaseLoop state index [] = None"
| "nextPhaseLoop state index (phase # phases) =
     (case checkpointStatus state phase of
        CheckpointCompleted \<Rightarrow> nextPhaseLoop state (Suc index) phases
      | _ \<Rightarrow> Some index)"

text \<open>The source's \<open>-1\<close>, no phase left, is \<open>None\<close>.\<close>

definition nextPhaseStartIndex :: "MigrationState \<Rightarrow> nat option" where
  "nextPhaseStartIndex state = nextPhaseLoop state 0 executionPhases"

end
