(* ===== verification/NetMap.thy ===== *)
theory NetMap
  imports Matcher
begin

text \<open>
  Network mapping, \<open>internal/migrate/netmap.go\<close>, and the disk naming rules of
  \<open>internal/migrate/runtime.go\<close>, \<open>diskconv.go\<close> and \<open>orchestrator.go\<close>.
\<close>

section \<open>netmap.go\<close>

record NetworkMapper =
  nm_mappings :: "(string \<times> string) list"
  nm_targetNetworks :: "NetworkInfo list"

record MappedNIC =
  mn_Original :: NIC
  mn_TargetNetwork :: string
  mn_TargetVLAN :: int

definition NewNetworkMapper :: "(string \<times> string) list \<Rightarrow> NetworkInfo list \<Rightarrow> NetworkMapper" where
  "NewNetworkMapper mappings targetNetworks =
     \<lparr>nm_mappings = copyStringMap mappings, nm_targetNetworks = targetNetworks\<rparr>"

definition MapNIC :: "NetworkMapper \<Rightarrow> NIC \<Rightarrow> goerror + MappedNIC" where
  "MapNIC m nic =
     (case map_of (nm_mappings m) (nic_Network nic) of
        None \<Rightarrow> Inl (Errorf ''no mapping for network: %s'' [nic_Network nic])
      | Some targetNetwork \<Rightarrow>
          (case find (\<lambda>target. net_Name target = targetNetwork) (nm_targetNetworks m) of
             Some target \<Rightarrow>
               Inr \<lparr>mn_Original = nic, mn_TargetNetwork = net_Name target, mn_TargetVLAN = net_VlanID target\<rparr>
           | None \<Rightarrow> Inl (Errorf ''target network %q does not exist'' [targetNetwork])))"

fun MapAllNICs :: "NetworkMapper \<Rightarrow> NIC list \<Rightarrow> MappedNIC list \<times> goerror list" where
  "MapAllNICs m [] = ([], [])"
| "MapAllNICs m (nic # nics) =
     (case MapAllNICs m nics of (mapped, errs) \<Rightarrow>
        (case MapNIC m nic of
           Inl err \<Rightarrow> (mapped, err # errs)
         | Inr item \<Rightarrow> (item # mapped, errs)))"

text \<open>\<open>r\<close> is the order in which the map of mappings is visited.\<close>

definition ValidateTargetNetworks :: "(string list \<Rightarrow> nat list) \<Rightarrow> NetworkMapper \<Rightarrow> goerror list" where
  "ValidateTargetNetworks r m =
     map (\<lambda>(source, target).
            Errorf ''mapped network %q for source %q does not exist on target'' [target, source])
       (filter (\<lambda>(source, target).
                  \<not> list_ex (\<lambda>network. net_Name network = target) (nm_targetNetworks m))
          (sort_slice r fst (nm_mappings m)))"

section \<open>Disk formats and paths\<close>

type_synonym DiskFormat = string

definition FormatVMDK :: DiskFormat where "FormatVMDK = ''vmdk''"
definition FormatQCOW2 :: DiskFormat where "FormatQCOW2 = ''qcow2''"
definition FormatVHD :: DiskFormat where "FormatVHD = ''vhd''"
definition FormatVHDX :: DiskFormat where "FormatVHDX = ''vhdx''"
definition FormatRAW :: DiskFormat where "FormatRAW = ''raw''"

lemmas format_defs = FormatVMDK_def FormatQCOW2_def FormatVHD_def FormatVHDX_def FormatRAW_def

definition targetDiskFormat :: "Platform \<Rightarrow> DiskFormat" where
  "targetDiskFormat platform =
     (if platform = PlatformVMware then FormatVMDK
      else if platform = PlatformHyperV then FormatVHDX
      else if platform = PlatformProxmox \<or> platform = PlatformKVM then FormatQCOW2
      else FormatRAW)"

definition inferDiskFormat :: "string \<Rightarrow> Platform \<Rightarrow> DiskFormat" where
  "inferDiskFormat path platform =
     (let ext = ToLower (Ext path) in
      if ext = ''.vmdk'' then FormatVMDK
      else if ext = ''.qcow2'' then FormatQCOW2
      else if ext = ''.vhd'' then FormatVHD
      else if ext = ''.vhdx'' then FormatVHDX
      else if ext = ''.raw'' \<or> ext = ''.img'' then FormatRAW
      else if platform = PlatformVMware then FormatVMDK
      else if platform = PlatformHyperV then FormatVHDX
      else if platform = PlatformProxmox \<or> platform = PlatformKVM then FormatQCOW2
      else FormatRAW)"

definition formatExtension :: "DiskFormat \<Rightarrow> string" where
  "formatExtension format =
     (if format = FormatVMDK then ''.vmdk''
      else if format = FormatQCOW2 then ''.qcow2''
      else if format = FormatVHD then ''.vhd''
      else if format = FormatVHDX then ''.vhdx''
      else ''.raw'')"

definition deriveTargetDiskPath :: "string \<Rightarrow> DiskFormat \<Rightarrow> string" where
  "deriveTargetDiskPath path format = TrimSuffix path (Ext path) @ formatExtension format"

definition qemuFormat :: "DiskFormat \<Rightarrow> goerror + string" where
  "qemuFormat format =
     (if format = FormatVMDK then Inr ''vmdk''
      else if format = FormatQCOW2 then Inr ''qcow2''
      else if format = FormatVHD then Inr ''vpc''
      else if format = FormatVHDX then Inr ''vhdx''
      else if format = FormatRAW then Inr ''raw''
      else Inl (Errorf ''unsupported disk format %q'' [format]))"

definition diskExtensionForPlatform :: "Platform \<Rightarrow> string" where
  "diskExtensionForPlatform platform =
     (if platform = PlatformVMware then ''.vmdk''
      else if platform = PlatformHyperV then ''.vhdx''
      else if platform = PlatformProxmox \<or> platform = PlatformKVM then ''.qcow2''
      else ''.raw'')"

definition defaultSourceDiskPaths :: "string \<Rightarrow> VirtualMachine \<Rightarrow> string list" where
  "defaultSourceDiskPaths migrationID vm =
     map (\<lambda>index. filepathJoin [''artifacts'', migrationID, vm_ID vm,
             ''disk-'' @ itoa (index + 1) @ diskExtensionForPlatform (vm_Platform vm)])
       [0..<length (vm_Disks vm)]"

record ConversionRequest =
  cr_SourcePath :: string
  cr_SourceFormat :: DiskFormat
  cr_TargetPath :: string
  cr_TargetFormat :: DiskFormat
  cr_Thin :: bool

text \<open>The target path the conversion phase asks for: never the source path itself.\<close>

definition conversionTarget :: "string \<Rightarrow> DiskFormat \<Rightarrow> string" where
  "conversionTarget path format =
     (let targetPath = deriveTargetDiskPath path format
      in if Clean targetPath = Clean path then path @ ''.converted'' else targetPath)"

section \<open>Properties\<close>

lemma MapAllNICs_lists:
  "MapAllNICs m nics =
     (List.map_filter (\<lambda>n. case MapNIC m n of Inr x \<Rightarrow> Some x | Inl _ \<Rightarrow> None) nics,
      List.map_filter (\<lambda>n. case MapNIC m n of Inl e \<Rightarrow> Some e | Inr _ \<Rightarrow> None) nics)"
  by (induction nics) (auto simp: List.map_filter_simps split: sum.splits)

lemma MapNIC_Inr:
  "MapNIC m nic = Inr x \<Longrightarrow>
     mn_Original x = nic \<and> map_of (nm_mappings m) (nic_Network nic) = Some (mn_TargetNetwork x)
     \<and> (\<exists>net \<in> set (nm_targetNetworks m). net_Name net = mn_TargetNetwork x \<and> net_VlanID net = mn_TargetVLAN x)"
  by (auto simp: MapNIC_def find_Some_iff split: option.splits)

lemma MapAllNICs_ok: "MapAllNICs m nics = (mapped, []) \<Longrightarrow> map mn_Original mapped = nics"
  by (induction nics arbitrary: mapped) (auto dest: MapNIC_Inr split: prod.splits sum.splits)

lemma MapNIC_exists:
  "(\<exists>x. MapNIC m nic = Inr x) \<longleftrightarrow>
     (\<exists>t. map_of (nm_mappings m) (nic_Network nic) = Some t \<and> t \<in> net_Name ` set (nm_targetNetworks m))"
  by (auto simp: MapNIC_def find_Some_iff find_None_iff split: option.splits)

lemma MapAllNICs_no_errors: "snd (MapAllNICs m nics) = [] \<longleftrightarrow> (\<forall>nic \<in> set nics. \<exists>x. MapNIC m nic = Inr x)"
  by (induction nics) (auto split: prod.splits sum.splits)

text \<open>
  Mapping the NICs of a machine reports no error exactly when every NIC's network
  has a mapping to an existing target network; then the mapped NICs are the machine's NICs in order, each
  with the name and VLAN of a target network that the mapping names.
\<close>

theorem map_nics_exact:
  assumes "distinct (map fst mappings)"
  shows "(snd (MapAllNICs (NewNetworkMapper mappings nets) nics) = [] \<longleftrightarrow>
           (\<forall>nic \<in> set nics. \<exists>t. map_of mappings (nic_Network nic) = Some t \<and> t \<in> net_Name ` set nets))
    \<and> (snd (MapAllNICs (NewNetworkMapper mappings nets) nics) = [] \<longrightarrow>
         map mn_Original (fst (MapAllNICs (NewNetworkMapper mappings nets) nics)) = nics
         \<and> (\<forall>x \<in> set (fst (MapAllNICs (NewNetworkMapper mappings nets) nics)).
              map_of mappings (nic_Network (mn_Original x)) = Some (mn_TargetNetwork x)
              \<and> (\<exists>net \<in> set nets. net_Name net = mn_TargetNetwork x \<and> net_VlanID net = mn_TargetVLAN x)))"
proof -
  let ?m = "NewNetworkMapper mappings nets"
  have m: "map_of (nm_mappings ?m) = map_of mappings" "nm_targetNetworks ?m = nets"
    using assms by (simp_all add: NewNetworkMapper_def map_of_copyStringMap)
  have each: "\<exists>n. MapNIC ?m n = Inr x" if "x \<in> set (fst (MapAllNICs ?m nics))" for x
    using that by (auto simp: MapAllNICs_lists map_filter_def split: sum.splits)
  have "map_of mappings (nic_Network (mn_Original x)) = Some (mn_TargetNetwork x)
      \<and> (\<exists>net \<in> set nets. net_Name net = mn_TargetNetwork x \<and> net_VlanID net = mn_TargetVLAN x)"
    if "x \<in> set (fst (MapAllNICs ?m nics))" for x
    using each [OF that] MapNIC_Inr [of ?m _ x] m by metis
  moreover have "map mn_Original (fst (MapAllNICs ?m nics)) = nics" if "snd (MapAllNICs ?m nics) = []"
    using that MapAllNICs_ok [of ?m nics] by (metis prod.collapse)
  ultimately show ?thesis using m by (auto simp: MapAllNICs_no_errors MapNIC_exists)
qed

lemma formats_cover: "format \<in> {FormatVMDK, FormatQCOW2, FormatVHD, FormatVHDX, FormatRAW} \<Longrightarrow>
  \<exists>q. qemuFormat format = Inr q"
  by (auto simp: qemuFormat_def format_defs)

lemma inferDiskFormat_range:
  "inferDiskFormat path platform \<in> {FormatVMDK, FormatQCOW2, FormatVHD, FormatVHDX, FormatRAW}"
  by (auto simp: inferDiskFormat_def Let_def)

lemma targetDiskFormat_range:
  "targetDiskFormat platform \<in> {FormatVMDK, FormatQCOW2, FormatVHD, FormatVHDX, FormatRAW}"
  by (auto simp: targetDiskFormat_def)

lemma Ext_append:
  assumes "x \<in> {''.vmdk'', ''.qcow2'', ''.vhd'', ''.vhdx'', ''.raw''}"
  shows "Ext (base @ x) = x"
  using assms by (auto simp: Ext_def slash_def)

text \<open>
  The formats the engine infers and asks for are all known to the converter,
  the file to write is never the file to read, and the format inferred from a derived path is the format
  it was derived for.
\<close>

theorem conversion_request_safe:
  "(\<exists>q. qemuFormat (inferDiskFormat path platform) = Inr q) \<and> (\<exists>q. qemuFormat (targetDiskFormat platform) = Inr q)
   \<and> conversionTarget path format \<noteq> path
   \<and> inferDiskFormat (deriveTargetDiskPath path (targetDiskFormat platform)) platform' = targetDiskFormat platform"
proof -
  have "conversionTarget path format \<noteq> path"
    by (auto simp: conversionTarget_def Let_def split: if_splits)
  moreover have "formatExtension (targetDiskFormat platform) \<in> {''.vmdk'', ''.qcow2'', ''.vhd'', ''.vhdx'', ''.raw''}"
    by (auto simp: formatExtension_def)
  note ext = Ext_append [OF this]
  have "inferDiskFormat (deriveTargetDiskPath path (targetDiskFormat platform)) platform' = targetDiskFormat platform"
    unfolding inferDiskFormat_def deriveTargetDiskPath_def ext
    by (auto simp: formatExtension_def targetDiskFormat_def format_defs go_string_defs Let_def)
  ultimately show ?thesis
    using formats_cover [OF inferDiskFormat_range] formats_cover [OF targetDiskFormat_range] by blast
qed

end
