(* ===== verification/Workspace.thy ===== *)
theory Workspace
  imports Models
begin

text \<open>
  Pilot workspaces, \<open>internal/models/workspace.go\<close>: the structs of a workspace, its artifacts and its
  background jobs. The status types are Go string types and stay strings; a \<open>json.RawMessage\<close> is the
  byte string it holds; a pointer field is an option.
\<close>

section \<open>Status values\<close>

type_synonym PilotWorkspaceStatus = string
type_synonym WorkspaceJobType = string
type_synonym WorkspaceJobStatus = string
type_synonym WorkspaceReadinessStatus = string
type_synonym WorkspaceApprovalStatus = string
type_synonym WorkspaceNoteKind = string

definition PilotWorkspaceStatusDraft :: PilotWorkspaceStatus where
  "PilotWorkspaceStatusDraft = ''draft''"
definition WorkspaceJobStatusQueued :: WorkspaceJobStatus where
  "WorkspaceJobStatusQueued = ''queued''"
definition WorkspaceJobStatusRunning :: WorkspaceJobStatus where
  "WorkspaceJobStatusRunning = ''running''"
definition WorkspaceJobStatusSucceeded :: WorkspaceJobStatus where
  "WorkspaceJobStatusSucceeded = ''succeeded''"
definition WorkspaceJobStatusFailed :: WorkspaceJobStatus where
  "WorkspaceJobStatusFailed = ''failed''"
definition WorkspaceApprovalStatusPending :: WorkspaceApprovalStatus where
  "WorkspaceApprovalStatusPending = ''pending''"
definition WorkspaceNoteKindOperator :: WorkspaceNoteKind where
  "WorkspaceNoteKindOperator = ''operator''"

section \<open>Structs\<close>

record WorkspaceSourceConnection =
  wsc_ID :: string
  wsc_Name :: string
  wsc_Platform :: Platform
  wsc_Address :: string
  wsc_CredentialRef :: string
  wsc_LastSnapshotID :: string
  wsc_LastDiscoveredAt :: time

record WorkspaceSnapshot =
  wss_SnapshotID :: string
  wss_SourceConnectionID :: string
  wss_Source :: string
  wss_Platform :: Platform
  wss_VMCount :: int
  wss_DiscoveredAt :: time

record WorkspaceTargetAssumptions =
  wta_Platform :: Platform
  wta_Address :: string
  wta_CredentialRef :: string
  wta_DefaultHost :: string
  wta_DefaultStorage :: string
  wta_DefaultNetwork :: string
  wta_Notes :: string

record WorkspacePlanSettings =
  wps_Name :: string
  wps_Parallel :: int
  wps_VerifyBoot :: bool
  wps_ApprovalRequired :: bool
  wps_ApprovedBy :: string
  wps_ApprovalTicket :: string
  wps_WindowStart :: time
  wps_WindowEnd :: time
  wps_WaveSize :: int
  wps_DependencyAware :: bool

record WorkspaceGraphArtifact =
  wga_GeneratedAt :: time
  wga_NodeCount :: int
  wga_EdgeCount :: int
  wga_RawJSON :: string

record WorkspaceSimulationArtifact =
  wsa_GeneratedAt :: time
  wsa_TargetPlatform :: Platform
  wsa_SelectedWorkloadIDs :: "string list"
  wsa_MovedVMs :: int
  wsa_RawJSON :: string

record WorkspaceReadinessResult =
  wrr_GeneratedAt :: time
  wrr_Status :: WorkspaceReadinessStatus
  wrr_SelectedWorkloadCount :: int
  wrr_RecommendationCount :: int
  wrr_PolicyViolationCount :: int
  wrr_BlockingIssues :: "string list"
  wrr_WarningIssues :: "string list"

record WorkspaceSavedPlan =
  wsp_MigrationID :: string
  wsp_GeneratedAt :: time
  wsp_SpecName :: string
  wsp_SourcePlatform :: Platform
  wsp_TargetPlatform :: Platform
  wsp_WorkloadCount :: int
  wsp_SelectedWorkloadIDs :: "string list"
  wsp_SpecJSON :: string
  wsp_StateJSON :: string

record WorkspaceApproval =
  wa_ID :: string
  wa_Stage :: string
  wa_Status :: WorkspaceApprovalStatus
  wa_ApprovedBy :: string
  wa_Ticket :: string
  wa_Notes :: string
  wa_CreatedAt :: time

record WorkspaceNote =
  wn_ID :: string
  wn_Kind :: WorkspaceNoteKind
  wn_Author :: string
  wn_Body :: string
  wn_CreatedAt :: time

record WorkspaceReportArtifact =
  wra_ID :: string
  wra_Name :: string
  wra_Format :: string
  wra_FileName :: string
  wra_CorrelationID :: string
  wra_ExportedAt :: time

record PilotWorkspace =
  wk_ID :: string
  wk_TenantID :: string
  wk_Name :: string
  wk_Description :: string
  wk_Status :: PilotWorkspaceStatus
  wk_CreatedAt :: time
  wk_UpdatedAt :: time
  wk_SourceConnections :: "WorkspaceSourceConnection list"
  wk_Snapshots :: "WorkspaceSnapshot list"
  wk_SelectedWorkloadIDs :: "string list"
  wk_TargetAssumptions :: WorkspaceTargetAssumptions
  wk_PlanSettings :: WorkspacePlanSettings
  wk_Graph :: "WorkspaceGraphArtifact option"
  wk_Simulation :: "WorkspaceSimulationArtifact option"
  wk_Readiness :: "WorkspaceReadinessResult option"
  wk_SavedPlan :: "WorkspaceSavedPlan option"
  wk_Approvals :: "WorkspaceApproval list"
  wk_Notes :: "WorkspaceNote list"
  wk_Reports :: "WorkspaceReportArtifact list"

record WorkspaceJob =
  wj_ID :: string
  wj_TenantID :: string
  wj_WorkspaceID :: string
  wj_Type :: WorkspaceJobType
  wj_Status :: WorkspaceJobStatus
  wj_RequestedBy :: string
  wj_RequestedAt :: time
  wj_StartedAt :: time
  wj_UpdatedAt :: time
  wj_CompletedAt :: time
  wj_CorrelationID :: string
  wj_Message :: string
  wj_Error :: string
  wj_Retryable :: bool
  wj_Truncated :: bool
  wj_InputJSON :: string
  wj_OutputJSON :: string

definition zeroJob :: WorkspaceJob where
  "zeroJob = \<lparr>wj_ID = [], wj_TenantID = [], wj_WorkspaceID = [], wj_Type = [], wj_Status = [],
     wj_RequestedBy = [], wj_RequestedAt = 0, wj_StartedAt = 0, wj_UpdatedAt = 0, wj_CompletedAt = 0,
     wj_CorrelationID = [], wj_Message = [], wj_Error = [], wj_Retryable = False, wj_Truncated = False,
     wj_InputJSON = [], wj_OutputJSON = []\<rparr>"

definition zeroWorkspace :: PilotWorkspace where
  "zeroWorkspace = \<lparr>wk_ID = [], wk_TenantID = [], wk_Name = [], wk_Description = [], wk_Status = [],
     wk_CreatedAt = 0, wk_UpdatedAt = 0, wk_SourceConnections = [], wk_Snapshots = [],
     wk_SelectedWorkloadIDs = [],
     wk_TargetAssumptions = \<lparr>wta_Platform = [], wta_Address = [], wta_CredentialRef = [],
        wta_DefaultHost = [], wta_DefaultStorage = [], wta_DefaultNetwork = [], wta_Notes = []\<rparr>,
     wk_PlanSettings = \<lparr>wps_Name = [], wps_Parallel = 0, wps_VerifyBoot = False,
        wps_ApprovalRequired = False, wps_ApprovedBy = [], wps_ApprovalTicket = [],
        wps_WindowStart = 0, wps_WindowEnd = 0, wps_WaveSize = 0, wps_DependencyAware = False\<rparr>,
     wk_Graph = None, wk_Simulation = None, wk_Readiness = None, wk_SavedPlan = None,
     wk_Approvals = [], wk_Notes = [], wk_Reports = []\<rparr>"

end
