(* ===== verification/Credentials.thy ===== *)
theory Credentials
  imports Workspace
begin

text \<open>
  Tenant scopes and credentials, \<open>internal/store/store.go\<close>, \<open>credentials.go\<close> and the shared helpers
  of \<open>auth_lookup.go\<close>. The digest of an API key is the parameter \<open>sha256hex\<close> (SHA-256 in hexadecimal);
  no property of it is used except where a theorem says so. \<open>subtle.ConstantTimeCompare\<close> returns 1
  exactly for equal byte strings, so it is equality.

  Ranging over a Go map visits the entries in an order the runtime chooses: \<open>rangeMap r\<close> visits the
  entries of an association list in the order \<open>r\<close> picks for its keys.
\<close>

definition rangeMap :: "('k list \<Rightarrow> nat list) \<Rightarrow> ('k \<times> 'v) list \<Rightarrow> ('k \<times> 'v) list" where
  "rangeMap r m = sort_slice r fst m"

lemma rangeMap_simps [simp]:
  "set (rangeMap r m) = set m" "length (rangeMap r m) = length m"
  "distinct (map fst (rangeMap r m)) = distinct (map fst m)"
  by (simp_all add: rangeMap_def)

section \<open>Contexts and tenants, store.go\<close>

definition DefaultTenantID :: string where "DefaultTenantID = ''default''"
definition defaultTenantName :: string where "defaultTenantName = ''Default Tenant''"

definition normalizeTenantID :: "string \<Rightarrow> string" where
  "normalizeTenantID tenantID =
     (let t = TrimSpace tenantID in if t = [] then DefaultTenantID else t)"

lemma normalizeTenantID_idem [simp]: "normalizeTenantID (normalizeTenantID t) = normalizeTenantID t"
proof -
  have "TrimSpace DefaultTenantID = DefaultTenantID" by (simp add: DefaultTenantID_def go_string_defs)
  then show ?thesis by (simp add: normalizeTenantID_def Let_def DefaultTenantID_def)
qed

lemma normalizeTenantID_nonempty [simp]: "normalizeTenantID t \<noteq> []"
  by (simp add: normalizeTenantID_def Let_def DefaultTenantID_def)

text \<open>
  The part of a \<open>context.Context\<close> the store reads: the error of a cancelled context and the tenant
  value attached by \<open>ContextWithTenantID\<close>.
\<close>

record Context =
  ctx_Err :: "goerror option"
  ctx_Tenant :: "string option"

definition ContextWithTenantID :: "Context \<Rightarrow> string \<Rightarrow> Context" where
  "ContextWithTenantID ctx tenantID = ctx\<lparr>ctx_Tenant := Some (normalizeTenantID tenantID)\<rparr>"

definition TenantIDFromContext :: "Context option \<Rightarrow> string" where
  "TenantIDFromContext octx =
     (case octx of None \<Rightarrow> DefaultTenantID
      | Some ctx \<Rightarrow> normalizeTenantID (case ctx_Tenant ctx of None \<Rightarrow> [] | Some v \<Rightarrow> v))"

lemma TenantIDFromContext_with:
  "TenantIDFromContext (Some (ContextWithTenantID ctx t)) = normalizeTenantID t"
  by (simp add: TenantIDFromContext_def ContextWithTenantID_def)

section \<open>API keys, credentials.go\<close>

definition apiKeyHashPrefix :: string where "apiKeyHashPrefix = ''sha256:''"

definition HashAPIKey :: "(string \<Rightarrow> string) \<Rightarrow> string \<Rightarrow> string" where
  "HashAPIKey sha256hex apiKey =
     (let trimmed = TrimSpace apiKey
      in if trimmed = [] then [] else apiKeyHashPrefix @ sha256hex trimmed)"

definition APIKeyMatches :: "(string \<Rightarrow> string) \<Rightarrow> string \<Rightarrow> string \<Rightarrow> string \<Rightarrow> bool" where
  "APIKeyMatches sha256hex apiKey storedHash legacyRaw =
     (let trimmed = TrimSpace apiKey in
      if trimmed = [] then False
      else (let stored = TrimSpace storedHash in
            if stored \<noteq> [] then HashAPIKey sha256hex trimmed = stored
            else (let legacy = TrimSpace legacyRaw in
                  if legacy = [] then False else trimmed = legacy)))"

definition HasAPIKeyConfigured :: "string \<Rightarrow> string \<Rightarrow> bool" where
  "HasAPIKeyConfigured storedHash legacyRaw = (TrimSpace storedHash \<noteq> [] \<or> TrimSpace legacyRaw \<noteq> [])"

definition normalizedAPIKeyHash :: "(string \<Rightarrow> string) \<Rightarrow> string \<Rightarrow> string \<Rightarrow> string" where
  "normalizedAPIKeyHash sha256hex apiKey storedHash =
     (let candidate = HashAPIKey sha256hex apiKey
      in if candidate \<noteq> [] then candidate else TrimSpace storedHash)"

definition prepareTenantCredentials :: "(string \<Rightarrow> string) \<Rightarrow> Tenant \<Rightarrow> Tenant" where
  "prepareTenantCredentials sha256hex tenant =
     tenant\<lparr>tn_APIKeyHash := normalizedAPIKeyHash sha256hex (tn_APIKey tenant) (tn_APIKeyHash tenant),
            tn_APIKey := [],
            tn_ServiceAccounts :=
              map (\<lambda>a. a\<lparr>sa_APIKeyHash := normalizedAPIKeyHash sha256hex (sa_APIKey a) (sa_APIKeyHash a),
                         sa_APIKey := []\<rparr>) (tn_ServiceAccounts tenant)\<rparr>"

record credentialOwner =
  co_tenantID :: string
  co_serviceAccountID :: string

definition conflictError :: "credentialOwner \<Rightarrow> goerror" where
  "conflictError own =
     Errorf ''credential already exists'' [co_tenantID own, co_serviceAccountID own]"

definition IsCredentialConflict :: "goerror \<Rightarrow> bool" where
  "IsCredentialConflict err =
     (case err of Errorf f _ \<Rightarrow> f = ''credential already exists''
      | Wrap _ _ (Errorf f _) \<Rightarrow> f = ''credential already exists'' | _ \<Rightarrow> False)"

definition tenantCredentialOwners :: "Tenant \<Rightarrow> (string \<times> credentialOwner) list" where
  "tenantCredentialOwners tenant =
     (let hash = TrimSpace (tn_APIKeyHash tenant);
          owners0 = (if hash \<noteq> []
                     then AList.update hash \<lparr>co_tenantID = tn_ID tenant, co_serviceAccountID = []\<rparr> []
                     else [])
      in fold (\<lambda>account owners.
             let h = TrimSpace (sa_APIKeyHash account)
             in if h \<noteq> []
                then AList.update h \<lparr>co_tenantID = tn_ID tenant, co_serviceAccountID = sa_ID account\<rparr> owners
                else owners)
           (tn_ServiceAccounts tenant) owners0)"

fun uniqueWithinLoop ::
  "string \<Rightarrow> ServiceAccount list \<Rightarrow> (string \<times> credentialOwner) list \<Rightarrow> goerror option" where
  "uniqueWithinLoop tenantID [] seen = None"
| "uniqueWithinLoop tenantID (account # accounts) seen =
     (let hash = TrimSpace (sa_APIKeyHash account) in
      if hash = [] then uniqueWithinLoop tenantID accounts seen
      else (case map_of seen hash of
              Some existing \<Rightarrow> Some (conflictError existing)
            | None \<Rightarrow>
                uniqueWithinLoop tenantID accounts
                  (AList.update hash \<lparr>co_tenantID = tenantID, co_serviceAccountID = sa_ID account\<rparr> seen)))"

definition validateCredentialUniquenessWithinTenant :: "Tenant \<Rightarrow> goerror option" where
  "validateCredentialUniquenessWithinTenant tenant =
     (let hash = TrimSpace (tn_APIKeyHash tenant);
          seen = (if hash \<noteq> []
                  then AList.update hash \<lparr>co_tenantID = tn_ID tenant, co_serviceAccountID = []\<rparr> []
                  else [])
      in uniqueWithinLoop (tn_ID tenant) (tn_ServiceAccounts tenant) seen)"

text \<open>The search for a colliding owner: the first one in the order the maps are visited.\<close>

definition validateCredentialUniqueness ::
  "(string list \<Rightarrow> nat list) \<Rightarrow> Tenant list \<Rightarrow> Tenant \<Rightarrow> goerror option" where
  "validateCredentialUniqueness r tenants tenant =
     (let owners = tenantCredentialOwners tenant in
      case validateCredentialUniquenessWithinTenant tenant of
        Some err \<Rightarrow> Some err
      | None \<Rightarrow>
          (case concat (map (\<lambda>existing.
                   if tn_ID existing = tn_ID tenant then []
                   else filter (\<lambda>(hash, own). map_of owners hash \<noteq> None)
                          (rangeMap r (tenantCredentialOwners existing))) tenants) of
             [] \<Rightarrow> None
           | (hash, own) # _ \<Rightarrow> Some (conflictError own)))"

section \<open>Matching, auth_lookup.go\<close>

definition credentialHashMatches :: "string \<Rightarrow> string \<Rightarrow> bool" where
  "credentialHashMatches storedHash expectedHash =
     (let stored = TrimSpace storedHash; expected = TrimSpace expectedHash
      in if stored = [] \<or> expected = [] then False else stored = expected)"

definition serviceAccountCredentialActive :: "ServiceAccount \<Rightarrow> time \<Rightarrow> bool" where
  "serviceAccountCredentialActive account now =
     (if \<not> sa_Active account then False
      else if \<not> isZero (sa_ExpiresAt account) \<and> now > sa_ExpiresAt account then False
      else True)"

section \<open>The hashes of a tenant\<close>

text \<open>All credential hashes a tenant carries, its own first, blanks left out.\<close>

definition tenantHashes :: "Tenant \<Rightarrow> string list" where
  "tenantHashes t =
     filter (\<lambda>h. h \<noteq> []) (map TrimSpace (tn_APIKeyHash t # map sa_APIKeyHash (tn_ServiceAccounts t)))"

lemma fold_owners_dom:
  "fst ` set (fold (\<lambda>account owners.
             let h = TrimSpace (sa_APIKeyHash account)
             in if h \<noteq> []
                then AList.update h \<lparr>co_tenantID = tid, co_serviceAccountID = sa_ID account\<rparr> owners
                else owners) as m)
     = fst ` set m \<union> set (filter (\<lambda>h. h \<noteq> []) (map (\<lambda>a. TrimSpace (sa_APIKeyHash a)) as))"
  by (induction as arbitrary: m) (auto simp: Let_def dom_update)

lemma tenantCredentialOwners_dom: "fst ` set (tenantCredentialOwners t) = set (tenantHashes t)"
  by (simp add: tenantCredentialOwners_def Let_def fold_owners_dom [unfolded Let_def] tenantHashes_def comp_def)

lemma uniqueWithinLoop_None:
  "uniqueWithinLoop tid as seen = None \<longleftrightarrow>
     distinct (filter (\<lambda>h. h \<noteq> []) (map (\<lambda>a. TrimSpace (sa_APIKeyHash a)) as))
     \<and> (\<forall>a \<in> set as. TrimSpace (sa_APIKeyHash a) \<noteq> [] \<longrightarrow> map_of seen (TrimSpace (sa_APIKeyHash a)) = None)"
proof (induction as arbitrary: seen)
  case (Cons a as)
  let ?h = "TrimSpace (sa_APIKeyHash a)"
  have notin: "?h \<notin> (\<lambda>a. TrimSpace (sa_APIKeyHash a)) ` set as
      \<longleftrightarrow> (\<forall>b \<in> set as. TrimSpace (sa_APIKeyHash b) \<noteq> ?h)" by (auto simp: image_iff)
  show ?case
    by (cases "?h = []"; cases "map_of seen ?h") (use notin Cons in \<open>auto simp: Let_def\<close>)
qed simp

lemma validateWithin_None: "validateCredentialUniquenessWithinTenant t = None \<longleftrightarrow> distinct (tenantHashes t)"
  by (auto simp: validateCredentialUniquenessWithinTenant_def Let_def uniqueWithinLoop_None tenantHashes_def comp_def)
    (metis imageI)

lemma validateCredentialUniqueness_None:
  "validateCredentialUniqueness r ts t = None \<longleftrightarrow>
     distinct (tenantHashes t)
     \<and> (\<forall>u \<in> set ts. tn_ID u \<noteq> tn_ID t \<longrightarrow> set (tenantHashes u) \<inter> set (tenantHashes t) = {})"
proof -
  let ?f = "\<lambda>existing. if tn_ID existing = tn_ID t then []
              else filter (\<lambda>(hash, own). map_of (tenantCredentialOwners t) hash \<noteq> None)
                     (rangeMap r (tenantCredentialOwners existing))"
  have empty: "?f u = [] \<longleftrightarrow> (tn_ID u \<noteq> tn_ID t \<longrightarrow> set (tenantHashes u) \<inter> set (tenantHashes t) = {})" for u
    by (force simp: filter_empty_conv map_of_eq_None_iff simp flip: tenantCredentialOwners_dom)
  have "concat (map ?f ts) = [] \<longleftrightarrow>
          (\<forall>u \<in> set ts. tn_ID u \<noteq> tn_ID t \<longrightarrow> set (tenantHashes u) \<inter> set (tenantHashes t) = {})"
    by (simp only: concat_eq_Nil_conv list.set_map ball_simps(9) empty)
  moreover have "validateCredentialUniqueness r ts t = None
      \<longleftrightarrow> validateCredentialUniquenessWithinTenant t = None \<and> concat (map ?f ts) = []"
    by (auto simp: validateCredentialUniqueness_def Let_def simp del: concat_eq_Nil_conv
        split: option.splits list.splits)
  ultimately show ?thesis by (simp add: validateWithin_None)
qed

end
