(* ===== verification/MemoryStore.thy ===== *)
theory MemoryStore
  imports Credentials
begin

text \<open>
  The in-memory state store, \<open>internal/store/memory.go\<close> with the records of \<open>store.go\<close> and the
  credential lookup of \<open>auth_lookup.go\<close>. Every operation of the source holds the mutex from its first
  access to the maps to its return, so an operation is one step on the store: a function that returns
  its result or error and the store after it.

  Parameters: \<open>ctx\<close> is the context of the call; \<open>now\<close> and \<open>uuid\<close> are what the clock and
  \<open>uuid.NewString\<close> return; \<open>r\<close> is the order in which a map is visited and \<open>p\<close> the permutation of
  \<open>sort.Slice\<close>; \<open>lib\<close> is the JSON round trip the clone functions make; \<open>sha256hex\<close> is the digest.
  The type variable \<open>'raw\<close> is \<open>json.RawMessage\<close>, which this store only copies.
\<close>

section \<open>Records, store.go\<close>

record SnapshotMeta =
  sm_ID :: string
  sm_TenantID :: string
  sm_Source :: string
  sm_Platform :: Platform
  sm_VMCount :: int
  sm_DiscoveredAt :: time

record VMFilter =
  vf_Platform :: Platform
  vf_PowerState :: PowerState
  vf_NameContains :: string
  vf_Limit :: int

record 'raw MigrationRecord =
  mr_ID :: string
  mr_TenantID :: string
  mr_SpecName :: string
  mr_Phase :: string
  mr_StartedAt :: time
  mr_UpdatedAt :: time
  mr_CompletedAt :: time
  mr_RawJSON :: 'raw

record MigrationMeta =
  mm_ID :: string
  mm_TenantID :: string
  mm_SpecName :: string
  mm_Phase :: string
  mm_StartedAt :: time
  mm_UpdatedAt :: time
  mm_CompletedAt :: time

record 'raw RecoveryPointRecord =
  rr_MigrationID :: string
  rr_TenantID :: string
  rr_Phase :: string
  rr_CreatedAt :: time
  rr_RawJSON :: 'raw

record CredentialLookupResult =
  cl_Tenant :: Tenant
  cl_ServiceAccount :: "ServiceAccount option"

section \<open>The state of the store\<close>

text \<open>Every stored value carries the tenant that owns it; the source has one struct per kind.\<close>

record 'v stored =
  so_tenantID :: string
  so_value :: 'v

type_synonym storedSnapshot = "DiscoveryResult stored"
type_synonym 'raw storedMigration = "'raw MigrationRecord stored"
type_synonym 'raw storedRecoveryPoint = "'raw RecoveryPointRecord stored"
type_synonym storedWorkspace = "PilotWorkspace stored"
type_synonym storedWorkspaceJob = "WorkspaceJob stored"

record 'raw MemoryStore =
  st_tenants :: "(string \<times> Tenant) list"
  st_snapshots :: "(string \<times> storedSnapshot) list"
  st_migrations :: "(string \<times> 'raw storedMigration) list"
  st_recoveryPoints :: "(string \<times> 'raw storedRecoveryPoint) list"
  st_auditEvents :: "(string \<times> AuditEvent list) list"
  st_revokedSessions :: "(string \<times> time) list"
  st_workspaces :: "(string \<times> storedWorkspace) list"
  st_workspaceJobs :: "(string \<times> storedWorkspaceJob) list"

record jsonLib =
  jsonDR :: "DiscoveryResult \<Rightarrow> goerror + DiscoveryResult"
  jsonWorkspace :: "PilotWorkspace \<Rightarrow> goerror + PilotWorkspace"
  jsonJob :: "WorkspaceJob \<Rightarrow> goerror + WorkspaceJob"

text \<open>\<open>time.Unix(0, 0)\<close>, 1 January 1970 counted from the zero time.\<close>

definition unixEpoch :: time where "unixEpoch = 62135596800 * 10 ^ 9"

definition defaultTenant :: Tenant where
  "defaultTenant = \<lparr>tn_ID = DefaultTenantID, tn_Name = defaultTenantName, tn_APIKey = [],
     tn_APIKeyHash = [], tn_CreatedAt = unixEpoch, tn_Active = True, tn_Settings = [],
     tn_Quotas = \<lparr>q_RequestsPerMinute = 0, q_MaxSnapshots = 0, q_MaxMigrations = 0\<rparr>,
     tn_ServiceAccounts = []\<rparr>"

definition NewMemoryStore :: "'raw MemoryStore" where
  "NewMemoryStore = \<lparr>st_tenants = [(DefaultTenantID, defaultTenant)], st_snapshots = [],
     st_migrations = [], st_recoveryPoints = [], st_auditEvents = [], st_revokedSessions = [],
     st_workspaces = [], st_workspaceJobs = []\<rparr>"

definition tenantMigrationKey :: "string \<Rightarrow> string \<Rightarrow> string" where
  "tenantMigrationKey tenantID migrationID = tenantID @ '':'' @ migrationID"

definition tenantRecoveryPointKey :: "string \<Rightarrow> string \<Rightarrow> string" where
  "tenantRecoveryPointKey tenantID migrationID = tenantID @ '':'' @ migrationID"

definition tenantWorkspaceKey :: "string \<Rightarrow> string \<Rightarrow> string" where
  "tenantWorkspaceKey tenantID workspaceID = tenantID @ '':'' @ workspaceID"

definition tenantWorkspaceJobKey :: "string \<Rightarrow> string \<Rightarrow> string \<Rightarrow> string" where
  "tenantWorkspaceJobKey tenantID workspaceID jobID = tenantID @ '':'' @ workspaceID @ '':'' @ jobID"

definition currentSnapshotKey :: "string \<Rightarrow> Platform \<Rightarrow> string" where
  "currentSnapshotKey source platform = ToLower (TrimSpace source) @ '':'' @ platform"

section \<open>Helpers\<close>

definition cloneDiscoveryResult :: "jsonLib \<Rightarrow> DiscoveryResult \<Rightarrow> goerror + DiscoveryResult" where
  "cloneDiscoveryResult lib result =
     (case jsonDR lib result of
        Inl err \<Rightarrow> Inl (Wrap ''clone discovery result: %w'' [] err) | Inr d \<Rightarrow> Inr d)"

definition cloneWorkspace :: "jsonLib \<Rightarrow> PilotWorkspace \<Rightarrow> goerror + PilotWorkspace" where
  "cloneWorkspace lib w =
     (case jsonWorkspace lib w of
        Inl err \<Rightarrow> Inl (Wrap ''clone workspace: %w'' [] err) | Inr d \<Rightarrow> Inr d)"

definition cloneWorkspaceJob :: "jsonLib \<Rightarrow> WorkspaceJob \<Rightarrow> goerror + WorkspaceJob" where
  "cloneWorkspaceJob lib j =
     (case jsonJob lib j of
        Inl err \<Rightarrow> Inl (Wrap ''clone workspace job: %w'' [] err) | Inr d \<Rightarrow> Inr d)"

definition copyMap :: "(string \<times> string) list \<Rightarrow> (string \<times> string) list" where
  "copyMap input = (if length input = 0 then [] else fold (\<lambda>(k, v). AList.update k v) input [])"

definition cloneServiceAccounts :: "ServiceAccount list \<Rightarrow> ServiceAccount list" where
  "cloneServiceAccounts accounts = map (\<lambda>a. a\<lparr>sa_Metadata := copyMap (sa_Metadata a)\<rparr>) accounts"

definition cloneTenant :: "Tenant \<Rightarrow> Tenant" where
  "cloneTenant t = t\<lparr>tn_Settings := copyMap (tn_Settings t),
     tn_ServiceAccounts := cloneServiceAccounts (tn_ServiceAccounts t)\<rparr>"

definition tenantsFromMap ::
  "(string list \<Rightarrow> nat list) \<Rightarrow> (string \<times> Tenant) list \<Rightarrow> Tenant list" where
  "tenantsFromMap r items = map (\<lambda>(k, t). cloneTenant t) (rangeMap r items)"

definition normalizeServiceAccount :: "time \<Rightarrow> ServiceAccount \<Rightarrow> ServiceAccount" where
  "normalizeServiceAccount created a =
     a\<lparr>sa_Role := (if sa_Role a = [] then TenantRoleViewer else sa_Role a),
       sa_CreatedAt := (if isZero (sa_CreatedAt a) then created else sa_CreatedAt a),
       sa_Permissions := (if 0 < length (sa_Permissions a)
                          then filter TenantPermission_Valid (sa_Permissions a)
                          else sa_Permissions a)\<rparr>"

definition normalizeTenant :: "time \<Rightarrow> Tenant \<Rightarrow> Tenant" where
  "normalizeTenant now tenant =
     (let created = (if isZero (tn_CreatedAt tenant) then now else tn_CreatedAt tenant)
      in tenant\<lparr>tn_CreatedAt := created,
           tn_ServiceAccounts := map (normalizeServiceAccount created) (tn_ServiceAccounts tenant)\<rparr>)"

definition ensureTenantLocked ::
  "'raw MemoryStore \<Rightarrow> string \<Rightarrow> (goerror + Tenant) \<times> 'raw MemoryStore" where
  "ensureTenantLocked s tenantID =
     (case map_of (st_tenants s) tenantID of
        Some tenant \<Rightarrow> (Inr tenant, s)
      | None \<Rightarrow>
          if tenantID = DefaultTenantID
          then (Inr defaultTenant, s\<lparr>st_tenants := AList.update tenantID defaultTenant (st_tenants s)\<rparr>)
          else (Inl (Errorf ''tenant %s not found'' [tenantID]), s))"

text \<open>\<open>snapshotCountLocked\<close> and \<open>migrationCountLocked\<close> count the entries a tenant owns.\<close>

definition countOwned :: "string \<Rightarrow> (string \<times> 'v stored) list \<Rightarrow> int" where
  "countOwned tenantID m = int (length (filter (\<lambda>(k, v). so_tenantID v = tenantID) m))"

text \<open>
  \<open>paginateItems\<close>, with the 64-bit arithmetic of the source: a start or end that wraps to a negative
  number makes the slice expression panic, the result \<open>None\<close>.
\<close>

definition paginateItems :: "'a list \<Rightarrow> int \<Rightarrow> int \<Rightarrow> 'a list option" where
  "paginateItems items page0 perPage =
     (if perPage \<le> 0 then Some items
      else
        (let page = (if page0 \<le> 0 then 1 else page0);
             start = wrap64 ((page - 1) * perPage)
         in if start \<ge> int (length items) then Some []
            else
              (let end0 = wrap64 (start + perPage);
                   stop = (if end0 > int (length items) then int (length items) else end0)
               in if start < 0 \<or> stop < start then None
                  else Some (drop (nat start) (take (nat stop) items)))))"

definition matchesFilter :: "VirtualMachine \<Rightarrow> VMFilter \<Rightarrow> bool" where
  "matchesFilter vm f =
     (if vf_Platform f \<noteq> [] \<and> vm_Platform vm \<noteq> vf_Platform f then False
      else if vf_PowerState f \<noteq> [] \<and> vm_PowerState vm \<noteq> vf_PowerState f then False
      else if vf_NameContains f \<noteq> []
              \<and> \<not> Contains (ToLower (vm_Name vm)) (ToLower (vf_NameContains f)) then False
      else True)"

text \<open>Early return on a cancelled context.\<close>

definition onDone :: "Context \<Rightarrow> string \<Rightarrow> (goerror + 'a) \<times> 's \<Rightarrow> 's \<Rightarrow> (goerror + 'a) \<times> 's" where
  "onDone ctx what body s =
     (case ctx_Err ctx of
        Some err \<Rightarrow> (Inl (Wrap (''memory store: '' @ what @ '': %w'') [] err), s)
      | None \<Rightarrow> body)"

definition storeErr :: "string \<Rightarrow> goerror \<Rightarrow> goerror" where
  "storeErr what err = Wrap (''memory store: '' @ what @ '': %w'') [] err"

section \<open>Snapshots\<close>

definition SaveDiscovery ::
  "jsonLib \<Rightarrow> Context \<Rightarrow> string \<Rightarrow> 'raw MemoryStore \<Rightarrow> string \<Rightarrow> DiscoveryResult option
   \<Rightarrow> (goerror + string) \<times> 'raw MemoryStore" where
  "SaveDiscovery lib ctx snapshotID s tenantID0 oresult =
     onDone ctx ''save discovery''
       (case oresult of
          None \<Rightarrow> (Inl (Errorf ''memory store: save discovery: result is nil'' []), s)
        | Some result \<Rightarrow>
            (let tenantID = normalizeTenantID tenantID0 in
             case cloneDiscoveryResult lib result of
               Inl err \<Rightarrow> (Inl (storeErr ''save discovery'' err), s)
             | Inr cloned \<Rightarrow>
                 (case ensureTenantLocked s tenantID of
                    (Inl err, s1) \<Rightarrow> (Inl (storeErr ''save discovery'' err), s1)
                  | (Inr tenant, s1) \<Rightarrow>
                      (let limit = q_MaxSnapshots (tn_Quotas tenant) in
                       if limit > 0 \<and> countOwned tenantID (st_snapshots s1) \<ge> limit
                       then (Inl (Errorf ''memory store: save discovery: snapshot quota exceeded for tenant %s''
                                    [tenantID]), s1)
                       else (Inr snapshotID,
                             s1\<lparr>st_snapshots := AList.update snapshotID
                                   \<lparr>so_tenantID = tenantID, so_value = cloned\<rparr> (st_snapshots s1)\<rparr>)))))
       s"

definition GetSnapshot ::
  "jsonLib \<Rightarrow> Context \<Rightarrow> 'raw MemoryStore \<Rightarrow> string \<Rightarrow> string \<Rightarrow> (goerror + DiscoveryResult) \<times> 'raw MemoryStore" where
  "GetSnapshot lib ctx s tenantID0 snapshotID =
     onDone ctx ''get snapshot''
       (let tenantID = normalizeTenantID tenantID0;
            missing = Inl (Errorf ''memory store: get snapshot %s: not found'' [snapshotID])
        in case map_of (st_snapshots s) snapshotID of
             None \<Rightarrow> (missing, s)
           | Some item \<Rightarrow>
               if so_tenantID item \<noteq> tenantID then (missing, s)
               else (case cloneDiscoveryResult lib (so_value item) of
                       Inl err \<Rightarrow> (Inl (storeErr ''get snapshot'' err), s)
                     | Inr cloned \<Rightarrow> (Inr cloned, s)))
       s"

text \<open>Newest first: the sort key is the negated time.\<close>

definition listSnapshotsLocked ::
  "(int list \<Rightarrow> nat list) \<Rightarrow> 'raw MemoryStore \<Rightarrow> string \<Rightarrow> Platform \<Rightarrow> SnapshotMeta list" where
  "listSnapshotsLocked p s tenantID platform =
     sort_slice p (\<lambda>m. - sm_DiscoveredAt m)
       (map (\<lambda>(id, snapshot).
              \<lparr>sm_ID = id, sm_TenantID = tenantID, sm_Source = dr_Source (so_value snapshot),
               sm_Platform = dr_Platform (so_value snapshot),
               sm_VMCount = int (length (dr_VMs (so_value snapshot))),
               sm_DiscoveredAt = dr_DiscoveredAt (so_value snapshot)\<rparr>)
         (filter (\<lambda>(id, snapshot). so_tenantID snapshot = tenantID
                     \<and> (platform = [] \<or> dr_Platform (so_value snapshot) = platform))
            (st_snapshots s)))"

definition ListSnapshotsPage ::
  "(int list \<Rightarrow> nat list) \<Rightarrow> Context \<Rightarrow> 'raw MemoryStore \<Rightarrow> string \<Rightarrow> Platform \<Rightarrow> int \<Rightarrow> int
   \<Rightarrow> (goerror + SnapshotMeta list option \<times> int) \<times> 'raw MemoryStore" where
  "ListSnapshotsPage p ctx s tenantID0 platform page perPage =
     onDone ctx ''list snapshots''
       (let items = listSnapshotsLocked p s (normalizeTenantID tenantID0) platform
        in (Inr (paginateItems items page perPage, int (length items)), s))
       s"

definition ListSnapshots ::
  "(int list \<Rightarrow> nat list) \<Rightarrow> Context \<Rightarrow> 'raw MemoryStore \<Rightarrow> string \<Rightarrow> Platform \<Rightarrow> int
   \<Rightarrow> (goerror + SnapshotMeta list option) \<times> 'raw MemoryStore" where
  "ListSnapshots p ctx s tenantID platform limit =
     (case ListSnapshotsPage p ctx s tenantID platform 1 limit of
        (Inl err, s') \<Rightarrow> (Inl err, s') | (Inr (items, n), s') \<Rightarrow> (Inr items, s'))"

definition latestSnapshots ::
  "string \<Rightarrow> Platform \<Rightarrow> (string \<times> storedSnapshot) list \<Rightarrow> (string \<times> storedSnapshot) list" where
  "latestSnapshots tenantID platform entries =
     fold (\<lambda>(id, snapshot) latest.
             if so_tenantID snapshot \<noteq> tenantID then latest
             else if platform \<noteq> [] \<and> dr_Platform (so_value snapshot) \<noteq> platform then latest
             else (let key = currentSnapshotKey (dr_Source (so_value snapshot)) (dr_Platform (so_value snapshot))
                   in case map_of latest key of
                        None \<Rightarrow> AList.update key snapshot latest
                      | Some existing \<Rightarrow>
                          if dr_DiscoveredAt (so_value snapshot) > dr_DiscoveredAt (so_value existing)
                          then AList.update key snapshot latest else latest))
       entries []"

definition currentSnapshotsLocked ::
  "(string list \<Rightarrow> nat list) \<Rightarrow> (int list \<Rightarrow> nat list) \<Rightarrow> 'raw MemoryStore \<Rightarrow> string \<Rightarrow> Platform
   \<Rightarrow> storedSnapshot list" where
  "currentSnapshotsLocked r p s tenantID platform =
     sort_slice p (\<lambda>x. - dr_DiscoveredAt (so_value x))
       (map snd (latestSnapshots tenantID platform (rangeMap r (st_snapshots s))))"

definition QueryVMs ::
  "(string list \<Rightarrow> nat list) \<Rightarrow> (int list \<Rightarrow> nat list) \<Rightarrow> Context \<Rightarrow> 'raw MemoryStore \<Rightarrow> string \<Rightarrow> VMFilter
   \<Rightarrow> (goerror + VirtualMachine list) \<times> 'raw MemoryStore" where
  "QueryVMs r p ctx s tenantID0 f =
     onDone ctx ''query VMs''
       (let snapshots = currentSnapshotsLocked r p s (normalizeTenantID tenantID0) (vf_Platform f);
            matching = filter (\<lambda>vm. matchesFilter vm f) (concat (map (\<lambda>x. dr_VMs (so_value x)) snapshots))
        in (Inr (if vf_Limit f > 0 then take (nat (vf_Limit f)) matching else matching), s))
       s"

section \<open>Migrations and recovery points\<close>

definition SaveMigration ::
  "Context \<Rightarrow> 'raw MemoryStore \<Rightarrow> string \<Rightarrow> 'raw MigrationRecord \<Rightarrow> (goerror + unit) \<times> 'raw MemoryStore" where
  "SaveMigration ctx s tenantID0 record0 =
     onDone ctx ''save migration''
       (if mr_ID record0 = [] then (Inl (Errorf ''memory store: save migration: migration ID is empty'' []), s)
        else
          (let tenantID = normalizeTenantID tenantID0;
               record = record0\<lparr>mr_TenantID := tenantID\<rparr>;
               key = tenantMigrationKey tenantID (mr_ID record)
           in case ensureTenantLocked s tenantID of
                (Inl err, s1) \<Rightarrow> (Inl (storeErr ''save migration'' err), s1)
              | (Inr tenant, s1) \<Rightarrow>
                  (let limit = q_MaxMigrations (tn_Quotas tenant) in
                   if map_of (st_migrations s1) key = None \<and> limit > 0
                      \<and> countOwned tenantID (st_migrations s1) \<ge> limit
                   then (Inl (Errorf ''memory store: save migration: migration quota exceeded for tenant %s''
                                [tenantID]), s1)
                   else (Inr (), s1\<lparr>st_migrations := AList.update key
                                      \<lparr>so_tenantID = tenantID, so_value = record\<rparr> (st_migrations s1)\<rparr>))))
       s"

definition GetMigration ::
  "Context \<Rightarrow> 'raw MemoryStore \<Rightarrow> string \<Rightarrow> string \<Rightarrow> (goerror + 'raw MigrationRecord) \<times> 'raw MemoryStore" where
  "GetMigration ctx s tenantID0 migrationID =
     onDone ctx ''get migration''
       (let tenantID = normalizeTenantID tenantID0;
            missing = Inl (Errorf ''memory store: get migration %s: not found'' [migrationID])
        in case map_of (st_migrations s) (tenantMigrationKey tenantID migrationID) of
             None \<Rightarrow> (missing, s)
           | Some item \<Rightarrow> if so_tenantID item \<noteq> tenantID then (missing, s) else (Inr (so_value item), s))
       s"

definition listMigrationsLocked ::
  "(int list \<Rightarrow> nat list) \<Rightarrow> 'raw MemoryStore \<Rightarrow> string \<Rightarrow> MigrationMeta list" where
  "listMigrationsLocked p s tenantID =
     sort_slice p (\<lambda>m. - mm_UpdatedAt m)
       (map (\<lambda>(k, item).
              \<lparr>mm_ID = mr_ID (so_value item), mm_TenantID = tenantID, mm_SpecName = mr_SpecName (so_value item),
               mm_Phase = mr_Phase (so_value item), mm_StartedAt = mr_StartedAt (so_value item),
               mm_UpdatedAt = mr_UpdatedAt (so_value item), mm_CompletedAt = mr_CompletedAt (so_value item)\<rparr>)
         (filter (\<lambda>(k, item). so_tenantID item = tenantID) (st_migrations s)))"

definition ListMigrationsPage ::
  "(int list \<Rightarrow> nat list) \<Rightarrow> Context \<Rightarrow> 'raw MemoryStore \<Rightarrow> string \<Rightarrow> int \<Rightarrow> int
   \<Rightarrow> (goerror + MigrationMeta list option \<times> int) \<times> 'raw MemoryStore" where
  "ListMigrationsPage p ctx s tenantID0 page perPage =
     onDone ctx ''list migrations''
       (let items = listMigrationsLocked p s (normalizeTenantID tenantID0)
        in (Inr (paginateItems items page perPage, int (length items)), s))
       s"

definition ListMigrations ::
  "(int list \<Rightarrow> nat list) \<Rightarrow> Context \<Rightarrow> 'raw MemoryStore \<Rightarrow> string \<Rightarrow> int
   \<Rightarrow> (goerror + MigrationMeta list option) \<times> 'raw MemoryStore" where
  "ListMigrations p ctx s tenantID limit =
     (case ListMigrationsPage p ctx s tenantID 1 limit of
        (Inl err, s') \<Rightarrow> (Inl err, s') | (Inr (items, n), s') \<Rightarrow> (Inr items, s'))"

definition SaveRecoveryPoint ::
  "Context \<Rightarrow> 'raw MemoryStore \<Rightarrow> string \<Rightarrow> 'raw RecoveryPointRecord \<Rightarrow> (goerror + unit) \<times> 'raw MemoryStore" where
  "SaveRecoveryPoint ctx s tenantID0 record0 =
     onDone ctx ''save recovery point''
       (if rr_MigrationID record0 = []
        then (Inl (Errorf ''memory store: save recovery point: migration ID is empty'' []), s)
        else
          (let tenantID = normalizeTenantID tenantID0; record = record0\<lparr>rr_TenantID := tenantID\<rparr>
           in case ensureTenantLocked s tenantID of
                (Inl err, s1) \<Rightarrow> (Inl (storeErr ''save recovery point'' err), s1)
              | (Inr tenant, s1) \<Rightarrow>
                  (Inr (), s1\<lparr>st_recoveryPoints :=
                     AList.update (tenantRecoveryPointKey tenantID (rr_MigrationID record))
                       \<lparr>so_tenantID = tenantID, so_value = record\<rparr> (st_recoveryPoints s1)\<rparr>)))
       s"

definition GetRecoveryPoint ::
  "Context \<Rightarrow> 'raw MemoryStore \<Rightarrow> string \<Rightarrow> string \<Rightarrow> (goerror + 'raw RecoveryPointRecord) \<times> 'raw MemoryStore" where
  "GetRecoveryPoint ctx s tenantID0 migrationID =
     onDone ctx ''get recovery point''
       (let tenantID = normalizeTenantID tenantID0;
            missing = Inl (Errorf ''memory store: get recovery point %s: not found'' [migrationID])
        in case map_of (st_recoveryPoints s) (tenantRecoveryPointKey tenantID migrationID) of
             None \<Rightarrow> (missing, s)
           | Some item \<Rightarrow> if so_tenantID item \<noteq> tenantID then (missing, s) else (Inr (so_value item), s))
       s"

section \<open>Tenants\<close>

text \<open>The end both writers share: check that no credential collides, then store a copy.\<close>

definition putTenant ::
  "(string list \<Rightarrow> nat list) \<Rightarrow> string \<Rightarrow> 'raw MemoryStore \<Rightarrow> Tenant \<Rightarrow> (goerror + unit) \<times> 'raw MemoryStore" where
  "putTenant r what s tenant =
     (case validateCredentialUniqueness r (tenantsFromMap r (st_tenants s)) tenant of
        Some err \<Rightarrow> (Inl (Wrap (''memory store: '' @ what @ '' %s: %w'') [tn_ID tenant] err), s)
      | None \<Rightarrow> (Inr (), s\<lparr>st_tenants := AList.update (tn_ID tenant) (cloneTenant tenant) (st_tenants s)\<rparr>))"

definition CreateTenant ::
  "(string \<Rightarrow> string) \<Rightarrow> (string list \<Rightarrow> nat list) \<Rightarrow> Context \<Rightarrow> time \<Rightarrow> 'raw MemoryStore \<Rightarrow> Tenant
   \<Rightarrow> (goerror + unit) \<times> 'raw MemoryStore" where
  "CreateTenant sha256hex r ctx now s tenant0 =
     onDone ctx ''create tenant''
       (let t1 = tenant0\<lparr>tn_ID := normalizeTenantID (tn_ID tenant0)\<rparr>;
            t2 = (if tn_ID t1 = DefaultTenantID then defaultTenant else t1)
        in if tn_Name t2 = [] then (Inl (Errorf ''memory store: create tenant: tenant name is empty'' []), s)
           else
             (let tenant = prepareTenantCredentials sha256hex (normalizeTenant now t2) in
              case map_of (st_tenants s) (tn_ID tenant) of
                None \<Rightarrow> putTenant r ''create tenant'' s tenant
              | Some existing \<Rightarrow>
                  if tn_ID existing \<noteq> []
                  then (Inl (Errorf ''memory store: create tenant %s: already exists'' [tn_ID tenant]), s)
                  else putTenant r ''create tenant'' s tenant))
       s"

definition updatedDefaultTenant :: "Tenant \<Rightarrow> Tenant" where
  "updatedDefaultTenant tenant =
     defaultTenant\<lparr>tn_APIKey := tn_APIKey tenant, tn_APIKeyHash := tn_APIKeyHash tenant,
       tn_Active := tn_Active tenant, tn_Settings := copyMap (tn_Settings tenant),
       tn_Quotas := tn_Quotas tenant,
       tn_ServiceAccounts := cloneServiceAccounts (tn_ServiceAccounts tenant)\<rparr>"

definition UpdateTenant ::
  "(string \<Rightarrow> string) \<Rightarrow> (string list \<Rightarrow> nat list) \<Rightarrow> Context \<Rightarrow> time \<Rightarrow> 'raw MemoryStore \<Rightarrow> Tenant
   \<Rightarrow> (goerror + unit) \<times> 'raw MemoryStore" where
  "UpdateTenant sha256hex r ctx now s tenant0 =
     onDone ctx ''update tenant''
       (let t1 = tenant0\<lparr>tn_ID := normalizeTenantID (tn_ID tenant0)\<rparr> in
        if tn_Name t1 = [] then (Inl (Errorf ''memory store: update tenant: tenant name is empty'' []), s)
        else
          (let t2 = (if tn_ID t1 = DefaultTenantID then updatedDefaultTenant t1 else normalizeTenant now t1);
               tenant = prepareTenantCredentials sha256hex t2
           in case map_of (st_tenants s) (tn_ID tenant) of
                None \<Rightarrow> (Inl (Errorf ''memory store: update tenant %s: not found'' [tn_ID tenant]), s)
              | Some _ \<Rightarrow> putTenant r ''update tenant'' s tenant))
       s"

definition GetTenant ::
  "Context \<Rightarrow> 'raw MemoryStore \<Rightarrow> string \<Rightarrow> (goerror + Tenant) \<times> 'raw MemoryStore" where
  "GetTenant ctx s tenantID0 =
     onDone ctx ''get tenant''
       (let tenantID = normalizeTenantID tenantID0 in
        case map_of (st_tenants s) tenantID of
          None \<Rightarrow> (Inl (Errorf ''memory store: get tenant %s: not found'' [tenantID]), s)
        | Some tenant \<Rightarrow> (Inr (cloneTenant tenant), s))
       s"

definition ListTenants ::
  "(int list \<Rightarrow> nat list) \<Rightarrow> Context \<Rightarrow> 'raw MemoryStore \<Rightarrow> (goerror + Tenant list) \<times> 'raw MemoryStore" where
  "ListTenants p ctx s =
     onDone ctx ''list tenants''
       (Inr (sort_slice p tn_CreatedAt (map (\<lambda>(k, t). cloneTenant t) (st_tenants s))), s) s"

text \<open>Deleting, while ranging, the entries a tenant owns leaves the other entries.\<close>

definition dropOwned :: "string \<Rightarrow> (string \<times> 'v stored) list \<Rightarrow> (string \<times> 'v stored) list" where
  "dropOwned tenantID m = filter (\<lambda>(k, v). so_tenantID v \<noteq> tenantID) m"

definition DeleteTenant ::
  "Context \<Rightarrow> 'raw MemoryStore \<Rightarrow> string \<Rightarrow> (goerror + unit) \<times> 'raw MemoryStore" where
  "DeleteTenant ctx s tenantID0 =
     onDone ctx ''delete tenant''
       (let tenantID = normalizeTenantID tenantID0 in
        if tenantID = DefaultTenantID
        then (Inl (Errorf ''memory store: delete tenant: default tenant cannot be removed'' []), s)
        else (case map_of (st_tenants s) tenantID of
                None \<Rightarrow> (Inl (Errorf ''memory store: delete tenant %s: not found'' [tenantID]), s)
              | Some _ \<Rightarrow>
                  (Inr (), s\<lparr>st_tenants := AList.delete tenantID (st_tenants s),
                             st_snapshots := dropOwned tenantID (st_snapshots s),
                             st_migrations := dropOwned tenantID (st_migrations s),
                             st_recoveryPoints := dropOwned tenantID (st_recoveryPoints s),
                             st_workspaces := dropOwned tenantID (st_workspaces s),
                             st_workspaceJobs := dropOwned tenantID (st_workspaceJobs s),
                             st_auditEvents := AList.delete tenantID (st_auditEvents s)\<rparr>)))
       s"

section \<open>Audit events and revoked sessions\<close>

definition SaveAuditEvent ::
  "Context \<Rightarrow> string \<Rightarrow> time \<Rightarrow> 'raw MemoryStore \<Rightarrow> AuditEvent \<Rightarrow> (goerror + unit) \<times> 'raw MemoryStore" where
  "SaveAuditEvent ctx uuid now s event0 =
     onDone ctx ''save audit event''
       (let event = event0\<lparr>ae_TenantID := normalizeTenantID (ae_TenantID event0),
              ae_ID := (if ae_ID event0 = [] then uuid else ae_ID event0),
              ae_CreatedAt := (if isZero (ae_CreatedAt event0) then now else ae_CreatedAt event0),
              ae_Outcome := (if ae_Outcome event0 = [] then AuditOutcomeSuccess else ae_Outcome event0)\<rparr>
        in case ensureTenantLocked s (ae_TenantID event) of
             (Inl err, s1) \<Rightarrow> (Inl (storeErr ''save audit event'' err), s1)
           | (Inr _, s1) \<Rightarrow>
               (let old = (case map_of (st_auditEvents s1) (ae_TenantID event) of None \<Rightarrow> [] | Some es \<Rightarrow> es);
                    cloned = event\<lparr>ae_Details := copyMap (ae_Details event)\<rparr>
                in (Inr (), s1\<lparr>st_auditEvents :=
                      AList.update (ae_TenantID event) (old @ [cloned]) (st_auditEvents s1)\<rparr>)))
       s"

definition limitTo :: "int \<Rightarrow> 'a list \<Rightarrow> 'a list" where
  "limitTo limit items = (if limit > 0 \<and> int (length items) > limit then take (nat limit) items else items)"

definition ListAuditEvents ::
  "(int list \<Rightarrow> nat list) \<Rightarrow> Context \<Rightarrow> 'raw MemoryStore \<Rightarrow> string \<Rightarrow> int
   \<Rightarrow> (goerror + AuditEvent list) \<times> 'raw MemoryStore" where
  "ListAuditEvents p ctx s tenantID0 limit =
     onDone ctx ''list audit events''
       (let source = (case map_of (st_auditEvents s) (normalizeTenantID tenantID0) of
                        None \<Rightarrow> [] | Some es \<Rightarrow> es);
            items = map (\<lambda>e. e\<lparr>ae_Details := copyMap (ae_Details e)\<rparr>) source
        in (Inr (limitTo limit (sort_slice p (\<lambda>e. - ae_CreatedAt e) items)), s))
       s"

definition pruneRevokedSessionsLocked :: "'raw MemoryStore \<Rightarrow> time \<Rightarrow> 'raw MemoryStore" where
  "pruneRevokedSessionsLocked s now =
     s\<lparr>st_revokedSessions := filter (\<lambda>(k, expiresAt). expiresAt > now) (st_revokedSessions s)\<rparr>"

definition RevokeAuthSession ::
  "Context \<Rightarrow> time \<Rightarrow> 'raw MemoryStore \<Rightarrow> string \<Rightarrow> time \<Rightarrow> (goerror + unit) \<times> 'raw MemoryStore" where
  "RevokeAuthSession ctx now s sessionID0 expiresAt =
     onDone ctx ''revoke auth session''
       (let sessionID = TrimSpace sessionID0 in
        if sessionID = [] then (Inl (Errorf ''memory store: revoke auth session: session ID is empty'' []), s)
        else if isZero expiresAt
        then (Inl (Errorf ''memory store: revoke auth session: expires at is required'' []), s)
        else (let s1 = pruneRevokedSessionsLocked s now
              in (Inr (), s1\<lparr>st_revokedSessions := AList.update sessionID expiresAt (st_revokedSessions s1)\<rparr>)))
       s"

definition IsAuthSessionRevoked ::
  "Context \<Rightarrow> time \<Rightarrow> 'raw MemoryStore \<Rightarrow> string \<Rightarrow> (goerror + bool) \<times> 'raw MemoryStore" where
  "IsAuthSessionRevoked ctx now s sessionID0 =
     onDone ctx ''read auth session revocation''
       (let sessionID = TrimSpace sessionID0 in
        if sessionID = [] then (Inr False, s)
        else (let s1 = pruneRevokedSessionsLocked s now in
              case map_of (st_revokedSessions s1) sessionID of
                None \<Rightarrow> (Inr False, s1)
              | Some expiresAt \<Rightarrow>
                  if \<not> expiresAt > now
                  then (Inr False, s1\<lparr>st_revokedSessions := AList.delete sessionID (st_revokedSessions s1)\<rparr>)
                  else (Inr True, s1)))
       s"

section \<open>Workspaces and jobs\<close>

text \<open>\<open>uuid kind i\<close> is the identifier drawn for the \<open>i\<close>-th element of a slice that lacks one.\<close>

definition mapIndexed :: "(nat \<Rightarrow> 'a \<Rightarrow> 'b) \<Rightarrow> 'a list \<Rightarrow> 'b list" where
  "mapIndexed f xs = map (\<lambda>(i, x). f i x) (zip [0..<length xs] xs)"

definition normalizeConnection :: "string \<Rightarrow> WorkspaceSourceConnection \<Rightarrow> WorkspaceSourceConnection" where
  "normalizeConnection newID c =
     c\<lparr>wsc_ID := (if TrimSpace (wsc_ID c) = [] then newID else wsc_ID c),
       wsc_Name := TrimSpace (wsc_Name c), wsc_Address := TrimSpace (wsc_Address c),
       wsc_CredentialRef := TrimSpace (wsc_CredentialRef c)\<rparr>"

definition normalizeApproval :: "time \<Rightarrow> string \<Rightarrow> WorkspaceApproval \<Rightarrow> WorkspaceApproval" where
  "normalizeApproval updated newID a =
     a\<lparr>wa_ID := (if TrimSpace (wa_ID a) = [] then newID else wa_ID a),
       wa_Status := (if wa_Status a = [] then WorkspaceApprovalStatusPending else wa_Status a),
       wa_CreatedAt := (if isZero (wa_CreatedAt a) then updated else wa_CreatedAt a),
       wa_Stage := TrimSpace (wa_Stage a), wa_ApprovedBy := TrimSpace (wa_ApprovedBy a),
       wa_Ticket := TrimSpace (wa_Ticket a), wa_Notes := TrimSpace (wa_Notes a)\<rparr>"

definition normalizeNote :: "time \<Rightarrow> string \<Rightarrow> WorkspaceNote \<Rightarrow> WorkspaceNote" where
  "normalizeNote updated newID n =
     n\<lparr>wn_ID := (if TrimSpace (wn_ID n) = [] then newID else wn_ID n),
       wn_Kind := (if wn_Kind n = [] then WorkspaceNoteKindOperator else wn_Kind n),
       wn_CreatedAt := (if isZero (wn_CreatedAt n) then updated else wn_CreatedAt n),
       wn_Author := TrimSpace (wn_Author n), wn_Body := TrimSpace (wn_Body n)\<rparr>"

definition normalizeReport :: "time \<Rightarrow> string \<Rightarrow> WorkspaceReportArtifact \<Rightarrow> WorkspaceReportArtifact" where
  "normalizeReport updated newID a =
     a\<lparr>wra_ID := (if TrimSpace (wra_ID a) = [] then newID else wra_ID a),
       wra_ExportedAt := (if isZero (wra_ExportedAt a) then updated else wra_ExportedAt a),
       wra_Name := TrimSpace (wra_Name a), wra_Format := TrimSpace (wra_Format a),
       wra_FileName := TrimSpace (wra_FileName a), wra_CorrelationID := TrimSpace (wra_CorrelationID a)\<rparr>"

definition normalizeAssumptions :: "WorkspaceTargetAssumptions \<Rightarrow> WorkspaceTargetAssumptions" where
  "normalizeAssumptions t =
     t\<lparr>wta_Address := TrimSpace (wta_Address t), wta_CredentialRef := TrimSpace (wta_CredentialRef t),
       wta_DefaultHost := TrimSpace (wta_DefaultHost t), wta_DefaultStorage := TrimSpace (wta_DefaultStorage t),
       wta_DefaultNetwork := TrimSpace (wta_DefaultNetwork t), wta_Notes := TrimSpace (wta_Notes t)\<rparr>"

definition normalizePlanSettings :: "WorkspacePlanSettings \<Rightarrow> WorkspacePlanSettings" where
  "normalizePlanSettings t =
     t\<lparr>wps_Name := TrimSpace (wps_Name t), wps_ApprovedBy := TrimSpace (wps_ApprovedBy t),
       wps_ApprovalTicket := TrimSpace (wps_ApprovalTicket t)\<rparr>"

text \<open>Copying a slice is the identity on its value, so the artifact copies of the source vanish.\<close>

definition normalizeWorkspace ::
  "(string \<Rightarrow> nat \<Rightarrow> string) \<Rightarrow> time \<Rightarrow> string \<Rightarrow> PilotWorkspace \<Rightarrow> PilotWorkspace" where
  "normalizeWorkspace uuid now tenantID w =
     (let created = (if isZero (wk_CreatedAt w) then now else wk_CreatedAt w);
          updated = (if isZero (wk_UpdatedAt w) then created else wk_UpdatedAt w)
      in w\<lparr>wk_TenantID := normalizeTenantID tenantID, wk_Name := TrimSpace (wk_Name w),
           wk_Description := TrimSpace (wk_Description w),
           wk_Status := (if wk_Status w = [] then PilotWorkspaceStatusDraft else wk_Status w),
           wk_CreatedAt := created, wk_UpdatedAt := updated,
           wk_SourceConnections :=
             mapIndexed (\<lambda>i. normalizeConnection (uuid ''connection'' i)) (wk_SourceConnections w),
           wk_TargetAssumptions := normalizeAssumptions (wk_TargetAssumptions w),
           wk_PlanSettings := normalizePlanSettings (wk_PlanSettings w),
           wk_Approvals := mapIndexed (\<lambda>i. normalizeApproval updated (uuid ''approval'' i)) (wk_Approvals w),
           wk_Notes := mapIndexed (\<lambda>i. normalizeNote updated (uuid ''note'' i)) (wk_Notes w),
           wk_Reports := mapIndexed (\<lambda>i. normalizeReport updated (uuid ''report'' i)) (wk_Reports w)\<rparr>)"

definition CreateWorkspace ::
  "jsonLib \<Rightarrow> (string \<Rightarrow> nat \<Rightarrow> string) \<Rightarrow> Context \<Rightarrow> time \<Rightarrow> 'raw MemoryStore \<Rightarrow> string \<Rightarrow> PilotWorkspace
   \<Rightarrow> (goerror + unit) \<times> 'raw MemoryStore" where
  "CreateWorkspace lib uuid ctx now s tenantID0 workspace0 =
     onDone ctx ''create workspace''
       (if TrimSpace (wk_ID workspace0) = []
        then (Inl (Errorf ''memory store: create workspace: workspace ID is empty'' []), s)
        else if TrimSpace (wk_Name workspace0) = []
        then (Inl (Errorf ''memory store: create workspace: workspace name is empty'' []), s)
        else
          (let tenantID = normalizeTenantID tenantID0;
               workspace = normalizeWorkspace uuid now tenantID workspace0;
               key = tenantWorkspaceKey tenantID (wk_ID workspace)
           in case ensureTenantLocked s tenantID of
                (Inl err, s1) \<Rightarrow> (Inl (storeErr ''create workspace'' err), s1)
              | (Inr _, s1) \<Rightarrow>
                  if map_of (st_workspaces s1) key \<noteq> None
                  then (Inl (Errorf ''memory store: create workspace %s: already exists'' [wk_ID workspace]), s1)
                  else (case cloneWorkspace lib workspace of
                          Inl err \<Rightarrow> (Inl (storeErr ''create workspace'' err), s1)
                        | Inr cloned \<Rightarrow>
                            (Inr (), s1\<lparr>st_workspaces := AList.update key
                                \<lparr>so_tenantID = tenantID, so_value = cloned\<rparr> (st_workspaces s1)\<rparr>))))
       s"

text \<open>\<open>now2\<close> is the clock reading that replaces an \<open>UpdatedAt\<close> that does not advance.\<close>

definition UpdateWorkspace ::
  "jsonLib \<Rightarrow> (string \<Rightarrow> nat \<Rightarrow> string) \<Rightarrow> Context \<Rightarrow> time \<Rightarrow> time \<Rightarrow> 'raw MemoryStore \<Rightarrow> string \<Rightarrow> PilotWorkspace
   \<Rightarrow> (goerror + unit) \<times> 'raw MemoryStore" where
  "UpdateWorkspace lib uuid ctx now now2 s tenantID0 workspace0 =
     onDone ctx ''update workspace''
       (if TrimSpace (wk_ID workspace0) = []
        then (Inl (Errorf ''memory store: update workspace: workspace ID is empty'' []), s)
        else if TrimSpace (wk_Name workspace0) = []
        then (Inl (Errorf ''memory store: update workspace: workspace name is empty'' []), s)
        else
          (let tenantID = normalizeTenantID tenantID0;
               key = tenantWorkspaceKey tenantID (wk_ID workspace0);
               missing = Inl (Errorf ''memory store: update workspace %s: not found'' [wk_ID workspace0])
           in case ensureTenantLocked s tenantID of
                (Inl err, s1) \<Rightarrow> (Inl (storeErr ''update workspace'' err), s1)
              | (Inr _, s1) \<Rightarrow>
                  (case map_of (st_workspaces s1) key of
                     None \<Rightarrow> (missing, s1)
                   | Some existing \<Rightarrow>
                       if so_tenantID existing \<noteq> tenantID then (missing, s1)
                       else
                         (let w1 = normalizeWorkspace uuid now tenantID workspace0;
                              w2 = (if isZero (wk_CreatedAt workspace0)
                                    then w1\<lparr>wk_CreatedAt := wk_CreatedAt (so_value existing)\<rparr> else w1);
                              w3 = (if isZero (wk_UpdatedAt w2)
                                       \<or> \<not> wk_UpdatedAt w2 > wk_UpdatedAt (so_value existing)
                                    then w2\<lparr>wk_UpdatedAt := now2\<rparr> else w2)
                          in case cloneWorkspace lib w3 of
                               Inl err \<Rightarrow> (Inl (storeErr ''update workspace'' err), s1)
                             | Inr cloned \<Rightarrow>
                                 (Inr (), s1\<lparr>st_workspaces := AList.update key
                                     \<lparr>so_tenantID = tenantID, so_value = cloned\<rparr> (st_workspaces s1)\<rparr>)))))
       s"

definition GetWorkspace ::
  "jsonLib \<Rightarrow> Context \<Rightarrow> 'raw MemoryStore \<Rightarrow> string \<Rightarrow> string \<Rightarrow> (goerror + PilotWorkspace) \<times> 'raw MemoryStore" where
  "GetWorkspace lib ctx s tenantID0 workspaceID =
     onDone ctx ''get workspace''
       (let tenantID = normalizeTenantID tenantID0;
            missing = Inl (Errorf ''memory store: get workspace %s: not found'' [workspaceID])
        in case map_of (st_workspaces s) (tenantWorkspaceKey tenantID workspaceID) of
             None \<Rightarrow> (missing, s)
           | Some item \<Rightarrow>
               if so_tenantID item \<noteq> tenantID then (missing, s)
               else (case cloneWorkspace lib (so_value item) of
                       Inl err \<Rightarrow> (Inl (storeErr ''get workspace'' err), s)
                     | Inr cloned \<Rightarrow> (Inr cloned, s)))
       s"

text \<open>The loops of the list operations stop at the first value that cannot be cloned.\<close>

fun cloneAll :: "('a \<Rightarrow> goerror + 'a) \<Rightarrow> 'a list \<Rightarrow> goerror + 'a list" where
  "cloneAll clone [] = Inr []"
| "cloneAll clone (x # xs) =
     (case clone x of
        Inl err \<Rightarrow> Inl err
      | Inr y \<Rightarrow> (case cloneAll clone xs of Inl err \<Rightarrow> Inl err | Inr ys \<Rightarrow> Inr (y # ys)))"

definition ListWorkspaces ::
  "jsonLib \<Rightarrow> (string list \<Rightarrow> nat list) \<Rightarrow> (int list \<Rightarrow> nat list) \<Rightarrow> Context \<Rightarrow> 'raw MemoryStore \<Rightarrow> string \<Rightarrow> int
   \<Rightarrow> (goerror + PilotWorkspace list) \<times> 'raw MemoryStore" where
  "ListWorkspaces lib r p ctx s tenantID0 limit =
     onDone ctx ''list workspaces''
       (let tenantID = normalizeTenantID tenantID0;
            own = map (\<lambda>(k, item). so_value item)
                    (filter (\<lambda>(k, item). so_tenantID item = tenantID) (rangeMap r (st_workspaces s)))
        in case cloneAll (cloneWorkspace lib) own of
             Inl err \<Rightarrow> (Inl (storeErr ''list workspaces'' err), s)
           | Inr items \<Rightarrow> (Inr (limitTo limit (sort_slice p (\<lambda>w. - wk_UpdatedAt w) items)), s))
       s"

definition DeleteWorkspace ::
  "Context \<Rightarrow> 'raw MemoryStore \<Rightarrow> string \<Rightarrow> string \<Rightarrow> (goerror + unit) \<times> 'raw MemoryStore" where
  "DeleteWorkspace ctx s tenantID0 workspaceID =
     onDone ctx ''delete workspace''
       (let tenantID = normalizeTenantID tenantID0;
            key = tenantWorkspaceKey tenantID workspaceID;
            missing = Inl (Errorf ''memory store: delete workspace %s: not found'' [workspaceID])
        in case map_of (st_workspaces s) key of
             None \<Rightarrow> (missing, s)
           | Some item \<Rightarrow>
               if so_tenantID item \<noteq> tenantID then (missing, s)
               else (Inr (), s\<lparr>st_workspaces := AList.delete key (st_workspaces s),
                       st_workspaceJobs :=
                         filter (\<lambda>(k, job). \<not> (so_tenantID job = tenantID
                                               \<and> wj_WorkspaceID (so_value job) = workspaceID))
                           (st_workspaceJobs s)\<rparr>))
       s"

definition normalizeWorkspaceJob :: "time \<Rightarrow> string \<Rightarrow> WorkspaceJob \<Rightarrow> WorkspaceJob" where
  "normalizeWorkspaceJob now tenantID j =
     (let requested = (if isZero (wj_RequestedAt j) then now else wj_RequestedAt j) in
      j\<lparr>wj_TenantID := normalizeTenantID tenantID, wj_WorkspaceID := TrimSpace (wj_WorkspaceID j),
        wj_RequestedBy := TrimSpace (wj_RequestedBy j), wj_CorrelationID := TrimSpace (wj_CorrelationID j),
        wj_Message := TrimSpace (wj_Message j), wj_Error := TrimSpace (wj_Error j),
        wj_Status := (if wj_Status j = [] then WorkspaceJobStatusQueued else wj_Status j),
        wj_RequestedAt := requested,
        wj_UpdatedAt := (if isZero (wj_UpdatedAt j) then requested else wj_UpdatedAt j)\<rparr>)"

definition SaveWorkspaceJob ::
  "jsonLib \<Rightarrow> Context \<Rightarrow> time \<Rightarrow> 'raw MemoryStore \<Rightarrow> string \<Rightarrow> WorkspaceJob
   \<Rightarrow> (goerror + unit) \<times> 'raw MemoryStore" where
  "SaveWorkspaceJob lib ctx now s tenantID0 job0 =
     onDone ctx ''save workspace job''
       (if TrimSpace (wj_ID job0) = []
        then (Inl (Errorf ''memory store: save workspace job: job ID is empty'' []), s)
        else if TrimSpace (wj_WorkspaceID job0) = []
        then (Inl (Errorf ''memory store: save workspace job: workspace ID is empty'' []), s)
        else
          (let tenantID = normalizeTenantID tenantID0;
               job = normalizeWorkspaceJob now tenantID job0;
               key = tenantWorkspaceJobKey tenantID (wj_WorkspaceID job) (wj_ID job)
           in case ensureTenantLocked s tenantID of
                (Inl err, s1) \<Rightarrow> (Inl (storeErr ''save workspace job'' err), s1)
              | (Inr _, s1) \<Rightarrow>
                  if map_of (st_workspaceJobs s1) key = None
                     \<and> map_of (st_workspaces s1) (tenantWorkspaceKey tenantID (wj_WorkspaceID job)) = None
                  then (Inl (Errorf ''memory store: save workspace job: workspace %s not found''
                               [wj_WorkspaceID job]), s1)
                  else (case cloneWorkspaceJob lib job of
                          Inl err \<Rightarrow> (Inl (storeErr ''save workspace job'' err), s1)
                        | Inr cloned \<Rightarrow>
                            (Inr (), s1\<lparr>st_workspaceJobs := AList.update key
                                \<lparr>so_tenantID = tenantID, so_value = cloned\<rparr> (st_workspaceJobs s1)\<rparr>))))
       s"

definition GetWorkspaceJob ::
  "jsonLib \<Rightarrow> Context \<Rightarrow> 'raw MemoryStore \<Rightarrow> string \<Rightarrow> string \<Rightarrow> string \<Rightarrow> (goerror + WorkspaceJob) \<times> 'raw MemoryStore" where
  "GetWorkspaceJob lib ctx s tenantID0 workspaceID jobID =
     onDone ctx ''get workspace job''
       (let tenantID = normalizeTenantID tenantID0;
            missing = Inl (Errorf ''memory store: get workspace job %s: not found'' [jobID])
        in case map_of (st_workspaceJobs s) (tenantWorkspaceJobKey tenantID workspaceID jobID) of
             None \<Rightarrow> (missing, s)
           | Some item \<Rightarrow>
               if so_tenantID item \<noteq> tenantID then (missing, s)
               else (case cloneWorkspaceJob lib (so_value item) of
                       Inl err \<Rightarrow> (Inl (storeErr ''get workspace job'' err), s)
                     | Inr cloned \<Rightarrow> (Inr cloned, s)))
       s"

definition ListWorkspaceJobs ::
  "jsonLib \<Rightarrow> (string list \<Rightarrow> nat list) \<Rightarrow> (int list \<Rightarrow> nat list) \<Rightarrow> Context \<Rightarrow> 'raw MemoryStore
   \<Rightarrow> string \<Rightarrow> string \<Rightarrow> int \<Rightarrow> (goerror + WorkspaceJob list) \<times> 'raw MemoryStore" where
  "ListWorkspaceJobs lib r p ctx s tenantID0 workspaceID limit =
     onDone ctx ''list workspace jobs''
       (let tenantID = normalizeTenantID tenantID0;
            own = map (\<lambda>(k, item). so_value item)
                    (filter (\<lambda>(k, item). so_tenantID item = tenantID
                                \<and> wj_WorkspaceID (so_value item) = workspaceID)
                       (rangeMap r (st_workspaceJobs s)))
        in case cloneAll (cloneWorkspaceJob lib) own of
             Inl err \<Rightarrow> (Inl (storeErr ''list workspace jobs'' err), s)
           | Inr items \<Rightarrow> (Inr (limitTo limit (sort_slice p (\<lambda>j. - wj_UpdatedAt j) items)), s))
       s"

section \<open>Looking up a credential, auth_lookup.go\<close>

fun findAccount :: "time \<Rightarrow> string \<Rightarrow> ServiceAccount list \<Rightarrow> ServiceAccount option" where
  "findAccount now hash [] = None"
| "findAccount now hash (account # accounts) =
     (if \<not> serviceAccountCredentialActive account now \<or> \<not> credentialHashMatches (sa_APIKeyHash account) hash
      then findAccount now hash accounts
      else Some account)"

fun lookupLoop :: "time \<Rightarrow> string \<Rightarrow> Tenant list \<Rightarrow> CredentialLookupResult option" where
  "lookupLoop now hash [] = None"
| "lookupLoop now hash (tenant # tenants) =
     (if \<not> tn_Active tenant then lookupLoop now hash tenants
      else if credentialHashMatches (tn_APIKeyHash tenant) hash
      then Some \<lparr>cl_Tenant = cloneTenant tenant, cl_ServiceAccount = None\<rparr>
      else (case findAccount now hash (tn_ServiceAccounts tenant) of
              None \<Rightarrow> lookupLoop now hash tenants
            | Some account \<Rightarrow>
                (case filter (\<lambda>a. sa_ID a = sa_ID account) (tn_ServiceAccounts (cloneTenant tenant)) of
                   [] \<Rightarrow> None
                 | clone # _ \<Rightarrow> Some \<lparr>cl_Tenant = cloneTenant tenant, cl_ServiceAccount = Some clone\<rparr>)))"

definition LookupCredentialByHash ::
  "(string list \<Rightarrow> nat list) \<Rightarrow> Context \<Rightarrow> time \<Rightarrow> 'raw MemoryStore \<Rightarrow> string
   \<Rightarrow> (goerror + CredentialLookupResult option) \<times> 'raw MemoryStore" where
  "LookupCredentialByHash r ctx now s credentialHash0 =
     onDone ctx ''lookup credential by hash''
       (let credentialHash = TrimSpace credentialHash0 in
        if credentialHash = [] then (Inr None, s)
        else (Inr (lookupLoop now credentialHash (map snd (rangeMap r (st_tenants s)))), s))
       s"

end
