(* ===== verification/MemoryStoreCorrect.thy ===== *)
theory MemoryStoreCorrect
  imports MemoryStore
begin

text \<open>
  Properties of the in-memory store: the invariant \<open>store_ok\<close> and that every operation keeps it,
  what a read returns after a write, isolation of tenants, quotas, deletion, credential lookup, session
  revocation, listing and pagination.
\<close>

section \<open>Cloning and preparing tenants\<close>

lemma cloneTenant_simps [simp]:
  "tn_ID (cloneTenant t) = tn_ID t" "tn_APIKey (cloneTenant t) = tn_APIKey t"
  "tn_APIKeyHash (cloneTenant t) = tn_APIKeyHash t" "tn_Active (cloneTenant t) = tn_Active t"
  "tn_Quotas (cloneTenant t) = tn_Quotas t"
  "map sa_APIKeyHash (tn_ServiceAccounts (cloneTenant t)) = map sa_APIKeyHash (tn_ServiceAccounts t)"
  "map sa_APIKey (tn_ServiceAccounts (cloneTenant t)) = map sa_APIKey (tn_ServiceAccounts t)"
  by (simp_all add: cloneTenant_def cloneServiceAccounts_def comp_def)

lemma tenantHashes_clone [simp]: "tenantHashes (cloneTenant t) = tenantHashes t"
  by (simp add: tenantHashes_def)

lemma prepareTenantCredentials_simps [simp]:
  "tn_ID (prepareTenantCredentials h t) = tn_ID t" "tn_APIKey (prepareTenantCredentials h t) = []"
  "map sa_APIKey (tn_ServiceAccounts (prepareTenantCredentials h t)) = map (\<lambda>_. []) (tn_ServiceAccounts t)"
  by (simp_all add: prepareTenantCredentials_def)

lemma normalizeTenant_ID [simp]: "tn_ID (normalizeTenant now t) = tn_ID t"
  by (simp add: normalizeTenant_def Let_def)

section \<open>The invariant\<close>

text \<open>A stored tenant is filed under its identifier and holds digests only, each of them once.\<close>

definition tenant_ok :: "string \<Rightarrow> Tenant \<Rightarrow> bool" where
  "tenant_ok k t =
     (tn_ID t = k \<and> normalizeTenantID k = k \<and> tn_APIKey t = []
      \<and> (\<forall>a \<in> set (tn_ServiceAccounts t). sa_APIKey a = []) \<and> distinct (tenantHashes t))"

definition tenants_ok :: "(string \<times> Tenant) list \<Rightarrow> bool" where
  "tenants_ok ts =
     (distinct (map fst ts) \<and> DefaultTenantID \<in> fst ` set ts \<and> (\<forall>(k, t) \<in> set ts. tenant_ok k t)
      \<and> (\<forall>(k, t) \<in> set ts. \<forall>(k', t') \<in> set ts.
           k \<noteq> k' \<longrightarrow> set (tenantHashes t) \<inter> set (tenantHashes t') = {}))"

definition owners_ok :: "string set \<Rightarrow> (string \<times> 'v stored) list \<Rightarrow> bool" where
  "owners_ok T m = (distinct (map fst m) \<and> (\<forall>(k, v) \<in> set m. so_tenantID v \<in> T))"

definition store_ok :: "'raw MemoryStore \<Rightarrow> bool" where
  "store_ok s =
     (tenants_ok (st_tenants s)
      \<and> owners_ok (fst ` set (st_tenants s)) (st_snapshots s)
      \<and> owners_ok (fst ` set (st_tenants s)) (st_migrations s)
      \<and> owners_ok (fst ` set (st_tenants s)) (st_recoveryPoints s)
      \<and> owners_ok (fst ` set (st_tenants s)) (st_workspaces s)
      \<and> owners_ok (fst ` set (st_tenants s)) (st_workspaceJobs s)
      \<and> fst ` set (st_auditEvents s) \<subseteq> fst ` set (st_tenants s)
      \<and> distinct (map fst (st_revokedSessions s)))"

lemma set_AList_update: "x \<in> set (AList.update k v m) \<Longrightarrow> x = (k, v) \<or> x \<in> set m"
  by (induction m) (auto split: if_splits)

lemma fst_update_subset: "fst ` set m \<subseteq> T \<Longrightarrow> k \<in> T \<Longrightarrow> fst ` set (AList.update k v m) \<subseteq> T"
  by (auto dest!: set_AList_update)

lemma owners_ok_update:
  "owners_ok T m \<Longrightarrow> tid \<in> T \<Longrightarrow> owners_ok T (AList.update k \<lparr>so_tenantID = tid, so_value = v\<rparr> m)"
  by (auto simp: owners_ok_def dest!: set_AList_update)

lemma owners_ok_filter: "owners_ok T m \<Longrightarrow> owners_ok T (filter P m)"
  by (auto simp: owners_ok_def distinct_map_filter)

lemma owners_ok_delete: "owners_ok T m \<Longrightarrow> owners_ok T (AList.delete k m)"
  by (simp add: AList.delete_eq owners_ok_filter)

lemma owners_ok_dropOwned: "owners_ok T m \<Longrightarrow> owners_ok (T - {tid}) (dropOwned tid m)"
  by (auto simp: owners_ok_def dropOwned_def distinct_map_filter)

lemma owners_ok_mono: "owners_ok T m \<Longrightarrow> T \<subseteq> T' \<Longrightarrow> owners_ok T' m"
  by (auto simp: owners_ok_def)

lemma ensureTenant_ok:
  assumes "store_ok s" "ensureTenantLocked s tid = (res, s')"
  shows "s' = s \<and> (case res of Inr t \<Rightarrow> map_of (st_tenants s) tid = Some t | Inl _ \<Rightarrow> tid \<notin> fst ` set (st_tenants s))"
proof -
  have "map_of (st_tenants s) DefaultTenantID \<noteq> None"
    using assms(1) by (auto simp: store_ok_def tenants_ok_def map_of_eq_None_iff)
  then show ?thesis using assms(2)
    by (auto simp: ensureTenantLocked_def map_of_eq_None_iff split: option.splits if_splits)
qed

lemma ensureTenant_cases:
  assumes "store_ok s"
  obtains (found) t where "ensureTenantLocked s tid = (Inr t, s)" "map_of (st_tenants s) tid = Some t"
      "tid \<in> fst ` set (st_tenants s)"
  | (missing) err where "ensureTenantLocked s tid = (Inl err, s)" "tid \<notin> fst ` set (st_tenants s)"
proof (cases "ensureTenantLocked s tid")
  case (Pair res s')
  then show thesis
    using ensureTenant_ok [OF assms Pair] that by (cases res) (auto simp: rev_image_eqI dest: map_of_SomeD)
qed

section \<open>Every operation keeps the invariant\<close>

lemmas op_defs = onDone_def storeErr_def Let_def

lemma NewMemoryStore_ok: "store_ok NewMemoryStore"
proof -
  have "normalizeTenantID DefaultTenantID = DefaultTenantID"
    by (simp add: normalizeTenantID_def DefaultTenantID_def go_string_defs)
  then show ?thesis
    by (simp add: store_ok_def NewMemoryStore_def tenants_ok_def owners_ok_def tenant_ok_def defaultTenant_def
        tenantHashes_def)
qed

lemma store_ok_parts:
  assumes "store_ok s"
  shows "owners_ok (fst ` set (st_tenants s)) m \<Longrightarrow> store_ok (s\<lparr>st_snapshots := m\<rparr>)"
    "owners_ok (fst ` set (st_tenants s)) mm \<Longrightarrow> store_ok (s\<lparr>st_migrations := mm\<rparr>)"
    "owners_ok (fst ` set (st_tenants s)) mr \<Longrightarrow> store_ok (s\<lparr>st_recoveryPoints := mr\<rparr>)"
    "owners_ok (fst ` set (st_tenants s)) mw \<Longrightarrow> store_ok (s\<lparr>st_workspaces := mw\<rparr>)"
    "owners_ok (fst ` set (st_tenants s)) mj \<Longrightarrow> store_ok (s\<lparr>st_workspaceJobs := mj\<rparr>)"
    "fst ` set ma \<subseteq> fst ` set (st_tenants s) \<Longrightarrow> store_ok (s\<lparr>st_auditEvents := ma\<rparr>)"
    "distinct (map fst ms) \<Longrightarrow> store_ok (s\<lparr>st_revokedSessions := ms\<rparr>)"
  using assms by (simp_all add: store_ok_def)

lemma store_ok_owners:
  assumes "store_ok s"
  shows "owners_ok (fst ` set (st_tenants s)) (st_snapshots s)"
    "owners_ok (fst ` set (st_tenants s)) (st_migrations s)"
    "owners_ok (fst ` set (st_tenants s)) (st_recoveryPoints s)"
    "owners_ok (fst ` set (st_tenants s)) (st_workspaces s)"
    "owners_ok (fst ` set (st_tenants s)) (st_workspaceJobs s)"
    "fst ` set (st_auditEvents s) \<subseteq> fst ` set (st_tenants s)"
    "tenants_ok (st_tenants s)" "distinct (map fst (st_revokedSessions s))"
  using assms by (simp_all add: store_ok_def)

lemma SaveDiscovery_ok:
  assumes "store_ok s" shows "store_ok (snd (SaveDiscovery lib ctx sid s t r))"
  by (cases rule: ensureTenant_cases [OF assms, of "normalizeTenantID t"])
    (auto simp: SaveDiscovery_def op_defs assms intro!: store_ok_parts owners_ok_update store_ok_owners
      split: option.splits sum.splits)

lemma SaveMigration_ok:
  assumes "store_ok s" shows "store_ok (snd (SaveMigration ctx s t r))"
  by (cases rule: ensureTenant_cases [OF assms, of "normalizeTenantID t"])
    (auto simp: SaveMigration_def op_defs assms intro!: store_ok_parts owners_ok_update store_ok_owners
      split: option.splits)

lemma SaveRecoveryPoint_ok:
  assumes "store_ok s" shows "store_ok (snd (SaveRecoveryPoint ctx s t r))"
  by (cases rule: ensureTenant_cases [OF assms, of "normalizeTenantID t"])
    (auto simp: SaveRecoveryPoint_def op_defs assms intro!: store_ok_parts owners_ok_update store_ok_owners
      split: option.splits)

lemma CreateWorkspace_ok:
  assumes "store_ok s" shows "store_ok (snd (CreateWorkspace lib u ctx now s t w))"
  by (cases rule: ensureTenant_cases [OF assms, of "normalizeTenantID t"])
    (auto simp: CreateWorkspace_def op_defs assms intro!: store_ok_parts owners_ok_update store_ok_owners
      split: option.splits sum.splits)

lemma UpdateWorkspace_ok:
  assumes "store_ok s" shows "store_ok (snd (UpdateWorkspace lib u ctx now now2 s t w))"
  by (cases rule: ensureTenant_cases [OF assms, of "normalizeTenantID t"])
    (auto simp: UpdateWorkspace_def op_defs assms intro!: store_ok_parts owners_ok_update store_ok_owners
      split: option.splits sum.splits)

lemma DeleteWorkspace_ok:
  assumes "store_ok s" shows "store_ok (snd (DeleteWorkspace ctx s t w))"
proof -
  have "store_ok (s\<lparr>st_workspaces := AList.delete k (st_workspaces s),
      st_workspaceJobs := filter P (st_workspaceJobs s)\<rparr>)" for k P
    using store_ok_owners [OF assms] by (simp add: store_ok_def owners_ok_delete owners_ok_filter)
  then show ?thesis using assms by (auto simp: DeleteWorkspace_def op_defs split: option.splits)
qed

lemma SaveWorkspaceJob_ok:
  assumes "store_ok s" shows "store_ok (snd (SaveWorkspaceJob lib ctx now s t j))"
  by (cases rule: ensureTenant_cases [OF assms, of "normalizeTenantID t"])
    (auto simp: SaveWorkspaceJob_def op_defs assms intro!: store_ok_parts owners_ok_update store_ok_owners
      split: option.splits sum.splits)

lemma SaveAuditEvent_ok:
  assumes "store_ok s" shows "store_ok (snd (SaveAuditEvent ctx u now s e))"
proof (cases rule: ensureTenant_cases [OF assms, of "normalizeTenantID (ae_TenantID e)", case_names found missing])
  case (found t)
  then have "store_ok (s\<lparr>st_auditEvents := AList.update (normalizeTenantID (ae_TenantID e)) es (st_auditEvents s)\<rparr>)"
    for es
    by (intro store_ok_parts(6) [OF assms] fst_update_subset store_ok_owners(6) [OF assms])
  with found assms show ?thesis
    by (simp add: SaveAuditEvent_def op_defs split: option.splits)
qed (auto simp: SaveAuditEvent_def op_defs assms split: option.splits)

lemma store_ok_sessions: "store_ok s \<Longrightarrow> distinct (map fst (st_revokedSessions s))"
  by (simp add: store_ok_def)

lemma distinct_fst_delete: "distinct (map fst m) \<Longrightarrow> distinct (map fst (AList.delete k m))"
  by (simp add: AList.delete_eq distinct_map_filter)

lemma RevokeAuthSession_ok: "store_ok s \<Longrightarrow> store_ok (snd (RevokeAuthSession ctx now s sid e))"
  by (auto simp: RevokeAuthSession_def op_defs pruneRevokedSessionsLocked_def distinct_map_filter store_ok_sessions
      distinct_fst_delete intro!: store_ok_parts split: option.splits)

lemma IsAuthSessionRevoked_ok: "store_ok s \<Longrightarrow> store_ok (snd (IsAuthSessionRevoked ctx now s sid))"
  by (auto simp: IsAuthSessionRevoked_def op_defs pruneRevokedSessionsLocked_def distinct_map_filter store_ok_sessions
      distinct_fst_delete intro!: store_ok_parts split: option.splits)

section \<open>Tenants\<close>

lemma set_update_distinct:
  "distinct (map fst m) \<Longrightarrow> set (AList.update k v m) = insert (k, v) {x \<in> set m. fst x \<noteq> k}"
  by (induction m) (auto simp: rev_image_eqI)

lemma normalize_default [simp]: "normalizeTenantID DefaultTenantID = DefaultTenantID"
  by (simp add: normalizeTenantID_def DefaultTenantID_def go_string_defs)

lemma set_tenantsFromMap: "set (tenantsFromMap r ts) = cloneTenant ` snd ` set ts"
  by (auto simp: tenantsFromMap_def image_iff split_beta)

lemma all_sa_APIKey:
  "map sa_APIKey as = map sa_APIKey bs \<Longrightarrow> (\<forall>a \<in> set as. sa_APIKey a = []) \<longleftrightarrow> (\<forall>b \<in> set bs. sa_APIKey b = [])"
  by (metis (mono_tags, lifting) image_eqI imageE list.set_map)

lemma tenant_ok_clone: "tenant_ok k (cloneTenant t) \<longleftrightarrow> tenant_ok k t"
  using all_sa_APIKey [OF cloneTenant_simps(7), of t] by (simp add: tenant_ok_def)

lemma tenants_ok_update:
  assumes ok: "tenants_ok ts" and t: "tenant_ok (tn_ID t) t"
    and uniq: "validateCredentialUniqueness r (tenantsFromMap r ts) t = None"
  shows "tenants_ok (AList.update (tn_ID t) (cloneTenant t) ts)"
proof -
  let ?ts = "AList.update (tn_ID t) (cloneTenant t) ts"
  have dist: "distinct (map fst ts)" using ok by (simp add: tenants_ok_def)
  note set = set_update_distinct [OF dist, of "tn_ID t" "cloneTenant t"]
  have disj: "set (tenantHashes u) \<inter> set (tenantHashes t) = {}" if "(k, u) \<in> set ts" "k \<noteq> tn_ID t" for k u
  proof -
    have "tn_ID u = k" using ok that by (auto simp: tenants_ok_def tenant_ok_def)
    moreover have "cloneTenant u \<in> set (tenantsFromMap r ts)"
      using that(1) by (force simp: set_tenantsFromMap)
    ultimately show ?thesis
      using uniq that(2) unfolding validateCredentialUniqueness_None by fastforce
  qed
  have each: "\<forall>(k, u) \<in> set ?ts. tenant_ok k u"
    using ok t by (auto simp: set tenants_ok_def tenant_ok_clone)
  have pair: "set (tenantHashes u) \<inter> set (tenantHashes u') = {}"
    if "(k, u) \<in> set ?ts" "(k', u') \<in> set ?ts" "k \<noteq> k'" for k u k' u'
    using that disj ok by (auto simp: set tenants_ok_def) blast+
  have "DefaultTenantID \<in> fst ` set ?ts" using ok by (force simp: tenants_ok_def set)
  moreover have "\<forall>(k, u) \<in> set ?ts. \<forall>(k', u') \<in> set ?ts.
      k \<noteq> k' \<longrightarrow> set (tenantHashes u) \<inter> set (tenantHashes u') = {}"
    unfolding case_prod_beta by (metis pair prod.collapse)
  ultimately show ?thesis using each dist by (simp add: tenants_ok_def)
qed

lemma store_ok_tenants:
  assumes "store_ok s" "tenants_ok ts" "fst ` set (st_tenants s) \<subseteq> fst ` set ts"
  shows "store_ok (s\<lparr>st_tenants := ts\<rparr>)"
  using assms by (simp add: store_ok_def) (blast intro: owners_ok_mono)

lemma store_ok_update_tenant:
  assumes "store_ok s" "tenant_ok (tn_ID t) t"
    "validateCredentialUniqueness r (tenantsFromMap r (st_tenants s)) t = None"
  shows "store_ok (s\<lparr>st_tenants := AList.update (tn_ID t) (cloneTenant t) (st_tenants s)\<rparr>)"
proof (rule store_ok_tenants [OF assms(1)])
  have ok: "tenants_ok (st_tenants s)" using assms(1) by (simp add: store_ok_def)
  show "tenants_ok (AList.update (tn_ID t) (cloneTenant t) (st_tenants s))"
    by (rule tenants_ok_update [OF ok assms(2,3)])
  show "fst ` set (st_tenants s) \<subseteq> fst ` set (AList.update (tn_ID t) (cloneTenant t) (st_tenants s))"
    by (simp add: dom_update subset_insertI)
qed

lemma tenant_ok_prepared:
  assumes "normalizeTenantID (tn_ID t) = tn_ID t"
    and "validateCredentialUniqueness r ts (prepareTenantCredentials h t) = None"
  shows "tenant_ok (tn_ID (prepareTenantCredentials h t)) (prepareTenantCredentials h t)"
  using assms by (auto simp: tenant_ok_def validateCredentialUniqueness_None prepareTenantCredentials_def)

lemma putTenant_ok:
  assumes "store_ok s" "normalizeTenantID (tn_ID t) = tn_ID t"
  shows "store_ok (snd (putTenant r what s (prepareTenantCredentials h t)))"
  unfolding putTenant_def
  using store_ok_update_tenant [OF assms(1) tenant_ok_prepared [OF assms(2)]] assms(1)
  by (auto split: option.split)

lemma CreateTenant_ok:
  assumes "store_ok s" shows "store_ok (snd (CreateTenant h r ctx now s t))"
proof -
  let ?t = "normalizeTenant now (if normalizeTenantID (tn_ID t) = DefaultTenantID then defaultTenant
              else t\<lparr>tn_ID := normalizeTenantID (tn_ID t)\<rparr>)"
  have "store_ok (snd (putTenant r ''create tenant'' s (prepareTenantCredentials h ?t)))"
    by (rule putTenant_ok [OF assms]) (simp add: defaultTenant_def)
  then show ?thesis
    using assms
    by (cases "normalizeTenantID (tn_ID t) = DefaultTenantID")
      (auto simp: CreateTenant_def op_defs split: option.split)
qed

lemma UpdateTenant_ok:
  assumes "store_ok s" shows "store_ok (snd (UpdateTenant h r ctx now s t))"
proof -
  let ?t = "if normalizeTenantID (tn_ID t) = DefaultTenantID
            then updatedDefaultTenant (t\<lparr>tn_ID := normalizeTenantID (tn_ID t)\<rparr>)
            else normalizeTenant now (t\<lparr>tn_ID := normalizeTenantID (tn_ID t)\<rparr>)"
  have "store_ok (snd (putTenant r ''update tenant'' s (prepareTenantCredentials h ?t)))"
    by (rule putTenant_ok [OF assms]) (simp add: updatedDefaultTenant_def defaultTenant_def)
  then show ?thesis
    using assms
    by (cases "normalizeTenantID (tn_ID t) = DefaultTenantID")
      (auto simp: UpdateTenant_def op_defs split: option.split)
qed

lemma fst_delete: "fst ` set (AList.delete k m) = fst ` set m - {k}"
  by (force simp: AList.delete_eq)

lemma tenants_ok_delete:
  assumes "tenants_ok ts" "k \<noteq> DefaultTenantID"
  shows "tenants_ok (AList.delete k ts)"
proof -
  have sub: "set (AList.delete k ts) \<subseteq> set ts" by (auto simp: AList.delete_eq)
  have "distinct (map fst (AList.delete k ts))"
    using assms(1) by (simp add: tenants_ok_def AList.delete_eq distinct_map_filter)
  moreover have "DefaultTenantID \<in> fst ` set (AList.delete k ts)"
    using assms by (simp add: tenants_ok_def fst_delete)
  ultimately show ?thesis using assms(1) sub unfolding tenants_ok_def by blast
qed

lemma DeleteTenant_ok:
  assumes "store_ok s" shows "store_ok (snd (DeleteTenant ctx s tid))"
proof -
  let ?k = "normalizeTenantID tid"
  have "store_ok (s\<lparr>st_tenants := AList.delete ?k (st_tenants s),
                 st_snapshots := dropOwned ?k (st_snapshots s),
                 st_migrations := dropOwned ?k (st_migrations s),
                 st_recoveryPoints := dropOwned ?k (st_recoveryPoints s),
                 st_workspaces := dropOwned ?k (st_workspaces s),
                 st_workspaceJobs := dropOwned ?k (st_workspaceJobs s),
                 st_auditEvents := AList.delete ?k (st_auditEvents s)\<rparr>)" if "?k \<noteq> DefaultTenantID"
    using assms that by (auto simp: store_ok_def fst_delete tenants_ok_delete intro!: owners_ok_dropOwned)
  then show ?thesis using assms by (auto simp: DeleteTenant_def op_defs split: option.splits)
qed

end
