(* ===== verification/StoreProps.thy ===== *)
theory StoreProps
  imports MemoryStoreCorrect
begin

text \<open>
  What clients of the in-memory store rely on: the reachable states, reads after writes, isolation of
  tenants, quotas, deletion, credential lookup, revocation, lists and pages.
\<close>

section \<open>Reachable stores\<close>

text \<open>One operation that writes; the parameters are those of the operation.\<close>

inductive store_step :: "'raw MemoryStore \<Rightarrow> 'raw MemoryStore \<Rightarrow> bool" where
  "store_step s (snd (SaveDiscovery lib ctx sid s t res))"
| "store_step s (snd (SaveMigration ctx s t rec))"
| "store_step s (snd (SaveRecoveryPoint ctx s t rpr))"
| "store_step s (snd (CreateTenant h r ctx now s tn))"
| "store_step s (snd (UpdateTenant h r ctx now s tn))"
| "store_step s (snd (DeleteTenant ctx s t))"
| "store_step s (snd (SaveAuditEvent ctx uid now s e))"
| "store_step s (snd (RevokeAuthSession ctx now s sid ex))"
| "store_step s (snd (IsAuthSessionRevoked ctx now s sid))"
| "store_step s (snd (CreateWorkspace lib u ctx now s t w))"
| "store_step s (snd (UpdateWorkspace lib u ctx now now2 s t w))"
| "store_step s (snd (DeleteWorkspace ctx s t wid))"
| "store_step s (snd (SaveWorkspaceJob lib ctx now s t j))"

lemmas store_op_ok = SaveDiscovery_ok SaveMigration_ok SaveRecoveryPoint_ok CreateTenant_ok UpdateTenant_ok
  DeleteTenant_ok SaveAuditEvent_ok RevokeAuthSession_ok IsAuthSessionRevoked_ok CreateWorkspace_ok
  UpdateWorkspace_ok DeleteWorkspace_ok SaveWorkspaceJob_ok

lemma store_step_ok: "store_step s s' \<Longrightarrow> store_ok s \<Longrightarrow> store_ok s'"
  by (induction rule: store_step.induct) (simp_all add: store_op_ok)

lemma store_steps_ok: "store_step\<^sup>*\<^sup>* s s' \<Longrightarrow> store_ok s \<Longrightarrow> store_ok s'"
  by (induction rule: rtranclp_induct) (simp_all add: store_step_ok)

text \<open>
  C8 (store_reachable_ok): in every state the store can reach, tenants are filed under their identifiers,
  no API key is kept in the clear, no credential hash occurs twice within or across tenants, the default
  tenant exists, and every stored snapshot, migration, recovery point, workspace, job and audit log
  belongs to an existing tenant.
\<close>

theorem store_reachable_ok:
  fixes s :: "'raw MemoryStore"
  assumes "store_step\<^sup>*\<^sup>* NewMemoryStore s"
  shows "store_ok s"
  using store_steps_ok [OF assms NewMemoryStore_ok] .

section \<open>Keys\<close>

lemma key_inject:
  assumes "a @ '':'' @ b = a' @ '':'' @ b'" "CHR '':'' \<notin> set a" "CHR '':'' \<notin> set a'"
  shows "a = a' \<and> b = b'"
proof -
  have "takeWhile (\<lambda>c. c \<noteq> CHR '':'') (x @ '':'' @ y) = x" if "CHR '':'' \<notin> set x" for x y
    using that by (induction x) auto
  then have "a = a'" using assms by metis
  with assms(1) show ?thesis by simp
qed

lemma tenantMigrationKey_inject:
  "CHR '':'' \<notin> set t \<Longrightarrow> CHR '':'' \<notin> set u \<Longrightarrow>
   tenantMigrationKey t m = tenantMigrationKey u n \<longleftrightarrow> t = u \<and> m = n"
  using key_inject [of t m u n] by (auto simp: tenantMigrationKey_def)

section \<open>Migrations and recovery points\<close>

lemma ensureTenantLocked_frame:
  "ensureTenantLocked s t = (res, s') \<Longrightarrow>
   st_migrations s' = st_migrations s \<and> st_recoveryPoints s' = st_recoveryPoints s"
  by (auto simp: ensureTenantLocked_def split: option.splits if_splits)

lemma SaveMigration_effect:
  assumes "SaveMigration ctx s t rec = (Inr (), s')"
  shows "st_migrations s' = AList.update (tenantMigrationKey (normalizeTenantID t) (mr_ID rec))
           \<lparr>so_tenantID = normalizeTenantID t, so_value = rec\<lparr>mr_TenantID := normalizeTenantID t\<rparr>\<rparr> (st_migrations s)
       \<and> st_recoveryPoints s' = st_recoveryPoints s \<and> mr_ID rec \<noteq> [] \<and> ctx_Err ctx = None"
proof (cases "ensureTenantLocked s (normalizeTenantID t)")
  case (Pair res s1)
  with assms ensureTenantLocked_frame [OF Pair] show ?thesis
    by (auto simp: SaveMigration_def op_defs split: option.splits if_splits sum.splits)
qed

lemma SaveMigration_failed:
  assumes "SaveMigration ctx s t rec = (Inl err, s')"
  shows "st_migrations s' = st_migrations s \<and> st_recoveryPoints s' = st_recoveryPoints s"
proof (cases "ensureTenantLocked s (normalizeTenantID t)")
  case (Pair res s1)
  with assms ensureTenantLocked_frame [OF Pair] show ?thesis
    by (auto simp: SaveMigration_def op_defs split: option.splits if_splits sum.splits)
qed

lemma SaveRecoveryPoint_effect:
  assumes "SaveRecoveryPoint ctx s t rec = (Inr (), s')"
  shows "st_recoveryPoints s' = AList.update (tenantRecoveryPointKey (normalizeTenantID t) (rr_MigrationID rec))
           \<lparr>so_tenantID = normalizeTenantID t, so_value = rec\<lparr>rr_TenantID := normalizeTenantID t\<rparr>\<rparr> (st_recoveryPoints s)
       \<and> st_migrations s' = st_migrations s \<and> rr_MigrationID rec \<noteq> [] \<and> ctx_Err ctx = None"
proof (cases "ensureTenantLocked s (normalizeTenantID t)")
  case (Pair res s1)
  with assms ensureTenantLocked_frame [OF Pair] show ?thesis
    by (auto simp: SaveRecoveryPoint_def op_defs split: option.splits if_splits sum.splits)
qed

lemma SaveRecoveryPoint_failed:
  assumes "SaveRecoveryPoint ctx s t rec = (Inl err, s')"
  shows "st_migrations s' = st_migrations s \<and> st_recoveryPoints s' = st_recoveryPoints s"
proof (cases "ensureTenantLocked s (normalizeTenantID t)")
  case (Pair res s1)
  with assms ensureTenantLocked_frame [OF Pair] show ?thesis
    by (auto simp: SaveRecoveryPoint_def op_defs split: option.splits if_splits sum.splits)
qed

lemma GetMigration_cong:
  "st_migrations s' = st_migrations s \<Longrightarrow> fst (GetMigration ctx s' t m) = fst (GetMigration ctx s t m)"
  by (auto simp: GetMigration_def op_defs split: option.splits)

lemma GetRecoveryPoint_cong:
  "st_recoveryPoints s' = st_recoveryPoints s \<Longrightarrow>
   fst (GetRecoveryPoint ctx s' t m) = fst (GetRecoveryPoint ctx s t m)"
  by (auto simp: GetRecoveryPoint_def op_defs split: option.splits)

lemma GetMigration_after_save:
  assumes "SaveMigration ctx s t rec = (Inr (), s')" "ctx_Err ctx' = None"
  shows "GetMigration ctx' s' t (mr_ID rec) = (Inr (rec\<lparr>mr_TenantID := normalizeTenantID t\<rparr>), s')"
  using SaveMigration_effect [OF assms(1)] assms(2) by (simp add: GetMigration_def op_defs)

lemma GetRecoveryPoint_after_save:
  assumes "SaveRecoveryPoint ctx s t rec = (Inr (), s')" "ctx_Err ctx' = None"
  shows "GetRecoveryPoint ctx' s' t (rr_MigrationID rec) = (Inr (rec\<lparr>rr_TenantID := normalizeTenantID t\<rparr>), s')"
  using SaveRecoveryPoint_effect [OF assms(1)] assms(2) by (simp add: GetRecoveryPoint_def op_defs)

section \<open>The contract the migration engine relies on\<close>

text \<open>
  The operations of the interface \<open>store.Store\<close> that the migration engine calls, and their laws: a
  successful save is read back, a save of the other kind or a failed save changes no read, and a read
  leaves the store as it is.
\<close>

record ('st, 'raw) Store =
  op_SaveMigration :: "Context \<Rightarrow> 'st \<Rightarrow> string \<Rightarrow> 'raw MigrationRecord \<Rightarrow> (goerror + unit) \<times> 'st"
  op_GetMigration :: "Context \<Rightarrow> 'st \<Rightarrow> string \<Rightarrow> string \<Rightarrow> (goerror + 'raw MigrationRecord) \<times> 'st"
  op_SaveRecoveryPoint :: "Context \<Rightarrow> 'st \<Rightarrow> string \<Rightarrow> 'raw RecoveryPointRecord \<Rightarrow> (goerror + unit) \<times> 'st"
  op_GetRecoveryPoint :: "Context \<Rightarrow> 'st \<Rightarrow> string \<Rightarrow> string \<Rightarrow> (goerror + 'raw RecoveryPointRecord) \<times> 'st"

locale migration_store =
  fixes ops :: "('st, 'raw) Store"
  assumes get_pure: "snd (op_GetMigration ops ctx s t m) = s"
    and get_rp_pure: "snd (op_GetRecoveryPoint ops ctx s t m) = s"
    and get_saved: "op_SaveMigration ops ctx s t rec = (Inr (), s') \<Longrightarrow> ctx_Err ctx' = None \<Longrightarrow>
      fst (op_GetMigration ops ctx' s' t (mr_ID rec)) = Inr (rec\<lparr>mr_TenantID := normalizeTenantID t\<rparr>)"
    and get_rp_saved: "op_SaveRecoveryPoint ops ctx s t rpr = (Inr (), s') \<Longrightarrow> ctx_Err ctx' = None \<Longrightarrow>
      fst (op_GetRecoveryPoint ops ctx' s' t (rr_MigrationID rpr)) = Inr (rpr\<lparr>rr_TenantID := normalizeTenantID t\<rparr>)"
    and save_frame: "op_SaveMigration ops ctx s t rec = (res, s') \<Longrightarrow>
      fst (op_GetRecoveryPoint ops ctx' s' u m) = fst (op_GetRecoveryPoint ops ctx' s u m)"
    and save_failed: "op_SaveMigration ops ctx s t rec = (Inl err, s') \<Longrightarrow>
      fst (op_GetMigration ops ctx' s' u m) = fst (op_GetMigration ops ctx' s u m)"
    and save_rp_frame: "op_SaveRecoveryPoint ops ctx s t rpr = (res, s') \<Longrightarrow>
      fst (op_GetMigration ops ctx' s' u m) = fst (op_GetMigration ops ctx' s u m)"
    and save_rp_failed: "op_SaveRecoveryPoint ops ctx s t rpr = (Inl err, s') \<Longrightarrow>
      fst (op_GetRecoveryPoint ops ctx' s' u m) = fst (op_GetRecoveryPoint ops ctx' s u m)"

definition memoryOps :: "('raw MemoryStore, 'raw) Store" where
  "memoryOps = \<lparr>op_SaveMigration = SaveMigration, op_GetMigration = GetMigration,
     op_SaveRecoveryPoint = SaveRecoveryPoint, op_GetRecoveryPoint = GetRecoveryPoint\<rparr>"

lemma SaveMigration_recovery: "SaveMigration ctx s t rec = (res, s') \<Longrightarrow> st_recoveryPoints s' = st_recoveryPoints s"
  using SaveMigration_effect SaveMigration_failed by (cases res) (auto, blast+)

lemma SaveRecoveryPoint_migrations:
  "SaveRecoveryPoint ctx s t rec = (res, s') \<Longrightarrow> st_migrations s' = st_migrations s"
  using SaveRecoveryPoint_effect SaveRecoveryPoint_failed by (cases res) (auto, blast+)

interpretation mem: migration_store memoryOps
proof
  fix ctx ctx' :: Context and s s' :: "'raw MemoryStore" and t u m and rec :: "'raw MigrationRecord"
    and rpr :: "'raw RecoveryPointRecord" and res err
  show "snd (op_GetMigration memoryOps ctx s t m) = s"
    by (auto simp: memoryOps_def GetMigration_def op_defs split: option.splits)
  show "snd (op_GetRecoveryPoint memoryOps ctx s t m) = s"
    by (auto simp: memoryOps_def GetRecoveryPoint_def op_defs split: option.splits)
  show "op_SaveMigration memoryOps ctx s t rec = (Inr (), s') \<Longrightarrow> ctx_Err ctx' = None \<Longrightarrow>
      fst (op_GetMigration memoryOps ctx' s' t (mr_ID rec)) = Inr (rec\<lparr>mr_TenantID := normalizeTenantID t\<rparr>)"
    by (simp add: memoryOps_def GetMigration_after_save)
  show "op_SaveRecoveryPoint memoryOps ctx s t rpr = (Inr (), s') \<Longrightarrow> ctx_Err ctx' = None \<Longrightarrow>
      fst (op_GetRecoveryPoint memoryOps ctx' s' t (rr_MigrationID rpr)) = Inr (rpr\<lparr>rr_TenantID := normalizeTenantID t\<rparr>)"
    by (simp add: memoryOps_def GetRecoveryPoint_after_save)
  show "op_SaveMigration memoryOps ctx s t rec = (res, s') \<Longrightarrow>
      fst (op_GetRecoveryPoint memoryOps ctx' s' u m) = fst (op_GetRecoveryPoint memoryOps ctx' s u m)"
    by (auto simp: memoryOps_def intro!: GetRecoveryPoint_cong dest: SaveMigration_recovery)
  show "op_SaveMigration memoryOps ctx s t rec = (Inl err, s') \<Longrightarrow>
      fst (op_GetMigration memoryOps ctx' s' u m) = fst (op_GetMigration memoryOps ctx' s u m)"
    by (auto simp: memoryOps_def intro!: GetMigration_cong dest: SaveMigration_failed)
  show "op_SaveRecoveryPoint memoryOps ctx s t rpr = (res, s') \<Longrightarrow>
      fst (op_GetMigration memoryOps ctx' s' u m) = fst (op_GetMigration memoryOps ctx' s u m)"
    by (auto simp: memoryOps_def intro!: GetMigration_cong dest: SaveRecoveryPoint_migrations)
  show "op_SaveRecoveryPoint memoryOps ctx s t rpr = (Inl err, s') \<Longrightarrow>
      fst (op_GetRecoveryPoint memoryOps ctx' s' u m) = fst (op_GetRecoveryPoint memoryOps ctx' s u m)"
    by (auto simp: memoryOps_def intro!: GetRecoveryPoint_cong dest: SaveRecoveryPoint_failed)
qed

section \<open>Reads, isolation, quotas\<close>

text \<open>
  A migration record that was saved is read back by its tenant with the tenant
  filled in, and a saved recovery point likewise, whatever the spelling of the tenant identifier.
\<close>

theorem migration_roundtrip:
  assumes "normalizeTenantID t' = normalizeTenantID t" "ctx_Err ctx' = None"
  shows "(SaveMigration ctx s t rec = (Inr (), s') \<longrightarrow>
            GetMigration ctx' s' t' (mr_ID rec) = (Inr (rec\<lparr>mr_TenantID := normalizeTenantID t\<rparr>), s'))
       \<and> (SaveRecoveryPoint ctx s t rpr = (Inr (), s'') \<longrightarrow>
            GetRecoveryPoint ctx' s'' t' (rr_MigrationID rpr)
              = (Inr (rpr\<lparr>rr_TenantID := normalizeTenantID t\<rparr>), s''))"
proof -
  have "GetMigration ctx' s' t' m = GetMigration ctx' s' t m"
    and "GetRecoveryPoint ctx' s'' t' m = GetRecoveryPoint ctx' s'' t m" for m
    using assms(1) by (simp_all add: GetMigration_def GetRecoveryPoint_def)
  then show ?thesis using GetMigration_after_save GetRecoveryPoint_after_save assms(2) by metis
qed

text \<open>
  C25 (migration_isolation): saving a migration or a recovery point for one tenant does not change what
  another tenant reads, provided the identifiers of both tenants have no colon.
\<close>

theorem migration_isolation:
  assumes "normalizeTenantID t \<noteq> normalizeTenantID u"
    and "CHR '':'' \<notin> set (normalizeTenantID t)" "CHR '':'' \<notin> set (normalizeTenantID u)"
  shows "fst (GetMigration ctx' (snd (SaveMigration ctx s t rec)) u m) = fst (GetMigration ctx' s u m)
       \<and> fst (GetRecoveryPoint ctx' (snd (SaveRecoveryPoint ctx s t rpr)) u m) = fst (GetRecoveryPoint ctx' s u m)"
proof
  have k: "tenantMigrationKey (normalizeTenantID t) x \<noteq> tenantMigrationKey (normalizeTenantID u) m" for x
    using tenantMigrationKey_inject [OF assms(2,3)] assms(1) by blast
  obtain res s' where run: "SaveMigration ctx s t rec = (res, s')" by force
  have "map_of (st_migrations s') (tenantMigrationKey (normalizeTenantID u) m)
      = map_of (st_migrations s) (tenantMigrationKey (normalizeTenantID u) m)"
    using run SaveMigration_effect [of ctx s t rec s'] SaveMigration_failed [of ctx s t rec _ s'] k [of "mr_ID rec"]
    by (cases res) auto
  with run show "fst (GetMigration ctx' (snd (SaveMigration ctx s t rec)) u m) = fst (GetMigration ctx' s u m)"
    by (auto simp: GetMigration_def op_defs split: option.splits)
next
  have k: "tenantRecoveryPointKey (normalizeTenantID t) x \<noteq> tenantRecoveryPointKey (normalizeTenantID u) m" for x
    using tenantMigrationKey_inject [OF assms(2,3)] assms(1)
    by (simp add: tenantRecoveryPointKey_def tenantMigrationKey_def)
  obtain res s' where run: "SaveRecoveryPoint ctx s t rpr = (res, s')" by force
  have "map_of (st_recoveryPoints s') (tenantRecoveryPointKey (normalizeTenantID u) m)
      = map_of (st_recoveryPoints s) (tenantRecoveryPointKey (normalizeTenantID u) m)"
    using run SaveRecoveryPoint_effect [of ctx s t rpr s'] SaveRecoveryPoint_failed [of ctx s t rpr _ s'] k [of "rr_MigrationID rpr"]
    by (cases res) auto
  with run show "fst (GetRecoveryPoint ctx' (snd (SaveRecoveryPoint ctx s t rpr)) u m)
      = fst (GetRecoveryPoint ctx' s u m)"
    by (auto simp: GetRecoveryPoint_def op_defs split: option.splits)
qed

lemma update_new: "map_of m k = None \<Longrightarrow> AList.update k v m = m @ [(k, v)]"
  by (induction m) (auto split: if_splits)

lemma countOwned_new: "map_of m k = None \<Longrightarrow>
  countOwned t (AList.update k \<lparr>so_tenantID = t, so_value = v\<rparr> m) = countOwned t m + 1"
  by (simp add: update_new countOwned_def)

text \<open>
  C26 (migration_quota): in a store that satisfies the invariant and for an existing tenant with a migration
  quota, a save under a new identifier on a context that is not done succeeds exactly while the tenant owns
  fewer migrations than the quota; it then adds the migration, and nothing else changes. At the quota it
  is refused with an error and the whole store stays as it was.
\<close>

theorem migration_quota:
  assumes ok: "store_ok s" and ctx: "ctx_Err ctx = None" and id: "mr_ID rec \<noteq> []"
    and tn: "map_of (st_tenants s) (normalizeTenantID t) = Some tn" and q: "0 < q_MaxMigrations (tn_Quotas tn)"
    and new: "map_of (st_migrations s) (tenantMigrationKey (normalizeTenantID t) (mr_ID rec)) = None"
  shows "(if countOwned (normalizeTenantID t) (st_migrations s) < q_MaxMigrations (tn_Quotas tn)
          then (\<exists>m. SaveMigration ctx s t rec = (Inr (), s\<lparr>st_migrations := m\<rparr>)
                 \<and> countOwned (normalizeTenantID t) m = countOwned (normalizeTenantID t) (st_migrations s) + 1
                 \<and> (\<forall>k. map_of m k = (if k = tenantMigrationKey (normalizeTenantID t) (mr_ID rec)
                       then Some \<lparr>so_tenantID = normalizeTenantID t, so_value = rec\<lparr>mr_TenantID := normalizeTenantID t\<rparr>\<rparr>
                       else map_of (st_migrations s) k)))
          else SaveMigration ctx s t rec
                 = (Inl (Errorf ''memory store: save migration: migration quota exceeded for tenant %s''
                           [normalizeTenantID t]), s))"
proof -
  let ?m = "AList.update (tenantMigrationKey (normalizeTenantID t) (mr_ID rec))
      \<lparr>so_tenantID = normalizeTenantID t, so_value = rec\<lparr>mr_TenantID := normalizeTenantID t\<rparr>\<rparr> (st_migrations s)"
  have "\<forall>k. map_of ?m k = (if k = tenantMigrationKey (normalizeTenantID t) (mr_ID rec)
      then Some \<lparr>so_tenantID = normalizeTenantID t, so_value = rec\<lparr>mr_TenantID := normalizeTenantID t\<rparr>\<rparr>
      else map_of (st_migrations s) k)" by (simp add: update_conv')
  then show ?thesis
    using assms by (auto simp add: SaveMigration_def op_defs ensureTenantLocked_def countOwned_new intro!: exI [of _ ?m])
qed

section \<open>Deleting a tenant\<close>

lemma map_of_dropOwned:
  "distinct (map fst m) \<Longrightarrow>
   map_of (dropOwned t m) k = (case map_of m k of Some v \<Rightarrow> if so_tenantID v = t then None else Some v | None \<Rightarrow> None)"
  by (induction m) (auto simp: dropOwned_def map_of_eq_None_iff split: option.splits)

text \<open>The map \<open>m'\<close> holds exactly the entries of \<open>m\<close> that do not belong to the tenant \<open>t\<close>.\<close>

definition ownedRemoved :: "string \<Rightarrow> (string \<times> 'v stored) list \<Rightarrow> (string \<times> 'v stored) list \<Rightarrow> bool" where
  "ownedRemoved t m m' =
     (\<forall>k. map_of m' k = (case map_of m k of None \<Rightarrow> None | Some v \<Rightarrow> if so_tenantID v = t then None else Some v))"

lemma ownedRemoved_dropOwned: "distinct (map fst m) \<Longrightarrow> ownedRemoved t m (dropOwned t m)"
  by (auto simp: ownedRemoved_def map_of_dropOwned split: option.splits)

text \<open>
  C27 (delete_tenant_complete): on a context that is not done and a store that satisfies the invariant,
  deleting a tenant succeeds exactly for an existing tenant other than the default one; otherwise it is
  an error and the store stays as it was. When it succeeds, the tenant, its audit events and every
  snapshot, migration, recovery point, workspace and job it owns are gone, and everything else is kept as
  it was: the other tenants, their audit events, every snapshot, migration, recovery point, workspace and
  job of theirs, and the revoked sessions.
\<close>

theorem delete_tenant_complete:
  assumes ok: "store_ok s" and ctx: "ctx_Err ctx = None"
  shows "if normalizeTenantID t = DefaultTenantID \<or> map_of (st_tenants s) (normalizeTenantID t) = None
    then \<exists>err. DeleteTenant ctx s t = (Inl err, s)
    else \<exists>s'. DeleteTenant ctx s t = (Inr (), s')
      \<and> (\<forall>u. map_of (st_tenants s') u = (if u = normalizeTenantID t then None else map_of (st_tenants s) u))
      \<and> (\<forall>u. map_of (st_auditEvents s') u = (if u = normalizeTenantID t then None else map_of (st_auditEvents s) u))
      \<and> ownedRemoved (normalizeTenantID t) (st_snapshots s) (st_snapshots s')
      \<and> ownedRemoved (normalizeTenantID t) (st_migrations s) (st_migrations s')
      \<and> ownedRemoved (normalizeTenantID t) (st_recoveryPoints s) (st_recoveryPoints s')
      \<and> ownedRemoved (normalizeTenantID t) (st_workspaces s) (st_workspaces s')
      \<and> ownedRemoved (normalizeTenantID t) (st_workspaceJobs s) (st_workspaceJobs s')
      \<and> st_revokedSessions s' = st_revokedSessions s"
proof -
  let ?k = "normalizeTenantID t"
  have dist: "distinct (map fst (st_snapshots s))" "distinct (map fst (st_migrations s))"
    "distinct (map fst (st_recoveryPoints s))" "distinct (map fst (st_workspaces s))" "distinct (map fst (st_workspaceJobs s))"
    using ok by (simp_all add: store_ok_def owners_ok_def)
  note removed = dist [THEN ownedRemoved_dropOwned, of ?k]
  show ?thesis
    using ctx removed by (auto simp: DeleteTenant_def op_defs delete_conv' split: option.splits if_splits)
qed

section \<open>Credential lookup\<close>

lemma credentialHashMatches_iff:
  "credentialHashMatches a h \<longleftrightarrow> TrimSpace a \<noteq> [] \<and> TrimSpace a = TrimSpace h"
  by (auto simp: credentialHashMatches_def Let_def)

lemma findAccount_Some:
  "findAccount now h as = Some a \<Longrightarrow>
   a \<in> set as \<and> serviceAccountCredentialActive a now \<and> credentialHashMatches (sa_APIKeyHash a) h"
  by (induction as) (auto split: if_splits)

lemma findAccount_None:
  "findAccount now h as = None \<longleftrightarrow>
   (\<forall>a \<in> set as. \<not> (serviceAccountCredentialActive a now \<and> credentialHashMatches (sa_APIKeyHash a) h))"
  by (induction as) auto

definition cloneAccount :: "ServiceAccount \<Rightarrow> ServiceAccount" where
  "cloneAccount a = a\<lparr>sa_Metadata := copyMap (sa_Metadata a)\<rparr>"

lemma filter_clone:
  assumes "a \<in> set as"
  shows "\<exists>b \<in> set as. sa_ID b = sa_ID a \<and> (\<exists>rest. filter (\<lambda>c. sa_ID c = sa_ID a) (cloneServiceAccounts as) = cloneAccount b # rest)"
  using assms
  by (induction as) (auto simp: cloneServiceAccounts_def cloneAccount_def)

text \<open>What the loop does with one tenant.\<close>

definition lookupOne :: "time \<Rightarrow> string \<Rightarrow> Tenant \<Rightarrow> CredentialLookupResult option" where
  "lookupOne now h t = lookupLoop now h [t]"

lemma lookupLoop_Cons:
  "lookupLoop now h (t # ts) = (case lookupOne now h t of None \<Rightarrow> lookupLoop now h ts | Some x \<Rightarrow> Some x)"
proof (cases "findAccount now h (tn_ServiceAccounts t)")
  case (Some a)
  then have "a \<in> set (tn_ServiceAccounts t)" using findAccount_Some by blast
  from filter_clone [OF this] Some show ?thesis
    by (auto simp: lookupOne_def cloneTenant_def)
qed (simp add: lookupOne_def)

text \<open>The answer for a tenant comes from one of its live credentials.\<close>

lemma lookupOne_Some:
  assumes "lookupOne now h t = Some res"
  shows "tn_Active t \<and> cl_Tenant res = cloneTenant t
    \<and> ((cl_ServiceAccount res = None \<and> credentialHashMatches (tn_APIKeyHash t) h)
       \<or> (\<exists>a \<in> set (tn_ServiceAccounts t). \<exists>b \<in> set (tn_ServiceAccounts t).
            serviceAccountCredentialActive a now \<and> credentialHashMatches (sa_APIKeyHash a) h
            \<and> sa_ID b = sa_ID a \<and> cl_ServiceAccount res = Some (cloneAccount b)))"
proof (cases "tn_Active t \<and> \<not> credentialHashMatches (tn_APIKeyHash t) h")
  case True
  then obtain a where a: "findAccount now h (tn_ServiceAccounts t) = Some a"
    using assms by (auto simp: lookupOne_def split: option.splits)
  note fa = findAccount_Some [OF a]
  then obtain b rest where b: "b \<in> set (tn_ServiceAccounts t)" "sa_ID b = sa_ID a"
      "filter (\<lambda>c. sa_ID c = sa_ID a) (cloneServiceAccounts (tn_ServiceAccounts t)) = cloneAccount b # rest"
    using filter_clone by blast
  have "res = \<lparr>cl_Tenant = cloneTenant t, cl_ServiceAccount = Some (cloneAccount b)\<rparr>"
    using assms True a b(3) by (simp add: lookupOne_def cloneTenant_def)
  with True fa b show ?thesis by auto
next
  case False
  with assms show ?thesis by (auto simp: lookupOne_def split: if_splits)
qed

lemma lookupOne_hash: "lookupOne now h t = Some res \<Longrightarrow> TrimSpace h \<in> set (tenantHashes t)"
proof -
  assume "lookupOne now h t = Some res"
  from lookupOne_Some [OF this] obtain x
    where x: "x \<in> set (tn_APIKeyHash t # map sa_APIKeyHash (tn_ServiceAccounts t))" "credentialHashMatches x h"
    by auto
  have "TrimSpace x \<in> set (map TrimSpace (tn_APIKeyHash t # map sa_APIKeyHash (tn_ServiceAccounts t)))"
    unfolding list.set_map by (rule imageI [OF x(1)])
  then show ?thesis using x(2) unfolding tenantHashes_def credentialHashMatches_iff by auto
qed

text \<open>An active tenant with its own matching hash or a live service account with it.\<close>

definition hasCredential :: "time \<Rightarrow> string \<Rightarrow> Tenant \<Rightarrow> bool" where
  "hasCredential now h t =
     (tn_Active t
      \<and> (credentialHashMatches (tn_APIKeyHash t) h
         \<or> (\<exists>a \<in> set (tn_ServiceAccounts t). serviceAccountCredentialActive a now \<and> credentialHashMatches (sa_APIKeyHash a) h)))"

lemma lookupOne_None: "lookupOne now h t = None \<Longrightarrow> \<not> hasCredential now h t"
proof (cases "findAccount now h (tn_ServiceAccounts t)")
  case (Some a)
  assume none: "lookupOne now h t = None"
  have "a \<in> set (tn_ServiceAccounts t)" using findAccount_Some [OF Some] by simp
  from filter_clone [OF this] Some none show ?thesis
    by (auto simp: lookupOne_def cloneTenant_def hasCredential_def split: if_splits)
qed (auto simp: lookupOne_def hasCredential_def findAccount_None split: if_splits)

lemma lookupLoop_None: "lookupLoop now h ts = None \<Longrightarrow> t \<in> set ts \<Longrightarrow> \<not> hasCredential now h t"
  by (induction ts) (auto simp: lookupLoop_Cons simp del: lookupLoop.simps(2) dest: lookupOne_None split: option.splits)

lemma lookupLoop_Some:
  "lookupLoop now h ts = Some res \<Longrightarrow> \<exists>t \<in> set ts. lookupOne now h t = Some res"
  by (induction ts) (auto simp: lookupLoop_Cons simp del: lookupLoop.simps(2) split: option.splits)

lemma lookupLoop_unique:
  assumes "t \<in> set ts" "lookupOne now h t = Some res"
    and "\<And>u. u \<in> set ts \<Longrightarrow> lookupOne now h u \<noteq> None \<Longrightarrow> u = t"
  shows "lookupLoop now h ts = Some res"
  using assms(1,3)
proof (induction ts)
  case (Cons x xs)
  show ?case
  proof (cases "lookupOne now h x")
    case None
    then have "t \<in> set xs" using Cons.prems(1) assms(2) by auto
    then show ?thesis using None Cons by (simp add: lookupLoop_Cons del: lookupLoop.simps(2))
  next
    case (Some y)
    then have "x = t" using Cons.prems(2) [of x] by simp
    with assms(2) show ?thesis by (simp add: lookupLoop_Cons del: lookupLoop.simps(2))
  qed
qed simp

lemma lookup_agree:
  assumes "set ts = set us"
    and uniq: "\<And>t u. t \<in> set ts \<Longrightarrow> u \<in> set ts \<Longrightarrow> lookupOne now h t \<noteq> None \<Longrightarrow> lookupOne now h u \<noteq> None \<Longrightarrow> u = t"
  shows "lookupLoop now h ts = lookupLoop now h us"
proof (cases "lookupLoop now h ts")
  case None
  then have "lookupOne now h t = None" if "t \<in> set ts" for t
    using that lookupLoop_unique [OF that _ uniq [OF that]] by (metis not_Some_eq)
  then have "lookupLoop now h us = None" using lookupLoop_Some [of now h us] assms(1) by fastforce
  with None show ?thesis by simp
next
  case (Some res)
  obtain t where t: "t \<in> set ts" "lookupOne now h t = Some res" using lookupLoop_Some [OF Some] by blast
  have "lookupLoop now h us = Some res"
    by (rule lookupLoop_unique [of t]) (use t assms in auto)
  with Some show ?thesis by simp
qed

lemma store_lookup_unique:
  assumes ok: "store_ok s" and t: "t \<in> snd ` set (st_tenants s)" and u: "u \<in> snd ` set (st_tenants s)"
    and "lookupOne now h t \<noteq> None" "lookupOne now h u \<noteq> None"
  shows "u = t"
proof -
  obtain k l where k: "(k, t) \<in> set (st_tenants s)" and l: "(l, u) \<in> set (st_tenants s)" using t u by auto
  have "set (tenantHashes t) \<inter> set (tenantHashes u) \<noteq> {}"
    using assms(4,5) lookupOne_hash by (metis disjoint_iff not_Some_eq)
  then have "k = l" using ok k l by (auto simp: store_ok_def tenants_ok_def) blast
  moreover have "distinct (map fst (st_tenants s))" using ok by (simp add: store_ok_def tenants_ok_def)
  ultimately show ?thesis using k l by (metis map_of_is_SomeI option.inject)
qed

text \<open>
  C28 (lookup_sound): in a store that satisfies the invariant, in which the service accounts of every
  tenant have distinct identifiers, a credential lookup for a hash that is not blank, on a context that is
  not done, does not depend on the order in which the tenant map is visited. What it returns is an active
  tenant together with either its own matching hash or an active, unexpired service account of this tenant
  with the matching hash. It returns nothing exactly when no active tenant has such a credential.
\<close>

theorem lookup_sound:
  assumes ok: "store_ok s" and ctx: "ctx_Err ctx = None" and h: "TrimSpace h \<noteq> []"
    and ids: "\<forall>(k, t) \<in> set (st_tenants s). distinct (map sa_ID (tn_ServiceAccounts t))"
  shows "\<exists>ores. LookupCredentialByHash r ctx now s h = (Inr ores, s)
     \<and> LookupCredentialByHash r' ctx now s h = (Inr ores, s)
     \<and> (case ores of None \<Rightarrow> \<forall>(k, t) \<in> set (st_tenants s). \<not> hasCredential now h t
        | Some res \<Rightarrow> \<exists>(k, t) \<in> set (st_tenants s). tn_Active t \<and> cl_Tenant res = cloneTenant t
           \<and> (if cl_ServiceAccount res = None then credentialHashMatches (tn_APIKeyHash t) h
              else \<exists>a \<in> set (tn_ServiceAccounts t). cl_ServiceAccount res = Some (cloneAccount a)
                     \<and> serviceAccountCredentialActive a now \<and> credentialHashMatches (sa_APIKeyHash a) h))"
proof -
  let ?ts = "map snd (rangeMap r (st_tenants s))" and ?us = "map snd (rangeMap r' (st_tenants s))"
  have eq: "lookupLoop now (TrimSpace h) ?ts = lookupLoop now (TrimSpace h) ?us"
  proof (rule lookup_agree)
    fix t u
    assume "t \<in> set ?ts" "u \<in> set ?ts"
      and some: "lookupOne now (TrimSpace h) t \<noteq> None" "lookupOne now (TrimSpace h) u \<noteq> None"
    then have "t \<in> snd ` set (st_tenants s)" "u \<in> snd ` set (st_tenants s)" by simp_all
    then show "u = t" using some by (rule store_lookup_unique [OF ok])
  qed simp
  have sound: "\<exists>(k, t) \<in> set (st_tenants s). tn_Active t \<and> cl_Tenant res = cloneTenant t
      \<and> (if cl_ServiceAccount res = None then credentialHashMatches (tn_APIKeyHash t) h
         else \<exists>a \<in> set (tn_ServiceAccounts t). cl_ServiceAccount res = Some (cloneAccount a)
                \<and> serviceAccountCredentialActive a now \<and> credentialHashMatches (sa_APIKeyHash a) h)"
    if run: "lookupLoop now (TrimSpace h) ?ts = Some res" for res
  proof -
    obtain k t where t: "(k, t) \<in> set (st_tenants s)" "lookupOne now (TrimSpace h) t = Some res"
      using lookupLoop_Some [OF run] by auto
    have "distinct (map sa_ID (tn_ServiceAccounts t))" using ids t(1) by auto
    then have same: "b = a" if "a \<in> set (tn_ServiceAccounts t)" "b \<in> set (tn_ServiceAccounts t)" "sa_ID b = sa_ID a" for a b
      using that by (simp add: distinct_map inj_on_def)
    have trim: "credentialHashMatches x (TrimSpace h) = credentialHashMatches x h" for x
      by (simp add: credentialHashMatches_iff)
    show ?thesis
      using t(1) lookupOne_Some [OF t(2)] same unfolding trim by (intro bexI [OF _ t(1)]) auto
  qed
  have complete: "\<forall>(k, t) \<in> set (st_tenants s). \<not> hasCredential now h t"
    if run: "lookupLoop now (TrimSpace h) ?ts = None"
  proof -
    have "\<not> hasCredential now (TrimSpace h) t" if "(k, t) \<in> set (st_tenants s)" for k t
      using lookupLoop_None [OF run, of t] that by force
    then show ?thesis by (auto simp: hasCredential_def credentialHashMatches_iff)
  qed
  have "LookupCredentialByHash r ctx now s h = (Inr (lookupLoop now (TrimSpace h) ?ts), s)"
    and "LookupCredentialByHash r' ctx now s h = (Inr (lookupLoop now (TrimSpace h) ?ts), s)"
    unfolding eq using ctx h eq by (simp_all add: LookupCredentialByHash_def op_defs)
  then show ?thesis
    by (intro exI conjI) (assumption+, cases "lookupLoop now (TrimSpace h) ?ts", use sound complete in simp_all)
qed

section \<open>Revoked sessions\<close>

lemma map_of_filter_snd:
  "distinct (map fst m) \<Longrightarrow>
   map_of (filter (\<lambda>(k, v). P v) m) k = (case map_of m k of Some v \<Rightarrow> if P v then Some v else None | None \<Rightarrow> None)"
  by (induction m) (auto simp: map_of_eq_None_iff rev_image_eqI split: option.splits)

text \<open>
  A revoked session is reported as revoked at every later check before its
  expiry and no longer at or after it, and neither checking nor revoking another session before the
  expiry changes that.
\<close>

theorem session_revocation:
  assumes ok: "store_ok s" and run: "RevokeAuthSession ctx now s sid e = (Inr (), s1)"
    and s2: "s2 = s1 \<or> s2 = snd (IsAuthSessionRevoked ctx2 now2 s1 other) \<and> now2 < e
             \<or> s2 = snd (RevokeAuthSession ctx2 now2 s1 other e2) \<and> now2 < e \<and> TrimSpace other \<noteq> TrimSpace sid"
    and ctx: "ctx_Err ctx' = None"
  shows "fst (IsAuthSessionRevoked ctx' now' s2 sid) = Inr (now' < e)"
proof -
  have ok1: "store_ok s1" using RevokeAuthSession_ok [OF ok, of ctx now sid e] run by simp
  have sid: "TrimSpace sid \<noteq> []" and here: "map_of (st_revokedSessions s1) (TrimSpace sid) = Some e"
    using run by (auto simp: RevokeAuthSession_def op_defs split: option.splits if_splits)
  have ok2: "store_ok s2" using s2 ok1 IsAuthSessionRevoked_ok RevokeAuthSession_ok by blast
  have "map_of (st_revokedSessions s2) (TrimSpace sid) = Some e"
    using s2 here store_ok_sessions [OF ok1]
    by (auto simp: IsAuthSessionRevoked_def RevokeAuthSession_def op_defs pruneRevokedSessionsLocked_def
        map_of_filter_snd split: option.splits if_splits)
  then show ?thesis
    using ctx sid store_ok_sessions [OF ok2]
    by (auto simp: IsAuthSessionRevoked_def op_defs pruneRevokedSessionsLocked_def map_of_filter_snd)
qed

section \<open>Lists and pages\<close>

lemma paginateItems_page:
  assumes "0 < perPage" "1 \<le> page" "page * perPage < 2 ^ 63"
  shows "paginateItems items page perPage
       = Some (take (nat perPage) (drop (nat ((page - 1) * perPage)) items))"
proof -
  let ?start = "(page - 1) * perPage"
  have nn: "0 \<le> ?start" using assms by simp
  have sum: "?start + perPage = page * perPage" by (simp add: algebra_simps)
  have w: "wrap64 ?start = ?start" "wrap64 (?start + perPage) = page * perPage"
  proof -
    have "in_int64 ?start" "in_int64 (page * perPage)"
      unfolding in_int64_def using assms nn sum by linarith+
    then show "wrap64 ?start = ?start" "wrap64 (?start + perPage) = page * perPage"
      by (simp_all only: sum wrap64_id)
  qed
  show ?thesis
  proof (cases "?start \<ge> int (length items)")
    case True
    then show ?thesis using assms nn w by (simp add: paginateItems_def Let_def)
  next
    case False
    have n: "nat (page * perPage) = nat ?start + nat perPage"
      using nn assms(1) sum by (simp flip: nat_add_distrib)
    have "drop (nat ?start) (take (nat ?start + nat perPage) items) = take (nat perPage) (drop (nat ?start) items)"
      by (simp add: drop_take)
    moreover have "drop (nat ?start) items = take (nat perPage) (drop (nat ?start) items)"
      if "int (length items) < page * perPage"
      using that n nn assms(1) by (intro take_all [symmetric]) (simp; linarith)
    ultimately show ?thesis
      using assms nn w False sum n by (auto simp: paginateItems_def Let_def)
  qed
qed

lemma concat_pages:
  assumes "0 < k"
  shows "concat (map (\<lambda>i. take k (drop (i * k) items)) [0..<n]) = take (n * k) items"
proof (induction n)
  case (Suc n)
  have "Suc n * k = n * k + k" by simp
  then have "take (Suc n * k) items = take (n * k) items @ take k (drop (n * k) items)"
    by (simp only: take_add)
  with Suc show ?case by simp
qed simp

text \<open>
  As long as the page arithmetic stays within 64 bits, the pages of a listing,
  one after the other, are exactly the listing: nothing is lost or shown twice.
\<close>

theorem pages_partition:
  assumes k: "0 < perPage" and bound: "int n * perPage < 2 ^ 63" and enough: "int (length items) \<le> int n * perPage"
  shows "concat (map (\<lambda>i. the (paginateItems items (int i + 1) perPage)) [0..<n]) = items
    \<and> (\<forall>i < n. \<exists>pg. paginateItems items (int i + 1) perPage = Some pg \<and> int (length pg) \<le> perPage)"
proof -
  have page: "paginateItems items (int i + 1) perPage = Some (take (nat perPage) (drop (i * nat perPage) items))"
    if "i < n" for i
  proof -
    have "(int i + 1) * perPage \<le> int n * perPage" using that k by (intro mult_right_mono) auto
    then have "(int i + 1) * perPage < 2 ^ 63" using bound by linarith
    moreover have "nat (int i * perPage) = i * nat perPage" using k by (simp add: nat_mult_distrib)
    ultimately show ?thesis using paginateItems_page [OF k, of "int i + 1" items] by simp
  qed
  have eq: "map (\<lambda>i. the (paginateItems items (int i + 1) perPage)) [0..<n]
      = map (\<lambda>i. take (nat perPage) (drop (i * nat perPage) items)) [0..<n]"
    by (rule map_cong) (simp_all add: page)
  have len: "length items \<le> n * nat perPage"
    using enough k by (simp add: nat_le_iff [symmetric] nat_mult_distrib flip: zle_int)
  have "concat (map (\<lambda>i. the (paginateItems items (int i + 1) perPage)) [0..<n]) = items"
    unfolding eq using concat_pages [of "nat perPage" items n] k len by simp
  with page k show ?thesis by (auto simp: min_def)
qed

text \<open>
  Whichever permutation the sort picks, the listing of a tenant holds the
  metadata of exactly its own migrations, ordered from the newest to the oldest update.
\<close>

theorem list_migrations_sorted:
  assumes "go_sort p"
  shows "sorted (map (\<lambda>m. - mm_UpdatedAt m) (listMigrationsLocked p s t))
    \<and> mset (map mm_ID (listMigrationsLocked p s t))
        = mset (map (\<lambda>(k, v). mr_ID (so_value v)) (filter (\<lambda>(k, v). so_tenantID v = t) (st_migrations s)))
    \<and> (\<forall>m \<in> set (listMigrationsLocked p s t). mm_TenantID m = t)"
proof (intro conjI)
  show "sorted (map (\<lambda>m. - mm_UpdatedAt m) (listMigrationsLocked p s t))"
    unfolding listMigrationsLocked_def by (rule go_sort.sorted_sort_slice [OF assms])
  show "mset (map mm_ID (listMigrationsLocked p s t))
        = mset (map (\<lambda>(k, v). mr_ID (so_value v)) (filter (\<lambda>(k, v). so_tenantID v = t) (st_migrations s)))"
    by (simp add: listMigrationsLocked_def mset_sort_slice image_mset.compositionality comp_def case_prod_beta')
  show "\<forall>m \<in> set (listMigrationsLocked p s t). mm_TenantID m = t"
    by (auto simp: listMigrationsLocked_def)
qed

section \<open>Where the store falls short\<close>

text \<open>
  Two tenants whose identifiers and migration identifiers join to the same key: a save of one makes the
  record of the other unreadable.
\<close>

definition collisionRecord :: "string \<Rightarrow> unit MigrationRecord" where
  "collisionRecord i = \<lparr>mr_ID = i, mr_TenantID = [], mr_SpecName = [], mr_Phase = ''plan'', mr_StartedAt = 1,
     mr_UpdatedAt = 1, mr_CompletedAt = 0, mr_RawJSON = ()\<rparr>"

definition collisionTenant :: "string \<Rightarrow> Tenant" where
  "collisionTenant i = defaultTenant\<lparr>tn_ID := i, tn_Name := i\<rparr>"

definition collisionStore :: "unit MemoryStore" where
  "collisionStore =
     (let ctx = \<lparr>ctx_Err = None, ctx_Tenant = None\<rparr>;
          s1 = NewMemoryStore\<lparr>st_tenants := [(''a'', collisionTenant ''a''), (''a:b'', collisionTenant ''a:b'')]\<rparr>
      in snd (SaveMigration ctx s1 ''a'' (collisionRecord ''b:c'')))"

text \<open>
  Tenant a reads its migration b:c, until tenant a:b saves a migration c;
  from then on tenant a gets a not-found error for it.
\<close>

theorem migration_key_collision:
  "let ctx = \<lparr>ctx_Err = None, ctx_Tenant = None\<rparr>;
       s' = snd (SaveMigration ctx collisionStore ''a:b'' (collisionRecord ''c''))
   in fst (GetMigration ctx collisionStore ''a'' ''b:c'') = Inr ((collisionRecord ''b:c'')\<lparr>mr_TenantID := ''a''\<rparr>)
      \<and> fst (GetMigration ctx s' ''a'' ''b:c'')
          = Inl (Errorf ''memory store: get migration %s: not found'' [''b:c''])"
  by (simp add: Let_def collisionStore_def NewMemoryStore_def SaveMigration_def GetMigration_def onDone_def
      collisionRecord_def collisionTenant_def defaultTenant_def ensureTenantLocked_def tenantMigrationKey_def
      countOwned_def normalizeTenantID_def go_string_defs DefaultTenantID_def)

text \<open>
  A service account whose explicit permissions are all invalid has no
  permission, but storing its tenant drops the list, and the account then has every default permission
  of its role.
\<close>

theorem invalid_permissions_widen:
  assumes "sa_Permissions a \<noteq> []" and "\<forall>p \<in> set (sa_Permissions a). \<not> TenantPermission_Valid p"
    and "sa_Role a \<noteq> []"
  shows "EffectivePermissions a = []
    \<and> EffectivePermissions (normalizeServiceAccount created a) = DefaultPermissions (sa_Role a)"
  using assms by (simp add: EffectivePermissions_def normalizeServiceAccount_def filter_empty_conv)

end
