(* ===== verification/Runtime.thy ===== *)
theory Runtime
  imports Plan NetMap StoreProps
begin

text \<open>
  The runtime of the migration engine, \<open>internal/migrate/runtime.go\<close>: the connector capabilities, the
  environment, and persistence of migration states and recovery points.

  Everything the engine asks of the outside is a call, and the system keeps the list of the calls made so
  far. What a connector, the clock, the identifier generator or the disk converter answers is a function
  of that history, so the answers are arbitrary and may change from call to call. The state store is the
  record of operations \<open>Store\<close> on a store state; its laws are the locale \<open>migration_store\<close>.

  A connector that does not implement a capability interface (\<open>diskExporter\<close>, \<open>vmPowerController\<close>,
  ...) has \<open>None\<close> there, the failed type assertion of the source. A nil error comes with a non-nil
  discovery result. Spans and log lines are not modelled.
\<close>

section \<open>Recovery points\<close>

record VMRecoveryInfo =
  vr_VM :: VirtualMachine
  vr_OriginalPowerState :: PowerState
  vr_SnapshotID :: string

record RecoveryPoint =
  rp_MigrationID :: string
  rp_Phase :: MigrationPhase
  rp_CreatedAt :: time
  rp_SourceVMs :: "VMRecoveryInfo list"
  rp_TargetVMs :: "string list"
  rp_ConvertedFiles :: "string list"
  rp_Metadata :: "(string \<times> string) list"

section \<open>Calls and the environment\<close>

datatype role = Source | Target

datatype call =
    CClock
  | CNewID
  | CConnect role
  | CClose role
  | CDiscover role
  | CPowerOff role string
  | CPowerOn role string
  | CRestorePower role string PowerState
  | CExport VirtualMachine
  | CConvert ConversionRequest
  | CCreateVM VirtualMachine "string list" string string
  | CConfigure string "MappedNIC list"
  | CVerify string
  | CRemoveVM string
  | CSnapshot string
  | CRemoveFile string
  | CSaveState MigrationState
  | CSavePoint RecoveryPoint
  | CGetState string
  | CGetPoint string
  | CEmit MigrationEvent

record vmPowerController =
  pc_PowerOffVM :: "call list \<Rightarrow> string \<Rightarrow> goerror option"
  pc_PowerOnVM :: "call list \<Rightarrow> string \<Rightarrow> goerror option"
  pc_RestoreVMPowerState :: "call list \<Rightarrow> string \<Rightarrow> PowerState \<Rightarrow> goerror option"

record Connector =
  con_Connect :: "call list \<Rightarrow> goerror option"
  con_Discover :: "call list \<Rightarrow> goerror + DiscoveryResult"
  con_power :: "vmPowerController option"
  con_exporter :: "(call list \<Rightarrow> VirtualMachine \<Rightarrow> goerror + string list) option"
  con_importer :: "(call list \<Rightarrow> VirtualMachine \<Rightarrow> string list \<Rightarrow> string \<Rightarrow> string \<Rightarrow> goerror + string) option"
  con_networks :: "(call list \<Rightarrow> string \<Rightarrow> MappedNIC list \<Rightarrow> goerror option) option"
  con_verifier :: "(call list \<Rightarrow> string \<Rightarrow> goerror option) option"
  con_remover :: "(call list \<Rightarrow> string \<Rightarrow> goerror option) option"
  con_snapshotter :: "(call list \<Rightarrow> string \<Rightarrow> goerror + string) option"

text \<open>
  The environment of an orchestrator: its fields and what it reaches. \<open>env_convertDisk\<close> answers with the
  target path of the result; \<open>env_removeFile\<close> is \<open>os.Remove\<close>, whose error \<open>os.IsNotExist\<close> tells apart.
\<close>

record ('st, 'raw) env =
  env_source :: "Connector option"
  env_target :: "Connector option"
  env_store :: "('st, 'raw) Store"
  env_onEvent :: bool
  env_convertDisk :: "call list \<Rightarrow> ConversionRequest \<Rightarrow> goerror + string"
  env_newID :: "call list \<Rightarrow> string"
  env_now :: "call list \<Rightarrow> time"
  env_ctxErr :: "call list \<Rightarrow> goerror option"
  env_tenant :: "string option"
  env_removeFile :: "call list \<Rightarrow> string \<Rightarrow> goerror option"
  env_isNotExist :: "goerror \<Rightarrow> bool"
  env_marshalState :: "MigrationState \<Rightarrow> goerror + 'raw"
  env_unmarshalState :: "'raw \<Rightarrow> goerror + MigrationState"
  env_marshalPoint :: "RecoveryPoint \<Rightarrow> goerror + 'raw"
  env_unmarshalPoint :: "'raw \<Rightarrow> goerror + RecoveryPoint"
  env_patterns :: patternLib
  env_sort :: "string list \<Rightarrow> nat list"

record 'st sys =
  sy_hist :: "call list"
  sy_store :: 'st

definition record_call :: "call \<Rightarrow> 'st sys \<Rightarrow> 'st sys" where
  "record_call c s = s\<lparr>sy_hist := sy_hist s @ [c]\<rparr>"

lemma record_call_simps [simp]:
  "sy_hist (record_call c s) = sy_hist s @ [c]" "sy_store (record_call c s) = sy_store s"
  by (simp_all add: record_call_def)

definition nowUTC :: "('st, 'raw) env \<Rightarrow> 'st sys \<Rightarrow> time \<times> 'st sys" where
  "nowUTC env s = (env_now env (sy_hist s), record_call CClock s)"

definition ctxOf :: "('st, 'raw) env \<Rightarrow> 'st sys \<Rightarrow> Context" where
  "ctxOf env s = \<lparr>ctx_Err = env_ctxErr env (sy_hist s), ctx_Tenant = env_tenant env\<rparr>"

definition tenantOf :: "('st, 'raw) env \<Rightarrow> string" where
  "tenantOf env = normalizeTenantID (case env_tenant env of None \<Rightarrow> [] | Some v \<Rightarrow> v)"

lemma tenantOf_ctx: "TenantIDFromContext (Some (ctxOf env s)) = tenantOf env"
  by (simp add: TenantIDFromContext_def ctxOf_def tenantOf_def)

section \<open>Persistence\<close>

definition stateRecord :: "('st, 'raw) env \<Rightarrow> MigrationState \<Rightarrow> 'raw \<Rightarrow> 'raw MigrationRecord" where
  "stateRecord env state payload =
     \<lparr>mr_ID = ms_ID state, mr_TenantID = tenantOf env, mr_SpecName = ms_SpecName state,
      mr_Phase = phaseString (ms_Phase state), mr_StartedAt = ms_StartedAt state,
      mr_UpdatedAt = ms_UpdatedAt state, mr_CompletedAt = ms_CompletedAt state, mr_RawJSON = payload\<rparr>"

definition persistMigrationState ::
  "('st, 'raw) env \<Rightarrow> MigrationState \<Rightarrow> 'st sys \<Rightarrow> goerror option \<times> 'st sys" where
  "persistMigrationState env state s =
     (case env_marshalState env state of
        Inl err \<Rightarrow> (Some (Wrap ''persist migration state: %w'' [] err), s)
      | Inr payload \<Rightarrow>
          (case op_SaveMigration (env_store env) (ctxOf env s) (sy_store s) (tenantOf env)
                  (stateRecord env state payload) of
             (res, st') \<Rightarrow>
               (let s' = (record_call (CSaveState state) s)\<lparr>sy_store := st'\<rparr> in
                case res of
                  Inl err \<Rightarrow> (Some (Wrap ''persist migration state: %w'' [] err), s')
                | Inr _ \<Rightarrow> (None, s'))))"

definition loadMigrationState ::
  "('st, 'raw) env \<Rightarrow> string \<Rightarrow> 'st sys \<Rightarrow> (goerror + MigrationState) \<times> 'st sys" where
  "loadMigrationState env migrationID s =
     (case op_GetMigration (env_store env) (ctxOf env s) (sy_store s) (tenantOf env) migrationID of
        (res, st') \<Rightarrow>
          (let s' = (record_call (CGetState migrationID) s)\<lparr>sy_store := st'\<rparr> in
           case res of
             Inl err \<Rightarrow> (Inl (Wrap ''load migration state: %w'' [] err), s')
           | Inr rec \<Rightarrow>
               (case env_unmarshalState env (mr_RawJSON rec) of
                  Inl err \<Rightarrow> (Inl (Wrap ''load migration state: decode %s: %w'' [migrationID] err), s')
                | Inr state \<Rightarrow> (Inr state, s'))))"

definition pointRecord :: "('st, 'raw) env \<Rightarrow> RecoveryPoint \<Rightarrow> 'raw \<Rightarrow> 'raw RecoveryPointRecord" where
  "pointRecord env point payload =
     \<lparr>rr_MigrationID = rp_MigrationID point, rr_TenantID = tenantOf env,
      rr_Phase = phaseString (rp_Phase point), rr_CreatedAt = rp_CreatedAt point, rr_RawJSON = payload\<rparr>"

definition persistRecoveryPoint ::
  "('st, 'raw) env \<Rightarrow> RecoveryPoint \<Rightarrow> 'st sys \<Rightarrow> goerror option \<times> 'st sys" where
  "persistRecoveryPoint env point s =
     (case env_marshalPoint env point of
        Inl err \<Rightarrow> (Some (Wrap ''persist recovery point: %w'' [] err), s)
      | Inr payload \<Rightarrow>
          (case op_SaveRecoveryPoint (env_store env) (ctxOf env s) (sy_store s) (tenantOf env)
                  (pointRecord env point payload) of
             (res, st') \<Rightarrow>
               (let s' = (record_call (CSavePoint point) s)\<lparr>sy_store := st'\<rparr> in
                case res of
                  Inl err \<Rightarrow> (Some (Wrap ''persist recovery point: %w'' [] err), s')
                | Inr _ \<Rightarrow> (None, s'))))"

definition loadRecoveryPoint ::
  "('st, 'raw) env \<Rightarrow> string \<Rightarrow> 'st sys \<Rightarrow> (goerror + RecoveryPoint) \<times> 'st sys" where
  "loadRecoveryPoint env migrationID s =
     (case op_GetRecoveryPoint (env_store env) (ctxOf env s) (sy_store s) (tenantOf env) migrationID of
        (res, st') \<Rightarrow>
          (let s' = (record_call (CGetPoint migrationID) s)\<lparr>sy_store := st'\<rparr> in
           case res of
             Inl err \<Rightarrow> (Inl (Wrap ''load recovery point: %w'' [] err), s')
           | Inr rec \<Rightarrow>
               (case env_unmarshalPoint env (rr_RawJSON rec) of
                  Inl err \<Rightarrow> (Inl (Wrap ''load recovery point: decode %s: %w'' [migrationID] err), s')
                | Inr point \<Rightarrow> (Inr point, s'))))"

text \<open>
  JSON decoding inverts encoding on the payloads the engine writes. This is the documented behaviour of
  \<open>encoding/json\<close> that resuming and rolling back rely on.
\<close>

definition json_roundtrips :: "('st, 'raw) env \<Rightarrow> bool" where
  "json_roundtrips env =
     ((\<forall>x y. env_marshalState env x = Inr y \<longrightarrow> env_unmarshalState env y = Inr x)
      \<and> (\<forall>x y. env_marshalPoint env x = Inr y \<longrightarrow> env_unmarshalPoint env y = Inr x))"

lemma tenantOf_normal [simp]: "normalizeTenantID (tenantOf env) = tenantOf env"
  by (simp add: tenantOf_def)

text \<open>What the store holds for a migration, read with a live context.\<close>

definition liveCtx :: "('st, 'raw) env \<Rightarrow> Context" where
  "liveCtx env = \<lparr>ctx_Err = None, ctx_Tenant = env_tenant env\<rparr>"

definition storedState :: "('st, 'raw) env \<Rightarrow> string \<Rightarrow> 'st \<Rightarrow> MigrationState option" where
  "storedState env migrationID st =
     (case fst (op_GetMigration (env_store env) (liveCtx env) st (tenantOf env) migrationID) of
        Inl _ \<Rightarrow> None
      | Inr rec \<Rightarrow> (case env_unmarshalState env (mr_RawJSON rec) of Inl _ \<Rightarrow> None | Inr x \<Rightarrow> Some x))"

definition storedPoint :: "('st, 'raw) env \<Rightarrow> string \<Rightarrow> 'st \<Rightarrow> RecoveryPoint option" where
  "storedPoint env migrationID st =
     (case fst (op_GetRecoveryPoint (env_store env) (liveCtx env) st (tenantOf env) migrationID) of
        Inl _ \<Rightarrow> None
      | Inr rec \<Rightarrow> (case env_unmarshalPoint env (rr_RawJSON rec) of Inl _ \<Rightarrow> None | Inr x \<Rightarrow> Some x))"

lemma persistState_hist:
  "persistMigrationState env state s = (e, s') \<Longrightarrow>
   sy_hist s' = sy_hist s \<or> sy_hist s' = sy_hist s @ [CSaveState state]"
  by (auto simp: persistMigrationState_def Let_def split: sum.splits prod.splits)

context migration_store
begin

lemma persistState_stored:
  assumes "env_store env = ops" "json_roundtrips env" "persistMigrationState env state s = (None, s')"
  shows "storedState env (ms_ID state) (sy_store s') = Some state"
proof -
  obtain payload where p: "env_marshalState env state = Inr payload"
    and save: "op_SaveMigration ops (ctxOf env s) (sy_store s) (tenantOf env) (stateRecord env state payload)
                 = (Inr (), sy_store s')"
    using assms(1,3) by (auto simp: persistMigrationState_def Let_def split: sum.splits prod.splits)
  from get_saved [OF save, of "liveCtx env"]
  show ?thesis using p assms(1,2) by (simp add: storedState_def liveCtx_def stateRecord_def json_roundtrips_def)
qed

lemma persistPoint_stored:
  assumes "env_store env = ops" "json_roundtrips env" "persistRecoveryPoint env point s = (None, s')"
  shows "storedPoint env (rp_MigrationID point) (sy_store s') = Some point"
proof -
  obtain payload where p: "env_marshalPoint env point = Inr payload"
    and save: "op_SaveRecoveryPoint ops (ctxOf env s) (sy_store s) (tenantOf env) (pointRecord env point payload)
                 = (Inr (), sy_store s')"
    using assms(1,3) by (auto simp: persistRecoveryPoint_def Let_def split: sum.splits prod.splits)
  from get_rp_saved [OF save, of "liveCtx env"]
  show ?thesis using p assms(1,2) by (simp add: storedPoint_def liveCtx_def pointRecord_def json_roundtrips_def)
qed

lemma persistState_point:
  assumes "env_store env = ops" "persistMigrationState env state s = (e, s')"
  shows "storedPoint env m (sy_store s') = storedPoint env m (sy_store s)"
proof (cases "sy_store s' = sy_store s")
  case False
  then obtain payload res where "op_SaveMigration ops (ctxOf env s) (sy_store s) (tenantOf env)
      (stateRecord env state payload) = (res, sy_store s')"
    using assms by (auto simp: persistMigrationState_def Let_def split: sum.splits prod.splits)
  from save_frame [OF this] show ?thesis using assms(1) by (simp add: storedPoint_def)
qed simp

lemma persistPoint_state:
  assumes "env_store env = ops" "persistRecoveryPoint env point s = (e, s')"
  shows "storedState env m (sy_store s') = storedState env m (sy_store s)"
proof (cases "sy_store s' = sy_store s")
  case False
  then obtain payload res where "op_SaveRecoveryPoint ops (ctxOf env s) (sy_store s) (tenantOf env)
      (pointRecord env point payload) = (res, sy_store s')"
    using assms by (auto simp: persistRecoveryPoint_def Let_def split: sum.splits prod.splits)
  from save_rp_frame [OF this] show ?thesis using assms(1) by (simp add: storedState_def)
qed simp

end

end
