(* ===== verification/Orchestrator.thy ===== *)
theory Orchestrator
  imports Runtime
begin

text \<open>
  The cold-migration state machine, \<open>internal/migrate/orchestrator.go\<close>, with recovery points from
  \<open>rollback.go\<close>. \<open>Execute\<close> discovers both inventories, plans, and runs the phases export, convert,
  import, configure and verify; \<open>Resume\<close> continues a stored migration at the first phase that is not
  completed. The Go code changes the migration state in place; here every function returns the state
  it leaves behind, also when it fails in the middle of the workloads.
\<close>

section \<open>Events\<close>

definition emit ::
  "('st, 'raw) env \<Rightarrow> MigrationPhase \<Rightarrow> string \<Rightarrow> string \<Rightarrow> int \<Rightarrow> 'st sys \<Rightarrow> 'st sys" where
  "emit env phase vm message progress s =
     (if \<not> env_onEvent env then s
      else (case nowUTC env s of (now, s1) \<Rightarrow>
              record_call (CEmit \<lparr>ev_Timestamp = now, ev_Phase = phase, ev_VM = vm, ev_Message = message,
                                  ev_Progress = progress\<rparr>) s1))"

section \<open>Recovery points, rollback.go\<close>

fun recoveryLoop ::
  "Connector \<Rightarrow> WorkloadMigration list \<Rightarrow> 'st sys \<Rightarrow> (goerror + VMRecoveryInfo list) \<times> 'st sys" where
  "recoveryLoop src [] s = (Inr [], s)"
| "recoveryLoop src (w # ws) s =
     (let info = \<lparr>vr_VM = wm_VM w, vr_OriginalPowerState = vm_PowerState (wm_VM w), vr_SnapshotID = []\<rparr> in
      case con_snapshotter src of
        None \<Rightarrow>
          (case recoveryLoop src ws s of
             (Inl err, s') \<Rightarrow> (Inl err, s') | (Inr infos, s') \<Rightarrow> (Inr (info # infos), s'))
      | Some snapshot \<Rightarrow>
          (case (snapshot (sy_hist s) (vm_ID (wm_VM w)), record_call (CSnapshot (vm_ID (wm_VM w))) s) of
             (Inl err, s1) \<Rightarrow>
               (Inl (Wrap ''create recovery point for %s: %w'' [vm_Name (wm_VM w)] err), s1)
           | (Inr snapshotID, s1) \<Rightarrow>
               (case recoveryLoop src ws s1 of
                  (Inl err, s') \<Rightarrow> (Inl err, s')
                | (Inr infos, s') \<Rightarrow> (Inr (info\<lparr>vr_SnapshotID := snapshotID\<rparr> # infos), s'))))"

definition CreateRecoveryPoint ::
  "('st, 'raw) env \<Rightarrow> Connector \<Rightarrow> MigrationState \<Rightarrow> 'st sys \<Rightarrow> (goerror + RecoveryPoint) \<times> 'st sys" where
  "CreateRecoveryPoint env src state s =
     (case nowUTC env s of (now, s1) \<Rightarrow>
      case recoveryLoop src (ms_Workloads state) s1 of
        (Inl err, s2) \<Rightarrow> (Inl err, s2)
      | (Inr infos, s2) \<Rightarrow>
          (let point = \<lparr>rp_MigrationID = ms_ID state, rp_Phase = ms_Phase state, rp_CreatedAt = now,
                 rp_SourceVMs = infos,
                 rp_TargetVMs = filter (\<lambda>v. v \<noteq> []) (map wm_TargetVMID (ms_Workloads state)),
                 rp_ConvertedFiles = concat (map wm_ConvertedDiskPaths (ms_Workloads state)),
                 rp_Metadata = [(''spec_name'', ms_SpecName state)]\<rparr>
           in case persistRecoveryPoint env point s2 of
                (Some err, s3) \<Rightarrow> (Inl (Wrap ''create recovery point: %w'' [] err), s3)
              | (None, s3) \<Rightarrow> (Inr point, s3)))"

section \<open>The workload loops\<close>

text \<open>
  \<open>for index := range state.Workloads\<close>: stop at the first error and keep the remaining workloads as
  they are.
\<close>

fun forWorkloads ::
  "(WorkloadMigration \<Rightarrow> 'st sys \<Rightarrow> goerror option \<times> WorkloadMigration \<times> 'st sys)
   \<Rightarrow> WorkloadMigration list \<Rightarrow> 'st sys \<Rightarrow> goerror option \<times> WorkloadMigration list \<times> 'st sys" where
  "forWorkloads body [] s = (None, [], s)"
| "forWorkloads body (w # ws) s =
     (case body w s of
        (Some err, w', s') \<Rightarrow> (Some err, w' # ws, s')
      | (None, w', s') \<Rightarrow>
          (case forWorkloads body ws s' of (e, ws', s'') \<Rightarrow> (e, w' # ws', s'')))"

definition failWorkload ::
  "string \<Rightarrow> goerror \<Rightarrow> WorkloadMigration \<Rightarrow> 'st sys \<Rightarrow> goerror option \<times> WorkloadMigration \<times> 'st sys" where
  "failWorkload fmt err w s =
     (Some (Wrap fmt [vm_Name (wm_VM w)] err), w\<lparr>wm_Error := Some err\<rparr>, s)"

definition exportDisks ::
  "('st, 'raw) env \<Rightarrow> Connector \<Rightarrow> string \<Rightarrow> WorkloadMigration \<Rightarrow> 'st sys
   \<Rightarrow> goerror option \<times> WorkloadMigration \<times> 'st sys" where
  "exportDisks env src migrationID w s =
     (case con_exporter src of
        Some export \<Rightarrow>
          (case (export (sy_hist s) (wm_VM w), record_call (CExport (wm_VM w)) s) of
             (Inl err, s1) \<Rightarrow> failWorkload ''export %s: %w'' err w s1
           | (Inr paths, s1) \<Rightarrow>
               (let w1 = w\<lparr>wm_SourceDiskPaths := paths\<rparr>
                in (None, w1, emit env PhaseExport (vm_Name (wm_VM w)) ''exported source workload'' 25 s1)))
      | None \<Rightarrow>
          (let w1 = w\<lparr>wm_SourceDiskPaths := defaultSourceDiskPaths migrationID (wm_VM w)\<rparr>
           in (None, w1, emit env PhaseExport (vm_Name (wm_VM w)) ''exported source workload'' 25 s)))"

definition exportWorkload ::
  "('st, 'raw) env \<Rightarrow> Connector \<Rightarrow> MigrationSpec \<Rightarrow> string \<Rightarrow> WorkloadMigration \<Rightarrow> 'st sys
   \<Rightarrow> goerror option \<times> WorkloadMigration \<times> 'st sys" where
  "exportWorkload env src spec migrationID w0 s =
     (let w = w0\<lparr>wm_Phase := PhaseExport\<rparr> in
      case con_power src of
        Some pc \<Rightarrow>
          if opt_ShutdownSource (spec_Options spec) \<and> vm_PowerState (wm_VM w) = PowerOn then
            (case (pc_PowerOffVM pc (sy_hist s) (vm_ID (wm_VM w)),
                   record_call (CPowerOff Source (vm_ID (wm_VM w))) s) of
               (Some err, s1) \<Rightarrow> failWorkload ''export %s: power off source: %w'' err w s1
             | (None, s1) \<Rightarrow> exportDisks env src migrationID w s1)
          else exportDisks env src migrationID w s
      | None \<Rightarrow> exportDisks env src migrationID w s)"

definition runExport ::
  "('st, 'raw) env \<Rightarrow> Connector \<Rightarrow> MigrationSpec \<Rightarrow> MigrationState \<Rightarrow> 'st sys
   \<Rightarrow> goerror option \<times> MigrationState \<times> 'st sys" where
  "runExport env src spec state s =
     (case forWorkloads (exportWorkload env src spec (ms_ID state)) (ms_Workloads state) s of
        (e, ws, s') \<Rightarrow> (e, state\<lparr>ms_Workloads := ws\<rparr>, s'))"

fun convertDisks ::
  "('st, 'raw) env \<Rightarrow> DiskFormat \<Rightarrow> string list \<Rightarrow> WorkloadMigration \<Rightarrow> 'st sys
   \<Rightarrow> goerror option \<times> WorkloadMigration \<times> 'st sys" where
  "convertDisks env targetFormat [] w s = (None, w, s)"
| "convertDisks env targetFormat (path # paths) w s =
     (let req = \<lparr>cr_SourcePath = path, cr_SourceFormat = inferDiskFormat path (vm_Platform (wm_VM w)),
                 cr_TargetPath = conversionTarget path targetFormat, cr_TargetFormat = targetFormat,
                 cr_Thin = True\<rparr>
      in case (env_convertDisk env (sy_hist s) req, record_call (CConvert req) s) of
           (Inl err, s1) \<Rightarrow>
             (Some (Wrap ''convert %s disk %s: %w'' [vm_Name (wm_VM w), path] err), w\<lparr>wm_Error := Some err\<rparr>, s1)
         | (Inr targetPath, s1) \<Rightarrow>
             convertDisks env targetFormat paths
               (w\<lparr>wm_ConvertedDiskPaths := wm_ConvertedDiskPaths w @ [targetPath]\<rparr>) s1)"

definition convertWorkload ::
  "('st, 'raw) env \<Rightarrow> DiskFormat \<Rightarrow> WorkloadMigration \<Rightarrow> 'st sys
   \<Rightarrow> goerror option \<times> WorkloadMigration \<times> 'st sys" where
  "convertWorkload env targetFormat w0 s =
     (let w = w0\<lparr>wm_Phase := PhaseConvert, wm_ConvertedDiskPaths := []\<rparr> in
      case convertDisks env targetFormat (wm_SourceDiskPaths w) w s of
        (Some err, w1, s1) \<Rightarrow> (Some err, w1, s1)
      | (None, w1, s1) \<Rightarrow>
          (None, w1, emit env PhaseConvert (vm_Name (wm_VM w)) ''converted exported disks'' 45 s1))"

definition runConvert ::
  "('st, 'raw) env \<Rightarrow> MigrationSpec \<Rightarrow> MigrationState \<Rightarrow> 'st sys
   \<Rightarrow> goerror option \<times> MigrationState \<times> 'st sys" where
  "runConvert env spec state s =
     (case forWorkloads (convertWorkload env (targetDiskFormat (tgt_Platform (spec_Target spec))))
             (ms_Workloads state) s of
        (e, ws, s') \<Rightarrow> (e, state\<lparr>ms_Workloads := ws\<rparr>, s'))"

definition importWorkload ::
  "('st, 'raw) env \<Rightarrow> Connector \<Rightarrow> MigrationSpec \<Rightarrow> WorkloadMigration \<Rightarrow> 'st sys
   \<Rightarrow> goerror option \<times> WorkloadMigration \<times> 'st sys" where
  "importWorkload env tgt spec w0 s =
     (let w = w0\<lparr>wm_Phase := PhaseImport\<rparr>;
          overrides = fst (mergedOverridesForVM (env_patterns env) (wm_VM w) (spec_Workloads spec));
          targetHost = (if wo_TargetHost overrides = [] then tgt_DefaultHost (spec_Target spec)
                        else wo_TargetHost overrides);
          targetStorage = (if wo_TargetStorage overrides = [] then tgt_DefaultStorage (spec_Target spec)
                           else wo_TargetStorage overrides)
      in case con_importer tgt of
           Some createVM \<Rightarrow>
             (case (createVM (sy_hist s) (wm_VM w) (wm_ConvertedDiskPaths w) targetHost targetStorage,
                    record_call (CCreateVM (wm_VM w) (wm_ConvertedDiskPaths w) targetHost targetStorage) s) of
                (Inl err, s1) \<Rightarrow> failWorkload ''import %s: %w'' err w s1
              | (Inr vmID, s1) \<Rightarrow>
                  (None, w\<lparr>wm_TargetVMID := vmID\<rparr>,
                   emit env PhaseImport (vm_Name (wm_VM w)) ''created target workload'' 60 s1))
         | None \<Rightarrow>
             (None, w\<lparr>wm_TargetVMID := vm_ID (wm_VM w) @ ''-target''\<rparr>,
              emit env PhaseImport (vm_Name (wm_VM w)) ''created target workload'' 60 s))"

definition runImport ::
  "('st, 'raw) env \<Rightarrow> Connector \<Rightarrow> MigrationSpec \<Rightarrow> MigrationState \<Rightarrow> 'st sys
   \<Rightarrow> goerror option \<times> MigrationState \<times> 'st sys" where
  "runImport env tgt spec state s =
     (case forWorkloads (importWorkload env tgt spec) (ms_Workloads state) s of
        (e, ws, s') \<Rightarrow> (e, state\<lparr>ms_Workloads := ws\<rparr>, s'))"

definition configureWorkload ::
  "('st, 'raw) env \<Rightarrow> Connector \<Rightarrow> MigrationSpec \<Rightarrow> NetworkInfo list \<Rightarrow> WorkloadMigration \<Rightarrow> 'st sys
   \<Rightarrow> goerror option \<times> WorkloadMigration \<times> 'st sys" where
  "configureWorkload env tgt spec networks w0 s =
     (let w = w0\<lparr>wm_Phase := PhaseConfigure\<rparr>;
          overrides = fst (mergedOverridesForVM (env_patterns env) (wm_VM w) (spec_Workloads spec));
          mapper = NewNetworkMapper (wo_NetworkMap overrides) networks
      in case MapAllNICs mapper (vm_NICs (wm_VM w)) of
           (mappedNICs, err # errs) \<Rightarrow>
             (Some (Wrap ''configure %s: %w'' [vm_Name (wm_VM w)] (ErrJoin (err # errs))),
              w\<lparr>wm_Error := Some err\<rparr>, s)
         | (mappedNICs, []) \<Rightarrow>
             (case con_networks tgt of
                Some configure \<Rightarrow>
                  (case (configure (sy_hist s) (wm_TargetVMID w) mappedNICs,
                         record_call (CConfigure (wm_TargetVMID w) mappedNICs) s) of
                     (Some err, s1) \<Rightarrow> failWorkload ''configure %s: %w'' err w s1
                   | (None, s1) \<Rightarrow>
                       (None, w, emit env PhaseConfigure (vm_Name (wm_VM w)) ''applied network mappings'' 75 s1))
              | None \<Rightarrow>
                  (None, w, emit env PhaseConfigure (vm_Name (wm_VM w)) ''applied network mappings'' 75 s)))"

definition runConfigure ::
  "('st, 'raw) env \<Rightarrow> Connector \<Rightarrow> MigrationSpec \<Rightarrow> MigrationState \<Rightarrow> DiscoveryResult \<Rightarrow> 'st sys
   \<Rightarrow> goerror option \<times> MigrationState \<times> 'st sys" where
  "runConfigure env tgt spec state targetResult s =
     (case forWorkloads (configureWorkload env tgt spec (dr_Networks targetResult)) (ms_Workloads state) s of
        (e, ws, s') \<Rightarrow> (e, state\<lparr>ms_Workloads := ws\<rparr>, s'))"

definition verifyBoot ::
  "('st, 'raw) env \<Rightarrow> Connector \<Rightarrow> WorkloadMigration \<Rightarrow> 'st sys
   \<Rightarrow> goerror option \<times> WorkloadMigration \<times> 'st sys" where
  "verifyBoot env tgt w s =
     (case con_verifier tgt of
        Some verify \<Rightarrow>
          (case (verify (sy_hist s) (wm_TargetVMID w), record_call (CVerify (wm_TargetVMID w)) s) of
             (Some err, s1) \<Rightarrow> failWorkload ''verify %s: %w'' err w s1
           | (None, s1) \<Rightarrow>
               (None, w, emit env PhaseVerify (vm_Name (wm_VM w)) ''verified target workload'' 90 s1))
      | None \<Rightarrow> (None, w, emit env PhaseVerify (vm_Name (wm_VM w)) ''verified target workload'' 90 s))"

definition verifyWorkload ::
  "('st, 'raw) env \<Rightarrow> Connector \<Rightarrow> WorkloadMigration \<Rightarrow> 'st sys
   \<Rightarrow> goerror option \<times> WorkloadMigration \<times> 'st sys" where
  "verifyWorkload env tgt w0 s =
     (let w = w0\<lparr>wm_Phase := PhaseVerify\<rparr> in
      case con_power tgt of
        Some pc \<Rightarrow>
          (case (pc_PowerOnVM pc (sy_hist s) (wm_TargetVMID w),
                 record_call (CPowerOn Target (wm_TargetVMID w)) s) of
             (Some err, s1) \<Rightarrow> failWorkload ''verify %s: power on: %w'' err w s1
           | (None, s1) \<Rightarrow> verifyBoot env tgt w s1)
      | None \<Rightarrow> verifyBoot env tgt w s)"

definition runVerify ::
  "('st, 'raw) env \<Rightarrow> Connector \<Rightarrow> MigrationSpec \<Rightarrow> MigrationState \<Rightarrow> 'st sys
   \<Rightarrow> goerror option \<times> MigrationState \<times> 'st sys" where
  "runVerify env tgt spec state s =
     (if \<not> opt_VerifyBoot (spec_Options spec)
      then (None, state\<lparr>ms_Workloads := map (\<lambda>w. w\<lparr>wm_Phase := PhaseVerify\<rparr>) (ms_Workloads state)\<rparr>, s)
      else (case forWorkloads (verifyWorkload env tgt) (ms_Workloads state) s of
              (e, ws, s') \<Rightarrow> (e, state\<lparr>ms_Workloads := ws\<rparr>, s')))"

section \<open>The state machine\<close>

definition setPhase ::
  "('st, 'raw) env \<Rightarrow> MigrationState \<Rightarrow> MigrationPhase \<Rightarrow> 'st sys
   \<Rightarrow> goerror option \<times> MigrationState \<times> 'st sys" where
  "setPhase env state phase s =
     (case nowUTC env s of (now1, s1) \<Rightarrow>
      case nowUTC env s1 of (now2, s2) \<Rightarrow>
        (let st1 = markCheckpointRunning now2 (state\<lparr>ms_Phase := phase, ms_UpdatedAt := now1\<rparr>) phase ''phase started''
         in case persistMigrationState env st1 s2 of (e, s3) \<Rightarrow> (e, st1, s3)))"

text \<open>
  The clock is read where \<open>markCheckpointRunning\<close> may read it; a checkpoint that already has a start
  time ignores the reading.
\<close>

definition failState ::
  "('st, 'raw) env \<Rightarrow> MigrationState \<Rightarrow> MigrationPhase \<Rightarrow> goerror \<Rightarrow> 'st sys
   \<Rightarrow> (MigrationState option \<times> goerror option) \<times> 'st sys" where
  "failState env state phase err s =
     (case nowUTC env s of (now1, s1) \<Rightarrow>
      case nowUTC env s1 of (now2, s2) \<Rightarrow>
      case nowUTC env s2 of (now3, s3) \<Rightarrow>
        (let st1 = markCheckpointFailed now2 now3
                     (state\<lparr>ms_Phase := PhaseFailed, ms_UpdatedAt := now1, ms_Errors := ms_Errors state @ [err]\<rparr>)
                     phase (Some err);
             s4 = snd (persistMigrationState env st1 s3)
         in ((Some st1, Some err), emit env phase [] ''migration failed'' 100 s4)))"

definition completeCheckpoint ::
  "('st, 'raw) env \<Rightarrow> MigrationState \<Rightarrow> MigrationPhase \<Rightarrow> string \<Rightarrow> 'st sys \<Rightarrow> MigrationState \<times> 'st sys" where
  "completeCheckpoint env state phase message s =
     (case nowUTC env s of (now1, s1) \<Rightarrow>
      case nowUTC env s1 of (now2, s2) \<Rightarrow> (markCheckpointCompleted now1 now2 state phase message, s2))"

definition newMigrationState ::
  "('st, 'raw) env \<Rightarrow> MigrationSpec \<Rightarrow> string \<Rightarrow> 'st sys \<Rightarrow> MigrationState \<times> 'st sys" where
  "newMigrationState env spec migrationID s =
     (case nowUTC env s of (now1, s1) \<Rightarrow>
      case nowUTC env s1 of (now2, s2) \<Rightarrow>
        (\<lparr>ms_ID = migrationID, ms_SpecName = spec_Name spec,
          ms_SourceAddress = src_Address (spec_Source spec), ms_SourcePlatform = src_Platform (spec_Source spec),
          ms_TargetAddress = tgt_Address (spec_Target spec), ms_TargetPlatform = tgt_Platform (spec_Target spec),
          ms_Phase = PhasePlan, ms_Workloads = [], ms_Plan = None, ms_Checkpoints = initializeCheckpoints,
          ms_Window = opt_Window (spec_Options spec), ms_Approval = opt_Approval (spec_Options spec),
          ms_PendingApproval = (ag_Required (opt_Approval (spec_Options spec))
                                \<and> \<not> Approved (opt_Approval (spec_Options spec))),
          ms_StartedAt = now1, ms_UpdatedAt = now2, ms_CompletedAt = 0, ms_Errors = []\<rparr>, s2))"

definition validateExecutionReadiness ::
  "MigrationState \<Rightarrow> MigrationSpec \<Rightarrow> time \<Rightarrow> goerror + MigrationState" where
  "validateExecutionReadiness state spec current =
     (let window = opt_Window (spec_Options spec); approval = opt_Approval (spec_Options spec) in
      if \<not> isZero (win_NotBefore window) \<and> current < win_NotBefore window
      then Inl (ErrorfTime ''migration window opens at %s'' (win_NotBefore window))
      else if \<not> isZero (win_NotAfter window) \<and> current > win_NotAfter window
      then Inl (ErrorfTime ''migration window closed at %s'' (win_NotAfter window))
      else if ag_Required approval \<and> \<not> Approved approval
      then Inl (Errorf ''migration requires approval before execution'' [])
      else Inr (state\<lparr>ms_PendingApproval := False, ms_Approval := approval\<rparr>))"

text \<open>The deferred \<open>Close\<close> calls run in reverse order on every return after they were deferred.\<close>

definition discoverInventories ::
  "Connector \<Rightarrow> Connector \<Rightarrow> 'st sys \<Rightarrow> (goerror + DiscoveryResult \<times> DiscoveryResult) \<times> 'st sys" where
  "discoverInventories src tgt s =
     (let s1 = record_call (CConnect Source) s;
          closeSource = record_call (CClose Source);
          closeBoth = (\<lambda>s. closeSource (record_call (CClose Target) s))
      in case con_Connect src (sy_hist s) of
           Some err \<Rightarrow> (Inl (Wrap ''connect source: %w'' [] err), s1)
         | None \<Rightarrow>
             (let s2 = record_call (CConnect Target) s1 in
              case con_Connect tgt (sy_hist s1) of
                Some err \<Rightarrow> (Inl (Wrap ''connect target: %w'' [] err), closeSource s2)
              | None \<Rightarrow>
                  (let s3 = record_call (CDiscover Source) s2 in
                   case con_Discover src (sy_hist s2) of
                     Inl err \<Rightarrow> (Inl (Wrap ''discover source: %w'' [] err), closeBoth s3)
                   | Inr sourceResult \<Rightarrow>
                       (let s4 = record_call (CDiscover Target) s3 in
                        case con_Discover tgt (sy_hist s3) of
                          Inl err \<Rightarrow> (Inl (Wrap ''discover target: %w'' [] err), closeBoth s4)
                        | Inr targetResult \<Rightarrow> (Inr (sourceResult, targetResult), closeBoth s4)))))"

definition phaseMessage :: "MigrationPhase \<Rightarrow> string" where
  "phaseMessage phase =
     (case phase of
        PhaseExport \<Rightarrow> ''exporting source disks''
      | PhaseConvert \<Rightarrow> ''converting disks for target platform''
      | PhaseImport \<Rightarrow> ''importing workloads on target platform''
      | PhaseConfigure \<Rightarrow> ''configuring target workloads''
      | PhaseVerify \<Rightarrow> ''verifying target workloads''
      | _ \<Rightarrow> [])"

definition runPhase ::
  "('st, 'raw) env \<Rightarrow> Connector \<Rightarrow> Connector \<Rightarrow> MigrationSpec \<Rightarrow> DiscoveryResult \<Rightarrow> MigrationPhase
   \<Rightarrow> MigrationState \<Rightarrow> 'st sys \<Rightarrow> goerror option \<times> MigrationState \<times> 'st sys" where
  "runPhase env src tgt spec targetResult phase state s =
     (case phase of
        PhaseExport \<Rightarrow> runExport env src spec state s
      | PhaseConvert \<Rightarrow> runConvert env spec state s
      | PhaseImport \<Rightarrow> runImport env tgt spec state s
      | PhaseConfigure \<Rightarrow> runConfigure env tgt spec state targetResult s
      | PhaseVerify \<Rightarrow> runVerify env tgt spec state s
      | _ \<Rightarrow> (None, state, s))"

text \<open>
  The body of the loop over the phases, and the loop. \<open>Inl\<close> is an early return with its state and
  error, \<open>Inr\<close> the state after the phase or after the last phase.
\<close>

definition runOnePhase ::
  "('st, 'raw) env \<Rightarrow> Connector \<Rightarrow> Connector \<Rightarrow> MigrationSpec \<Rightarrow> DiscoveryResult \<Rightarrow> nat \<Rightarrow> MigrationPhase
   \<Rightarrow> MigrationState \<Rightarrow> 'st sys \<Rightarrow> ((MigrationState option \<times> goerror option) + MigrationState) \<times> 'st sys" where
  "runOnePhase env src tgt spec targetResult index phase state s =
     (case setPhase env state phase s of
        (Some err, state1, s1) \<Rightarrow> (Inl (None, Some (Wrap ''run migration: %w'' [] err)), s1)
      | (None, state1, s1) \<Rightarrow>
          (let s2 = emit env phase [] (phaseMessage phase) (20 + int index * 15) s1 in
           case CreateRecoveryPoint env src state1 s2 of
             (Inl err, s3) \<Rightarrow> (case failState env state1 phase err s3 of (r, s') \<Rightarrow> (Inl r, s'))
           | (Inr point, s3) \<Rightarrow>
               (case runPhase env src tgt spec targetResult phase state1 s3 of
                  (Some err, state2, s4) \<Rightarrow> (case failState env state2 phase err s4 of (r, s') \<Rightarrow> (Inl r, s'))
                | (None, state2, s4) \<Rightarrow>
                    (case completeCheckpoint env state2 phase (phaseMessage phase) s4 of
                       (state3, s5) \<Rightarrow>
                         (case persistMigrationState env state3 s5 of
                            (Some err, s6) \<Rightarrow> (Inl (None, Some (Wrap ''run migration: %w'' [] err)), s6)
                          | (None, s6) \<Rightarrow> (Inr state3, s6))))))"

fun runPhases ::
  "('st, 'raw) env \<Rightarrow> Connector \<Rightarrow> Connector \<Rightarrow> MigrationSpec \<Rightarrow> DiscoveryResult \<Rightarrow> nat \<Rightarrow> MigrationPhase list
   \<Rightarrow> MigrationState \<Rightarrow> 'st sys \<Rightarrow> ((MigrationState option \<times> goerror option) + MigrationState) \<times> 'st sys" where
  "runPhases env src tgt spec targetResult index [] state s = (Inr state, s)"
| "runPhases env src tgt spec targetResult index (phase # phases) state s =
     (case runOnePhase env src tgt spec targetResult index phase state s of
        (Inl r, s') \<Rightarrow> (Inl r, s')
      | (Inr state', s') \<Rightarrow> runPhases env src tgt spec targetResult (Suc index) phases state' s')"

definition runExecution ::
  "('st, 'raw) env \<Rightarrow> Connector \<Rightarrow> Connector \<Rightarrow> MigrationSpec \<Rightarrow> MigrationState \<Rightarrow> DiscoveryResult \<Rightarrow> nat
   \<Rightarrow> 'st sys \<Rightarrow> (MigrationState option \<times> goerror option) \<times> 'st sys" where
  "runExecution env src tgt spec state targetResult startIndex s =
     (case runPhases env src tgt spec targetResult startIndex (drop startIndex executionPhases) state s of
        (Inl r, s1) \<Rightarrow> (r, s1)
      | (Inr state1, s1) \<Rightarrow>
          (case nowUTC env s1 of (now, s2) \<Rightarrow>
             (let state2 = state1\<lparr>ms_Phase := PhaseComplete, ms_PendingApproval := False, ms_UpdatedAt := now,
                    ms_CompletedAt := now,
                    ms_Workloads := map (\<lambda>w. w\<lparr>wm_Phase := PhaseComplete\<rparr>) (ms_Workloads state1)\<rparr>
              in case persistMigrationState env state2 s2 of
                   (Some err, s3) \<Rightarrow> ((None, Some (Wrap ''execute migration: %w'' [] err)), s3)
                 | (None, s3) \<Rightarrow>
                     ((Some state2, None), emit env PhaseComplete [] ''migration complete'' 100 s3))))"

text \<open>Refusing to run: outside the window or without approval.\<close>

definition refuse ::
  "('st, 'raw) env \<Rightarrow> string \<Rightarrow> MigrationSpec \<Rightarrow> MigrationState \<Rightarrow> goerror \<Rightarrow> 'st sys
   \<Rightarrow> (MigrationState option \<times> goerror option) \<times> 'st sys" where
  "refuse env fmt spec state err s =
     (case nowUTC env s of (now, s1) \<Rightarrow>
        (let state1 = state\<lparr>ms_Errors := ms_Errors state @ [err],
               ms_PendingApproval := (ag_Required (opt_Approval (spec_Options spec))
                                      \<and> \<not> Approved (opt_Approval (spec_Options spec))),
               ms_UpdatedAt := now\<rparr>
         in case persistMigrationState env state1 s1 of
              (Some perr, s2) \<Rightarrow> ((None, Some (Wrap fmt [] perr)), s2)
            | (None, s2) \<Rightarrow> ((Some state1, Some (Wrap fmt [] err)), s2)))"

section \<open>Execute and Resume\<close>

text \<open>\<open>Execute\<close> from the point where the plan is stored: the dry-run exit, the gate, the phases.\<close>

definition executePlanned ::
  "('st, 'raw) env \<Rightarrow> Connector \<Rightarrow> Connector \<Rightarrow> MigrationSpec \<Rightarrow> DiscoveryResult \<Rightarrow> MigrationState \<Rightarrow> 'st sys
   \<Rightarrow> (MigrationState option \<times> goerror option) \<times> 'st sys" where
  "executePlanned env src tgt spec targetResult state s0 =
     (let s = emit env PhasePlan [] ''migration plan created'' 10 s0 in
      if opt_DryRun (spec_Options spec) then ((Some state, None), s)
      else
        (case nowUTC env s of (current, s1) \<Rightarrow>
         case validateExecutionReadiness state spec current of
           Inl err \<Rightarrow> refuse env ''execute migration: %w'' spec state err s1
         | Inr state1 \<Rightarrow>
             (case CreateRecoveryPoint env src state1 s1 of
                (Inl err, s2) \<Rightarrow> failState env state1 PhasePlan err s2
              | (Inr point, s2) \<Rightarrow> runExecution env src tgt spec state1 targetResult 0 s2)))"

definition executeWith ::
  "('st, 'raw) env \<Rightarrow> Connector \<Rightarrow> Connector \<Rightarrow> MigrationSpec \<Rightarrow> 'st sys
   \<Rightarrow> (MigrationState option \<times> goerror option) \<times> 'st sys" where
  "executeWith env src tgt spec s =
     (let migrationID = env_newID env (sy_hist s); s0 = record_call CNewID s in
      case newMigrationState env spec migrationID s0 of (state0, s1) \<Rightarrow>
      case discoverInventories src tgt s1 of
        (Inl err, s2) \<Rightarrow> failState env state0 PhasePlan err s2
      | (Inr (sourceResult, targetResult), s2) \<Rightarrow>
      case nowUTC env s2 of (now, s3) \<Rightarrow>
      case BuildExecutionPlan (env_patterns env) (env_sort env) now (Some spec) (dr_VMs sourceResult) of
        Inl err \<Rightarrow> failState env state0 PhasePlan err s3
      | Inr plan \<Rightarrow>
          (let workloads = reorderWorkloadsByPlan
                 (buildWorkloadMigrations (env_patterns env) (dr_VMs sourceResult) (spec_Workloads spec))
                 (Some plan);
               state1 = state0\<lparr>ms_Plan := Some plan, ms_Workloads := workloads\<rparr>
           in if length workloads = 0
              then failState env state1 PhasePlan (Errorf ''no workloads matched migration selectors'' []) s3
              else
                (case completeCheckpoint env state1 PhasePlan ''migration plan created'' s3 of (state2, s4) \<Rightarrow>
                 case persistMigrationState env state2 s4 of
                   (Some err, s5) \<Rightarrow> ((None, Some (Wrap ''execute migration: %w'' [] err)), s5)
                 | (None, s5) \<Rightarrow> executePlanned env src tgt spec targetResult state2 s5)))"

definition Execute ::
  "('st, 'raw) env \<Rightarrow> MigrationSpec option \<Rightarrow> 'st sys \<Rightarrow> (MigrationState option \<times> goerror option) \<times> 'st sys" where
  "Execute env ospec s =
     (case ospec of
        None \<Rightarrow> ((None, Some (Errorf ''execute migration: spec is nil'' [])), s)
      | Some spec \<Rightarrow>
          (case (env_source env, env_target env) of
             (Some src, Some tgt) \<Rightarrow> executeWith env src tgt spec s
           | _ \<Rightarrow> ((None, Some (Errorf ''execute migration: source and target connectors are required'' [])), s)))"

text \<open>
  What \<open>Resume\<close> restores when the stored state lacks a plan, workloads or checkpoints. The clock is read
  once for the plan and twice for the checkpoint, and only when they are restored.
\<close>

definition restoreWorkloads ::
  "('st, 'raw) env \<Rightarrow> MigrationSpec \<Rightarrow> DiscoveryResult \<Rightarrow> MigrationState \<Rightarrow> MigrationState" where
  "restoreWorkloads env spec sourceResult state =
     (if length (ms_Workloads state) = 0
      then state\<lparr>ms_Workloads := reorderWorkloadsByPlan
                    (buildWorkloadMigrations (env_patterns env) (dr_VMs sourceResult) (spec_Workloads spec))
                    (ms_Plan state)\<rparr>
      else state)"

definition restoreCheckpoints ::
  "('st, 'raw) env \<Rightarrow> MigrationState \<Rightarrow> 'st sys \<Rightarrow> MigrationState \<times> 'st sys" where
  "restoreCheckpoints env state s =
     (if length (ms_Checkpoints state) = 0
      then completeCheckpoint env (state\<lparr>ms_Checkpoints := initializeCheckpoints\<rparr>) PhasePlan
             ''migration plan restored'' s
      else (state, s))"

definition resumeReady ::
  "('st, 'raw) env \<Rightarrow> Connector \<Rightarrow> Connector \<Rightarrow> MigrationSpec \<Rightarrow> DiscoveryResult \<Rightarrow> DiscoveryResult
   \<Rightarrow> MigrationState \<Rightarrow> 'st sys \<Rightarrow> (MigrationState option \<times> goerror option) \<times> 'st sys" where
  "resumeReady env src tgt spec sourceResult targetResult state s =
     (case restoreCheckpoints env (restoreWorkloads env spec sourceResult state) s of (state1, s1) \<Rightarrow>
      case nowUTC env s1 of (current, s2) \<Rightarrow>
      case validateExecutionReadiness state1 spec current of
        Inl err \<Rightarrow> refuse env ''resume migration: %w'' spec state1 err s2
      | Inr state2 \<Rightarrow>
          (case nextPhaseStartIndex state2 of
             None \<Rightarrow>
               (case nowUTC env s2 of (now, s3) \<Rightarrow>
                  (let state3 = state2\<lparr>ms_Phase := PhaseComplete, ms_PendingApproval := False,
                         ms_UpdatedAt := now, ms_CompletedAt := now\<rparr>
                   in case persistMigrationState env state3 s3 of
                        (Some err, s4) \<Rightarrow> ((None, Some (Wrap ''resume migration: %w'' [] err)), s4)
                      | (None, s4) \<Rightarrow> ((Some state3, None), s4)))
           | Some startIndex \<Rightarrow> runExecution env src tgt spec state2 targetResult startIndex s2))"

text \<open>\<open>Resume\<close> with the stored state at hand, which is neither complete nor rolled back.\<close>

definition resumeStored ::
  "('st, 'raw) env \<Rightarrow> Connector \<Rightarrow> Connector \<Rightarrow> MigrationSpec \<Rightarrow> MigrationState \<Rightarrow> 'st sys
   \<Rightarrow> (MigrationState option \<times> goerror option) \<times> 'st sys" where
  "resumeStored env src tgt spec state s1 =
     (case discoverInventories src tgt s1 of
        (Inl err, s2) \<Rightarrow> failState env state (ms_Phase state) err s2
      | (Inr (sourceResult, targetResult), s2) \<Rightarrow>
          (case ms_Plan state of
             Some _ \<Rightarrow> resumeReady env src tgt spec sourceResult targetResult state s2
           | None \<Rightarrow>
               (case nowUTC env s2 of (now, s3) \<Rightarrow>
                case BuildExecutionPlan (env_patterns env) (env_sort env) now (Some spec) (dr_VMs sourceResult) of
                  Inl err \<Rightarrow> failState env state PhasePlan err s3
                | Inr plan \<Rightarrow>
                    resumeReady env src tgt spec sourceResult targetResult (state\<lparr>ms_Plan := Some plan\<rparr>) s3)))"

definition Resume ::
  "('st, 'raw) env \<Rightarrow> string \<Rightarrow> MigrationSpec option \<Rightarrow> 'st sys
   \<Rightarrow> (MigrationState option \<times> goerror option) \<times> 'st sys" where
  "Resume env migrationID ospec s =
     (if TrimSpace migrationID = []
      then ((None, Some (Errorf ''resume migration: migration ID is required'' [])), s)
      else
        (case ospec of
           None \<Rightarrow> ((None, Some (Errorf ''resume migration: spec is nil'' [])), s)
         | Some spec \<Rightarrow>
             (case (env_source env, env_target env) of
                (Some src, Some tgt) \<Rightarrow>
                  (case loadMigrationState env migrationID s of
                     (Inl err, s1) \<Rightarrow> ((None, Some (Wrap ''resume migration: %w'' [] err)), s1)
                   | (Inr state, s1) \<Rightarrow>
                       if ms_Phase state = PhaseComplete then ((Some state, None), s1)
                       else if ms_Phase state = PhaseRolledBack
                       then ((None, Some (Errorf ''resume migration: migration %s has already been rolled back''
                                      [migrationID])), s1)
                       else resumeStored env src tgt spec state s1)
              | _ \<Rightarrow> ((None, Some (Errorf ''resume migration: source and target connectors are required'' [])), s))))"

section \<open>workspace_plan.go\<close>

definition BuildStateFromInventory ::
  "patternLib \<Rightarrow> (string list \<Rightarrow> nat list) \<Rightarrow> (nat \<Rightarrow> time) \<Rightarrow> MigrationSpec option \<Rightarrow> DiscoveryResult option
   \<Rightarrow> string \<Rightarrow> time \<Rightarrow> goerror + MigrationState" where
  "BuildStateFromInventory lib p clock ospec oinventory migrationID generatedAt0 =
     (case ospec of
        None \<Rightarrow> Inl (Errorf ''build migration state: spec is nil'' [])
      | Some spec \<Rightarrow>
     (case oinventory of
        None \<Rightarrow> Inl (Errorf ''build migration state: inventory is nil'' [])
      | Some inventory \<Rightarrow>
          if TrimSpace migrationID = []
          then Inl (Errorf ''build migration state: migration ID is required'' [])
          else
            (let generatedAt = (if isZero generatedAt0 then clock 0 else generatedAt0) in
             case BuildExecutionPlan lib p (clock 1) (Some spec) (dr_VMs inventory) of
               Inl err \<Rightarrow> Inl (Wrap ''build migration state: %w'' [] err)
             | Inr plan \<Rightarrow>
                 (let workloads = reorderWorkloadsByPlan
                        (buildWorkloadMigrations lib (dr_VMs inventory) (spec_Workloads spec)) (Some plan);
                      state = \<lparr>ms_ID = migrationID, ms_SpecName = spec_Name spec,
                        ms_SourceAddress = src_Address (spec_Source spec),
                        ms_SourcePlatform = src_Platform (spec_Source spec),
                        ms_TargetAddress = tgt_Address (spec_Target spec),
                        ms_TargetPlatform = tgt_Platform (spec_Target spec),
                        ms_Phase = PhasePlan, ms_Workloads = workloads, ms_Plan = Some plan,
                        ms_Checkpoints = initializeCheckpoints,
                        ms_Window = opt_Window (spec_Options spec), ms_Approval = opt_Approval (spec_Options spec),
                        ms_PendingApproval = (ag_Required (opt_Approval (spec_Options spec))
                                              \<and> \<not> Approved (opt_Approval (spec_Options spec))),
                        ms_StartedAt = generatedAt, ms_UpdatedAt = generatedAt, ms_CompletedAt = 0,
                        ms_Errors = []\<rparr>
                  in if length workloads = 0
                     then Inl (Errorf ''build migration state: no workloads matched migration selectors'' [])
                     else Inr (markCheckpointCompleted (clock 2) (clock 3) state PhasePlan
                                 ''migration plan created'')))))"

section \<open>Rollback, rollback.go\<close>

record RollbackResult =
  rb_MigrationID :: string
  rb_TargetVMsRemoved :: nat
  rb_FilesCleanedUp :: nat
  rb_SourceVMsRestored :: nat
  rb_Errors :: "goerror list"
  rb_Duration :: duration

text \<open>
  The cleanup loops: try every item, collect the errors, count the successes. \<open>skip\<close> tells the errors
  that are passed over, which count neither way.
\<close>

fun cleanupLoop ::
  "(call list \<Rightarrow> 'a \<Rightarrow> goerror option) \<Rightarrow> ('a \<Rightarrow> call) \<Rightarrow> (goerror \<Rightarrow> bool) \<Rightarrow> 'a list \<Rightarrow> 'st sys
   \<Rightarrow> (nat \<times> goerror list) \<times> 'st sys" where
  "cleanupLoop act mk skip [] s = ((0, []), s)"
| "cleanupLoop act mk skip (x # xs) s =
     (case cleanupLoop act mk skip xs (record_call (mk x) s) of
        ((n, errs), s') \<Rightarrow>
          (case act (sy_hist s) x of
             None \<Rightarrow> ((Suc n, errs), s')
           | Some err \<Rightarrow> if skip err then ((n, errs), s') else ((n, err # errs), s')))"

definition rollbackFinish ::
  "('st, 'raw) env \<Rightarrow> time \<Rightarrow> MigrationState \<Rightarrow> RollbackResult \<Rightarrow> 'st sys
   \<Rightarrow> (RollbackResult option \<times> goerror option) \<times> 'st sys" where
  "rollbackFinish env startedAt state result s =
     (case nowUTC env s of (now, s1) \<Rightarrow>
        (let state1 = state\<lparr>ms_UpdatedAt := now, ms_CompletedAt := now\<rparr>;
             state2 = (if length (rb_Errors result) > 0
                       then state1\<lparr>ms_Phase := PhaseFailed,
                              ms_Errors := ms_Errors state1 @ map (\<lambda>e. Wrap ''rollback: %s'' [] e) (rb_Errors result)\<rparr>
                       else state1\<lparr>ms_Phase := PhaseRolledBack\<rparr>)
         in case persistMigrationState env state2 s1 of
              (Some err, s2) \<Rightarrow> ((None, Some (Wrap ''rollback: %w'' [] err)), s2)
            | (None, s2) \<Rightarrow>
                (case nowUTC env s2 of (ended, s3) \<Rightarrow>
                   (let result1 = result\<lparr>rb_Duration := ended - startedAt\<rparr> in
                    if length (rb_Errors result1) > 0
                    then ((Some result1, Some (Wrap ''rollback: completed with %d error(s): %s''
                             [itoa (length (rb_Errors result1))] (ErrJoin (rb_Errors result1)))), s3)
                    else ((Some result1, None), s3)))))"

definition powerOffTargets ::
  "Connector \<Rightarrow> string list \<Rightarrow> 'st sys \<Rightarrow> (nat \<times> goerror list) \<times> 'st sys" where
  "powerOffTargets tgt vmIDs s =
     (case con_power tgt of
        None \<Rightarrow> ((0, []), s)
      | Some pc \<Rightarrow> cleanupLoop (pc_PowerOffVM pc) (CPowerOff Target) (\<lambda>_. False) vmIDs s)"

definition removeTargets ::
  "Connector \<Rightarrow> string list \<Rightarrow> 'st sys \<Rightarrow> (nat \<times> goerror list) \<times> 'st sys" where
  "removeTargets tgt vmIDs s =
     (case con_remover tgt of
        None \<Rightarrow> ((0, []), s)
      | Some remove \<Rightarrow> cleanupLoop remove CRemoveVM (\<lambda>_. False) vmIDs s)"

definition restoreSources ::
  "Connector \<Rightarrow> VMRecoveryInfo list \<Rightarrow> 'st sys \<Rightarrow> (nat \<times> goerror list) \<times> 'st sys" where
  "restoreSources src infos s =
     (case con_power src of
        None \<Rightarrow> ((0, []), s)
      | Some pc \<Rightarrow>
          cleanupLoop (\<lambda>h i. pc_RestoreVMPowerState pc h (vm_ID (vr_VM i)) (vr_OriginalPowerState i))
            (\<lambda>i. CRestorePower Source (vm_ID (vr_VM i)) (vr_OriginalPowerState i)) (\<lambda>_. False) infos s)"

definition Rollback ::
  "('st, 'raw) env \<Rightarrow> Connector \<Rightarrow> Connector \<Rightarrow> string \<Rightarrow> 'st sys
   \<Rightarrow> (RollbackResult option \<times> goerror option) \<times> 'st sys" where
  "Rollback env src tgt migrationID s0 =
     (case nowUTC env s0 of (startedAt, s) \<Rightarrow>
      case loadRecoveryPoint env migrationID s of
        (Inl err, s1) \<Rightarrow> ((None, Some (Wrap ''rollback: %w'' [] err)), s1)
      | (Inr point, s1) \<Rightarrow>
      case loadMigrationState env migrationID s1 of
        (Inl err, s2) \<Rightarrow> ((None, Some (Wrap ''rollback: %w'' [] err)), s2)
      | (Inr state, s2) \<Rightarrow>
      case powerOffTargets tgt (rp_TargetVMs point) s2 of ((_, errs1), s3) \<Rightarrow>
      case removeTargets tgt (rp_TargetVMs point) s3 of ((removed, errs2), s4) \<Rightarrow>
      case cleanupLoop (env_removeFile env) CRemoveFile (env_isNotExist env) (rp_ConvertedFiles point) s4 of
        ((files, errs3), s5) \<Rightarrow>
      case restoreSources src (rp_SourceVMs point) s5 of ((restored, errs4), s6) \<Rightarrow>
        rollbackFinish env startedAt state
          \<lparr>rb_MigrationID = migrationID, rb_TargetVMsRemoved = removed, rb_FilesCleanedUp = files,
           rb_SourceVMsRestored = restored, rb_Errors = errs1 @ errs2 @ errs3 @ errs4, rb_Duration = 0\<rparr> s6)"

end
