(* ===== verification/PlanCorrect.thy ===== *)
theory PlanCorrect
  imports Plan
begin

text \<open>
  Correctness of planning. The topological sort is related to a specification on keys: \<open>kahn_inv\<close>
  says how the counters, the processed keys and the available keys of \<open>buildDependencyAwareWaves\<close>
  agree, every turn of the loop keeps it, and the waves, the absence of a cycle and the error
  branches are read off from it. Further sections treat batching, reordering and checkpoints.
\<close>

section \<open>Building the maps\<close>

lemma update_new_key: "k \<notin> fst ` set m \<Longrightarrow> AList.update k v m = m @ [(k, v)]"
  by (induction m) auto

lemma fold_update_distinct:
  "distinct (map f ws) \<Longrightarrow> f ` set ws \<inter> fst ` set m = {} \<Longrightarrow>
   fold (\<lambda>w. AList.update (f w) (g w)) ws m = m @ map (\<lambda>w. (f w, g w)) ws"
  by (induction ws arbitrary: m) (auto simp: update_new_key)

lemma keys_update_existing: "k \<in> fst ` set m \<Longrightarrow> map fst (AList.update k v m) = map fst m"
  by (induction m) auto

lemma getInt_update [simp]: "getInt (AList.update k n m) v = (if v = k then n else getInt m v)"
  by (simp add: getInt_def)

lemma getList_update [simp]: "getList (AList.update k xs m) v = (if v = k then xs else getList m v)"
  by (simp add: getList_def)

lemma nodeAt_nodesOf:
  assumes "distinct (map pw_VMID ws)" "w \<in> set ws"
  shows "nodeAt (nodesOf ws) (pw_VMID w) = w"
proof -
  have eq: "nodesOf ws = map (\<lambda>w. (pw_VMID w, w)) ws"
    using assms(1) by (simp add: nodesOf_def fold_update_distinct)
  have "map_of (nodesOf ws) (pw_VMID w) = Some w"
    by (rule map_of_is_SomeI) (use assms in \<open>auto simp: eq comp_def\<close>)
  then show ?thesis by (simp add: nodeAt_def)
qed

text \<open>Every entry of the name index points to a workload of that identifier or name.\<close>

lemma nameIndex_fold:
  "map_of (fold (\<lambda>w m. AList.update (ToLower (pw_Name w)) (pw_VMID w)
                   (AList.update (ToLower (pw_VMID w)) (pw_VMID w) m)) ws m0) key = Some k \<Longrightarrow>
   map_of m0 key = Some k
     \<or> (\<exists>w \<in> set ws. pw_VMID w = k \<and> (ToLower (pw_VMID w) = key \<or> ToLower (pw_Name w) = key))"
proof (induction ws arbitrary: m0)
  case (Cons w ws)
  from Cons.IH [OF Cons.prems [simplified]] show ?case by (auto split: if_splits)
qed simp

lemma resolveDep_sound:
  assumes "resolveDep (nameIndexOf ws) d = Some k"
  shows "\<exists>w \<in> set ws. pw_VMID w = k
           \<and> (EqualFold (pw_VMID w) (TrimSpace d) \<or> EqualFold (pw_Name w) (TrimSpace d))"
  using nameIndex_fold [of ws "[]" "ToLower (TrimSpace d)" k] assms
  by (auto simp: resolveDep_def nameIndexOf_def EqualFold_def)

section \<open>Counting dependencies\<close>

text \<open>The keys the dependencies of a workload resolve to.\<close>

definition depKeys :: "(string \<times> string) list \<Rightarrow> PlannedWorkload \<Rightarrow> string list" where
  "depKeys idx w = map (\<lambda>d. the (resolveDep idx d)) (pw_Dependencies w)"

definition depsResolve :: "(string \<times> string) list \<Rightarrow> PlannedWorkload \<Rightarrow> string list \<Rightarrow> bool" where
  "depsResolve idx w ds = (\<forall>d \<in> set ds. \<exists>k. resolveDep idx d = Some k \<and> k \<noteq> pw_VMID w)"

lemma addDeps_iff: "(\<exists>r. addDeps idx w ds ind rv = Inr r) \<longleftrightarrow> depsResolve idx w ds"
  by (induction idx w ds ind rv rule: addDeps.induct) (auto simp: depsResolve_def split: option.splits)

lemma addDeps_effect:
  "addDeps idx w ds ind rv = Inr (ind', rv') \<Longrightarrow>
     getInt ind' v = getInt ind v + (if v = pw_VMID w then int (length ds) else 0)
     \<and> count_list (getList rv' k) v
         = count_list (getList rv k) v
           + (if v = pw_VMID w then count_list (map (\<lambda>d. the (resolveDep idx d)) ds) k else 0)
     \<and> (pw_VMID w \<in> fst ` set ind \<longrightarrow> map fst ind' = map fst ind)"
proof (induction idx w ds ind rv rule: addDeps.induct)
  case (2 idx w d ds ind rv)
  from "2.prems" obtain key where key: "resolveDep idx d = Some key" and ne: "key \<noteq> pw_VMID w"
    by (auto split: option.splits if_splits)
  let ?ind = "AList.update (pw_VMID w) (getInt ind (pw_VMID w) + 1) ind"
  let ?rv = "AList.update key (getList rv key @ [pw_VMID w]) rv"
  have rest: "addDeps idx w ds ?ind ?rv = Inr (ind', rv')" using "2.prems" key ne by simp
  note IH = "2.IH" [OF key ne rest]
  have "fst ` set ?ind = insert (pw_VMID w) (fst ` set ind)"
    by (simp add: dom_update)
  with IH key show ?case by (auto simp: keys_update_existing)
qed simp

lemma addAllDeps_iff:
  "(\<exists>r. addAllDeps idx ws ind rv = Inr r)
     \<longleftrightarrow> (\<forall>w \<in> set ws. depsResolve idx w (pw_Dependencies w))"
proof (induction ws arbitrary: ind rv)
  case (Cons w ws)
  then show ?case
    using addDeps_iff [of idx w "pw_Dependencies w" ind rv]
    by (cases "addDeps idx w (pw_Dependencies w) ind rv") auto
qed simp

lemma addAllDeps_effect:
  "addAllDeps idx ws ind rv = Inr (ind', rv') \<Longrightarrow> pw_VMID ` set ws \<subseteq> fst ` set ind \<Longrightarrow>
     getInt ind' v
       = getInt ind v
         + int (sum_list (map (\<lambda>w. if v = pw_VMID w then length (pw_Dependencies w) else 0) ws))
     \<and> count_list (getList rv' k) v
       = count_list (getList rv k) v
         + sum_list (map (\<lambda>w. if v = pw_VMID w then count_list (depKeys idx w) k else 0) ws)
     \<and> map fst ind' = map fst ind"
proof (induction ws arbitrary: ind rv)
  case (Cons w ws)
  obtain ind1 rv1 where step: "addDeps idx w (pw_Dependencies w) ind rv = Inr (ind1, rv1)"
    and rest: "addAllDeps idx ws ind1 rv1 = Inr (ind', rv')"
    using Cons.prems(1) by (auto split: sum.splits)
  note eff = addDeps_effect [OF step, of v k]
  have keys1: "map fst ind1 = map fst ind" using eff Cons.prems(2) by auto
  then have "fst ` set ind1 = fst ` set ind" by (metis list.set_map)
  then have sub: "pw_VMID ` set ws \<subseteq> fst ` set ind1" using Cons.prems(2) by auto
  show ?case using Cons.IH [OF rest sub] eff keys1 by (auto simp: depKeys_def)
qed simp

lemma sum_list_if_distinct:
  "distinct (map f ws) \<Longrightarrow> w \<in> set ws \<Longrightarrow>
   sum_list (map (\<lambda>x. if f w = f x then g x else 0) ws) = (g w :: nat)"
proof (induction ws)
  case (Cons y ys)
  show ?case
  proof (cases "f w = f y")
    case True
    then have "f w \<notin> f ` set ys" using Cons.prems(1) by auto
    then have zero: "sum_list (map (\<lambda>x. if f w = f x then g x else 0) ys) = 0"
      by (auto intro!: sum_list_0 simp: map_eq_conv)
    have "w = y" using \<open>f w \<notin> f ` set ys\<close> Cons.prems(2) by (metis imageI set_ConsD)
    with zero show ?thesis by simp
  next
    case False
    with Cons show ?thesis by auto
  qed
qed simp

section \<open>Releasing dependents\<close>

lemma count_list_concat_map:
  "count_list (concat (map f xs)) v = sum_list (map (\<lambda>k. count_list (f k) v) xs)"
  by (induction xs) auto

lemma sum_count_list_filter:
  "distinct cs \<Longrightarrow> sum_list (map (count_list xs) cs) = length (filter (\<lambda>x. x \<in> set cs) xs)"
proof (induction cs)
  case (Cons c cs)
  then have "c \<notin> set cs" by simp
  then have "length (filter (\<lambda>x. x \<in> set (c # cs)) xs)
               = count_list xs c + length (filter (\<lambda>x. x \<in> set cs) xs)"
    by (induction xs) auto
  with Cons show ?case by simp
qed simp

lemma releaseDeps_effect:
  assumes "releaseDeps ds m ready = (r, m')" and "\<forall>v \<in> set ds. int (count_list ds v) \<le> getInt m v"
  shows "getInt m' v = getInt m v - int (count_list ds v)"
    and "set r = set ready \<union> {v \<in> set ds. getInt m v = int (count_list ds v)}"
    and "distinct ready \<Longrightarrow> set ready \<inter> set ds = {} \<Longrightarrow> distinct r"
proof -
  have "getInt m' v = getInt m v - int (count_list ds v)
     \<and> set r = set ready \<union> {v \<in> set ds. getInt m v = int (count_list ds v)}
     \<and> (distinct ready \<and> set ready \<inter> {v \<in> set ds. getInt m v = int (count_list ds v)} = {}
          \<longrightarrow> distinct r)"
    using assms
  proof (induction ds arbitrary: m ready)
    case (Cons d ds)
    let ?n = "getInt m d - 1"
    let ?m = "AList.update d ?n m"
    let ?ready = "if ?n = 0 then ready @ [d] else ready"
    have step: "releaseDeps ds ?m ?ready = (r, m')" using Cons.prems(1) by (simp add: Let_def)
    have d: "int (count_list ds d) \<le> ?n" using Cons.prems(2) by simp
    have le: "\<forall>v \<in> set ds. int (count_list ds v) \<le> getInt ?m v"
    proof
      fix v assume "v \<in> set ds"
      then show "int (count_list ds v) \<le> getInt ?m v"
        using Cons.prems(2) d by (cases "v = d") (auto split: if_splits)
    qed
    note IH = Cons.IH [OF step le]
    have zero: "d \<notin> set ds" if "?n = 0"
      using d that by (metis count_list_0_iff of_nat_le_0_iff)
    have hit: "{v \<in> set (d # ds). getInt m v = int (count_list (d # ds) v)}
       = {v \<in> set ds. getInt ?m v = int (count_list ds v)} \<union> (if ?n = 0 then {d} else {})"
    proof (cases "?n = 0")
      case True
      then show ?thesis using zero by (auto simp: count_list_0_iff)
    next
      case False
      have nd: "d \<in> set ds" if "getInt m d = int (count_list (d # ds) d)"
      proof -
        have "int (count_list ds d) = ?n" using that by simp
        then have "count_list ds d \<noteq> 0" using False by linarith
        then show ?thesis by (simp add: count_list_0_iff)
      qed
      then show ?thesis using False by auto
    qed
    show ?case
    proof (intro conjI impI)
      show "getInt m' v = getInt m v - int (count_list (d # ds) v)" using IH by auto
      show "set r = set ready \<union> {v \<in> set (d # ds). getInt m v = int (count_list (d # ds) v)}"
        unfolding hit using IH by auto
      assume "distinct ready \<and>
        set ready \<inter> {v \<in> set (d # ds). getInt m v = int (count_list (d # ds) v)} = {}"
      then have "distinct ?ready \<and> set ?ready \<inter> {v \<in> set ds. getInt ?m v = int (count_list ds v)} = {}"
        unfolding hit using zero by (auto split: if_splits)
      with IH show "distinct r" by blast
    qed
  qed auto
  then show "getInt m' v = getInt m v - int (count_list ds v)"
    and "set r = set ready \<union> {v \<in> set ds. getInt m v = int (count_list ds v)}"
    and "distinct ready \<Longrightarrow> set ready \<inter> set ds = {} \<Longrightarrow> distinct r"
    by blast+
qed

section \<open>The loop invariant\<close>

text \<open>
  \<open>graph_ok\<close>: the reverse edges hold, for every key, the workloads that depend on it, each as often as
  it names the dependency. \<open>kahn_inv\<close>: the counters count the dependencies not processed yet, and the
  keys whose counter is zero are exactly the processed and the available ones.
\<close>

definition graph_ok ::
  "string list \<Rightarrow> (string \<Rightarrow> string list) \<Rightarrow> (string \<times> string list) list \<Rightarrow> bool" where
  "graph_ok keys D rv =
     (distinct keys \<and> (\<forall>v \<in> set keys. set (D v) \<subseteq> set keys)
      \<and> (\<forall>k v. count_list (getList rv k) v = (if v \<in> set keys then count_list (D v) k else 0)))"

definition kahn_inv ::
  "string list \<Rightarrow> (string \<Rightarrow> string list) \<Rightarrow> string list \<Rightarrow> string list \<Rightarrow> (string \<times> int) list \<Rightarrow> bool"
where
  "kahn_inv keys D P A ind =
     (distinct (P @ A) \<and> set (P @ A) \<subseteq> set keys
      \<and> (\<forall>v \<in> set keys. getInt ind v = int (length (filter (\<lambda>d. d \<notin> set P) (D v))))
      \<and> (\<forall>v \<in> set keys. v \<in> set (P @ A) \<longleftrightarrow> getInt ind v = 0))"

lemma kahn_inv_mset:
  assumes "kahn_inv keys D P A ind" and "mset A' = mset A"
  shows "kahn_inv keys D P A' ind"
proof -
  have "set A' = set A" "distinct A' = distinct A"
    using assms(2) by (metis set_mset_mset, metis mset_eq_imp_distinct_iff)
  with assms(1) show ?thesis by (auto simp: kahn_inv_def)
qed

lemma filter_split_disjoint:
  "set C \<inter> set P = {} \<Longrightarrow>
   length (filter (\<lambda>d. d \<notin> set P) xs)
     = length (filter (\<lambda>d. d \<notin> set (P @ C)) xs) + length (filter (\<lambda>d. d \<in> set C) xs)"
  by (induction xs) auto

lemma kahn_step:
  assumes g: "graph_ok keys D rv" and inv: "kahn_inv keys D P (C @ A) ind"
    and rel: "releaseDeps (concat (map (getList rv) C)) ind [] = (ready, ind')"
  shows "kahn_inv keys D (P @ C) (A @ ready) ind'"
proof -
  let ?ds = "concat (map (getList rv) C)"
  have dist: "distinct C" "set C \<inter> set P = {}" and sub: "set (P @ C @ A) \<subseteq> set keys"
    using inv by (auto simp: kahn_inv_def)
  have cnt: "count_list ?ds v = (if v \<in> set keys then length (filter (\<lambda>d. d \<in> set C) (D v)) else 0)" for v
  proof -
    have "count_list ?ds v = sum_list (map (\<lambda>k. if v \<in> set keys then count_list (D v) k else 0) C)"
      using g by (simp add: count_list_concat_map graph_ok_def)
    then show ?thesis using sum_count_list_filter [OF dist(1), of "D v"] by auto
  qed
  have ind: "getInt ind v = int (length (filter (\<lambda>d. d \<notin> set (P @ C)) (D v)) + count_list ?ds v)"
    if "v \<in> set keys" for v
    using inv that cnt [of v] filter_split_disjoint [OF dist(2), of "D v"]
    by (auto simp: kahn_inv_def)
  have inkeys: "v \<in> set keys" if "v \<in> set ?ds" for v
    using cnt [of v] that by (metis count_list_0_iff)
  have le: "\<forall>v \<in> set ?ds. int (count_list ?ds v) \<le> getInt ind v"
    using ind inkeys by auto
  note eff = releaseDeps_effect [OF rel le]
  have ready: "set ready = {v \<in> set ?ds. getInt ind v = int (count_list ?ds v)}" using eff(2) by simp
  have ind': "getInt ind' v = int (length (filter (\<lambda>d. d \<notin> set (P @ C)) (D v)))"
    if "v \<in> set keys" for v
    using eff(1) [of v] ind [OF that] by simp
  have ready_iff: "v \<in> set ready \<longleftrightarrow> getInt ind v \<noteq> 0 \<and> getInt ind' v = 0" if "v \<in> set keys" for v
    using ready eff(1) [of v] count_list_0_iff [of ?ds v] by auto
  have old: "v \<in> set (P @ C @ A) \<longleftrightarrow> getInt ind v = 0" if "v \<in> set keys" for v
    using inv that by (simp add: kahn_inv_def)
  have zero': "getInt ind' v = 0" if "v \<in> set keys" "getInt ind v = 0" for v
    using ind [OF that(1)] ind' [OF that(1)] that(2) by linarith
  have sub': "set ready \<subseteq> set keys" using ready inkeys by auto
  have disj: "set ready \<inter> set (P @ C @ A) = {}"
  proof -
    have "getInt ind v = 0" if "v \<in> set (P @ C @ A)" for v
      using old sub that by blast
    moreover have "getInt ind v \<noteq> 0" if "v \<in> set ready" for v
      using ready_iff sub' that by blast
    ultimately show ?thesis by blast
  qed
  show ?thesis unfolding kahn_inv_def
  proof (intro conjI ballI)
    show "distinct ((P @ C) @ A @ ready)"
      using inv disj eff(3) by (auto simp: kahn_inv_def)
    show "set ((P @ C) @ A @ ready) \<subseteq> set keys" using sub sub' by auto
    show "getInt ind' v = int (length (filter (\<lambda>d. d \<notin> set (P @ C)) (D v)))" if "v \<in> set keys" for v
      using ind' that by blast
    show "v \<in> set ((P @ C) @ A @ ready) \<longleftrightarrow> getInt ind' v = 0" if v: "v \<in> set keys" for v
      using ready_iff [OF v] old [OF v] zero' [OF v] by auto
  qed
qed

section \<open>The waves of the loop\<close>

fun mkWaves :: "(string \<times> PlannedWorkload) list \<Rightarrow> nat \<Rightarrow> string list list \<Rightarrow> MigrationWave list" where
  "mkWaves nodes n [] = []"
| "mkWaves nodes n (c # cs) = dependencyWave nodes (n + 1) c # mkWaves nodes (n + 1) cs"

text \<open>Every member of a chunk has its dependencies in what came before the chunk.\<close>

fun prefix_closed :: "(string \<Rightarrow> string list) \<Rightarrow> string set \<Rightarrow> string list list \<Rightarrow> bool" where
  "prefix_closed D seen [] = True"
| "prefix_closed D seen (c # cs) =
     ((\<forall>v \<in> set c. set (D v) \<subseteq> seen) \<and> prefix_closed D (seen \<union> set c) cs)"

lemma waveCount_bounds:
  "A \<noteq> [] \<Longrightarrow> 1 \<le> waveCount sz A" "waveCount sz A \<le> length A"
  "0 < sz \<Longrightarrow> int (waveCount sz A) \<le> sz"
  by (auto simp: waveCount_def Suc_le_eq)

lemma waveLoop_correct:
  assumes "graph_ok keys D rv" and "kahn_inv keys D P A ind"
    and "waveLoop p nodes rv sz A ind waves n = (waves', n')"
  shows "\<exists>cs ind'. waves' = waves @ mkWaves nodes (length waves) cs
           \<and> n' = n + length (concat cs) \<and> kahn_inv keys D (P @ concat cs) [] ind'
           \<and> prefix_closed D (set P) cs
           \<and> (\<forall>c \<in> set cs. c \<noteq> [] \<and> (0 < sz \<longrightarrow> int (length c) \<le> sz))"
  using assms
proof (induction p nodes rv sz A ind waves n arbitrary: P rule: waveLoop.induct)
  case (1 p nodes rv sz A ind waves n)
  show ?case
  proof (cases "A = []")
    case True
    then have "waves' = waves \<and> n' = n" using "1.prems"(3) by (simp add: waveLoop.simps)
    then show ?thesis using "1.prems"(2) True by (intro exI [of _ "[]"] exI [of _ ind]) auto
  next
    case False
    let ?key = "\<lambda>k. ToLower (pw_Name (nodeAt nodes k))"
    let ?c = "waveCount sz A"
    let ?C = "take ?c A"
    let ?rel = "releaseDeps (concat (map (getList rv) ?C)) ind []"
    let ?A = "sort_slice p ?key (drop ?c A @ sort_slice p ?key (fst ?rel))"
    let ?w = "dependencyWave nodes (length waves + 1) ?C"
    have run: "waveLoop p nodes rv sz ?A (snd ?rel) (waves @ [?w]) (n + length ?C) = (waves', n')"
      using "1.prems"(3) False by (simp add: waveLoop.simps [of p nodes rv sz A] Let_def)
    have inv0: "kahn_inv keys D P (?C @ drop ?c A) ind" using "1.prems"(2) by simp
    have "kahn_inv keys D (P @ ?C) (drop ?c A @ fst ?rel) (snd ?rel)"
      by (rule kahn_step [OF "1.prems"(1) inv0]) simp
    then have inv: "kahn_inv keys D (P @ ?C) ?A (snd ?rel)"
      by (rule kahn_inv_mset) (simp add: mset_sort_slice)
    from "1.IH" [OF False refl refl refl refl refl refl refl "1.prems"(1) inv run]
    obtain cs ind' where cs: "waves' = (waves @ [?w]) @ mkWaves nodes (length (waves @ [?w])) cs"
      "n' = n + length ?C + length (concat cs)" "kahn_inv keys D ((P @ ?C) @ concat cs) [] ind'"
      "prefix_closed D (set (P @ ?C)) cs"
      "\<forall>c \<in> set cs. c \<noteq> [] \<and> (0 < sz \<longrightarrow> int (length c) \<le> sz)"
      by blast
    have closed: "\<forall>v \<in> set ?C. set (D v) \<subseteq> set P"
    proof
      fix v assume "v \<in> set ?C"
      then have "v \<in> set (P @ A)" by (auto dest: in_set_takeD)
      moreover have "v \<in> set keys" using calculation "1.prems"(2) by (auto simp: kahn_inv_def)
      ultimately have "length (filter (\<lambda>d. d \<notin> set P) (D v)) = 0"
        using "1.prems"(2) by (fastforce simp: kahn_inv_def)
      then show "set (D v) \<subseteq> set P" by (auto simp: filter_empty_conv)
    qed
    have len: "?C \<noteq> []" "0 < sz \<longrightarrow> int (length ?C) \<le> sz"
      using waveCount_bounds(1) [OF False, of sz] waveCount_bounds(2,3) [of sz A] by auto
    show ?thesis
      using cs closed len by (intro exI [of _ "?C # cs"] exI [of _ ind']) auto
  qed
qed

section \<open>The dependency waves\<close>

text \<open>
  The state of \<open>buildDependencyAwareWaves\<close> when its loop starts satisfies the invariant, with \<open>D\<close> the
  resolved dependencies of a key.
\<close>

definition depsOf :: "PlannedWorkload list \<Rightarrow> string \<Rightarrow> string list" where
  "depsOf ws k = depKeys (nameIndexOf ws) (nodeAt (nodesOf ws) k)"

lemma depsOf_VMID:
  "distinct (map pw_VMID ws) \<Longrightarrow> w \<in> set ws \<Longrightarrow> depsOf ws (pw_VMID w) = depKeys (nameIndexOf ws) w"
  by (simp add: depsOf_def nodeAt_nodesOf)

lemma indegreeZero_distinct:
  "distinct (map pw_VMID ws) \<Longrightarrow> indegreeZero ws = map (\<lambda>w. (pw_VMID w, 0)) ws"
  by (simp add: indegreeZero_def fold_update_distinct)

lemma getInt_zero: "getInt (map (\<lambda>w. (f w, 0)) ws) v = 0"
  by (induction ws) (auto simp: getInt_def)

lemma map_fst_filter_zero:
  "distinct (map fst m) \<Longrightarrow>
   map fst (filter (\<lambda>(k, n). n = 0) m) = filter (\<lambda>k. getInt m k = 0) (map fst m)"
proof (induction m)
  case (Cons x m)
  obtain k n where x: "x = (k, n)" by force
  have "filter (\<lambda>j. getInt ((k, n) # m) j = 0) (map fst m) = filter (\<lambda>j. getInt m j = 0) (map fst m)"
    using Cons.prems x by (intro filter_cong) (auto simp: getInt_def)
  with Cons x show ?case by (auto simp: getInt_def)
qed simp

lemma start_inv:
  assumes dist: "distinct (map pw_VMID ws)"
    and run: "addAllDeps (nameIndexOf ws) ws (indegreeZero ws) [] = Inr (ind, rv)"
  shows "graph_ok (map pw_VMID ws) (depsOf ws) rv"
    and "kahn_inv (map pw_VMID ws) (depsOf ws) [] (map fst (filter (\<lambda>(k, n). n = 0) ind)) ind"
proof -
  have z: "indegreeZero ws = map (\<lambda>w. (pw_VMID w, 0)) ws" by (rule indegreeZero_distinct [OF dist])
  have sub: "pw_VMID ` set ws \<subseteq> fst ` set (indegreeZero ws)" by (force simp: z)
  note eff = addAllDeps_effect [OF run sub]
  have keys: "map fst ind = map pw_VMID ws" using eff by (simp add: z comp_def)
  have res: "\<forall>w \<in> set ws. depsResolve (nameIndexOf ws) w (pw_Dependencies w)"
    using addAllDeps_iff run by blast
  have D: "set (depsOf ws v) \<subseteq> pw_VMID ` set ws" if v: "v \<in> pw_VMID ` set ws" for v
  proof -
    obtain w where w: "w \<in> set ws" "v = pw_VMID w" using v by blast
    then have "\<forall>d \<in> set (pw_Dependencies w). \<exists>u \<in> set ws. pw_VMID u = the (resolveDep (nameIndexOf ws) d)"
      using res resolveDep_sound unfolding depsResolve_def by fastforce
    then show ?thesis using w dist by (auto simp: depsOf_VMID depKeys_def) (metis imageI)
  qed
  have cnt: "count_list (getList rv k) v
       = (if v \<in> pw_VMID ` set ws then count_list (depsOf ws v) k else 0)" for k v
  proof (cases "v \<in> pw_VMID ` set ws")
    case True
    then obtain w where w: "w \<in> set ws" "v = pw_VMID w" by blast
    show ?thesis
      using eff [of v k] sum_list_if_distinct [OF dist w(1), of "\<lambda>x. count_list (depKeys (nameIndexOf ws) x) k"]
        w dist by (auto simp: getList_def depsOf_VMID)
  next
    case False
    then have "sum_list (map (\<lambda>w. if v = pw_VMID w then count_list (depKeys (nameIndexOf ws) w) k else 0) ws) = 0"
      by (auto intro!: sum_list_0 simp: map_eq_conv)
    with eff [of v k] False show ?thesis by (simp add: getList_def)
  qed
  show "graph_ok (map pw_VMID ws) (depsOf ws) rv"
    using dist D cnt by (auto simp: graph_ok_def)
  have val: "getInt ind v = int (length (depsOf ws v))" if v: "v \<in> pw_VMID ` set ws" for v
  proof -
    obtain w where w: "w \<in> set ws" "v = pw_VMID w" using v by blast
    show ?thesis
      using eff [of v undefined] sum_list_if_distinct [OF dist w(1), of "\<lambda>x. length (pw_Dependencies x)"] w dist
      by (simp add: z getInt_zero depsOf_VMID depKeys_def)
  qed
  have av: "map fst (filter (\<lambda>(k, n). n = 0) ind) = filter (\<lambda>k. getInt ind k = 0) (map pw_VMID ws)"
    using map_fst_filter_zero [of ind] keys dist by simp
  show "kahn_inv (map pw_VMID ws) (depsOf ws) [] (map fst (filter (\<lambda>(k, n). n = 0) ind)) ind"
    unfolding kahn_inv_def av using dist val by auto
qed

text \<open>A run of the sort that gets past the resolution of the dependencies, in terms of its chunks.\<close>

lemma waves_run:
  assumes dist: "distinct (map pw_VMID ws)"
    and run: "addAllDeps (nameIndexOf ws) ws (indegreeZero ws) [] = Inr (ind, rv)"
  obtains cs ind' where
    "buildDependencyAwareWaves p ws sz
       = (if length (concat cs) \<noteq> length ws
          then Inl (Errorf ''dependency cycle detected in migration wave planning'' [])
          else Inr (mkWaves (nodesOf ws) 0 cs))"
    and "kahn_inv (map pw_VMID ws) (depsOf ws) (concat cs) [] ind'" and "prefix_closed (depsOf ws) {} cs"
    and "\<forall>c \<in> set cs. c \<noteq> [] \<and> (0 < sz \<longrightarrow> int (length c) \<le> sz)"
proof -
  let ?key = "\<lambda>k. ToLower (pw_Name (nodeAt (nodesOf ws) k))"
  let ?A = "sort_slice p ?key (map fst (filter (\<lambda>(k, degree). degree = 0) ind))"
  obtain waves n where loop: "waveLoop p (nodesOf ws) rv sz ?A ind [] 0 = (waves, n)" by force
  have "kahn_inv (map pw_VMID ws) (depsOf ws) [] ?A ind"
    by (rule kahn_inv_mset [OF start_inv(2) [OF dist run]]) (simp add: mset_sort_slice)
  from waveLoop_correct [OF start_inv(1) [OF dist run] this loop]
  obtain cs ind' where cs: "waves = mkWaves (nodesOf ws) 0 cs" "n = length (concat cs)"
    "kahn_inv (map pw_VMID ws) (depsOf ws) (concat cs) [] ind'" "prefix_closed (depsOf ws) {} cs"
    "\<forall>c \<in> set cs. c \<noteq> [] \<and> (0 < sz \<longrightarrow> int (length c) \<le> sz)"
    by auto
  have "buildDependencyAwareWaves p ws sz
       = (if length (concat cs) \<noteq> length ws
          then Inl (Errorf ''dependency cycle detected in migration wave planning'' [])
          else Inr (mkWaves (nodesOf ws) 0 cs))"
    using run loop cs(1,2) by (simp add: buildDependencyAwareWaves_def)
  from this cs(3-5) show thesis by (rule that)
qed

lemma distinct_full:
  "distinct xs \<Longrightarrow> distinct ys \<Longrightarrow> set xs \<subseteq> set ys \<Longrightarrow> length xs = length ys \<longleftrightarrow> set xs = set ys"
  by (metis card_subset_eq distinct_card finite_set)

lemma length_mkWaves [simp]: "length (mkWaves nodes n cs) = length cs"
  by (induction cs arbitrary: n) auto

lemma mkWaves_nth:
  "i < length cs \<Longrightarrow> mkWaves nodes n cs ! i = dependencyWave nodes (n + i + 1) (cs ! i)"
  by (induction cs arbitrary: n i) (auto simp: nth_Cons split: nat.splits)

lemma concat_mkWaves:
  "concat (map wave_Workloads (mkWaves nodes n cs)) = map (nodeAt nodes) (concat cs)"
  by (induction cs arbitrary: n) (auto simp: dependencyWave_def)

lemma prefix_closed_earlier:
  "prefix_closed D seen cs \<Longrightarrow> i < length cs \<Longrightarrow> v \<in> set (cs ! i) \<Longrightarrow> k \<in> set (D v) \<Longrightarrow>
   k \<in> seen \<or> (\<exists>j < i. k \<in> set (cs ! j))"
proof (induction cs arbitrary: seen i)
  case (Cons c cs)
  show ?case
  proof (cases i)
    case 0 with Cons.prems show ?thesis by auto
  next
    case (Suc i')
    with Cons.prems Cons.IH [of "seen \<union> set c" i'] have "k \<in> seen \<union> set c \<or> (\<exists>j < i'. k \<in> set (cs ! j))"
      by auto
    then show ?thesis
    proof (elim disjE)
      assume "k \<in> seen \<union> set c"
      then show ?thesis using Suc by (auto intro!: exI [of _ 0])
    next
      assume "\<exists>j < i'. k \<in> set (cs ! j)"
      then obtain j where "j < i'" "k \<in> set (cs ! j)" by blast
      then show ?thesis using Suc by (intro disjI2 exI [of _ "Suc j"]) auto
    qed
  qed
qed simp

lemma prefix_closed_avoids:
  "prefix_closed D seen cs \<Longrightarrow> S \<inter> seen = {} \<Longrightarrow> \<forall>v \<in> S. set (D v) \<inter> S \<noteq> {} \<Longrightarrow>
   S \<inter> set (concat cs) = {}"
proof (induction cs arbitrary: seen)
  case (Cons c cs)
  then have "S \<inter> set c = {}" by auto (metis disjoint_iff inf.absorb_iff2 inf_commute subsetD)
  with Cons show ?case by auto
qed simp

lemma waves_mset:
  assumes dist: "distinct (map pw_VMID ws)" and "distinct ks" and "set ks = pw_VMID ` set ws"
  shows "mset (map (nodeAt (nodesOf ws)) ks) = mset ws"
proof -
  have "mset ks = mset (map pw_VMID ws)"
    using assms by (intro set_eq_iff_mset_eq_distinct [THEN iffD1]) auto
  then have "mset (map (nodeAt (nodesOf ws)) ks) = mset (map (nodeAt (nodesOf ws)) (map pw_VMID ws))"
    by (metis mset_map)
  also have "map (nodeAt (nodesOf ws)) (map pw_VMID ws) = ws"
    using nodeAt_nodesOf [OF dist] by (simp add: map_idI)
  finally show ?thesis .
qed

text \<open>What the chunks of a complete run say about the dependencies of a workload.\<close>

lemma chunk_deps_earlier:
  assumes dist: "distinct (map pw_VMID ws)"
    and resolves: "\<forall>w \<in> set ws. depsResolve (nameIndexOf ws) w (pw_Dependencies w)"
    and closed: "prefix_closed (depsOf ws) {} cs" and sub: "set (concat cs) \<subseteq> pw_VMID ` set ws"
    and i: "i < length cs" and w: "w \<in> nodeAt (nodesOf ws) ` set (cs ! i)"
    and d: "d \<in> set (pw_Dependencies w)"
  shows "\<exists>j < i. \<exists>u \<in> nodeAt (nodesOf ws) ` set (cs ! j).
           EqualFold (pw_VMID u) (TrimSpace d) \<or> EqualFold (pw_Name u) (TrimSpace d)"
proof -
  obtain v where v: "v \<in> set (cs ! i)" "w = nodeAt (nodesOf ws) v" using w by auto
  have "v \<in> pw_VMID ` set ws" using v(1) sub nth_mem [OF i] by auto
  then have w_in: "w \<in> set ws" "v = pw_VMID w" using v(2) nodeAt_nodesOf [OF dist] by auto
  obtain k where k: "resolveDep (nameIndexOf ws) d = Some k"
    using resolves w_in d by (auto simp: depsResolve_def)
  have "k \<in> set (depsOf ws v)"
    using k d w_in dist by (force simp: depsOf_VMID depKeys_def)
  then obtain j where j: "j < i" "k \<in> set (cs ! j)"
    using prefix_closed_earlier [OF closed i v(1)] by auto
  obtain u where u: "u \<in> set ws" "pw_VMID u = k"
      "EqualFold (pw_VMID u) (TrimSpace d) \<or> EqualFold (pw_Name u) (TrimSpace d)"
    using resolveDep_sound [OF k] by blast
  have "u \<in> nodeAt (nodesOf ws) ` set (cs ! j)"
    using j u nodeAt_nodesOf [OF dist u(1)] by (intro image_eqI [of _ _ k]) auto
  with j(1) u(3) show ?thesis by blast
qed

text \<open>A set of workloads each of which depends on a member of the set.\<close>

definition depCycle :: "PlannedWorkload list \<Rightarrow> PlannedWorkload set \<Rightarrow> bool" where
  "depCycle ws S = (S \<subseteq> set ws \<and> S \<noteq> {}
     \<and> (\<forall>w \<in> S. \<exists>u \<in> S. pw_VMID u \<in> set (depKeys (nameIndexOf ws) w)))"

lemma chunks_no_cycle:
  assumes dist: "distinct (map pw_VMID ws)" and closed: "prefix_closed (depsOf ws) {} cs"
    and all: "set (concat cs) = pw_VMID ` set ws"
  shows "\<not> depCycle ws S"
proof
  assume S: "depCycle ws S"
  have "\<forall>v \<in> pw_VMID ` S. set (depsOf ws v) \<inter> pw_VMID ` S \<noteq> {}"
  proof
    fix v assume "v \<in> pw_VMID ` S"
    then obtain w where w: "w \<in> S" "v = pw_VMID w" by blast
    then obtain u where "u \<in> S" "pw_VMID u \<in> set (depKeys (nameIndexOf ws) w)"
      using S by (auto simp: depCycle_def)
    moreover have "depsOf ws v = depKeys (nameIndexOf ws) w"
      using w S dist by (auto simp: depsOf_VMID depCycle_def)
    ultimately show "set (depsOf ws v) \<inter> pw_VMID ` S \<noteq> {}" by auto
  qed
  then have "pw_VMID ` S \<inter> set (concat cs) = {}" by (rule prefix_closed_avoids [OF closed, rotated]) simp
  with all S show False unfolding depCycle_def by blast
qed

lemma chunks_cycle:
  assumes dist: "distinct (map pw_VMID ws)" and g: "graph_ok (map pw_VMID ws) (depsOf ws) rv"
    and inv: "kahn_inv (map pw_VMID ws) (depsOf ws) Q [] ind" and ne: "set Q \<noteq> pw_VMID ` set ws"
  shows "depCycle ws {w \<in> set ws. pw_VMID w \<notin> set Q}" (is "depCycle ws ?S")
  unfolding depCycle_def
proof (intro conjI ballI)
  show "?S \<subseteq> set ws" by blast
  show "?S \<noteq> {}" using ne inv by (auto simp: kahn_inv_def)
  fix w assume w: "w \<in> ?S"
  then have "getInt ind (pw_VMID w) \<noteq> 0" using inv by (auto simp: kahn_inv_def)
  then have "filter (\<lambda>d. d \<notin> set Q) (depsOf ws (pw_VMID w)) \<noteq> []"
    using inv w by (auto simp: kahn_inv_def)
  then obtain k where k: "k \<in> set (depsOf ws (pw_VMID w))" "k \<notin> set Q"
    by (auto simp: filter_empty_conv)
  moreover have "k \<in> pw_VMID ` set ws" using k(1) w g by (auto simp: graph_ok_def)
  ultimately show "\<exists>u \<in> ?S. pw_VMID u \<in> set (depKeys (nameIndexOf ws) w)"
    using w dist by (auto simp: depsOf_VMID)
qed

lemma build_addAllDeps:
  "buildDependencyAwareWaves p ws sz = Inr waves \<Longrightarrow>
   \<exists>ind rv. addAllDeps (nameIndexOf ws) ws (indegreeZero ws) [] = Inr (ind, rv)"
  by (cases "addAllDeps (nameIndexOf ws) ws (indegreeZero ws) []")
    (auto simp: buildDependencyAwareWaves_def)

text \<open>What the waves of a plan have to satisfy.\<close>

definition wavesOk :: "PlannedWorkload list \<Rightarrow> int \<Rightarrow> MigrationWave list \<Rightarrow> bool" where
  "wavesOk ws sz waves =
     (mset (concat (map wave_Workloads waves)) = mset ws
      \<and> (\<forall>i < length waves.
           wave_Index (waves ! i) = int i + 1 \<and> wave_Workloads (waves ! i) \<noteq> []
           \<and> (0 < sz \<longrightarrow> int (length (wave_Workloads (waves ! i))) \<le> sz)
           \<and> (\<forall>w \<in> set (wave_Workloads (waves ! i)). \<forall>d \<in> set (pw_Dependencies w).
                \<exists>j < i. \<exists>u \<in> set (wave_Workloads (waves ! j)).
                  EqualFold (pw_VMID u) (TrimSpace d) \<or> EqualFold (pw_Name u) (TrimSpace d))))"

lemma wavesOk_perm: "wavesOk ws sz waves \<Longrightarrow> mset ws = mset ws' \<Longrightarrow> wavesOk ws' sz waves"
  by (simp add: wavesOk_def)

lemma waves_sound:
  assumes dist: "distinct (map pw_VMID ws)" and run: "buildDependencyAwareWaves p ws sz = Inr waves"
  shows "wavesOk ws sz waves"
proof -
  obtain ind rv where deps: "addAllDeps (nameIndexOf ws) ws (indegreeZero ws) [] = Inr (ind, rv)"
    using build_addAllDeps [OF run] by blast
  obtain cs ind' where res: "buildDependencyAwareWaves p ws sz
       = (if length (concat cs) \<noteq> length ws
          then Inl (Errorf ''dependency cycle detected in migration wave planning'' [])
          else Inr (mkWaves (nodesOf ws) 0 cs))"
    and inv: "kahn_inv (map pw_VMID ws) (depsOf ws) (concat cs) [] ind'"
    and closed: "prefix_closed (depsOf ws) {} cs"
    and sizes: "\<forall>c \<in> set cs. c \<noteq> [] \<and> (0 < sz \<longrightarrow> int (length c) \<le> sz)"
    by (rule waves_run [OF dist deps])
  have waves: "waves = mkWaves (nodesOf ws) 0 cs" and len: "length (concat cs) = length ws"
    using res run by (auto split: if_splits)
  have ks: "distinct (concat cs)" "set (concat cs) = pw_VMID ` set ws"
    using inv len dist distinct_full [of "concat cs" "map pw_VMID ws"] by (auto simp: kahn_inv_def)
  have resolves: "\<forall>w \<in> set ws. depsResolve (nameIndexOf ws) w (pw_Dependencies w)"
    using addAllDeps_iff deps by blast
  have nth: "wave_Index (waves ! i) = int i + 1"
      "wave_Workloads (waves ! i) = map (nodeAt (nodesOf ws)) (cs ! i)" if "i < length cs" for i
    using that by (simp_all add: waves mkWaves_nth dependencyWave_def)
  have mset: "mset (concat (map wave_Workloads waves)) = mset ws"
    using waves_mset [OF dist ks] by (simp add: waves concat_mkWaves)
  have earlier: "\<exists>j < i. \<exists>u \<in> set (wave_Workloads (waves ! j)).
      EqualFold (pw_VMID u) (TrimSpace d) \<or> EqualFold (pw_Name u) (TrimSpace d)"
    if "i < length cs" "w \<in> set (wave_Workloads (waves ! i))" "d \<in> set (pw_Dependencies w)" for i w d
    using chunk_deps_earlier [OF dist resolves closed equalityD1 [OF ks(2)] that(1) _ that(3)] that(1,2)
    by (metis (no_types, lifting) list.set_map nth(2) order.strict_trans)
  have "length waves = length cs" by (simp add: waves)
  then show ?thesis using mset sizes nth earlier by (simp add: wavesOk_def)
qed

text \<open>
  The sort succeeds exactly when every dependency names another workload and
  no nonempty set of workloads has every member depending on a member, that is, when the
  declared dependencies have no cycle.
\<close>

lemma waves_complete:
  assumes dist: "distinct (map pw_VMID ws)"
  shows "(\<exists>waves. buildDependencyAwareWaves p ws sz = Inr waves)
    \<longleftrightarrow> (\<forall>w \<in> set ws. depsResolve (nameIndexOf ws) w (pw_Dependencies w)) \<and> (\<nexists>S. depCycle ws S)"
proof (cases "\<exists>ind rv. addAllDeps (nameIndexOf ws) ws (indegreeZero ws) [] = Inr (ind, rv)")
  case False
  then have "\<not> (\<forall>w \<in> set ws. depsResolve (nameIndexOf ws) w (pw_Dependencies w))"
    using addAllDeps_iff [of "nameIndexOf ws" ws "indegreeZero ws" "[]"] by auto
  with False show ?thesis using build_addAllDeps by blast
next
  case True
  then obtain ind rv where deps: "addAllDeps (nameIndexOf ws) ws (indegreeZero ws) [] = Inr (ind, rv)"
    by blast
  have resolves: "\<forall>w \<in> set ws. depsResolve (nameIndexOf ws) w (pw_Dependencies w)"
    using addAllDeps_iff deps by blast
  obtain cs ind' where res: "buildDependencyAwareWaves p ws sz
       = (if length (concat cs) \<noteq> length ws
          then Inl (Errorf ''dependency cycle detected in migration wave planning'' [])
          else Inr (mkWaves (nodesOf ws) 0 cs))"
    and inv: "kahn_inv (map pw_VMID ws) (depsOf ws) (concat cs) [] ind'"
    and closed: "prefix_closed (depsOf ws) {} cs"
    by (rule waves_run [OF dist deps])
  have full: "length (concat cs) = length ws \<longleftrightarrow> set (concat cs) = pw_VMID ` set ws"
    using inv dist distinct_full [of "concat cs" "map pw_VMID ws"] by (auto simp: kahn_inv_def)
  show ?thesis
  proof (cases "length (concat cs) = length ws")
    case True
    then have "\<nexists>S. depCycle ws S" using chunks_no_cycle [OF dist closed] full by blast
    with True res resolves show ?thesis by simp
  next
    case False
    then have "\<exists>S. depCycle ws S"
      using chunks_cycle [OF dist start_inv(1) [OF dist deps] inv] full by blast
    with False res resolves show ?thesis by auto
  qed
qed

end
