(* ===== verification/PlanExecution.thy ===== *)
theory PlanExecution
  imports PlanCorrect
begin

text \<open>
  Properties of the execution plan as a whole (\<open>BuildExecutionPlan\<close>), of the order it imposes on the
  workloads (\<open>reorderWorkloadsByPlan\<close>) and of the checkpoints, \<open>internal/migrate/plan.go\<close>.
\<close>

section \<open>Batches\<close>

lemma chunkFrom_concat: "0 < n \<Longrightarrow> concat (chunkFrom n xs start) = drop start xs"
proof (induction n xs start rule: chunkFrom.induct)
  case (1 n xs start)
  show ?case
  proof (cases "start < length xs")
    case True
    have "drop start (take (min (length xs) (start + n)) xs) @ drop (start + n) xs = drop start xs"
      using True by (cases "start + n \<le> length xs")
        (simp_all add: drop_take min_def flip: drop_drop, metis append_take_drop_id drop_drop add.commute)
    with True 1 show ?thesis
      by (subst chunkFrom.simps) (auto simp: Let_def min_def split: if_splits)
  next
    case False
    then show ?thesis by (subst chunkFrom.simps) simp
  qed
qed

lemma chunkFrom_sizes: "c \<in> set (chunkFrom n xs start) \<Longrightarrow> c \<noteq> [] \<and> length c \<le> n"
proof (induction n xs start rule: chunkFrom.induct)
  case (1 n xs start)
  then show ?case
    by (subst (asm) (2) chunkFrom.simps) (auto simp: Let_def split: if_splits)
qed

lemma normalizedWaveStrategy_pos: "0 < wv_Size (normalizedWaveStrategy opts)"
  by (simp add: normalizedWaveStrategy_def Let_def)

section \<open>The planned workloads\<close>

lemma map_filter_mergedOverrides:
  "\<forall>vm \<in> set vms. matchesAnySelector lib vm (spec_Workloads spec) \<Longrightarrow>
   map pw_VMID (List.map_filter (planWorkload lib spec) vms) = map workloadKey vms"
proof (induction vms)
  case (Cons vm vms)
  then have "snd (mergedOverridesForVM lib vm (spec_Workloads spec))"
    by (simp add: mergedOverrides_matched)
  with Cons show ?case
    by (auto simp: planWorkload_def List.map_filter_simps split: prod.splits)
qed (simp add: List.map_filter_simps)

lemma plannedWorkloads_VMID:
  "map pw_VMID (plannedWorkloads lib spec vms)
     = map workloadKey (MatchWorkloads lib vms (spec_Workloads spec))"
  unfolding plannedWorkloads_def MatchWorkloads_def
  using matchLoop_subseq_set by (intro map_filter_mergedOverrides) blast

text \<open>Machines whose identifiers are not merely white space are told apart by the planner.\<close>

definition idsNotBlank :: "VirtualMachine list \<Rightarrow> bool" where
  "idsNotBlank vms = (\<forall>vm \<in> set vms. vm_ID vm \<noteq> [] \<longrightarrow> TrimSpace (vm_ID vm) \<noteq> [])"

lemma workloadKey_matchKey:
  "vm_ID vm \<noteq> [] \<longrightarrow> TrimSpace (vm_ID vm) \<noteq> [] \<Longrightarrow> workloadKey vm = matchKey vm"
  by (auto simp: workloadKey_def matchKey_def)

lemma matched_keys:
  "idsNotBlank vms \<Longrightarrow>
   map workloadKey (MatchWorkloads lib vms ss) = map matchKey (MatchWorkloads lib vms ss)"
  using matchLoop_subseq_set [of lib ss vms "[]"]
  by (intro map_cong) (auto simp: MatchWorkloads_def idsNotBlank_def intro!: workloadKey_matchKey)

lemma plannedWorkloads_distinct:
  "idsNotBlank vms \<Longrightarrow> distinct (map pw_VMID (plannedWorkloads lib spec vms))"
  by (simp only: plannedWorkloads_VMID matched_keys) (simp add: MatchWorkloads_def matchLoop_distinct)

section \<open>The execution plan\<close>

definition sortedPlanned ::
  "patternLib \<Rightarrow> (string list \<Rightarrow> nat list) \<Rightarrow> MigrationSpec \<Rightarrow> VirtualMachine list \<Rightarrow> PlannedWorkload list"
where
  "sortedPlanned lib p spec vms = sort_slice p (\<lambda>w. ToLower (pw_Name w)) (plannedWorkloads lib spec vms)"

lemma sortedPlanned_simps:
  "mset (sortedPlanned lib p spec vms) = mset (plannedWorkloads lib spec vms)"
  "set (sortedPlanned lib p spec vms) = set (plannedWorkloads lib spec vms)"
  "idsNotBlank vms \<Longrightarrow> distinct (map pw_VMID (sortedPlanned lib p spec vms))"
  by (simp_all add: sortedPlanned_def mset_sort_slice plannedWorkloads_distinct)

lemma batchWaves_simps:
  "length (batchWaves bs) = length bs"
  "map wave_Workloads (batchWaves bs) = bs"
  "i < length bs \<Longrightarrow> wave_Index (batchWaves bs ! i) = int i + 1 \<and> wave_Workloads (batchWaves bs ! i) = bs ! i"
  by (simp_all add: batchWaves_def comp_def split_beta map_snd_zip flip: snd_def)

lemma batchWaves_ok:
  assumes "0 < sz" and nodeps: "\<forall>w \<in> set ws. pw_Dependencies w = []"
  shows "wavesOk ws sz (batchWaves (chunkFrom (nat sz) ws 0))"
proof -
  let ?bs = "chunkFrom (nat sz) ws 0"
  have cat: "concat ?bs = ws" using assms chunkFrom_concat [of "nat sz" ws 0] by simp
  have "pw_Dependencies w = []" if "i < length ?bs" "w \<in> set (?bs ! i)" for i w
    using that nodeps cat by (metis UN_I nth_mem set_concat)
  moreover have "c \<noteq> [] \<and> int (length c) \<le> sz" if "c \<in> set ?bs" for c
    using chunkFrom_sizes [OF that] assms(1) by auto
  ultimately show ?thesis
    using cat by (simp add: wavesOk_def batchWaves_simps)
qed

lemma BuildExecutionPlan_cases:
  fixes lib spec vms
  defines "ws \<equiv> plannedWorkloads lib spec vms"
  assumes run: "BuildExecutionPlan lib p now (Some spec) vms = Inr plan"
  shows "plan_TotalWorkloads plan = int (length ws) \<and> 0 < wv_Size (plan_WaveStrategy plan)
    \<and> ((ws = [] \<and> plan_Waves plan = [])
       \<or> ((\<forall>w \<in> set ws. pw_Dependencies w = [])
          \<and> plan_Waves plan = batchWaves (chunkFrom (nat (wv_Size (plan_WaveStrategy plan))) (sortedPlanned lib p spec vms) 0))
       \<or> buildDependencyAwareWaves p (sortedPlanned lib p spec vms) (wv_Size (plan_WaveStrategy plan))
          = Inr (plan_Waves plan))"
  using run normalizedWaveStrategy_pos [of "spec_Options spec"]
  by (auto simp: BuildExecutionPlan_def Let_def ws_def chunkWorkloads_def sortedPlanned_def list_ex_iff
      split: if_splits sum.splits option.splits)

lemma plan_waves_ok:
  assumes ids: "idsNotBlank vms" and run: "BuildExecutionPlan lib p now (Some spec) vms = Inr plan"
  shows "wavesOk (plannedWorkloads lib spec vms) (wv_Size (plan_WaveStrategy plan)) (plan_Waves plan)"
proof -
  let ?ws = "plannedWorkloads lib spec vms" and ?s = "sortedPlanned lib p spec vms"
  let ?sz = "wv_Size (plan_WaveStrategy plan)"
  note c = BuildExecutionPlan_cases [OF run]
  show ?thesis
    using c
  proof (elim conjE disjE)
    assume "?ws = []" "plan_Waves plan = []"
    then show ?thesis by (simp add: wavesOk_def)
  next
    assume "\<forall>w \<in> set ?ws. pw_Dependencies w = []" and "0 < ?sz"
      and eq: "plan_Waves plan = batchWaves (chunkFrom (nat ?sz) ?s 0)"
    then have "wavesOk ?s ?sz (plan_Waves plan)"
      unfolding eq by (intro batchWaves_ok) (simp_all add: sortedPlanned_simps)
    then show ?thesis by (rule wavesOk_perm) (rule sortedPlanned_simps)
  next
    assume "buildDependencyAwareWaves p ?s ?sz = Inr (plan_Waves plan)"
    then have "wavesOk ?s ?sz (plan_Waves plan)"
      by (rule waves_sound [OF sortedPlanned_simps(3) [OF ids]])
    then show ?thesis by (rule wavesOk_perm) (rule sortedPlanned_simps)
  qed
qed

text \<open>
  C6 (plan_correct): a plan built for an inventory without white-space identifiers holds exactly the
  matched workloads, its waves are numbered from 1, nonempty and at most as large as the strategy of
  the plan says, and every dependency of a workload is in a strictly earlier wave.
\<close>

theorem plan_correct:
  assumes ids: "idsNotBlank vms" and run: "BuildExecutionPlan lib p now (Some spec) vms = Inr plan"
  shows "wavesOk (plannedWorkloads lib spec vms) (wv_Size (plan_WaveStrategy plan)) (plan_Waves plan)
    \<and> 0 < wv_Size (plan_WaveStrategy plan)
    \<and> plan_TotalWorkloads plan = int (length (MatchWorkloads lib vms (spec_Workloads spec)))"
proof -
  have "length (plannedWorkloads lib spec vms) = length (MatchWorkloads lib vms (spec_Workloads spec))"
    using arg_cong [OF plannedWorkloads_VMID, of length] by simp
  then show ?thesis using BuildExecutionPlan_cases [OF run] plan_waves_ok [OF ids run] by auto
qed

text \<open>Without dependencies there is nothing to resolve and no cycle.\<close>

lemma no_deps_resolve:
  assumes "\<forall>w \<in> set ws. pw_Dependencies w = []"
  shows "(\<forall>w \<in> set ws. depsResolve idx w (pw_Dependencies w)) \<and> (\<nexists>S. depCycle ws S)"
  using assms by (fastforce simp: depsResolve_def depCycle_def depKeys_def)

text \<open>
  C7 (plan_exists_iff): planning for a spec that is not nil, over an inventory in which no machine has an
  identifier of white space only, succeeds exactly when every declared dependency names another planned
  workload and the dependencies have no cycle; it never divides by zero. Two machines with blank identifiers
  and the same name would collide as nodes of the dependency graph.
\<close>

theorem plan_exists_iff:
  fixes lib p spec vms
  defines "ws \<equiv> sortedPlanned lib p spec vms"
  assumes ids: "idsNotBlank vms"
  shows "(\<exists>plan. BuildExecutionPlan lib p now (Some spec) vms = Inr plan)
      \<longleftrightarrow> (\<forall>w \<in> set ws. depsResolve (nameIndexOf ws) w (pw_Dependencies w)) \<and> (\<nexists>S. depCycle ws S)"
    (is "?ok \<longleftrightarrow> ?acyclic")
proof -
  let ?opts = "spec_Options spec"
  have size: "0 < wv_Size (normalizedWaveStrategy ?opts)" by (rule normalizedWaveStrategy_pos)
  have dist: "distinct (map pw_VMID ws)" unfolding ws_def by (rule sortedPlanned_simps(3) [OF ids])
  show ?thesis
  proof (cases "wv_DependencyAware (normalizedWaveStrategy ?opts) \<and> ws \<noteq> []
                \<or> (\<exists>w \<in> set ws. pw_Dependencies w \<noteq> [])")
    case True
    then have "?ok \<longleftrightarrow> (\<exists>waves. buildDependencyAwareWaves p ws (wv_Size (normalizedWaveStrategy ?opts)) = Inr waves)"
      using sortedPlanned_simps(2) [of lib p spec vms]
      by (auto simp: BuildExecutionPlan_def Let_def list_ex_iff ws_def sortedPlanned_def split: sum.splits)
    then show ?thesis using waves_complete [OF dist] by simp
  next
    case False
    then have ?acyclic by (intro no_deps_resolve) auto
    moreover have ?ok
      using False size sortedPlanned_simps(2) [of lib p spec vms]
      by (auto simp: BuildExecutionPlan_def Let_def list_ex_iff chunkWorkloads_def ws_def sortedPlanned_def)
    ultimately show ?thesis by simp
  qed
qed

section \<open>Reordering\<close>

lemma orderByItems_inv:
  assumes "\<forall>k w. map_of index k = Some w \<longrightarrow> K w = k"
  shows "orderByItems index items seen = (ordered, seen') \<Longrightarrow>
     (\<forall>w \<in> set ordered. map_of index (K w) = Some w) \<and> distinct (map K ordered)
     \<and> K ` set ordered \<inter> set seen = {} \<and> set seen' = set seen \<union> K ` set ordered"
proof (induction items arbitrary: seen ordered seen')
  case (Cons item items)
  show ?case
  proof (cases "map_of index (pw_VMID item)")
    case None
    with Cons show ?thesis by simp
  next
    case (Some w)
    then have K: "K w = pw_VMID item" using assms by blast
    show ?thesis
    proof (cases "pw_VMID item \<in> set seen")
      case True
      with Cons.prems Some have "orderByItems index items seen = (ordered, seen')" by simp
      then show ?thesis by (rule Cons.IH)
    next
      case False
      obtain o' where rest: "orderByItems index items (pw_VMID item # seen) = (o', seen')"
        and o': "ordered = w # o'"
        using Cons.prems Some False by (auto split: prod.splits)
      note IH = Cons.IH [OF rest]
      have "pw_VMID item \<notin> K ` set o'" using IH by auto
      then show ?thesis using IH o' K Some False by auto
    qed
  qed
qed simp

lemma orderByItems_keys:
  assumes "\<forall>k w. map_of index k = Some w \<longrightarrow> K w = k"
  shows "distinct (map pw_VMID items) \<Longrightarrow> pw_VMID ` set items \<inter> set seen = {} \<Longrightarrow>
     pw_VMID ` set items \<subseteq> dom (map_of index) \<Longrightarrow>
     map K (fst (orderByItems index items seen)) = map pw_VMID items"
proof (induction items arbitrary: seen)
  case (Cons item items)
  then obtain w where w: "map_of index (pw_VMID item) = Some w" by auto
  have "map K (fst (orderByItems index items (pw_VMID item # seen))) = map pw_VMID items"
    using Cons.prems by (intro Cons.IH) auto
  moreover have "K w = pw_VMID item" using w assms by blast
  ultimately show ?case using w Cons.prems by (auto split: prod.splits)
qed simp

abbreviation wmKey :: "WorkloadMigration \<Rightarrow> string" where
  "wmKey w \<equiv> workloadKey (wm_VM w)"

lemma workload_index:
  assumes "distinct (map wmKey ws)"
  shows "map_of (fold (\<lambda>w. AList.update (wmKey w) w) ws []) k = Some w \<longleftrightarrow> w \<in> set ws \<and> wmKey w = k"
proof -
  have eq: "fold (\<lambda>w. AList.update (wmKey w) w) ws [] = map (\<lambda>w. (wmKey w, w)) ws"
    using assms by (simp add: fold_update_distinct)
  have "distinct (map fst (map (\<lambda>w. (wmKey w, w)) ws))" using assms by (simp add: comp_def)
  then show ?thesis by (auto simp: eq map_of_eq_Some_iff)
qed

lemma mset_by_key:
  assumes "distinct (map K xs)" "distinct (map K ys)" "set xs = set ys"
  shows "mset xs = mset ys"
  using assms by (metis distinct_map set_eq_iff_mset_eq_distinct)

lemma reorder_mset:
  assumes dist: "distinct (map wmKey ws)"
  shows "mset (reorderWorkloadsByPlan ws oplan) = mset ws"
proof (cases "oplan = None \<or> ws = [] \<or> plan_Waves (the oplan) = []")
  case True
  then show ?thesis by (auto simp: reorderWorkloadsByPlan_def split: option.splits)
next
  case False
  then obtain plan where plan: "oplan = Some plan" by auto
  let ?index = "fold (\<lambda>w. AList.update (wmKey w) w) ws []"
  obtain ordered seen where ord:
    "orderByItems ?index (concat (map wave_Workloads (plan_Waves plan))) [] = (ordered, seen)" by force
  have res: "reorderWorkloadsByPlan ws oplan = ordered @ filter (\<lambda>w. wmKey w \<notin> set seen) ws"
    using False plan ord by (simp add: reorderWorkloadsByPlan_def)
  have inv: "\<forall>w \<in> set ordered. w \<in> set ws" "distinct (map wmKey ordered)" "set seen = wmKey ` set ordered"
    using orderByItems_inv [OF _ ord, of wmKey] workload_index [OF dist] by auto
  have mem: "w \<in> set ordered" if "w \<in> set ws" "wmKey w \<in> wmKey ` set ordered" for w
    using that inv(1) dist by (auto simp: distinct_map inj_on_def)
  have disj: "wmKey ` set ordered \<inter> wmKey ` set (filter (\<lambda>w. wmKey w \<notin> set seen) ws) = {}"
    by (auto simp: inv(3)) (metis imageI)
  show ?thesis
  proof (rule mset_by_key [OF _ dist])
    show "distinct (map wmKey (reorderWorkloadsByPlan ws oplan))"
      using disj inv(2) distinct_map_filter [OF dist] by (simp add: res)
    show "set (reorderWorkloadsByPlan ws oplan) = set ws"
      using inv mem by (auto simp: res)
  qed
qed

text \<open>
  Ordering the workloads by any plan neither drops nor duplicates a workload.
\<close>

theorem reorder_perm:
  assumes dist: "distinct (map wmKey ws)"
  shows "mset (reorderWorkloadsByPlan ws oplan) = mset ws"
  by (rule reorder_mset [OF assms])

text \<open>The planner and the workload builder select the same machines.\<close>

lemma buildWorkloadMigrations_keys:
  "map wmKey (buildWorkloadMigrations lib vms ss) = map workloadKey (MatchWorkloads lib vms ss)"
  using arg_cong [OF buildLoop_vms, of "map workloadKey"]
  by (simp add: buildWorkloadMigrations_def MatchWorkloads_def comp_def)

lemma reorder_keys:
  assumes ids: "idsNotBlank vms" and run: "BuildExecutionPlan lib p now (Some spec) vms = Inr plan"
  shows "map wmKey (reorderWorkloadsByPlan (buildWorkloadMigrations lib vms (spec_Workloads spec)) (Some plan))
       = map pw_VMID (concat (map wave_Workloads (plan_Waves plan)))"
proof -
  let ?ws = "buildWorkloadMigrations lib vms (spec_Workloads spec)"
  let ?items = "concat (map wave_Workloads (plan_Waves plan))"
  let ?index = "fold (\<lambda>w. AList.update (wmKey w) w) ?ws []"
  have ok: "wavesOk (plannedWorkloads lib spec vms) (wv_Size (plan_WaveStrategy plan)) (plan_Waves plan)"
    by (rule plan_waves_ok [OF ids run])
  have keys: "map pw_VMID (plannedWorkloads lib spec vms) = map wmKey ?ws"
    by (simp only: plannedWorkloads_VMID buildWorkloadMigrations_keys)
  have ms: "mset (map pw_VMID ?items) = mset (map wmKey ?ws)"
    using ok keys by (metis mset_map wavesOk_def)
  have dist: "distinct (map wmKey ?ws)" using plannedWorkloads_distinct [OF ids] keys by metis
  then have disti: "distinct (map pw_VMID ?items)" using ms by (metis mset_eq_imp_distinct_iff)
  have seti: "pw_VMID ` set ?items = wmKey ` set ?ws"
    using ms by (metis list.set_map set_mset_mset)
  note idx = workload_index [OF dist]
  show ?thesis
  proof (cases "?ws = [] \<or> plan_Waves plan = []")
    case True
    then have "?ws = []" "?items = []" using seti by auto
    then show ?thesis by (simp add: reorderWorkloadsByPlan_def)
  next
    case False
    obtain ordered seen where ord: "orderByItems ?index ?items [] = (ordered, seen)" by force
    have "map wmKey (fst (orderByItems ?index ?items [])) = map pw_VMID ?items"
      by (rule orderByItems_keys) (use idx disti seti in auto)
    then have k: "map wmKey ordered = map pw_VMID ?items" by (simp add: ord)
    have "set seen = wmKey ` set ordered" using orderByItems_inv [OF _ ord, of wmKey] idx by auto
    also have "\<dots> = wmKey ` set ?ws" using arg_cong [OF k, of set] seti by simp
    finally have "filter (\<lambda>w. wmKey w \<notin> set seen) ?ws = []" by (auto simp: filter_empty_conv)
    then show ?thesis using False ord k by (simp add: reorderWorkloadsByPlan_def)
  qed
qed

text \<open>
  The workloads built for a plan and reordered by it are in the order of its
  waves, so that with plan_correct a workload comes after everything it depends on.
\<close>

theorem reorder_follows_plan:
  assumes ids: "idsNotBlank vms" and run: "BuildExecutionPlan lib p now (Some spec) vms = Inr plan"
  shows "map wmKey (reorderWorkloadsByPlan (buildWorkloadMigrations lib vms (spec_Workloads spec)) (Some plan))
       = map pw_VMID (concat (map wave_Workloads (plan_Waves plan)))"
  by (rule reorder_keys [OF assms])

section \<open>Checkpoints\<close>

lemma checkpointStatusIn_init: "checkpointStatusIn initializeCheckpoints q = CheckpointPending"
  by (simp add: initializeCheckpoints_def checkpointPhases_def newCheckpoint_def)

lemma checkpointStatusIn_updateFirst:
  assumes "\<And>c. cp_Phase (f c) = cp_Phase c" and "\<And>c. cp_Status (f c) = s"
  shows "checkpointStatusIn (updateFirst ph f cs) q = (if q = ph then s else checkpointStatusIn cs q)"
  by (induction cs) (auto simp: assms newCheckpoint_def)

lemma checkpointStatus_update:
  assumes "\<And>c. cp_Phase (f c) = cp_Phase c" and "\<And>c. cp_Status (f c) = s"
  shows "checkpointStatus (updateCheckpoint st ph f) q = (if q = ph then s else checkpointStatus st q)"
  by (simp add: checkpointStatus_def updateCheckpoint_def Let_def checkpointStatusIn_updateFirst [OF assms]
      checkpointStatusIn_init)

lemma checkpointStatus_running [simp]:
  "checkpointStatus (markCheckpointRunning n st ph m) q = (if q = ph then CheckpointRunning else checkpointStatus st q)"
  unfolding markCheckpointRunning_def by (rule checkpointStatus_update) simp_all

lemma checkpointStatus_completed [simp]:
  "checkpointStatus (markCheckpointCompleted n n' st ph m) q
     = (if q = ph then CheckpointCompleted else checkpointStatus st q)"
  unfolding markCheckpointCompleted_def by (rule checkpointStatus_update) simp_all

lemma checkpointStatus_failed [simp]:
  "checkpointStatus (markCheckpointFailed n n' st ph e) q
     = (if q = ph then CheckpointFailed else checkpointStatus st q)"
  unfolding markCheckpointFailed_def by (rule checkpointStatus_update) (simp_all add: Let_def split: option.splits)

lemma nextPhaseLoop_Some:
  "nextPhaseLoop st n phs = Some i \<longleftrightarrow>
     (\<exists>k. i = n + k \<and> k < length phs \<and> (\<forall>j < k. checkpointStatus st (phs ! j) = CheckpointCompleted)
          \<and> checkpointStatus st (phs ! k) \<noteq> CheckpointCompleted)"
proof (induction phs arbitrary: n)
  case (Cons ph phs)
  show ?case
  proof (cases "checkpointStatus st ph = CheckpointCompleted")
    case True
    have "nextPhaseLoop st n (ph # phs) = nextPhaseLoop st (Suc n) phs" using True by simp
    also have "\<dots> = Some i \<longleftrightarrow> (\<exists>k. i = n + Suc k \<and> Suc k < length (ph # phs)
        \<and> (\<forall>j < Suc k. checkpointStatus st ((ph # phs) ! j) = CheckpointCompleted)
        \<and> checkpointStatus st ((ph # phs) ! Suc k) \<noteq> CheckpointCompleted)"
      using True by (simp add: Cons All_less_Suc2)
    also have "\<dots> \<longleftrightarrow> (\<exists>k. i = n + k \<and> k < length (ph # phs)
        \<and> (\<forall>j < k. checkpointStatus st ((ph # phs) ! j) = CheckpointCompleted)
        \<and> checkpointStatus st ((ph # phs) ! k) \<noteq> CheckpointCompleted)"
      (is "?lhs \<longleftrightarrow> ?rhs")
    proof
      assume ?lhs then show ?rhs by blast
    next
      assume ?rhs
      then obtain k where k: "i = n + k" "k < length (ph # phs)"
        "\<forall>j < k. checkpointStatus st ((ph # phs) ! j) = CheckpointCompleted"
        "checkpointStatus st ((ph # phs) ! k) \<noteq> CheckpointCompleted" by blast
      with True obtain k' where "k = Suc k'" by (cases k) auto
      with k show ?lhs by blast
    qed
    finally show ?thesis .
  next
    case False
    then have "nextPhaseLoop st n (ph # phs) = Some n" by (cases "checkpointStatus st ph") auto
    then show ?thesis using False by (fastforce intro: exI [of _ 0])
  qed
qed simp

text \<open>
  The phase a resumed migration starts with is the first one whose checkpoint is not
  completed; there is none exactly when all of export, convert, import, configure and verify are.
\<close>

theorem resume_point:
  "(nextPhaseStartIndex st = Some i \<longleftrightarrow>
      i < length executionPhases \<and> checkpointStatus st (executionPhases ! i) \<noteq> CheckpointCompleted
      \<and> (\<forall>j < i. checkpointStatus st (executionPhases ! j) = CheckpointCompleted))
   \<and> (nextPhaseStartIndex st = None \<longleftrightarrow>
        (\<forall>ph \<in> set executionPhases. checkpointStatus st ph = CheckpointCompleted))"
proof
  show "nextPhaseStartIndex st = Some i \<longleftrightarrow>
      i < length executionPhases \<and> checkpointStatus st (executionPhases ! i) \<noteq> CheckpointCompleted
      \<and> (\<forall>j < i. checkpointStatus st (executionPhases ! j) = CheckpointCompleted)"
    by (auto simp: nextPhaseStartIndex_def nextPhaseLoop_Some)
  show "nextPhaseStartIndex st = None \<longleftrightarrow>
        (\<forall>ph \<in> set executionPhases. checkpointStatus st ph = CheckpointCompleted)"
    by (auto simp: nextPhaseStartIndex_def executionPhases_def split: CheckpointStatus.splits)
qed

end
