(* ===== verification/OrchestratorTrace.thy ===== *)
theory OrchestratorTrace
  imports Orchestrator PlanExecution
begin

text \<open>
  What the migration engine asks of the outside, and when. The calls of a run are described by the
  predicate \<open>adds\<close> (the run appends calls that all satisfy a property) and, for the phases, by
  \<open>phase_trace\<close>: the calls of a phase follow the recovery point of that phase, and phases do not mix.
\<close>

section \<open>Kinds of calls\<close>

text \<open>Calls that neither read nor change a virtual machine, a disk or a file.\<close>

fun bookkeeping :: "call \<Rightarrow> bool" where
  "bookkeeping CClock = True"
| "bookkeeping CNewID = True"
| "bookkeeping (CConnect _) = True"
| "bookkeeping (CClose _) = True"
| "bookkeeping (CDiscover _) = True"
| "bookkeeping (CSaveState _) = True"
| "bookkeeping (CSavePoint _) = True"
| "bookkeeping (CGetState _) = True"
| "bookkeeping (CGetPoint _) = True"
| "bookkeeping (CEmit _) = True"
| "bookkeeping _ = False"

text \<open>The phase in which the engine makes a call on a machine or a disk.\<close>

fun callPhase :: "call \<Rightarrow> MigrationPhase option" where
  "callPhase (CPowerOff Source _) = Some PhaseExport"
| "callPhase (CExport _) = Some PhaseExport"
| "callPhase (CConvert _) = Some PhaseConvert"
| "callPhase (CCreateVM _ _ _ _) = Some PhaseImport"
| "callPhase (CConfigure _ _) = Some PhaseConfigure"
| "callPhase (CPowerOn Target _) = Some PhaseVerify"
| "callPhase (CVerify _) = Some PhaseVerify"
| "callPhase _ = None"

fun isSnapshot :: "call \<Rightarrow> bool" where
  "isSnapshot (CSnapshot _) = True"
| "isSnapshot _ = False"

definition adds :: "(call \<Rightarrow> bool) \<Rightarrow> 'st sys \<Rightarrow> 'st sys \<Rightarrow> bool" where
  "adds P s s' = (\<exists>cs. sy_hist s' = sy_hist s @ cs \<and> list_all P cs)"

named_theorems adds_intros \<open>which calls a function of the engine makes\<close>

lemma adds_refl [adds_intros]: "adds P s s"
  by (simp add: adds_def)

lemma adds_trans: "adds P s s' \<Longrightarrow> adds P s' s'' \<Longrightarrow> adds P s s''"
  by (auto simp: adds_def)

lemma adds_mono: "adds P s s' \<Longrightarrow> (\<And>c. P c \<Longrightarrow> Q c) \<Longrightarrow> adds Q s s'"
  by (auto simp: adds_def list_all_iff)

lemma adds_record: "P c \<Longrightarrow> adds P s (record_call c s)"
  by (simp add: adds_def)

lemma adds_record_trans: "adds P (record_call c s) s' \<Longrightarrow> P c \<Longrightarrow> adds P s s'"
  by (auto simp: adds_def)

lemma adds_hist: "sy_hist s' = sy_hist s'' \<Longrightarrow> adds P s s' = adds P s s''"
  by (simp add: adds_def)

lemma adds_nowUTC: "nowUTC env s = (t, s') \<Longrightarrow> P CClock \<Longrightarrow> adds P s s'"
  by (auto simp: nowUTC_def intro: adds_record)

lemma adds_emit: "(\<And>c. bookkeeping c \<Longrightarrow> P c) \<Longrightarrow> adds P s (emit env ph vm msg n s)"
  by (auto simp: emit_def nowUTC_def adds_def)

lemma adds_persist:
  "persistMigrationState env st s = (e, s') \<Longrightarrow> (\<And>c. bookkeeping c \<Longrightarrow> P c) \<Longrightarrow> adds P s s'"
  by (auto simp: persistMigrationState_def Let_def adds_def split: sum.splits prod.splits)

lemma adds_persist_snd: "(\<And>c. bookkeeping c \<Longrightarrow> P c) \<Longrightarrow> adds P s (snd (persistMigrationState env st s))"
  using adds_persist [of env st s "fst (persistMigrationState env st s)"] by simp

section \<open>Phases\<close>

definition inPhase :: "MigrationPhase \<Rightarrow> call \<Rightarrow> bool" where
  "inPhase ph c = (bookkeeping c \<or> callPhase c = Some ph)"

lemma inPhase_bookkeeping: "bookkeeping c \<Longrightarrow> inPhase ph c"
  by (simp add: inPhase_def)

lemma forWorkloads_adds:
  assumes "\<And>w s e w' s'. body w s = (e, w', s') \<Longrightarrow> adds P s s'"
  shows "forWorkloads body ws s = (e, ws', s') \<Longrightarrow> adds P s s'"
proof (induction ws arbitrary: s e ws' s')
  case (Cons w ws)
  obtain e1 w1 s1 where b: "body w s = (e1, w1, s1)" by (cases "body w s")
  show ?case
  proof (cases e1)
    case None
    obtain e2 ws2 s2 where r: "forWorkloads body ws s1 = (e2, ws2, s2)" by (cases "forWorkloads body ws s1")
    show ?thesis
      using Cons.prems b r None adds_trans [OF assms [OF b] Cons.IH [OF r]] by simp
  next
    case (Some err)
    with Cons.prems b show ?thesis using assms [OF b] by simp
  qed
qed (simp add: adds_refl)

lemma exportDisks_adds: "exportDisks env src m w s = (e, w', s') \<Longrightarrow> adds (inPhase PhaseExport) s s'"
  by (auto simp: exportDisks_def failWorkload_def Let_def inPhase_def split: option.splits sum.splits
      intro!: adds_record adds_emit intro: adds_record_trans [OF adds_emit])

lemma exportWorkload_adds:
  "exportWorkload env src spec m w s = (e, w', s') \<Longrightarrow> adds (inPhase PhaseExport) s s'"
  by (auto simp: exportWorkload_def failWorkload_def Let_def inPhase_def split: option.splits if_splits
      intro!: adds_record dest!: exportDisks_adds intro: adds_record_trans)

lemma convertDisks_adds:
  "convertDisks env f ps w s = (e, w', s') \<Longrightarrow> adds (inPhase PhaseConvert) s s'"
proof (induction ps arbitrary: w s)
  case (Cons path paths)
  let ?req = "\<lparr>cr_SourcePath = path, cr_SourceFormat = inferDiskFormat path (vm_Platform (wm_VM w)),
                cr_TargetPath = conversionTarget path f, cr_TargetFormat = f, cr_Thin = True\<rparr>"
  have in_phase: "inPhase PhaseConvert (CConvert ?req)" by (simp add: inPhase_def)
  show ?case
  proof (cases "env_convertDisk env (sy_hist s) ?req")
    case (Inl err)
    with Cons.prems show ?thesis using adds_record [where P = "inPhase PhaseConvert", OF in_phase] by (auto simp: Let_def)
  next
    case (Inr p)
    with Cons.prems have "adds (inPhase PhaseConvert) (record_call (CConvert ?req) s) s'"
      by (intro Cons.IH) (simp add: Let_def)
    then show ?thesis using in_phase by (rule adds_record_trans)
  qed
qed (simp add: adds_refl)

lemma convertWorkload_adds:
  "convertWorkload env f w s = (e, w', s') \<Longrightarrow> adds (inPhase PhaseConvert) s s'"
  by (auto simp: convertWorkload_def Let_def split: option.splits prod.splits
      dest!: convertDisks_adds intro: adds_trans [OF _ adds_emit] inPhase_bookkeeping)

lemma importWorkload_adds:
  "importWorkload env tgt spec w s = (e, w', s') \<Longrightarrow> adds (inPhase PhaseImport) s s'"
  by (auto simp: importWorkload_def failWorkload_def Let_def inPhase_def split: option.splits sum.splits
      intro!: adds_record adds_emit intro: adds_record_trans [OF adds_emit])

lemma configureWorkload_adds:
  "configureWorkload env tgt spec nets w s = (e, w', s') \<Longrightarrow> adds (inPhase PhaseConfigure) s s'"
  by (auto simp: configureWorkload_def failWorkload_def Let_def inPhase_def
      split: option.splits sum.splits prod.splits list.splits
      intro!: adds_record adds_emit adds_refl intro: adds_record_trans [OF adds_emit])

lemma verifyBoot_adds: "verifyBoot env tgt w s = (e, w', s') \<Longrightarrow> adds (inPhase PhaseVerify) s s'"
  by (auto simp: verifyBoot_def failWorkload_def Let_def inPhase_def split: option.splits
      intro!: adds_record adds_emit intro: adds_record_trans [OF adds_emit])

lemma verifyWorkload_adds: "verifyWorkload env tgt w s = (e, w', s') \<Longrightarrow> adds (inPhase PhaseVerify) s s'"
  by (auto simp: verifyWorkload_def failWorkload_def Let_def inPhase_def split: option.splits
      intro!: adds_record dest!: verifyBoot_adds intro: adds_record_trans)

lemmas workload_adds = exportWorkload_adds convertWorkload_adds importWorkload_adds configureWorkload_adds
  verifyWorkload_adds

lemma runPhase_adds:
  assumes "runPhase env src tgt spec tr ph st s = (e, st', s')"
  shows "adds (inPhase ph) s s'"
proof (cases ph)
  case PhaseExport
  with assms show ?thesis
    by (auto simp: runPhase_def runExport_def split: prod.splits
        elim!: forWorkloads_adds [rotated] dest: exportWorkload_adds)
next
  case PhaseConvert
  with assms show ?thesis
    by (auto simp: runPhase_def runConvert_def split: prod.splits
        elim!: forWorkloads_adds [rotated] dest: convertWorkload_adds)
next
  case PhaseImport
  with assms show ?thesis
    by (auto simp: runPhase_def runImport_def split: prod.splits
        elim!: forWorkloads_adds [rotated] dest: importWorkload_adds)
next
  case PhaseConfigure
  with assms show ?thesis
    by (auto simp: runPhase_def runConfigure_def split: prod.splits
        elim!: forWorkloads_adds [rotated] dest: configureWorkload_adds)
next
  case PhaseVerify
  with assms show ?thesis
    by (auto simp: runPhase_def runVerify_def split: prod.splits if_splits intro: adds_refl
        elim!: forWorkloads_adds [rotated] dest: verifyWorkload_adds)
qed (use assms in \<open>simp_all add: runPhase_def adds_refl\<close>)

section \<open>Setting up and ending a phase\<close>

definition quiet :: "call \<Rightarrow> bool" where
  "quiet c = (bookkeeping c \<or> isSnapshot c)"

lemma quiet_bookkeeping: "bookkeeping c \<Longrightarrow> quiet c"
  by (simp add: quiet_def)

lemma adds_clock: "adds bookkeeping (record_call CClock s) s' \<Longrightarrow> adds bookkeeping s s'"
  by (erule adds_record_trans) simp

lemma setPhase_adds:
  assumes "setPhase env st ph s = (e, st', s')"
  shows "adds bookkeeping s s'"
proof -
  have "persistMigrationState env st' (record_call CClock (record_call CClock s)) = (e, s')"
    using assms by (auto simp: setPhase_def nowUTC_def Let_def split: prod.splits)
  then show ?thesis by (rule adds_clock [OF adds_clock [OF adds_persist]])
qed

lemma failState_adds: "failState env st ph err s = (r, s') \<Longrightarrow> adds bookkeeping s s'"
proof -
  assume run: "failState env st ph err s = (r, s')"
  let ?s3 = "record_call CClock (record_call CClock (record_call CClock s))"
  have s3: "adds bookkeeping s ?s3" by (simp add: adds_def)
  have "\<exists>st1. s' = emit env ph [] ''migration failed'' 100 (snd (persistMigrationState env st1 ?s3))"
    using run by (auto simp: failState_def nowUTC_def Let_def)
  then show ?thesis by (auto intro: s3 adds_trans [OF s3 adds_trans [OF adds_persist_snd adds_emit]])
qed

lemma completeCheckpoint_adds: "completeCheckpoint env st ph m s = (st', s') \<Longrightarrow> adds bookkeeping s s'"
  by (auto simp: completeCheckpoint_def nowUTC_def adds_def)

lemma refuse_adds: "refuse env fmt spec st err s = (r, s') \<Longrightarrow> adds bookkeeping s s'"
  by (auto simp: refuse_def nowUTC_def Let_def split: prod.splits option.splits
      dest!: adds_persist [where P = bookkeeping] intro: adds_record_trans)

lemma newMigrationState_adds: "newMigrationState env spec m s = (st, s') \<Longrightarrow> adds bookkeeping s s'"
  by (auto simp: newMigrationState_def nowUTC_def adds_def)

lemma discoverInventories_adds: "discoverInventories src tgt s = (r, s') \<Longrightarrow> adds bookkeeping s s'"
  by (auto simp: discoverInventories_def Let_def adds_def split: option.splits sum.splits)

lemma recoveryLoop_adds: "recoveryLoop src ws s = (r, s') \<Longrightarrow> adds isSnapshot s s'"
proof (induction ws arbitrary: s r s')
  case (Cons w ws)
  obtain r1 s1 where a: "recoveryLoop src ws s = (r1, s1)" by force
  obtain r2 s2 where b: "recoveryLoop src ws (record_call (CSnapshot (vm_ID (wm_VM w))) s) = (r2, s2)" by force
  have "adds isSnapshot s s1" by (rule Cons.IH [OF a])
  moreover have "adds isSnapshot s s2" by (rule adds_record_trans [OF Cons.IH [OF b]]) simp
  moreover have "adds isSnapshot s (record_call (CSnapshot (vm_ID (wm_VM w))) s)" by (rule adds_record) simp
  ultimately show ?case
    using Cons.prems a b by (auto simp: Let_def split: option.splits sum.splits)
qed (simp add: adds_refl)

text \<open>A recovery point that was created is the last call, after the snapshots.\<close>

lemma CreateRecoveryPoint_trace:
  assumes "CreateRecoveryPoint env src st s = (Inr point, s')"
  shows "\<exists>cs. sy_hist s' = sy_hist s @ cs @ [CSavePoint point] \<and> list_all quiet cs
           \<and> rp_Phase point = ms_Phase st \<and> rp_MigrationID point = ms_ID st"
proof -
  obtain infos s2 where loop: "recoveryLoop src (ms_Workloads st) (record_call CClock s) = (Inr infos, s2)"
    and per: "persistRecoveryPoint env point s2 = (None, s')"
    and pt: "rp_Phase point = ms_Phase st" "rp_MigrationID point = ms_ID st"
    using assms by (auto simp: CreateRecoveryPoint_def nowUTC_def Let_def split: prod.splits sum.splits option.splits)
  obtain cs where "sy_hist s2 = sy_hist s @ CClock # cs" "list_all isSnapshot cs"
    using recoveryLoop_adds [OF loop] by (auto simp: adds_def)
  moreover have "sy_hist s' = sy_hist s2 @ [CSavePoint point]"
    using per by (auto simp: persistRecoveryPoint_def Let_def split: sum.splits prod.splits)
  ultimately show ?thesis
    using pt by (intro exI [of _ "CClock # cs"]) (auto simp: quiet_def list_all_iff)
qed

lemma CreateRecoveryPoint_adds:
  assumes "CreateRecoveryPoint env src st s = (r, s')"
  shows "adds quiet s s'"
proof -
  obtain r2 s2 where loop: "recoveryLoop src (ms_Workloads st) (record_call CClock s) = (r2, s2)" by force
  have "adds quiet s s2"
    by (rule adds_record_trans [OF adds_mono [OF recoveryLoop_adds [OF loop]]]) (simp_all add: quiet_def)
  moreover have "adds quiet s2 s'"
    using assms loop
    by (auto simp: CreateRecoveryPoint_def nowUTC_def Let_def persistRecoveryPoint_def adds_def quiet_def
        split: prod.splits sum.splits option.splits)
  ultimately show ?thesis by (rule adds_trans)
qed

section \<open>The trace of the phases\<close>

text \<open>
  The calls of a run of phases: for each phase, quiet calls up to the recovery point of that phase, then
  calls of that phase only; a run that fails stops within a phase, with bookkeeping at the end.
\<close>

fun phase_trace :: "MigrationPhase list \<Rightarrow> call list \<Rightarrow> bool" where
  "phase_trace [] cs = list_all bookkeeping cs"
| "phase_trace (ph # phs) cs =
     (list_all quiet cs
      \<or> (\<exists>a point b c. cs = a @ CSavePoint point # b @ c \<and> rp_Phase point = ph \<and> list_all quiet a
            \<and> list_all (inPhase ph) b \<and> phase_trace phs c))"

lemma phase_trace_end: "list_all bookkeeping cs \<Longrightarrow> phase_trace phs cs"
  by (cases phs) (auto simp: list_all_iff quiet_def)

lemma phase_trace_cons:
  assumes "list_all quiet a" "rp_Phase point = ph" "list_all (inPhase ph) b" "phase_trace phs c"
  shows "phase_trace (ph # phs) (a @ CSavePoint point # b @ c)"
  using assms by auto

lemma setPhase_phase: "setPhase env st ph s = (e, st', s') \<Longrightarrow> ms_Phase st' = ph \<and> ms_ID st' = ms_ID st"
  by (auto simp: setPhase_def nowUTC_def Let_def markCheckpointRunning_def updateCheckpoint_def split: prod.splits)

lemma adds_hist_obtain:
  assumes "adds P s s'" obtains cs where "sy_hist s' = sy_hist s @ cs" "list_all P cs"
  using assms by (auto simp: adds_def)

lemma list_all_quiet: "list_all bookkeeping cs \<Longrightarrow> list_all quiet cs"
  by (auto simp: list_all_iff quiet_def)

text \<open>The cases of one phase: what it returns and where it stops.\<close>

lemma runOnePhase_cases:
  assumes run: "runOnePhase env src tgt spec tr n ph st s = (r, s')"
  obtains (stopped) res where "r = Inl res" "adds quiet s s'"
  | (failed) res point st1 err st2 s3 s4 where "r = Inl res" "CreateRecoveryPoint env src st1
        (emit env ph [] (phaseMessage ph) (20 + int n * 15) (snd (snd (setPhase env st ph s)))) = (Inr point, s3)"
      "setPhase env st ph s = (None, st1, snd (snd (setPhase env st ph s)))"
      "runPhase env src tgt spec tr ph st1 s3 = (err, st2, s4)" "adds bookkeeping s4 s'"
  | (completed) st1 point s3 st2 s4 s5 st3 where "r = Inr st3" "CreateRecoveryPoint env src st1
        (emit env ph [] (phaseMessage ph) (20 + int n * 15) (snd (snd (setPhase env st ph s)))) = (Inr point, s3)"
      "setPhase env st ph s = (None, st1, snd (snd (setPhase env st ph s)))"
      "runPhase env src tgt spec tr ph st1 s3 = (None, st2, s4)"
      "completeCheckpoint env st2 ph (phaseMessage ph) s4 = (st3, s5)"
      "persistMigrationState env st3 s5 = (None, s')"
proof -
  obtain e1 st1 s1 where set: "setPhase env st ph s = (e1, st1, s1)" by (metis prod_cases3)
  let ?s2 = "emit env ph [] (phaseMessage ph) (20 + int n * 15) s1"
  obtain rp s3 where rec: "CreateRecoveryPoint env src st1 ?s2 = (rp, s3)" by force
  obtain e4 st2 s4 where run4: "runPhase env src tgt spec tr ph st1 s3 = (e4, st2, s4)" by (metis prod_cases3)
  obtain st3 s5 where comp: "completeCheckpoint env st2 ph (phaseMessage ph) s4 = (st3, s5)" by force
  obtain e6 s6 where per: "persistMigrationState env st3 s5 = (e6, s6)" by force
  have q1: "adds quiet s s1" using setPhase_adds [OF set] quiet_bookkeeping by (rule adds_mono)
  have q3: "adds quiet s s3"
    by (rule adds_trans [OF adds_trans [OF q1 adds_emit [OF quiet_bookkeeping]] CreateRecoveryPoint_adds [OF rec]])
  have q6: "adds bookkeeping s4 s6"
    by (rule adds_trans [OF completeCheckpoint_adds [OF comp] adds_persist [OF per]])
  note facts = run set rec run4 comp per
  consider "e1 \<noteq> None" | err where "e1 = None" "rp = Inl err"
    | point err where "e1 = None" "rp = Inr point" "e4 = Some err"
    | point where "e1 = None" "rp = Inr point" "e4 = None" by (cases e1; cases rp; cases e4) auto
  then show thesis
  proof cases
    case 1
    then have "\<exists>res. r = Inl res" "s' = s1" using facts by (auto simp: runOnePhase_def)
    then show ?thesis using q1 stopped by blast
  next
    case 2
    then obtain res where f: "failState env st1 ph err s3 = (res, s')" and "r = Inl res"
      using facts by (auto simp: runOnePhase_def Let_def split: prod.splits)
    then show ?thesis using adds_trans [OF q3 adds_mono [OF failState_adds [OF f] quiet_bookkeeping]] stopped by blast
  next
    case 3
    then obtain res where f: "failState env st2 ph err s4 = (res, s')" and "r = Inl res"
      using facts by (auto simp: runOnePhase_def Let_def split: prod.splits)
    then show ?thesis using 3 set rec run4 failState_adds [OF f] by (intro failed [of res]) auto
  next
    case 4
    then show ?thesis
      using facts q6 failed [of _ st1 point s3 e4 st2 s4] completed [of st3 st1 point s3 st2 s4 s5]
      by (cases e6) (auto simp: runOnePhase_def Let_def)
  qed
qed

text \<open>A phase that gets to its recovery point: quiet calls, the point, calls of the phase.\<close>

lemma phase_segment:
  assumes rec: "CreateRecoveryPoint env src st1
        (emit env ph [] (phaseMessage ph) (20 + int n * 15) (snd (snd (setPhase env st ph s)))) = (Inr point, s3)"
    and set: "setPhase env st ph s = (None, st1, snd (snd (setPhase env st ph s)))"
    and run: "runPhase env src tgt spec tr ph st1 s3 = (e, st2, s4)" and rest: "adds bookkeeping s4 s'"
  shows "\<exists>a b. sy_hist s' = sy_hist s @ a @ CSavePoint point # b \<and> rp_Phase point = ph
           \<and> list_all quiet a \<and> list_all (inPhase ph) b"
proof -
  let ?s2 = "emit env ph [] (phaseMessage ph) (20 + int n * 15) (snd (snd (setPhase env st ph s)))"
  obtain cs where cs: "sy_hist s3 = sy_hist ?s2 @ cs @ [CSavePoint point]" "list_all quiet cs"
      "rp_Phase point = ms_Phase st1"
    using CreateRecoveryPoint_trace [OF rec] by blast
  have "adds bookkeeping s ?s2" by (rule adds_trans [OF setPhase_adds [OF set] adds_emit])
  then obtain ds where ds: "sy_hist ?s2 = sy_hist s @ ds" "list_all bookkeeping ds" by (rule adds_hist_obtain)
  have "adds (inPhase ph) s3 s'"
    by (rule adds_trans [OF runPhase_adds [OF run] adds_mono [OF rest inPhase_bookkeeping]])
  then obtain b where b: "sy_hist s' = sy_hist s3 @ b" "list_all (inPhase ph) b" by (rule adds_hist_obtain)
  show ?thesis
    using cs ds b setPhase_phase [OF set] list_all_quiet [of ds]
    by (intro exI [of _ "ds @ cs"] exI [of _ b]) simp
qed

lemma runPhases_trace:
  assumes "runPhases env src tgt spec tr n phs st s = (r, s')"
  shows "\<exists>cs. sy_hist s' = sy_hist s @ cs \<and> phase_trace phs cs"
  using assms
proof (induction phs arbitrary: n st s)
  case (Cons ph phs)
  obtain r1 s1 where one: "runOnePhase env src tgt spec tr n ph st s = (r1, s1)" by force
  show ?case
    using one
  proof (cases rule: runOnePhase_cases)
    case (stopped res)
    with Cons.prems one show ?thesis by (auto simp: adds_def)
  next
    case (failed res point st1 err st2 s3 s4)
    with Cons.prems one have "s' = s1" by simp
    with phase_segment [OF failed(2,3,4,5)] obtain a b
      where "sy_hist s' = sy_hist s @ a @ CSavePoint point # b @ []" "rp_Phase point = ph"
        "list_all quiet a" "list_all (inPhase ph) b" by auto
    then show ?thesis
      using phase_trace_cons [of a point ph b phs "[]"] phase_trace_end [of "[]" phs] by auto
  next
    case (completed st1 point s3 st2 s4 s5 st3)
    have "adds bookkeeping s4 s1"
      by (rule adds_trans [OF completeCheckpoint_adds [OF completed(5)] adds_persist [OF completed(6)]])
    from phase_segment [OF completed(2,3,4) this] obtain a b
      where ab: "sy_hist s1 = sy_hist s @ a @ CSavePoint point # b" "rp_Phase point = ph"
        "list_all quiet a" "list_all (inPhase ph) b" by auto
    from Cons.prems one completed(1) have "runPhases env src tgt spec tr (Suc n) phs st3 s1 = (r, s')" by simp
    from Cons.IH [OF this] obtain c where c: "sy_hist s' = sy_hist s1 @ c" "phase_trace phs c" by blast
    show ?thesis
      using phase_trace_cons [OF ab(3,2,4) c(2)] ab(1) c(1) by auto
  qed
qed simp

end
