(* ===== verification/OrchestratorProps.thy ===== *)
theory OrchestratorProps
  imports OrchestratorTrace
begin

text \<open>
  Properties of \<open>Execute\<close> and \<open>Resume\<close>: no machine is touched before the gate opens, phases run in
  order behind their recovery points, completed phases are not repeated, and the stored state agrees
  with the returned one.
\<close>

section \<open>The gate\<close>

definition gateOpen :: "MigrationSpec \<Rightarrow> time \<Rightarrow> bool" where
  "gateOpen spec t =
     (let w = opt_Window (spec_Options spec) in
      (win_NotBefore w = 0 \<or> win_NotBefore w \<le> t) \<and> (win_NotAfter w = 0 \<or> t \<le> win_NotAfter w)
      \<and> Approved (opt_Approval (spec_Options spec)))"

lemma readiness_iff: "(\<exists>st'. validateExecutionReadiness st spec t = Inr st') \<longleftrightarrow> gateOpen spec t"
  by (auto simp: validateExecutionReadiness_def gateOpen_def Let_def Approved_def)

lemma readiness_state:
  "validateExecutionReadiness st spec t = Inr st' \<Longrightarrow>
   gateOpen spec t \<and> st' = st\<lparr>ms_PendingApproval := False, ms_Approval := opt_Approval (spec_Options spec)\<rparr>"
  by (auto simp: validateExecutionReadiness_def gateOpen_def Let_def Approved_def split: if_splits)

section \<open>Traces of whole runs\<close>

lemma phase_trace_append: "phase_trace phs cs \<Longrightarrow> list_all bookkeeping d \<Longrightarrow> phase_trace phs (cs @ d)"
proof (induction phs arbitrary: cs)
  case (Cons ph phs)
  show ?case
  proof (cases "list_all quiet cs")
    case True
    then show ?thesis using Cons.prems(2) list_all_quiet [of d] by simp
  next
    case False
    then obtain a point b c where c: "cs = a @ CSavePoint point # b @ c" "rp_Phase point = ph" "list_all quiet a"
        "list_all (inPhase ph) b" "phase_trace phs c"
      using Cons.prems(1) by auto
    show ?thesis
      using phase_trace_cons [OF c(3,2,4) Cons.IH [OF c(5) Cons.prems(2)]] c(1) by simp
  qed
qed simp

lemma adds_phase_trace: "adds bookkeeping s s' \<Longrightarrow> \<exists>t. sy_hist s' = sy_hist s @ t \<and> phase_trace phs t"
  using phase_trace_end by (auto simp: adds_def)

lemma runExecution_trace:
  assumes "runExecution env src tgt spec st tr k s = (r, s')"
  shows "\<exists>cs. sy_hist s' = sy_hist s @ cs \<and> phase_trace (drop k executionPhases) cs"
proof -
  obtain r1 s1 where run: "runPhases env src tgt spec tr k (drop k executionPhases) st s = (r1, s1)" by force
  obtain cs where cs: "sy_hist s1 = sy_hist s @ cs" "phase_trace (drop k executionPhases) cs"
    using runPhases_trace [OF run] by blast
  have "adds bookkeeping s1 s'"
  proof (cases r1)
    case (Inl x)
    then show ?thesis using assms run by (simp add: runExecution_def adds_refl)
  next
    case (Inr st1)
    then show ?thesis using assms run
      by (auto simp: runExecution_def nowUTC_def Let_def split: prod.splits option.splits
          dest!: adds_persist [where P = bookkeeping] intro: adds_clock adds_trans [OF _ adds_emit])
  qed
  then obtain d where "sy_hist s' = sy_hist s1 @ d" "list_all bookkeeping d" by (rule adds_hist_obtain)
  then show ?thesis using cs phase_trace_append by auto
qed

text \<open>
  A gated run: bookkeeping only, or the gate is open at a clock reading before which there is only
  bookkeeping, and the calls after it are quiet until the phases \<open>phs\<close> run in order.
\<close>

definition gated_trace :: "('st, 'raw) env \<Rightarrow> MigrationSpec \<Rightarrow> MigrationPhase list \<Rightarrow> call list \<Rightarrow> call list \<Rightarrow> bool"
where
  "gated_trace env spec phs h cs =
     (list_all bookkeeping cs
      \<or> (\<exists>a q t. cs = a @ CClock # q @ t \<and> list_all bookkeeping a \<and> gateOpen spec (env_now env (h @ a))
            \<and> list_all quiet q \<and> phase_trace phs t))"

lemma gated_traceI:
  assumes "list_all bookkeeping a" "gated_trace env spec phs (h @ a) cs"
  shows "gated_trace env spec phs h (a @ cs)"
proof (cases "list_all bookkeeping cs")
  case True
  with assms(1) show ?thesis by (simp add: gated_trace_def)
next
  case False
  then obtain b q t where "cs = b @ CClock # q @ t" "list_all bookkeeping b" "gateOpen spec (env_now env (h @ a @ b))"
      "list_all quiet q" "phase_trace phs t"
    using assms(2) by (auto simp: gated_trace_def)
  then show ?thesis
    using assms(1) unfolding gated_trace_def
    by (intro disjI2 exI [of _ "a @ b"] exI [of _ q] exI [of _ t]) simp
qed

lemma gated_bookkeeping: "adds bookkeeping s s' \<Longrightarrow> \<exists>cs. sy_hist s' = sy_hist s @ cs \<and> gated_trace env spec phs (sy_hist s) cs"
  by (auto simp: adds_def gated_trace_def)

lemma gated_after:
  assumes "adds bookkeeping s s1" "\<exists>cs. sy_hist s' = sy_hist s1 @ cs \<and> gated_trace env spec phs (sy_hist s1) cs"
  shows "\<exists>cs. sy_hist s' = sy_hist s @ cs \<and> gated_trace env spec phs (sy_hist s) cs"
  using assms gated_traceI by (metis adds_def append.assoc)

text \<open>The clock reading that opens the gate, and what follows.\<close>

lemma gated_open:
  assumes "gateOpen spec (env_now env (sy_hist s))" "adds quiet (record_call CClock s) s2"
    and "\<exists>t. sy_hist s' = sy_hist s2 @ t \<and> phase_trace phs t"
  shows "\<exists>cs. sy_hist s' = sy_hist s @ cs \<and> gated_trace env spec phs (sy_hist s) cs"
proof -
  obtain q where q: "sy_hist s2 = sy_hist s @ CClock # q" "list_all quiet q"
    using assms(2) by (auto simp: adds_def)
  obtain t where t: "sy_hist s' = sy_hist s2 @ t" "phase_trace phs t" using assms(3) by blast
  have "gated_trace env spec phs (sy_hist s) (CClock # q @ t)"
    unfolding gated_trace_def using assms(1) q(2) t(2)
    by (intro disjI2 exI [of _ "[]"] exI [of _ q] exI [of _ t]) simp
  then show ?thesis using q(1) t(1) by auto
qed

lemma executePlanned_trace:
  assumes "executePlanned env src tgt spec tr st s = (r, s')"
  shows "\<exists>cs. sy_hist s' = sy_hist s @ cs
           \<and> (if opt_DryRun (spec_Options spec) then list_all bookkeeping cs
              else gated_trace env spec executionPhases (sy_hist s) cs)"
proof (cases "opt_DryRun (spec_Options spec)")
  case True
  then have "s' = emit env PhasePlan [] ''migration plan created'' 10 s"
    using assms by (simp add: executePlanned_def)
  then have "adds bookkeeping s s'" using adds_emit by auto
  then show ?thesis using True by (simp add: adds_def)
next
  case False
  let ?s = "emit env PhasePlan [] ''migration plan created'' 10 s"
  have emitted: "adds bookkeeping s ?s" by (rule adds_emit)
  let ?v = "validateExecutionReadiness st spec (env_now env (sy_hist ?s))"
  have "\<exists>cs. sy_hist s' = sy_hist ?s @ cs \<and> gated_trace env spec executionPhases (sy_hist ?s) cs"
  proof (cases ?v)
    case (Inl err)
    then have "refuse env ''execute migration: %w'' spec st err (record_call CClock ?s) = (r, s')"
      using assms False by (simp add: executePlanned_def Let_def nowUTC_def)
    then show ?thesis by (rule gated_bookkeeping [OF adds_clock [OF refuse_adds]])
  next
    case (Inr st1)
    note gate = conjunct1 [OF readiness_state [OF Inr]]
    obtain rp s2 where rec: "CreateRecoveryPoint env src st1 (record_call CClock ?s) = (rp, s2)" by force
    note q = CreateRecoveryPoint_adds [OF rec]
    show ?thesis
    proof (cases rp)
      case (Inl err)
      then have "failState env st1 PhasePlan err s2 = (r, s')"
        using assms False \<open>?v = Inr st1\<close> rec by (simp add: executePlanned_def Let_def nowUTC_def)
      then show ?thesis by (intro gated_open [OF gate q] adds_phase_trace failState_adds)
    next
      case (Inr point)
      then have "runExecution env src tgt spec st1 tr 0 s2 = (r, s')"
        using assms False \<open>?v = Inr st1\<close> rec by (simp add: executePlanned_def Let_def nowUTC_def)
      then show ?thesis using runExecution_trace by (intro gated_open [OF gate q]) fastforce
    qed
  qed
  then show ?thesis using gated_after [OF emitted] False by simp
qed

section \<open>Execute\<close>

lemma markCheckpointCompleted_fields [simp]:
  "ms_ID (markCheckpointCompleted n n' st ph m) = ms_ID st"
  "ms_Phase (markCheckpointCompleted n n' st ph m) = ms_Phase st"
  "ms_Workloads (markCheckpointCompleted n n' st ph m) = ms_Workloads st"
  by (simp_all add: markCheckpointCompleted_def updateCheckpoint_def Let_def)

lemma completeCheckpoint_state:
  assumes "completeCheckpoint env st ph m s = (st', s')"
  shows "ms_ID st' = ms_ID st" "ms_Phase st' = ms_Phase st" "ms_Workloads st' = ms_Workloads st"
    "checkpointStatus st' q = (if q = ph then CheckpointCompleted else checkpointStatus st q)"
    "sy_store s' = sy_store s"
  using assms by (auto simp: completeCheckpoint_def nowUTC_def)

text \<open>
  The inventory \<open>sr\<close> is what the source answered to its first discovery between the histories \<open>h\<close> and
  \<open>h'\<close>; there is at most one.
\<close>

definition discoveredIn :: "Connector \<Rightarrow> call list \<Rightarrow> call list \<Rightarrow> DiscoveryResult \<Rightarrow> bool" where
  "discoveredIn src h h' sr =
     (\<exists>a b. h' = h @ a @ CDiscover Source # b \<and> CDiscover Source \<notin> set a \<and> con_Discover src (h @ a) = Inr sr)"

lemma discoveredIn_unique:
  assumes "discoveredIn src h h' sr" "discoveredIn src h h' sr'"
  shows "sr' = sr"
proof -
  have front: "takeWhile (\<lambda>c. c \<noteq> CDiscover Source) (a @ CDiscover Source # b) = a" if "CDiscover Source \<notin> set a" for a b
    using that by (induction a) auto
  obtain a b where "h' = h @ a @ CDiscover Source # b" "CDiscover Source \<notin> set a" "con_Discover src (h @ a) = Inr sr"
    using assms(1) by (auto simp: discoveredIn_def)
  moreover obtain a' b' where "h' = h @ a' @ CDiscover Source # b'" "CDiscover Source \<notin> set a'" "con_Discover src (h @ a') = Inr sr'"
    using assms(2) by (auto simp: discoveredIn_def)
  moreover from calculation have "a' = a" using front by (metis same_append_eq)
  ultimately show ?thesis by simp
qed

lemma discoveredIn_append: "discoveredIn src h h' sr \<Longrightarrow> discoveredIn src h (h' @ c) sr"
  unfolding discoveredIn_def by fastforce

lemma discoverInventories_source:
  assumes "discoverInventories src tgt s = (Inr (sr, tr), s')" "sy_hist s = h @ a" "CDiscover Source \<notin> set a"
  shows "discoveredIn src h (sy_hist s') sr"
proof -
  have "con_Discover src (h @ a @ [CConnect Source, CConnect Target]) = Inr sr"
    and "sy_hist s' = h @ (a @ [CConnect Source, CConnect Target]) @ CDiscover Source # [CDiscover Target, CClose Target, CClose Source]"
    using assms(1,2) by (auto simp: discoverInventories_def Let_def split: option.splits sum.splits)
  then show ?thesis unfolding discoveredIn_def using assms(3)
    by (intro exI [of _ "a @ [CConnect Source, CConnect Target]"] exI conjI) auto
qed

text \<open>\<open>Execute\<close> stops with bookkeeping only, or reaches a stored plan.\<close>

lemma executeWith_cases:
  assumes run: "executeWith env src tgt spec s = (r, s')"
  obtains (stopped) "adds bookkeeping s s'" "snd r \<noteq> None"
  | (planned) tr st s4 s5 sr now plan where "adds bookkeeping s s5" "persistMigrationState env st s4 = (None, s5)"
      "ms_ID st = env_newID env (sy_hist s)" "ms_Phase st = PhasePlan" "checkpointStatus st PhasePlan = CheckpointCompleted"
      "executePlanned env src tgt spec tr st s5 = (r, s')" "discoveredIn src (sy_hist s) (sy_hist s5) sr"
      "BuildExecutionPlan (env_patterns env) (env_sort env) now (Some spec) (dr_VMs sr) = Inr plan"
      "ms_Workloads st = reorderWorkloadsByPlan
         (buildWorkloadMigrations (env_patterns env) (dr_VMs sr) (spec_Workloads spec)) (Some plan)"
proof -
  let ?s0 = "record_call CNewID s"
  obtain st0 s1 where new: "newMigrationState env spec (env_newID env (sy_hist s)) ?s0 = (st0, s1)" by force
  have st0: "ms_ID st0 = env_newID env (sy_hist s)" "ms_Phase st0 = PhasePlan"
    using new by (auto simp: newMigrationState_def nowUTC_def)
  obtain inv s2 where disc: "discoverInventories src tgt s1 = (inv, s2)" by force
  have q2: "adds bookkeeping s s2"
    by (rule adds_record_trans [OF adds_trans [OF newMigrationState_adds [OF new] discoverInventories_adds [OF disc]]]) simp
  have q3: "adds bookkeeping s (record_call CClock s2)" by (rule adds_trans [OF q2 adds_record]) simp
  have fail: thesis if "failState env st ph err s3 = (r, s')" "adds bookkeeping s s3" for st ph err s3
  proof (rule stopped)
    show "adds bookkeeping s s'" by (rule adds_trans [OF that(2) failState_adds [OF that(1)]])
    show "snd r \<noteq> None" using that(1) by (auto simp: failState_def nowUTC_def Let_def)
  qed
  note facts = run new disc
  show thesis
  proof (cases inv)
    case (Inl err)
    then show ?thesis using facts q2 by (intro fail) (simp_all add: executeWith_def Let_def)
  next
    case (Inr x)
    obtain sr tr where x: "x = (sr, tr)" by force
    obtain a where "sy_hist s1 = sy_hist s @ a" "CDiscover Source \<notin> set a"
      using new by (auto simp: newMigrationState_def nowUTC_def)
    then have src: "discoveredIn src (sy_hist s) (sy_hist s2) sr"
      using discoverInventories_source disc Inr x by blast
    show ?thesis
    proof (cases "BuildExecutionPlan (env_patterns env) (env_sort env) (env_now env (sy_hist s2)) (Some spec) (dr_VMs sr)")
      case (Inl err)
      then show ?thesis using facts q3 Inr x by (intro fail) (simp_all add: executeWith_def Let_def nowUTC_def)
    next
      case plan: (Inr plan)
      let ?ws = "reorderWorkloadsByPlan (buildWorkloadMigrations (env_patterns env) (dr_VMs sr) (spec_Workloads spec)) (Some plan)"
      let ?st1 = "st0\<lparr>ms_Plan := Some plan, ms_Workloads := ?ws\<rparr>"
      obtain st2 s4 where comp: "completeCheckpoint env ?st1 PhasePlan ''migration plan created'' (record_call CClock s2) = (st2, s4)"
        by force
      obtain e s5 where per: "persistMigrationState env st2 s4 = (e, s5)" by force
      have q5: "adds bookkeeping s s5"
        by (rule adds_trans [OF q3 adds_trans [OF completeCheckpoint_adds [OF comp] adds_persist [OF per]]])
      have "adds bookkeeping s2 s5"
        by (rule adds_record_trans [OF adds_trans [OF completeCheckpoint_adds [OF comp] adds_persist [OF per]]]) simp_all
      then have h: "discoveredIn src (sy_hist s) (sy_hist s5) sr"
        using discoveredIn_append [OF src] by (auto simp: adds_def)
      have st2: "ms_ID st2 = ms_ID st0" "ms_Phase st2 = PhasePlan" "checkpointStatus st2 PhasePlan = CheckpointCompleted"
        using completeCheckpoint_state [OF comp] st0 by simp_all
      show ?thesis
      proof (cases "?ws = [] \<or> e \<noteq> None")
        case True
        then show ?thesis
          using facts q3 q5 Inr x plan comp per fail stopped
          by (auto simp: executeWith_def Let_def nowUTC_def split: if_splits)
      next
        case False
        then have "executePlanned env src tgt spec tr st2 s5 = (r, s')"
          using facts Inr x plan comp per by (simp add: executeWith_def Let_def nowUTC_def)
        moreover have "ms_Workloads st2 = ?ws" using completeCheckpoint_state(3) [OF comp] by simp
        ultimately show ?thesis using planned [OF q5] per st2 st0 False h plan by auto
      qed
    qed
  qed
qed

text \<open>
  C2 (execute_gated): a dry run touches nothing, and any other run that calls a connector on a machine,
  converts a disk or takes a snapshot does so only after a clock reading within the execution window
  and with the required approval given; then it runs the phases in order, each one behind the recovery
  point of that phase.
\<close>

theorem execute_gated:
  assumes run: "Execute env (Some spec) s = (r, s')"
  shows "\<exists>cs. sy_hist s' = sy_hist s @ cs
    \<and> (if opt_DryRun (spec_Options spec) then list_all bookkeeping cs
       else gated_trace env spec executionPhases (sy_hist s) cs)"
proof (cases "env_source env = None \<or> env_target env = None")
  case True
  then have "s' = s" using run by (auto simp: Execute_def split: option.splits)
  then show ?thesis by (simp add: gated_trace_def)
next
  case False
  then obtain src tgt where "executeWith env src tgt spec s = (r, s')" using run by (auto simp: Execute_def)
  then show ?thesis
  proof (cases rule: executeWith_cases)
    case stopped
    then show ?thesis by (auto simp: adds_def gated_trace_def)
  next
    case (planned tr st s4 s5 sr now plan)
    obtain a where a: "sy_hist s5 = sy_hist s @ a" "list_all bookkeeping a"
      using planned(1) by (rule adds_hist_obtain)
    obtain cs where cs: "sy_hist s' = sy_hist s5 @ cs"
        "if opt_DryRun (spec_Options spec) then list_all bookkeeping cs
         else gated_trace env spec executionPhases (sy_hist s5) cs"
      using executePlanned_trace [OF planned(6)] by blast
    show ?thesis using a cs gated_traceI [OF a(2)] by (intro exI [of _ "a @ cs"]) (auto split: if_splits)
  qed
qed

section \<open>Success\<close>

lemma runPhase_state: "runPhase env src tgt spec tr ph st s = (e, st', s') \<Longrightarrow> \<exists>ws. st' = st\<lparr>ms_Workloads := ws\<rparr>"
proof -
  have "\<exists>ws. st = st\<lparr>ms_Workloads := ws\<rparr>" by (rule exI [of _ "ms_Workloads st"]) simp
  then show "runPhase env src tgt spec tr ph st s = (e, st', s') \<Longrightarrow> \<exists>ws. st' = st\<lparr>ms_Workloads := ws\<rparr>"
    by (cases ph) (auto simp: runPhase_def runExport_def runConvert_def runImport_def runConfigure_def runVerify_def
        split: prod.splits if_splits)
qed

lemma setPhase_state:
  assumes "setPhase env st ph s = (e, st', s')"
  shows "checkpointStatus st' q = (if q = ph then CheckpointRunning else checkpointStatus st q)"
  using assms
  by (auto simp: setPhase_def nowUTC_def Let_def split: prod.splits) (auto simp: checkpointStatus_def)

lemma checkpointStatus_workloads [simp]: "checkpointStatus (st\<lparr>ms_Workloads := ws\<rparr>) q = checkpointStatus st q"
  by (simp add: checkpointStatus_def)

lemma runOnePhase_completed:
  assumes "runOnePhase env src tgt spec tr n ph st s = (Inr st', s')"
  shows "ms_ID st' = ms_ID st
    \<and> checkpointStatus st' q = (if q = ph then CheckpointCompleted else checkpointStatus st q)"
  using assms(1)
proof (cases rule: runOnePhase_cases)
  case (completed st1 point s3 st2 s4 s5 st3)
  obtain ws where ws: "st2 = st1\<lparr>ms_Workloads := ws\<rparr>" using runPhase_state [OF completed(4)] by blast
  note c = completeCheckpoint_state [OF completed(5)]
  have "ms_ID st' = ms_ID st" using c ws completed(1) setPhase_phase [OF completed(3)] by simp
  moreover have "checkpointStatus st' q = (if q = ph then CheckpointCompleted else checkpointStatus st q)"
    using c(4) ws completed(1) setPhase_state [OF completed(3)] by simp
  ultimately show ?thesis by simp
qed auto

lemma runPhases_completed:
  assumes "runPhases env src tgt spec tr n phs st s = (Inr st', s')"
  shows "ms_ID st' = ms_ID st
    \<and> checkpointStatus st' q = (if q \<in> set phs then CheckpointCompleted else checkpointStatus st q)"
  using assms
proof (induction phs arbitrary: n st s)
  case (Cons ph phs)
  then obtain st1 s1 where one: "runOnePhase env src tgt spec tr n ph st s = (Inr st1, s1)"
    and rest: "runPhases env src tgt spec tr (Suc n) phs st1 s1 = (Inr st', s')"
    by (auto split: prod.splits sum.splits)
  show ?case
    using Cons.IH [OF rest] runOnePhase_completed [OF one] by auto
qed simp

lemma failState_result:
  "failState env st ph err s = (r, s') \<Longrightarrow> snd r = Some err \<and> (\<exists>st'. fst r = Some st' \<and> ms_Phase st' = PhaseFailed
     \<and> ms_Errors st' = ms_Errors st @ [err] \<and> checkpointStatus st' ph = CheckpointFailed)"
  by (auto simp: failState_def nowUTC_def Let_def markCheckpointFailed_def updateCheckpoint_def
      simp flip: markCheckpointFailed_def) (simp add: markCheckpointFailed_def updateCheckpoint_def Let_def)+

lemma runOnePhase_error: "runOnePhase env src tgt spec tr n ph st s = (Inl r, s') \<Longrightarrow> snd r \<noteq> None"
  by (auto simp: runOnePhase_def Let_def split: prod.splits option.splits sum.splits dest: failState_result)

lemma runPhases_error: "runPhases env src tgt spec tr n phs st s = (Inl r, s') \<Longrightarrow> snd r \<noteq> None"
  by (induction phs arbitrary: n st s) (auto split: prod.splits sum.splits dest: runOnePhase_error)

lemma sy_store_emit [simp]: "sy_store (emit env ph vm m n s) = sy_store s"
  by (simp add: emit_def nowUTC_def)

context migration_store
begin

lemma runExecution_success:
  assumes "env_store env = ops" "json_roundtrips env"
    and run: "runExecution env src tgt spec st tr k s = ((Some st', None), s')"
  shows "ms_ID st' = ms_ID st \<and> ms_Phase st' = PhaseComplete \<and> \<not> ms_PendingApproval st'
    \<and> (\<forall>w \<in> set (ms_Workloads st'). wm_Phase w = PhaseComplete)
    \<and> (\<forall>q. checkpointStatus st' q
          = (if q \<in> set (drop k executionPhases) then CheckpointCompleted else checkpointStatus st q))
    \<and> storedState env (ms_ID st') (sy_store s') = Some st'"
proof -
  obtain st1 s1 where ph: "runPhases env src tgt spec tr k (drop k executionPhases) st s = (Inr st1, s1)"
    using run runPhases_error by (fastforce simp: runExecution_def split: prod.splits sum.splits)
  let ?now = "env_now env (sy_hist s1)"
  let ?st2 = "st1\<lparr>ms_Phase := PhaseComplete, ms_PendingApproval := False, ms_UpdatedAt := ?now, ms_CompletedAt := ?now,
                ms_Workloads := map (\<lambda>w. w\<lparr>wm_Phase := PhaseComplete\<rparr>) (ms_Workloads st1)\<rparr>"
  obtain s3 where per: "persistMigrationState env ?st2 (record_call CClock s1) = (None, s3)"
    and st': "st' = ?st2" and s': "sy_store s' = sy_store s3"
    using run ph by (auto simp: runExecution_def nowUTC_def Let_def split: prod.splits option.splits)
  have "storedState env (ms_ID st') (sy_store s') = Some st'"
    using persistState_stored [OF assms(1,2) per] s' st' by simp
  moreover have "checkpointStatus st' q = checkpointStatus st1 q" for q by (simp add: st' checkpointStatus_def)
  ultimately show ?thesis using runPhases_completed [OF ph] by (auto simp: st')
qed

end

text \<open>
  C3 (execute_success): a run of \<open>Execute\<close> on the in-memory store that is no dry run and reports no
  error, with a JSON encoding that decodes to what was encoded, ends in the phase complete with every
  checkpoint and every workload complete, and the state it returns is the state stored under the identifier
  it drew.
\<close>

theorem execute_success:
  fixes env :: "('raw MemoryStore, 'raw) env"
  assumes store: "env_store env = memoryOps" and json: "json_roundtrips env"
    and real: "\<not> opt_DryRun (spec_Options spec)" and run: "Execute env (Some spec) s = ((Some st, None), s')"
  shows "ms_ID st = env_newID env (sy_hist s) \<and> ms_Phase st = PhaseComplete \<and> \<not> ms_PendingApproval st
    \<and> (\<forall>ph \<in> set checkpointPhases. checkpointStatus st ph = CheckpointCompleted)
    \<and> (\<forall>w \<in> set (ms_Workloads st). wm_Phase w = PhaseComplete)
    \<and> storedState env (ms_ID st) (sy_store s') = Some st"
proof -
  obtain src tgt where "executeWith env src tgt spec s = ((Some st, None), s')"
    using run by (auto simp: Execute_def split: option.splits)
  then show ?thesis
  proof (cases rule: executeWith_cases)
    case stopped
    then show ?thesis by simp
  next
    case (planned tr st2 s4 s5 sr now plan)
    let ?s = "emit env PhasePlan [] ''migration plan created'' 10 s5"
    obtain st3 where ready: "validateExecutionReadiness st2 spec (env_now env (sy_hist ?s)) = Inr st3"
      using planned(6) real by (auto simp: executePlanned_def Let_def nowUTC_def refuse_def split: sum.splits prod.splits option.splits)
    obtain s8 where ex: "runExecution env src tgt spec st3 tr 0 s8 = ((Some st, None), s')"
      using planned(6) real ready
      by (auto simp: executePlanned_def Let_def nowUTC_def split: sum.splits prod.splits dest: failState_result)
    have st3: "ms_ID st3 = ms_ID st2" "checkpointStatus st3 q = checkpointStatus st2 q" for q
      using readiness_state [OF ready] by (simp_all add: checkpointStatus_def)
    show ?thesis
      using mem.runExecution_success [OF store json ex] planned(3,5) st3
      by (auto simp: executionPhases_def checkpointPhases_def)
  qed
qed

end
