(* ===== verification/ResumeRollback.thy ===== *)
theory ResumeRollback
  imports OrchestratorProps
begin

text \<open>
  Properties of \<open>Resume\<close> and \<open>Rollback\<close>: what a resumed migration repeats, that finished migrations
  are left alone, what a rollback undoes and reports, and a case it misses.
\<close>

section \<open>Resume\<close>

lemma checkpointStatus_cong: "ms_Checkpoints st = ms_Checkpoints st' \<Longrightarrow> checkpointStatus st q = checkpointStatus st' q"
  by (simp add: checkpointStatus_def)

lemma restoreWorkloads_checkpoints [simp]:
  "ms_Checkpoints (restoreWorkloads env spec sr st) = ms_Checkpoints st"
  by (simp add: restoreWorkloads_def)

text \<open>Restoring missing parts changes no status but that of the plan.\<close>

lemma restore_status:
  assumes "restoreCheckpoints env (restoreWorkloads env spec sr st) s = (st', s')" "q \<noteq> PhasePlan"
  shows "checkpointStatus st' q = checkpointStatus st q"
proof (cases "ms_Checkpoints st = []")
  case True
  then have "completeCheckpoint env ((restoreWorkloads env spec sr st)\<lparr>ms_Checkpoints := initializeCheckpoints\<rparr>)
      PhasePlan ''migration plan restored'' s = (st', s')"
    using assms(1) by (simp add: restoreCheckpoints_def)
  from completeCheckpoint_state(4) [OF this, of q]
  show ?thesis using True assms(2) by (simp add: checkpointStatus_def checkpointStatusIn_init)
next
  case False
  then show ?thesis using assms
    by (auto simp: restoreCheckpoints_def checkpointStatus_def split: if_splits)
qed

lemma restore_adds: "restoreCheckpoints env st s = (st', s') \<Longrightarrow> adds bookkeeping s s'"
  by (auto simp: restoreCheckpoints_def adds_refl dest: completeCheckpoint_adds split: if_splits)

text \<open>
  The phases a resumed migration has left: what follows the completed ones at the front of the
  execution order. The start index of the code picks exactly these.
\<close>

definition resumePhases :: "MigrationState \<Rightarrow> MigrationPhase list" where
  "resumePhases st = dropWhile (\<lambda>ph. checkpointStatus st ph = CheckpointCompleted) executionPhases"

lemma nextPhaseLoop_dropWhile:
  "dropWhile (\<lambda>ph. checkpointStatus st ph = CheckpointCompleted) phs
     = (case nextPhaseLoop st n phs of None \<Rightarrow> [] | Some k \<Rightarrow> drop (k - n) phs)"
proof (induction phs arbitrary: n)
  case (Cons ph phs)
  show ?case
  proof (cases "nextPhaseLoop st (Suc n) phs")
    case None
    then show ?thesis using Cons.IH [of "Suc n"] by (cases "checkpointStatus st ph") simp_all
  next
    case (Some k)
    then have "Suc n \<le> k" by (auto simp: nextPhaseLoop_Some)
    then have "k - n = Suc (k - Suc n)" by simp
    then show ?thesis using Some Cons.IH [of "Suc n"] by (cases "checkpointStatus st ph") simp_all
  qed
qed simp

lemma resumePhases_index:
  "resumePhases st = (case nextPhaseStartIndex st of None \<Rightarrow> [] | Some k \<Rightarrow> drop k executionPhases)"
  using nextPhaseLoop_dropWhile [of st executionPhases 0]
  by (simp add: resumePhases_def nextPhaseStartIndex_def split: option.splits)

lemma nextPhaseStartIndex_cong:
  assumes "\<And>q. q \<in> set executionPhases \<Longrightarrow> checkpointStatus st q = checkpointStatus st' q"
  shows "nextPhaseStartIndex st = nextPhaseStartIndex st'"
proof -
  have "nextPhaseLoop st n phs = nextPhaseLoop st' n phs" if "set phs \<subseteq> set executionPhases" for n phs
    using that assms by (induction phs arbitrary: n) (auto split: CheckpointStatus.splits)
  then show ?thesis by (simp add: nextPhaseStartIndex_def)
qed

lemma resumeReady_trace:
  assumes run: "resumeReady env src tgt spec sr tr st s = (r, s')"
  shows "\<exists>cs. sy_hist s' = sy_hist s @ cs \<and> gated_trace env spec (resumePhases st) (sy_hist s) cs"
proof -
  obtain st1 s1 where res: "restoreCheckpoints env (restoreWorkloads env spec sr st) s = (st1, s1)" by force
  have q1: "adds bookkeeping s s1" by (rule restore_adds [OF res])
  have "\<exists>cs. sy_hist s' = sy_hist s1 @ cs \<and> gated_trace env spec (resumePhases st) (sy_hist s1) cs"
  proof (cases "validateExecutionReadiness st1 spec (env_now env (sy_hist s1))")
    case (Inl err)
    then have "refuse env ''resume migration: %w'' spec st1 err (record_call CClock s1) = (r, s')"
      using run res by (simp add: resumeReady_def nowUTC_def)
    then show ?thesis by (rule gated_bookkeeping [OF adds_clock [OF refuse_adds]])
  next
    case (Inr st2)
    note ready = readiness_state [OF Inr]
    have "checkpointStatus st2 q = checkpointStatus st q" if "q \<in> set executionPhases" for q
    proof -
      have "q \<noteq> PhasePlan" using that by (auto simp: executionPhases_def)
      from restore_status [OF res this] show ?thesis using ready by (simp add: checkpointStatus_def)
    qed
    then have idx: "nextPhaseStartIndex st2 = nextPhaseStartIndex st" by (rule nextPhaseStartIndex_cong)
    show ?thesis
    proof (cases "nextPhaseStartIndex st2")
      case None
      then have "adds bookkeeping (record_call CClock (record_call CClock s1)) s'"
        using run res Inr by (auto simp: resumeReady_def nowUTC_def Let_def split: prod.splits option.splits
            dest!: adds_persist [where P = bookkeeping])
      then show ?thesis by (rule gated_bookkeeping [OF adds_clock [OF adds_clock]])
    next
      case (Some k)
      then have ex: "runExecution env src tgt spec st2 tr k (record_call CClock s1) = (r, s')"
        using run res Inr by (simp add: resumeReady_def nowUTC_def)
      show ?thesis
        using runExecution_trace [OF ex] Some idx
        by (intro gated_open [OF conjunct1 [OF ready] adds_refl]) (simp add: resumePhases_index)
    qed
  qed
  then show ?thesis by (rule gated_after [OF q1])
qed

lemma resumePhases_plan [simp]: "resumePhases (st\<lparr>ms_Plan := p\<rparr>) = resumePhases st"
  by (simp add: resumePhases_def checkpointStatus_def)

text \<open>A resumed run that reports no error has every phase behind it.\<close>

lemma runExecution_phases:
  assumes run: "runExecution env src tgt spec st tr k s = ((Some st', None), s')"
  shows "ms_Phase st' = PhaseComplete \<and> checkpointStatus st' q
    = (if q \<in> set (drop k executionPhases) then CheckpointCompleted else checkpointStatus st q)"
proof -
  obtain st1 s1 where ph: "runPhases env src tgt spec tr k (drop k executionPhases) st s = (Inr st1, s1)"
    using run runPhases_error by (fastforce simp: runExecution_def split: prod.splits sum.splits)
  have "ms_Phase st' = PhaseComplete \<and> checkpointStatus st' q = checkpointStatus st1 q"
    using run ph by (auto simp: runExecution_def nowUTC_def Let_def checkpointStatus_def split: prod.splits option.splits)
  then show ?thesis using runPhases_completed [OF ph] by simp
qed

lemma resumeReady_success:
  assumes run: "resumeReady env src tgt spec sr tr st s = ((Some st', None), s')" and q: "q \<in> set executionPhases"
  shows "ms_Phase st' = PhaseComplete \<and> checkpointStatus st' q = CheckpointCompleted"
proof -
  obtain st1 s1 where res: "restoreCheckpoints env (restoreWorkloads env spec sr st) s = (st1, s1)" by force
  obtain st2 where ready: "validateExecutionReadiness st1 spec (env_now env (sy_hist s1)) = Inr st2"
    using run res by (auto simp: resumeReady_def nowUTC_def refuse_def Let_def split: sum.splits prod.splits option.splits)
  show ?thesis
  proof (cases "nextPhaseStartIndex st2")
    case None
    then have "checkpointStatus st2 q = CheckpointCompleted"
      using q by (auto simp: nextPhaseStartIndex_def executionPhases_def split: CheckpointStatus.splits if_splits)
    then show ?thesis
      using run res ready None by (auto simp: resumeReady_def nowUTC_def Let_def checkpointStatus_def split: prod.splits option.splits)
  next
    case (Some k)
    then have ex: "runExecution env src tgt spec st2 tr k (record_call CClock s1) = ((Some st', None), s')"
      using run res ready by (simp add: resumeReady_def nowUTC_def)
    have "checkpointStatus st2 q = CheckpointCompleted" if "q \<notin> set (drop k executionPhases)"
    proof -
      have "q \<in> set (take k executionPhases)" using q that by (metis Un_iff append_take_drop_id set_append)
      then show ?thesis using Some by (auto simp: in_set_conv_nth nextPhaseStartIndex_def nextPhaseLoop_Some)
    qed
    then show ?thesis using runExecution_phases [OF ex, of q] by (auto split: if_splits)
  qed
qed

lemma resumeStored_success:
  assumes run: "resumeStored env src tgt spec st s = ((Some st', None), s')" and q: "q \<in> set executionPhases"
  shows "ms_Phase st' = PhaseComplete \<and> checkpointStatus st' q = CheckpointCompleted"
  using run by (auto simp: resumeStored_def nowUTC_def split: prod.splits sum.splits option.splits
      dest: failState_result resumeReady_success [OF _ q])

lemma resumeStored_trace:
  assumes run: "resumeStored env src tgt spec st s = (r, s')"
  shows "\<exists>cs. sy_hist s' = sy_hist s @ cs \<and> gated_trace env spec (resumePhases st) (sy_hist s) cs"
proof -
  obtain inv s2 where disc: "discoverInventories src tgt s = (inv, s2)" by force
  have q2: "adds bookkeeping s s2" by (rule discoverInventories_adds [OF disc])
  have q3: "adds bookkeeping s (record_call CClock s2)" by (rule adds_trans [OF q2 adds_record]) simp
  have fail: "\<exists>cs. sy_hist s' = sy_hist s @ cs \<and> gated_trace env spec (resumePhases st) (sy_hist s) cs"
    if "failState env st ph err s3 = (r, s')" "adds bookkeeping s s3" for ph err s3
    by (rule gated_bookkeeping [OF adds_trans [OF that(2) failState_adds [OF that(1)]]])
  show ?thesis
  proof (cases inv)
    case (Inl err)
    then show ?thesis using run disc q2 by (intro fail) (simp_all add: resumeStored_def)
  next
    case (Inr x)
    obtain sr tr where x: "x = (sr, tr)" by force
    show ?thesis
    proof (cases "ms_Plan st")
      case (Some p)
      then have "resumeReady env src tgt spec sr tr st s2 = (r, s')"
        using run disc Inr x by (simp add: resumeStored_def)
      then show ?thesis by (rule gated_after [OF q2 resumeReady_trace])
    next
      case None
      show ?thesis
      proof (cases "BuildExecutionPlan (env_patterns env) (env_sort env) (env_now env (sy_hist s2)) (Some spec) (dr_VMs sr)")
        case (Inl err)
        then show ?thesis
          using run disc Inr x None q3 by (intro fail) (simp_all add: resumeStored_def nowUTC_def)
      next
        case plan: (Inr plan)
        then have "resumeReady env src tgt spec sr tr (st\<lparr>ms_Plan := Some plan\<rparr>) (record_call CClock s2) = (r, s')"
          using run disc Inr x None by (simp add: resumeStored_def nowUTC_def)
        from resumeReady_trace [OF this] show ?thesis using gated_after [OF q3] by simp
      qed
    qed
  qed
qed

text \<open>
  C4 (resume_no_repeat): resuming a stored migration touches no machine before the gate opens, and then
  runs, in order and each behind its recovery point, only the phases that are left once the completed
  ones at the front of the execution order are taken away: no phase in front of the first one without a
  completed checkpoint is run again, and that one is the first to run. A resumption of a migration that
  is not complete reports no error only with every phase completed.
\<close>

theorem resume_no_repeat:
  assumes run: "Resume env m (Some spec) s = (r, s')" and load: "loadMigrationState env m s = (Inr st, s1)"
  shows "(\<exists>cs. sy_hist s' = sy_hist s @ cs
      \<and> gated_trace env spec (dropWhile (\<lambda>ph. checkpointStatus st ph = CheckpointCompleted) executionPhases) (sy_hist s) cs)
    \<and> (ms_Phase st \<noteq> PhaseComplete \<longrightarrow> (\<forall>st'. r = (Some st', None) \<longrightarrow> ms_Phase st' = PhaseComplete
         \<and> (\<forall>ph \<in> set executionPhases. checkpointStatus st' ph = CheckpointCompleted)))"
proof -
  have l: "adds bookkeeping s s1"
    using load by (auto simp: loadMigrationState_def Let_def adds_def split: prod.splits sum.splits)
  have trace: "\<exists>cs. sy_hist s' = sy_hist s @ cs \<and> gated_trace env spec (resumePhases st) (sy_hist s) cs"
  proof (cases "s' = s \<or> s' = s1")
    case True
    then have "adds bookkeeping s s'" using l adds_refl by blast
    then show ?thesis by (rule gated_bookkeeping)
  next
    case False
    then obtain src tgt where "resumeStored env src tgt spec st s1 = (r, s')"
      using run load by (auto simp: Resume_def split: if_splits option.splits prod.splits)
    then show ?thesis by (rule gated_after [OF l resumeStored_trace])
  qed
  have "ms_Phase st' = PhaseComplete \<and> checkpointStatus st' ph = CheckpointCompleted"
    if ok: "ms_Phase st \<noteq> PhaseComplete" "r = (Some st', None)" and ph: "ph \<in> set executionPhases" for st' ph
  proof -
    obtain src tgt where "resumeStored env src tgt spec st s1 = ((Some st', None), s')"
      using run load ok by (auto simp: Resume_def split: if_splits option.splits prod.splits)
    then show ?thesis using ph by (rule resumeStored_success)
  qed
  moreover have "PhaseExport \<in> set executionPhases" by (simp add: executionPhases_def)
  ultimately show ?thesis using trace [unfolded resumePhases_def] by (intro conjI) auto
qed

text \<open>
  Resuming a completed migration returns the stored state and does nothing else, and
  a migration that was rolled back cannot be resumed.
\<close>

theorem resume_final:
  assumes "TrimSpace m \<noteq> []" "env_source env = Some src" "env_target env = Some tgt"
    and load: "loadMigrationState env m s = (Inr st, s1)"
  shows "(ms_Phase st = PhaseComplete \<longrightarrow> Resume env m (Some spec) s = ((Some st, None), s1))
    \<and> (ms_Phase st = PhaseRolledBack \<longrightarrow>
         Resume env m (Some spec) s
           = ((None, Some (Errorf ''resume migration: migration %s has already been rolled back'' [m])), s1))
    \<and> sy_hist s1 = sy_hist s @ [CGetState m]"
proof -
  have "sy_hist s1 = sy_hist s @ [CGetState m]"
    using load by (auto simp: loadMigrationState_def Let_def split: prod.splits sum.splits)
  then show ?thesis using assms by (simp add: Resume_def)
qed

section \<open>Rollback\<close>

lemma cleanupLoop_hist: "cleanupLoop act mk skip xs s = (r, s') \<Longrightarrow> sy_hist s' = sy_hist s @ map mk xs"
  by (induction xs arbitrary: s r s') (auto split: prod.splits option.splits if_splits)

text \<open>
  What is answered to a sequence of calls made one after the other from the history \<open>h\<close>: the answer to
  the i-th call depends on the history and the calls before it.
\<close>

definition answers :: "(call list \<Rightarrow> 'a \<Rightarrow> goerror option) \<Rightarrow> ('a \<Rightarrow> call) \<Rightarrow> call list \<Rightarrow> 'a list \<Rightarrow> goerror option list" where
  "answers act mk h xs = map (\<lambda>i. act (h @ map mk (take i xs)) (xs ! i)) [0..<length xs]"

definition failures :: "goerror option list \<Rightarrow> goerror list" where
  "failures rs = map the (filter (\<lambda>r. r \<noteq> None) rs)"

definition successes :: "goerror option list \<Rightarrow> nat" where
  "successes rs = length (filter (\<lambda>r. r = None) rs)"

lemma answers_Nil [simp]: "answers act mk h [] = []"
  by (simp add: answers_def)

lemma answers_Cons [simp]: "answers act mk h (x # xs) = act h x # answers act mk (h @ [mk x]) xs"
  unfolding answers_def length_Cons map_upt_Suc by simp

lemma failures_simps [simp]:
  "failures [] = []" "failures (None # rs) = failures rs" "failures (Some e # rs) = e # failures rs"
  "successes [] = 0" "successes (None # rs) = Suc (successes rs)" "successes (Some e # rs) = successes rs"
  by (simp_all add: failures_def successes_def)

text \<open>The loop reports the failures that are not passed over and counts the calls that succeeded.\<close>

lemma cleanupLoop_result:
  "fst (cleanupLoop act mk skip xs s)
     = (successes (answers act mk (sy_hist s) xs), filter (\<lambda>e. \<not> skip e) (failures (answers act mk (sy_hist s) xs)))"
  by (induction xs arbitrary: s) (auto split: prod.splits option.splits simp: prod_eq_iff)

lemma cleanupLoop_store: "cleanupLoop act mk skip xs s = (r, s') \<Longrightarrow> sy_store s' = sy_store s"
  by (induction xs arbitrary: s r s') (auto split: prod.splits option.splits if_splits)

text \<open>The calls a rollback makes on the connectors and the file system, in order.\<close>

definition targetOffCalls :: "Connector \<Rightarrow> RecoveryPoint \<Rightarrow> call list" where
  "targetOffCalls tgt point = (if con_power tgt = None then [] else map (CPowerOff Target) (rp_TargetVMs point))"

definition removeCalls :: "Connector \<Rightarrow> RecoveryPoint \<Rightarrow> call list" where
  "removeCalls tgt point = (if con_remover tgt = None then [] else map CRemoveVM (rp_TargetVMs point))"

definition restoreCall :: "VMRecoveryInfo \<Rightarrow> call" where
  "restoreCall i = CRestorePower Source (vm_ID (vr_VM i)) (vr_OriginalPowerState i)"

definition rollbackCalls :: "Connector \<Rightarrow> Connector \<Rightarrow> RecoveryPoint \<Rightarrow> call list" where
  "rollbackCalls src tgt point =
     targetOffCalls tgt point @ removeCalls tgt point @ map CRemoveFile (rp_ConvertedFiles point)
     @ (if con_power src = None then [] else map restoreCall (rp_SourceVMs point))"

text \<open>What is answered to each group of these calls, made in this order from the history \<open>h\<close>.\<close>

definition powerOffAnswers :: "Connector \<Rightarrow> RecoveryPoint \<Rightarrow> call list \<Rightarrow> goerror option list" where
  "powerOffAnswers tgt point h = (case con_power tgt of None \<Rightarrow> []
     | Some pc \<Rightarrow> answers (pc_PowerOffVM pc) (CPowerOff Target) h (rp_TargetVMs point))"

definition removeAnswers :: "Connector \<Rightarrow> RecoveryPoint \<Rightarrow> call list \<Rightarrow> goerror option list" where
  "removeAnswers tgt point h = (case con_remover tgt of None \<Rightarrow> []
     | Some remove \<Rightarrow> answers remove CRemoveVM (h @ targetOffCalls tgt point) (rp_TargetVMs point))"

definition fileAnswers :: "('st, 'raw) env \<Rightarrow> Connector \<Rightarrow> RecoveryPoint \<Rightarrow> call list \<Rightarrow> goerror option list" where
  "fileAnswers env tgt point h =
     answers (env_removeFile env) CRemoveFile (h @ targetOffCalls tgt point @ removeCalls tgt point) (rp_ConvertedFiles point)"

definition restoreAnswers :: "Connector \<Rightarrow> Connector \<Rightarrow> RecoveryPoint \<Rightarrow> call list \<Rightarrow> goerror option list" where
  "restoreAnswers src tgt point h = (case con_power src of None \<Rightarrow> []
     | Some pc \<Rightarrow>
         answers (\<lambda>h i. pc_RestoreVMPowerState pc h (vm_ID (vr_VM i)) (vr_OriginalPowerState i)) restoreCall
           (h @ targetOffCalls tgt point @ removeCalls tgt point @ map CRemoveFile (rp_ConvertedFiles point))
           (rp_SourceVMs point))"

text \<open>Every failure of a rollback, in order; a file that is already gone is none.\<close>

definition rollbackFailures :: "('st, 'raw) env \<Rightarrow> Connector \<Rightarrow> Connector \<Rightarrow> RecoveryPoint \<Rightarrow> call list \<Rightarrow> goerror list" where
  "rollbackFailures env src tgt point h =
     failures (powerOffAnswers tgt point h) @ failures (removeAnswers tgt point h)
     @ filter (\<lambda>e. \<not> env_isNotExist env e) (failures (fileAnswers env tgt point h))
     @ failures (restoreAnswers src tgt point h)"

lemma cleanupLoop_run:
  assumes "cleanupLoop act mk skip xs s = ((n, errs), s')"
  shows "n = successes (answers act mk (sy_hist s) xs)"
    "errs = filter (\<lambda>e. \<not> skip e) (failures (answers act mk (sy_hist s) xs))" "sy_hist s' = sy_hist s @ map mk xs"
  using cleanupLoop_result [of act mk skip xs s] cleanupLoop_hist [OF assms] assms by simp_all

lemma powerOffTargets_run:
  assumes "powerOffTargets tgt (rp_TargetVMs point) s = ((n, errs), s')"
  shows "errs = failures (powerOffAnswers tgt point (sy_hist s)) \<and> sy_hist s' = sy_hist s @ targetOffCalls tgt point"
  using assms by (auto simp: powerOffTargets_def targetOffCalls_def powerOffAnswers_def split: option.splits dest: cleanupLoop_run)

lemma removeTargets_run:
  assumes "removeTargets tgt (rp_TargetVMs point) s = ((n, errs), s')" and "sy_hist s = h @ targetOffCalls tgt point"
  shows "n = successes (removeAnswers tgt point h) \<and> errs = failures (removeAnswers tgt point h)
    \<and> sy_hist s' = sy_hist s @ removeCalls tgt point"
  using assms by (auto simp: removeTargets_def removeCalls_def removeAnswers_def split: option.splits dest: cleanupLoop_run)

lemma restoreSources_run:
  assumes "restoreSources src (rp_SourceVMs point) s = ((n, errs), s')"
    and "sy_hist s = h @ targetOffCalls tgt point @ removeCalls tgt point @ map CRemoveFile (rp_ConvertedFiles point)"
  shows "n = successes (restoreAnswers src tgt point h) \<and> errs = failures (restoreAnswers src tgt point h)
    \<and> sy_hist s' = sy_hist s @ (if con_power src = None then [] else map restoreCall (rp_SourceVMs point))"
proof -
  have "(\<lambda>i. CRestorePower Source (vm_ID (vr_VM i)) (vr_OriginalPowerState i)) = restoreCall"
    by (simp add: fun_eq_iff restoreCall_def)
  then show ?thesis
    using assms by (auto simp: restoreSources_def restoreAnswers_def split: option.splits dest: cleanupLoop_run)
qed

context migration_store
begin

lemma rollbackFinish_result:
  assumes "env_store env = ops" "json_roundtrips env"
    and "rollbackFinish env t0 st res s = ((Some res', e), s')"
  shows "(\<exists>st'. storedState env (ms_ID st) (sy_store s') = Some st'
        \<and> ms_Phase st' = (if rb_Errors res = [] then PhaseRolledBack else PhaseFailed)
        \<and> ms_Errors st' = ms_Errors st @ map (\<lambda>e. Wrap ''rollback: %s'' [] e) (rb_Errors res))
    \<and> (e = None \<longleftrightarrow> rb_Errors res = []) \<and> (\<exists>d. res' = res\<lparr>rb_Duration := d\<rparr>) \<and> adds bookkeeping s s'"
proof -
  let ?st1 = "st\<lparr>ms_UpdatedAt := env_now env (sy_hist s), ms_CompletedAt := env_now env (sy_hist s)\<rparr>"
  let ?st2 = "if length (rb_Errors res) > 0
              then ?st1\<lparr>ms_Phase := PhaseFailed,
                     ms_Errors := ms_Errors ?st1 @ map (\<lambda>e. Wrap ''rollback: %s'' [] e) (rb_Errors res)\<rparr>
              else ?st1\<lparr>ms_Phase := PhaseRolledBack\<rparr>"
  obtain s2 where per: "persistMigrationState env ?st2 (record_call CClock s) = (None, s2)"
    and s': "s' = record_call CClock s2"
    and r: "res' = res\<lparr>rb_Duration := env_now env (sy_hist s2) - t0\<rparr>" "e = None \<longleftrightarrow> rb_Errors res = []"
    using assms(3) by (auto simp: rollbackFinish_def nowUTC_def Let_def split: prod.splits option.splits if_splits)
  have "storedState env (ms_ID ?st2) (sy_store s') = Some ?st2"
    using persistState_stored [OF assms(1,2) per] s' by simp
  then have "\<exists>st'. storedState env (ms_ID st) (sy_store s') = Some st'
      \<and> ms_Phase st' = (if rb_Errors res = [] then PhaseRolledBack else PhaseFailed)
      \<and> ms_Errors st' = ms_Errors st @ map (\<lambda>e. Wrap ''rollback: %s'' [] e) (rb_Errors res)"
    by (intro exI [of _ ?st2]) (auto split: if_splits)
  moreover have "adds bookkeeping s s'"
    unfolding s' by (rule adds_clock [OF adds_trans [OF adds_persist [OF per] adds_record]]) simp_all
  ultimately show ?thesis using r by blast
qed

end

lemma rollback_run:
  fixes env :: "('raw MemoryStore, 'raw) env"
  assumes store: "env_store env = memoryOps" and json: "json_roundtrips env"
    and point: "loadRecoveryPoint env m (record_call CClock s) = (Inr point, s1)"
    and state: "loadMigrationState env m s1 = (Inr st, s2)"
    and run: "Rollback env src tgt m s = ((Some res, e), s')"
  shows "(\<exists>cs. sy_hist s' = sy_hist s2 @ rollbackCalls src tgt point @ cs \<and> list_all bookkeeping cs)
    \<and> rb_Errors res = rollbackFailures env src tgt point (sy_hist s2)
    \<and> (e = None \<longleftrightarrow> rollbackFailures env src tgt point (sy_hist s2) = [])
    \<and> rb_TargetVMsRemoved res = successes (removeAnswers tgt point (sy_hist s2))
    \<and> rb_FilesCleanedUp res = successes (fileAnswers env tgt point (sy_hist s2))
    \<and> rb_SourceVMsRestored res = successes (restoreAnswers src tgt point (sy_hist s2))
    \<and> (\<exists>st'. storedState env (ms_ID st) (sy_store s') = Some st'
           \<and> ms_Phase st' = (if rollbackFailures env src tgt point (sy_hist s2) = [] then PhaseRolledBack else PhaseFailed)
           \<and> ms_Errors st' = ms_Errors st
                @ map (\<lambda>e. Wrap ''rollback: %s'' [] e) (rollbackFailures env src tgt point (sy_hist s2)))"
proof -
  obtain n1 errs1 s3 where a: "powerOffTargets tgt (rp_TargetVMs point) s2 = ((n1, errs1), s3)" by (metis prod.collapse)
  obtain n2 errs2 s4 where b: "removeTargets tgt (rp_TargetVMs point) s3 = ((n2, errs2), s4)" by (metis prod.collapse)
  obtain n3 errs3 s5 where c: "cleanupLoop (env_removeFile env) CRemoveFile (env_isNotExist env) (rp_ConvertedFiles point) s4
      = ((n3, errs3), s5)" by (metis prod.collapse)
  obtain n4 errs4 s6 where d: "restoreSources src (rp_SourceVMs point) s5 = ((n4, errs4), s6)" by (metis prod.collapse)
  let ?res = "\<lparr>rb_MigrationID = m, rb_TargetVMsRemoved = n2, rb_FilesCleanedUp = n3, rb_SourceVMsRestored = n4,
      rb_Errors = errs1 @ errs2 @ errs3 @ errs4, rb_Duration = 0\<rparr>"
  have fin: "rollbackFinish env (env_now env (sy_hist s)) st ?res s6 = ((Some res, e), s')"
    using run point state a b c d by (simp add: Rollback_def nowUTC_def)
  note A = powerOffTargets_run [OF a]
  note B = removeTargets_run [OF b conjunct2 [OF A]]
  note C = cleanupLoop_run [OF c]
  have h5: "sy_hist s5 = sy_hist s2 @ targetOffCalls tgt point @ removeCalls tgt point @ map CRemoveFile (rp_ConvertedFiles point)"
    using A B C(3) by simp
  note D = restoreSources_run [OF d h5]
  have errs: "rb_Errors ?res = rollbackFailures env src tgt point (sy_hist s2)"
    using A B C D by (simp add: rollbackFailures_def fileAnswers_def)
  have files: "n3 = successes (fileAnswers env tgt point (sy_hist s2))" using A B C by (simp add: fileAnswers_def)
  note f = mem.rollbackFinish_result [OF store json fin, unfolded errs]
  obtain cs where cs: "sy_hist s' = sy_hist s6 @ cs" "list_all bookkeeping cs" using f adds_hist_obtain by blast
  have hist: "sy_hist s6 = sy_hist s2 @ rollbackCalls src tgt point" using D h5 by (simp add: rollbackCalls_def)
  have "rb_Errors res = rb_Errors ?res \<and> rb_TargetVMsRemoved res = n2 \<and> rb_FilesCleanedUp res = n3
      \<and> rb_SourceVMsRestored res = n4" using f by auto
  with f cs hist errs files B D show ?thesis by auto
qed

text \<open>
  C5 (rollback_effect): a rollback on the in-memory store that returns a result has asked, in order, to
  power off and remove every target machine of the recovery point, to delete every converted file and to
  restore the power state of every source machine, as far as the connectors can do this. Its errors are
  exactly the errors answered to these calls, in their order, except for files that do not exist; its
  counts are the numbers of removals, deletions and restorations that succeeded. It reports an error
  exactly when there is one of them; the stored migration is then failed, otherwise rolled back, and the
  errors are appended to those it had.
\<close>

theorem rollback_effect:
  fixes env :: "('raw MemoryStore, 'raw) env"
  assumes store: "env_store env = memoryOps" and json: "json_roundtrips env"
    and point: "loadRecoveryPoint env m (record_call CClock s) = (Inr point, s1)"
    and state: "loadMigrationState env m s1 = (Inr st, s2)"
    and run: "Rollback env src tgt m s = ((Some res, e), s')"
  shows "(\<exists>cs. sy_hist s' = sy_hist s2 @ rollbackCalls src tgt point @ cs \<and> list_all bookkeeping cs)
    \<and> rb_Errors res = rollbackFailures env src tgt point (sy_hist s2)
    \<and> (e = None \<longleftrightarrow> rollbackFailures env src tgt point (sy_hist s2) = [])
    \<and> rb_TargetVMsRemoved res = successes (removeAnswers tgt point (sy_hist s2))
    \<and> rb_FilesCleanedUp res = successes (fileAnswers env tgt point (sy_hist s2))
    \<and> rb_SourceVMsRestored res = successes (restoreAnswers src tgt point (sy_hist s2))
    \<and> (\<exists>st'. storedState env (ms_ID st) (sy_store s') = Some st'
           \<and> ms_Phase st' = (if rollbackFailures env src tgt point (sy_hist s2) = [] then PhaseRolledBack else PhaseFailed)
           \<and> ms_Errors st' = ms_Errors st
                @ map (\<lambda>e. Wrap ''rollback: %s'' [] e) (rollbackFailures env src tgt point (sy_hist s2)))"
  by (rule rollback_run [OF assms])

text \<open>
  C29 (rollback_leaves_unlisted): a rollback on the in-memory store acts on the stored recovery point alone: a target machine
  that the stored migration names and the recovery point does not, as after an import that failed at a later
  machine, is neither powered off nor removed; and when none of the calls for the recovery point fails, the rollback
  reports success and the migration is stored as rolled back while that machine is left in place.
\<close>

theorem rollback_leaves_unlisted:
  fixes env :: "('raw MemoryStore, 'raw) env"
  assumes store: "env_store env = memoryOps" and json: "json_roundtrips env"
    and point: "loadRecoveryPoint env m (record_call CClock s) = (Inr point, s1)"
    and state: "loadMigrationState env m s1 = (Inr st, s2)"
    and named: "v \<in> wm_TargetVMID ` set (ms_Workloads st)" "v \<noteq> []" and unlisted: "v \<notin> set (rp_TargetVMs point)"
    and run: "Rollback env src tgt m s = ((Some res, e), s')"
  shows "\<exists>cs. sy_hist s' = sy_hist s @ cs \<and> CRemoveVM v \<notin> set cs \<and> CPowerOff Target v \<notin> set cs
    \<and> (rollbackFailures env src tgt point (sy_hist s2) = [] \<longrightarrow> e = None
         \<and> (\<exists>st'. storedState env (ms_ID st) (sy_store s') = Some st' \<and> ms_Phase st' = PhaseRolledBack))"
proof -
  note effect = rollback_run [OF store json point state run]
  obtain cs where cs: "sy_hist s' = sy_hist s2 @ rollbackCalls src tgt point @ cs" "list_all bookkeeping cs"
    using effect by blast
  have "\<exists>d. sy_hist s2 = sy_hist s @ d \<and> list_all bookkeeping d"
    using point state by (auto simp: loadRecoveryPoint_def loadMigrationState_def Let_def split: prod.splits sum.splits)
  then obtain d where d: "sy_hist s2 = sy_hist s @ d" "list_all bookkeeping d" by blast
  have quiet: "CRemoveVM v \<notin> set c \<and> CPowerOff Target v \<notin> set c" if "list_all bookkeeping c" for c
    using that by (auto simp: list_all_iff)
  have "CRemoveVM v \<notin> set (rollbackCalls src tgt point) \<and> CPowerOff Target v \<notin> set (rollbackCalls src tgt point)"
    using unlisted by (auto simp: rollbackCalls_def targetOffCalls_def removeCalls_def restoreCall_def)
  then show ?thesis
    using effect cs d quiet [OF cs(2)] quiet [OF d(2)] by (intro exI [of _ "d @ rollbackCalls src tgt point @ cs"]) auto
qed

end
