(* ===== verification/Scenario.thy ===== *)
theory Scenario
  imports ResumeRollback
begin

text \<open>
  A small concrete installation on which the models are run: two machines, a specification that selects
  both, a source and a target connector, and the in-memory store with states and recovery points as its
  payloads. The parameter \<open>bad\<close> is the name of a machine the target refuses to create.
\<close>

definition demoVM :: "string \<Rightarrow> string \<Rightarrow> VirtualMachine" where
  "demoVM i name = zeroVM\<lparr>vm_ID := i, vm_Name := name, vm_Platform := PlatformVMware, vm_PowerState := PowerOn\<rparr>"

definition demoVMs :: "VirtualMachine list" where
  "demoVMs = [demoVM ''vm-1'' ''web'', demoVM ''vm-2'' ''db'']"

definition demoLib :: patternLib where
  "demoLib = \<lparr>regexpCompile = (\<lambda>p. Inr (\<lambda>n. n = p)), filepathMatch = (\<lambda>pattern name. Inr (pattern = ''*'' \<or> pattern = name))\<rparr>"

definition demoSelector :: "string \<Rightarrow> string list \<Rightarrow> WorkloadSelector" where
  "demoSelector pattern deps =
     \<lparr>ws_Match = \<lparr>mc_NamePattern = pattern, mc_Tags = [], mc_Folder = [], mc_PowerState = [], mc_Exclude = []\<rparr>,
      ws_Overrides = emptyOverrides\<lparr>wo_Dependencies := deps\<rparr>\<rparr>"

definition demoSpec :: MigrationSpec where
  "demoSpec =
     \<lparr>spec_Name = ''demo'',
      spec_Source = \<lparr>src_Address = ''vc'', src_Platform = PlatformVMware, src_CredentialRef = []\<rparr>,
      spec_Target = \<lparr>tgt_Address = ''pve'', tgt_Platform = PlatformProxmox, tgt_CredentialRef = [],
                     tgt_DefaultHost = ''h'', tgt_DefaultStorage = ''s''\<rparr>,
      spec_Workloads = [demoSelector ''*'' [], demoSelector ''web'' [''db'']],
      spec_Options = \<lparr>opt_DryRun = False, opt_Parallel = 1, opt_ShutdownSource = True, opt_RemoveSource = False,
                      opt_VerifyBoot = True, opt_Window = \<lparr>win_NotBefore = 0, win_NotAfter = 0\<rparr>,
                      opt_Approval = \<lparr>ag_Required = False, ag_ApprovedBy = [], ag_ApprovedAt = 0, ag_Ticket = []\<rparr>,
                      opt_Waves = \<lparr>wv_Size = 1, wv_DependencyAware = True\<rparr>\<rparr>\<rparr>"

definition demoPower :: vmPowerController where
  "demoPower = \<lparr>pc_PowerOffVM = (\<lambda>_ _. None), pc_PowerOnVM = (\<lambda>_ _. None), pc_RestoreVMPowerState = (\<lambda>_ _ _. None)\<rparr>"

definition demoSource :: Connector where
  "demoSource = \<lparr>con_Connect = (\<lambda>_. None), con_Discover = (\<lambda>_. Inr (zeroDR\<lparr>dr_VMs := demoVMs\<rparr>)),
     con_power = Some demoPower, con_exporter = None, con_importer = None, con_networks = None,
     con_verifier = None, con_remover = None, con_snapshotter = None\<rparr>"

definition demoTarget :: "string \<Rightarrow> Connector" where
  "demoTarget bad = \<lparr>con_Connect = (\<lambda>_. None), con_Discover = (\<lambda>_. Inr zeroDR), con_power = Some demoPower,
     con_exporter = None,
     con_importer = Some (\<lambda>_ vm disks host storage.
        if vm_Name vm = bad then Inl (Errorf ''no capacity'' []) else Inr (''t-'' @ vm_ID vm)),
     con_networks = None, con_verifier = None, con_remover = Some (\<lambda>_ _. None), con_snapshotter = None\<rparr>"

type_synonym demoRaw = "MigrationState + RecoveryPoint"

definition demoEnv :: "string \<Rightarrow> (demoRaw MemoryStore, demoRaw) env" where
  "demoEnv bad = \<lparr>env_source = Some demoSource, env_target = Some (demoTarget bad), env_store = memoryOps,
     env_onEvent = False, env_convertDisk = (\<lambda>_ req. Inr (cr_TargetPath req)), env_newID = (\<lambda>_. ''m1''),
     env_now = (\<lambda>_. 1000), env_ctxErr = (\<lambda>_. None), env_tenant = None, env_removeFile = (\<lambda>_ _. None),
     env_isNotExist = (\<lambda>_. False), env_marshalState = (\<lambda>st. Inr (Inl st)),
     env_unmarshalState = (\<lambda>x. case x of Inl st \<Rightarrow> Inr st | Inr _ \<Rightarrow> Inl (Errorf ''not a state'' [])),
     env_marshalPoint = (\<lambda>p. Inr (Inr p)),
     env_unmarshalPoint = (\<lambda>x. case x of Inr p \<Rightarrow> Inr p | Inl _ \<Rightarrow> Inl (Errorf ''not a recovery point'' [])),
     env_patterns = demoLib, env_sort = stable_perm\<rparr>"

definition demoSys :: "demoRaw MemoryStore sys" where
  "demoSys = \<lparr>sy_hist = [], sy_store = NewMemoryStore\<rparr>"

lemma demo_json: "json_roundtrips (demoEnv bad)"
  by (simp add: json_roundtrips_def demoEnv_def)

lemma demo_store: "env_store (demoEnv bad) = memoryOps"
  by (simp add: demoEnv_def)

section \<open>Running the installation\<close>

lemma demoEnv_simps [simp]:
  "env_source (demoEnv b) = Some demoSource" "env_target (demoEnv b) = Some (demoTarget b)"
  "env_onEvent (demoEnv b) = False" "env_convertDisk (demoEnv b) h req = Inr (cr_TargetPath req)"
  "env_newID (demoEnv b) h = ''m1''" "env_now (demoEnv b) h = 1000" "env_ctxErr (demoEnv b) h = None"
  "env_tenant (demoEnv b) = None" "env_removeFile (demoEnv b) h f = None"
  "env_marshalState (demoEnv b) st = Inr (Inl st)" "env_unmarshalState (demoEnv b) (Inl st) = Inr st"
  "env_marshalPoint (demoEnv b) p = Inr (Inr p)" "env_unmarshalPoint (demoEnv b) (Inr p) = Inr p"
  "env_patterns (demoEnv b) = demoLib" "env_sort (demoEnv b) = stable_perm"
  by (simp_all add: demoEnv_def)

lemma demoSource_simps [simp]:
  "con_Connect demoSource h = None" "con_Discover demoSource h = Inr (zeroDR\<lparr>dr_VMs := demoVMs\<rparr>)"
  "con_power demoSource = Some demoPower" "con_exporter demoSource = None" "con_snapshotter demoSource = None"
  by (simp_all add: demoSource_def)

lemma demoTarget_simps [simp]:
  "con_Connect (demoTarget b) h = None" "con_Discover (demoTarget b) h = Inr zeroDR"
  "con_power (demoTarget b) = Some demoPower"
  "con_importer (demoTarget b) = Some (\<lambda>_ vm disks host storage.
        if vm_Name vm = b then Inl (Errorf ''no capacity'' []) else Inr (''t-'' @ vm_ID vm))"
  "con_networks (demoTarget b) = None" "con_verifier (demoTarget b) = None" "con_remover (demoTarget b) = Some (\<lambda>_ _. None)"
  by (simp_all add: demoTarget_def)

lemma demoPower_simps [simp]:
  "pc_PowerOffVM demoPower h v = None" "pc_PowerOnVM demoPower h v = None" "pc_RestoreVMPowerState demoPower h v p = None"
  by (simp_all add: demoPower_def)

lemma demo_tenant [simp]: "tenantOf (demoEnv b) = ''default''"
  by (simp add: tenantOf_def normalizeTenantID_def DefaultTenantID_def)

lemma normalize_literal [simp]: "normalizeTenantID ''default'' = ''default''"
  using normalize_default by (simp add: DefaultTenantID_def)

text \<open>A store the demo has written to: the default tenant is there and has no quota.\<close>

definition demoStoreOk :: "demoRaw MemoryStore \<Rightarrow> bool" where
  "demoStoreOk st = (map_of (st_tenants st) ''default'' = Some defaultTenant)"

lemma demoStoreOk_simps [simp]:
  "demoStoreOk NewMemoryStore" "demoStoreOk (st\<lparr>st_migrations := m\<rparr>) = demoStoreOk st"
  "demoStoreOk (st\<lparr>st_recoveryPoints := r\<rparr>) = demoStoreOk st"
  by (simp_all add: demoStoreOk_def NewMemoryStore_def DefaultTenantID_def)

lemma demo_persist [simp]:
  "demoStoreOk (sy_store s) \<Longrightarrow> ms_ID st \<noteq> [] \<Longrightarrow>
   persistMigrationState (demoEnv b) st s
     = (None, \<lparr>sy_hist = sy_hist s @ [CSaveState st],
               sy_store = (sy_store s)\<lparr>st_migrations := AList.update (''default:'' @ ms_ID st)
                  \<lparr>so_tenantID = ''default'', so_value = stateRecord (demoEnv b) st (Inl st)\<rparr>
                  (st_migrations (sy_store s))\<rparr>\<rparr>)"
  by (cases s) (simp add: persistMigrationState_def demo_store memoryOps_def SaveMigration_def onDone_def ctxOf_def Let_def
      ensureTenantLocked_def demoStoreOk_def defaultTenant_def tenantMigrationKey_def stateRecord_def record_call_def)

lemma demo_persist_point [simp]:
  "demoStoreOk (sy_store s) \<Longrightarrow> rp_MigrationID p \<noteq> [] \<Longrightarrow>
   persistRecoveryPoint (demoEnv b) p s
     = (None, \<lparr>sy_hist = sy_hist s @ [CSavePoint p],
               sy_store = (sy_store s)\<lparr>st_recoveryPoints := AList.update (''default:'' @ rp_MigrationID p)
                  \<lparr>so_tenantID = ''default'', so_value = pointRecord (demoEnv b) p (Inr p)\<rparr>
                  (st_recoveryPoints (sy_store s))\<rparr>\<rparr>)"
  by (cases s) (simp add: persistRecoveryPoint_def demo_store memoryOps_def SaveRecoveryPoint_def onDone_def ctxOf_def Let_def
      ensureTenantLocked_def demoStoreOk_def defaultTenant_def tenantRecoveryPointKey_def pointRecord_def record_call_def)

text \<open>Loading finds what was saved last.\<close>

lemma demo_loadState [simp]:
  "map_of (st_migrations (sy_store s)) (''default:'' @ m) = Some it \<Longrightarrow> so_tenantID it = ''default'' \<Longrightarrow>
   mr_RawJSON (so_value it) = Inl st \<Longrightarrow>
   loadMigrationState (demoEnv b) m s = (Inr st, record_call (CGetState m) s)"
  by (cases s) (simp add: loadMigrationState_def demo_store memoryOps_def GetMigration_def onDone_def ctxOf_def Let_def
      tenantMigrationKey_def record_call_def)

lemma demo_loadPoint [simp]:
  "map_of (st_recoveryPoints (sy_store s)) (''default:'' @ m) = Some it \<Longrightarrow> so_tenantID it = ''default'' \<Longrightarrow>
   rr_RawJSON (so_value it) = Inr p \<Longrightarrow>
   loadRecoveryPoint (demoEnv b) m s = (Inr p, record_call (CGetPoint m) s)"
  by (cases s) (simp add: loadRecoveryPoint_def demo_store memoryOps_def GetRecoveryPoint_def onDone_def ctxOf_def Let_def
      tenantRecoveryPointKey_def record_call_def)

lemma raw_simps [simp]: "mr_RawJSON (stateRecord e st x) = x" "rr_RawJSON (pointRecord e p y) = y"
  by (simp_all add: stateRecord_def pointRecord_def)

section \<open>The plan of the installation\<close>

definition demoPlanned :: "string \<Rightarrow> string \<Rightarrow> string list \<Rightarrow> PlannedWorkload" where
  "demoPlanned i name deps =
     \<lparr>pw_VMID = i, pw_Name = name, pw_Dependencies = deps, pw_TargetHost = ''h'', pw_TargetStorage = ''s'',
      pw_NetworkMap = []\<rparr>"

definition demoItems :: "PlannedWorkload list" where
  "demoItems = [demoPlanned ''vm-2'' ''db'' [], demoPlanned ''vm-1'' ''web'' [''db'']]"

definition demoWaves :: "MigrationWave list" where
  "demoWaves = [dependencyWave (nodesOf demoItems) 1 [''vm-2''], dependencyWave (nodesOf demoItems) 2 [''vm-1'']]"

lemma demo_planned:
  "plannedWorkloads demoLib demoSpec demoVMs = [demoPlanned ''vm-1'' ''web'' [''db''], demoPlanned ''vm-2'' ''db'' []]"
  by code_simp

lemma demo_sorted:
  "sort_slice stable_perm (\<lambda>w. ToLower (pw_Name w))
     [demoPlanned ''vm-1'' ''web'' [''db''], demoPlanned ''vm-2'' ''db'' []] = demoItems"
  by code_simp

lemma demo_deps:
  "addAllDeps (nameIndexOf demoItems) demoItems (indegreeZero demoItems) []
     = Inr ([(''vm-2'', 0), (''vm-1'', 1)], [(''vm-2'', [''vm-1''])])"
  by code_simp

lemma sort_slice_short [simp]: "sort_slice stable_perm key [x] = [x]" "sort_slice stable_perm key [] = []"
  by (simp_all add: sort_slice_def stable_perm_def)

lemma demo_waveLoop:
  "waveLoop stable_perm (nodesOf demoItems) [(''vm-2'', [''vm-1''])] 1 [''vm-2''] [(''vm-2'', 0), (''vm-1'', 1)] [] 0
     = (demoWaves, 2)"
  by (simp add: waveLoop.simps waveCount_def getList_def getInt_def Let_def demoWaves_def numeral_2_eq_2)

lemma demo_waves: "buildDependencyAwareWaves stable_perm demoItems 1 = Inr demoWaves"
  by (simp add: buildDependencyAwareWaves_def demo_deps demo_waveLoop Let_def) (simp add: demoItems_def)

lemma demo_nodes [simp]:
  "nodeAt (nodesOf demoItems) ''vm-2'' = demoPlanned ''vm-2'' ''db'' []"
  "nodeAt (nodesOf demoItems) ''vm-1'' = demoPlanned ''vm-1'' ''web'' [''db'']"
  by code_simp+

definition demoPlan :: MigrationPlan where
  "demoPlan =
     \<lparr>plan_GeneratedAt = 1000, plan_TotalWorkloads = 2, plan_Window = opt_Window (spec_Options demoSpec),
      plan_RequiresApproval = False, plan_ApprovalSatisfied = True,
      plan_WaveStrategy = opt_Waves (spec_Options demoSpec), plan_Waves = demoWaves\<rparr>"

lemma demo_plan: "BuildExecutionPlan demoLib stable_perm 1000 (Some demoSpec) demoVMs = Inr demoPlan"
  by (simp add: BuildExecutionPlan_def demo_planned demo_sorted Let_def)
    (simp add: demoSpec_def normalizedWaveStrategy_def demo_waves demoPlan_def Approved_def)

definition demoWorkloads :: "WorkloadMigration list" where
  "demoWorkloads = map (\<lambda>vm. newWorkload vm emptyOverrides) [demoVM ''vm-2'' ''db'', demoVM ''vm-1'' ''web'']"

lemma demoVM_simps [simp]:
  "vm_ID (demoVM i n) = i" "vm_Name (demoVM i n) = n" "vm_PowerState (demoVM i n) = PowerOn"
  "vm_Disks (demoVM i n) = []" "vm_NICs (demoVM i n) = []" "vm_Platform (demoVM i n) = PlatformVMware"
  by (simp_all add: demoVM_def zeroVM_def)

lemma demoVM_eq [simp]: "(demoVM i n = demoVM j m) = (i = j \<and> n = m)"
  by (metis demoVM_simps(1,2))

lemma demoVM_key [simp]:
  "workloadKey (demoVM ''vm-1'' n) = ''vm-1''" "workloadKey (demoVM ''vm-2'' n) = ''vm-2''"
  by (simp_all add: workloadKey_def go_string_defs)

lemma demo_built:
  "buildWorkloadMigrations demoLib demoVMs (spec_Workloads demoSpec) = map (\<lambda>vm. newWorkload vm emptyOverrides) demoVMs"
  by code_simp

lemma newWorkload_VM [simp]: "wm_VM (newWorkload vm ov) = vm"
  by (simp add: newWorkload_def)

lemma demo_reorder:
  "reorderWorkloadsByPlan (buildWorkloadMigrations demoLib demoVMs (spec_Workloads demoSpec)) (Some demoPlan) = demoWorkloads"
  unfolding demo_built
  by (simp add: reorderWorkloadsByPlan_def demoPlan_def demoWaves_def demoVMs_def dependencyWave_def demoPlanned_def
      demoWorkloads_def Let_def)

section \<open>Evaluating runs\<close>

lemma demoSpec_simps [simp]:
  "opt_DryRun (spec_Options demoSpec) = False" "opt_ShutdownSource (spec_Options demoSpec)"
  "opt_Window (spec_Options demoSpec) = \<lparr>win_NotBefore = 0, win_NotAfter = 0\<rparr>"
  "opt_Approval (spec_Options demoSpec) = \<lparr>ag_Required = False, ag_ApprovedBy = [], ag_ApprovedAt = 0, ag_Ticket = []\<rparr>"
  "opt_VerifyBoot (spec_Options demoSpec)"
  "tgt_DefaultHost (spec_Target demoSpec) = ''h''" "tgt_DefaultStorage (spec_Target demoSpec) = ''s''"
  by (simp_all add: demoSpec_def)

lemma demo_overrides:
  "fst (mergedOverridesForVM demoLib (demoVM ''vm-1'' ''web'') (spec_Workloads demoSpec))
     = emptyOverrides\<lparr>wo_Dependencies := [''db'']\<rparr>"
  "fst (mergedOverridesForVM demoLib (demoVM ''vm-2'' ''db'') (spec_Workloads demoSpec)) = emptyOverrides"
  by code_simp+

lemma emptyOverrides_simps [simp]:
  "wo_TargetHost emptyOverrides = []" "wo_TargetStorage emptyOverrides = []" "wo_NetworkMap emptyOverrides = []"
  by (simp_all add: emptyOverrides_def)

lemma demo_no_disks [simp]: "defaultSourceDiskPaths m (demoVM i n) = []"
  by (simp add: defaultSourceDiskPaths_def)

lemma demo_inventory [simp]: "dr_VMs (zeroDR\<lparr>dr_VMs := v\<rparr>) = v"
  by (simp add: zeroDR_def)

lemma demo_ready [simp]:
  "validateExecutionReadiness st demoSpec t
     = Inr (st\<lparr>ms_PendingApproval := False, ms_Approval := opt_Approval (spec_Options demoSpec)\<rparr>)"
  by (simp add: validateExecutionReadiness_def Let_def isZero_def)

lemmas demo_eval = Execute_def executeWith_def newMigrationState_def nowUTC_def discoverInventories_def demo_plan demo_reorder
  Let_def demoSys_def demoWorkloads_def completeCheckpoint_def executePlanned_def CreateRecoveryPoint_def emit_def
  markCheckpointRunning_def markCheckpointCompleted_def markCheckpointFailed_def failState_def updateCheckpoint_def
  initializeCheckpoints_def checkpointPhases_def newCheckpoint_def newWorkload_def runExecution_def executionPhases_def
  runOnePhase_def setPhase_def runPhase_def demo_overrides runExport_def exportWorkload_def exportDisks_def runConvert_def
  convertWorkload_def runImport_def importWorkload_def runConfigure_def configureWorkload_def runVerify_def
  verifyWorkload_def verifyBoot_def failWorkload_def

lemmas demo_rollback = Rollback_def powerOffTargets_def removeTargets_def restoreSources_def rollbackFinish_def

lemmas demo_resume = Resume_def resumeStored_def resumeReady_def restoreWorkloads_def restoreCheckpoints_def
  nextPhaseStartIndex_def checkpointStatus_def go_string_defs

text \<open>The installation after a run that succeeds, and after one in which the target refuses the machine web.\<close>

definition demoDone :: "demoRaw MemoryStore sys" where
  "demoDone = snd (Execute (demoEnv []) (Some demoSpec) demoSys)"

definition demoFailed :: "demoRaw MemoryStore sys" where
  "demoFailed = snd (Execute (demoEnv ''web'') (Some demoSpec) demoSys)"

lemma demo_execute:
  "\<exists>st. Execute (demoEnv []) (Some demoSpec) demoSys = ((Some st, None), demoDone)"
  unfolding demoDone_def by (simp add: demo_eval)

lemma demo_load:
  "\<exists>st s1. loadMigrationState (demoEnv []) ''m1'' demoDone = (Inr st, s1) \<and> ms_Phase st = PhaseComplete"
  unfolding demoDone_def by (simp add: demo_eval)

lemma demo_failed_load:
  "\<exists>st s1. loadMigrationState (demoEnv []) ''m1'' demoFailed = (Inr st, s1)
     \<and> resumePhases st = [PhaseImport, PhaseConfigure, PhaseVerify]"
  unfolding demoFailed_def by (simp add: demo_eval resumePhases_def executionPhases_def checkpointStatus_def)

text \<open>The target at the time of a rollback: it does not let go of one machine.\<close>

definition stubbornTarget :: Connector where
  "stubbornTarget = (demoTarget [])\<lparr>con_remover := Some (\<lambda>_ v. if v = ''t-vm-1'' then Some (Errorf ''locked'' []) else None)\<rparr>"

lemma stubbornTarget_simps [simp]:
  "con_power stubbornTarget = Some demoPower"
  "con_remover stubbornTarget = Some (\<lambda>_ v. if v = ''t-vm-1'' then Some (Errorf ''locked'' []) else None)"
  by (simp_all add: stubbornTarget_def)

lemma demo_undo:
  "\<exists>point s1 st s2 res e s'. loadRecoveryPoint (demoEnv []) ''m1'' (record_call CClock demoDone) = (Inr point, s1)
     \<and> loadMigrationState (demoEnv []) ''m1'' s1 = (Inr st, s2)
     \<and> rp_TargetVMs point = [''t-vm-2'', ''t-vm-1'']
     \<and> Rollback (demoEnv []) demoSource stubbornTarget ''m1'' demoDone = ((Some res, e), s')"
  unfolding demoDone_def by (simp add: demo_eval demo_rollback)

lemma all_succeed: "(\<And>h x. act h x = None) \<Longrightarrow> failures (answers act mk h xs) = []"
  by (induction xs arbitrary: h) simp_all

section \<open>Two behaviours after a failed import\<close>

text \<open>
  An import that fails at its second machine: the first target machine exists and is named in the stored
  migration; the recovery point was taken before the phase and does not name it.
\<close>

lemma demo_leak:
  "\<exists>point s1 st s2 res s'. loadRecoveryPoint (demoEnv ''web'') ''m1'' (record_call CClock demoFailed) = (Inr point, s1)
     \<and> loadMigrationState (demoEnv ''web'') ''m1'' s1 = (Inr st, s2)
     \<and> ''t-vm-2'' \<in> wm_TargetVMID ` set (ms_Workloads st) \<and> rp_TargetVMs point = []
     \<and> CCreateVM (demoVM ''vm-2'' ''db'') [] ''h'' ''s'' \<in> set (sy_hist demoFailed)
     \<and> Rollback (demoEnv ''web'') demoSource (demoTarget ''web'') ''m1'' demoFailed = ((Some res, None), s')"
  unfolding demoFailed_def by (simp add: demo_eval demo_rollback)

text \<open>
  Resuming after that failure runs the import phase for every workload
  again, so that the target machine of the first workload is created a second time.
\<close>

theorem resume_recreates_target:
  "\<exists>st s'. Resume (demoEnv []) ''m1'' (Some demoSpec) demoFailed = ((Some st, None), s')
     \<and> length (filter (\<lambda>c. c = CCreateVM (demoVM ''vm-2'' ''db'') [] ''h'' ''s'') (sy_hist s')) = 2"
  by (simp add: demoFailed_def demo_eval demo_resume)

section \<open>The theorems on the installation\<close>

theorem execute_gated_witness:
  "\<exists>cs. sy_hist demoDone = sy_hist demoSys @ cs
     \<and> gated_trace (demoEnv []) demoSpec executionPhases (sy_hist demoSys) cs"
proof -
  obtain st where "Execute (demoEnv []) (Some demoSpec) demoSys = ((Some st, None), demoDone)"
    using demo_execute by blast
  from execute_gated [OF this] show ?thesis by simp
qed

theorem execute_success_witness:
  "\<exists>st. Execute (demoEnv []) (Some demoSpec) demoSys = ((Some st, None), demoDone)
     \<and> ms_ID st = ''m1'' \<and> ms_Phase st = PhaseComplete
     \<and> (\<forall>ph \<in> set checkpointPhases. checkpointStatus st ph = CheckpointCompleted)
     \<and> storedState (demoEnv []) ''m1'' (sy_store demoDone) = Some st"
proof -
  obtain st where run: "Execute (demoEnv []) (Some demoSpec) demoSys = ((Some st, None), demoDone)"
    using demo_execute by blast
  from execute_success [OF demo_store demo_json _ run] run show ?thesis by auto
qed

theorem resume_no_repeat_witness:
  "\<exists>r s' cs. Resume (demoEnv []) ''m1'' (Some demoSpec) demoFailed = (r, s') \<and> sy_hist s' = sy_hist demoFailed @ cs
     \<and> gated_trace (demoEnv []) demoSpec [PhaseImport, PhaseConfigure, PhaseVerify] (sy_hist demoFailed) cs"
proof -
  obtain st s1 where load: "loadMigrationState (demoEnv []) ''m1'' demoFailed = (Inr st, s1)"
      and ph: "resumePhases st = [PhaseImport, PhaseConfigure, PhaseVerify]"
    using demo_failed_load by blast
  obtain r s' where run: "Resume (demoEnv []) ''m1'' (Some demoSpec) demoFailed = (r, s')" by fastforce
  from resume_no_repeat [OF run load] run ph show ?thesis by (auto simp: resumePhases_def)
qed

theorem resume_final_witness:
  "\<exists>st s1. Resume (demoEnv []) ''m1'' (Some demoSpec) demoDone = ((Some st, None), s1)
     \<and> sy_hist s1 = sy_hist demoDone @ [CGetState ''m1'']"
proof -
  obtain st s1 where load: "loadMigrationState (demoEnv []) ''m1'' demoDone = (Inr st, s1)" "ms_Phase st = PhaseComplete"
    using demo_load by blast
  have "TrimSpace ''m1'' \<noteq> []" by (simp add: go_string_defs)
  from resume_final [OF this demoEnv_simps(1) demoEnv_simps(2) load(1), of demoSpec] load(2) show ?thesis by blast
qed

theorem rollback_effect_witness:
  "\<exists>res e s'. Rollback (demoEnv []) demoSource stubbornTarget ''m1'' demoDone = ((Some res, Some e), s')
     \<and> rb_Errors res = [Errorf ''locked'' []] \<and> rb_TargetVMsRemoved res = 1"
proof -
  obtain point s1 st s2 res e s' where
      l: "loadRecoveryPoint (demoEnv []) ''m1'' (record_call CClock demoDone) = (Inr point, s1)"
      "loadMigrationState (demoEnv []) ''m1'' s1 = (Inr st, s2)" "rp_TargetVMs point = [''t-vm-2'', ''t-vm-1'']"
      "Rollback (demoEnv []) demoSource stubbornTarget ''m1'' demoDone = ((Some res, e), s')"
    using demo_undo by blast
  have "rollbackFailures (demoEnv []) demoSource stubbornTarget point (sy_hist s2) = [Errorf ''locked'' []]"
    and "successes (removeAnswers stubbornTarget point (sy_hist s2)) = 1"
    using l(3) by (simp_all add: rollbackFailures_def powerOffAnswers_def removeAnswers_def fileAnswers_def
        restoreAnswers_def all_succeed)
  with rollback_effect [OF demo_store demo_json l(1,2,4)] l(4) show ?thesis by (cases e) auto
qed

theorem rollback_leaves_unlisted_witness:
  "\<exists>res s' cs. Rollback (demoEnv ''web'') demoSource (demoTarget ''web'') ''m1'' demoFailed = ((Some res, None), s')
     \<and> CCreateVM (demoVM ''vm-2'' ''db'') [] ''h'' ''s'' \<in> set (sy_hist demoFailed)
     \<and> sy_hist s' = sy_hist demoFailed @ cs \<and> CRemoveVM ''t-vm-2'' \<notin> set cs"
proof -
  obtain point s1 st s2 res s' where
      l: "loadRecoveryPoint (demoEnv ''web'') ''m1'' (record_call CClock demoFailed) = (Inr point, s1)"
      "loadMigrationState (demoEnv ''web'') ''m1'' s1 = (Inr st, s2)" "''t-vm-2'' \<in> wm_TargetVMID ` set (ms_Workloads st)"
      "rp_TargetVMs point = []" "CCreateVM (demoVM ''vm-2'' ''db'') [] ''h'' ''s'' \<in> set (sy_hist demoFailed)"
      "Rollback (demoEnv ''web'') demoSource (demoTarget ''web'') ''m1'' demoFailed = ((Some res, None), s')"
    using demo_leak by blast
  have "''t-vm-2'' \<notin> set (rp_TargetVMs point)" using l(4) by simp
  from rollback_leaves_unlisted [OF demo_store demo_json l(1,2,3) _ this l(6)] l(5,6) show ?thesis by auto
qed

end
