(* ===== verification/Examples.thy ===== *)
theory Examples
  imports Scenario
begin

text \<open>
  The theorems on planning, the store and the network mapping, each applied to a concrete input: the
  installation of \<open>Scenario\<close>, a fresh in-memory store, and a store with one more tenant.
\<close>

section \<open>Specifications and selection\<close>

lemma demo_spec_ok: "spec_ok demoLib demoSpec"
  by (simp add: spec_ok_def selector_ok_def demoSpec_def demoSelector_def demoLib_def Let_def Platform_Valid_def
      platform_defs emptyOverrides_def) (auto simp: go_string_defs regexPrefix_def)

theorem parse_spec_exact_witness: "ParseSpec demoLib (\<lambda>_. Inr demoSpec) ''spec.yaml'' = Inr demoSpec"
  using parse_spec_exact [of demoLib "\<lambda>_. Inr demoSpec" "''spec.yaml''" demoSpec] demo_spec_ok spec_ok_normal by auto

theorem match_workloads_exact_witness:
  "matchKey (demoVM ''vm-2'' ''db'') \<in> matchKey ` set (MatchWorkloads demoLib demoVMs (spec_Workloads demoSpec))"
proof -
  have "selectorMatches demoLib (demoVM ''vm-2'' ''db'') (demoSelector ''*'' [])" by code_simp
  moreover have "demoVM ''vm-2'' ''db'' \<in> set demoVMs" "demoSelector ''*'' [] \<in> set (spec_Workloads demoSpec)"
    by (simp_all add: demoVMs_def demoSpec_def)
  ultimately show ?thesis
    using match_workloads_exact [of demoLib demoVMs "spec_Workloads demoSpec"] by blast
qed

theorem merged_overrides_exact_witness:
  "set (wo_Dependencies (fst (mergedOverridesForVM demoLib (demoVM ''vm-1'' ''web'') (spec_Workloads demoSpec)))) = {''db''}"
proof -
  have os: "matchingOverrides demoLib (demoVM ''vm-1'' ''web'') (spec_Workloads demoSpec)
      = [emptyOverrides, emptyOverrides\<lparr>wo_Dependencies := [''db'']\<rparr>]" by code_simp
  have "\<forall>o' \<in> set (matchingOverrides demoLib (demoVM ''vm-1'' ''web'') (spec_Workloads demoSpec)).
      distinct (map fst (wo_NetworkMap o'))" unfolding os by (simp add: emptyOverrides_def)
  from merged_overrides_exact [OF this] show ?thesis unfolding os Let_def by (simp add: emptyOverrides_def)
qed

section \<open>Planning\<close>

lemma demo_ids: "idsNotBlank demoVMs"
  by (simp add: idsNotBlank_def demoVMs_def go_string_defs)

theorem plan_correct_witness:
  "idsNotBlank demoVMs \<and> BuildExecutionPlan demoLib stable_perm 1000 (Some demoSpec) demoVMs = Inr demoPlan
   \<and> wavesOk (plannedWorkloads demoLib demoSpec demoVMs) 1 demoWaves
   \<and> int (length (MatchWorkloads demoLib demoVMs (spec_Workloads demoSpec))) = 2"
  using plan_correct [OF demo_ids demo_plan] demo_ids demo_plan by (simp add: demoPlan_def demoSpec_def)

theorem plan_exists_iff_witness: "\<nexists>S. depCycle (sortedPlanned demoLib stable_perm demoSpec demoVMs) S"
  using plan_exists_iff [OF demo_ids, of demoLib stable_perm 1000 demoSpec] demo_plan by simp

theorem reorder_perm_witness: "mset (reorderWorkloadsByPlan (rev demoWorkloads) (Some demoPlan)) = mset demoWorkloads"
proof -
  have "distinct (map wmKey (rev demoWorkloads))" by (simp add: demoWorkloads_def)
  from reorder_perm [OF this] show ?thesis by simp
qed

theorem reorder_follows_plan_witness:
  "map wmKey demoWorkloads = map pw_VMID (concat (map wave_Workloads (plan_Waves demoPlan)))
   \<and> map wmKey demoWorkloads = [''vm-2'', ''vm-1'']"
  using reorder_follows_plan [OF demo_ids demo_plan] by (simp only: demo_reorder) (simp add: demoWorkloads_def)

definition exportedState :: MigrationState where
  "exportedState =
     markCheckpointCompleted 5 6 (fst (newMigrationState (demoEnv []) demoSpec ''m1'' demoSys)) PhaseExport ''done''"

lemma exported_status:
  "checkpointStatus exportedState PhaseExport = CheckpointCompleted"
  "checkpointStatus exportedState PhaseConvert = CheckpointPending"
  by (simp_all add: exportedState_def newMigrationState_def nowUTC_def checkpointStatus_def markCheckpointCompleted_def
      updateCheckpoint_def initializeCheckpoints_def checkpointPhases_def newCheckpoint_def Let_def)

theorem resume_point_witness: "nextPhaseStartIndex exportedState = Some 1"
  using resume_point [of exportedState 1] exported_status by (simp add: executionPhases_def)

section \<open>The store\<close>

definition demoCtx :: Context where
  "demoCtx = \<lparr>ctx_Err = None, ctx_Tenant = None\<rparr>"

definition demoRecord :: "string \<Rightarrow> unit MigrationRecord" where
  "demoRecord i = \<lparr>mr_ID = i, mr_TenantID = [], mr_SpecName = ''demo'', mr_Phase = ''plan'', mr_StartedAt = 1,
     mr_UpdatedAt = 1, mr_CompletedAt = 0, mr_RawJSON = ()\<rparr>"

definition demoPoint :: "string \<Rightarrow> unit RecoveryPointRecord" where
  "demoPoint i = \<lparr>rr_MigrationID = i, rr_TenantID = [], rr_Phase = ''plan'', rr_CreatedAt = 1, rr_RawJSON = ()\<rparr>"

definition savedStore :: "unit MemoryStore" where
  "savedStore = snd (SaveMigration demoCtx NewMemoryStore ''default'' (demoRecord ''m''))"

lemma demoCtx_live [simp]: "ctx_Err demoCtx = None"
  by (simp add: demoCtx_def)

lemma demo_normal [simp]: "normalizeTenantID ''a'' = ''a''" "normalizeTenantID [] = ''default''"
    "normalizeTenantID '' default '' = ''default''"
  by (simp_all add: normalizeTenantID_def DefaultTenantID_def go_string_defs)

lemma demo_save: "SaveMigration demoCtx NewMemoryStore ''default'' (demoRecord ''m'') = (Inr (), savedStore)"
  unfolding savedStore_def
  by (simp add: SaveMigration_def onDone_def Let_def ensureTenantLocked_def NewMemoryStore_def DefaultTenantID_def
      defaultTenant_def demoRecord_def)

lemma demo_save_point:
  "\<exists>s'. SaveRecoveryPoint demoCtx NewMemoryStore ''default'' (demoPoint ''m'') = (Inr (), s')"
  by (simp add: SaveRecoveryPoint_def onDone_def Let_def ensureTenantLocked_def NewMemoryStore_def DefaultTenantID_def
      defaultTenant_def demoPoint_def)

theorem store_reachable_ok_witness: "store_step\<^sup>*\<^sup>* NewMemoryStore savedStore \<and> store_ok savedStore"
proof -
  have "store_step NewMemoryStore savedStore" unfolding savedStore_def by (rule store_step.intros(2))
  then have "store_step\<^sup>*\<^sup>* NewMemoryStore savedStore" by (rule r_into_rtranclp)
  then show ?thesis using store_reachable_ok by blast
qed

theorem migration_roundtrip_witness:
  "GetMigration demoCtx savedStore '' default '' ''m'' = (Inr ((demoRecord ''m'')\<lparr>mr_TenantID := ''default''\<rparr>), savedStore)"
proof -
  have "normalizeTenantID '' default '' = normalizeTenantID ''default''" by simp
  from migration_roundtrip [OF this demoCtx_live, of demoCtx NewMemoryStore "demoRecord ''m''" savedStore] demo_save
  show ?thesis by (simp add: demoRecord_def)
qed

theorem migration_isolation_witness:
  "fst (GetMigration demoCtx (snd (SaveMigration demoCtx savedStore ''a'' (demoRecord ''m''))) ''default'' ''m'')
     = fst (GetMigration demoCtx savedStore ''default'' ''m'')"
  using migration_isolation [of "''a''" "''default''" demoCtx demoCtx savedStore "demoRecord ''m''" "''m''" "demoPoint ''m''"]
  by simp

text \<open>A store with a second tenant, which has an API key, a service account and a quota of one migration.\<close>

definition demoAccount :: ServiceAccount where
  "demoAccount = \<lparr>sa_ID = ''ci'', sa_Name = ''ci'', sa_Description = [], sa_APIKey = [], sa_APIKeyHash = ''h2'',
     sa_Role = TenantRoleViewer, sa_Active = True, sa_CreatedAt = 1, sa_LastRotatedAt = 0, sa_ExpiresAt = 0,
     sa_Metadata = [], sa_Permissions = [''bogus'']\<rparr>"

definition demoTenant :: Tenant where
  "demoTenant = \<lparr>tn_ID = ''a'', tn_Name = ''a'', tn_APIKey = [], tn_APIKeyHash = ''h1'', tn_CreatedAt = 1,
     tn_Active = True, tn_Settings = [], tn_Quotas = \<lparr>q_RequestsPerMinute = 0, q_MaxSnapshots = 0, q_MaxMigrations = 1\<rparr>,
     tn_ServiceAccounts = [demoAccount]\<rparr>"

definition tenantStore :: "unit MemoryStore" where
  "tenantStore = NewMemoryStore\<lparr>st_tenants := [(DefaultTenantID, defaultTenant), (''a'', demoTenant)]\<rparr>"

lemma tenantStore_ok: "store_ok tenantStore"
  by (simp add: tenantStore_def NewMemoryStore_def store_ok_def tenants_ok_def tenant_ok_def owners_ok_def demoTenant_def
      demoAccount_def defaultTenant_def tenantHashes_def normalize_default)
    (simp add: DefaultTenantID_def go_string_defs)

lemma tenantStore_tenant: "map_of (st_tenants tenantStore) (normalizeTenantID ''a'') = Some demoTenant"
  by (simp add: tenantStore_def DefaultTenantID_def)

theorem migration_quota_witness:
  "\<exists>m. SaveMigration demoCtx tenantStore ''a'' (demoRecord ''m'') = (Inr (), tenantStore\<lparr>st_migrations := m\<rparr>)
     \<and> countOwned ''a'' m = 1"
proof -
  have "mr_ID (demoRecord ''m'') \<noteq> []" by (simp add: demoRecord_def)
  moreover have quota: "0 < q_MaxMigrations (tn_Quotas demoTenant)" by (simp add: demoTenant_def)
  moreover have none: "st_migrations tenantStore = []" by (simp add: tenantStore_def NewMemoryStore_def)
  moreover have "normalizeTenantID ''a'' = ''a''" "countOwned ''a'' (st_migrations tenantStore) = 0"
    using tenantStore_tenant none by (simp_all add: countOwned_def)
  ultimately show ?thesis
    using migration_quota [OF tenantStore_ok demoCtx_live _ tenantStore_tenant, of "demoRecord ''m''"] by auto
qed

text \<open>The same store with a migration of each of the two tenants.\<close>

definition sharedStore :: "unit MemoryStore" where
  "sharedStore = tenantStore\<lparr>st_migrations :=
     [(tenantMigrationKey ''a'' ''m'', \<lparr>so_tenantID = ''a'', so_value = (demoRecord ''m'')\<lparr>mr_TenantID := ''a''\<rparr>\<rparr>),
      (tenantMigrationKey DefaultTenantID ''m'', \<lparr>so_tenantID = DefaultTenantID,
         so_value = (demoRecord ''m'')\<lparr>mr_TenantID := DefaultTenantID\<rparr>\<rparr>)]\<rparr>"

lemma sharedStore_keys: "tenantMigrationKey ''a'' ''m'' \<noteq> tenantMigrationKey ''default'' ''m''"
  by (simp add: tenantMigrationKey_def)

lemma sharedStore_ok: "store_ok sharedStore"
  using tenantStore_ok sharedStore_keys
  by (simp add: sharedStore_def store_ok_def owners_ok_def tenantStore_def NewMemoryStore_def DefaultTenantID_def demoRecord_def)

theorem delete_tenant_complete_witness:
  "\<exists>s'. DeleteTenant demoCtx sharedStore ''a'' = (Inr (), s') \<and> map_of (st_tenants s') ''a'' = None
     \<and> map_of (st_tenants s') ''default'' = Some defaultTenant
     \<and> map_of (st_migrations s') (tenantMigrationKey ''a'' ''m'') = None
     \<and> map_of (st_migrations s') (tenantMigrationKey ''default'' ''m'') \<noteq> None"
proof -
  have "map_of (st_tenants sharedStore) (normalizeTenantID ''a'') = Some demoTenant" "normalizeTenantID ''a'' = ''a''"
    using tenantStore_tenant by (simp_all add: sharedStore_def)
  with delete_tenant_complete [OF sharedStore_ok demoCtx_live, of "''a''"]
  obtain s' where "DeleteTenant demoCtx sharedStore ''a'' = (Inr (), s')"
      "\<forall>u. map_of (st_tenants s') u = (if u = ''a'' then None else map_of (st_tenants sharedStore) u)"
      "ownedRemoved ''a'' (st_migrations sharedStore) (st_migrations s')"
    by (auto simp: DefaultTenantID_def)
  then show ?thesis
    using sharedStore_keys by (auto simp: sharedStore_def tenantStore_def DefaultTenantID_def ownedRemoved_def)
qed

theorem lookup_sound_witness:
  "\<exists>ores. LookupCredentialByHash stable_perm demoCtx 5 tenantStore ''h2'' = (Inr ores, tenantStore) \<and> ores \<noteq> None"
proof -
  have h: "TrimSpace ''h2'' \<noteq> []" by (simp add: go_string_defs)
  have ids: "\<forall>(k, t) \<in> set (st_tenants tenantStore). distinct (map sa_ID (tn_ServiceAccounts t))"
    by (simp add: tenantStore_def demoTenant_def defaultTenant_def)
  have "hasCredential 5 ''h2'' demoTenant"
    by (simp add: hasCredential_def demoTenant_def demoAccount_def credentialHashMatches_iff
        serviceAccountCredentialActive_def isZero_def go_string_defs)
  moreover have "(''a'', demoTenant) \<in> set (st_tenants tenantStore)" by (simp add: tenantStore_def)
  ultimately show ?thesis
    using lookup_sound [OF tenantStore_ok demoCtx_live h ids, of stable_perm 5 stable_perm] by (fastforce split: option.splits)
qed

theorem session_revocation_witness:
  "\<exists>s1. RevokeAuthSession demoCtx 5 tenantStore ''sid'' 10 = (Inr (), s1)
     \<and> fst (IsAuthSessionRevoked demoCtx 7 s1 ''sid'') = Inr True \<and> fst (IsAuthSessionRevoked demoCtx 10 s1 ''sid'') = Inr False"
proof -
  obtain s1 where run: "RevokeAuthSession demoCtx 5 tenantStore ''sid'' 10 = (Inr (), s1)"
    by (simp add: RevokeAuthSession_def onDone_def Let_def go_string_defs)
  from session_revocation [OF tenantStore_ok run, of s1 demoCtx 0 "[]" 0 demoCtx] run show ?thesis by simp
qed

theorem pages_partition_witness:
  "concat (map (\<lambda>i. the (paginateItems [10, 20, 30 :: nat] (int i + 1) 2)) [0..<2]) = [10, 20, 30]"
  using pages_partition [of 2 2 "[10, 20, 30 :: nat]"] by simp

theorem list_migrations_sorted_witness:
  "mset (map mm_ID (listMigrationsLocked stable_perm savedStore ''default'')) = {#''m''#}"
proof -
  have "go_sort (stable_perm :: int list \<Rightarrow> nat list)" by (rule stable.go_sort_axioms)
  from list_migrations_sorted [OF this, of savedStore "''default''"] SaveMigration_effect [OF demo_save]
  show ?thesis by (simp add: NewMemoryStore_def demoRecord_def)
qed

theorem invalid_permissions_widen_witness:
  "EffectivePermissions demoAccount = []
   \<and> EffectivePermissions (normalizeServiceAccount 1 demoAccount) = DefaultPermissions TenantRoleViewer"
proof -
  have "\<forall>p \<in> set (sa_Permissions demoAccount). \<not> TenantPermission_Valid p" by code_simp
  from invalid_permissions_widen [OF _ this, of 1] show ?thesis by (simp add: demoAccount_def TenantRoleViewer_def)
qed

section \<open>Network mapping\<close>

definition demoNIC :: "string \<Rightarrow> NIC" where
  "demoNIC network = \<lparr>nic_ID = ''n1'', nic_Name = ''eth0'', nic_MACAddress = [], nic_Network = network,
     nic_Connected = True, nic_IPAddresses = []\<rparr>"

definition demoNetwork :: NetworkInfo where
  "demoNetwork = \<lparr>net_ID = ''b'', net_Name = ''vmbr0'', net_Type = ''bridge'', net_VlanID = 7, net_Switch = []\<rparr>"

theorem map_nics_exact_witness:
  "snd (MapAllNICs (NewNetworkMapper [(''lan'', ''vmbr0'')] [demoNetwork]) [demoNIC ''lan'']) = []
   \<and> snd (MapAllNICs (NewNetworkMapper [(''lan'', ''vmbr0'')] [demoNetwork]) [demoNIC ''wan'']) \<noteq> []"
  using map_nics_exact [of "[(''lan'', ''vmbr0'')]" "[demoNetwork]" "[demoNIC ''lan'']"]
    map_nics_exact [of "[(''lan'', ''vmbr0'')]" "[demoNetwork]" "[demoNIC ''wan'']"]
  by (simp add: demoNIC_def demoNetwork_def)

end
