(* ===== verification/ImportOrder.thy ===== *)
theory ImportOrder
  imports OrchestratorProps
begin

text \<open>
  From the plan to the calls on the target: a run of \<open>Execute\<close> that reports no error has asked the
  target to create each machine once, in the order of the plan, hence after every machine it depends on.
\<close>

section \<open>The machines created so far\<close>

fun createdVM :: "call \<Rightarrow> VirtualMachine option" where
  "createdVM (CCreateVM vm _ _ _) = Some vm"
| "createdVM _ = None"

definition created :: "'st sys \<Rightarrow> VirtualMachine list" where
  "created s = List.map_filter createdVM (sy_hist s)"

lemma map_filter_append: "List.map_filter f (xs @ ys) = List.map_filter f xs @ List.map_filter f ys"
  by (simp add: List.map_filter_def)

lemma created_record [simp]:
  "created (record_call c s) = created s @ (case createdVM c of None \<Rightarrow> [] | Some vm \<Rightarrow> [vm])"
  by (simp add: created_def map_filter_append List.map_filter_simps split: option.split)

lemma created_adds:
  assumes "adds P s s'" "\<And>c. P c \<Longrightarrow> createdVM c = None"
  shows "created s' = created s"
proof -
  obtain cs where cs: "sy_hist s' = sy_hist s @ cs" "list_all P cs" using assms(1) by (rule adds_hist_obtain)
  have "List.map_filter createdVM cs = []"
    using cs(2) assms(2) by (induction cs) (simp_all add: List.map_filter_simps)
  then show ?thesis by (simp add: created_def cs(1) map_filter_append)
qed

lemma createdVM_quiet: "quiet c \<Longrightarrow> createdVM c = None"
  by (cases c) (simp_all add: quiet_def)

lemma createdVM_phase: "inPhase ph c \<Longrightarrow> ph \<noteq> PhaseImport \<Longrightarrow> createdVM c = None"
  by (cases c) (auto simp: inPhase_def)

lemma created_quiet: "adds quiet s s' \<Longrightarrow> created s' = created s"
  by (rule created_adds [OF _ createdVM_quiet])

lemma created_bookkeeping: "adds bookkeeping s s' \<Longrightarrow> created s' = created s"
  by (rule created_quiet [OF adds_mono [OF _ quiet_bookkeeping]])

lemma created_emit [simp]: "created (emit env ph vm m n s) = created s"
  by (rule created_bookkeeping [OF adds_emit])

section \<open>The phases\<close>

text \<open>No phase changes which machines the workloads are for.\<close>

lemma forWorkloads_vms:
  assumes "\<And>w s e w' s'. body w s = (e, w', s') \<Longrightarrow> wm_VM w' = wm_VM w"
  shows "forWorkloads body ws s = (e, ws', s') \<Longrightarrow> map wm_VM ws' = map wm_VM ws"
proof (induction ws arbitrary: s e ws' s')
  case (Cons w ws)
  obtain e1 w1 s1 where b: "body w s = (e1, w1, s1)" by (cases "body w s")
  obtain e2 ws2 s2 where r: "forWorkloads body ws s1 = (e2, ws2, s2)" by (cases "forWorkloads body ws s1")
  show ?case using Cons.prems b r assms [OF b] Cons.IH [OF r] by (cases e1) auto
qed simp

lemma convertDisks_vm: "convertDisks env f ps w s = (e, w', s') \<Longrightarrow> wm_VM w' = wm_VM w"
  by (induction env f ps w s rule: convertDisks.induct) (auto simp: Let_def split: sum.splits)

lemma workload_vm:
  "exportWorkload env src spec m w s = (e, w', s') \<Longrightarrow> wm_VM w' = wm_VM w"
  "convertWorkload env f w s = (e, w', s') \<Longrightarrow> wm_VM w' = wm_VM w"
  "importWorkload env tgt spec w s = (e, w', s') \<Longrightarrow> wm_VM w' = wm_VM w"
  "configureWorkload env tgt spec nets w s = (e, w', s') \<Longrightarrow> wm_VM w' = wm_VM w"
  "verifyWorkload env tgt w s = (e, w', s') \<Longrightarrow> wm_VM w' = wm_VM w"
  by (auto simp: exportWorkload_def exportDisks_def convertWorkload_def importWorkload_def configureWorkload_def
      verifyWorkload_def verifyBoot_def failWorkload_def Let_def
      split: option.splits sum.splits if_splits prod.splits list.splits dest!: convertDisks_vm)

lemma runPhase_vms:
  assumes "runPhase env src tgt spec tr ph st s = (e, st', s')"
  shows "map wm_VM (ms_Workloads st') = map wm_VM (ms_Workloads st)"
  using assms
  by (cases ph) (auto simp: runPhase_def runExport_def runConvert_def runImport_def runConfigure_def runVerify_def
      split: prod.splits if_splits dest!: forWorkloads_vms [rotated] dest: workload_vm)

text \<open>An import that succeeds creates the machines in the order of the workloads.\<close>

lemma importWorkload_created:
  assumes "importWorkload env tgt spec w s = (None, w', s')" "con_importer tgt = Some f"
  shows "created s' = created s @ [wm_VM w]"
  using assms by (auto simp: importWorkload_def failWorkload_def Let_def split: sum.splits)

lemma forWorkloads_created:
  assumes "con_importer tgt = Some f"
  shows "forWorkloads (importWorkload env tgt spec) ws s = (None, ws', s') \<Longrightarrow>
         created s' = created s @ map wm_VM ws"
proof (induction ws arbitrary: s ws' s')
  case (Cons w ws)
  obtain w1 s1 ws2 where b: "importWorkload env tgt spec w s = (None, w1, s1)"
      and r: "forWorkloads (importWorkload env tgt spec) ws s1 = (None, ws2, s')"
    using Cons.prems by (auto split: prod.splits option.splits)
  show ?case using Cons.IH [OF r] importWorkload_created [OF b assms] by simp
qed simp

lemma runPhase_created:
  assumes "con_importer tgt = Some f" "runPhase env src tgt spec tr ph st s = (None, st', s')"
  shows "created s' = created s @ (if ph = PhaseImport then map wm_VM (ms_Workloads st) else [])"
proof (cases "ph = PhaseImport")
  case True
  with assms show ?thesis
    by (auto simp: runPhase_def runImport_def split: prod.splits dest!: forWorkloads_created [OF assms(1)])
next
  case False
  have "created s' = created s"
    by (rule created_adds [OF runPhase_adds [OF assms(2)] createdVM_phase [OF _ False]])
  with False show ?thesis by simp
qed

lemma runOnePhase_created:
  assumes imp: "con_importer tgt = Some f" and run: "runOnePhase env src tgt spec tr n ph st s = (Inr st', s')"
  shows "created s' = created s @ (if ph = PhaseImport then map wm_VM (ms_Workloads st) else [])
    \<and> map wm_VM (ms_Workloads st') = map wm_VM (ms_Workloads st)"
  using run
proof (cases rule: runOnePhase_cases)
  case (completed st1 point s3 st2 s4 s5 st3)
  have ws: "ms_Workloads st1 = ms_Workloads st"
    using completed(3)
    by (auto simp: setPhase_def nowUTC_def Let_def markCheckpointRunning_def updateCheckpoint_def split: prod.splits)
  have "created s3 = created s"
    using created_quiet [OF CreateRecoveryPoint_adds [OF completed(2)]] created_bookkeeping [OF setPhase_adds [OF completed(3)]]
    by simp
  moreover have "created s' = created s4"
    using created_bookkeeping [OF completeCheckpoint_adds [OF completed(5)]]
      created_bookkeeping [OF adds_persist [OF completed(6)]] by simp
  moreover have "ms_Workloads st' = ms_Workloads st2"
    using completeCheckpoint_state(3) [OF completed(5)] completed(1) by simp
  ultimately show ?thesis
    using runPhase_created [OF imp completed(4)] runPhase_vms [OF completed(4)] ws by simp
qed auto

lemma runPhases_created:
  assumes imp: "con_importer tgt = Some f" and "runPhases env src tgt spec tr n phs st s = (Inr st', s')"
  shows "created s' = created s
           @ concat (map (\<lambda>ph. if ph = PhaseImport then map wm_VM (ms_Workloads st) else []) phs)
    \<and> map wm_VM (ms_Workloads st') = map wm_VM (ms_Workloads st)"
  using assms(2)
proof (induction phs arbitrary: n st s)
  case (Cons ph phs)
  then obtain st1 s1 where one: "runOnePhase env src tgt spec tr n ph st s = (Inr st1, s1)"
    and rest: "runPhases env src tgt spec tr (Suc n) phs st1 s1 = (Inr st', s')"
    by (auto split: prod.splits sum.splits)
  show ?case using Cons.IH [OF rest] runOnePhase_created [OF imp one] by (auto cong: if_cong)
qed simp

lemma runExecution_created:
  assumes imp: "con_importer tgt = Some f" and run: "runExecution env src tgt spec st tr 0 s = ((Some st', None), s')"
  shows "created s' = created s @ map wm_VM (ms_Workloads st)"
proof -
  obtain st1 s1 where ph: "runPhases env src tgt spec tr 0 executionPhases st s = (Inr st1, s1)"
    using run runPhases_error by (fastforce simp: runExecution_def split: prod.splits sum.splits)
  have "adds bookkeeping s1 s'"
    using run ph by (auto simp: runExecution_def nowUTC_def Let_def split: prod.splits option.splits
        dest!: adds_persist [where P = bookkeeping] intro: adds_clock adds_trans [OF _ adds_emit])
  from created_bookkeeping [OF this] runPhases_created [OF imp ph] show ?thesis
    by (simp add: executionPhases_def)
qed

lemma executePlanned_created:
  assumes imp: "con_importer tgt = Some f" and real: "\<not> opt_DryRun (spec_Options spec)"
    and run: "executePlanned env src tgt spec tr st s = ((Some st', None), s')"
  shows "created s' = created s @ map wm_VM (ms_Workloads st)"
proof -
  let ?s = "emit env PhasePlan [] ''migration plan created'' 10 s"
  obtain st1 where ready: "validateExecutionReadiness st spec (env_now env (sy_hist ?s)) = Inr st1"
    using run real by (auto simp: executePlanned_def Let_def nowUTC_def refuse_def split: sum.splits prod.splits option.splits)
  then obtain point s2 where rec: "CreateRecoveryPoint env src st1 (record_call CClock ?s) = (Inr point, s2)"
      and ex: "runExecution env src tgt spec st1 tr 0 s2 = ((Some st', None), s')"
    using run real by (auto simp: executePlanned_def Let_def nowUTC_def split: sum.splits prod.splits dest: failState_result)
  have "created s2 = created s" using created_quiet [OF CreateRecoveryPoint_adds [OF rec]] by simp
  then show ?thesis using runExecution_created [OF imp ex] readiness_state [OF ready] by simp
qed

section \<open>The order\<close>

text \<open>An element of a concatenation lies in one of the lists, and the lists before it come first.\<close>

lemma concat_position:
  "i < length (concat xss) \<Longrightarrow>
   \<exists>k < length xss. concat xss ! i \<in> set (xss ! k) \<and> (\<forall>j < k. \<forall>u \<in> set (xss ! j). \<exists>i' < i. concat xss ! i' = u)"
proof (induction xss arbitrary: i)
  case (Cons xs xss)
  show ?case
  proof (cases "i < length xs")
    case True
    then show ?thesis by (intro exI [of _ 0]) (simp add: nth_append)
  next
    case False
    then have "i - length xs < length (concat xss)" using Cons.prems by auto
    from Cons.IH [OF this] obtain k where k: "k < length xss" "concat xss ! (i - length xs) \<in> set (xss ! k)"
        "\<forall>j < k. \<forall>u \<in> set (xss ! j). \<exists>i' < i - length xs. concat xss ! i' = u" by blast
    have "\<exists>i' < i. concat (xs # xss) ! i' = u" if j: "j < Suc k" and u: "u \<in> set ((xs # xss) ! j)" for j u
    proof (cases j)
      case 0
      then obtain i' where "i' < length xs" "xs ! i' = u" using u by (auto simp: in_set_conv_nth)
      then show ?thesis using False by (intro exI [of _ i']) (simp add: nth_append)
    next
      case (Suc j')
      then obtain i' where "i' < i - length xs" "concat xss ! i' = u" using j u k(3) by auto
      then show ?thesis by (intro exI [of _ "length xs + i'"]) (simp add: nth_append)
    qed
    then show ?thesis using k False by (intro exI [of _ "Suc k"]) (simp add: nth_append)
  qed
qed simp

lemma waves_position:
  assumes ok: "wavesOk ws sz waves" and i: "i < length items" and items: "items = concat (map wave_Workloads waves)"
    and d: "d \<in> set (pw_Dependencies (items ! i))"
  shows "\<exists>j < i. EqualFold (pw_VMID (items ! j)) (TrimSpace d) \<or> EqualFold (pw_Name (items ! j)) (TrimSpace d)"
proof -
  obtain k where k: "k < length waves" "items ! i \<in> set (wave_Workloads (waves ! k))"
      "\<forall>j < k. \<forall>u \<in> set (wave_Workloads (waves ! j)). \<exists>i' < i. items ! i' = u"
    using concat_position [of i "map wave_Workloads waves"] i items by auto
  have "\<forall>w \<in> set (wave_Workloads (waves ! k)). \<forall>d \<in> set (pw_Dependencies w).
      \<exists>j < k. \<exists>u \<in> set (wave_Workloads (waves ! j)).
        EqualFold (pw_VMID u) (TrimSpace d) \<or> EqualFold (pw_Name u) (TrimSpace d)"
    using ok k(1) by (simp add: wavesOk_def)
  then obtain j u where "j < k" "u \<in> set (wave_Workloads (waves ! j))"
      "EqualFold (pw_VMID u) (TrimSpace d) \<or> EqualFold (pw_Name u) (TrimSpace d)"
    using k(2) d by blast
  moreover obtain i' where "i' < i" "items ! i' = u" using k(3) \<open>j < k\<close> \<open>u \<in> _\<close> by blast
  ultimately show ?thesis by blast
qed

text \<open>The planned workload of a selected machine.\<close>

lemma planWorkload_fields:
  "planWorkload lib spec vm = Some w \<Longrightarrow>
   pw_VMID w = workloadKey vm \<and> pw_Name w = vm_Name vm
   \<and> pw_Dependencies w = wo_Dependencies (fst (mergedOverridesForVM lib vm (spec_Workloads spec)))"
  by (auto simp: planWorkload_def split: prod.splits if_splits)

lemma planWorkload_matched:
  "vm \<in> set (MatchWorkloads lib vms (spec_Workloads spec)) \<Longrightarrow> \<exists>w. planWorkload lib spec vm = Some w"
  using matchLoop_subseq_set [of lib "spec_Workloads spec" vms "[]"]
    mergedOverrides_matched [of lib vm "spec_Workloads spec"]
  by (auto simp: planWorkload_def MatchWorkloads_def split: prod.splits)

lemma planned_member:
  "w \<in> set (plannedWorkloads lib spec vms) \<longleftrightarrow>
   (\<exists>vm \<in> set (MatchWorkloads lib vms (spec_Workloads spec)). planWorkload lib spec vm = Some w)"
  by (auto simp: plannedWorkloads_def List.map_filter_def image_iff)

lemma plan_machines:
  assumes ids: "idsNotBlank vms" and plan: "BuildExecutionPlan lib p now (Some spec) vms = Inr plan"
  defines "vs \<equiv> map wm_VM (reorderWorkloadsByPlan (buildWorkloadMigrations lib vms (spec_Workloads spec)) (Some plan))"
  shows "map (planWorkload lib spec) vs = map Some (concat (map wave_Workloads (plan_Waves plan)))"
    and "mset vs = mset (MatchWorkloads lib vms (spec_Workloads spec))"
proof -
  let ?items = "concat (map wave_Workloads (plan_Waves plan))" and ?ws = "plannedWorkloads lib spec vms"
  have keys: "map workloadKey vs = map pw_VMID ?items"
    using reorder_keys [OF ids plan] by (simp add: vs_def comp_def)
  have dist: "distinct (map pw_VMID ?ws)" by (rule plannedWorkloads_distinct [OF ids])
  have items: "set ?items = set ?ws"
    using plan_waves_ok [OF ids plan] by (metis wavesOk_def set_mset_mset)
  have "distinct (map wmKey (buildWorkloadMigrations lib vms (spec_Workloads spec)))"
    using dist by (simp only: buildWorkloadMigrations_keys plannedWorkloads_VMID)
  from arg_cong [OF reorder_mset [OF this, of "Some plan"], of "image_mset wm_VM"]
  show ms: "mset vs = mset (MatchWorkloads lib vms (spec_Workloads spec))"
    using buildLoop_vms [of lib "spec_Workloads spec" vms "[]"]
    by (simp add: vs_def buildWorkloadMigrations_def MatchWorkloads_def flip: mset_map)
  show "map (planWorkload lib spec) vs = map Some ?items"
  proof (rule nth_equalityI)
    show "length (map (planWorkload lib spec) vs) = length (map Some ?items)"
      using arg_cong [OF keys, of length] by simp
    fix i assume "i < length (map (planWorkload lib spec) vs)"
    then have i: "i < length vs" "i < length ?items" using arg_cong [OF keys, of length] by simp_all
    have "vs ! i \<in> set (MatchWorkloads lib vms (spec_Workloads spec))"
      using nth_mem [OF i(1)] ms by (metis set_mset_mset)
    from planWorkload_matched [OF this] obtain w where w: "planWorkload lib spec (vs ! i) = Some w" by blast
    have "w \<in> set ?ws" using w \<open>vs ! i \<in> _\<close> planned_member by blast
    moreover have "?items ! i \<in> set ?ws" using items nth_mem [OF i(2)] by blast
    moreover have "pw_VMID w = pw_VMID (?items ! i)"
      using planWorkload_fields [OF w] keys i by (metis nth_map)
    ultimately have "w = ?items ! i" using dist by (auto simp: distinct_map inj_on_def)
    then show "map (planWorkload lib spec) vs ! i = map Some ?items ! i" using w i by simp
  qed
qed

end
