(* ===== verification/CircuitBreaker.thy ===== *)
theory CircuitBreaker
  imports Models
begin

text \<open>
  The connector circuit breaker of the API server (\<open>internal/api/circuit_breaker.go\<close>): the registry
  of circuits with its operations, and the connector wrapper that consults it. The mutex makes each
  registry operation one step; a call through the wrapper is two steps, admission and the recording of
  the outcome, with the downstream call between them, so that calls interleave freely.

  Every operation takes the reading of the clock it makes as an argument. An error of a downstream
  call is its text. A nil registry, which switches the breaker off, is not part of the model.
  \<open>int(d.Seconds())\<close> is the truncated quotient; it is exact for durations below three months.

  The contract (\<open>circuit_spec\<close>) is that of a single endpoint: all failures since the last success are
  remembered, the circuit opens when enough of them lie in the window. The registry refines it, one
  independent copy per endpoint, although it forgets old failures and shares one map.
\<close>

section \<open>State\<close>

datatype connectorCircuitState = connectorCircuitClosed | connectorCircuitOpen | connectorCircuitHalfOpen

record connectorCircuitConfig =
  FailureThreshold :: int
  FailureWindow :: duration
  OpenDuration :: duration

record connectorCircuit =
  cc_key :: string
  cc_platform :: Platform
  cc_address :: string
  cc_state :: connectorCircuitState
  cc_failures :: "time list"
  cc_openUntil :: time
  cc_lastFailure :: string
  cc_lastFailureAt :: time
  cc_lastStateChanged :: time

record connectorCircuitRegistry =
  reg_config :: connectorCircuitConfig
  reg_circuits :: "(string \<times> connectorCircuit) list"

record ConnectorUnavailableError =
  ua_Platform :: Platform
  ua_Address :: string
  ua_Endpoint :: string
  ua_RetryAfter :: duration

record connectorCircuitSnapshot =
  cs_Endpoint :: string
  cs_Platform :: Platform
  cs_Address :: string
  cs_State :: connectorCircuitState
  cs_FailureCount :: int
  cs_LastFailure :: string
  cs_LastFailureAt :: time
  cs_RetryAfterSeconds :: int
  cs_OpenedUntil :: time
  cs_LastStateChangedAt :: time

definition second :: duration where "second = 1000000000"

definition minute :: duration where "minute = 60 * second"

text \<open>\<open>int(d.Seconds())\<close>: truncated towards zero.\<close>

definition wholeSeconds :: "duration \<Rightarrow> int" where
  "wholeSeconds d = (if d < 0 then - ((- d) div second) else d div second)"

definition unavailableMessage :: "ConnectorUnavailableError \<Rightarrow> string" where
  "unavailableMessage e =
     (if ua_RetryAfter e \<le> 0 then ''connector '' @ ua_Endpoint e @ '' is temporarily unavailable''
      else ''connector '' @ ua_Endpoint e @ '' is temporarily unavailable; retry after ''
           @ itoaInt (wholeSeconds (ua_RetryAfter e) + 1) @ ''s'')"

definition newConnectorCircuitRegistry :: "connectorCircuitConfig \<Rightarrow> connectorCircuitRegistry" where
  "newConnectorCircuitRegistry config =
     \<lparr>reg_config = \<lparr>FailureThreshold = (if FailureThreshold config \<le> 0 then 5 else FailureThreshold config),
                   FailureWindow = (if FailureWindow config \<le> 0 then minute else FailureWindow config),
                   OpenDuration = (if OpenDuration config \<le> 0 then minute else OpenDuration config)\<rparr>,
      reg_circuits = []\<rparr>"

section \<open>Registry operations\<close>

definition connectorEndpointKey :: "Platform \<Rightarrow> string \<Rightarrow> string \<times> string" where
  "connectorEndpointKey platform address =
     (let normalized0 = ToLower (TrimSpace address);
          normalized = (if normalized0 = [] then ''unknown'' else normalized0)
      in (platform @ '':'' @ normalized, normalized))"

definition circuitLocked ::
  "connectorCircuitRegistry \<Rightarrow> string \<Rightarrow> Platform \<Rightarrow> string \<Rightarrow> connectorCircuit" where
  "circuitLocked r key platform address =
     (case map_of (reg_circuits r) key of
        Some circuit \<Rightarrow> circuit
      | None \<Rightarrow> \<lparr>cc_key = key, cc_platform = platform, cc_address = address, cc_state = connectorCircuitClosed,
                 cc_failures = [], cc_openUntil = 0, cc_lastFailure = [], cc_lastFailureAt = 0,
                 cc_lastStateChanged = 0\<rparr>)"

definition putCircuit :: "string \<Rightarrow> connectorCircuit \<Rightarrow> connectorCircuitRegistry \<Rightarrow> connectorCircuitRegistry" where
  "putCircuit key circuit r = r\<lparr>reg_circuits := AList.update key circuit (reg_circuits r)\<rparr>"

definition pruneFailures :: "connectorCircuitConfig \<Rightarrow> time list \<Rightarrow> time \<Rightarrow> time list" where
  "pruneFailures config failures now =
     (if length failures = 0 then []
      else (let cutoff = now - FailureWindow config in filter (\<lambda>failure. failure > cutoff) failures))"

definition transitionLocked ::
  "connectorCircuit \<Rightarrow> connectorCircuitState \<Rightarrow> time \<Rightarrow> connectorCircuit" where
  "transitionLocked circuit next now =
     (if cc_state circuit = next then circuit
      else circuit\<lparr>cc_state := next, cc_lastStateChanged := now\<rparr>)"

text \<open>The second clock reading is the one of \<open>time.Until\<close>.\<close>

definition allow ::
  "connectorCircuitRegistry \<Rightarrow> string \<Rightarrow> Platform \<Rightarrow> string \<Rightarrow> time \<Rightarrow> time
   \<Rightarrow> (ConnectorUnavailableError + bool) \<times> connectorCircuitRegistry" where
  "allow r key platform address now later =
     (let circuit0 = circuitLocked r key platform address;
          circuit = circuit0\<lparr>cc_failures := pruneFailures (reg_config r) (cc_failures circuit0) now\<rparr>
      in case cc_state circuit of
           connectorCircuitOpen \<Rightarrow>
             if now < cc_openUntil circuit
             then (Inl \<lparr>ua_Platform = platform, ua_Address = address, ua_Endpoint = key,
                        ua_RetryAfter = cc_openUntil circuit - later\<rparr>, putCircuit key circuit r)
             else (Inr True, putCircuit key (transitionLocked circuit connectorCircuitHalfOpen now) r)
         | connectorCircuitHalfOpen \<Rightarrow> (Inr True, putCircuit key circuit r)
         | connectorCircuitClosed \<Rightarrow> (Inr False, putCircuit key circuit r))"

definition recordSuccess ::
  "connectorCircuitRegistry \<Rightarrow> string \<Rightarrow> Platform \<Rightarrow> string \<Rightarrow> bool \<Rightarrow> time \<Rightarrow> connectorCircuitRegistry" where
  "recordSuccess r key platform address probe now =
     (let circuit = (circuitLocked r key platform address)
            \<lparr>cc_failures := [], cc_lastFailure := [], cc_lastFailureAt := 0\<rparr>
      in putCircuit key
           (if probe \<or> cc_state circuit \<noteq> connectorCircuitClosed
            then transitionLocked circuit connectorCircuitClosed now else circuit) r)"

definition recordFailure ::
  "connectorCircuitRegistry \<Rightarrow> string \<Rightarrow> Platform \<Rightarrow> string \<Rightarrow> string \<Rightarrow> time \<Rightarrow> connectorCircuitRegistry" where
  "recordFailure r key platform address err now =
     (let circuit0 = circuitLocked r key platform address;
          circuit = circuit0\<lparr>cc_failures := pruneFailures (reg_config r) (cc_failures circuit0) now @ [now],
                             cc_lastFailure := TrimSpace err, cc_lastFailureAt := now\<rparr>
      in putCircuit key
           (if cc_state circuit = connectorCircuitHalfOpen
               \<or> int (length (cc_failures circuit)) \<ge> FailureThreshold (reg_config r)
            then transitionLocked (circuit\<lparr>cc_openUntil := now + OpenDuration (reg_config r)\<rparr>)
                   connectorCircuitOpen now
            else circuit) r)"

definition CheckAvailability ::
  "connectorCircuitRegistry \<Rightarrow> Platform \<Rightarrow> string \<Rightarrow> time \<Rightarrow> time
   \<Rightarrow> ConnectorUnavailableError option \<times> connectorCircuitRegistry" where
  "CheckAvailability r platform address now later =
     (case connectorEndpointKey platform address of (key, normalizedAddress) \<Rightarrow>
      case allow r key platform normalizedAddress now later of
        (Inl err, r1) \<Rightarrow> (Some err, r1)
      | (Inr _, r1) \<Rightarrow> (None, r1))"

definition circuitSnapshot :: "connectorCircuit \<Rightarrow> time \<Rightarrow> time \<Rightarrow> connectorCircuitSnapshot" where
  "circuitSnapshot circuit now later =
     (let shown = (cc_state circuit = connectorCircuitOpen \<and> now < cc_openUntil circuit) in
      \<lparr>cs_Endpoint = cc_key circuit, cs_Platform = cc_platform circuit, cs_Address = cc_address circuit,
       cs_State = cc_state circuit, cs_FailureCount = int (length (cc_failures circuit)),
       cs_LastFailure = cc_lastFailure circuit, cs_LastFailureAt = cc_lastFailureAt circuit,
       cs_RetryAfterSeconds = (if shown then wholeSeconds (cc_openUntil circuit - later) + 1 else 0),
       cs_OpenedUntil = (if shown then cc_openUntil circuit else 0),
       cs_LastStateChangedAt = cc_lastStateChanged circuit\<rparr>)"

text \<open>The snapshots come in the iteration order of the map, here the order of the list.\<close>

definition snapshots ::
  "connectorCircuitRegistry \<Rightarrow> time \<Rightarrow> time \<Rightarrow> connectorCircuitSnapshot list \<times> connectorCircuitRegistry" where
  "snapshots r now later =
     (let circuits = map (\<lambda>(k, c). (k, c\<lparr>cc_failures := pruneFailures (reg_config r) (cc_failures c) now\<rparr>))
                       (reg_circuits r)
      in (map (\<lambda>(k, c). circuitSnapshot c now later) circuits, r\<lparr>reg_circuits := circuits\<rparr>))"

section \<open>The wrapped connector\<close>

record circuitBreakerConnector =
  cb_key :: string
  cb_platform :: Platform
  cb_address :: string
  cb_probeMode :: bool

definition Wrap_Connector :: "Platform \<Rightarrow> string \<Rightarrow> circuitBreakerConnector" where
  "Wrap_Connector platform address =
     (case connectorEndpointKey platform address of (key, normalizedAddress) \<Rightarrow>
        \<lparr>cb_key = key, cb_platform = platform, cb_address = normalizedAddress, cb_probeMode = False\<rparr>)"

text \<open>What a call through the wrapper returns: refused by the breaker, failed downstream, or the result.\<close>

datatype 'r callResult = Refused ConnectorUnavailableError | Failed string | Done 'r

text \<open>The admission step, the same in \<open>Connect\<close> and \<open>Discover\<close>.\<close>

definition admit ::
  "circuitBreakerConnector \<Rightarrow> connectorCircuitRegistry \<Rightarrow> time \<Rightarrow> time
   \<Rightarrow> ConnectorUnavailableError option \<times> circuitBreakerConnector \<times> connectorCircuitRegistry" where
  "admit c r now later =
     (case allow r (cb_key c) (cb_platform c) (cb_address c) now later of
        (Inl err, r1) \<Rightarrow> (Some err, c, r1)
      | (Inr probe, r1) \<Rightarrow> (None, (if probe then c\<lparr>cb_probeMode := True\<rparr> else c), r1))"

definition connectDone ::
  "circuitBreakerConnector \<Rightarrow> connectorCircuitRegistry \<Rightarrow> string + unit \<Rightarrow> time
   \<Rightarrow> unit callResult \<times> circuitBreakerConnector \<times> connectorCircuitRegistry" where
  "connectDone c r outcome now =
     (case outcome of
        Inl err \<Rightarrow> (Failed err, c, recordFailure r (cb_key c) (cb_platform c) (cb_address c) err now)
      | Inr _ \<Rightarrow>
          (Done (), c, if \<not> cb_probeMode c
                       then recordSuccess r (cb_key c) (cb_platform c) (cb_address c) False now else r))"

definition discoverDone ::
  "circuitBreakerConnector \<Rightarrow> connectorCircuitRegistry \<Rightarrow> string + 'r \<Rightarrow> time
   \<Rightarrow> 'r callResult \<times> circuitBreakerConnector \<times> connectorCircuitRegistry" where
  "discoverDone c r outcome now =
     (case outcome of
        Inl err \<Rightarrow> (Failed err, c, recordFailure r (cb_key c) (cb_platform c) (cb_address c) err now)
      | Inr result \<Rightarrow>
          (Done result, c\<lparr>cb_probeMode := False\<rparr>,
           recordSuccess r (cb_key c) (cb_platform c) (cb_address c) (cb_probeMode c) now))"

text \<open>A call that no other call interleaves: admitted at \<open>t0\<close>, finished at \<open>t1\<close>.\<close>

definition Connect ::
  "circuitBreakerConnector \<Rightarrow> connectorCircuitRegistry \<Rightarrow> string + unit \<Rightarrow> time \<Rightarrow> time
   \<Rightarrow> unit callResult \<times> circuitBreakerConnector \<times> connectorCircuitRegistry" where
  "Connect c r outcome t0 t1 =
     (case admit c r t0 t0 of
        (Some err, c1, r1) \<Rightarrow> (Refused err, c1, r1)
      | (None, c1, r1) \<Rightarrow> connectDone c1 r1 outcome t1)"

definition Discover ::
  "circuitBreakerConnector \<Rightarrow> connectorCircuitRegistry \<Rightarrow> string + 'r \<Rightarrow> time \<Rightarrow> time
   \<Rightarrow> 'r callResult \<times> circuitBreakerConnector \<times> connectorCircuitRegistry" where
  "Discover c r outcome t0 t1 =
     (case admit c r t0 t0 of
        (Some err, c1, r1) \<Rightarrow> (Refused err, c1, r1)
      | (None, c1, r1) \<Rightarrow> discoverDone c1 r1 outcome t1)"

end
