(* ===== verification/CircuitCorrect.thy ===== *)
theory CircuitCorrect
  imports CircuitBreaker
begin

text \<open>
  The contract of the circuit breaker and its proofs. \<open>circuit_spec\<close> is the breaker of one endpoint as
  its documentation has it; \<open>specStep\<close> runs one copy per endpoint. The registry simulates it on every
  interleaving of registry operations whose clock readings do not go back.
\<close>

section \<open>Operations as events\<close>

datatype circuitOp = OpAllow time | OpSuccess bool | OpFailure string

record circuitEvent =
  ev_time :: time
  ev_key :: string
  ev_platform :: Platform
  ev_address :: string
  ev_op :: circuitOp

type_synonym admission = "(ConnectorUnavailableError + bool) option"

definition registryStep ::
  "connectorCircuitRegistry \<Rightarrow> circuitEvent \<Rightarrow> admission \<times> connectorCircuitRegistry" where
  "registryStep r e =
     (case ev_op e of
        OpAllow later \<Rightarrow>
          (case allow r (ev_key e) (ev_platform e) (ev_address e) (ev_time e) later of (a, r1) \<Rightarrow> (Some a, r1))
      | OpSuccess probe \<Rightarrow> (None, recordSuccess r (ev_key e) (ev_platform e) (ev_address e) probe (ev_time e))
      | OpFailure err \<Rightarrow> (None, recordFailure r (ev_key e) (ev_platform e) (ev_address e) err (ev_time e)))"

section \<open>The contract\<close>

datatype circuitMode = Closed | OpenUntil time | HalfOpen

text \<open>One endpoint: the mode, and every failure since the last success.\<close>

record circuitSpec =
  spc_mode :: circuitMode
  spc_failures :: "time list"

record breakerSpec =
  bs_config :: connectorCircuitConfig
  bs_circuits :: "string \<Rightarrow> circuitSpec"

definition recent :: "connectorCircuitConfig \<Rightarrow> time \<Rightarrow> time list \<Rightarrow> time list" where
  "recent config now fs = filter (\<lambda>f. f > now - FailureWindow config) fs"

definition specAllow :: "time \<Rightarrow> circuitSpec \<Rightarrow> circuitSpec" where
  "specAllow now c =
     (case spc_mode c of
        OpenUntil u \<Rightarrow> if now < u then c else c\<lparr>spc_mode := HalfOpen\<rparr>
      | _ \<Rightarrow> c)"

definition specAnswer :: "circuitEvent \<Rightarrow> time \<Rightarrow> circuitSpec \<Rightarrow> ConnectorUnavailableError + bool" where
  "specAnswer e later c =
     (case spc_mode c of
        OpenUntil u \<Rightarrow>
          if ev_time e < u
          then Inl \<lparr>ua_Platform = ev_platform e, ua_Address = ev_address e, ua_Endpoint = ev_key e,
                    ua_RetryAfter = u - later\<rparr>
          else Inr True
      | HalfOpen \<Rightarrow> Inr True
      | Closed \<Rightarrow> Inr False)"

definition specSuccess :: "circuitSpec \<Rightarrow> circuitSpec" where
  "specSuccess c = c\<lparr>spc_mode := Closed, spc_failures := []\<rparr>"

definition specFailure :: "connectorCircuitConfig \<Rightarrow> time \<Rightarrow> circuitSpec \<Rightarrow> circuitSpec" where
  "specFailure config now c =
     (let fs = spc_failures c @ [now] in
      c\<lparr>spc_failures := fs,
        spc_mode := (if spc_mode c = HalfOpen \<or> int (length (recent config now fs)) \<ge> FailureThreshold config
                     then OpenUntil (now + OpenDuration config) else spc_mode c)\<rparr>)"

definition specStep :: "breakerSpec \<Rightarrow> circuitEvent \<Rightarrow> admission \<times> breakerSpec" where
  "specStep b e =
     (let c = bs_circuits b (ev_key e);
          put = (\<lambda>c1. b\<lparr>bs_circuits := (bs_circuits b)(ev_key e := c1)\<rparr>)
      in case ev_op e of
           OpAllow later \<Rightarrow> (Some (specAnswer e later c), put (specAllow (ev_time e) c))
         | OpSuccess probe \<Rightarrow> (None, put (specSuccess c))
         | OpFailure err \<Rightarrow> (None, put (specFailure (bs_config b) (ev_time e) c)))"

definition specInit :: "connectorCircuitConfig \<Rightarrow> breakerSpec" where
  "specInit config =
     \<lparr>bs_config = config, bs_circuits = (\<lambda>_. \<lparr>spc_mode = Closed, spc_failures = []\<rparr>)\<rparr>"

section \<open>Timed simulation\<close>

text \<open>Runs of a machine that answers events.\<close>

fun runEvents :: "('s \<Rightarrow> 'e \<Rightarrow> 'o \<times> 's) \<Rightarrow> 's \<Rightarrow> 'e list \<Rightarrow> 'o list \<times> 's" where
  "runEvents f s [] = ([], s)"
| "runEvents f s (e # es) =
     (case f s e of (out, s1) \<Rightarrow> case runEvents f s1 es of (outs, s2) \<Rightarrow> (out # outs, s2))"

lemma runEvents_append:
  "runEvents f s (es @ es') =
     (fst (runEvents f s es) @ fst (runEvents f (snd (runEvents f s es)) es'),
      snd (runEvents f (snd (runEvents f s es)) es'))"
  by (induction es arbitrary: s) (auto split: prod.splits)

text \<open>
  A relation between a concrete and an abstract machine that holds from a point in time on, and that
  every event that is not earlier preserves, with equal answers.
\<close>

locale timed_simulation =
  fixes cstep :: "'c \<Rightarrow> 'e \<Rightarrow> 'o \<times> 'c"
    and astep :: "'a \<Rightarrow> 'e \<Rightarrow> 'o \<times> 'a"
    and at :: "'e \<Rightarrow> time"
    and rel :: "time \<Rightarrow> 'c \<Rightarrow> 'a \<Rightarrow> bool"
  assumes answer: "rel t c a \<Longrightarrow> t \<le> at e \<Longrightarrow> fst (cstep c e) = fst (astep a e)"
    and related: "rel t c a \<Longrightarrow> t \<le> at e \<Longrightarrow> rel (at e) (snd (cstep c e)) (snd (astep a e))"
begin

lemma run_related:
  "rel t c a \<Longrightarrow> sorted (t # map at es) \<Longrightarrow>
     fst (runEvents cstep c es) = fst (runEvents astep a es)
     \<and> rel (last (t # map at es)) (snd (runEvents cstep c es)) (snd (runEvents astep a es))"
proof (induction es arbitrary: t c a)
  case Nil
  then show ?case by simp
next
  case (Cons e es)
  then have le: "t \<le> at e" and s: "sorted (at e # map at es)" by auto
  from Cons.IH [OF related [OF Cons.prems(1) le] s] answer [OF Cons.prems(1) le]
  show ?case by (auto split: prod.splits)
qed

end

section \<open>The registry simulates the contract\<close>

definition modeOf :: "connectorCircuit \<Rightarrow> circuitMode" where
  "modeOf c =
     (case cc_state c of
        connectorCircuitClosed \<Rightarrow> Closed
      | connectorCircuitOpen \<Rightarrow> OpenUntil (cc_openUntil c)
      | connectorCircuitHalfOpen \<Rightarrow> HalfOpen)"

text \<open>The failures of the circuit and of the contract agree on every window that ends at \<open>t\<close> or later.\<close>

definition circuit_rel :: "connectorCircuitConfig \<Rightarrow> time \<Rightarrow> connectorCircuit \<Rightarrow> circuitSpec \<Rightarrow> bool" where
  "circuit_rel config t c a =
     (modeOf c = spc_mode a \<and> (\<forall>t' \<ge> t. recent config t' (cc_failures c) = recent config t' (spc_failures a)))"

definition breaker_rel :: "time \<Rightarrow> connectorCircuitRegistry \<Rightarrow> breakerSpec \<Rightarrow> bool" where
  "breaker_rel t r b =
     (bs_config b = reg_config r \<and> FailureWindow (reg_config r) > 0
      \<and> (\<forall>k p a. circuit_rel (reg_config r) t (circuitLocked r k p a) (bs_circuits b k)))"

lemma pruneFailures_recent: "pruneFailures config fs now = recent config now fs"
  by (cases fs) (auto simp: pruneFailures_def recent_def Let_def)

lemma recent_recent: "t \<le> t' \<Longrightarrow> recent config t' (recent config t fs) = recent config t' fs"
  by (auto simp: recent_def intro!: filter_cong)

lemma recent_append: "recent config t (fs @ gs) = recent config t fs @ recent config t gs"
  by (simp add: recent_def)

lemma circuitLocked_put:
  "circuitLocked (putCircuit key c r) k p a = (if k = key then c else circuitLocked r k p a)"
  by (auto simp: circuitLocked_def putCircuit_def)

lemma reg_config_put [simp]: "reg_config (putCircuit key c r) = reg_config r"
  by (simp add: putCircuit_def)

lemma circuit_rel_later: "circuit_rel config t c a \<Longrightarrow> t \<le> t' \<Longrightarrow> circuit_rel config t' c a"
  by (auto simp: circuit_rel_def)

lemma breaker_rel_later: "breaker_rel t r b \<Longrightarrow> t \<le> t' \<Longrightarrow> breaker_rel t' r b"
  unfolding breaker_rel_def using circuit_rel_later by blast

lemma breaker_rel_put:
  assumes "breaker_rel t r b" "t \<le> t'" "circuit_rel (reg_config r) t' c a"
  shows "breaker_rel t' (putCircuit key c r) (b\<lparr>bs_circuits := (bs_circuits b)(key := a)\<rparr>)"
  using assms by (auto simp: breaker_rel_def circuitLocked_put intro: circuit_rel_later)

lemma modeOf_transition:
  "modeOf (transitionLocked c connectorCircuitClosed now) = Closed"
  "modeOf (transitionLocked c connectorCircuitHalfOpen now) = HalfOpen"
  "modeOf (transitionLocked c connectorCircuitOpen now) = OpenUntil (cc_openUntil c)"
  by (simp_all add: modeOf_def transitionLocked_def)

lemma cc_failures_transition [simp]: "cc_failures (transitionLocked c st now) = cc_failures c"
  by (simp add: transitionLocked_def)

lemma allow_related:
  assumes "breaker_rel t r b" "t \<le> ev_time e"
  shows "fst (allow r (ev_key e) (ev_platform e) (ev_address e) (ev_time e) later)
      = specAnswer e later (bs_circuits b (ev_key e))"
    and "breaker_rel (ev_time e) (snd (allow r (ev_key e) (ev_platform e) (ev_address e) (ev_time e) later))
      (b\<lparr>bs_circuits := (bs_circuits b)(ev_key e := specAllow (ev_time e) (bs_circuits b (ev_key e)))\<rparr>)"
proof -
  define c0 where "c0 = circuitLocked r (ev_key e) (ev_platform e) (ev_address e)"
  define c where "c = c0\<lparr>cc_failures := pruneFailures (reg_config r) (cc_failures c0) (ev_time e)\<rparr>"
  let ?a = "bs_circuits b (ev_key e)"
  have "circuit_rel (reg_config r) t c0 ?a" using assms(1) by (simp add: breaker_rel_def c0_def)
  then have rel: "circuit_rel (reg_config r) (ev_time e) c ?a"
    using assms(2) by (auto simp: circuit_rel_def c_def pruneFailures_recent recent_recent modeOf_def
        cong: connectorCircuitState.case_cong)
  then have mode: "modeOf c = spc_mode ?a" by (simp add: circuit_rel_def)
  have half: "circuit_rel (reg_config r) (ev_time e) (transitionLocked c connectorCircuitHalfOpen (ev_time e))
      (?a\<lparr>spc_mode := HalfOpen\<rparr>)"
    using rel by (simp add: circuit_rel_def modeOf_transition)
  have step: "allow r (ev_key e) (ev_platform e) (ev_address e) (ev_time e) later =
      (case cc_state c of
         connectorCircuitOpen \<Rightarrow>
           if ev_time e < cc_openUntil c
           then (Inl \<lparr>ua_Platform = ev_platform e, ua_Address = ev_address e, ua_Endpoint = ev_key e,
                      ua_RetryAfter = cc_openUntil c - later\<rparr>, putCircuit (ev_key e) c r)
           else (Inr True, putCircuit (ev_key e) (transitionLocked c connectorCircuitHalfOpen (ev_time e)) r)
       | connectorCircuitHalfOpen \<Rightarrow> (Inr True, putCircuit (ev_key e) c r)
       | connectorCircuitClosed \<Rightarrow> (Inr False, putCircuit (ev_key e) c r))"
    by (simp only: allow_def Let_def c_def c0_def)
  show "fst (allow r (ev_key e) (ev_platform e) (ev_address e) (ev_time e) later) = specAnswer e later ?a"
    unfolding step specAnswer_def mode [symmetric]
    by (auto simp: modeOf_def split: connectorCircuitState.splits)
  show "breaker_rel (ev_time e) (snd (allow r (ev_key e) (ev_platform e) (ev_address e) (ev_time e) later))
      (b\<lparr>bs_circuits := (bs_circuits b)(ev_key e := specAllow (ev_time e) ?a)\<rparr>)"
    using breaker_rel_put [OF assms rel, of "ev_key e"] breaker_rel_put [OF assms half, of "ev_key e"]
    unfolding step specAllow_def mode [symmetric]
    by (auto simp: modeOf_def split: connectorCircuitState.splits)
qed

lemma success_related:
  assumes "breaker_rel t r b" "t \<le> now"
  shows "breaker_rel now (recordSuccess r key p a probe now)
      (b\<lparr>bs_circuits := (bs_circuits b)(key := specSuccess (bs_circuits b key))\<rparr>)"
proof -
  define c where "c = (circuitLocked r key p a)\<lparr>cc_failures := [], cc_lastFailure := [], cc_lastFailureAt := 0\<rparr>"
  let ?c = "if probe \<or> cc_state c \<noteq> connectorCircuitClosed then transitionLocked c connectorCircuitClosed now else c"
  have "circuit_rel (reg_config r) now ?c (specSuccess (bs_circuits b key))"
    by (simp add: circuit_rel_def specSuccess_def modeOf_transition c_def) (simp add: modeOf_def)
  from breaker_rel_put [OF assms this, of key] show ?thesis
    by (simp only: recordSuccess_def Let_def c_def)
qed

lemma failure_related:
  assumes "breaker_rel t r b" "t \<le> now"
  shows "breaker_rel now (recordFailure r key p a err now)
      (b\<lparr>bs_circuits := (bs_circuits b)(key := specFailure (bs_config b) now (bs_circuits b key))\<rparr>)"
proof -
  let ?cfg = "reg_config r"
  define c0 where "c0 = circuitLocked r key p a"
  define c where "c = c0\<lparr>cc_failures := pruneFailures ?cfg (cc_failures c0) now @ [now],
      cc_lastFailure := TrimSpace err, cc_lastFailureAt := now\<rparr>"
  let ?opened = "transitionLocked (c\<lparr>cc_openUntil := now + OpenDuration ?cfg\<rparr>) connectorCircuitOpen now"
  let ?spec = "bs_circuits b key"
  let ?fs = "spc_failures ?spec @ [now]"
  have rel0: "circuit_rel ?cfg t c0 ?spec" and cfg: "bs_config b = ?cfg"
    using assms(1) by (simp_all add: breaker_rel_def c0_def)
  then have mode: "modeOf c = spc_mode ?spec"
    by (simp add: circuit_rel_def c_def modeOf_def cong: connectorCircuitState.case_cong)
  have fs: "recent ?cfg t' (cc_failures c) = recent ?cfg t' ?fs" if "now \<le> t'" for t'
    using rel0 assms(2) that
    by (simp add: circuit_rel_def c_def pruneFailures_recent recent_recent recent_append)
  have all_recent: "recent ?cfg now (cc_failures c) = cc_failures c"
    using assms(1) by (simp add: c_def pruneFailures_recent recent_append recent_recent)
      (simp add: recent_def breaker_rel_def)
  then have count: "length (recent ?cfg now ?fs) = length (cc_failures c)" using fs [of now] by simp
  have half: "cc_state c = connectorCircuitHalfOpen \<longleftrightarrow> spc_mode ?spec = HalfOpen"
    unfolding mode [symmetric] by (simp add: modeOf_def split: connectorCircuitState.splits)
  let ?c = "if cc_state c = connectorCircuitHalfOpen \<or> int (length (cc_failures c)) \<ge> FailureThreshold ?cfg
      then ?opened else c"
  have "circuit_rel ?cfg now ?c (specFailure (bs_config b) now ?spec)"
    using fs mode half count
    by (auto simp: circuit_rel_def specFailure_def Let_def modeOf_transition cfg)
  from breaker_rel_put [OF assms this, of key] show ?thesis
    by (simp only: recordFailure_def Let_def c_def c0_def)
qed

lemma registryStep_related:
  assumes "breaker_rel t r b" "t \<le> ev_time e"
  shows "fst (registryStep r e) = fst (specStep b e)"
    and "breaker_rel (ev_time e) (snd (registryStep r e)) (snd (specStep b e))"
  using allow_related [OF assms] success_related [OF assms] failure_related [OF assms]
  by (auto simp: registryStep_def specStep_def Let_def case_prod_beta split: circuitOp.splits)

interpretation breaker: timed_simulation registryStep specStep ev_time breaker_rel
  by unfold_locales (blast intro: registryStep_related)+

lemma breaker_rel_init:
  "breaker_rel t (newConnectorCircuitRegistry config) (specInit (reg_config (newConnectorCircuitRegistry config)))"
  by (auto simp: breaker_rel_def newConnectorCircuitRegistry_def specInit_def circuit_rel_def circuitLocked_def
      modeOf_def minute_def second_def)

abbreviation registryAfter :: "connectorCircuitConfig \<Rightarrow> circuitEvent list \<Rightarrow> connectorCircuitRegistry" where
  "registryAfter config es \<equiv> snd (runEvents registryStep (newConnectorCircuitRegistry config) es)"

abbreviation specAfter :: "connectorCircuitConfig \<Rightarrow> circuitEvent list \<Rightarrow> breakerSpec" where
  "specAfter config es \<equiv>
     snd (runEvents specStep (specInit (reg_config (newConnectorCircuitRegistry config))) es)"

lemma runEvents_snoc: "snd (runEvents f s (es @ [e])) = snd (f (snd (runEvents f s es)) e)"
  by (simp add: runEvents_append split: prod.splits)

lemma registryAfter_related:
  assumes "sorted (map ev_time es)" "\<forall>e \<in> set es. ev_time e \<le> t"
  shows "fst (runEvents registryStep (newConnectorCircuitRegistry config) es)
      = fst (runEvents specStep (specInit (reg_config (newConnectorCircuitRegistry config))) es)"
    and "breaker_rel t (registryAfter config es) (specAfter config es)"
proof -
  obtain t0 where "\<forall>e \<in> set es. t0 \<le> ev_time e" and "t0 \<le> t"
    using assms by (cases es) force+
  then have s: "sorted (t0 # map ev_time es)" and "last (t0 # map ev_time es) \<le> t"
    using assms by (cases es rule: rev_cases; auto)+
  with breaker.run_related [OF breaker_rel_init s, of config]
  show "fst (runEvents registryStep (newConnectorCircuitRegistry config) es)
      = fst (runEvents specStep (specInit (reg_config (newConnectorCircuitRegistry config))) es)"
    and "breaker_rel t (registryAfter config es) (specAfter config es)"
    using breaker_rel_later by blast+
qed

section \<open>Properties\<close>

text \<open>
  C11 (circuit_refinement): on every sequence of admissions, successes and failures of any endpoints
  whose clock readings do not go back, the registry gives exactly the answers of the contract, one
  independent breaker per endpoint that counts all failures since the last success in the window; and
  afterwards every circuit is in the mode of its contract.
\<close>

theorem circuit_refinement:
  assumes "sorted (map ev_time es)"
  shows "fst (runEvents registryStep (newConnectorCircuitRegistry config) es)
         = fst (runEvents specStep (specInit (reg_config (newConnectorCircuitRegistry config))) es)
       \<and> (\<forall>k p a. modeOf (circuitLocked (registryAfter config es) k p a)
            = spc_mode (bs_circuits (specAfter config es) k))"
proof -
  have "\<forall>e \<in> set es. ev_time e \<le> Max (ev_time ` set es)" by auto
  from registryAfter_related [OF assms this, of config]
  show ?thesis by (simp add: breaker_rel_def circuit_rel_def)
qed

text \<open>What the contract keeps on every run.\<close>

lemma specStep_config [simp]: "bs_config (snd (specStep b e)) = bs_config b"
  by (simp add: specStep_def Let_def split: circuitOp.splits)

lemma specAfter_config [simp]:
  "bs_config (snd (runEvents specStep b es)) = bs_config b"
  by (induction es rule: rev_induct) (simp_all add: runEvents_snoc)

lemma spec_open_bound:
  assumes "spc_mode (bs_circuits (specAfter config es) k) = OpenUntil u"
  shows "\<exists>e \<in> set es. u = ev_time e + OpenDuration (reg_config (newConnectorCircuitRegistry config))"
  using assms
proof (induction es rule: rev_induct)
  case Nil
  then show ?case by (simp add: specInit_def)
next
  case (snoc e es)
  let ?b = "specAfter config es"
  have "spc_mode (bs_circuits (snd (specStep ?b e)) k) = OpenUntil u" using snoc.prems by (simp add: runEvents_snoc)
  then have "spc_mode (bs_circuits ?b k) = OpenUntil u
      \<or> u = ev_time e + OpenDuration (bs_config ?b)"
    by (auto simp: specStep_def Let_def specAllow_def specSuccess_def specFailure_def
        split: circuitOp.splits circuitMode.splits if_splits)
  with snoc.IH show ?case by (auto simp: specInit_def)
qed

lemma recordSuccess_closed:
  "cc_state (circuitLocked (recordSuccess r key p a probe now) key p' a') = connectorCircuitClosed"
  "cc_failures (circuitLocked (recordSuccess r key p a probe now) key p' a') = []"
  by (auto simp: recordSuccess_def circuitLocked_put transitionLocked_def Let_def)

lemma allow_closed:
  "cc_state (circuitLocked r key p a) = connectorCircuitClosed \<Longrightarrow> fst (allow r key p a now later) = Inr False"
  by (simp add: allow_def Let_def)

text \<open>
  C33 (circuit_recovers): whatever happened before, once the open duration has passed since the last
  recorded operation no call is refused; one discovery that succeeds then closes the circuit, forgets
  its failures, and the next call is admitted as an ordinary one.
\<close>

theorem circuit_recovers:
  assumes "sorted (map ev_time es)"
    and "\<forall>e \<in> set es. ev_time e + OpenDuration (reg_config (newConnectorCircuitRegistry config)) \<le> t0"
  shows "\<exists>c' r'. Discover c (registryAfter config es) (Inr result) t0 t1 = (Done result, c', r')
     \<and> cb_probeMode c' = False
     \<and> cc_state (circuitLocked r' (cb_key c) (cb_platform c) (cb_address c)) = connectorCircuitClosed
     \<and> cc_failures (circuitLocked r' (cb_key c) (cb_platform c) (cb_address c)) = []
     \<and> (\<forall>t2 later. fst (allow r' (cb_key c) (cb_platform c) (cb_address c) t2 later) = Inr False)"
proof -
  let ?r = "registryAfter config es" and ?cfg = "reg_config (newConnectorCircuitRegistry config)"
  let ?circ = "\<lambda>r. circuitLocked r (cb_key c) (cb_platform c) (cb_address c)"
  have "OpenDuration ?cfg > 0" by (simp add: newConnectorCircuitRegistry_def minute_def second_def)
  with assms(2) have "\<forall>e \<in> set es. ev_time e \<le> t0" by auto
  from registryAfter_related(2) [OF assms(1) this, of config]
  have "modeOf (?circ ?r) = spc_mode (bs_circuits (specAfter config es) (cb_key c))"
    by (simp add: breaker_rel_def circuit_rel_def)
  then have "cc_openUntil (?circ ?r) \<le> t0" if "cc_state (?circ ?r) = connectorCircuitOpen"
    using that spec_open_bound [of config es "cb_key c" "cc_openUntil (?circ ?r)"] assms(2)
    by (auto simp: modeOf_def)
  then have admitted: "\<exists>probe r1. allow ?r (cb_key c) (cb_platform c) (cb_address c) t0 t0 = (Inr probe, r1)"
    by (auto simp: allow_def Let_def split: connectorCircuitState.splits)
  then obtain probe r1 where a: "allow ?r (cb_key c) (cb_platform c) (cb_address c) t0 t0 = (Inr probe, r1)"
    by blast
  define c1 where "c1 = (if probe then c\<lparr>cb_probeMode := True\<rparr> else c)"
  define r' where "r' = recordSuccess r1 (cb_key c) (cb_platform c) (cb_address c) (cb_probeMode c1) t1"
  have "Discover c ?r (Inr result) t0 t1 = (Done result, c1\<lparr>cb_probeMode := False\<rparr>, r')"
    by (simp add: Discover_def admit_def a discoverDone_def c1_def r'_def)
  moreover have closed: "cc_state (?circ r') = connectorCircuitClosed" "cc_failures (?circ r') = []"
    by (simp_all add: r'_def recordSuccess_closed)
  moreover have "\<forall>t2 later. fst (allow r' (cb_key c) (cb_platform c) (cb_address c) t2 later) = Inr False"
    using allow_closed [OF closed(1)] by blast
  ultimately show ?thesis by simp
qed

text \<open>
  The failures of an endpoint that a stretch of events without a success of it adds to the contract.
\<close>

definition failureTimes :: "string \<Rightarrow> circuitEvent list \<Rightarrow> time list" where
  "failureTimes key es =
     map ev_time (filter (\<lambda>e. ev_key e = key \<and> (\<exists>err. ev_op e = OpFailure err)) es)"

definition noSuccess :: "string \<Rightarrow> circuitEvent list \<Rightarrow> bool" where
  "noSuccess key es = (\<forall>e \<in> set es. ev_key e = key \<longrightarrow> (\<forall>probe. ev_op e \<noteq> OpSuccess probe))"

lemma spec_failures_grow:
  assumes "noSuccess key es"
  shows "\<exists>old. spc_failures (bs_circuits (snd (runEvents specStep b es)) key) = old @ failureTimes key es"
  using assms
proof (induction es rule: rev_induct)
  case Nil
  then show ?case by (simp add: failureTimes_def)
next
  case (snoc e es)
  let ?b = "snd (runEvents specStep b es)"
  from snoc obtain old where "spc_failures (bs_circuits ?b key) = old @ failureTimes key es"
    by (auto simp: noSuccess_def)
  then have "spc_failures (bs_circuits (snd (specStep ?b e)) key) = old @ failureTimes key (es @ [e])"
    using snoc.prems
    by (cases "ev_op e") (auto simp: noSuccess_def failureTimes_def specStep_def Let_def specAllow_def
        specFailure_def split: circuitMode.splits)
  then show ?case by (auto simp: runEvents_snoc)
qed

text \<open>An open circuit of the contract refuses until its time, whatever fails meanwhile.\<close>

lemma spec_stays_open:
  assumes "noSuccess key es" "sorted (map ev_time es)" "\<forall>e \<in> set es. t \<le> ev_time e \<and> ev_time e < t + OpenDuration (bs_config b)"
    and "spc_mode (bs_circuits b key) = OpenUntil u" "t + OpenDuration (bs_config b) \<le> u"
    and "i < length es" "ev_key (es ! i) = key" "ev_op (es ! i) = OpAllow later"
  shows "\<exists>err. fst (runEvents specStep b es) ! i = Some (Inl err)"
  using assms
proof (induction es arbitrary: b u i)
  case Nil
  then show ?case by simp
next
  case (Cons e es)
  show ?case
  proof (cases i)
    case 0
    with Cons.prems show ?thesis
      by (auto simp: specStep_def specAnswer_def Let_def split: prod.splits)
  next
    case (Suc j)
    let ?b = "snd (specStep b e)"
    have "\<exists>u'. spc_mode (bs_circuits ?b key) = OpenUntil u' \<and> t + OpenDuration (bs_config b) \<le> u'"
      using Cons.prems(1,3-5)
      by (cases "ev_op e") (auto simp: noSuccess_def specStep_def Let_def specAllow_def specFailure_def)
    then obtain u' where "spc_mode (bs_circuits ?b key) = OpenUntil u'" "t + OpenDuration (bs_config b) \<le> u'" by blast
    with Cons.IH [of ?b u' j] Cons.prems Suc
    show ?thesis by (auto simp: noSuccess_def split: prod.splits)
  qed
qed

text \<open>
  When a failure is the one that makes the failures of an endpoint in the
  window reach the threshold, no success of the endpoint being recorded since, then every call to the
  endpoint is refused until the open duration has passed, whatever happens on other endpoints and
  whatever else fails, unless a call that was already under way is recorded as a success.
\<close>

theorem circuit_protects:
  assumes "sorted (map ev_time (pre @ es @ [e] @ rest))"
    and "noSuccess (ev_key e) (es @ rest)" "ev_op e = OpFailure err"
    and "FailureThreshold (reg_config (newConnectorCircuitRegistry config))
      \<le> int (length (filter (\<lambda>t. t > ev_time e - FailureWindow (reg_config (newConnectorCircuitRegistry config)))
           (failureTimes (ev_key e) (es @ [e]))))"
    and "\<forall>m \<in> set rest. ev_time m < ev_time e + OpenDuration (reg_config (newConnectorCircuitRegistry config))"
    and "i < length rest" "ev_key (rest ! i) = ev_key e" "ev_op (rest ! i) = OpAllow later"
  shows "\<exists>refusal. fst (runEvents registryStep (registryAfter config (pre @ es @ [e])) rest) ! i
     = Some (Inl refusal)"
proof -
  let ?cfg = "reg_config (newConnectorCircuitRegistry config)" and ?key = "ev_key e"
  let ?start = "specAfter config pre" and ?now = "specAfter config (pre @ es @ [e])"
  let ?before = "snd (runEvents specStep ?start es)"
  have b1: "?before = specAfter config (pre @ es)" by (simp add: runEvents_append)
  have step: "?now = snd (specStep ?before e)"
    unfolding b1 by (simp only: append_assoc [symmetric] runEvents_snoc)
  have cfg: "bs_config ?before = ?cfg" "bs_config ?now = ?cfg" by (simp_all add: specInit_def)
  obtain old where old: "spc_failures (bs_circuits ?before ?key) = old @ failureTimes ?key es"
    using spec_failures_grow [of ?key es ?start] assms(2) by (auto simp: noSuccess_def)
  have "int (length (recent ?cfg (ev_time e) (spc_failures (bs_circuits ?before ?key) @ [ev_time e])))
      \<ge> FailureThreshold ?cfg"
    using assms(3,4) unfolding old by (simp add: recent_def failureTimes_def)
  then have mode: "spc_mode (bs_circuits ?now ?key) = OpenUntil (ev_time e + OpenDuration ?cfg)"
    unfolding step using assms(3) cfg(1) by (simp add: specStep_def specFailure_def Let_def)
  have "sorted (map ev_time (pre @ es @ [e]))" and le: "\<forall>m \<in> set (pre @ es @ [e]). ev_time m \<le> ev_time e"
    and rest: "sorted (ev_time e # map ev_time rest)"
    using assms(1) by (auto simp: sorted_append)
  from breaker.run_related [OF registryAfter_related(2) [OF this(1,2)] rest, of config]
  have same: "fst (runEvents registryStep (registryAfter config (pre @ es @ [e])) rest)
      = fst (runEvents specStep ?now rest)" by blast
  show ?thesis unfolding same
    by (rule spec_stays_open [where key = ?key and t = "ev_time e" and u = "ev_time e + OpenDuration ?cfg"])
      (use assms(2,5-8) rest mode cfg(2) in \<open>auto simp: noSuccess_def\<close>)
qed

text \<open>
  A call admitted before the circuit opened and finished after it counts as a recovery: its success
  closes the circuit long before the open duration has passed.
\<close>

theorem late_success_closes:
  "let cfg = \<lparr>FailureThreshold = 1, FailureWindow = minute, OpenDuration = minute\<rparr>;
       ev = (\<lambda>t oper. \<lparr>ev_time = t, ev_key = ''kvm:host'', ev_platform = PlatformKVM, ev_address = ''host'', ev_op = oper\<rparr>)
   in fst (runEvents registryStep (newConnectorCircuitRegistry cfg)
        [ev 1 (OpAllow 1), ev 2 (OpAllow 2), ev 3 (OpFailure ''timeout''), ev 4 (OpSuccess False), ev 5 (OpAllow 5)])
      = [Some (Inr False), Some (Inr False), None, None, Some (Inr False)]"
  by code_simp

section \<open>Concrete runs\<close>

definition demoBreaker :: connectorCircuitConfig where
  "demoBreaker = \<lparr>FailureThreshold = 2, FailureWindow = minute, OpenDuration = minute\<rparr>"

definition demoEvent :: "time \<Rightarrow> circuitOp \<Rightarrow> circuitEvent" where
  "demoEvent t oper =
     \<lparr>ev_time = t, ev_key = ''kvm:host'', ev_platform = PlatformKVM, ev_address = ''host'', ev_op = oper\<rparr>"

definition demoRun :: "circuitEvent list" where
  "demoRun = [demoEvent 1 (OpAllow 1), demoEvent 2 (OpFailure ''timeout''), demoEvent 3 (OpAllow 3),
     demoEvent 4 (OpFailure ''timeout'')]"

lemma demoBreaker_config: "reg_config (newConnectorCircuitRegistry demoBreaker) = demoBreaker"
  by (simp add: newConnectorCircuitRegistry_def demoBreaker_def minute_def second_def)

lemma demoBreaker_sorted: "sorted (map ev_time demoRun)"
  by (simp add: demoRun_def demoEvent_def)

theorem circuit_refinement_witness:
  "modeOf (circuitLocked (registryAfter demoBreaker demoRun) ''kvm:host'' PlatformKVM ''host'')
   = OpenUntil (4 + minute)"
proof -
  have "spc_mode (bs_circuits (specAfter demoBreaker demoRun) ''kvm:host'') = OpenUntil (4 + minute)"
    by code_simp
  then show ?thesis using circuit_refinement [OF demoBreaker_sorted, of demoBreaker] by simp
qed

theorem circuit_recovers_witness:
  "\<exists>c' r'. Discover (Wrap_Connector PlatformKVM ''host'') (registryAfter demoBreaker demoRun) (Inr zeroDR)
     (4 + minute) (5 + minute) = (Done zeroDR, c', r')"
proof -
  have "\<forall>e \<in> set demoRun. ev_time e + OpenDuration (reg_config (newConnectorCircuitRegistry demoBreaker)) \<le> 4 + minute"
    unfolding demoBreaker_config by (simp add: demoRun_def demoEvent_def demoBreaker_def)
  from circuit_recovers [OF demoBreaker_sorted this, of "Wrap_Connector PlatformKVM ''host''" zeroDR "5 + minute"]
  show ?thesis by (elim exE conjE) (intro exI)
qed

theorem circuit_protects_witness:
  "\<exists>refusal. fst (runEvents registryStep
     (registryAfter demoBreaker ([demoEvent 1 (OpAllow 1)] @ [demoEvent 2 (OpFailure ''timeout'')]
        @ [demoEvent 4 (OpFailure ''timeout'')])) [demoEvent 5 (OpAllow 5)]) ! 0 = Some (Inl refusal)"
  by (rule circuit_protects [where err = "''timeout''" and later = 5], unfold demoBreaker_config)
    (simp_all add: demoEvent_def noSuccess_def failureTimes_def demoBreaker_def minute_def second_def)

end
