(* ===== verification/Replication.thy ===== *)
theory Replication
  imports Runtime
begin

text \<open>
  Warm replication of a disk image, \<open>internal/migrate/replication.go\<close>: the initial copy, the
  incremental rounds and the final round, with the persisted replication state.

  The disk images are files of a small file system (path to content). Every operation on a file is one
  step of the world: before it the guest may change files (\<open>os_guest\<close>, the source disk of a running
  machine), and it may fail (\<open>os_fail\<close>); a failing write may have written a part of its data
  (\<open>os_partial\<close>), and a read may be short (\<open>os_chunk\<close>). The context may be cancelled at any step. The
  answers are functions of the number of the step, so nothing is assumed about them.

  Throttling only lets time pass and is left out, as is the percentage of a progress report; \<open>math.Ceil\<close>
  of a quotient of sizes is integer division rounded up (exact below \<open>2^52\<close> bytes).
\<close>

section \<open>Data\<close>

type_synonym bytes = string
type_synonym files = "(string \<times> bytes) list"

definition replicationPhaseInitialCopy :: string where "replicationPhaseInitialCopy = ''initial-copy''"
definition replicationPhaseIncremental :: string where "replicationPhaseIncremental = ''incremental-sync''"
definition replicationPhaseFinalSync :: string where "replicationPhaseFinalSync = ''final-sync''"
definition replicationStateSpecName :: string where "replicationStateSpecName = ''warm-replication''"
definition defaultReplicationBlockSizeKB :: int where "defaultReplicationBlockSizeKB = 1024"

record ReplicationConfig =
  rc_SourceDisk :: string
  rc_TargetDisk :: string
  rc_SourceFormat :: DiskFormat
  rc_TargetFormat :: DiskFormat
  rc_BandwidthLimitMBps :: int
  rc_BlockSizeKB :: int
  rc_OnProgress :: bool

record ReplicationProgress =
  pr_Phase :: string
  pr_BytesCopied :: int
  pr_BytesTotal :: int
  pr_DirtyBlocks :: int
  pr_SyncRound :: int
  pr_EstimatedCutoverSeconds :: int

record ReplicationState =
  rs_ID :: string
  rs_Config :: ReplicationConfig
  rs_StartedAt :: time
  rs_Phase :: string
  rs_BytesCopied :: int
  rs_DirtyBitmap :: "int list"
  rs_LastSyncAt :: time
  rs_SyncRounds :: int

record SyncResult =
  sr_DirtyBlocks :: int
  sr_BytesSynced :: int
  sr_Duration :: duration
  sr_Round :: int

record CutoverResult =
  cu_DowntimeSeconds :: int
  cu_FinalSyncBytes :: int
  cu_Success :: bool

section \<open>Files\<close>

datatype osOp =
    OsStat string
  | OsMkdirAll string
  | OsOpen string
  | OsTruncate string
  | OsSeek string
  | OsRead string
  | OsWrite string

record osEnv =
  os_fail :: "nat \<Rightarrow> osOp \<Rightarrow> goerror option"
  os_guest :: "nat \<Rightarrow> files \<Rightarrow> files"
  os_chunk :: "nat \<Rightarrow> nat"
  os_partial :: "nat \<Rightarrow> nat"
  os_ctxErr :: "nat \<Rightarrow> goerror option"
  os_elapsed :: "nat \<Rightarrow> duration"

text \<open>
  The world of a replicator: the engine's calls and store, the files, the number of steps, the progress
  reports made.
\<close>

record 'st world =
  wo_sys :: "'st sys"
  wo_files :: files
  wo_step :: nat
  wo_progress :: "ReplicationProgress list"

record ('st, 'raw) renv =
  rv_env :: "('st, 'raw) env"
  rv_os :: osEnv
  rv_store :: bool
  rv_marshal :: "ReplicationState \<Rightarrow> goerror + 'raw"
  rv_unmarshal :: "'raw \<Rightarrow> goerror + ReplicationState"

definition fileAt :: "files \<Rightarrow> string \<Rightarrow> bytes" where
  "fileAt fs path = (case map_of fs path of None \<Rightarrow> [] | Some content \<Rightarrow> content)"

definition notExist :: "string \<Rightarrow> goerror" where
  "notExist path = Errorf ''%s: no such file or directory'' [path]"

definition tick :: "osEnv \<Rightarrow> 'st world \<Rightarrow> 'st world" where
  "tick os w = w\<lparr>wo_step := Suc (wo_step w), wo_files := os_guest os (wo_step w) (wo_files w)\<rparr>"

definition osCall :: "osEnv \<Rightarrow> osOp \<Rightarrow> 'st world \<Rightarrow> goerror option \<times> 'st world" where
  "osCall os oper w = (os_fail os (wo_step w) oper, tick os w)"

definition ctxCheck :: "osEnv \<Rightarrow> 'st world \<Rightarrow> goerror option \<times> 'st world" where
  "ctxCheck os w = (os_ctxErr os (wo_step w), tick os w)"

text \<open>\<open>os.Stat\<close> and \<open>os.Open\<close>: an error when there is no such file. \<open>Size\<close> is read at the call.\<close>

definition osStat :: "osEnv \<Rightarrow> string \<Rightarrow> 'st world \<Rightarrow> (goerror + int) \<times> 'st world" where
  "osStat os path w =
     (case osCall os (OsStat path) w of (e, w1) \<Rightarrow>
        (case e of
           Some err \<Rightarrow> Inl err
         | None \<Rightarrow> (case map_of (wo_files w1) path of
                      None \<Rightarrow> Inl (notExist path)
                    | Some content \<Rightarrow> Inr (int (length content))), w1))"

definition osOpen :: "osEnv \<Rightarrow> string \<Rightarrow> 'st world \<Rightarrow> goerror option \<times> 'st world" where
  "osOpen os path w =
     (case osCall os (OsOpen path) w of (e, w1) \<Rightarrow>
        (case e of
           Some err \<Rightarrow> Some err
         | None \<Rightarrow> if map_of (wo_files w1) path = None then Some (notExist path) else None, w1))"

text \<open>\<open>os.OpenFile\<close> with \<open>O_CREATE\<close>: a missing file is created empty.\<close>

definition osCreate :: "osEnv \<Rightarrow> string \<Rightarrow> 'st world \<Rightarrow> goerror option \<times> 'st world" where
  "osCreate os path w =
     (case osCall os (OsOpen path) w of
        (Some err, w1) \<Rightarrow> (Some err, w1)
      | (None, w1) \<Rightarrow>
          (None, if map_of (wo_files w1) path = None
                 then w1\<lparr>wo_files := AList.update path [] (wo_files w1)\<rparr> else w1))"

definition osTruncate :: "osEnv \<Rightarrow> string \<Rightarrow> 'st world \<Rightarrow> goerror option \<times> 'st world" where
  "osTruncate os path w =
     (case osCall os (OsTruncate path) w of
        (Some err, w1) \<Rightarrow> (Some err, w1)
      | (None, w1) \<Rightarrow> (None, w1\<lparr>wo_files := AList.update path [] (wo_files w1)\<rparr>))"

text \<open>Writing at an offset; a gap behind the end of the file is filled with zero bytes.\<close>

definition overwrite :: "nat \<Rightarrow> bytes \<Rightarrow> bytes \<Rightarrow> bytes" where
  "overwrite offset chunk content =
     (if chunk = [] then content
      else take offset content @ replicate (offset - length content) (CHR 0x00) @ chunk
           @ drop (offset + length chunk) content)"

definition osWriteAt :: "osEnv \<Rightarrow> string \<Rightarrow> nat \<Rightarrow> bytes \<Rightarrow> 'st world \<Rightarrow> goerror option \<times> 'st world" where
  "osWriteAt os path offset chunk w =
     (let n = wo_step w; put = (\<lambda>w1 part. w1\<lparr>wo_files :=
            AList.update path (overwrite offset part (fileAt (wo_files w1) path)) (wo_files w1)\<rparr>)
      in case osCall os (OsWrite path) w of
           (Some err, w1) \<Rightarrow>
             (Some err, put w1 (take (os_partial os n) chunk))
         | (None, w1) \<Rightarrow> (None, put w1 chunk))"

text \<open>\<open>readAtMost\<close>: \<open>ReadAt\<close> fills the buffer or stops at the end of the file.\<close>

definition readAtMost ::
  "osEnv \<Rightarrow> string \<Rightarrow> nat \<Rightarrow> nat \<Rightarrow> 'st world \<Rightarrow> (goerror + bytes) \<times> 'st world" where
  "readAtMost os path len offset w =
     (case osCall os (OsRead path) w of
        (Some err, w1) \<Rightarrow> (Inl err, w1)
      | (None, w1) \<Rightarrow> (Inr (take len (drop offset (fileAt (wo_files w1) path))), w1))"

text \<open>
  \<open>Read\<close> at the position of the handle: between one byte and a full buffer, or nothing at the end of
  the file (\<open>io.EOF\<close>).
\<close>

definition osRead ::
  "osEnv \<Rightarrow> string \<Rightarrow> nat \<Rightarrow> nat \<Rightarrow> 'st world \<Rightarrow> (goerror + bytes) \<times> 'st world" where
  "osRead os path len offset w =
     (let n = wo_step w in
      case osCall os (OsRead path) w of
        (Some err, w1) \<Rightarrow> (Inl err, w1)
      | (None, w1) \<Rightarrow>
          (Inr (take (min len (max 1 (os_chunk os n))) (drop offset (fileAt (wo_files w1) path))), w1))"

section \<open>The replicator\<close>

definition blockSizeBytes :: "ReplicationState \<Rightarrow> int" where
  "blockSizeBytes st =
     (let kb = rc_BlockSizeKB (rs_Config st) in
      (if kb \<le> 0 then defaultReplicationBlockSizeKB else kb) * 1024)"

definition blockCount :: "int \<Rightarrow> int \<Rightarrow> int" where
  "blockCount len blockSize =
     (if len \<le> 0 \<or> blockSize \<le> 0 then 0 else (len + blockSize - 1) div blockSize)"

definition estimatedCutoverSeconds :: "int \<Rightarrow> int \<Rightarrow> int \<Rightarrow> int \<Rightarrow> int" where
  "estimatedCutoverSeconds dirtyBlocks totalBytes bandwidthMBps blockSize =
     (if dirtyBlocks = 0 then 0
      else if bandwidthMBps \<le> 0 then 1
      else (dirtyBlocks * blockSize + bandwidthMBps * 1048576 - 1) div (bandwidthMBps * 1048576))"

fun firstNonZeroTime :: "time list \<Rightarrow> time" where
  "firstNonZeroTime [] = 0"
| "firstNonZeroTime (v # vs) = (if \<not> isZero v then v else firstNonZeroTime vs)"

definition NewReplicator :: "ReplicationConfig \<Rightarrow> string \<Rightarrow> ReplicationState" where
  "NewReplicator config newID =
     \<lparr>rs_ID = newID,
      rs_Config = (if rc_BlockSizeKB config \<le> 0
                   then config\<lparr>rc_BlockSizeKB := defaultReplicationBlockSizeKB\<rparr> else config),
      rs_StartedAt = 0, rs_Phase = [], rs_BytesCopied = 0, rs_DirtyBitmap = [], rs_LastSyncAt = 0,
      rs_SyncRounds = 0\<rparr>"

definition clock :: "('st, 'raw) renv \<Rightarrow> 'st world \<Rightarrow> time \<times> 'st world" where
  "clock rv w = (case nowUTC (rv_env rv) (wo_sys w) of (t, s) \<Rightarrow> (t, w\<lparr>wo_sys := s\<rparr>))"

definition validateConfig ::
  "('st, 'raw) renv \<Rightarrow> ReplicationState \<Rightarrow> 'st world \<Rightarrow> goerror option \<times> ReplicationState \<times> 'st world" where
  "validateConfig rv st0 w0 =
     (let (st1, w) =
            (if rs_ID st0 = []
             then (st0\<lparr>rs_ID := env_newID (rv_env rv) (sy_hist (wo_sys w0))\<rparr>,
                   w0\<lparr>wo_sys := record_call CNewID (wo_sys w0)\<rparr>)
             else (st0, w0));
          st = (if rc_BlockSizeKB (rs_Config st1) \<le> 0
                then st1\<lparr>rs_Config := (rs_Config st1)\<lparr>rc_BlockSizeKB := defaultReplicationBlockSizeKB\<rparr>\<rparr> else st1)
      in if TrimSpace (rc_SourceDisk (rs_Config st)) = [] then (Some (Errorf ''source disk is required'' []), st, w)
         else if TrimSpace (rc_TargetDisk (rs_Config st)) = [] then (Some (Errorf ''target disk is required'' []), st, w)
         else (None, st, w))"

definition startClock ::
  "('st, 'raw) renv \<Rightarrow> ReplicationState \<Rightarrow> 'st world \<Rightarrow> ReplicationState \<times> 'st world" where
  "startClock rv st w =
     (if isZero (rs_StartedAt st)
      then (case clock rv w of (t, w1) \<Rightarrow> (st\<lparr>rs_StartedAt := t\<rparr>, w1)) else (st, w))"

definition emitProgress :: "ReplicationState \<Rightarrow> int \<Rightarrow> int \<Rightarrow> 'st world \<Rightarrow> 'st world" where
  "emitProgress st totalBytes dirtyBlocks w =
     (if \<not> rc_OnProgress (rs_Config st) then w
      else w\<lparr>wo_progress := wo_progress w @ [\<lparr>pr_Phase = rs_Phase st, pr_BytesCopied = rs_BytesCopied st,
               pr_BytesTotal = totalBytes, pr_DirtyBlocks = dirtyBlocks, pr_SyncRound = rs_SyncRounds st,
               pr_EstimatedCutoverSeconds = estimatedCutoverSeconds dirtyBlocks totalBytes
                 (rc_BandwidthLimitMBps (rs_Config st)) (blockSizeBytes st)\<rparr>]\<rparr>)"

text \<open>
  Saving the replication state. A cancelled context is replaced by a fresh one with the same tenant, so
  that the state of an interrupted copy is saved.
\<close>

definition persist ::
  "('st, 'raw) renv \<Rightarrow> ReplicationState \<Rightarrow> 'st world \<Rightarrow> goerror option \<times> ReplicationState \<times> 'st world" where
  "persist rv st0 w0 =
     (if \<not> rv_store rv then (None, st0, w0)
      else
        (case startClock rv st0 w0 of (st, w1) \<Rightarrow>
         case ctxCheck (rv_os rv) w1 of (cancelled, w2) \<Rightarrow>
           (case rv_marshal rv st of
              Inl err \<Rightarrow> (Some (Wrap ''persist replication state: %w'' [] err), st, w2)
            | Inr payload \<Rightarrow>
                (case clock rv w2 of (t1, w3) \<Rightarrow>
                 case clock rv w3 of (t2, w4) \<Rightarrow>
                   (let ctx = \<lparr>ctx_Err = (if cancelled \<noteq> None then None
                                          else os_ctxErr (rv_os rv) (wo_step w4)),
                               ctx_Tenant = env_tenant (rv_env rv)\<rparr>;
                        rec = \<lparr>mr_ID = rs_ID st, mr_TenantID = tenantOf (rv_env rv),
                               mr_SpecName = replicationStateSpecName, mr_Phase = rs_Phase st,
                               mr_StartedAt = firstNonZeroTime [rs_StartedAt st, rs_LastSyncAt st, t1],
                               mr_UpdatedAt = t2, mr_CompletedAt = 0, mr_RawJSON = payload\<rparr>
                    in case op_SaveMigration (env_store (rv_env rv)) ctx (sy_store (wo_sys w4))
                              (tenantOf (rv_env rv)) rec of
                         (res, store') \<Rightarrow>
                           (case res of Inl err \<Rightarrow> Some err | Inr _ \<Rightarrow> None, st,
                            w4\<lparr>wo_sys := (wo_sys w4)\<lparr>sy_store := store'\<rparr>\<rparr>))))))"

definition persistAndWrap ::
  "('st, 'raw) renv \<Rightarrow> string \<Rightarrow> goerror \<Rightarrow> ReplicationState \<Rightarrow> 'st world
   \<Rightarrow> goerror \<times> ReplicationState \<times> 'st world" where
  "persistAndWrap rv operation err st w =
     (case persist rv st w of
        (Some persistErr, st1, w1) \<Rightarrow> (Wrap (operation @ '': %w: %v'') [] (ErrJoin [err, persistErr]), st1, w1)
      | (None, st1, w1) \<Rightarrow> (Wrap (operation @ '': %w'') [] err, st1, w1))"

section \<open>Initial copy\<close>

text \<open>
  The copy loop. It has no bound of its own: it ends at the end of the source file, so it may run forever
  on a file that grows as fast as it is read; not returning is \<open>None\<close>. Both handles advance together.
\<close>

partial_function (option) copyLoop ::
  "('st, 'raw) renv \<Rightarrow> int \<Rightarrow> nat \<Rightarrow> ReplicationState \<Rightarrow> 'st world
   \<Rightarrow> (goerror option \<times> ReplicationState \<times> 'st world) option" where
  "copyLoop rv sourceSize offset st w =
     (let os = rv_os rv; src = rc_SourceDisk (rs_Config st); tgt = rc_TargetDisk (rs_Config st) in
      case ctxCheck os w of
        (Some err, w1) \<Rightarrow>
          (case persistAndWrap rv ''start initial copy'' err st w1 of (e, st', w') \<Rightarrow> Some (Some e, st', w'))
      | (None, w1) \<Rightarrow>
          (case osRead os src (nat (blockSizeBytes st)) offset w1 of
             (Inl readErr, w2) \<Rightarrow>
               (case persistAndWrap rv ''start initial copy'' (Wrap ''read source disk: %w'' [] readErr) st w2 of
                  (e, st', w') \<Rightarrow> Some (Some e, st', w'))
           | (Inr chunk, w2) \<Rightarrow>
               if chunk = [] then Some (None, st, w2)
               else
                 (case osWriteAt os tgt offset chunk w2 of
                    (Some err, w3) \<Rightarrow>
                      Some (Some (Wrap ''start initial copy: write target disk: %w'' [] err), st, w3)
                  | (None, w3) \<Rightarrow>
                      (let st1 = st\<lparr>rs_BytesCopied := rs_BytesCopied st + int (length chunk)\<rparr>
                       in copyLoop rv sourceSize (offset + length chunk) st1 (emitProgress st1 sourceSize 0 w3)))))"

text \<open>From the point where both files are open and measured.\<close>

definition copyFrom ::
  "('st, 'raw) renv \<Rightarrow> int \<Rightarrow> int \<Rightarrow> ReplicationState \<Rightarrow> 'st world
   \<Rightarrow> (goerror option \<times> ReplicationState \<times> 'st world) option" where
  "copyFrom rv sourceSize resumeOffset st w =
     (let os = rv_os rv in
      case osCall os (OsSeek (rc_SourceDisk (rs_Config st))) w of
        (Some err, w1) \<Rightarrow> Some (Some (Wrap ''start initial copy: seek source disk: %w'' [] err), st, w1)
      | (None, w1) \<Rightarrow>
          (case osCall os (OsSeek (rc_TargetDisk (rs_Config st))) w1 of
             (Some err, w2) \<Rightarrow> Some (Some (Wrap ''start initial copy: seek target disk: %w'' [] err), st, w2)
           | (None, w2) \<Rightarrow>
               (let st1 = st\<lparr>rs_Phase := replicationPhaseInitialCopy, rs_BytesCopied := resumeOffset,
                             rs_DirtyBitmap := replicate (nat (blockCount sourceSize (blockSizeBytes st))) 0\<rparr>
                in case copyLoop rv sourceSize (nat resumeOffset) st1 w2 of
                     None \<Rightarrow> None
                   | Some (Some err, st2, w3) \<Rightarrow> Some (Some err, st2, w3)
                   | Some (None, st2, w3) \<Rightarrow>
                       (case clock rv w3 of (t, w4) \<Rightarrow>
                        case persist rv (st2\<lparr>rs_LastSyncAt := t\<rparr>) w4 of
                          (Some err, st3, w5) \<Rightarrow> Some (Some (Wrap ''start initial copy: %w'' [] err), st3, w5)
                        | (None, st3, w5) \<Rightarrow> Some (None, st3, w5)))))"

definition copyOpened ::
  "('st, 'raw) renv \<Rightarrow> int \<Rightarrow> ReplicationState \<Rightarrow> 'st world
   \<Rightarrow> (goerror option \<times> ReplicationState \<times> 'st world) option" where
  "copyOpened rv sourceSize st w =
     (let os = rv_os rv; tgt = rc_TargetDisk (rs_Config st) in
      case osStat os tgt w of
        (Inl err, w1) \<Rightarrow> Some (Some (Wrap ''start initial copy: stat target disk: %w'' [] err), st, w1)
      | (Inr targetSize, w1) \<Rightarrow>
          if targetSize > sourceSize
          then (case osTruncate os tgt w1 of
                  (Some err, w2) \<Rightarrow>
                    Some (Some (Wrap ''start initial copy: truncate oversized target: %w'' [] err), st, w2)
                | (None, w2) \<Rightarrow> copyFrom rv sourceSize 0 st w2)
          else copyFrom rv sourceSize targetSize st w1)"

definition StartInitialCopy ::
  "('st, 'raw) renv \<Rightarrow> ReplicationState \<Rightarrow> 'st world
   \<Rightarrow> (goerror option \<times> ReplicationState \<times> 'st world) option" where
  "StartInitialCopy rv st0 w0 =
     (let os = rv_os rv in
      case validateConfig rv st0 w0 of
        (Some err, st1, w1) \<Rightarrow> Some (Some (Wrap ''start initial copy: %w'' [] err), st1, w1)
      | (None, st1, w1) \<Rightarrow>
          (case startClock rv st1 w1 of (st, w2) \<Rightarrow>
           case osStat os (rc_SourceDisk (rs_Config st)) w2 of
             (Inl err, w3) \<Rightarrow> Some (Some (Wrap ''start initial copy: stat source disk: %w'' [] err), st, w3)
           | (Inr sourceSize, w3) \<Rightarrow>
               (case osCall os (OsMkdirAll (rc_TargetDisk (rs_Config st))) w3 of
                  (Some err, w4) \<Rightarrow> Some (Some (Wrap ''start initial copy: create target directory: %w'' [] err), st, w4)
                | (None, w4) \<Rightarrow>
                    (case osOpen os (rc_SourceDisk (rs_Config st)) w4 of
                       (Some err, w5) \<Rightarrow> Some (Some (Wrap ''start initial copy: open source disk: %w'' [] err), st, w5)
                     | (None, w5) \<Rightarrow>
                         (case osCreate os (rc_TargetDisk (rs_Config st)) w5 of
                            (Some err, w6) \<Rightarrow>
                              Some (Some (Wrap ''start initial copy: open target disk: %w'' [] err), st, w6)
                          | (None, w6) \<Rightarrow> copyOpened rv sourceSize st w6)))))"

section \<open>Sync rounds\<close>

text \<open>
  One block of a round: \<open>Inl\<close> when the round stops. \<open>targetSize\<close> is the size of the target when the
  round started.
\<close>

definition syncBlock ::
  "('st, 'raw) renv \<Rightarrow> nat \<Rightarrow> int \<Rightarrow> nat \<Rightarrow> ReplicationState \<times> int \<times> int \<Rightarrow> 'st world
   \<Rightarrow> (goerror \<times> ReplicationState + ReplicationState \<times> int \<times> int) \<times> 'st world" where
  "syncBlock rv blockSize targetSize blockIndex acc w =
     (let (st, dirtyBlocks, bytesSynced) = acc;
          os = rv_os rv; src = rc_SourceDisk (rs_Config st); tgt = rc_TargetDisk (rs_Config st);
          offset = blockIndex * blockSize;
          stop = (\<lambda>err w'. case persistAndWrap rv ''run sync'' err st w' of (e, st', w'') \<Rightarrow> (Inl (e, st'), w''))
      in case ctxCheck os w of
           (Some err, w1) \<Rightarrow> stop err w1
         | (None, w1) \<Rightarrow>
             (case readAtMost os src blockSize offset w1 of
                (Inl err, w2) \<Rightarrow> stop (Wrap ''read source block %d: %w'' [itoa blockIndex] err) w2
              | (Inr sourceBlock, w2) \<Rightarrow>
                  (case (if int offset < targetSize then readAtMost os tgt blockSize offset w2 else (Inr [], w2)) of
                     (Inl err, w3) \<Rightarrow> stop (Wrap ''read target block %d: %w'' [itoa blockIndex] err) w3
                   | (Inr targetBlock, w3) \<Rightarrow>
                       if sourceBlock = targetBlock then (Inr acc, w3)
                       else
                         (let st1 = st\<lparr>rs_DirtyBitmap := (rs_DirtyBitmap st)[blockIndex := 1]\<rparr> in
                          case osWriteAt os tgt offset sourceBlock w3 of
                            (Some err, w4) \<Rightarrow>
                              (case persistAndWrap rv ''run sync''
                                      (Wrap ''write target block %d: %w'' [itoa blockIndex] err) st1 w4 of
                                 (e, st', w5) \<Rightarrow> (Inl (e, st'), w5))
                          | (None, w4) \<Rightarrow>
                              (let len = int (length sourceBlock) in
                               (Inr (st1\<lparr>rs_BytesCopied := rs_BytesCopied st1 + len\<rparr>, dirtyBlocks + 1,
                                     bytesSynced + len), w4))))))"

fun syncBlocks ::
  "('st, 'raw) renv \<Rightarrow> nat \<Rightarrow> int \<Rightarrow> nat list \<Rightarrow> ReplicationState \<times> int \<times> int \<Rightarrow> 'st world
   \<Rightarrow> (goerror \<times> ReplicationState + ReplicationState \<times> int \<times> int) \<times> 'st world" where
  "syncBlocks rv blockSize targetSize [] acc w = (Inr acc, w)"
| "syncBlocks rv blockSize targetSize (i # is) acc w =
     (case syncBlock rv blockSize targetSize i acc w of
        (Inl r, w') \<Rightarrow> (Inl r, w')
      | (Inr acc', w') \<Rightarrow> syncBlocks rv blockSize targetSize is acc' w')"

definition syncRound ::
  "('st, 'raw) renv \<Rightarrow> string \<Rightarrow> int \<Rightarrow> int \<Rightarrow> ReplicationState \<Rightarrow> 'st world
   \<Rightarrow> (goerror + SyncResult) \<times> ReplicationState \<times> 'st world" where
  "syncRound rv phase sourceSize targetSize st w =
     (let blockSize = blockSizeBytes st;
          totalBlocks = nat (blockCount sourceSize blockSize);
          st1 = st\<lparr>rs_Phase := phase, rs_DirtyBitmap := replicate totalBlocks 0,
                   rs_SyncRounds := rs_SyncRounds st + 1\<rparr>
      in case syncBlocks rv (nat blockSize) targetSize [0..<totalBlocks] (st1, 0, 0) w of
           (Inl (err, st2), w1) \<Rightarrow> (Inl err, st2, w1)
         | (Inr (st2, dirtyBlocks, bytesSynced), w1) \<Rightarrow>
             (case clock rv w1 of (t, w2) \<Rightarrow>
              case persist rv (st2\<lparr>rs_LastSyncAt := t\<rparr>) w2 of
                (Some err, st3, w3) \<Rightarrow> (Inl err, st3, w3)
              | (None, st3, w3) \<Rightarrow>
                  (Inr \<lparr>sr_DirtyBlocks = dirtyBlocks, sr_BytesSynced = bytesSynced,
                        sr_Duration = os_elapsed (rv_os rv) (wo_step w3), sr_Round = rs_SyncRounds st3\<rparr>,
                   st3, emitProgress st3 sourceSize dirtyBlocks w3)))"

definition runSync ::
  "('st, 'raw) renv \<Rightarrow> string \<Rightarrow> ReplicationState \<Rightarrow> 'st world
   \<Rightarrow> (goerror + SyncResult) \<times> ReplicationState \<times> 'st world" where
  "runSync rv phase st0 w0 =
     (let os = rv_os rv in
      case validateConfig rv st0 w0 of
        (Some err, st1, w1) \<Rightarrow> (Inl err, st1, w1)
      | (None, st1, w1) \<Rightarrow>
          (case startClock rv st1 w1 of (st, w2) \<Rightarrow>
           case osOpen os (rc_SourceDisk (rs_Config st)) w2 of
             (Some err, w3) \<Rightarrow> (Inl (Wrap ''open source disk: %w'' [] err), st, w3)
           | (None, w3) \<Rightarrow>
               (case osStat os (rc_SourceDisk (rs_Config st)) w3 of
                  (Inl err, w4) \<Rightarrow> (Inl (Wrap ''stat source disk: %w'' [] err), st, w4)
                | (Inr sourceSize, w4) \<Rightarrow>
                    (case osCreate os (rc_TargetDisk (rs_Config st)) w4 of
                       (Some err, w5) \<Rightarrow> (Inl (Wrap ''open target disk: %w'' [] err), st, w5)
                     | (None, w5) \<Rightarrow>
                         (case osStat os (rc_TargetDisk (rs_Config st)) w5 of
                            (Inl err, w6) \<Rightarrow> (Inl (Wrap ''stat target disk: %w'' [] err), st, w6)
                          | (Inr targetSize, w6) \<Rightarrow> syncRound rv phase sourceSize targetSize st w6)))))"

definition RunIncrementalSync ::
  "('st, 'raw) renv \<Rightarrow> ReplicationState \<Rightarrow> 'st world \<Rightarrow> (goerror + SyncResult) \<times> ReplicationState \<times> 'st world" where
  "RunIncrementalSync rv st w =
     (case runSync rv replicationPhaseIncremental st w of
        (Inl err, st1, w1) \<Rightarrow> (Inl (Wrap ''run incremental sync: %w'' [] err), st1, w1)
      | (Inr result, st1, w1) \<Rightarrow> (Inr result, st1, w1))"

text \<open>The downtime in seconds, rounded up, at least one second when anything was written.\<close>

definition downtimeSeconds :: "SyncResult \<Rightarrow> int" where
  "downtimeSeconds result =
     (if sr_Duration result < 1000000000 \<and> sr_BytesSynced result > 0 then 1
      else - ((- sr_Duration result) div 1000000000))"

definition Replicator_ExecuteCutover ::
  "('st, 'raw) renv \<Rightarrow> ReplicationState \<Rightarrow> 'st world \<Rightarrow> (goerror + CutoverResult) \<times> ReplicationState \<times> 'st world" where
  "Replicator_ExecuteCutover rv st w =
     (case runSync rv replicationPhaseFinalSync st w of
        (Inl err, st1, w1) \<Rightarrow> (Inl (Wrap ''execute cutover: %w'' [] err), st1, w1)
      | (Inr result, st1, w1) \<Rightarrow>
          (Inr \<lparr>cu_DowntimeSeconds = downtimeSeconds result, cu_FinalSyncBytes = sr_BytesSynced result,
                cu_Success = True\<rparr>, st1, w1))"

text \<open>Restoring a persisted replication; the callback and missing paths come from the current configuration.\<close>

definition LoadState ::
  "('st, 'raw) renv \<Rightarrow> ReplicationState \<Rightarrow> string \<Rightarrow> 'st world
   \<Rightarrow> goerror option \<times> ReplicationState \<times> 'st world" where
  "LoadState rv st migrationID w =
     (if \<not> rv_store rv then (Some (Errorf ''load replication state: store is nil'' []), st, w)
      else if TrimSpace migrationID = []
      then (Some (Errorf ''load replication state: migration ID is required'' []), st, w)
      else
        (case op_GetMigration (env_store (rv_env rv)) (ctxOf (rv_env rv) (wo_sys w)) (sy_store (wo_sys w))
                (tenantOf (rv_env rv)) migrationID of
           (res, store') \<Rightarrow>
             (let w1 = w\<lparr>wo_sys := (wo_sys w)\<lparr>sy_store := store'\<rparr>\<rparr> in
              case res of
                Inl err \<Rightarrow> (Some (Wrap ''load replication state: %w'' [] err), st, w1)
              | Inr rec \<Rightarrow>
                  (case rv_unmarshal rv (mr_RawJSON rec) of
                     Inl err \<Rightarrow> (Some (Wrap ''load replication state: decode %s: %w'' [migrationID] err), st, w1)
                   | Inr state \<Rightarrow>
                       (let cfg = rs_Config st; c0 = (rs_Config state)\<lparr>rc_OnProgress := rc_OnProgress cfg\<rparr>;
                            c1 = (if rc_SourceDisk c0 = [] then c0\<lparr>rc_SourceDisk := rc_SourceDisk cfg\<rparr> else c0);
                            c2 = (if rc_TargetDisk c1 = [] then c1\<lparr>rc_TargetDisk := rc_TargetDisk cfg\<rparr> else c1);
                            state1 = state\<lparr>rs_Config := c2,
                               rs_StartedAt := (if isZero (rs_StartedAt state) then mr_StartedAt rec
                                                else rs_StartedAt state)\<rparr>
                        in case validateConfig rv state1 w1 of
                             (Some err, st2, w2) \<Rightarrow> (Some (Wrap ''load replication state: %w'' [] err), st2, w2)
                           | (None, st2, w2) \<Rightarrow> (None, st2, w2))))))"

end
