(* ===== verification/Cutover.thy ===== *)
theory Cutover
  imports Orchestrator Replication
begin

text \<open>
  The final switchover of a warm migration, \<open>internal/migrate/cutover.go\<close>, with the boot verifier of
  \<open>verify.go\<close> and the changed-block providers of \<open>cbt.go\<close>. The coordinator powers off the source, runs the
  final sync round of the replicator, creates and configures the target machine, powers it on and waits
  until it has booted; a failed boot is rolled back when the plan says so.

  The three platform verifiers only differ in name and are one function. The two durations of the report
  are measured by the monotonic clock and are arguments. The coordinator's event callback is \<open>env_onEvent\<close>.
\<close>

section \<open>Changed block tracking, cbt.go\<close>

record BlockRange =
  br_Offset :: int
  br_Length :: int

definition VMware_GetChangedBlocks :: "string \<Rightarrow> time \<Rightarrow> BlockRange list \<times> goerror option" where
  "VMware_GetChangedBlocks diskPath since = ([], None)"

definition QEMU_GetChangedBlocks :: "string \<Rightarrow> time \<Rightarrow> BlockRange list \<times> goerror option" where
  "QEMU_GetChangedBlocks diskPath since = ([], None)"

section \<open>Boot verification, verify.go\<close>

definition minDuration :: "duration \<Rightarrow> duration \<Rightarrow> duration" where
  "minDuration left right = (if left < right then left else right)"

text \<open>
  With a verifier, its answer decides. Without one the code waits a moment: the timer ends the wait, unless
  the context is done first.
\<close>

definition WaitForBoot ::
  "osEnv \<Rightarrow> Connector \<Rightarrow> string \<Rightarrow> duration \<Rightarrow> 'st world \<Rightarrow> goerror option \<times> 'st world" where
  "WaitForBoot os tgt vmID timeout w =
     (case con_verifier tgt of
        Some verify \<Rightarrow>
          (case verify (sy_hist (wo_sys w)) vmID of
             Some err \<Rightarrow> (Some (Wrap ''wait for boot %s: %w'' [vmID] err), w\<lparr>wo_sys := record_call (CVerify vmID) (wo_sys w)\<rparr>)
           | None \<Rightarrow> (None, w\<lparr>wo_sys := record_call (CVerify vmID) (wo_sys w)\<rparr>))
      | None \<Rightarrow>
          if timeout \<le> 0 then (None, w)
          else (case ctxCheck os w of
                  (Some err, w1) \<Rightarrow> (Some (Wrap ''wait for boot: %w'' [] err), w1)
                | (None, w1) \<Rightarrow> (None, w1)))"

section \<open>The coordinator, cutover.go\<close>

record CutoverPlan =
  cp_MigrationID :: string
  cp_SourceVM :: VirtualMachine
  cp_TargetPlatform :: Platform
  cp_ReplicationState :: "ReplicationState option"
  cp_NetworkMappings :: "MappedNIC list"
  cp_BootTimeout :: duration
  cp_AutoRollbackOnFailure :: bool

record CutoverReport =
  ct_MigrationID :: string
  ct_SourceVM :: string
  ct_TargetVMID :: string
  ct_TotalDowntime :: duration
  ct_FinalSyncDuration :: duration
  ct_BootVerified :: bool
  ct_RolledBack :: bool
  ct_Events :: "MigrationEvent list"

text \<open>
  A coordinator: the connectors, the replicator (its state; \<open>None\<close> is nil) and the rollback manager (its
  connectors; \<open>None\<close> is nil). The manager's store is the one of the environment.
\<close>

record CutoverCoordinator =
  co_source :: Connector
  co_target :: Connector
  co_replicator :: "ReplicationState option"
  co_rollback :: "(Connector \<times> Connector) option"

definition mappedNICMap :: "MappedNIC list \<Rightarrow> (string \<times> string) list" where
  "mappedNICMap items = fold (\<lambda>item. AList.update (nic_ID (mn_Original item)) (mn_TargetNetwork item)) items []"

definition cutoverWorkload :: "VirtualMachine \<Rightarrow> (string \<times> string) list \<Rightarrow> WorkloadMigration" where
  "cutoverWorkload vm networks =
     \<lparr>wm_VM = vm, wm_Phase = PhaseUnset, wm_SourceDiskPaths = [], wm_ConvertedDiskPaths = [],
      wm_TargetVMID = [], wm_NetworkMappings = networks, wm_Error = None\<rparr>"

definition cutoverState ::
  "CutoverPlan \<Rightarrow> Platform \<Rightarrow> Platform \<Rightarrow> (string \<times> string) list \<Rightarrow> time \<Rightarrow> time \<Rightarrow> MigrationState" where
  "cutoverState plan source target networks started updated =
     \<lparr>ms_ID = cp_MigrationID plan, ms_SpecName = ''warm-cutover'', ms_SourceAddress = [],
      ms_SourcePlatform = source, ms_TargetAddress = [], ms_TargetPlatform = target, ms_Phase = PhaseVerify,
      ms_Workloads = [cutoverWorkload (cp_SourceVM plan) networks], ms_Plan = None, ms_Checkpoints = [],
      ms_Window = \<lparr>win_NotBefore = 0, win_NotAfter = 0\<rparr>,
      ms_Approval = \<lparr>ag_Required = False, ag_ApprovedBy = [], ag_ApprovedAt = 0, ag_Ticket = []\<rparr>,
      ms_PendingApproval = False, ms_StartedAt = started, ms_UpdatedAt = updated, ms_CompletedAt = 0, ms_Errors = []\<rparr>"

definition persistCutoverState ::
  "('st, 'raw) env \<Rightarrow> CutoverCoordinator \<Rightarrow> CutoverPlan \<Rightarrow> 'st sys \<Rightarrow> goerror option \<times> 'st sys" where
  "persistCutoverState env c plan s =
     (case co_rollback c of
        None \<Rightarrow> (None, s)
      | Some _ \<Rightarrow>
          (case nowUTC env s of (t1, s1) \<Rightarrow>
           case nowUTC env s1 of (t2, s2) \<Rightarrow>
           case persistMigrationState env
                  (cutoverState plan (vm_Platform (cp_SourceVM plan)) (cp_TargetPlatform plan)
                     (mappedNICMap (cp_NetworkMappings plan)) t1 t2) s2 of
             (Some err, s3) \<Rightarrow> (Some (Wrap ''execute cutover: persist migration state: %w'' [] err), s3)
           | (None, s3) \<Rightarrow> (None, s3)))"

definition emitCutover ::
  "('st, 'raw) env \<Rightarrow> CutoverPlan \<Rightarrow> MigrationPhase \<Rightarrow> string \<Rightarrow> int \<Rightarrow> CutoverReport \<times> 'st world
   \<Rightarrow> CutoverReport \<times> 'st world" where
  "emitCutover env plan phase message progress = (\<lambda>(report, w).
     case nowUTC env (wo_sys w) of (t, s) \<Rightarrow>
       (let event = \<lparr>ev_Timestamp = t, ev_Phase = phase, ev_VM = vm_Name (cp_SourceVM plan),
                     ev_Message = message, ev_Progress = progress\<rparr>
        in (report\<lparr>ct_Events := ct_Events report @ [event]\<rparr>,
            w\<lparr>wo_sys := (if env_onEvent env then record_call (CEmit event) s else s)\<rparr>)))"

text \<open>
  The stages of \<open>ExecuteCutover\<close>, last one first. \<open>downtime\<close> and \<open>syncTime\<close> are the measured durations.
\<close>

definition cutoverBoot ::
  "('st, 'raw) renv \<Rightarrow> CutoverCoordinator \<Rightarrow> CutoverPlan \<Rightarrow> CutoverResult \<Rightarrow> duration \<Rightarrow> CutoverReport \<Rightarrow> 'st world
   \<Rightarrow> (CutoverReport option \<times> goerror option) \<times> 'st world" where
  "cutoverBoot rv c plan cutoverResult downtime report0 w0 =
     (let env = rv_env rv in
      case emitCutover env plan PhaseVerify ''Waiting for boot verification'' 85 (report0, w0) of (report, w) \<Rightarrow>
      case WaitForBoot (rv_os rv) (co_target c) (ct_TargetVMID report) (cp_BootTimeout plan) w of
        (Some bootErr, w1) \<Rightarrow>
          (case (cp_AutoRollbackOnFailure plan, co_rollback c) of
             (True, Some (rsrc, rtgt)) \<Rightarrow>
               (case Rollback env rsrc rtgt (cp_MigrationID plan) (wo_sys w1) of
                  ((_, Some rollbackErr), s) \<Rightarrow>
                    ((None, Some (Wrap ''execute cutover: boot verification failed: %v; rollback failed: %w'' []
                               (ErrJoin [bootErr, rollbackErr]))), w1\<lparr>wo_sys := s\<rparr>)
                | ((_, None), s) \<Rightarrow>
                    ((Some (report\<lparr>ct_RolledBack := True\<rparr>),
                      Some (Wrap ''execute cutover: verify boot: %w'' [] bootErr)), w1\<lparr>wo_sys := s\<rparr>))
           | _ \<Rightarrow> ((Some report, Some (Wrap ''execute cutover: verify boot: %w'' [] bootErr)), w1))
      | (None, w1) \<Rightarrow>
          (let total = (if cu_DowntimeSeconds cutoverResult > 0 \<and> downtime < cu_DowntimeSeconds cutoverResult * 1000000000
                        then cu_DowntimeSeconds cutoverResult * 1000000000 else downtime);
               (report1, w2) = emitCutover env plan PhaseComplete ''Warm migration cutover complete'' 100
                                 (report\<lparr>ct_BootVerified := True, ct_TotalDowntime := total\<rparr>, w1)
           in ((Some report1, None), w2)))"

definition cutoverPowerOn ::
  "('st, 'raw) renv \<Rightarrow> CutoverCoordinator \<Rightarrow> CutoverPlan \<Rightarrow> CutoverResult \<Rightarrow> duration \<Rightarrow> CutoverReport \<Rightarrow> 'st world
   \<Rightarrow> (CutoverReport option \<times> goerror option) \<times> 'st world" where
  "cutoverPowerOn rv c plan cutoverResult downtime report0 w0 =
     (case con_power (co_target c) of
        None \<Rightarrow> cutoverBoot rv c plan cutoverResult downtime report0 w0
      | Some pc \<Rightarrow>
          (case emitCutover (rv_env rv) plan PhaseVerify ''Powering on target VM'' 70 (report0, w0) of (report, w) \<Rightarrow>
           case (pc_PowerOnVM pc (sy_hist (wo_sys w)) (ct_TargetVMID report),
                 w\<lparr>wo_sys := record_call (CPowerOn Target (ct_TargetVMID report)) (wo_sys w)\<rparr>) of
             (Some err, w1) \<Rightarrow> ((None, Some (Wrap ''execute cutover: power on target VM: %w'' [] err)), w1)
           | (None, w1) \<Rightarrow> cutoverBoot rv c plan cutoverResult downtime report w1))"

definition cutoverNetworks ::
  "('st, 'raw) renv \<Rightarrow> CutoverCoordinator \<Rightarrow> CutoverPlan \<Rightarrow> CutoverResult \<Rightarrow> duration \<Rightarrow> CutoverReport \<Rightarrow> 'st world
   \<Rightarrow> (CutoverReport option \<times> goerror option) \<times> 'st world" where
  "cutoverNetworks rv c plan cutoverResult downtime report w =
     (case con_networks (co_target c) of
        Some configure \<Rightarrow>
          if length (cp_NetworkMappings plan) > 0
          then (case (configure (sy_hist (wo_sys w)) (ct_TargetVMID report) (cp_NetworkMappings plan),
                      w\<lparr>wo_sys := record_call (CConfigure (ct_TargetVMID report) (cp_NetworkMappings plan)) (wo_sys w)\<rparr>) of
                  (Some err, w1) \<Rightarrow> ((None, Some (Wrap ''execute cutover: configure target networks: %w'' [] err)), w1)
                | (None, w1) \<Rightarrow> cutoverPowerOn rv c plan cutoverResult downtime report w1)
          else cutoverPowerOn rv c plan cutoverResult downtime report w
      | None \<Rightarrow> cutoverPowerOn rv c plan cutoverResult downtime report w)"

definition cutoverCreate ::
  "('st, 'raw) renv \<Rightarrow> CutoverCoordinator \<Rightarrow> CutoverPlan \<Rightarrow> CutoverResult \<Rightarrow> ReplicationState \<Rightarrow> duration
   \<Rightarrow> CutoverReport \<Rightarrow> 'st world \<Rightarrow> (CutoverReport option \<times> goerror option) \<times> 'st world" where
  "cutoverCreate rv c plan cutoverResult st downtime report w =
     (case con_importer (co_target c) of
        None \<Rightarrow> cutoverNetworks rv c plan cutoverResult downtime
                  (report\<lparr>ct_TargetVMID := vm_ID (cp_SourceVM plan) @ ''-warm-target''\<rparr>) w
      | Some createVM \<Rightarrow>
          (let disks = [rc_TargetDisk (rs_Config st)] in
           case (createVM (sy_hist (wo_sys w)) (cp_SourceVM plan) disks [] [],
                 w\<lparr>wo_sys := record_call (CCreateVM (cp_SourceVM plan) disks [] []) (wo_sys w)\<rparr>) of
             (Inl err, w1) \<Rightarrow> ((None, Some (Wrap ''execute cutover: create target VM: %w'' [] err)), w1)
           | (Inr vmID, w1) \<Rightarrow>
               cutoverNetworks rv c plan cutoverResult downtime (report\<lparr>ct_TargetVMID := vmID\<rparr>) w1))"

definition cutoverSync ::
  "('st, 'raw) renv \<Rightarrow> CutoverCoordinator \<Rightarrow> CutoverPlan \<Rightarrow> ReplicationState \<Rightarrow> duration \<Rightarrow> duration
   \<Rightarrow> CutoverReport \<Rightarrow> 'st world \<Rightarrow> (CutoverReport option \<times> goerror option) \<times> ReplicationState \<times> 'st world" where
  "cutoverSync rv c plan st downtime syncTime report0 w0 =
     (case emitCutover (rv_env rv) plan PhaseVerify ''Running final sync'' 35 (report0, w0) of (report, w) \<Rightarrow>
      case Replicator_ExecuteCutover rv st w of
        (Inl err, st1, w1) \<Rightarrow> ((None, Some (Wrap ''execute cutover: final sync: %w'' [] err)), st1, w1)
      | (Inr result, st1, w1) \<Rightarrow>
          (case cutoverCreate rv c plan result st1 downtime (report\<lparr>ct_FinalSyncDuration := syncTime\<rparr>) w1 of
             (r, w2) \<Rightarrow> (r, st1, w2)))"

definition cutoverPowerOff ::
  "('st, 'raw) renv \<Rightarrow> CutoverCoordinator \<Rightarrow> CutoverPlan \<Rightarrow> ReplicationState \<Rightarrow> duration \<Rightarrow> duration
   \<Rightarrow> CutoverReport \<Rightarrow> 'st world \<Rightarrow> (CutoverReport option \<times> goerror option) \<times> ReplicationState \<times> 'st world" where
  "cutoverPowerOff rv c plan st downtime syncTime report0 w0 =
     (case con_power (co_source c) of
        None \<Rightarrow> cutoverSync rv c plan st downtime syncTime report0 w0
      | Some pc \<Rightarrow>
          (case emitCutover (rv_env rv) plan PhaseConfigure ''Powering off source VM'' 15 (report0, w0) of (report, w) \<Rightarrow>
           let vmID = vm_ID (cp_SourceVM plan) in
           case (pc_PowerOffVM pc (sy_hist (wo_sys w)) vmID,
                 w\<lparr>wo_sys := record_call (CPowerOff Source vmID) (wo_sys w)\<rparr>) of
             (Some err, w1) \<Rightarrow> ((None, Some (Wrap ''execute cutover: power off source VM: %w'' [] err)), st, w1)
           | (None, w1) \<Rightarrow> cutoverSync rv c plan st downtime syncTime report w1))"

definition cutoverRecoveryPoint ::
  "('st, 'raw) env \<Rightarrow> CutoverCoordinator \<Rightarrow> CutoverPlan \<Rightarrow> 'st sys \<Rightarrow> goerror option \<times> 'st sys" where
  "cutoverRecoveryPoint env c plan s =
     (case co_rollback c of
        None \<Rightarrow> (None, s)
      | Some (rsrc, rtgt) \<Rightarrow>
          (case nowUTC env s of (t1, s1) \<Rightarrow>
           case nowUTC env s1 of (t2, s2) \<Rightarrow>
           case CreateRecoveryPoint env rsrc (cutoverState plan [] [] [] t1 t2) s2 of
             (Inl err, s3) \<Rightarrow> (Some (Wrap ''execute cutover: create recovery point: %w'' [] err), s3)
           | (Inr point, s3) \<Rightarrow> (None, s3)))"

definition ExecuteCutover ::
  "('st, 'raw) renv \<Rightarrow> CutoverCoordinator \<Rightarrow> CutoverPlan option \<Rightarrow> duration \<Rightarrow> duration \<Rightarrow> 'st world
   \<Rightarrow> (CutoverReport option \<times> goerror option) \<times> ReplicationState option \<times> 'st world" where
  "ExecuteCutover rv c oplan downtime syncTime w =
     (case oplan of
        None \<Rightarrow> ((None, Some (Errorf ''execute cutover: plan is nil'' [])), co_replicator c, w)
      | Some plan0 \<Rightarrow>
          (let plan = (if cp_BootTimeout plan0 \<le> 0 then plan0\<lparr>cp_BootTimeout := 300000000000\<rparr> else plan0) in
           case co_replicator c of
             None \<Rightarrow> ((None, Some (Errorf ''execute cutover: replicator is required'' [])), None, w)
           | Some own \<Rightarrow>
               (let st = (case cp_ReplicationState plan of None \<Rightarrow> own | Some given \<Rightarrow> given);
                    report = \<lparr>ct_MigrationID = cp_MigrationID plan, ct_SourceVM = vm_Name (cp_SourceVM plan),
                              ct_TargetVMID = [], ct_TotalDowntime = 0, ct_FinalSyncDuration = 0,
                              ct_BootVerified = False, ct_RolledBack = False, ct_Events = []\<rparr>
                in case persistCutoverState (rv_env rv) c plan (wo_sys w) of
                     (Some err, s1) \<Rightarrow> ((None, Some err), Some st, w\<lparr>wo_sys := s1\<rparr>)
                   | (None, s1) \<Rightarrow>
                       (case cutoverRecoveryPoint (rv_env rv) c plan s1 of
                          (Some err, s2) \<Rightarrow> ((None, Some err), Some st, w\<lparr>wo_sys := s2\<rparr>)
                        | (None, s2) \<Rightarrow>
                            (case cutoverPowerOff rv c plan st downtime syncTime report (w\<lparr>wo_sys := s2\<rparr>) of
                               (r, st', w') \<Rightarrow> (r, Some st', w'))))))"

end
