(* ===== verification/ReplicationCorrect.thy ===== *)
theory ReplicationCorrect
  imports Replication
begin

text \<open>
  What warm replication does to the target disk. A completed sync round on a disk at rest makes the target
  the source followed by what the target had behind the end of the source, and reports exactly the blocks
  that differed. An interrupted round, an interrupted copy and a guest that keeps writing never make the
  target longer than the source, so whatever came before, the final round makes the disks equal.
\<close>

section \<open>Files under a running guest\<close>

text \<open>The guest writes its own disk, in place, and nothing else that matters here.\<close>

definition guestOk :: "osEnv \<Rightarrow> string \<Rightarrow> string \<Rightarrow> bool" where
  "guestOk os src tgt =
     (\<forall>n fs. fileAt (os_guest os n fs) tgt = fileAt fs tgt
       \<and> length (fileAt (os_guest os n fs) src) = length (fileAt fs src))"

definition atRest :: "osEnv \<Rightarrow> bool" where
  "atRest os = (\<forall>n fs. os_guest os n fs = fs)"

text \<open>The source has a fixed length and the target is not longer.\<close>

definition fits :: "string \<Rightarrow> string \<Rightarrow> nat \<Rightarrow> 'st world \<Rightarrow> bool" where
  "fits src tgt len w =
     (length (fileAt (wo_files w) src) = len \<and> length (fileAt (wo_files w) tgt) \<le> len)"

lemma atRest_guestOk: "atRest os \<Longrightarrow> guestOk os src tgt"
  by (simp add: atRest_def guestOk_def)

lemma fileAt_update: "fileAt (AList.update path c fs) p = (if p = path then c else fileAt fs p)"
  by (simp add: fileAt_def)

lemma atRest_tick: "atRest os \<Longrightarrow> tick os w = w\<lparr>wo_step := Suc (wo_step w)\<rparr>"
  by (cases w) (simp add: tick_def atRest_def)

named_theorems os_defs \<open>the operations on files\<close>

lemmas [os_defs] = osCall_def ctxCheck_def osStat_def osOpen_def osCreate_def osTruncate_def readAtMost_def osRead_def

subsection \<open>Operations that only look\<close>

lemma wo_files_clock [simp]: "wo_files (snd (clock rv w)) = wo_files w"
  by (simp add: clock_def split: prod.splits)

lemma wo_files_clock': "clock rv w = (t, w') \<Longrightarrow> wo_files w' = wo_files w"
  by (metis snd_conv wo_files_clock)

lemma wo_files_startClock: "startClock rv st w = (st', w') \<Longrightarrow> wo_files w' = wo_files w"
  by (auto simp: startClock_def split: if_splits prod.splits dest: wo_files_clock')

lemma wo_files_validate: "validateConfig rv st w = (e, st', w') \<Longrightarrow> wo_files w' = wo_files w"
  by (auto simp: validateConfig_def Let_def split: if_splits prod.splits)

lemma wo_files_progress [simp]: "wo_files (emitProgress st n d w) = wo_files w"
  by (simp add: emitProgress_def)

lemma fits_files: "wo_files w' = wo_files w \<Longrightarrow> fits src tgt len w \<Longrightarrow> fits src tgt len w'"
  by (simp add: fits_def)

lemma fits_tick: "guestOk os src tgt \<Longrightarrow> fits src tgt len w \<Longrightarrow> fits src tgt len (tick os w)"
  by (simp add: guestOk_def fits_def tick_def)

lemma persist_files:
  assumes "persist rv st w = (e, st', w')"
  shows "wo_files w' = wo_files w \<or> (\<exists>n. wo_files w' = os_guest (rv_os rv) n (wo_files w))"
  using assms
  by (auto simp: persist_def ctxCheck_def tick_def Let_def simp del: firstNonZeroTime.simps
      split: if_splits prod.splits sum.splits dest!: wo_files_clock' wo_files_startClock)

lemma persist_fits:
  assumes "persist rv st w = (e, st', w')" "guestOk (rv_os rv) src tgt" "fits src tgt len w"
  shows "fits src tgt len w'"
  using persist_files [OF assms(1)] assms(2,3) by (auto simp: fits_def guestOk_def)

text \<open>Which disks a replication is about does not change.\<close>

definition sameDisks :: "ReplicationState \<Rightarrow> ReplicationState \<Rightarrow> bool" where
  "sameDisks st st' =
     (rc_SourceDisk (rs_Config st') = rc_SourceDisk (rs_Config st)
      \<and> rc_TargetDisk (rs_Config st') = rc_TargetDisk (rs_Config st)
      \<and> blockSizeBytes st' = blockSizeBytes st)"

lemma sameDisks_refl [simp]: "sameDisks st st"
  by (simp add: sameDisks_def)

lemma sameDisks_trans [trans]: "sameDisks a b \<Longrightarrow> sameDisks b c \<Longrightarrow> sameDisks a c"
  by (simp add: sameDisks_def)

lemma sameDisks_update [simp]:
  "sameDisks st (st'\<lparr>rs_DirtyBitmap := b\<rparr>) = sameDisks st st'"
  "sameDisks st (st'\<lparr>rs_BytesCopied := n\<rparr>) = sameDisks st st'"
  "sameDisks st (st'\<lparr>rs_LastSyncAt := t\<rparr>) = sameDisks st st'"
  "sameDisks st (st'\<lparr>rs_Phase := p\<rparr>) = sameDisks st st'"
  "sameDisks st (st'\<lparr>rs_SyncRounds := k\<rparr>) = sameDisks st st'"
  "sameDisks st (st'\<lparr>rs_StartedAt := t\<rparr>) = sameDisks st st'"
  "sameDisks (st\<lparr>rs_DirtyBitmap := b\<rparr>) st' = sameDisks st st'"
  by (simp_all add: sameDisks_def blockSizeBytes_def)

lemma startClock_same: "startClock rv st w = (st', w') \<Longrightarrow> sameDisks st st'"
  by (auto simp: startClock_def split: if_splits prod.splits)

lemma validate_same: "validateConfig rv st w = (e, st', w') \<Longrightarrow> sameDisks st st'"
  by (auto simp: validateConfig_def Let_def sameDisks_def blockSizeBytes_def split: if_splits prod.splits)

lemma persist_same: "persist rv st w = (e, st', w') \<Longrightarrow> sameDisks st st'"
  using startClock_same by (auto simp: persist_def Let_def split: if_splits prod.splits sum.splits) blast+

lemma persistAndWrap_same: "persistAndWrap rv oper err st w = (e, st', w') \<Longrightarrow> sameDisks st st'"
  using persist_same by (auto simp: persistAndWrap_def split: prod.splits option.splits)

lemma persistAndWrap_fits:
  assumes "persistAndWrap rv oper err st w = (e, st', w')" "guestOk (rv_os rv) src tgt" "fits src tgt len w"
  shows "fits src tgt len w'"
  using assms persist_fits by (auto simp: persistAndWrap_def split: prod.splits option.splits)

subsection \<open>Writing inside the source length\<close>

lemma length_overwrite: "length (overwrite offset chunk c) \<le> max (length c) (offset + length chunk)"
  by (auto simp: overwrite_def)

lemma write_fits:
  assumes "osWriteAt os tgt offset chunk w = (e, w')" "guestOk os src tgt" "fits src tgt len w"
    and "src \<noteq> tgt" "offset + length chunk \<le> len"
  shows "fits src tgt len w'"
proof -
  have t: "fits src tgt len (tick os w)" using fits_tick assms(2,3) by blast
  have "length (overwrite offset (take k chunk) c) \<le> len" if "length c \<le> len" for k c
    using length_overwrite [of offset "take k chunk" c] assms(5) that by (simp add: min_def split: if_splits)
  moreover have "length (overwrite offset chunk c) \<le> len" if "length c \<le> len" for c
    using length_overwrite [of offset chunk c] assms(5) that by simp
  ultimately show ?thesis
    using assms(1,4) t by (auto simp: osWriteAt_def osCall_def Let_def fits_def fileAt_update split: option.splits)
qed

section \<open>Any round keeps the target within the source\<close>

lemma read_fits:
  assumes "readAtMost os p n offset w = (r, w')" "guestOk os src tgt" "fits src tgt len w"
  shows "fits src tgt len w'" and "p = src \<Longrightarrow> r = Inr chunk \<Longrightarrow> chunk = [] \<or> offset + length chunk \<le> len"
  using assms fits_tick [OF assms(2,3)]
  by (auto simp: readAtMost_def osCall_def fits_def split: option.splits)

lemma syncBlock_same:
  assumes "syncBlock rv bs tsz i (st, d, b) w = (r, w')"
  shows "sameDisks st (case r of Inl (e, st') \<Rightarrow> st' | Inr (st', _) \<Rightarrow> st')"
  using assms
  by (auto simp: syncBlock_def ctxCheck_def Let_def split: option.splits prod.splits sum.splits if_splits
      dest!: persistAndWrap_same)

lemma syncBlock_fits:
  assumes "syncBlock rv bs tsz i (st, d, b) w = (r, w')" "guestOk (rv_os rv) src tgt" "fits src tgt len w"
    and "src = rc_SourceDisk (rs_Config st)" "tgt = rc_TargetDisk (rs_Config st)" "src \<noteq> tgt"
  shows "fits src tgt len w'"
proof -
  let ?os = "rv_os rv"
  note pw = persistAndWrap_fits [OF _ assms(2)]
  have t: "fits src tgt len (tick ?os w)" using fits_tick assms(2,3) by blast
  obtain r2 w2 where read: "readAtMost ?os src bs (i * bs) (tick ?os w) = (r2, w2)" by (metis surj_pair)
  obtain r3 w3 where read2: "(if int (i * bs) < tsz then readAtMost ?os tgt bs (i * bs) w2 else (Inr [], w2)) = (r3, w3)"
    by (metis surj_pair)
  note f2 = read_fits [OF read assms(2) t]
  have f3: "fits src tgt len w3"
    using read2 read_fits(1) [OF _ assms(2) f2(1)] f2(1) by (auto split: if_splits)
  have wr: "fits src tgt len w4"
    if "osWriteAt ?os tgt (i * bs) chunk w3 = (e, w4)" and "r2 = Inr chunk" for e w4 chunk
  proof (cases "chunk = []")
    case True
    have "fits src tgt len (tick ?os w3)" using fits_tick assms(2) f3 by blast
    with that True show ?thesis
      by (auto simp: osWriteAt_def osCall_def Let_def overwrite_def fits_def fileAt_update split: option.splits)
  next
    case False
    with write_fits [OF that(1) assms(2) f3 assms(6)] f2(2) [OF refl that(2)] show ?thesis by blast
  qed
  show ?thesis
    using assms(1) t f2(1) f3 read2 read unfolding assms(4,5)
    by (auto simp: syncBlock_def ctxCheck_def Let_def assms(4,5) [symmetric]
        split: option.splits prod.splits sum.splits if_splits dest!: wr intro: pw)
qed

lemma syncBlocks_fits:
  assumes "syncBlocks rv bs tsz is (st, d, b) w = (r, w')" "guestOk (rv_os rv) src tgt" "fits src tgt len w"
    and "src = rc_SourceDisk (rs_Config st)" "tgt = rc_TargetDisk (rs_Config st)" "src \<noteq> tgt"
  shows "fits src tgt len w' \<and> sameDisks st (case r of Inl (e, st') \<Rightarrow> st' | Inr (st', _) \<Rightarrow> st')"
  using assms
proof (induction "is" arbitrary: st d b w)
  case Nil
  then show ?case by auto
next
  case (Cons i "is")
  obtain r1 w1 where step: "syncBlock rv bs tsz i (st, d, b) w = (r1, w1)" by (metis surj_pair)
  have f: "fits src tgt len w1" using syncBlock_fits [OF step Cons.prems(2-)] .
  show ?case
  proof (cases r1)
    case (Inl x)
    with Cons.prems(1) step f syncBlock_same [OF step] show ?thesis by auto
  next
    case (Inr acc)
    obtain st1 d1 b1 where acc: "acc = (st1, d1, b1)" by (cases acc)
    have same: "sameDisks st st1" using syncBlock_same [OF step] by (simp add: Inr acc)
    have "fits src tgt len w' \<and> sameDisks st1 (case r of Inl (e, st') \<Rightarrow> st' | Inr (st', _) \<Rightarrow> st')"
      by (rule Cons.IH [of st1 d1 b1 w1]) (use Cons.prems step f same in \<open>auto simp: Inr acc sameDisks_def\<close>)
    with same show ?thesis using sameDisks_trans by blast
  qed
qed

lemma open_fits:
  assumes "guestOk os src tgt" "src \<noteq> tgt"
  shows "osOpen os p w = (e, w') \<Longrightarrow> fits src tgt len w \<Longrightarrow> fits src tgt len w'"
    and "osStat os p w = (x, w') \<Longrightarrow> fits src tgt len w \<Longrightarrow> fits src tgt len w'"
    and "osCreate os tgt w = (e, w') \<Longrightarrow> fits src tgt len w \<Longrightarrow> fits src tgt len w'"
    and "osTruncate os tgt w = (e, w') \<Longrightarrow> fits src tgt len w \<Longrightarrow> fits src tgt len w'"
    and "osCall os oper w = (e, w') \<Longrightarrow> fits src tgt len w \<Longrightarrow> fits src tgt len w'"
  using fits_tick [OF assms(1), of len w] assms(2)
  by (auto simp: os_defs fits_def fileAt_update split: option.splits if_splits)

lemma finish_fits:
  assumes "persist rv (st\<lparr>rs_LastSyncAt := t\<rparr>) w1 = (e, st', w')" "clock rv w = (t, w1)"
    and "guestOk (rv_os rv) src tgt" "fits src tgt len w"
  shows "fits src tgt len w' \<and> sameDisks st st'"
  using persist_fits [OF assms(1,3) fits_files [OF wo_files_clock' [OF assms(2)] assms(4)]] persist_same [OF assms(1)]
  by (simp add: sameDisks_def blockSizeBytes_def)

lemma syncRound_fits:
  assumes "syncRound rv phase ssz tsz st w = (r, st', w')" "guestOk (rv_os rv) src tgt" "fits src tgt len w"
    and "src = rc_SourceDisk (rs_Config st)" "tgt = rc_TargetDisk (rs_Config st)" "src \<noteq> tgt"
  shows "fits src tgt len w' \<and> sameDisks st st'"
proof -
  let ?n = "nat (blockCount ssz (blockSizeBytes st))"
  let ?st = "st\<lparr>rs_Phase := phase, rs_DirtyBitmap := replicate ?n 0, rs_SyncRounds := rs_SyncRounds st + 1\<rparr>"
  obtain r1 w1 where run: "syncBlocks rv (nat (blockSizeBytes st)) tsz [0..<?n] (?st, 0, 0) w = (r1, w1)"
    by (metis surj_pair)
  have f: "fits src tgt len w1 \<and> sameDisks ?st (case r1 of Inl (e, st') \<Rightarrow> st' | Inr (st', _) \<Rightarrow> st')"
    by (rule syncBlocks_fits [OF run assms(2,3)]) (use assms(4-6) in simp_all)
  then have same: "sameDisks st (case r1 of Inl (e, st') \<Rightarrow> st' | Inr (st', _) \<Rightarrow> st')"
    by (simp add: sameDisks_def blockSizeBytes_def)
  note finish = finish_fits [OF _ _ assms(2)]
  show ?thesis
    using assms(1) run f same unfolding syncRound_def Let_def
    by (auto split: prod.splits sum.splits option.splits simp: fits_files [OF wo_files_progress]
        dest!: finish intro: sameDisks_trans)
qed

lemma opening_fits:
  assumes "validateConfig rv st w = (e, st1, w1)" "startClock rv st1 w1 = (st2, w2)" "fits src tgt len w"
  shows "fits src tgt len w2 \<and> sameDisks st st2"
  using assms fits_files validate_same startClock_same sameDisks_trans wo_files_validate wo_files_startClock by metis

lemma runSync_fits:
  assumes "runSync rv phase st w = (r, st', w')" "guestOk (rv_os rv) src tgt" "fits src tgt len w"
    and "src = rc_SourceDisk (rs_Config st)" "tgt = rc_TargetDisk (rs_Config st)" "src \<noteq> tgt"
  shows "fits src tgt len w' \<and> sameDisks st st'"
proof -
  obtain e1 st1 w1 where v: "validateConfig rv st w = (e1, st1, w1)" by (metis prod_cases3)
  obtain st2 w2 where c: "startClock rv st1 w1 = (st2, w2)" by (metis surj_pair)
  note o = opening_fits [OF v c assms(3)]
  have disks: "rc_SourceDisk (rs_Config st2) = src" "rc_TargetDisk (rs_Config st2) = tgt"
    using o assms(4,5) by (simp_all add: sameDisks_def)
  have v1: "fits src tgt len w1 \<and> sameDisks st st1"
    using fits_files [OF wo_files_validate [OF v] assms(3)] validate_same [OF v] by blast
  note opens = open_fits [OF assms(2,6)]
  have round: "fits src tgt len w' \<and> sameDisks st st'"
    if "syncRound rv phase ssz tsz st2 w6 = (r, st', w')" "fits src tgt len w6" for ssz tsz w6
    using syncRound_fits [OF that(1) assms(2) that(2) disks [symmetric] assms(6)] o sameDisks_trans by blast
  show ?thesis
    using assms(1) v1 o unfolding runSync_def Let_def v
    by (auto simp: c disks split: option.splits prod.splits sum.splits dest!: opens dest: round)
qed

section \<open>The initial copy\<close>

lemma copyLoop_fits:
  assumes "copyLoop rv ssz offset st w = Some (e, st', w')"
    and "guestOk (rv_os rv) src tgt" "fits src tgt len w" "offset \<le> len"
    and "src = rc_SourceDisk (rs_Config st)" "tgt = rc_TargetDisk (rs_Config st)" "src \<noteq> tgt"
  shows "fits src tgt len w' \<and> sameDisks st st'"
proof -
  let ?P = "\<lambda>rv ssz offset st w r. \<forall>st' w' e. r = (e, st', w') \<longrightarrow> guestOk (rv_os rv) src tgt \<longrightarrow>
      fits src tgt len w \<longrightarrow> offset \<le> len \<longrightarrow> src = rc_SourceDisk (rs_Config st) \<longrightarrow>
      tgt = rc_TargetDisk (rs_Config st) \<longrightarrow> src \<noteq> tgt \<longrightarrow> fits src tgt len w' \<and> sameDisks st st'"
  have "?P rv ssz offset st w (e, st', w')"
  proof (induction rule: copyLoop.raw_induct [OF _ assms(1), of ?P, case_names 1])
    case (1 copyLoop rv ssz offset st w r)
    let ?os = "rv_os rv" and ?bs = "nat (blockSizeBytes st)"
    show ?case
    proof (intro allI impI)
      fix st' w' e
      assume r: "r = (e, st', w')" and g: "guestOk ?os src tgt" and f: "fits src tgt len w" and le: "offset \<le> len"
        and disks: "src = rc_SourceDisk (rs_Config st)" "tgt = rc_TargetDisk (rs_Config st)" "src \<noteq> tgt"
      have t: "fits src tgt len (tick ?os w)" using fits_tick g f by blast
      obtain r2 w2 where read: "osRead ?os src ?bs offset (tick ?os w) = (r2, w2)" by (metis surj_pair)
      have f2: "fits src tgt len w2" "r2 = Inr chunk \<Longrightarrow> offset + length chunk \<le> len" for chunk
        using read fits_tick [OF g t] le by (auto simp: osRead_def osCall_def Let_def fits_def split: option.splits)
      have wr: "fits src tgt len w3" if "osWriteAt ?os tgt offset chunk w2 = (x, w3)" "r2 = Inr chunk" for x w3 chunk
        using write_fits [OF that(1) g f2(1) disks(3) f2(2) [OF that(2)]] .
      have next_ok: "fits src tgt len w' \<and> sameDisks st st'"
        if "copyLoop rv ssz (offset + length chunk) (st\<lparr>rs_BytesCopied := n\<rparr>) (emitProgress st1 ssz 0 w3) = Some (e, st', w')"
          "fits src tgt len w3" "r2 = Inr chunk" for chunk n st1 w3
        using 1(1) [OF that(1)] g disks f2(2) [OF that(3)] fits_files [OF wo_files_progress that(2)]
        by (auto simp: sameDisks_def blockSizeBytes_def)
      show "fits src tgt len w' \<and> sameDisks st st'"
        using 1(2) t f2(1) unfolding r Let_def disks(1,2) [symmetric] ctxCheck_def
        by (auto simp: read r split: option.splits prod.splits sum.splits if_splits
            dest!: wr next_ok dest: persistAndWrap_fits [OF _ g] persistAndWrap_same)
    qed
  qed
  with assms show ?thesis by blast
qed

text \<open>The loop ends: every iteration reads at least one byte of a file that does not grow.\<close>

lemma copyLoop_returns:
  assumes "guestOk (rv_os rv) src tgt" "src = rc_SourceDisk (rs_Config st)" "tgt = rc_TargetDisk (rs_Config st)"
    and "src \<noteq> tgt" "blockSizeBytes st > 0"
  shows "\<exists>e st' w'. copyLoop rv ssz offset st w = Some (e, st', w')"
  using assms
proof (induction "length (fileAt (wo_files w) src) - offset" arbitrary: offset st w rule: less_induct)
  case less
  let ?os = "rv_os rv" and ?bs = "nat (blockSizeBytes st)"
  let ?len = "\<lambda>w. length (fileAt (wo_files w) src)"
  have tick: "?len (tick ?os w) = ?len w" for w :: "'a world"
    using less.prems(1) by (simp add: tick_def guestOk_def)
  obtain r2 w2 where read: "osRead ?os src ?bs offset (tick ?os w) = (r2, w2)" by (metis surj_pair)
  have len2: "?len w2 = ?len w" using read tick by (auto simp: osRead_def osCall_def Let_def split: option.splits)
  show ?case
  proof (cases r2)
    case (Inl err)
    then show ?thesis unfolding copyLoop.simps [of rv ssz offset st w]
      by (auto simp: Let_def ctxCheck_def read less.prems(2) [symmetric] split: option.splits prod.splits)
  next
    case (Inr chunk)
    obtain x w3 where wr: "osWriteAt ?os tgt offset chunk w2 = (x, w3)" by (metis surj_pair)
    have len3: "?len w3 = ?len w"
      using wr tick len2 less.prems(4)
      by (auto simp: osWriteAt_def osCall_def Let_def fileAt_update split: option.splits)
    let ?st = "st\<lparr>rs_BytesCopied := rs_BytesCopied st + int (length chunk)\<rparr>"
    have "\<exists>e st' w'. copyLoop rv ssz (offset + length chunk) ?st (emitProgress ?st ssz 0 w3) = Some (e, st', w')"
      if "chunk \<noteq> []"
    proof (rule less.hyps)
      have "offset < ?len w"
        using read that Inr tick by (auto simp: osRead_def osCall_def Let_def split: option.splits)
      with that show "?len (emitProgress ?st ssz 0 w3) - (offset + length chunk) < ?len w - offset"
        by (simp add: len3) (metis diff_less_mono2 length_greater_0_conv less_add_same_cancel1)
    qed (use less.prems in \<open>simp_all add: blockSizeBytes_def\<close>)
    then show ?thesis unfolding copyLoop.simps [of rv ssz offset st w]
      by (auto simp: Let_def ctxCheck_def read Inr wr less.prems(2,3) [symmetric] split: option.splits prod.splits)
  qed
qed

text \<open>A completed loop has copied everything behind its offset.\<close>

lemma take_append_rest: "c = take m (drop k xs) \<Longrightarrow> c @ drop (k + length c) xs = drop k xs"
proof (cases "m \<le> length xs - k")
  case True
  assume "c = take m (drop k xs)"
  with True show ?thesis by simp (metis add.commute append_take_drop_id drop_drop)
qed simp

lemma copyLoop_length:
  assumes "copyLoop rv ssz offset st w = Some (None, st', w')"
    and "guestOk (rv_os rv) src tgt" "length (fileAt (wo_files w) tgt) = offset"
    and "src = rc_SourceDisk (rs_Config st)" "tgt = rc_TargetDisk (rs_Config st)" "src \<noteq> tgt"
    and "offset \<le> length (fileAt (wo_files w) src)" "blockSizeBytes st > 0"
  shows "length (fileAt (wo_files w') tgt) = length (fileAt (wo_files w') src)
     \<and> (atRest (rv_os rv) \<longrightarrow> fileAt (wo_files w') src = fileAt (wo_files w) src
          \<and> fileAt (wo_files w') tgt = fileAt (wo_files w) tgt @ drop offset (fileAt (wo_files w) src))"
proof -
  let ?S = "\<lambda>w :: 'a world. fileAt (wo_files w) src" and ?T = "\<lambda>w :: 'a world. fileAt (wo_files w) tgt"
  let ?P = "\<lambda>rv ssz offset st w r.
      \<forall>st' w'. r = (None :: goerror option, st' :: ReplicationState, w') \<longrightarrow> guestOk (rv_os rv) src tgt \<longrightarrow>
      length (?T w) = offset \<longrightarrow> src = rc_SourceDisk (rs_Config st) \<longrightarrow> tgt = rc_TargetDisk (rs_Config st) \<longrightarrow>
      src \<noteq> tgt \<longrightarrow> offset \<le> length (?S w) \<longrightarrow> blockSizeBytes st > 0 \<longrightarrow>
      length (?T w') = length (?S w')
      \<and> (atRest (rv_os rv) \<longrightarrow> ?S w' = ?S w \<and> ?T w' = ?T w @ drop offset (?S w))"
  have "?P rv ssz offset st w (None, st', w')"
  proof (induction rule: copyLoop.raw_induct [OF _ assms(1), of ?P, case_names 1])
    case (1 copyLoop rv ssz offset st w r)
    let ?os = "rv_os rv" and ?bs = "nat (blockSizeBytes st)"
    show ?case
    proof (intro allI impI)
      fix st' w'
      assume r: "r = (None, st', w')" and g: "guestOk ?os src tgt" and off: "length (?T w) = offset"
        and disks: "src = rc_SourceDisk (rs_Config st)" "tgt = rc_TargetDisk (rs_Config st)" "src \<noteq> tgt"
        and le: "offset \<le> length (?S w)" and bs: "blockSizeBytes st > 0"
      let ?w1 = "tick ?os w" and ?w2 = "tick ?os (tick ?os w)" and ?w3 = "tick ?os (tick ?os (tick ?os w))"
      have keep: "length (?S (tick ?os v)) = length (?S v)" "?T (tick ?os v) = ?T v" for v :: "'a world"
        using g by (simp_all add: guestOk_def tick_def)
      define chunk where "chunk = take (min ?bs (max 1 (os_chunk ?os (wo_step ?w1)))) (drop offset (?S ?w2))"
      note run = 1(2) [unfolded r Let_def ctxCheck_def, folded disks(1,2), simplified]
      have c: "os_ctxErr ?os (wo_step w) = None"
        using run by (auto split: option.splits prod.splits)
      have rd: "osRead ?os src ?bs offset ?w1 = (Inr chunk, ?w2)"
        using run by (auto simp: c osRead_def osCall_def chunk_def split: option.splits prod.splits)
      have wr: "osWriteAt ?os tgt offset chunk ?w2 =
          (None, ?w3\<lparr>wo_files := AList.update tgt (overwrite offset chunk (?T ?w3)) (wo_files ?w3)\<rparr>)" if "chunk \<noteq> []"
        using run that by (auto simp: c rd osWriteAt_def osCall_def split: option.splits)
      note run' = run [unfolded c rd, simplified]
      show "length (?T w') = length (?S w') \<and> (atRest ?os \<longrightarrow> ?S w' = ?S w \<and> ?T w' = ?T w @ drop offset (?S w))"
      proof (cases "chunk = []")
        case True
        then have "drop offset (?S ?w2) = []" using bs by (auto simp: chunk_def min_def split: if_splits)
        then have "length (?S ?w2) \<le> offset" by simp
        then have "offset = length (?S w)" using le unfolding keep(1) by (rule antisym [rotated])
        then show ?thesis using True run' off keep by (auto simp: atRest_tick)
      next
        case False
        let ?st = "st\<lparr>rs_BytesCopied := rs_BytesCopied st + int (length chunk)\<rparr>"
        let ?w4 = "emitProgress ?st ssz 0 (?w3\<lparr>wo_files := AList.update tgt (overwrite offset chunk (?T ?w3)) (wo_files ?w3)\<rparr>)"
        have T4: "?T ?w4 = ?T w @ chunk" using off keep False by (simp add: fileAt_update overwrite_def)
        have S4: "length (?S ?w4) = length (?S w)" "atRest ?os \<Longrightarrow> ?S ?w4 = ?S w"
          using keep disks(3) by (simp_all add: fileAt_update atRest_tick)
        have len: "offset + length chunk \<le> length (?S w)" using le keep by (simp add: chunk_def)
        have run2: "copyLoop rv ssz (offset + length chunk) ?st ?w4 = Some (None, st', w')"
          using run' False by (simp add: wr)
        have "atRest ?os \<Longrightarrow> chunk @ drop (offset + length chunk) (?S w) = drop offset (?S w)"
          by (rule take_append_rest) (simp add: chunk_def atRest_tick)
        with 1(1) [OF run2] g disks T4 S4 len off bs show ?thesis
          by (simp add: blockSizeBytes_def)
      qed
    qed
  qed
  with assms show ?thesis by blast
qed

text \<open>Operations that leave the target as it is and the source at its length.\<close>

definition stable :: "osEnv \<Rightarrow> string \<Rightarrow> string \<Rightarrow> 'st world \<Rightarrow> 'st world \<Rightarrow> bool" where
  "stable os src tgt w w' =
     (fileAt (wo_files w') tgt = fileAt (wo_files w) tgt
      \<and> length (fileAt (wo_files w') src) = length (fileAt (wo_files w) src)
      \<and> (atRest os \<longrightarrow> fileAt (wo_files w') src = fileAt (wo_files w) src))"

lemma stable_trans [trans]: "stable os src tgt a b \<Longrightarrow> stable os src tgt b c \<Longrightarrow> stable os src tgt a c"
  by (simp add: stable_def)

lemma stable_files: "wo_files w' = wo_files w \<Longrightarrow> stable os src tgt w w'"
  by (simp add: stable_def)

lemma stable_tick: "guestOk os src tgt \<Longrightarrow> stable os src tgt w (tick os w)"
  by (simp add: stable_def tick_def guestOk_def atRest_def)

lemma fileAt_create [simp]: "map_of fs p = None \<Longrightarrow> fileAt (AList.update p [] fs) q = fileAt fs q"
  by (simp add: fileAt_def)

lemma stable_ops:
  assumes "guestOk os src tgt"
  shows "osOpen os p w = (e, w') \<Longrightarrow> stable os src tgt w w'"
    and "osStat os p w = (x, w') \<Longrightarrow> stable os src tgt w w'"
    and "osCreate os p w = (e, w') \<Longrightarrow> stable os src tgt w w'"
    and "osCall os oper w = (e, w') \<Longrightarrow> stable os src tgt w w'"
  using stable_tick [OF assms, of w] by (auto simp: os_defs stable_def split: option.splits if_splits)

lemma stat_size:
  assumes "guestOk os src tgt" "osStat os p w = (Inr n, w')"
  shows "p = src \<Longrightarrow> n = int (length (fileAt (wo_files w) src))"
    and "p = tgt \<Longrightarrow> n = int (length (fileAt (wo_files w) tgt))"
proof -
  have "n = int (length (fileAt (wo_files w') p))"
    using assms(2) by (auto simp: os_defs fileAt_def split: option.splits)
  then show "p = src \<Longrightarrow> n = int (length (fileAt (wo_files w) src))"
    and "p = tgt \<Longrightarrow> n = int (length (fileAt (wo_files w) tgt))"
    using stable_ops(2) [OF assms] by (auto simp: stable_def)
qed

lemma stable_persist:
  "persist rv st w = (e, st', w') \<Longrightarrow> guestOk (rv_os rv) src tgt \<Longrightarrow> stable (rv_os rv) src tgt w w'"
  using persist_files [of rv st w e st' w'] by (auto simp: stable_def guestOk_def atRest_def)

lemma blockSize_pos [simp]: "blockSizeBytes st > 0"
  by (simp add: blockSizeBytes_def Let_def defaultReplicationBlockSizeKB_def)

lemma copyFrom_done:
  assumes "guestOk (rv_os rv) src tgt" "src = rc_SourceDisk (rs_Config st)" "tgt = rc_TargetDisk (rs_Config st)"
    and "src \<noteq> tgt" "offset = int (length (fileAt (wo_files w) tgt))"
    and "length (fileAt (wo_files w) tgt) \<le> length (fileAt (wo_files w) src)"
  shows "\<exists>e st' w'. copyFrom rv ssz offset st w = Some (e, st', w')
     \<and> (e = None \<longrightarrow> length (fileAt (wo_files w') tgt) = length (fileAt (wo_files w') src) \<and> sameDisks st st'
         \<and> (atRest (rv_os rv) \<longrightarrow> fileAt (wo_files w') src = fileAt (wo_files w) src
              \<and> fileAt (wo_files w') tgt = fileAt (wo_files w) tgt
                  @ drop (length (fileAt (wo_files w) tgt)) (fileAt (wo_files w) src)))"
proof -
  let ?os = "rv_os rv"
  obtain e1 w1 where a: "osCall ?os (OsSeek src) w = (e1, w1)" by (metis surj_pair)
  obtain e2 w2 where b: "osCall ?os (OsSeek tgt) w1 = (e2, w2)" by (metis surj_pair)
  have st2: "stable ?os src tgt w w2" using stable_ops(4) [OF assms(1)] a b stable_trans by blast
  let ?st = "st\<lparr>rs_Phase := replicationPhaseInitialCopy, rs_BytesCopied := offset,
      rs_DirtyBitmap := replicate (nat (blockCount ssz (blockSizeBytes st))) 0\<rparr>"
  obtain e3 st3 w3 where c: "copyLoop rv ssz (nat offset) ?st w2 = Some (e3, st3, w3)"
    using copyLoop_returns [OF assms(1), of ?st ssz "nat offset" w2] assms(2-4) by auto
  have sd: "sameDisks st st3"
  proof -
    have "fits src tgt (length (fileAt (wo_files w) src)) w2" using st2 assms(6) by (simp add: fits_def stable_def)
    from copyLoop_fits [OF c assms(1) this] assms show ?thesis by (simp add: sameDisks_def blockSizeBytes_def)
  qed
  obtain t w4 where d: "clock rv w3 = (t, w4)" by (metis surj_pair)
  obtain e5 st5 w5 where p: "persist rv (st3\<lparr>rs_LastSyncAt := t\<rparr>) w4 = (e5, st5, w5)" by (metis prod_cases3)
  have st5: "stable ?os src tgt w3 w5"
    using stable_persist [OF p assms(1)] stable_files [OF wo_files_clock' [OF d]] stable_trans by blast
  have sd5: "sameDisks st st5" using sd persist_same [OF p] by (simp add: sameDisks_def blockSizeBytes_def)
  have full: "length (fileAt (wo_files w3) tgt) = length (fileAt (wo_files w3) src)
      \<and> (atRest ?os \<longrightarrow> fileAt (wo_files w3) src = fileAt (wo_files w2) src
          \<and> fileAt (wo_files w3) tgt = fileAt (wo_files w2) tgt @ drop (nat offset) (fileAt (wo_files w2) src))"
    if "e3 = None"
    using copyLoop_length [OF c [unfolded that] assms(1)] st2 assms(2-6) by (simp add: stable_def)
  show ?thesis
    using a b c d p full st2 st5 sd sd5 assms(5) unfolding copyFrom_def Let_def assms(2,3) [symmetric]
    by (auto simp: stable_def split: option.splits)
qed

lemma copyOpened_done:
  assumes "guestOk (rv_os rv) src tgt" "src = rc_SourceDisk (rs_Config st)" "tgt = rc_TargetDisk (rs_Config st)"
    and "src \<noteq> tgt" "ssz = int (length (fileAt (wo_files w) src))"
  shows "\<exists>e st' w'. copyOpened rv ssz st w = Some (e, st', w')
     \<and> (e = None \<longrightarrow> length (fileAt (wo_files w') tgt) = length (fileAt (wo_files w') src) \<and> sameDisks st st'
         \<and> (atRest (rv_os rv) \<longrightarrow> fileAt (wo_files w') src = fileAt (wo_files w) src
              \<and> fileAt (wo_files w') tgt =
                  (if length (fileAt (wo_files w) tgt) \<le> length (fileAt (wo_files w) src)
                   then fileAt (wo_files w) tgt @ drop (length (fileAt (wo_files w) tgt)) (fileAt (wo_files w) src)
                   else fileAt (wo_files w) src)))"
proof -
  let ?os = "rv_os rv"
  obtain x w1 where a: "osStat ?os tgt w = (x, w1)" by (metis surj_pair)
  have st1: "stable ?os src tgt w w1" using stable_ops(2) [OF assms(1) a] .
  show ?thesis
  proof (cases x)
    case (Inl err)
    then show ?thesis using a by (simp add: copyOpened_def Let_def assms(3) [symmetric])
  next
    case (Inr n)
    have n: "n = int (length (fileAt (wo_files w) tgt))" using stat_size(2) [OF assms(1) a [unfolded Inr]] by simp
    obtain e2 w2 where b: "osTruncate ?os tgt w1 = (e2, w2)" by (metis surj_pair)
    have t2: "fileAt (wo_files w2) tgt = []" "length (fileAt (wo_files w2) src) = length (fileAt (wo_files w) src)"
      "atRest ?os \<Longrightarrow> fileAt (wo_files w2) src = fileAt (wo_files w) src" if "e2 = None"
      using b that stable_tick [OF assms(1), of w1] st1 assms(4)
      by (auto simp: os_defs stable_def fileAt_update split: option.splits)
    show ?thesis
    proof (cases "n > ssz")
      case False
      then have "length (fileAt (wo_files w1) tgt) \<le> length (fileAt (wo_files w1) src)"
        and "n = int (length (fileAt (wo_files w1) tgt))"
        using n assms(5) st1 by (simp_all add: stable_def)
      from copyFrom_done [OF assms(1-4) this(2,1), of ssz] False st1 a n assms(5) show ?thesis
        by (auto simp: copyOpened_def Let_def assms(3) [symmetric] Inr stable_def)
    next
      case True
      show ?thesis
      proof (cases e2)
        case None
        from copyFrom_done [OF assms(1-4), of 0 w2 ssz] t2 [OF None] True a b n assms(5) show ?thesis
          by (auto simp: copyOpened_def Let_def assms(3) [symmetric] Inr None)
      next
        case (Some err)
        with True a b show ?thesis by (simp add: copyOpened_def Let_def assms(3) [symmetric] Inr)
      qed
    qed
  qed
qed

lemma initial_copy:
  assumes "guestOk (rv_os rv) (rc_SourceDisk (rs_Config st)) (rc_TargetDisk (rs_Config st))"
    and "rc_SourceDisk (rs_Config st) \<noteq> rc_TargetDisk (rs_Config st)"
  defines "S \<equiv> \<lambda>w. fileAt (wo_files w) (rc_SourceDisk (rs_Config st))"
    and "T \<equiv> \<lambda>w. fileAt (wo_files w) (rc_TargetDisk (rs_Config st))"
  shows "\<exists>e st' w'. StartInitialCopy rv st w = Some (e, st', w')
     \<and> (e = None \<longrightarrow> length (T w') = length (S w') \<and> sameDisks st st'
         \<and> (atRest (rv_os rv) \<longrightarrow> S w' = S w
              \<and> T w' = (if length (T w) \<le> length (S w) then T w @ drop (length (T w)) (S w) else S w)))"
proof -
  let ?os = "rv_os rv" and ?src = "rc_SourceDisk (rs_Config st)" and ?tgt = "rc_TargetDisk (rs_Config st)"
  obtain e1 st1 w1 where v: "validateConfig rv st w = (e1, st1, w1)" by (metis prod_cases3)
  obtain st2 w2 where c: "startClock rv st1 w1 = (st2, w2)" by (metis surj_pair)
  have same: "sameDisks st st2" using validate_same [OF v] startClock_same [OF c] sameDisks_trans by blast
  then have disks: "?src = rc_SourceDisk (rs_Config st2)" "?tgt = rc_TargetDisk (rs_Config st2)"
    by (simp_all add: sameDisks_def)
  have w2: "stable ?os ?src ?tgt w w2"
    using wo_files_validate [OF v] wo_files_startClock [OF c] by (simp add: stable_files)
  obtain x w3 where a: "osStat ?os ?src w2 = (x, w3)" by (metis surj_pair)
  obtain e4 w4 where b: "osCall ?os (OsMkdirAll ?tgt) w3 = (e4, w4)" by (metis surj_pair)
  obtain e5 w5 where d: "osOpen ?os ?src w4 = (e5, w5)" by (metis surj_pair)
  obtain e6 w6 where f: "osCreate ?os ?tgt w5 = (e6, w6)" by (metis surj_pair)
  note ops = stable_ops [OF assms(1)]
  have w6: "stable ?os ?src ?tgt w w6"
    using w2 ops(2) [OF a] ops(4) [OF b] ops(1) [OF d] ops(3) [OF f] stable_trans by metis
  have "x = Inr n \<Longrightarrow> n = int (length (fileAt (wo_files w6) ?src))" for n
    using stat_size(1) [OF assms(1), of ?src w2 n w3] a w2 w6 by (simp add: stable_def)
  with copyOpened_done [OF assms(1) disks assms(2)]
  have opened: "x = Inr n \<Longrightarrow> \<exists>e st' w'. copyOpened rv n st2 w6 = Some (e, st', w')
     \<and> (e = None \<longrightarrow> length (T w') = length (S w') \<and> sameDisks st2 st'
         \<and> (atRest ?os \<longrightarrow> S w' = S w6
              \<and> T w' = (if length (T w6) \<le> length (S w6) then T w6 @ drop (length (T w6)) (S w6) else S w6)))" for n
    unfolding S_def T_def by blast
  have eq: "T w6 = T w" "length (S w6) = length (S w)" "atRest ?os \<Longrightarrow> S w6 = S w"
    using w6 by (simp_all add: S_def T_def stable_def)
  note run = StartInitialCopy_def [of rv st w, unfolded v, simplified Let_def prod.case c, folded disks, unfolded a, simplified]
  show ?thesis
  proof (cases "e1 = None \<and> e4 = None \<and> e5 = None \<and> e6 = None \<and> (\<exists>n. x = Inr n)")
    case True
    then obtain n where n: "x = Inr n" by blast
    have start: "StartInitialCopy rv st w = copyOpened rv n st2 w6" using True by (simp add: run n b d f)
    from opened [OF n] show ?thesis unfolding start
      by (elim exE, intro exI) (auto simp: eq dest: sameDisks_trans [OF same])
  next
    case False
    then have "\<exists>err st' w'. StartInitialCopy rv st w = Some (Some err, st', w')"
      by (auto simp: run b d f split: option.splits sum.splits)
    then show ?thesis by (elim exE) simp
  qed
qed

text \<open>
  C30 (initial_copy_returns): on a source disk that the guest changes only in place, the initial copy
  always returns, however short its reads are and whatever fails; when it reports no error the target is
  exactly as long as the source, and on a disk at rest it is the old target, taken for a copied prefix,
  completed by the rest of the source, or the source itself where the old target was too long.
\<close>

theorem initial_copy_returns:
  assumes "guestOk (rv_os rv) (rc_SourceDisk (rs_Config st)) (rc_TargetDisk (rs_Config st))"
    and "rc_SourceDisk (rs_Config st) \<noteq> rc_TargetDisk (rs_Config st)"
  defines "S \<equiv> \<lambda>w. fileAt (wo_files w) (rc_SourceDisk (rs_Config st))"
    and "T \<equiv> \<lambda>w. fileAt (wo_files w) (rc_TargetDisk (rs_Config st))"
  shows "\<exists>e st' w'. StartInitialCopy rv st w = Some (e, st', w')
     \<and> (e = None \<longrightarrow> length (T w') = length (S w') \<and> sameDisks st st'
         \<and> (atRest (rv_os rv) \<longrightarrow> S w' = S w
              \<and> T w' = (if length (T w) \<le> length (S w) then T w @ drop (length (T w)) (S w) else S w)))"
  unfolding S_def T_def by (rule initial_copy [OF assms(1,2)])

section \<open>A round on a disk at rest\<close>

definition block :: "nat \<Rightarrow> nat \<Rightarrow> bytes \<Rightarrow> bytes" where
  "block bs i xs = take bs (drop (i * bs) xs)"

text \<open>The target when the first \<open>n\<close> bytes are in step with the source.\<close>

definition synced :: "nat \<Rightarrow> bytes \<Rightarrow> bytes \<Rightarrow> bytes" where
  "synced n S T = take n S @ drop (min n (length S)) T"

lemma synced_0 [simp]: "synced 0 S T = T"
  by (simp add: synced_def)

lemma synced_end: "length S \<le> n \<Longrightarrow> synced n S T = S @ drop (length S) T"
  by (simp add: synced_def min_absorb2)

lemma synced_block: "off \<le> length S \<Longrightarrow> drop off (synced off S T) = drop off T"
  by (simp add: synced_def min_absorb1)

lemma overwrite_synced:
  assumes "off < length S" "bs > 0"
  shows "overwrite off (take bs (drop off S)) (synced off S T) = synced (off + bs) S T"
proof -
  let ?c = "take bs (drop off S)"
  have ne: "?c \<noteq> []" using assms by simp
  have len: "off + length ?c = min (off + bs) (length S)" using assms(1) by auto
  have parts: "take off (synced off S T) = take off S" "off - length (synced off S T) = 0"
    using assms(1) by (simp_all add: synced_def)
  have rest: "drop (off + length ?c) (synced off S T) = drop (min (off + bs) (length S)) T"
    using synced_block [of off S T] assms(1) len by (metis add.commute drop_drop less_imp_le)
  have "overwrite off ?c (synced off S T) = take off (synced off S T)
      @ replicate (off - length (synced off S T)) (CHR 0x00) @ ?c @ drop (off + length ?c) (synced off S T)"
    using ne by (simp only: overwrite_def if_False)
  also have "\<dots> = synced (off + bs) S T" unfolding parts rest by (simp add: synced_def take_add)
  finally show ?thesis .
qed

lemma synced_same_block:
  assumes "off < length S" "take bs (drop off S) = take bs (drop off T)"
  shows "synced off S T = synced (off + bs) S T"
proof -
  have "drop (min (off + bs) (length S)) T = drop (off + bs) T"
  proof (cases "off + bs \<le> length S")
    case False
    have "min (length S - off) bs = min (length T - off) bs" using arg_cong [OF assms(2), of length] by simp
    with False assms(1) show ?thesis by simp
  qed simp
  moreover have "drop off T = take bs (drop off T) @ drop (off + bs) T"
    by (metis add.commute append_take_drop_id drop_drop)
  ultimately show ?thesis using assms by (simp add: synced_def take_add)
qed

text \<open>The bookkeeping of a block: marked dirty and counted when it differed.\<close>

definition countBlock ::
  "bytes \<Rightarrow> bytes \<Rightarrow> nat \<Rightarrow> nat \<Rightarrow> ReplicationState \<times> int \<times> int \<Rightarrow> ReplicationState \<times> int \<times> int" where
  "countBlock S T bs i = (\<lambda>(st, d, b).
     if block bs i S = block bs i T then (st, d, b)
     else (st\<lparr>rs_DirtyBitmap := (rs_DirtyBitmap st)[i := 1],
              rs_BytesCopied := rs_BytesCopied st + int (length (block bs i S))\<rparr>,
           d + 1, b + int (length (block bs i S))))"

lemma syncBlock_quiet:
  assumes "syncBlock rv bs tsz i (st, d, b) w = (Inr acc, w')" "atRest (rv_os rv)"
    and "src = rc_SourceDisk (rs_Config st)" "tgt = rc_TargetDisk (rs_Config st)" "src \<noteq> tgt"
    and "fileAt (wo_files w) src = S" "fileAt (wo_files w) tgt = synced (i * bs) S T"
    and "tsz = int (length T)" "i * bs < length S" "bs > 0"
  shows "fileAt (wo_files w') src = S \<and> fileAt (wo_files w') tgt = synced (Suc i * bs) S T
     \<and> acc = countBlock S T bs i (st, d, b)"
proof -
  let ?off = "i * bs"
  have tick: "wo_files (tick (rv_os rv) v) = wo_files v" for v :: "'a world" using assms(2) by (simp add: atRest_tick)
  have T: "(if int ?off < tsz then take bs (drop ?off (synced ?off S T)) else []) = block bs i T"
    using assms(8,9) by (simp add: synced_block block_def flip: of_nat_mult)
  have ow: "overwrite ?off (block bs i S) (synced ?off S T) = synced (Suc i * bs) S T"
    using overwrite_synced [OF assms(9,10)] by (simp add: block_def add.commute)
  have same: "block bs i S = block bs i T \<Longrightarrow> synced ?off S T = synced (Suc i * bs) S T"
    using synced_same_block [OF assms(9)] by (simp add: block_def add.commute)
  show ?thesis
    using assms(1) ow same T assms(5-7) unfolding assms(3,4)
    by (auto simp: syncBlock_def Let_def ctxCheck_def readAtMost_def osCall_def osWriteAt_def tick fileAt_update
        countBlock_def block_def [symmetric]
        split: option.splits prod.splits sum.splits if_splits)
qed

lemma countBlock_disks:
  "sameDisks st (fst (countBlock S T bs i (st, d, b)))"
  by (simp add: countBlock_def)

lemma syncBlocks_quiet:
  assumes "syncBlocks rv bs tsz [k..<n] (st, d, b) w = (Inr acc, w')" "atRest (rv_os rv)"
    and "src = rc_SourceDisk (rs_Config st)" "tgt = rc_TargetDisk (rs_Config st)" "src \<noteq> tgt"
    and "fileAt (wo_files w) src = S" "fileAt (wo_files w) tgt = synced (k * bs) S T"
    and "tsz = int (length T)" "k \<le> n" "\<And>i. i < n \<Longrightarrow> i * bs < length S" "bs > 0"
  shows "fileAt (wo_files w') src = S \<and> fileAt (wo_files w') tgt = synced (n * bs) S T
     \<and> acc = fold (countBlock S T bs) [k..<n] (st, d, b)"
  using assms
proof (induction "n - k" arbitrary: k st d b w)
  case 0
  then show ?case by auto
next
  case (Suc m)
  then have k: "k < n" by simp
  then have upt: "[k..<n] = k # [Suc k..<n]" by (simp add: upt_conv_Cons)
  obtain r1 w1 where step: "syncBlock rv bs tsz k (st, d, b) w = (r1, w1)" by (metis surj_pair)
  obtain acc1 where r1: "r1 = Inr acc1" using Suc.prems(1) step by (cases r1) (auto simp: upt)
  obtain st1 d1 b1 where acc1: "acc1 = (st1, d1, b1)" by (cases acc1)
  have q: "fileAt (wo_files w1) src = S \<and> fileAt (wo_files w1) tgt = synced (Suc k * bs) S T
      \<and> acc1 = countBlock S T bs k (st, d, b)"
    by (rule syncBlock_quiet [OF step [unfolded r1]]) (use Suc.prems k in auto)
  then have same: "sameDisks st st1" using countBlock_disks [of st S T bs k d b] by (metis acc1 fst_conv)
  have "fileAt (wo_files w') src = S \<and> fileAt (wo_files w') tgt = synced (n * bs) S T
      \<and> acc = fold (countBlock S T bs) [Suc k..<n] (st1, d1, b1)"
    by (rule Suc.hyps(1) [of "Suc k" st1 d1 b1 w1])
      (use Suc.hyps(2) Suc.prems k q same step in \<open>auto simp: upt r1 acc1 sameDisks_def\<close>)
  then show ?case using q by (simp add: upt acc1)
qed

definition dirtyAt :: "nat \<Rightarrow> bytes \<Rightarrow> bytes \<Rightarrow> nat \<Rightarrow> bool" where
  "dirtyAt bs S T i = (block bs i S \<noteq> block bs i T)"

definition dirtyBytes :: "nat \<Rightarrow> bytes \<Rightarrow> bytes \<Rightarrow> nat \<Rightarrow> int" where
  "dirtyBytes bs S T n = (\<Sum>i\<leftarrow>filter (dirtyAt bs S T) [0..<n]. int (length (block bs i S)))"

lemma fold_countBlock:
  assumes "k \<le> length (rs_DirtyBitmap st)"
  shows "fold (countBlock S T bs) [0..<k] (st, d, b) =
     (st\<lparr>rs_DirtyBitmap := map (\<lambda>i. if i < k \<and> dirtyAt bs S T i then 1 else rs_DirtyBitmap st ! i) [0..<length (rs_DirtyBitmap st)],
         rs_BytesCopied := rs_BytesCopied st + dirtyBytes bs S T k\<rparr>,
      d + int (length (filter (dirtyAt bs S T) [0..<k])), b + dirtyBytes bs S T k)"
  using assms
proof (induction k)
  case 0
  then show ?case by (cases st) (simp add: map_nth dirtyBytes_def)
next
  case (Suc k)
  then have k: "k < length (rs_DirtyBitmap st)" by simp
  let ?m = "\<lambda>k. map (\<lambda>i. if i < k \<and> dirtyAt bs S T i then 1 else rs_DirtyBitmap st ! i) [0..<length (rs_DirtyBitmap st)]"
  have "dirtyAt bs S T k \<Longrightarrow> (?m k)[k := 1] = ?m (Suc k)"
    using k by (intro nth_equalityI) (auto simp: nth_list_update less_Suc_eq)
  moreover have "\<not> dirtyAt bs S T k \<Longrightarrow> ?m k = ?m (Suc k)" by (auto simp: less_Suc_eq)
  ultimately show ?case using Suc by (cases "dirtyAt bs S T k") (simp_all add: countBlock_def dirtyAt_def dirtyBytes_def)
qed

lemma blockCount_bounds:
  assumes "bs > 0"
  shows "i < nat (blockCount (int len) bs) \<Longrightarrow> i * nat bs < len"
    and "len \<le> nat (blockCount (int len) bs) * nat bs"
proof -
  have "int i * bs < int len" if "int i < (int len + bs - 1) div bs"
  proof -
    have "(int i + 1) * bs \<le> ((int len + bs - 1) div bs) * bs" using that assms by (intro mult_right_mono) auto
    also have "\<dots> \<le> int len + bs - 1" 
      using pos_mod_sign [OF assms, of "int len + bs - 1"] by (simp add: minus_mod_eq_div_mult [symmetric])
    finally show ?thesis by (simp add: algebra_simps)
  qed
  moreover have "int i < (int len + bs - 1) div bs" if "i < nat (blockCount (int len) bs)"
    using that by (simp add: blockCount_def zless_nat_eq_int_zless split: if_splits)
  moreover have "int (i * nat bs) = int i * bs" using assms by simp
  ultimately show "i < nat (blockCount (int len) bs) \<Longrightarrow> i * nat bs < len" by linarith
  have "int len \<le> ((int len + bs - 1) div bs) * bs"
  proof -
    have "int len + bs - 1 < ((int len + bs - 1) div bs) * bs + bs"
      using assms by (metis add.commute div_mult_mod_eq pos_mod_bound add_less_cancel_left)
    then show ?thesis by simp
  qed
  then have "int len \<le> int (nat (blockCount (int len) bs) * nat bs)"
    using assms by (auto simp: blockCount_def pos_imp_zdiv_nonneg_iff)
  then show "len \<le> nat (blockCount (int len) bs) * nat bs" by linarith
qed

lemma persist_state:
  "persist rv st w = (e, st', w') \<Longrightarrow>
     rs_DirtyBitmap st' = rs_DirtyBitmap st \<and> rs_SyncRounds st' = rs_SyncRounds st \<and> rs_Phase st' = rs_Phase st"
  by (auto simp: persist_def startClock_def Let_def split: if_splits prod.splits sum.splits)

lemma syncRound_quiet:
  assumes "syncRound rv phase (int (length S)) (int (length T)) st w = (Inr result, st', w')" "atRest (rv_os rv)"
    and "src = rc_SourceDisk (rs_Config st)" "tgt = rc_TargetDisk (rs_Config st)" "src \<noteq> tgt"
    and "fileAt (wo_files w) src = S" "fileAt (wo_files w) tgt = T"
    and "bs = nat (blockSizeBytes st)" "n = nat (blockCount (int (length S)) (blockSizeBytes st))"
  shows "fileAt (wo_files w') src = S \<and> fileAt (wo_files w') tgt = S @ drop (length S) T
     \<and> rs_DirtyBitmap st' = map (\<lambda>i. if dirtyAt bs S T i then 1 else 0) [0..<n]
     \<and> rs_SyncRounds st' = rs_SyncRounds st + 1 \<and> rs_Phase st' = phase
     \<and> sr_DirtyBlocks result = int (length (filter (dirtyAt bs S T) [0..<n]))
     \<and> sr_BytesSynced result = dirtyBytes bs S T n \<and> sr_Round result = rs_SyncRounds st + 1"
proof -
  let ?st = "st\<lparr>rs_Phase := phase, rs_DirtyBitmap := replicate n 0, rs_SyncRounds := rs_SyncRounds st + 1\<rparr>"
  have n: "\<And>i. i < n \<Longrightarrow> i * bs < length S" "length S \<le> n * bs"
    using blockCount_bounds [OF blockSize_pos] by (simp_all add: assms(8,9))
  have bs: "bs > 0" by (simp add: assms(8))
  obtain r1 w1 where run: "syncBlocks rv bs (int (length T)) [0..<n] (?st, 0, 0) w = (r1, w1)" by (metis surj_pair)
  then obtain st2 d b where r1: "r1 = Inr (st2, d, b)"
    using assms(1) unfolding assms(8,9) by (cases r1) (auto simp: syncRound_def Let_def)
  have q: "fileAt (wo_files w1) src = S \<and> fileAt (wo_files w1) tgt = synced (n * bs) S T
      \<and> (st2, d, b) = fold (countBlock S T bs) [0..<n] (?st, 0, 0)"
    by (rule syncBlocks_quiet [OF run [unfolded r1] assms(2)]) (use assms(3-7) n bs in simp_all)
  then have acc: "rs_DirtyBitmap st2 = map (\<lambda>i. if dirtyAt bs S T i then 1 else 0) [0..<n]"
    "rs_SyncRounds st2 = rs_SyncRounds st + 1" "rs_Phase st2 = phase"
    "d = int (length (filter (dirtyAt bs S T) [0..<n]))" "b = dirtyBytes bs S T n"
    by (simp_all add: fold_countBlock cong: map_cong)
  obtain t w2 where c: "clock rv w1 = (t, w2)" by (metis surj_pair)
  obtain e st3 w3 where p: "persist rv (st2\<lparr>rs_LastSyncAt := t\<rparr>) w2 = (e, st3, w3)" by (metis prod_cases3)
  have files: "wo_files w3 = wo_files w1" using persist_files [OF p] wo_files_clock' [OF c] assms(2) by (auto simp: atRest_def)
  have res: "e = None" "st' = st3" "wo_files w' = wo_files w3" "sr_DirtyBlocks result = d" "sr_BytesSynced result = b"
    "sr_Round result = rs_SyncRounds st3"
    using assms(1) run unfolding assms(8,9)
    by (auto simp: syncRound_def Let_def r1 c p split: option.splits)
  show ?thesis using q acc res files persist_state [OF p] synced_end [OF n(2)] by simp
qed

text \<open>The part of a round before its blocks.\<close>

lemma runSync_quiet:
  assumes "runSync rv phase st w = (Inr result, st', w')" "atRest (rv_os rv)"
    and "src = rc_SourceDisk (rs_Config st)" "tgt = rc_TargetDisk (rs_Config st)" "src \<noteq> tgt"
  obtains st1 w1 where "syncRound rv phase (int (length (fileAt (wo_files w) src)))
      (int (length (fileAt (wo_files w) tgt))) st1 w1 = (Inr result, st', w')"
    and "sameDisks st st1" "rs_SyncRounds st1 = rs_SyncRounds st"
    and "\<And>p. p = src \<or> p = tgt \<Longrightarrow> fileAt (wo_files w1) p = fileAt (wo_files w) p"
proof -
  let ?os = "rv_os rv"
  have g: "guestOk ?os src tgt" using assms(2) by (rule atRest_guestOk)
  obtain e1 st1 w1 where v: "validateConfig rv st w = (e1, st1, w1)" by (metis prod_cases3)
  obtain st2 w2 where c: "startClock rv st1 w1 = (st2, w2)" by (metis surj_pair)
  have same: "sameDisks st st2" using validate_same [OF v] startClock_same [OF c] sameDisks_trans by blast
  then have disks: "src = rc_SourceDisk (rs_Config st2)" "tgt = rc_TargetDisk (rs_Config st2)"
    using assms(3,4) by (simp_all add: sameDisks_def)
  obtain e3 w3 where o3: "osOpen ?os src w2 = (e3, w3)" by (metis surj_pair)
  obtain x w4 where o4: "osStat ?os src w3 = (x, w4)" by (metis surj_pair)
  obtain e5 w5 where o5: "osCreate ?os tgt w4 = (e5, w5)" by (metis surj_pair)
  obtain y w6 where o6: "osStat ?os tgt w5 = (y, w6)" by (metis surj_pair)
  note run = assms(1) [unfolded runSync_def v, simplified Let_def prod.case c, folded disks, unfolded o3, simplified]
  obtain ssz tsz where xy: "e1 = None" "e3 = None" "x = Inr ssz" "e5 = None" "y = Inr tsz"
    and round: "syncRound rv phase ssz tsz st2 w6 = (Inr result, st', w')"
    using run by (auto simp: o4 o5 o6 split: option.splits sum.splits)
  note ops = stable_ops [OF g]
  have w2: "stable ?os src tgt w w2"
    using wo_files_validate [OF v] wo_files_startClock [OF c] by (simp add: stable_files)
  have w3: "stable ?os src tgt w w3" using w2 ops(1) [OF o3] stable_trans by blast
  have w4: "stable ?os src tgt w w4" using w3 ops(2) [OF o4] stable_trans by blast
  have w5: "stable ?os src tgt w w5" using w4 ops(3) [OF o5] stable_trans by blast
  have w6: "stable ?os src tgt w w6" using w5 ops(2) [OF o6] stable_trans by blast
  have sizes: "ssz = int (length (fileAt (wo_files w) src))" "tsz = int (length (fileAt (wo_files w) tgt))"
    using stat_size [OF g, of src w3 ssz w4] stat_size [OF g, of tgt w5 tsz w6] o4 o6 xy w3 w5
    by (simp_all add: stable_def)
  have "rs_SyncRounds st2 = rs_SyncRounds st"
    using v c by (auto simp: validateConfig_def startClock_def Let_def split: if_splits prod.splits)
  with that [of st2 w6] round sizes same w6 assms(2) show ?thesis by (auto simp: stable_def)
qed

text \<open>
  C31 (sync_round_exact): a sync round that reports no error on a disk at rest leaves the source alone
  and makes the target the source followed by whatever the target had behind the length of the source;
  the dirty bitmap marks exactly the blocks in which the two differed, and the result counts them, the
  bytes they hold and the round. Nothing is assumed about the target before the round.
\<close>

theorem sync_round_exact:
  assumes "runSync rv phase st w = (Inr result, st', w')" "atRest (rv_os rv)"
    and "rc_SourceDisk (rs_Config st) \<noteq> rc_TargetDisk (rs_Config st)"
    and "S = fileAt (wo_files w) (rc_SourceDisk (rs_Config st))" "T = fileAt (wo_files w) (rc_TargetDisk (rs_Config st))"
    and "bs = nat (blockSizeBytes st)" "n = nat (blockCount (int (length S)) (blockSizeBytes st))"
  shows "fileAt (wo_files w') (rc_SourceDisk (rs_Config st)) = S
     \<and> fileAt (wo_files w') (rc_TargetDisk (rs_Config st)) = S @ drop (length S) T
     \<and> rs_DirtyBitmap st' = map (\<lambda>i. if block bs i S \<noteq> block bs i T then 1 else 0) [0..<n]
     \<and> sr_DirtyBlocks result = int (length (filter (\<lambda>i. block bs i S \<noteq> block bs i T) [0..<n]))
     \<and> sr_BytesSynced result = (\<Sum>i \<leftarrow> filter (\<lambda>i. block bs i S \<noteq> block bs i T) [0..<n]. int (length (block bs i S)))
     \<and> sr_Round result = rs_SyncRounds st + 1 \<and> rs_SyncRounds st' = rs_SyncRounds st + 1 \<and> rs_Phase st' = phase"
proof -
  obtain st1 w1 where round: "syncRound rv phase (int (length S)) (int (length T)) st1 w1 = (Inr result, st', w')"
    and same: "sameDisks st st1" "rs_SyncRounds st1 = rs_SyncRounds st"
    and files: "fileAt (wo_files w1) (rc_SourceDisk (rs_Config st)) = S"
      "fileAt (wo_files w1) (rc_TargetDisk (rs_Config st)) = T"
    using runSync_quiet [OF assms(1,2) refl refl assms(3)] assms(4,5) by metis
  have disks: "rc_SourceDisk (rs_Config st) = rc_SourceDisk (rs_Config st1)"
    "rc_TargetDisk (rs_Config st) = rc_TargetDisk (rs_Config st1)" "blockSizeBytes st = blockSizeBytes st1"
    using same by (simp_all add: sameDisks_def)
  from syncRound_quiet [OF round assms(2) disks(1,2) assms(3) files assms(6,7) [unfolded disks(3)]]
  show ?thesis using same(2) by (simp add: dirtyAt_def [abs_def] dirtyBytes_def)
qed

text \<open>A final round without error on a target that is not longer makes the disks equal.\<close>

lemma final_sync_equal:
  assumes "Replicator_ExecuteCutover rv st w = (Inr result, st', w')" "atRest (rv_os rv)"
    and "src = rc_SourceDisk (rs_Config st)" "tgt = rc_TargetDisk (rs_Config st)" "src \<noteq> tgt"
    and "length (fileAt (wo_files w) tgt) \<le> length (fileAt (wo_files w) src)"
  shows "fileAt (wo_files w') tgt = fileAt (wo_files w') src \<and> fileAt (wo_files w') src = fileAt (wo_files w) src"
proof -
  obtain res where run: "runSync rv replicationPhaseFinalSync st w = (Inr res, st', w')"
    using assms(1) by (auto simp: Replicator_ExecuteCutover_def split: prod.splits sum.splits)
  obtain st1 w1 where round: "syncRound rv replicationPhaseFinalSync (int (length (fileAt (wo_files w) src)))
      (int (length (fileAt (wo_files w) tgt))) st1 w1 = (Inr res, st', w')" and same: "sameDisks st st1"
    and files: "fileAt (wo_files w1) src = fileAt (wo_files w) src" "fileAt (wo_files w1) tgt = fileAt (wo_files w) tgt"
    using runSync_quiet [OF run assms(2-5)] by metis
  have "src = rc_SourceDisk (rs_Config st1)" "tgt = rc_TargetDisk (rs_Config st1)"
    using same assms(3,4) by (simp_all add: sameDisks_def)
  from syncRound_quiet [OF round assms(2) this assms(5) files refl refl] assms(6) show ?thesis by simp
qed

lemma syncBlocks_same:
  "syncBlocks rv bs tsz is (st, d, b) w = (r, w') \<Longrightarrow>
     sameDisks st (case r of Inl (e, st') \<Rightarrow> st' | Inr (st', _) \<Rightarrow> st')"
proof (induction "is" arbitrary: st d b w)
  case (Cons i "is")
  obtain r1 w1 where step: "syncBlock rv bs tsz i (st, d, b) w = (r1, w1)" by (metis surj_pair)
  show ?case
    using Cons.prems Cons.IH step syncBlock_same [OF step]
    by (cases r1) (auto intro: sameDisks_trans)
qed auto

lemma final_same:
  assumes "Replicator_ExecuteCutover rv st w = (r, st', w')"
  shows "sameDisks st st'"
proof -
  have round: "sameDisks st st'" if run: "syncRound rv ph ssz tsz st w = (r, st', w')" for ph ssz tsz st r st' w w'
  proof -
    let ?n = "nat (blockCount ssz (blockSizeBytes st))"
    let ?st = "st\<lparr>rs_Phase := ph, rs_DirtyBitmap := replicate ?n 0, rs_SyncRounds := rs_SyncRounds st + 1\<rparr>"
    obtain r1 w1 where blocks: "syncBlocks rv (nat (blockSizeBytes st)) tsz [0..<?n] (?st, 0, 0) w = (r1, w1)"
      by (metis surj_pair)
    have "sameDisks st (case r1 of Inl (e, st') \<Rightarrow> st' | Inr (st', _) \<Rightarrow> st')"
      using syncBlocks_same [OF blocks] by (simp add: sameDisks_def blockSizeBytes_def)
    then show ?thesis
      using run blocks by (auto simp: syncRound_def Let_def split: prod.splits sum.splits option.splits
          dest!: persist_same intro: sameDisks_trans) (auto simp: sameDisks_def blockSizeBytes_def)
  qed
  show ?thesis
    using assms by (auto simp: Replicator_ExecuteCutover_def runSync_def Let_def
        split: prod.splits sum.splits option.splits dest!: validate_same startClock_same round intro: sameDisks_trans)
qed

section \<open>Convergence\<close>

text \<open>
  Rounds of a warm migration before the cutover, each in an environment of its own and with any outcome:
  a repeated initial copy or an incremental round.
\<close>

datatype ('st, 'raw) warmRound = CopyAgain "('st, 'raw) renv" | SyncRound "('st, 'raw) renv"

fun warmEnv :: "('st, 'raw) warmRound \<Rightarrow> ('st, 'raw) renv" where
  "warmEnv (CopyAgain rv) = rv"
| "warmEnv (SyncRound rv) = rv"

fun warmStep :: "('st, 'raw) warmRound \<Rightarrow> ReplicationState \<times> 'st world \<Rightarrow> ReplicationState \<times> 'st world" where
  "warmStep (CopyAgain rv) (st, w) =
     (case StartInitialCopy rv st w of None \<Rightarrow> (st, w) | Some (e, st', w') \<Rightarrow> (st', w'))"
| "warmStep (SyncRound rv) (st, w) = (case RunIncrementalSync rv st w of (r, st', w') \<Rightarrow> (st', w'))"

lemma copyFrom_fits:
  assumes "copyFrom rv ssz offset st w = Some (e, st', w')" "guestOk (rv_os rv) src tgt" "fits src tgt len w"
    and "src = rc_SourceDisk (rs_Config st)" "tgt = rc_TargetDisk (rs_Config st)" "src \<noteq> tgt" "nat offset \<le> len"
  shows "fits src tgt len w' \<and> sameDisks st st'"
proof -
  note opens = open_fits(5) [OF assms(2,6)]
  let ?st = "st\<lparr>rs_Phase := replicationPhaseInitialCopy, rs_BytesCopied := offset,
      rs_DirtyBitmap := replicate (nat (blockCount ssz (blockSizeBytes st))) 0\<rparr>"
  have loop: "fits src tgt len w3 \<and> sameDisks st st3"
    if "copyLoop rv ssz (nat offset) ?st w2 = Some (x, st3, w3)" "fits src tgt len w2" for x st3 w2 w3
    using copyLoop_fits [OF that(1) assms(2) that(2) assms(7)] assms(4-6) by (simp add: sameDisks_def blockSizeBytes_def)
  note finish = finish_fits [OF _ _ assms(2)]
  show ?thesis
    using assms(1,3) unfolding copyFrom_def Let_def
    by (auto split: option.splits prod.splits dest!: opens loop dest: finish intro: sameDisks_trans)
qed

lemma copyOpened_fits:
  assumes "copyOpened rv ssz st w = Some (e, st', w')" "guestOk (rv_os rv) src tgt" "fits src tgt len w"
    and "src = rc_SourceDisk (rs_Config st)" "tgt = rc_TargetDisk (rs_Config st)" "src \<noteq> tgt" "nat ssz \<le> len"
  shows "fits src tgt len w' \<and> sameDisks st st'"
proof -
  note opens = open_fits [OF assms(2,6)]
  note from_fits = copyFrom_fits [OF _ assms(2) _ assms(4-6)]
  show ?thesis
    using assms(1,3,7) unfolding copyOpened_def Let_def assms(5) [symmetric]
    by (auto split: option.splits prod.splits sum.splits if_splits dest!: opens(2,4) dest: from_fits)
qed

lemma copy_fits:
  assumes "StartInitialCopy rv st w = Some (e, st', w')" "guestOk (rv_os rv) src tgt" "fits src tgt len w"
    and "src = rc_SourceDisk (rs_Config st)" "tgt = rc_TargetDisk (rs_Config st)" "src \<noteq> tgt"
  shows "fits src tgt len w' \<and> sameDisks st st'"
proof -
  obtain e1 st1 w1 where v: "validateConfig rv st w = (e1, st1, w1)" by (metis prod_cases3)
  obtain st2 w2 where c: "startClock rv st1 w1 = (st2, w2)" by (metis surj_pair)
  note o = opening_fits [OF v c assms(3)]
  have disks: "rc_SourceDisk (rs_Config st2) = src" "rc_TargetDisk (rs_Config st2) = tgt"
    using o assms(4,5) by (simp_all add: sameDisks_def)
  have v1: "fits src tgt len w1 \<and> sameDisks st st1"
    using fits_files [OF wo_files_validate [OF v] assms(3)] validate_same [OF v] by blast
  note opens = open_fits [OF assms(2,6)]
  obtain x w3 where a: "osStat (rv_os rv) src w2 = (x, w3)" by (metis surj_pair)
  have ssz: "x = Inr n \<Longrightarrow> nat n \<le> len" for n
    using stat_size(1) [OF assms(2), of src w2 n w3] a o by (simp add: fits_def)
  have opened: "fits src tgt len w' \<and> sameDisks st st'"
    if "copyOpened rv ssz st2 w6 = Some (e, st', w')" "fits src tgt len w6" "x = Inr ssz" for ssz w6
    using copyOpened_fits [OF that(1) assms(2) that(2) disks [symmetric] assms(6) ssz [OF that(3)]] o sameDisks_trans
    by blast
  have w3: "fits src tgt len w3" using opens(2) [OF a] o by blast
  show ?thesis
    using assms(1) v1 o w3 unfolding StartInitialCopy_def Let_def v
    by (auto simp: c disks a split: option.splits prod.splits sum.splits dest!: opens(1,3,5) dest: opened)
qed

lemma warmStep_fits:
  assumes "warmStep r (st, w) = (st', w')" "guestOk (rv_os (warmEnv r)) src tgt" "fits src tgt len w"
    and "src = rc_SourceDisk (rs_Config st)" "tgt = rc_TargetDisk (rs_Config st)" "src \<noteq> tgt"
  shows "fits src tgt len w' \<and> sameDisks st st'"
proof (cases r)
  case (CopyAgain rv)
  with assms(2) have g: "guestOk (rv_os rv) src tgt" by simp
  obtain e where "StartInitialCopy rv st w = Some (e, st', w')"
    using assms(1) initial_copy [of rv st w] g assms(4-6) by (auto simp: CopyAgain)
  from copy_fits [OF this g assms(3-6)] show ?thesis .
next
  case (SyncRound rv)
  with assms(2) have g: "guestOk (rv_os rv) src tgt" by simp
  obtain x where "runSync rv replicationPhaseIncremental st w = (x, st', w')"
    using assms(1) by (auto simp: SyncRound RunIncrementalSync_def split: prod.splits sum.splits)
  from runSync_fits [OF this g assms(3-6)] show ?thesis .
qed

lemma warmRounds_fits:
  assumes "fold warmStep rounds (st, w) = (st', w')" "\<forall>r \<in> set rounds. guestOk (rv_os (warmEnv r)) src tgt"
    and "fits src tgt len w"
    and "src = rc_SourceDisk (rs_Config st)" "tgt = rc_TargetDisk (rs_Config st)" "src \<noteq> tgt"
  shows "fits src tgt len w' \<and> sameDisks st st'"
  using assms
proof (induction rounds arbitrary: st w)
  case (Cons r rounds)
  obtain st1 w1 where step: "warmStep r (st, w) = (st1, w1)" by (metis surj_pair)
  have one: "fits src tgt len w1 \<and> sameDisks st st1"
    using warmStep_fits [OF step _ Cons.prems(3-6)] Cons.prems(2) by simp
  then have "fits src tgt len w' \<and> sameDisks st1 st'"
    using Cons.IH [of st1 w1] Cons.prems step by (simp add: sameDisks_def)
  with one show ?case using sameDisks_trans by blast
qed simp

text \<open>
  C10 (warm_replication_converges): after an initial copy that reported no error, and after any number of
  further copies and incremental rounds, completed, interrupted or failed at any operation, while the guest
  kept changing its disk in place, a final round that reports no error on the stopped machine makes the
  target disk equal to the source disk.
\<close>

theorem warm_replication_converges:
  assumes "StartInitialCopy rv0 st0 w0 = Some (None, st, w)"
    and "fold warmStep rounds (st, w) = (st1, w1)"
    and "Replicator_ExecuteCutover rv st1 w1 = (Inr result, st2, w2)"
    and "src = rc_SourceDisk (rs_Config st0)" "tgt = rc_TargetDisk (rs_Config st0)" "src \<noteq> tgt"
    and "guestOk (rv_os rv0) src tgt" "\<forall>r \<in> set rounds. guestOk (rv_os (warmEnv r)) src tgt" "atRest (rv_os rv)"
  shows "fileAt (wo_files w2) tgt = fileAt (wo_files w2) src \<and> fileAt (wo_files w2) src = fileAt (wo_files w1) src"
proof -
  have init: "length (fileAt (wo_files w) tgt) = length (fileAt (wo_files w) src) \<and> sameDisks st0 st"
    using initial_copy [of rv0 st0 w0] assms(1,4-7) by auto
  then have "fits src tgt (length (fileAt (wo_files w) src)) w" by (simp add: fits_def)
  from warmRounds_fits [OF assms(2,8) this] init assms(4-6)
  have before: "length (fileAt (wo_files w1) tgt) \<le> length (fileAt (wo_files w1) src)" "sameDisks st st1"
    by (simp_all add: fits_def sameDisks_def)
  then have disks: "src = rc_SourceDisk (rs_Config st1)" "tgt = rc_TargetDisk (rs_Config st1)"
    using init assms(4,5) by (simp_all add: sameDisks_def)
  from final_sync_equal [OF assms(3,9) disks assms(6) before(1)] show ?thesis .
qed

end
