(* ===== verification/CutoverCorrect.thy ===== *)
theory CutoverCorrect
  imports Cutover ReplicationCorrect ResumeRollback "HOL-Library.Sublist"
begin

text \<open>
  What a cutover asks of the two platforms, and in which order. The calls on machines that a run makes are
  a prefix of one fixed list, the source switched off before anything of the target is created or switched
  on; a run without error has made all of them and the target disk is the source disk.
\<close>

section \<open>Calls on machines\<close>

text \<open>The run from \<open>s\<close> to \<open>s'\<close> makes exactly the calls \<open>cs\<close>, bookkeeping apart.\<close>

definition acts :: "('st \<Rightarrow> 'st \<Rightarrow> bool) \<Rightarrow> 'st sys \<Rightarrow> call list \<Rightarrow> 'st sys \<Rightarrow> bool" where
  "acts K s cs s' =
     ((\<exists>h. sy_hist s' = sy_hist s @ h \<and> filter (\<lambda>c. \<not> bookkeeping c) h = cs) \<and> K (sy_store s) (sy_store s'))"

definition verifyCalls :: "Connector \<Rightarrow> string \<Rightarrow> call list" where
  "verifyCalls tgt vmID = (if con_verifier tgt = None then [] else [CVerify vmID])"

definition bootCalls :: "Connector \<Rightarrow> string \<Rightarrow> call list" where
  "bootCalls tgt vmID = (if con_power tgt = None then [] else [CPowerOn Target vmID]) @ verifyCalls tgt vmID"

definition networkCalls :: "Connector \<Rightarrow> CutoverPlan \<Rightarrow> string \<Rightarrow> call list" where
  "networkCalls tgt plan vmID =
     (if con_networks tgt = None \<or> cp_NetworkMappings plan = [] then []
      else [CConfigure vmID (cp_NetworkMappings plan)])"

definition createCalls :: "Connector \<Rightarrow> CutoverPlan \<Rightarrow> string \<Rightarrow> call list" where
  "createCalls tgt plan disk =
     (if con_importer tgt = None then [] else [CCreateVM (cp_SourceVM plan) [disk] [] []])"

definition powerOffCalls :: "Connector \<Rightarrow> CutoverPlan \<Rightarrow> call list" where
  "powerOffCalls src plan = (if con_power src = None then [] else [CPowerOff Source (vm_ID (cp_SourceVM plan))])"

definition snapshotCalls :: "CutoverCoordinator \<Rightarrow> CutoverPlan \<Rightarrow> call list" where
  "snapshotCalls c plan =
     (case co_rollback c of
        None \<Rightarrow> []
      | Some (rsrc, _) \<Rightarrow> if con_snapshotter rsrc = None then [] else [CSnapshot (vm_ID (cp_SourceVM plan))])"

definition cutoverCalls :: "CutoverCoordinator \<Rightarrow> CutoverPlan \<Rightarrow> string \<Rightarrow> string \<Rightarrow> call list" where
  "cutoverCalls c plan disk vmID =
     snapshotCalls c plan @ powerOffCalls (co_source c) plan @ createCalls (co_target c) plan disk
     @ networkCalls (co_target c) plan vmID @ bootCalls (co_target c) vmID"

text \<open>
  A run that makes a prefix of \<open>cs\<close>, all of it when it reports no error, and that only after all of it and
  with an error to report rolls back.
\<close>

definition ordered ::
  "('st \<Rightarrow> 'st \<Rightarrow> bool) \<Rightarrow> ('st, 'raw) env \<Rightarrow> CutoverCoordinator \<Rightarrow> string \<Rightarrow> 'st sys \<Rightarrow> call list
   \<Rightarrow> CutoverReport option \<times> goerror option \<Rightarrow> 'st sys \<Rightarrow> bool" where
  "ordered K env c m s cs r s' =
     (\<exists>pre s1. acts K s pre s1 \<and> prefix pre cs
        \<and> (s' = s1 \<and> (snd r = None \<longrightarrow> pre = cs) \<and> (\<forall>rep. fst r = Some rep \<longrightarrow> \<not> ct_RolledBack rep)
           \<or> pre = cs \<and> snd r \<noteq> None
             \<and> (\<exists>rsrc rtgt x. co_rollback c = Some (rsrc, rtgt) \<and> Rollback env rsrc rtgt m s1 = (x, s')
                  \<and> (fst r \<noteq> None \<longrightarrow> snd x = None))))"

text \<open>A report without error is verified and names the machine of the report before the stage.\<close>

definition verifiedAs :: "CutoverReport \<Rightarrow> CutoverReport option \<times> goerror option \<Rightarrow> bool" where
  "verifiedAs report r =
     (\<forall>rep. r = (Some rep, None) \<longrightarrow>
        ct_TargetVMID rep = ct_TargetVMID report \<and> ct_BootVerified rep \<and> ct_RolledBack rep = ct_RolledBack report)"

lemma verifiedAs_error [simp]: "verifiedAs report (x, Some err)"
  by (simp add: verifiedAs_def)

lemma wo_sys_os:
  "wo_sys (tick os w) = wo_sys w"
  "osCall os oper w = (e, w') \<Longrightarrow> wo_sys w' = wo_sys w"
  "ctxCheck os w = (e, w') \<Longrightarrow> wo_sys w' = wo_sys w"
  "osStat os p w = (x, w') \<Longrightarrow> wo_sys w' = wo_sys w"
  "osOpen os p w = (e, w') \<Longrightarrow> wo_sys w' = wo_sys w"
  "osCreate os p w = (e, w') \<Longrightarrow> wo_sys w' = wo_sys w"
  "readAtMost os p len off w = (y, w') \<Longrightarrow> wo_sys w' = wo_sys w"
  "osWriteAt os p off c w = (e, w') \<Longrightarrow> wo_sys w' = wo_sys w"
  "wo_sys (emitProgress st n d w) = wo_sys w"
  by (auto simp: tick_def os_defs osWriteAt_def emitProgress_def Let_def split: option.splits if_splits)

text \<open>
  A relation \<open>K\<close> on stores that saving a migration record keeps: the interface through which the lemmas
  below see the store.
\<close>

locale store_frame =
  fixes rv :: "('st, 'raw) renv"
    and K :: "'st \<Rightarrow> 'st \<Rightarrow> bool"
  assumes K_refl: "K x x"
    and K_trans: "K x y \<Longrightarrow> K y z \<Longrightarrow> K x z"
    and K_save: "op_SaveMigration (env_store (rv_env rv)) ctx x t rec = (res, y) \<Longrightarrow> K x y"
    and K_get: "op_GetMigration (env_store (rv_env rv)) ctx x t m = (got, y) \<Longrightarrow> K x y"
    and K_get_point: "op_GetRecoveryPoint (env_store (rv_env rv)) ctx x t m = (point, y) \<Longrightarrow> K x y"
begin

lemma acts_refl: "acts K s [] s"
  by (simp add: acts_def K_refl)

lemma acts_trans: "acts K s cs s' \<Longrightarrow> acts K s' ds s'' \<Longrightarrow> acts K s (cs @ ds) s''"
  by (auto simp: acts_def intro: K_trans)

lemma acts_quiet_trans: "acts K s [] s' \<Longrightarrow> acts K s' ds s'' \<Longrightarrow> acts K s ds s''"
  using acts_trans [of s "[]"] by simp

lemma acts_trans_quiet: "acts K s cs s' \<Longrightarrow> acts K s' [] s'' \<Longrightarrow> acts K s cs s''"
  using acts_trans [of s cs s' "[]"] by simp

lemma acts_record: "acts K s (if bookkeeping c then [] else [c]) (record_call c s)"
  by (simp add: acts_def K_refl)

lemma acts_call: "\<not> bookkeeping c \<Longrightarrow> acts K s [c] (record_call c s)"
  using acts_record [of s c] by simp

lemma acts_saveState: "persistMigrationState (rv_env rv) st s = (e, s') \<Longrightarrow> acts K s [] s'"
  by (auto simp: persistMigrationState_def Let_def acts_def K_refl split: sum.splits prod.splits dest: K_save)

lemma acts_nowUTC: "nowUTC env s = (t, s') \<Longrightarrow> acts K s [] s'"
  by (auto simp: nowUTC_def acts_def K_refl)

lemma acts_emitCutover: "emitCutover env plan ph m n (r, w) = (r', w') \<Longrightarrow> acts K (wo_sys w) [] (wo_sys w')"
  by (auto simp: emitCutover_def nowUTC_def Let_def acts_def K_refl)

subsection \<open>The replicator only keeps books\<close>

lemma acts_clock: "clock rv w = (t, w') \<Longrightarrow> acts K (wo_sys w) [] (wo_sys w')"
  by (auto simp: clock_def nowUTC_def acts_def K_refl)

lemma acts_startClock: "startClock rv st w = (st', w') \<Longrightarrow> acts K (wo_sys w) [] (wo_sys w')"
  by (auto simp: startClock_def acts_refl split: if_splits prod.splits dest: acts_clock)

lemma acts_validate: "validateConfig rv st w = (e, st', w') \<Longrightarrow> acts K (wo_sys w) [] (wo_sys w')"
  by (auto simp: validateConfig_def Let_def acts_refl acts_def K_refl split: if_splits prod.splits)

lemma acts_persist: "persist rv st w = (e, st', w') \<Longrightarrow> acts K (wo_sys w) [] (wo_sys w')"
  by (auto simp: persist_def startClock_def clock_def nowUTC_def Let_def acts_def K_refl
      split: if_splits prod.splits sum.splits dest!: wo_sys_os(3) dest: K_save)

lemma acts_persistAndWrap: "persistAndWrap rv oper err st w = (e, st', w') \<Longrightarrow> acts K (wo_sys w) [] (wo_sys w')"
  by (auto simp: persistAndWrap_def split: prod.splits option.splits dest: acts_persist)

lemma acts_syncBlock: "syncBlock rv bs tsz i acc w = (r, w') \<Longrightarrow> acts K (wo_sys w) [] (wo_sys w')"
  by (auto simp: syncBlock_def Let_def acts_refl split: option.splits prod.splits sum.splits if_splits
      dest!: acts_persistAndWrap wo_sys_os(3,7,8))

lemma acts_syncBlocks: "syncBlocks rv bs tsz is acc w = (r, w') \<Longrightarrow> acts K (wo_sys w) [] (wo_sys w')"
proof (induction "is" arbitrary: acc w)
  case (Cons i "is")
  obtain r1 w1 where step: "syncBlock rv bs tsz i acc w = (r1, w1)" by (metis surj_pair)
  show ?case
    using Cons.prems step acts_syncBlock [OF step] acts_quiet_trans [OF acts_syncBlock [OF step] Cons.IH]
    by (cases r1) auto
qed (simp add: acts_refl)

lemma acts_syncRound: "syncRound rv ph ssz tsz st w = (r, st', w') \<Longrightarrow> acts K (wo_sys w) [] (wo_sys w')"
  by (auto simp: syncRound_def Let_def wo_sys_os(9) split: prod.splits sum.splits option.splits
      dest!: acts_syncBlocks acts_clock acts_persist intro: acts_quiet_trans)

lemma acts_runSync: "runSync rv ph st w = (r, st', w') \<Longrightarrow> acts K (wo_sys w) [] (wo_sys w')"
  by (auto simp: runSync_def Let_def split: prod.splits sum.splits option.splits
      dest!: acts_validate acts_startClock acts_syncRound wo_sys_os(4,5,6) intro: acts_quiet_trans)

lemma acts_final: "Replicator_ExecuteCutover rv st w = (r, st', w') \<Longrightarrow> acts K (wo_sys w) [] (wo_sys w')"
  by (auto simp: Replicator_ExecuteCutover_def split: prod.splits sum.splits dest: acts_runSync)

section \<open>The order of a cutover\<close>

lemma ordered_step:
  assumes "acts K s ds s1" "ordered K (rv_env rv) c m s1 cs r s'"
  shows "ordered K (rv_env rv) c m s (ds @ cs) r s'"
proof -
  from assms(2) obtain pre s2 where "acts K s1 pre s2" "prefix pre cs"
    and rest: "s' = s2 \<and> (snd r = None \<longrightarrow> pre = cs) \<and> (\<forall>rep. fst r = Some rep \<longrightarrow> \<not> ct_RolledBack rep)
      \<or> pre = cs \<and> snd r \<noteq> None
        \<and> (\<exists>rsrc rtgt x. co_rollback c = Some (rsrc, rtgt) \<and> Rollback (rv_env rv) rsrc rtgt m s2 = (x, s')
             \<and> (fst r \<noteq> None \<longrightarrow> snd x = None))"
    unfolding ordered_def by (elim exE conjE)
  then have "acts K s (ds @ pre) s2" "prefix (ds @ pre) (ds @ cs)" using acts_trans [OF assms(1)] by simp_all
  with rest show ?thesis unfolding ordered_def by (intro exI [of _ "ds @ pre"] exI [of _ s2]) simp
qed

lemma ordered_quiet: "acts K s [] s1 \<Longrightarrow> ordered K (rv_env rv) c m s1 cs r s' \<Longrightarrow> ordered K (rv_env rv) c m s cs r s'"
  using ordered_step [of s "[]"] by simp

lemma ordered_stop: "acts K s ds s' \<Longrightarrow> prefix ds cs \<Longrightarrow> ordered K (rv_env rv) c m s cs (None, Some err) s'"
  unfolding ordered_def by (intro exI [of _ ds] exI [of _ s']) simp

lemma ordered_done: "acts K s cs s' \<Longrightarrow> \<not> ct_RolledBack rep \<Longrightarrow> ordered K (rv_env rv) c m s cs (Some rep, x) s'"
  unfolding ordered_def by (intro exI [of _ cs] exI [of _ s']) simp

lemma ordered_rollback:
  "acts K s cs s1 \<Longrightarrow> Rollback (rv_env rv) rsrc rtgt m s1 = (x, s') \<Longrightarrow> co_rollback c = Some (rsrc, rtgt)
   \<Longrightarrow> (orep \<noteq> None \<Longrightarrow> snd x = None) \<Longrightarrow> ordered K (rv_env rv) c m s cs (orep, Some err) s'"
  unfolding ordered_def by (intro exI [of _ cs] exI [of _ s1]) (cases orep; cases x; simp)

lemma acts_wait:
  assumes "WaitForBoot os tgt vmID timeout w = (e, w')"
  shows "acts K (wo_sys w) (verifyCalls tgt vmID) (wo_sys w')"
  using assms by (auto simp: verifyCalls_def WaitForBoot_def acts_refl acts_call ctxCheck_def wo_sys_os(1) split: option.splits if_splits prod.splits)

lemma emit_report:
  assumes "emitCutover env plan ph m n (report, w) = (report1, w1)"
  shows "ct_TargetVMID report1 = ct_TargetVMID report" "ct_RolledBack report1 = ct_RolledBack report"
    "verifiedAs report1 = verifiedAs report"
  using assms by (auto simp: emitCutover_def verifiedAs_def Let_def fun_eq_iff split: prod.splits)

lemma ordered_boot:
  assumes "cutoverBoot rv c plan res dt report w = (r, w')" "\<not> ct_RolledBack report"
  shows "ordered K (rv_env rv) c (cp_MigrationID plan) (wo_sys w) (verifyCalls (co_target c) (ct_TargetVMID report)) r (wo_sys w') \<and> verifiedAs report r"
proof -
  let ?v = "verifyCalls (co_target c) (ct_TargetVMID report)"
  obtain rep1 w1 where em: "emitCutover (rv_env rv) plan PhaseVerify ''Waiting for boot verification'' 85 (report, w) = (rep1, w1)"
    by (metis surj_pair)
  then have rep1: "ct_TargetVMID rep1 = ct_TargetVMID report" "ct_RolledBack rep1 = ct_RolledBack report"
    by (auto simp: emitCutover_def Let_def split: prod.splits)
  obtain e w2 where wt: "WaitForBoot (rv_os rv) (co_target c) (ct_TargetVMID report) (cp_BootTimeout plan) w1 = (e, w2)"
    by (metis surj_pair)
  have a: "acts K (wo_sys w) ?v (wo_sys w2)"
    using acts_quiet_trans [OF acts_emitCutover [OF em] acts_wait [OF wt]] .
  have roll: "ordered K (rv_env rv) c (cp_MigrationID plan) (wo_sys w) ?v (orep, Some err) s"
    if "Rollback (rv_env rv) rsrc rtgt (cp_MigrationID plan) (wo_sys w2) = ((y, e), s)" "co_rollback c = Some (rsrc, rtgt)"
      "orep \<noteq> None \<Longrightarrow> e = None" for rsrc rtgt y e s orep err
    using ordered_rollback [OF a that(1,2)] that(3) by simp
  have fin: "ordered K (rv_env rv) c (cp_MigrationID plan) (wo_sys w) ?v (Some rep3, x) (wo_sys w3)"
    if "emitCutover env plan ph m n (rep2, w2) = (rep3, w3)" "\<not> ct_RolledBack rep2" for env ph m n rep2 rep3 w3 x
    using ordered_done [OF acts_trans_quiet [OF a acts_emitCutover [OF that(1)]]] emit_report(2) [OF that(1)] that(2) by simp
  have "ordered K (rv_env rv) c (cp_MigrationID plan) (wo_sys w) ?v r (wo_sys w')"
    using assms ordered_done [OF a, of rep1] rep1(2) unfolding cutoverBoot_def
    by (auto simp: Let_def em rep1(1) wt split: option.splits prod.splits bool.splits intro: roll dest: fin)
  moreover have "verifiedAs report r"
    using assms rep1(2) unfolding cutoverBoot_def verifiedAs_def
    by (auto simp: Let_def em rep1(1) wt emitCutover_def split: option.splits prod.splits bool.splits)
  ultimately show ?thesis ..
qed

lemma ordered_powerOn:
  assumes "cutoverPowerOn rv c plan res dt report w = (r, w')" "\<not> ct_RolledBack report"
  shows "ordered K (rv_env rv) c (cp_MigrationID plan) (wo_sys w) (bootCalls (co_target c) (ct_TargetVMID report)) r (wo_sys w') \<and> verifiedAs report r"
proof (cases "con_power (co_target c)")
  case None
  then show ?thesis using assms ordered_boot [of c plan res dt report w] by (simp add: cutoverPowerOn_def bootCalls_def)
next
  case (Some pc)
  obtain rep1 w1 where em: "emitCutover (rv_env rv) plan PhaseVerify ''Powering on target VM'' 70 (report, w) = (rep1, w1)"
    by (metis surj_pair)
  let ?id = "ct_TargetVMID report"
  let ?w2 = "w1\<lparr>wo_sys := record_call (CPowerOn Target ?id) (wo_sys w1)\<rparr>"
  have a: "acts K (wo_sys w) [CPowerOn Target ?id] (wo_sys ?w2)"
    using acts_quiet_trans [OF acts_emitCutover [OF em] acts_call, of "CPowerOn Target ?id"] by simp
  have calls: "bootCalls (co_target c) ?id = [CPowerOn Target ?id] @ verifyCalls (co_target c) ?id"
    using Some by (simp add: bootCalls_def)
  show ?thesis
  proof (cases "pc_PowerOnVM pc (sy_hist (wo_sys w1)) ?id")
    case None
    then have "cutoverBoot rv c plan res dt rep1 ?w2 = (r, w')"
      using assms Some em by (simp add: cutoverPowerOn_def emit_report(1) [OF em])
    from ordered_boot [OF this] assms(2) show ?thesis
      unfolding calls emit_report [OF em] using ordered_step [OF a] by blast
  next
    case (Some err)
    then show ?thesis
      using assms \<open>con_power (co_target c) = Some pc\<close> em ordered_stop [OF a, of "bootCalls (co_target c) ?id"]
      by (auto simp: cutoverPowerOn_def emit_report(1) [OF em] calls)
  qed
qed

lemma ordered_networks:
  assumes "cutoverNetworks rv c plan res dt report w = (r, w')" "\<not> ct_RolledBack report"
  shows "ordered K (rv_env rv) c (cp_MigrationID plan) (wo_sys w) (networkCalls (co_target c) plan (ct_TargetVMID report)
      @ bootCalls (co_target c) (ct_TargetVMID report)) r (wo_sys w') \<and> verifiedAs report r"
proof (cases "networkCalls (co_target c) plan (ct_TargetVMID report)")
  case Nil
  then have "cutoverPowerOn rv c plan res dt report w = (r, w')"
    using assms by (auto simp: cutoverNetworks_def networkCalls_def split: option.splits if_splits)
  from ordered_powerOn [OF this assms(2)] Nil show ?thesis by simp
next
  case (Cons call cs)
  let ?call = "CConfigure (ct_TargetVMID report) (cp_NetworkMappings plan)"
  let ?w1 = "w\<lparr>wo_sys := record_call ?call (wo_sys w)\<rparr>"
  obtain configure where conf: "con_networks (co_target c) = Some configure" "cp_NetworkMappings plan \<noteq> []"
    using Cons by (auto simp: networkCalls_def split: if_splits)
  then have calls: "networkCalls (co_target c) plan (ct_TargetVMID report) = [?call]" by (simp add: networkCalls_def)
  have a: "acts K (wo_sys w) [?call] (wo_sys ?w1)" by (simp add: acts_call)
  show ?thesis
  proof (cases "configure (sy_hist (wo_sys w)) (ct_TargetVMID report) (cp_NetworkMappings plan)")
    case None
    then have "cutoverPowerOn rv c plan res dt report ?w1 = (r, w')"
      using assms conf by (simp add: cutoverNetworks_def)
    from ordered_powerOn [OF this assms(2)] ordered_step [OF a] show ?thesis unfolding calls by blast
  next
    case (Some err)
    then show ?thesis
      using assms conf ordered_stop [OF a, of "[?call] @ bootCalls (co_target c) (ct_TargetVMID report)"]
      by (auto simp: cutoverNetworks_def calls)
  qed
qed

lemma ordered_create:
  assumes "cutoverCreate rv c plan res st dt report w = (r, w')" "\<not> ct_RolledBack report"
  shows "\<exists>vmID. ordered K (rv_env rv) c (cp_MigrationID plan) (wo_sys w) (createCalls (co_target c) plan (rc_TargetDisk (rs_Config st))
      @ networkCalls (co_target c) plan vmID @ bootCalls (co_target c) vmID) r (wo_sys w')
    \<and> (\<forall>rep. r = (Some rep, None) \<longrightarrow> ct_TargetVMID rep = vmID \<and> ct_BootVerified rep \<and> \<not> ct_RolledBack rep)"
proof (cases "con_importer (co_target c)")
  case None
  from ordered_networks [of c plan res dt "report\<lparr>ct_TargetVMID := vm_ID (cp_SourceVM plan) @ ''-warm-target''\<rparr>" w r w'] assms None
  show ?thesis by (auto simp: cutoverCreate_def createCalls_def verifiedAs_def)
next
  case (Some createVM)
  let ?disks = "[rc_TargetDisk (rs_Config st)]"
  let ?call = "CCreateVM (cp_SourceVM plan) ?disks [] []"
  let ?w1 = "w\<lparr>wo_sys := record_call ?call (wo_sys w)\<rparr>"
  have a: "acts K (wo_sys w) [?call] (wo_sys ?w1)" by (simp add: acts_call)
  have calls: "createCalls (co_target c) plan (rc_TargetDisk (rs_Config st)) = [?call]" using Some by (simp add: createCalls_def)
  show ?thesis
  proof (cases "createVM (sy_hist (wo_sys w)) (cp_SourceVM plan) ?disks [] []")
    case (Inl err)
    then show ?thesis using assms Some ordered_stop [OF a] by (auto simp: cutoverCreate_def calls)
  next
    case (Inr vmID)
    then have "cutoverNetworks rv c plan res dt (report\<lparr>ct_TargetVMID := vmID\<rparr>) ?w1 = (r, w')"
      using assms Some by (simp add: cutoverCreate_def)
    from ordered_networks [OF this] assms(2) have "ordered K (rv_env rv) c (cp_MigrationID plan) (wo_sys w) ([?call] @ networkCalls (co_target c) plan vmID
        @ bootCalls (co_target c) vmID) r (wo_sys w')" and v: "verifiedAs (report\<lparr>ct_TargetVMID := vmID\<rparr>) r"
      using ordered_step [OF a] by simp_all
    then show ?thesis unfolding calls using assms(2) by (intro exI [of _ vmID]) (simp add: verifiedAs_def)
  qed
qed

section \<open>The disks of a cutover\<close>

lemma files_emit: "emitCutover env plan ph m n (report, w) = (report1, w1) \<Longrightarrow> wo_files w1 = wo_files w"
  by (auto simp: emitCutover_def Let_def split: prod.splits)

lemma files_tick: "atRest os \<Longrightarrow> wo_files (tick os w) = wo_files w"
  by (simp add: atRest_def tick_def)

lemma files_wait:
  assumes "WaitForBoot os tgt vmID t w = (e, w')" "atRest os"
  shows "wo_files w' = wo_files w"
proof (cases "con_verifier tgt")
  case None
  then show ?thesis using assms(1) files_tick [OF assms(2), of w]
    by (auto simp: WaitForBoot_def ctxCheck_def split: option.splits if_splits)
next
  case (Some verify)
  then show ?thesis using assms(1) by (cases "verify (sy_hist (wo_sys w)) vmID") (auto simp: WaitForBoot_def)
qed

lemma files_boot:
  assumes "atRest (rv_os rv)" "cutoverBoot rv c plan res dt report w = (r, w')"
  shows "wo_files w' = wo_files w"
proof -
  obtain rep1 w1 where em: "emitCutover (rv_env rv) plan PhaseVerify ''Waiting for boot verification'' 85 (report, w) = (rep1, w1)"
    by (metis surj_pair)
  obtain e w2 where wt: "WaitForBoot (rv_os rv) (co_target c) (ct_TargetVMID rep1) (cp_BootTimeout plan) w1 = (e, w2)"
    by (metis surj_pair)
  show ?thesis
    using assms(2) files_emit [OF em] files_wait [OF wt assms(1)]
    by (auto simp: cutoverBoot_def em wt Let_def split: option.splits prod.splits bool.splits dest: files_emit)
qed

lemma files_create:
  assumes "atRest (rv_os rv)" "cutoverCreate rv c plan res st dt report w = (r, w')"
  shows "wo_files w' = wo_files w"
proof -
  have on: "wo_files w' = wo_files w" if "cutoverPowerOn rv c plan res dt report w = (r, w')" for report w r w'
    using that by (auto simp: cutoverPowerOn_def split: option.splits prod.splits
        dest!: files_emit files_boot [OF assms(1)])
  have net: "wo_files w' = wo_files w" if "cutoverNetworks rv c plan res dt report w = (r, w')" for report w r w'
    using that by (auto simp: cutoverNetworks_def split: option.splits if_splits dest!: on)
  show ?thesis
    using assms(2) by (auto simp: cutoverCreate_def Let_def split: option.splits sum.splits dest!: net)
qed

lemma ordered_sync:
  assumes "cutoverSync rv c plan st dt sy report w = (r, st', w')" "\<not> ct_RolledBack report"
  shows "\<exists>vmID. ordered K (rv_env rv) c (cp_MigrationID plan) (wo_sys w) (createCalls (co_target c) plan (rc_TargetDisk (rs_Config st))
      @ networkCalls (co_target c) plan vmID @ bootCalls (co_target c) vmID) r (wo_sys w')
    \<and> (\<forall>rep. r = (Some rep, None) \<longrightarrow> ct_TargetVMID rep = vmID \<and> ct_BootVerified rep \<and> \<not> ct_RolledBack rep)"
    and "snd r = None \<Longrightarrow> atRest (rv_os rv) \<Longrightarrow> src = rc_SourceDisk (rs_Config st) \<Longrightarrow> tgt = rc_TargetDisk (rs_Config st)
      \<Longrightarrow> src \<noteq> tgt \<Longrightarrow> length (fileAt (wo_files w) tgt) \<le> length (fileAt (wo_files w) src)
      \<Longrightarrow> fileAt (wo_files w') tgt = fileAt (wo_files w) src"
proof -
  obtain rep1 w1 where em: "emitCutover (rv_env rv) plan PhaseVerify ''Running final sync'' 35 (report, w) = (rep1, w1)"
    by (metis surj_pair)
  obtain x st2 w2 where fin: "Replicator_ExecuteCutover rv st w1 = (x, st2, w2)" by (metis prod_cases3)
  have a: "acts K (wo_sys w) [] (wo_sys w2)"
    using acts_quiet_trans [OF acts_emitCutover [OF em] acts_final [OF fin]] .
  let ?goal = "\<exists>vmID. ordered K (rv_env rv) c (cp_MigrationID plan) (wo_sys w) (createCalls (co_target c) plan (rc_TargetDisk (rs_Config st))
      @ networkCalls (co_target c) plan vmID @ bootCalls (co_target c) vmID) r (wo_sys w')
    \<and> (\<forall>rep. r = (Some rep, None) \<longrightarrow> ct_TargetVMID rep = vmID \<and> ct_BootVerified rep \<and> \<not> ct_RolledBack rep)"
  have rolled: "\<not> ct_RolledBack (rep1\<lparr>ct_FinalSyncDuration := sy\<rparr>)" using emit_report(2) [OF em] assms(2) by simp
  show ?goal
  proof (cases x)
    case (Inl err)
    then have "r = (None, Some (Wrap ''execute cutover: final sync: %w'' [] err))" "w' = w2"
      using assms(1) em fin by (simp_all add: cutoverSync_def)
    then show ?thesis using ordered_stop [OF a] by auto
  next
    case (Inr result)
    then have run: "cutoverCreate rv c plan result st2 dt (rep1\<lparr>ct_FinalSyncDuration := sy\<rparr>) w2 = (r, w')"
      using assms(1) em fin by (auto simp: cutoverSync_def split: prod.splits)
    have disk: "rc_TargetDisk (rs_Config st2) = rc_TargetDisk (rs_Config st)"
      using final_same [OF fin] by (simp add: sameDisks_def)
    from ordered_create [OF run rolled] ordered_quiet [OF a] show ?thesis unfolding disk by blast
  qed
  show "fileAt (wo_files w') tgt = fileAt (wo_files w) src"
    if "snd r = None" "atRest (rv_os rv)" "src = rc_SourceDisk (rs_Config st)" "tgt = rc_TargetDisk (rs_Config st)"
      "src \<noteq> tgt" "length (fileAt (wo_files w) tgt) \<le> length (fileAt (wo_files w) src)"
  proof -
    note ok = that
    obtain result where x: "x = Inr result" using assms(1) em fin ok(1) by (cases x) (auto simp: cutoverSync_def)
    then have run: "cutoverCreate rv c plan result st2 dt (rep1\<lparr>ct_FinalSyncDuration := sy\<rparr>) w2 = (r, w')"
      using assms(1) em fin by (auto simp: cutoverSync_def split: prod.splits)
    from final_sync_equal [OF fin [unfolded x] ok(2-5)] files_emit [OF em] ok(6) files_create [OF ok(2) run]
    show ?thesis by simp
  qed
qed

section \<open>The whole cutover\<close>

lemma ordered_powerOff:
  assumes "cutoverPowerOff rv c plan st dt sy report w = (r, st', w')" "\<not> ct_RolledBack report"
  shows "\<exists>vmID. ordered K (rv_env rv) c (cp_MigrationID plan) (wo_sys w) (powerOffCalls (co_source c) plan
      @ createCalls (co_target c) plan (rc_TargetDisk (rs_Config st))
      @ networkCalls (co_target c) plan vmID @ bootCalls (co_target c) vmID) r (wo_sys w')
    \<and> (\<forall>rep. r = (Some rep, None) \<longrightarrow> ct_TargetVMID rep = vmID \<and> ct_BootVerified rep \<and> \<not> ct_RolledBack rep)"
    and "snd r = None \<Longrightarrow> atRest (rv_os rv) \<Longrightarrow> src = rc_SourceDisk (rs_Config st) \<Longrightarrow> tgt = rc_TargetDisk (rs_Config st)
      \<Longrightarrow> src \<noteq> tgt \<Longrightarrow> length (fileAt (wo_files w) tgt) \<le> length (fileAt (wo_files w) src)
      \<Longrightarrow> fileAt (wo_files w') tgt = fileAt (wo_files w) src"
proof -
  obtain rep1 w1 where em: "emitCutover (rv_env rv) plan PhaseConfigure ''Powering off source VM'' 15 (report, w) = (rep1, w1)"
    by (metis surj_pair)
  let ?id = "vm_ID (cp_SourceVM plan)"
  let ?w2 = "w1\<lparr>wo_sys := record_call (CPowerOff Source ?id) (wo_sys w1)\<rparr>"
  have a: "acts K (wo_sys w) [CPowerOff Source ?id] (wo_sys ?w2)"
    using acts_quiet_trans [OF acts_emitCutover [OF em] acts_call, of "CPowerOff Source ?id"] by simp
  have cases: "(con_power (co_source c) = None \<and> cutoverSync rv c plan st dt sy report w = (r, st', w'))
      \<or> (con_power (co_source c) \<noteq> None \<and> (\<exists>err. r = (None, Some err)) \<and> w' = ?w2)
      \<or> (con_power (co_source c) \<noteq> None \<and> cutoverSync rv c plan st dt sy rep1 ?w2 = (r, st', w'))"
    using assms(1) by (auto simp: cutoverPowerOff_def em Let_def split: option.splits)
  have rep1: "\<not> ct_RolledBack rep1" using emit_report(2) [OF em] assms(2) by simp
  let ?rest = "\<lambda>vmID. createCalls (co_target c) plan (rc_TargetDisk (rs_Config st))
      @ networkCalls (co_target c) plan vmID @ bootCalls (co_target c) vmID"
  show "\<exists>vmID. ordered K (rv_env rv) c (cp_MigrationID plan) (wo_sys w) (powerOffCalls (co_source c) plan @ ?rest vmID) r (wo_sys w')
    \<and> (\<forall>rep. r = (Some rep, None) \<longrightarrow> ct_TargetVMID rep = vmID \<and> ct_BootVerified rep \<and> \<not> ct_RolledBack rep)"
    using cases
  proof (elim disjE conjE exE)
    assume "con_power (co_source c) = None" "cutoverSync rv c plan st dt sy report w = (r, st', w')"
    with ordered_sync(1) [OF this(2) assms(2)] show ?thesis by (simp add: powerOffCalls_def)
  next
    fix err assume "con_power (co_source c) \<noteq> None" "r = (None, Some err)" "w' = ?w2"
    with ordered_stop [OF a] show ?thesis by (auto simp: powerOffCalls_def)
  next
    assume p: "con_power (co_source c) \<noteq> None" and run: "cutoverSync rv c plan st dt sy rep1 ?w2 = (r, st', w')"
    have "powerOffCalls (co_source c) plan = [CPowerOff Source ?id]" using p by (simp add: powerOffCalls_def)
    with ordered_sync(1) [OF run rep1] ordered_step [OF a] show ?thesis by metis
  qed
  show "fileAt (wo_files w') tgt = fileAt (wo_files w) src"
    if "snd r = None" "atRest (rv_os rv)" "src = rc_SourceDisk (rs_Config st)" "tgt = rc_TargetDisk (rs_Config st)"
      "src \<noteq> tgt" "length (fileAt (wo_files w) tgt) \<le> length (fileAt (wo_files w) src)"
    using cases ordered_sync(2) [OF _ assms(2) that(1-5)] ordered_sync(2) [OF _ rep1 that(1-5), of c plan dt sy ?w2 st' w']
      that(1,6) files_emit [OF em] by auto
qed

lemma acts_persistCutover: "persistCutoverState (rv_env rv) c plan s = (e, s') \<Longrightarrow> acts K s [] s'"
  by (auto simp: persistCutoverState_def nowUTC_def acts_refl split: option.splits prod.splits dest!: acts_saveState)
    (auto simp: acts_def)

end

text \<open>The store relation that says nothing, for the statements on calls alone.\<close>

interpretation calls: store_frame rv "\<lambda>_ _. True" for rv
  by unfold_locales simp_all

abbreviation made :: "'st sys \<Rightarrow> call list \<Rightarrow> 'st sys \<Rightarrow> bool" where
  "made \<equiv> acts (\<lambda>_ _. True)"

lemma made_recoveryPoint:
  assumes "cutoverRecoveryPoint env c plan s = (e, s')"
  shows "made s (snapshotCalls c plan) s'"
proof (cases "co_rollback c")
  case None
  then show ?thesis using assms by (simp add: cutoverRecoveryPoint_def snapshotCalls_def calls.acts_refl)
next
  case (Some x)
  obtain rsrc rtgt where x: "x = (rsrc, rtgt)" by (cases x)
  have save: "made s [] s'" if "persistRecoveryPoint env point s = (y, s')" for point y and s s' :: "'a sys"
    using that by (auto simp: persistRecoveryPoint_def Let_def acts_def split: sum.splits prod.splits)
  show ?thesis
    using assms Some x
    by (auto simp: cutoverRecoveryPoint_def snapshotCalls_def CreateRecoveryPoint_def nowUTC_def cutoverState_def
        cutoverWorkload_def Let_def split: option.splits sum.splits prod.splits dest!: save)
      (auto simp: acts_def)
qed

text \<open>The plan with its default timeout, and the run of a cutover from there.\<close>

definition timedPlan :: "CutoverPlan \<Rightarrow> CutoverPlan" where
  "timedPlan plan = (if cp_BootTimeout plan \<le> 0 then plan\<lparr>cp_BootTimeout := 300000000000\<rparr> else plan)"

lemma timedPlan_simps [simp]:
  "cp_ReplicationState (timedPlan plan) = cp_ReplicationState plan"
  "cp_MigrationID (timedPlan plan) = cp_MigrationID plan"
  "cp_SourceVM (timedPlan plan) = cp_SourceVM plan"
  "cutoverCalls c (timedPlan plan) = cutoverCalls c plan"
  "snapshotCalls c (timedPlan plan) = snapshotCalls c plan"
  "createCalls tgt (timedPlan plan) = createCalls tgt plan"
  by (simp_all add: timedPlan_def cutoverCalls_def snapshotCalls_def powerOffCalls_def createCalls_def networkCalls_def
      fun_eq_iff split: option.splits)

lemma snapshot_prefix: "prefix (snapshotCalls c plan) (cutoverCalls c plan disk vmID)"
  unfolding cutoverCalls_def by (rule prefixI [OF refl])

definition newReport :: "CutoverPlan \<Rightarrow> CutoverReport" where
  "newReport plan = \<lparr>ct_MigrationID = cp_MigrationID plan, ct_SourceVM = vm_Name (cp_SourceVM plan),
     ct_TargetVMID = [], ct_TotalDowntime = 0, ct_FinalSyncDuration = 0, ct_BootVerified = False,
     ct_RolledBack = False, ct_Events = []\<rparr>"

lemma newReport_fresh [simp]: "\<not> ct_RolledBack (newReport plan)"
  by (simp add: newReport_def)

lemma cutover_cases:
  assumes "ExecuteCutover rv c (Some plan) dt sy w = (r, ost, w')"
    and "co_replicator c = Some own" "st = (case cp_ReplicationState plan of None \<Rightarrow> own | Some given \<Rightarrow> given)"
  obtains e1 s1 err where "persistCutoverState (rv_env rv) c (timedPlan plan) (wo_sys w) = (e1, s1)"
      "r = (None, Some err)" "wo_sys w' = s1"
  | s1 e2 s2 err where "persistCutoverState (rv_env rv) c (timedPlan plan) (wo_sys w) = (None, s1)"
      "cutoverRecoveryPoint (rv_env rv) c (timedPlan plan) s1 = (e2, s2)" "r = (None, Some err)" "wo_sys w' = s2"
  | s1 s2 st' where "persistCutoverState (rv_env rv) c (timedPlan plan) (wo_sys w) = (None, s1)"
      "cutoverRecoveryPoint (rv_env rv) c (timedPlan plan) s1 = (None, s2)"
      "cutoverPowerOff rv c (timedPlan plan) st dt sy (newReport plan) (w\<lparr>wo_sys := s2\<rparr>) = (r, st', w')"
proof -
  obtain e1 s1 where p: "persistCutoverState (rv_env rv) c (timedPlan plan) (wo_sys w) = (e1, s1)" by (metis surj_pair)
  obtain e2 s2 where q: "cutoverRecoveryPoint (rv_env rv) c (timedPlan plan) s1 = (e2, s2)" by (metis surj_pair)
  have rep: "\<lparr>ct_MigrationID = cp_MigrationID plan, ct_SourceVM = vm_Name (cp_SourceVM plan),
     ct_TargetVMID = [], ct_TotalDowntime = 0, ct_FinalSyncDuration = 0, ct_BootVerified = False,
     ct_RolledBack = False, ct_Events = []\<rparr> = newReport plan" by (simp add: newReport_def)
  note go = assms(1) [unfolded ExecuteCutover_def, simplified, unfolded assms(2) timedPlan_def [symmetric], simplified,
      unfolded Let_def timedPlan_simps assms(3) [symmetric] p rep, simplified]
  show thesis
  proof (cases "e1 = None \<and> e2 = None")
    case True
    then show ?thesis using go p q that(3) by (auto split: prod.splits)
  next
    case False
    then show ?thesis using go p q that(1,2) by (cases e1) (auto split: option.splits)
  qed
qed

text \<open>
  C32 (cutover_ordered): whatever fails, the calls a cutover makes on machines are a prefix of: snapshot
  the source, power it off, create the target on the replicated disk, configure its networks, power it on,
  verify it (each where the platform can do it). Only when all of it was done and the boot failed may a
  rollback follow. A cutover without error has made all of these calls and no others and reports the target
  as verified; if moreover the guest is at rest, the paths of the two disks differ and the target file was not
  longer than the source file, it leaves the target disk equal to the source disk.
\<close>

theorem cutover_ordered:
  assumes "ExecuteCutover rv c (Some plan) dt sy w = (r, ost, w')"
    and "co_replicator c = Some own" "st = (case cp_ReplicationState plan of None \<Rightarrow> own | Some given \<Rightarrow> given)"
    and "src = rc_SourceDisk (rs_Config st)" "tgt = rc_TargetDisk (rs_Config st)"
  shows "\<exists>vmID pre s1. made (wo_sys w) pre s1 \<and> prefix pre (cutoverCalls c plan tgt vmID)
      \<and> (wo_sys w' = s1 \<or> pre = cutoverCalls c plan tgt vmID \<and> snd r \<noteq> None
           \<and> (\<exists>rsrc rtgt x. co_rollback c = Some (rsrc, rtgt)
                \<and> Rollback (rv_env rv) rsrc rtgt (cp_MigrationID plan) s1 = (x, wo_sys w')))
      \<and> (snd r = None \<longrightarrow> pre = cutoverCalls c plan tgt vmID \<and> wo_sys w' = s1)
      \<and> (\<forall>rep. r = (Some rep, None) \<longrightarrow> ct_TargetVMID rep = vmID \<and> ct_BootVerified rep \<and> \<not> ct_RolledBack rep)
      \<and> (snd r = None \<longrightarrow> atRest (rv_os rv) \<longrightarrow> src \<noteq> tgt \<longrightarrow>
           length (fileAt (wo_files w) tgt) \<le> length (fileAt (wo_files w) src) \<longrightarrow>
           fileAt (wo_files w') tgt = fileAt (wo_files w) src)"
proof -
  let ?ordered = "ordered (\<lambda>_ _. True) (rv_env rv) c (cp_MigrationID plan) (wo_sys w)"
  let ?ok = "\<lambda>vmID. \<forall>rep. r = (Some rep, None) \<longrightarrow> ct_TargetVMID rep = vmID \<and> ct_BootVerified rep \<and> \<not> ct_RolledBack rep"
  let ?disks = "snd r = None \<longrightarrow> atRest (rv_os rv) \<longrightarrow> src \<noteq> tgt \<longrightarrow>
      length (fileAt (wo_files w) tgt) \<le> length (fileAt (wo_files w) src) \<longrightarrow>
      fileAt (wo_files w') tgt = fileAt (wo_files w) src"
  have "\<exists>vmID. ?ordered (cutoverCalls c plan tgt vmID) r (wo_sys w') \<and> ?ok vmID \<and> ?disks"
  proof (rule cutover_cases [OF assms(1-3)], goal_cases)
    case (1 e1 s1 err)
    show ?case unfolding 1(2,3)
      by (intro exI [of _ "[]"] conjI impI calls.ordered_stop [OF calls.acts_persistCutover [OF 1(1)]]) simp_all
  next
    case (2 s1 e2 s2 err)
    from calls.acts_quiet_trans [OF calls.acts_persistCutover [OF 2(1)] made_recoveryPoint [OF 2(2)]]
    have "made (wo_sys w) (snapshotCalls c plan) s2" by simp
    then show ?case unfolding 2(3,4)
      by (intro exI [of _ "[]"] conjI impI calls.ordered_stop [OF _ snapshot_prefix]) simp_all
  next
    case (3 s1 s2 st')
    from calls.acts_quiet_trans [OF calls.acts_persistCutover [OF 3(1)] made_recoveryPoint [OF 3(2)]]
    have a: "made (wo_sys w) (snapshotCalls c (timedPlan plan)) s2" .
    obtain vmID where "ordered (\<lambda>_ _. True) (rv_env rv) c (cp_MigrationID plan) s2
        (powerOffCalls (co_source c) (timedPlan plan) @ createCalls (co_target c) (timedPlan plan) tgt
         @ networkCalls (co_target c) (timedPlan plan) vmID @ bootCalls (co_target c) vmID) r (wo_sys w')" "?ok vmID"
      using calls.ordered_powerOff(1) [OF 3(3) newReport_fresh] assms(5) by auto
    from calls.ordered_step [OF a this(1)] this(2)
    have "?ordered (cutoverCalls c (timedPlan plan) tgt vmID) r (wo_sys w') \<and> ?ok vmID" by (simp only: cutoverCalls_def)
    moreover have ?disks
      using calls.ordered_powerOff(2) [OF 3(3) newReport_fresh _ _ assms(4,5)] by simp
    ultimately show ?case by (auto simp del: split_paired_All)
  qed
  then obtain vmID where o: "?ordered (cutoverCalls c plan tgt vmID) r (wo_sys w')" and rest: "?ok vmID" ?disks
    by (elim exE conjE)
  from o obtain pre s1 where "made (wo_sys w) pre s1" "prefix pre (cutoverCalls c plan tgt vmID)"
    and "wo_sys w' = s1 \<and> (snd r = None \<longrightarrow> pre = cutoverCalls c plan tgt vmID)
      \<or> pre = cutoverCalls c plan tgt vmID \<and> snd r \<noteq> None
        \<and> (\<exists>rsrc rtgt x. co_rollback c = Some (rsrc, rtgt)
             \<and> Rollback (rv_env rv) rsrc rtgt (cp_MigrationID plan) s1 = (x, wo_sys w'))"
    unfolding ordered_def by (elim exE conjE) metis
  then show ?thesis
    by (intro exI [of _ vmID] exI [of _ pre] exI [of _ s1] conjI rest) auto
qed

section \<open>What the automatic rollback forgets\<close>

text \<open>Saving a migration record does not touch recovery points.\<close>

definition keepsPoints :: "('raw MemoryStore, 'raw) env \<Rightarrow> 'raw MemoryStore \<Rightarrow> 'raw MemoryStore \<Rightarrow> bool" where
  "keepsPoints env x y = (env_store env = memoryOps \<longrightarrow> (\<forall>m. storedPoint env m y = storedPoint env m x))"

interpretation points: store_frame rv "keepsPoints (rv_env rv)" for rv
proof unfold_locales
  fix x y :: "'a MemoryStore" and ctx t res got point m and rec :: "'a MigrationRecord"
  show "keepsPoints (rv_env rv) x y" if "op_SaveMigration (env_store (rv_env rv)) ctx x t rec = (res, y)"
    using that mem.save_frame [of ctx x t rec res y] by (auto simp: keepsPoints_def storedPoint_def)
  show "keepsPoints (rv_env rv) x y" if "op_GetMigration (env_store (rv_env rv)) ctx x t m = (got, y)"
    using that mem.get_pure [of ctx x t m] by (auto simp: keepsPoints_def)
  show "keepsPoints (rv_env rv) x y" if "op_GetRecoveryPoint (env_store (rv_env rv)) ctx x t m = (point, y)"
    using that mem.get_rp_pure [of ctx x t m] by (auto simp: keepsPoints_def)
qed (simp_all add: keepsPoints_def)

text \<open>The recovery point of a cutover names no target machine and no file.\<close>

lemma cutover_point:
  assumes "cutoverRecoveryPoint env c plan s = (None, s')" "co_rollback c = Some (rsrc, rtgt)"
    and "env_store env = memoryOps" "json_roundtrips env"
  shows "\<exists>point. storedPoint env (cp_MigrationID plan) (sy_store s') = Some point
     \<and> rp_TargetVMs point = [] \<and> rp_ConvertedFiles point = []"
proof -
  obtain t1 s1 t2 s2 point where create: "CreateRecoveryPoint env rsrc (cutoverState plan [] [] [] t1 t2) s2 = (Inr point, s')"
    using assms(1,2) by (auto simp: cutoverRecoveryPoint_def split: prod.splits sum.splits)
  then obtain s3 where save: "persistRecoveryPoint env point s3 = (None, s')"
    by (auto simp: CreateRecoveryPoint_def Let_def split: prod.splits sum.splits option.splits)
  have "rp_MigrationID point = cp_MigrationID plan" "rp_TargetVMs point = []" "rp_ConvertedFiles point = []"
    using create by (auto simp: CreateRecoveryPoint_def cutoverState_def cutoverWorkload_def Let_def
        split: prod.splits sum.splits option.splits)
  with mem.persistPoint_stored [OF assms(3,4) save] show ?thesis by auto
qed

lemma loadPoint_stored:
  assumes "loadRecoveryPoint env m s = (Inr p, s')" "env_store env = memoryOps"
  shows "storedPoint env m (sy_store s) = Some p" "sy_store s' = sy_store s"
proof -
  obtain rec where get: "GetRecoveryPoint (ctxOf env s) (sy_store s) (tenantOf env) m = (Inr rec, sy_store s')"
    and dec: "env_unmarshalPoint env (rr_RawJSON rec) = Inr p"
    using assms by (auto simp: loadRecoveryPoint_def memoryOps_def Let_def split: sum.splits prod.splits)
  then have "ctxOf env s = liveCtx env" by (auto simp: GetRecoveryPoint_def onDone_def ctxOf_def liveCtx_def split: option.splits)
  with get dec assms(2) show "storedPoint env m (sy_store s) = Some p" by (simp add: storedPoint_def memoryOps_def)
  show "sy_store s' = sy_store s" using get mem.get_rp_pure [of "ctxOf env s" "sy_store s" "tenantOf env" m] by (simp add: memoryOps_def)
qed

text \<open>
  A rollback without error from a recovery point that names no target only restores sources.
\<close>

lemma rollback_sources_only:
  assumes "Rollback env rsrc rtgt m s = ((ores, None), s')" "env_store env = memoryOps" "json_roundtrips env"
    and "storedPoint env m (sy_store s) = Some point" "rp_TargetVMs point = []" "rp_ConvertedFiles point = []"
  shows "\<exists>h. sy_hist s' = sy_hist s @ h \<and> (\<forall>v. CRemoveVM v \<notin> set h \<and> CPowerOff Target v \<notin> set h)"
proof -
  obtain p s1 where load: "loadRecoveryPoint env m (record_call CClock s) = (Inr p, s1)"
    using assms(1) by (auto simp: Rollback_def nowUTC_def split: prod.splits sum.splits)
  have p: "p = point" using loadPoint_stored(1) [OF load assms(2)] assms(4) by simp
  obtain st s2 where state: "loadMigrationState env m s1 = (Inr st, s2)"
    using assms(1) load by (auto simp: Rollback_def nowUTC_def split: prod.splits sum.splits)
  obtain res where res: "ores = Some res"
    using assms(1) load state
    by (auto simp: Rollback_def rollbackFinish_def nowUTC_def Let_def split: prod.splits option.splits if_splits)
  obtain cs where cs: "sy_hist s' = sy_hist s2 @ rollbackCalls rsrc rtgt point @ cs" "list_all bookkeeping cs"
    using rollback_run [OF assms(2,3) load state assms(1) [unfolded res]] by (auto simp: p)
  have "sy_hist s2 = sy_hist s @ [CClock, CGetPoint m, CGetState m]"
    using load state by (auto simp: loadRecoveryPoint_def loadMigrationState_def Let_def split: sum.splits prod.splits)
  with cs assms(5,6) show ?thesis
    by (auto simp: rollbackCalls_def targetOffCalls_def removeCalls_def restoreCall_def list_all_iff)
qed

text \<open>
  When the boot of the target fails and the automatic rollback of a
  cutover reports no error, the target machine that the cutover created is neither powered off nor removed:
  the recovery point was taken before the machine existed.
\<close>

theorem cutover_rollback_leaves_target:
  fixes rv :: "('raw MemoryStore, 'raw) renv"
  assumes "env_store (rv_env rv) = memoryOps" "json_roundtrips (rv_env rv)"
    and "ExecuteCutover rv c (Some plan) dt sy w = ((Some rep, e), ost, w')" "ct_RolledBack rep"
    and "co_replicator c = Some own"
  shows "\<exists>h. sy_hist (wo_sys w') = sy_hist (wo_sys w) @ h
     \<and> (\<forall>v. CRemoveVM v \<notin> set h \<and> CPowerOff Target v \<notin> set h)
     \<and> (con_importer (co_target c) \<noteq> None \<longrightarrow> (\<exists>disk. CCreateVM (cp_SourceVM plan) [disk] [] [] \<in> set h))"
proof (rule cutover_cases [OF assms(3,5) refl], goal_cases)
  case (3 s1 s2 st')
  let ?env = "rv_env rv" and ?m = "cp_MigrationID plan"
  define st where "st = (case cp_ReplicationState plan of None \<Rightarrow> own | Some given \<Rightarrow> given)"
  let ?tgt = "rc_TargetDisk (rs_Config st)"
  obtain vmID where "ordered (keepsPoints ?env) ?env c ?m s2
      (powerOffCalls (co_source c) (timedPlan plan) @ createCalls (co_target c) plan ?tgt
       @ networkCalls (co_target c) (timedPlan plan) vmID @ bootCalls (co_target c) vmID) (Some rep, e) (wo_sys w')"
    using points.ordered_powerOff(1) [OF 3(3) newReport_fresh] by (auto simp: st_def)
  then obtain pre s3 rsrc rtgt x where a: "acts (keepsPoints ?env) s2 pre s3"
    and pre: "pre = powerOffCalls (co_source c) (timedPlan plan) @ createCalls (co_target c) plan ?tgt
       @ networkCalls (co_target c) (timedPlan plan) vmID @ bootCalls (co_target c) vmID"
    and mgr: "co_rollback c = Some (rsrc, rtgt)" and rb: "Rollback ?env rsrc rtgt ?m s3 = (x, wo_sys w')" "snd x = None"
    using assms(4) unfolding ordered_def by auto
  from cutover_point [OF 3(2) mgr assms(1,2)] obtain point
    where point: "storedPoint ?env ?m (sy_store s2) = Some point" "rp_TargetVMs point = []" "rp_ConvertedFiles point = []"
    by auto
  then have stored: "storedPoint ?env ?m (sy_store s3) = Some point"
    using a assms(1) by (simp add: acts_def keepsPoints_def)
  obtain ores where x: "x = (ores, None)" using rb(2) by (cases x) auto
  obtain h2 where h2: "sy_hist (wo_sys w') = sy_hist s3 @ h2" "\<And>v. CRemoveVM v \<notin> set h2 \<and> CPowerOff Target v \<notin> set h2"
    using rollback_sources_only [OF rb(1) [unfolded x] assms(1,2) stored point(2,3)] by blast
  from calls.acts_quiet_trans [OF calls.acts_persistCutover [OF 3(1)] made_recoveryPoint [OF 3(2)]]
  obtain h0 where h0: "sy_hist s2 = sy_hist (wo_sys w) @ h0" "filter (\<lambda>c. \<not> bookkeeping c) h0 = snapshotCalls c plan"
    by (auto simp: acts_def)
  obtain h1 where h1: "sy_hist s3 = sy_hist s2 @ h1" "filter (\<lambda>c. \<not> bookkeeping c) h1 = pre"
    using a by (auto simp: acts_def)
  have mem0: "b \<in> set h0 \<longleftrightarrow> b \<in> set (snapshotCalls c plan)" if "\<not> bookkeeping b" for b
    using h0(2) that by (auto simp flip: h0(2))
  have mem1: "b \<in> set h1 \<longleftrightarrow> b \<in> set pre" if "\<not> bookkeeping b" for b
    using h1(2) that by (auto simp flip: h1(2))
  have none: "CRemoveVM v \<notin> set (h0 @ h1) \<and> CPowerOff Target v \<notin> set (h0 @ h1)" for v
    using mem0 [of "CRemoveVM v"] mem0 [of "CPowerOff Target v"] mem1 [of "CRemoveVM v"] mem1 [of "CPowerOff Target v"]
    by (auto simp: pre snapshotCalls_def powerOffCalls_def createCalls_def networkCalls_def bootCalls_def verifyCalls_def
        split: option.splits if_splits)
  have "con_importer (co_target c) \<noteq> None \<Longrightarrow> CCreateVM (cp_SourceVM plan) [?tgt] [] [] \<in> set h1"
    using mem1 [of "CCreateVM (cp_SourceVM plan) [?tgt] [] []"] by (auto simp: pre createCalls_def)
  with none h0(1) h1(1) h2 show ?case by (intro exI [of _ "h0 @ h1 @ h2"]) auto
qed (use assms(4) in simp_all)

end
