(* ===== verification/Preflight.thy ===== *)
theory Preflight
  imports Orchestrator
begin

text \<open>
  Preflight checks, \<open>internal/migrate/preflight.go\<close>: the twelve checks and the report. The checker keeps the
  two inventories it discovered and the plan it derived. A message is kept as its format with its
  arguments, the text of an error as the error; the durations of the checks are not modelled.
\<close>

section \<open>Data\<close>

datatype CheckStatus = StatusPass | StatusWarn | StatusFail

record CheckResult =
  ck_Name :: string
  ck_Status :: CheckStatus
  ck_Message :: goerror

record PreflightReport =
  pf_Plan :: "MigrationPlan option"
  pf_Checks :: "CheckResult list"
  pf_PassCount :: int
  pf_WarnCount :: int
  pf_FailCount :: int
  pf_CanProceed :: bool

record PreflightChecker =
  pc_sourceResult :: "DiscoveryResult option"
  pc_targetResult :: "DiscoveryResult option"
  pc_plan :: "MigrationPlan option"

definition NewPreflightChecker :: PreflightChecker where
  "NewPreflightChecker = \<lparr>pc_sourceResult = None, pc_targetResult = None, pc_plan = None\<rparr>"

abbreviation passed :: "string \<Rightarrow> goerror \<Rightarrow> CheckResult" where
  "passed name msg \<equiv> \<lparr>ck_Name = name, ck_Status = StatusPass, ck_Message = msg\<rparr>"

abbreviation warned :: "string \<Rightarrow> goerror \<Rightarrow> CheckResult" where
  "warned name msg \<equiv> \<lparr>ck_Name = name, ck_Status = StatusWarn, ck_Message = msg\<rparr>"

abbreviation failed :: "string \<Rightarrow> goerror \<Rightarrow> CheckResult" where
  "failed name msg \<equiv> \<lparr>ck_Name = name, ck_Status = StatusFail, ck_Message = msg\<rparr>"

section \<open>The checks\<close>

text \<open>Both connectivity checks: connect, discover, close.\<close>

definition probe ::
  "role \<Rightarrow> string \<Rightarrow> Connector \<Rightarrow> 'st sys \<Rightarrow> (CheckResult \<times> DiscoveryResult option) \<times> 'st sys" where
  "probe side name con s =
     (let s1 = record_call (CConnect side) s; what = (case side of Source \<Rightarrow> ''source'' | Target \<Rightarrow> ''target'') in
      case con_Connect con (sy_hist s) of
        Some err \<Rightarrow> ((failed name (Wrap (what @ '' connection failed: %v'') [] err), None), s1)
      | None \<Rightarrow>
          (let s2 = record_call (CClose side) (record_call (CDiscover side) s1) in
           case con_Discover con (sy_hist s1) of
             Inl err \<Rightarrow> ((failed name (Wrap (what @ '' discovery failed: %v'') [] err), None), s2)
           | Inr result \<Rightarrow>
               ((passed name (Errorf (what @ '' platform is reachable'') []), Some result), s2)))"

definition checkSourceConnectivity ::
  "Connector \<Rightarrow> PreflightChecker \<Rightarrow> 'st sys \<Rightarrow> CheckResult \<times> PreflightChecker \<times> 'st sys" where
  "checkSourceConnectivity src c s =
     (case probe Source ''source-connectivity'' src s of
        ((r, None), s') \<Rightarrow> (r, c, s')
      | ((r, Some result), s') \<Rightarrow> (r, c\<lparr>pc_sourceResult := Some result\<rparr>, s'))"

definition checkTargetConnectivity ::
  "Connector \<Rightarrow> PreflightChecker \<Rightarrow> 'st sys \<Rightarrow> CheckResult \<times> PreflightChecker \<times> 'st sys" where
  "checkTargetConnectivity tgt c s =
     (case probe Target ''target-connectivity'' tgt s of
        ((r, None), s') \<Rightarrow> (r, c, s')
      | ((r, Some result), s') \<Rightarrow> (r, c\<lparr>pc_targetResult := Some result\<rparr>, s'))"

definition checkExecutionWindow :: "MigrationSpec \<Rightarrow> time \<Rightarrow> CheckResult" where
  "checkExecutionWindow spec now =
     (let window = opt_Window (spec_Options spec) in
      if \<not> isZero (win_NotBefore window) \<and> now < win_NotBefore window
      then failed ''execution-window'' (ErrorfTime ''migration window opens at %s'' (win_NotBefore window))
      else if \<not> isZero (win_NotAfter window) \<and> now > win_NotAfter window
      then failed ''execution-window'' (ErrorfTime ''migration window closed at %s'' (win_NotAfter window))
      else passed ''execution-window'' (Errorf ''execution window allows this migration run'' []))"

definition checkApprovalGate :: "MigrationSpec \<Rightarrow> CheckResult" where
  "checkApprovalGate spec =
     (let approval = opt_Approval (spec_Options spec) in
      if ag_Required approval \<and> \<not> Approved approval
      then failed ''approval-gate'' (Errorf ''migration requires approval before execution'' [])
      else passed ''approval-gate'' (Errorf ''approval gate is satisfied'' []))"

definition sumOf :: "('a \<Rightarrow> int) \<Rightarrow> 'a list \<Rightarrow> int" where
  "sumOf f xs = fold (\<lambda>x acc. acc + f x) xs 0"

definition requiredDiskMB :: "VirtualMachine list \<Rightarrow> int" where
  "requiredDiskMB vms = fold (\<lambda>vm acc. fold (\<lambda>disk acc. acc + disk_SizeMB disk) (vm_Disks vm) acc) vms 0"

definition checkDiskSpace :: "patternLib \<Rightarrow> MigrationSpec \<Rightarrow> PreflightChecker \<Rightarrow> CheckResult" where
  "checkDiskSpace lib spec c =
     (case (pc_sourceResult c, pc_targetResult c) of
        (Some sourceResult, Some targetResult) \<Rightarrow>
          (let selected = MatchWorkloads lib (dr_VMs sourceResult) (spec_Workloads spec);
               requiredMB = requiredDiskMB selected;
               freeMB = sumOf ds_FreeMB (dr_Datastores targetResult)
           in if freeMB = 0 then warned ''disk-space'' (Errorf ''target free space is unknown'' [])
              else if requiredMB > freeMB
              then failed ''disk-space'' (Errorf ''target free space %d MB is smaller than required %d MB''
                     [itoaInt freeMB, itoaInt requiredMB])
              else passed ''disk-space'' (Errorf ''target free space %d MB is sufficient for %d MB''
                     [itoaInt freeMB, itoaInt requiredMB]))
      | _ \<Rightarrow> warned ''disk-space''
               (Errorf ''connectivity checks did not complete, disk space could not be verified'' []))"

text \<open>\<open>r\<close> is the order in which the mapping of a workload is visited.\<close>

fun networkErrors ::
  "(string list \<Rightarrow> nat list) \<Rightarrow> NetworkInfo list \<Rightarrow> WorkloadMigration list \<Rightarrow> goerror list" where
  "networkErrors r networks [] = []"
| "networkErrors r networks (workload # ws) =
     (let mapper = NewNetworkMapper (wm_NetworkMappings workload) networks in
      ValidateTargetNetworks r mapper @ snd (MapAllNICs mapper (vm_NICs (wm_VM workload)))
      @ networkErrors r networks ws)"

definition checkNetworkMappings ::
  "patternLib \<Rightarrow> (string list \<Rightarrow> nat list) \<Rightarrow> MigrationSpec \<Rightarrow> PreflightChecker \<Rightarrow> CheckResult" where
  "checkNetworkMappings lib r spec c =
     (case (pc_sourceResult c, pc_targetResult c) of
        (Some sourceResult, Some targetResult) \<Rightarrow>
          (case networkErrors r (dr_Networks targetResult)
                  (buildWorkloadMigrations lib (dr_VMs sourceResult) (spec_Workloads spec)) of
             err # errs \<Rightarrow> failed ''network-mappings'' err
           | [] \<Rightarrow> passed ''network-mappings'' (Errorf ''all target networks are available'' []))
      | _ \<Rightarrow> warned ''network-mappings''
               (Errorf ''connectivity checks did not complete, network mappings could not be verified'' []))"

definition checkNameConflicts :: "patternLib \<Rightarrow> MigrationSpec \<Rightarrow> PreflightChecker \<Rightarrow> CheckResult" where
  "checkNameConflicts lib spec c =
     (case (pc_sourceResult c, pc_targetResult c) of
        (Some sourceResult, Some targetResult) \<Rightarrow>
          (let selected = MatchWorkloads lib (dr_VMs sourceResult) (spec_Workloads spec);
               targetNames = map (\<lambda>vm. ToLower (vm_Name vm)) (dr_VMs targetResult)
           in case find (\<lambda>vm. ToLower (vm_Name vm) \<in> set targetNames) selected of
                Some vm \<Rightarrow> failed ''name-conflicts'' (Errorf ''target already contains VM %q'' [vm_Name vm])
              | None \<Rightarrow> passed ''name-conflicts'' (Errorf ''no target naming conflicts detected'' []))
      | _ \<Rightarrow> warned ''name-conflicts''
               (Errorf ''connectivity checks did not complete, name conflicts could not be verified'' []))"

definition checkSourceBackup :: "patternLib \<Rightarrow> MigrationSpec \<Rightarrow> PreflightChecker \<Rightarrow> CheckResult" where
  "checkSourceBackup lib spec c =
     (case pc_sourceResult c of
        None \<Rightarrow> warned ''source-backup''
                 (Errorf ''source inventory unavailable, backup presence could not be verified'' [])
      | Some sourceResult \<Rightarrow>
          if list_ex (\<lambda>vm. length (vm_Snapshots vm) > 0) (MatchWorkloads lib (dr_VMs sourceResult) (spec_Workloads spec))
          then passed ''source-backup'' (Errorf ''source recovery points detected'' [])
          else warned ''source-backup'' (Errorf ''no source snapshots or backups detected'' []))"

text \<open>The first disk whose formats the converter does not know.\<close>

fun diskFormatError :: "DiskFormat \<Rightarrow> VirtualMachine \<Rightarrow> Disk list \<Rightarrow> goerror option" where
  "diskFormatError targetFormat vm [] = None"
| "diskFormatError targetFormat vm (disk # disks) =
     (let sourceFormat = inferDiskFormat (disk_Name disk) (vm_Platform vm) in
      case qemuFormat sourceFormat of
        Inl _ \<Rightarrow> Some (Errorf ''VM %s has unsupported source format %q'' [vm_Name vm, sourceFormat])
      | Inr _ \<Rightarrow>
          (case qemuFormat targetFormat of
             Inl _ \<Rightarrow> Some (Errorf ''target format %q is unsupported'' [targetFormat])
           | Inr _ \<Rightarrow> diskFormatError targetFormat vm disks))"

fun diskFormatErrors :: "DiskFormat \<Rightarrow> VirtualMachine list \<Rightarrow> goerror option" where
  "diskFormatErrors targetFormat [] = None"
| "diskFormatErrors targetFormat (vm # vms) =
     (case diskFormatError targetFormat vm (vm_Disks vm) of
        Some err \<Rightarrow> Some err
      | None \<Rightarrow> diskFormatErrors targetFormat vms)"

definition checkDiskFormats :: "patternLib \<Rightarrow> MigrationSpec \<Rightarrow> PreflightChecker \<Rightarrow> CheckResult" where
  "checkDiskFormats lib spec c =
     (case pc_sourceResult c of
        None \<Rightarrow> warned ''disk-formats''
                 (Errorf ''source inventory unavailable, disk formats could not be verified'' [])
      | Some sourceResult \<Rightarrow>
          (case diskFormatErrors (targetDiskFormat (tgt_Platform (spec_Target spec)))
                  (MatchWorkloads lib (dr_VMs sourceResult) (spec_Workloads spec)) of
             Some err \<Rightarrow> failed ''disk-formats'' err
           | None \<Rightarrow> passed ''disk-formats'' (Errorf ''source disks can be converted for the target platform'' [])))"

definition checkResourceAvailability :: "patternLib \<Rightarrow> MigrationSpec \<Rightarrow> PreflightChecker \<Rightarrow> CheckResult" where
  "checkResourceAvailability lib spec c =
     (case (pc_sourceResult c, pc_targetResult c) of
        (Some sourceResult, Some targetResult) \<Rightarrow>
          (let selected = MatchWorkloads lib (dr_VMs sourceResult) (spec_Workloads spec);
               requiredCPU = sumOf vm_CPUCount selected; requiredMemoryMB = sumOf vm_MemoryMB selected;
               targetCPU = sumOf host_CPUCores (dr_Hosts targetResult);
               targetMemoryMB = sumOf host_MemoryMB (dr_Hosts targetResult)
           in if targetCPU = 0 \<or> targetMemoryMB = 0
              then warned ''resource-availability'' (Errorf ''target capacity is unknown'' [])
              else if requiredCPU > targetCPU \<or> requiredMemoryMB > targetMemoryMB
              then failed ''resource-availability'' (Errorf ''target capacity is insufficient for %d CPU / %d MB''
                     [itoaInt requiredCPU, itoaInt requiredMemoryMB])
              else passed ''resource-availability'' (Errorf ''target capacity can host %d CPU / %d MB''
                     [itoaInt requiredCPU, itoaInt requiredMemoryMB]))
      | _ \<Rightarrow> warned ''resource-availability''
               (Errorf ''connectivity checks did not complete, target capacity could not be verified'' []))"

definition checkRollbackReadiness :: "Connector \<Rightarrow> Connector \<Rightarrow> CheckResult" where
  "checkRollbackReadiness src tgt =
     (let missing = (if con_snapshotter src = None then [''source snapshot support''] else [])
            @ (if con_power src = None then [''source power control''] else [])
            @ (if con_remover tgt = None then [''target VM removal''] else [])
      in if length missing > 0
         then warned ''rollback-readiness'' (Errorf ''rollback will be limited because %s are unavailable'' missing)
         else passed ''rollback-readiness'' (Errorf ''rollback dependencies are available'' []))"

definition checkExecutionPlan ::
  "('st, 'raw) env \<Rightarrow> MigrationSpec \<Rightarrow> PreflightChecker \<Rightarrow> 'st sys
   \<Rightarrow> CheckResult \<times> PreflightChecker \<times> 'st sys" where
  "checkExecutionPlan env spec c s =
     (case pc_sourceResult c of
        None \<Rightarrow> (warned ''execution-plan''
                   (Errorf ''source inventory unavailable, execution plan could not be derived'' []), c, s)
      | Some sourceResult \<Rightarrow>
          (case nowUTC env s of (now, s1) \<Rightarrow>
           case BuildExecutionPlan (env_patterns env) (env_sort env) now (Some spec) (dr_VMs sourceResult) of
             Inl err \<Rightarrow> (failed ''execution-plan'' err, c, s1)
           | Inr plan \<Rightarrow>
               (passed ''execution-plan'' (Errorf ''planned %d workloads across %d migration wave(s)''
                  [itoaInt (plan_TotalWorkloads plan), itoa (length (plan_Waves plan))]),
                c\<lparr>pc_plan := Some plan\<rparr>, s1)))"

section \<open>The report\<close>

definition countStatus :: "CheckStatus \<Rightarrow> CheckResult list \<Rightarrow> int" where
  "countStatus st checks = int (length (filter (\<lambda>c. ck_Status c = st) checks))"

definition preflightReport :: "CheckResult list \<Rightarrow> MigrationPlan option \<Rightarrow> PreflightReport" where
  "preflightReport checks plan =
     \<lparr>pf_Plan = plan, pf_Checks = checks, pf_PassCount = countStatus StatusPass checks,
      pf_WarnCount = countStatus StatusWarn checks, pf_FailCount = countStatus StatusFail checks,
      pf_CanProceed = (countStatus StatusFail checks = 0)\<rparr>"

definition RunAll ::
  "('st, 'raw) env \<Rightarrow> (string list \<Rightarrow> nat list) \<Rightarrow> Connector \<Rightarrow> Connector \<Rightarrow> MigrationSpec option \<Rightarrow> 'st sys
   \<Rightarrow> (goerror + PreflightReport) \<times> 'st sys" where
  "RunAll env r src tgt ospec s0 =
     (case ospec of
        None \<Rightarrow> (Inl (Errorf ''run preflight: spec is nil'' []), s0)
      | Some spec \<Rightarrow>
          (let lib = env_patterns env in
           case checkSourceConnectivity src NewPreflightChecker s0 of (r1, c1, s1) \<Rightarrow>
           case checkTargetConnectivity tgt c1 s1 of (r2, c2, s2) \<Rightarrow>
           case nowUTC env s2 of (now, s3) \<Rightarrow>
           case checkExecutionPlan env spec c2 s3 of (r12, c3, s4) \<Rightarrow>
             (Inr (preflightReport
                [r1, r2, checkExecutionWindow spec now, checkApprovalGate spec, checkDiskSpace lib spec c2,
                 checkNetworkMappings lib r spec c2, checkNameConflicts lib spec c2, checkSourceBackup lib spec c2,
                 checkDiskFormats lib spec c2, checkResourceAvailability lib spec c2, checkRollbackReadiness src tgt, r12]
                (pc_plan c3)), s4)))"

section \<open>Properties\<close>

lemma sumOf_sum_list: "sumOf f xs = (\<Sum>x\<leftarrow>xs. f x)"
proof -
  have "fold (\<lambda>x acc. acc + f x) xs a = a + (\<Sum>x\<leftarrow>xs. f x)" for a
    by (induction xs arbitrary: a) simp_all
  then show ?thesis by (simp add: sumOf_def)
qed

lemma requiredDiskMB_sum: "requiredDiskMB vms = (\<Sum>vm\<leftarrow>vms. \<Sum>disk\<leftarrow>vm_Disks vm. disk_SizeMB disk)"
proof -
  have inner: "fold (\<lambda>disk acc. acc + disk_SizeMB disk) ds a = a + (\<Sum>disk\<leftarrow>ds. disk_SizeMB disk)" for ds a
    by (induction ds arbitrary: a) simp_all
  have "fold (\<lambda>vm acc. fold (\<lambda>disk acc. acc + disk_SizeMB disk) (vm_Disks vm) acc) vms a
      = a + (\<Sum>vm\<leftarrow>vms. \<Sum>disk\<leftarrow>vm_Disks vm. disk_SizeMB disk)" for a
    by (induction vms arbitrary: a) (simp_all add: inner)
  then show ?thesis by (simp add: requiredDiskMB_def)
qed

text \<open>The converter knows every format the source infers, so this check never fails.\<close>

lemma diskFormats_known: "diskFormatErrors (targetDiskFormat platform) vms = None"
proof -
  have "diskFormatError (targetDiskFormat platform) vm ds = None" for vm ds
    using formats_cover [OF inferDiskFormat_range] formats_cover [OF targetDiskFormat_range]
    by (induction ds) (auto simp: Let_def split: sum.splits, (metis Inl_Inr_False)+)
  then show ?thesis by (induction vms) simp_all
qed

lemma ValidateTargetNetworks_empty:
  "ValidateTargetNetworks r (NewNetworkMapper m nets) = []
     \<longleftrightarrow> (\<forall>kv \<in> set (copyStringMap m). snd kv \<in> net_Name ` set nets)"
  by (force simp: ValidateTargetNetworks_def NewNetworkMapper_def filter_empty_conv list_ex_iff)

lemma distinct_copyStringMap: "distinct (map fst (copyStringMap m))"
  by (simp add: copyStringMap_merge distinct_mergeStringMap)

lemma copyStringMap_twice: "map_of (copyStringMap (copyStringMap m)) = map_of (copyStringMap m)"
  by (rule map_of_copyStringMap [OF distinct_copyStringMap])

lemma MapAllNICs_cong:
  "map_of (nm_mappings m) = map_of (nm_mappings m') \<Longrightarrow> nm_targetNetworks m = nm_targetNetworks m' \<Longrightarrow>
     MapAllNICs m nics = MapAllNICs m' nics"
proof -
  assume *: "map_of (nm_mappings m) = map_of (nm_mappings m')" "nm_targetNetworks m = nm_targetNetworks m'"
  have "MapNIC m nic = MapNIC m' nic" for nic unfolding MapNIC_def * ..
  then show ?thesis by (induction nics) simp_all
qed

lemma set_copyStringMap_twice: "set (copyStringMap (copyStringMap m)) = set (copyStringMap m)"
  using copyStringMap_twice [of m] distinct_copyStringMap by (metis map_of_eq_Some_iff set_eqI surj_pair distinct_copyStringMap)

text \<open>
  The network conditions of a machine, on the mapping the configure phase uses.
\<close>

definition networksOk :: "patternLib \<Rightarrow> WorkloadSelector list \<Rightarrow> NetworkInfo list \<Rightarrow> VirtualMachine \<Rightarrow> bool" where
  "networksOk lib selectors nets vm =
     (let m = wo_NetworkMap (fst (mergedOverridesForVM lib vm selectors)) in
      (\<forall>kv \<in> set (copyStringMap m). snd kv \<in> net_Name ` set nets)
      \<and> snd (MapAllNICs (NewNetworkMapper m nets) (vm_NICs vm)) = [])"

lemma networkErrors_empty:
  "networkErrors r nets ws = [] \<longleftrightarrow>
     (\<forall>w \<in> set ws. ValidateTargetNetworks r (NewNetworkMapper (wm_NetworkMappings w) nets) = []
        \<and> snd (MapAllNICs (NewNetworkMapper (wm_NetworkMappings w) nets) (vm_NICs (wm_VM w))) = [])"
  by (induction ws) (auto simp: Let_def)

lemma buildLoop_networks:
  "w \<in> set (buildLoop lib ss vms seen) \<Longrightarrow>
     wm_NetworkMappings w = copyStringMap (wo_NetworkMap (fst (mergedOverridesForVM lib (wm_VM w) ss)))"
  by (induction vms arbitrary: seen)
     (auto simp: newWorkload_def split: prod.splits if_splits dest: arg_cong [of _ _ fst, OF sym])

lemma networkErrors_selected:
  "networkErrors r nets (buildWorkloadMigrations lib vms ss) = []
     \<longleftrightarrow> (\<forall>vm \<in> set (MatchWorkloads lib vms ss). networksOk lib ss nets vm)"
proof -
  let ?ws = "buildWorkloadMigrations lib vms ss"
  have vms: "set (MatchWorkloads lib vms ss) = wm_VM ` set ?ws"
    using buildLoop_vms [of lib ss vms "[]"] unfolding buildWorkloadMigrations_def MatchWorkloads_def
    by (metis image_set)
  have "(ValidateTargetNetworks r (NewNetworkMapper (wm_NetworkMappings w) nets) = []
      \<and> snd (MapAllNICs (NewNetworkMapper (wm_NetworkMappings w) nets) (vm_NICs (wm_VM w))) = [])
      \<longleftrightarrow> networksOk lib ss nets (wm_VM w)" if "w \<in> set ?ws" for w
  proof -
    let ?m = "wo_NetworkMap (fst (mergedOverridesForVM lib (wm_VM w) ss))"
    have m: "wm_NetworkMappings w = copyStringMap ?m"
      using buildLoop_networks that by (auto simp: buildWorkloadMigrations_def)
    have "MapAllNICs (NewNetworkMapper (copyStringMap ?m) nets) nics = MapAllNICs (NewNetworkMapper ?m nets) nics" for nics
      by (rule MapAllNICs_cong) (simp_all add: NewNetworkMapper_def copyStringMap_twice)
    then show ?thesis
      by (simp add: networksOk_def Let_def m ValidateTargetNetworks_empty set_copyStringMap_twice)
  qed
  then show ?thesis unfolding networkErrors_empty vms by blast
qed

text \<open>
  What a migration needs of the two inventories and the clock: the gate of the engine is open, the disks
  and machines fit where the capacity is known, the networks map, the names are free, a plan exists.
\<close>

definition preflightOk ::
  "('st, 'raw) env \<Rightarrow> MigrationSpec \<Rightarrow> DiscoveryResult \<Rightarrow> DiscoveryResult \<Rightarrow> time \<Rightarrow> time \<Rightarrow> bool" where
  "preflightOk env spec S T now planned =
     (let lib = env_patterns env; selected = MatchWorkloads lib (dr_VMs S) (spec_Workloads spec);
          free = (\<Sum>d\<leftarrow>dr_Datastores T. ds_FreeMB d); cpu = (\<Sum>h\<leftarrow>dr_Hosts T. host_CPUCores h);
          memory = (\<Sum>h\<leftarrow>dr_Hosts T. host_MemoryMB h)
      in (\<forall>st. \<exists>st'. validateExecutionReadiness st spec now = Inr st')
         \<and> (free = 0 \<or> (\<Sum>vm\<leftarrow>selected. \<Sum>disk\<leftarrow>vm_Disks vm. disk_SizeMB disk) \<le> free)
         \<and> (cpu = 0 \<or> memory = 0
            \<or> (\<Sum>vm\<leftarrow>selected. vm_CPUCount vm) \<le> cpu \<and> (\<Sum>vm\<leftarrow>selected. vm_MemoryMB vm) \<le> memory)
         \<and> (\<forall>vm \<in> set selected. networksOk lib (spec_Workloads spec) (dr_Networks T) vm)
         \<and> (\<forall>vm \<in> set selected. \<forall>t \<in> set (dr_VMs T). ToLower (vm_Name vm) \<noteq> ToLower (vm_Name t))
         \<and> (\<exists>plan. BuildExecutionPlan lib (env_sort env) planned (Some spec) (dr_VMs S) = Inr plan))"

lemma statuses:
  "ck_Status (checkExecutionWindow spec now) \<noteq> StatusFail \<and> ck_Status (checkApprovalGate spec) \<noteq> StatusFail
     \<longleftrightarrow> (\<forall>st. \<exists>st'. validateExecutionReadiness st spec now = Inr st')"
  "ck_Status (checkSourceBackup lib spec c) \<noteq> StatusFail"
  "ck_Status (checkDiskFormats lib spec c) \<noteq> StatusFail"
  "ck_Status (checkRollbackReadiness src tgt) \<noteq> StatusFail"
  by (auto simp: checkExecutionWindow_def checkApprovalGate_def validateExecutionReadiness_def checkSourceBackup_def
      checkDiskFormats_def checkRollbackReadiness_def diskFormats_known Let_def split: option.splits)

lemma find_Some_member: "find P xs = Some x \<Longrightarrow> x \<in> set xs \<and> P x"
  by (induction xs) (auto split: if_splits)

lemma inventory_statuses:
  fixes lib :: patternLib and spec :: MigrationSpec
  assumes "pc_sourceResult c = Some S" "pc_targetResult c = Some T"
  defines "selected \<equiv> MatchWorkloads lib (dr_VMs S) (spec_Workloads spec)"
  shows "ck_Status (checkDiskSpace lib spec c) \<noteq> StatusFail \<longleftrightarrow>
      (let free = \<Sum>d\<leftarrow>dr_Datastores T. ds_FreeMB d in
       free = 0 \<or> (\<Sum>vm\<leftarrow>selected. \<Sum>disk\<leftarrow>vm_Disks vm. disk_SizeMB disk) \<le> free)"
    and "ck_Status (checkResourceAvailability lib spec c) \<noteq> StatusFail \<longleftrightarrow>
      (let cpu = (\<Sum>h\<leftarrow>dr_Hosts T. host_CPUCores h); memory = (\<Sum>h\<leftarrow>dr_Hosts T. host_MemoryMB h) in
       cpu = 0 \<or> memory = 0
       \<or> (\<Sum>vm\<leftarrow>selected. vm_CPUCount vm) \<le> cpu \<and> (\<Sum>vm\<leftarrow>selected. vm_MemoryMB vm) \<le> memory)"
    and "ck_Status (checkNetworkMappings lib r spec c) \<noteq> StatusFail \<longleftrightarrow>
      (\<forall>vm \<in> set selected. networksOk lib (spec_Workloads spec) (dr_Networks T) vm)"
    and "ck_Status (checkNameConflicts lib spec c) \<noteq> StatusFail \<longleftrightarrow>
      (\<forall>vm \<in> set selected. \<forall>t \<in> set (dr_VMs T). ToLower (vm_Name vm) \<noteq> ToLower (vm_Name t))"
  unfolding selected_def networkErrors_selected [of r, symmetric]
  by (auto simp: checkDiskSpace_def checkResourceAvailability_def checkNetworkMappings_def checkNameConflicts_def
      assms(1,2) sumOf_sum_list requiredDiskMB_sum Let_def find_None_iff split: list.splits option.splits
      dest!: find_Some_member)

lemma countStatus_total:
  "countStatus StatusPass cs + countStatus StatusWarn cs + countStatus StatusFail cs = int (length cs)"
proof (induction cs)
  case (Cons c cs)
  then show ?case by (cases "ck_Status c") (simp_all add: countStatus_def)
qed (simp add: countStatus_def)

lemma countStatus_zero: "countStatus st cs = 0 \<longleftrightarrow> (\<forall>c \<in> set cs. ck_Status c \<noteq> st)"
  by (auto simp: countStatus_def filter_empty_conv)

text \<open>The checks of a run that discovered both inventories.\<close>

definition discoveredChecks ::
  "('st, 'raw) env \<Rightarrow> (string list \<Rightarrow> nat list) \<Rightarrow> Connector \<Rightarrow> Connector \<Rightarrow> MigrationSpec
   \<Rightarrow> DiscoveryResult \<Rightarrow> DiscoveryResult \<Rightarrow> 'st sys \<Rightarrow> CheckResult list" where
  "discoveredChecks env r src tgt spec S T s =
     (let lib = env_patterns env; c = \<lparr>pc_sourceResult = Some S, pc_targetResult = Some T, pc_plan = None\<rparr>
      in [passed ''source-connectivity'' (Errorf ''source platform is reachable'' []),
          passed ''target-connectivity'' (Errorf ''target platform is reachable'' []),
          checkExecutionWindow spec (env_now env (sy_hist s)), checkApprovalGate spec, checkDiskSpace lib spec c,
          checkNetworkMappings lib r spec c, checkNameConflicts lib spec c, checkSourceBackup lib spec c,
          checkDiskFormats lib spec c, checkResourceAvailability lib spec c, checkRollbackReadiness src tgt,
          fst (checkExecutionPlan env spec c (snd (nowUTC env s)))])"

lemma RunAll_discovered:
  assumes "con_Connect src (sy_hist s) = None" "con_Discover src (sy_hist s @ [CConnect Source]) = Inr S"
    "con_Connect tgt (sy_hist s @ [CConnect Source, CDiscover Source, CClose Source]) = None"
    "con_Discover tgt (sy_hist s @ [CConnect Source, CDiscover Source, CClose Source, CConnect Target]) = Inr T"
  defines "s2 \<equiv> s\<lparr>sy_hist := sy_hist s @ [CConnect Source, CDiscover Source, CClose Source, CConnect Target,
                                CDiscover Target, CClose Target]\<rparr>"
  shows "fst (RunAll env r src tgt (Some spec) s) = Inr (preflightReport (discoveredChecks env r src tgt spec S T s2)
    (case BuildExecutionPlan (env_patterns env) (env_sort env) (fst (nowUTC env (snd (nowUTC env s2)))) (Some spec) (dr_VMs S)
       of Inr plan \<Rightarrow> Some plan | Inl _ \<Rightarrow> None))"
  using assms(1-4) unfolding s2_def
  by (simp add: RunAll_def checkSourceConnectivity_def checkTargetConnectivity_def probe_def NewPreflightChecker_def
      record_call_def nowUTC_def discoveredChecks_def checkExecutionPlan_def Let_def split: sum.split)

lemma discoveredChecks_ok:
  "(\<forall>c \<in> set (discoveredChecks env r src tgt spec S T s). ck_Status c \<noteq> StatusFail)
     \<longleftrightarrow> preflightOk env spec S T (env_now env (sy_hist s)) (env_now env (sy_hist s @ [CClock]))"
proof -
  let ?c = "\<lparr>pc_sourceResult = Some S, pc_targetResult = Some T, pc_plan = None\<rparr>"
  have plan: "ck_Status (fst (checkExecutionPlan env spec ?c (snd (nowUTC env s)))) \<noteq> StatusFail
      \<longleftrightarrow> (\<exists>plan. BuildExecutionPlan (env_patterns env) (env_sort env) (env_now env (sy_hist s @ [CClock])) (Some spec)
            (dr_VMs S) = Inr plan)"
    by (simp add: checkExecutionPlan_def nowUTC_def record_call_def split: sum.split)
  show ?thesis
    unfolding discoveredChecks_def preflightOk_def Let_def statuses(1) [of spec, symmetric] plan [symmetric]
    by (simp add: statuses(2-4) inventory_statuses [of ?c S T] Let_def) blast
qed

lemma probe_connected:
  "ck_Status (fst (fst (probe side name con s))) \<noteq> StatusFail \<Longrightarrow>
     con_Connect con (sy_hist s) = None \<and> (\<exists>result. con_Discover con (sy_hist s @ [CConnect side]) = Inr result)
     \<and> sy_hist (snd (probe side name con s)) = sy_hist s @ [CConnect side, CDiscover side, CClose side]"
  by (auto simp: probe_def record_call_def Let_def split: option.splits sum.splits)

lemma RunAll_connected:
  assumes "RunAll env r src tgt (Some spec) s = (Inr report, s')" "\<forall>c \<in> set (pf_Checks report). ck_Status c \<noteq> StatusFail"
  shows "\<exists>S T. con_Connect src (sy_hist s) = None \<and> con_Discover src (sy_hist s @ [CConnect Source]) = Inr S
      \<and> con_Connect tgt (sy_hist s @ [CConnect Source, CDiscover Source, CClose Source]) = None
      \<and> con_Discover tgt (sy_hist s @ [CConnect Source, CDiscover Source, CClose Source, CConnect Target]) = Inr T"
proof -
  let ?p = "probe Source ''source-connectivity'' src s"
  obtain c where source: "checkSourceConnectivity src NewPreflightChecker s = (fst (fst ?p), c, snd ?p)"
    by (cases ?p; cases "snd (fst ?p)") (auto simp: checkSourceConnectivity_def)
  let ?q = "probe Target ''target-connectivity'' tgt (snd ?p)"
  obtain c' where target: "checkTargetConnectivity tgt c (snd ?p) = (fst (fst ?q), c', snd ?q)"
    by (cases ?q; cases "snd (fst ?q)") (auto simp: checkTargetConnectivity_def)
  have "fst (fst ?p) \<in> set (pf_Checks report)" "fst (fst ?q) \<in> set (pf_Checks report)"
    using assms(1) by (auto simp: RunAll_def source target preflightReport_def Let_def split: prod.splits)
  then show ?thesis
    using probe_connected [of Source _ src s] probe_connected [of Target _ tgt "snd ?p"] assms(2) by auto
qed

text \<open>
  C34 (preflight_exact): a preflight report has the twelve checks, each counted once, and says the
  migration can proceed exactly when both platforms were connected and discovered and their inventories
  satisfy what the engine needs: at the clock reading of the check the execution gate is open; the disks
  and machines fit wherever the capacity is known; every network of every selected machine maps, by the
  mapping the configure phase uses, to a network that exists; no selected name is taken; and the planner
  finds a plan, which is the plan of the report.
\<close>

theorem preflight_exact:
  assumes "RunAll env r src tgt (Some spec) s = (Inr report, s')"
  defines "h \<equiv> sy_hist s"
  defines "h1 \<equiv> h @ [CConnect Source]"
  defines "h2 \<equiv> h1 @ [CDiscover Source, CClose Source, CConnect Target, CDiscover Target, CClose Target]"
  shows "length (pf_Checks report) = 12
    \<and> pf_PassCount report + pf_WarnCount report + pf_FailCount report = 12
    \<and> (pf_CanProceed report \<longleftrightarrow>
        (\<exists>S T. con_Connect src h = None \<and> con_Discover src h1 = Inr S
           \<and> con_Connect tgt (h1 @ [CDiscover Source, CClose Source]) = None
           \<and> con_Discover tgt (h1 @ [CDiscover Source, CClose Source, CConnect Target]) = Inr T
           \<and> preflightOk env spec S T (env_now env h2) (env_now env (h2 @ [CClock]))))
    \<and> (\<forall>S. pf_CanProceed report \<longrightarrow> con_Discover src h1 = Inr S \<longrightarrow>
         (\<exists>plan. pf_Plan report = Some plan
            \<and> BuildExecutionPlan (env_patterns env) (env_sort env) (env_now env (h2 @ [CClock])) (Some spec) (dr_VMs S)
                = Inr plan))"
proof -
  let ?h2 = "h1 @ [CDiscover Source, CClose Source, CConnect Target, CDiscover Target, CClose Target]"
  have shape: "length (pf_Checks report) = 12" "pf_CanProceed report = (pf_FailCount report = 0)"
    "pf_PassCount report = countStatus StatusPass (pf_Checks report)"
    "pf_WarnCount report = countStatus StatusWarn (pf_Checks report)"
    "pf_FailCount report = countStatus StatusFail (pf_Checks report)"
    using assms(1) by (auto simp: RunAll_def preflightReport_def Let_def split: prod.splits)
  have both: "pf_CanProceed report \<longleftrightarrow> preflightOk env spec S T (env_now env ?h2) (env_now env (?h2 @ [CClock]))"
    "pf_CanProceed report \<Longrightarrow> \<exists>plan. pf_Plan report = Some plan
       \<and> BuildExecutionPlan (env_patterns env) (env_sort env) (env_now env (?h2 @ [CClock])) (Some spec) (dr_VMs S) = Inr plan"
    if "con_Connect src h = None" "con_Discover src h1 = Inr S"
      "con_Connect tgt (h1 @ [CDiscover Source, CClose Source]) = None"
      "con_Discover tgt (h1 @ [CDiscover Source, CClose Source, CConnect Target]) = Inr T" for S T
  proof -
    let ?c = "\<lparr>pc_sourceResult = Some S, pc_targetResult = Some T, pc_plan = None\<rparr>"
    let ?lib = "env_patterns env"
    let ?plan = "BuildExecutionPlan ?lib (env_sort env) (env_now env (?h2 @ [CClock])) (Some spec) (dr_VMs S)"
    have run: "report = preflightReport (discoveredChecks env r src tgt spec S T (s\<lparr>sy_hist := ?h2\<rparr>))
        (case ?plan of Inr plan \<Rightarrow> Some plan | Inl _ \<Rightarrow> None)"
      using RunAll_discovered [of src s S tgt T env r spec] assms(1) that
      by (auto simp: h_def h1_def nowUTC_def record_call_def)
    have checks: "pf_Checks report = discoveredChecks env r src tgt spec S T (s\<lparr>sy_hist := ?h2\<rparr>)"
      by (simp add: run preflightReport_def)
    have can: "pf_CanProceed report \<longleftrightarrow> preflightOk env spec S T (env_now env ?h2) (env_now env (?h2 @ [CClock]))"
      unfolding shape(2,5) countStatus_zero checks by (simp add: discoveredChecks_ok)
    show "pf_CanProceed report \<longleftrightarrow> preflightOk env spec S T (env_now env ?h2) (env_now env (?h2 @ [CClock]))"
      by (rule can)
    show "\<exists>plan. pf_Plan report = Some plan \<and> ?plan = Inr plan" if "pf_CanProceed report"
      using that unfolding can preflightOk_def by (auto simp: Let_def run preflightReport_def)
  qed
  have reached: "\<exists>S T. con_Connect src h = None \<and> con_Discover src h1 = Inr S
      \<and> con_Connect tgt (h1 @ [CDiscover Source, CClose Source]) = None
      \<and> con_Discover tgt (h1 @ [CDiscover Source, CClose Source, CConnect Target]) = Inr T"
    if "pf_CanProceed report"
    using RunAll_connected [OF assms(1)] that unfolding shape(2,5) countStatus_zero h1_def h_def by simp
  have found: "\<exists>plan. pf_Plan report = Some plan
       \<and> BuildExecutionPlan (env_patterns env) (env_sort env) (env_now env (?h2 @ [CClock])) (Some spec) (dr_VMs S) = Inr plan"
    if "pf_CanProceed report" "con_Discover src h1 = Inr S" for S
    using reached [OF that(1)] both(2) that by (metis sum.inject(2))
  have "pf_PassCount report + pf_WarnCount report + pf_FailCount report = 12"
    unfolding shape(3-5) countStatus_total shape(1) by simp
  then show ?thesis unfolding h2_def using shape(1) both(1) reached found by blast
qed

end
