(* ===== verification/WarmExamples.thy ===== *)
theory WarmExamples
  imports Scenario CutoverCorrect Preflight
begin

text \<open>
  Runs of the preflight checks, of warm replication and of the cutover on the small installation of
  \<open>Scenario\<close>: the hypotheses of the properties of those components hold there.
\<close>

section \<open>A replication on a quiet host\<close>

definition calmOS :: osEnv where
  "calmOS = \<lparr>os_fail = (\<lambda>_ _. None), os_guest = (\<lambda>_ fs. fs), os_chunk = (\<lambda>_. 4096), os_partial = (\<lambda>_. 0),
     os_ctxErr = (\<lambda>_. None), os_elapsed = (\<lambda>_. 5)\<rparr>"

definition demoRv :: "(demoRaw MemoryStore, demoRaw) renv" where
  "demoRv = \<lparr>rv_env = demoEnv [], rv_os = calmOS, rv_store = False,
     rv_marshal = (\<lambda>_. Inl (Errorf ''no store'' [])), rv_unmarshal = (\<lambda>_. Inl (Errorf ''no store'' []))\<rparr>"

definition demoReplicator :: ReplicationState where
  "demoReplicator = NewReplicator
     \<lparr>rc_SourceDisk = ''src.img'', rc_TargetDisk = ''dst.img'', rc_SourceFormat = [], rc_TargetFormat = [],
      rc_BandwidthLimitMBps = 0, rc_BlockSizeKB = 1, rc_OnProgress = False\<rparr> ''r1''"

definition demoWorld :: "string \<Rightarrow> string \<Rightarrow> demoRaw MemoryStore world" where
  "demoWorld src tgt = \<lparr>wo_sys = demoSys, wo_files = [(''src.img'', src), (''dst.img'', tgt)], wo_step = 0, wo_progress = []\<rparr>"

lemma calmOS_simps [simp]:
  "os_fail calmOS n x = None" "os_guest calmOS n fs = fs" "os_chunk calmOS n = 4096" "os_ctxErr calmOS n = None"
  "os_elapsed calmOS n = 5"
  by (simp_all add: calmOS_def)

lemma calm_atRest [simp]: "atRest calmOS"
  by (simp add: atRest_def)

lemma demoRv_simps [simp]:
  "rv_env demoRv = demoEnv []" "rv_os demoRv = calmOS" "rv_store demoRv = False"
  by (simp_all add: demoRv_def)

lemma demoReplicator_simps [simp]:
  "rs_ID demoReplicator = ''r1''" "rc_SourceDisk (rs_Config demoReplicator) = ''src.img''"
  "rc_TargetDisk (rs_Config demoReplicator) = ''dst.img''" "rc_BlockSizeKB (rs_Config demoReplicator) = 1"
  "blockSizeBytes demoReplicator = 1024" "rs_StartedAt demoReplicator = 0" "rc_OnProgress (rs_Config demoReplicator) = False"
  "rs_SyncRounds demoReplicator = 0"
  by (simp_all add: demoReplicator_def NewReplicator_def blockSizeBytes_def)

lemma demo_trim [simp]: "TrimSpace ''src.img'' = ''src.img''" "TrimSpace ''dst.img'' = ''dst.img''"
  by code_simp+

lemma calm_steps:
  "osCall calmOS x w = (None, tick calmOS w)" "ctxCheck calmOS w = (None, tick calmOS w)"
  "wo_files (tick calmOS w) = wo_files w" "wo_sys (tick calmOS w) = wo_sys w"
  by (simp_all add: osCall_def ctxCheck_def tick_def)

lemmas replication_run = StartInitialCopy_def copyOpened_def copyFrom_def copyLoop.simps runSync_def syncRound_def
  syncBlock_def validateConfig_def startClock_def clock_def nowUTC_def record_call_def osStat_def osOpen_def osCreate_def osTruncate_def
  osRead_def osWriteAt_def readAtMost_def overwrite_def fileAt_def persist_def emitProgress_def blockCount_def isZero_def calm_steps

lemma demo_initial:
  "\<exists>st w. StartInitialCopy demoRv demoReplicator (demoWorld ''disk'' ''di'') = Some (None, st, w)"
  by (simp add: replication_run demoWorld_def blockSizeBytes_def Let_def)

theorem initial_copy_returns_witness:
  "\<exists>st' w'. StartInitialCopy demoRv demoReplicator (demoWorld ''disk'' ''di'') = Some (None, st', w')
     \<and> fileAt (wo_files w') ''dst.img'' = ''disk''"
  using initial_copy_returns [of demoRv demoReplicator "demoWorld ''disk'' ''di''"] demo_initial
  by (auto simp: atRest_guestOk demoWorld_def fileAt_def)

lemma demo_round:
  "\<exists>result st w. runSync demoRv replicationPhaseIncremental demoReplicator (demoWorld ''disk'' ''task'') = (Inr result, st, w)"
  by (simp add: replication_run demoWorld_def blockSizeBytes_def Let_def)

theorem sync_round_exact_witness:
  "\<exists>result st' w'. runSync demoRv replicationPhaseIncremental demoReplicator (demoWorld ''disk'' ''task'') = (Inr result, st', w')
     \<and> fileAt (wo_files w') ''dst.img'' = ''disk'' \<and> sr_DirtyBlocks result = 1 \<and> sr_BytesSynced result = 4
     \<and> rs_DirtyBitmap st' = [1]"
proof -
  obtain result st w where run:
    "runSync demoRv replicationPhaseIncremental demoReplicator (demoWorld ''disk'' ''task'') = (Inr result, st, w)"
    using demo_round by blast
  show ?thesis
    using sync_round_exact [OF run _ _ refl refl refl refl] run
    by (simp add: demoWorld_def fileAt_def blockCount_def block_def)
qed

text \<open>The copy, a round after the guest wrote, and the final round.\<close>

definition busyOS :: osEnv where
  "busyOS = calmOS\<lparr>os_guest := (\<lambda>_ fs. AList.update ''src.img'' (map (\<lambda>_. CHR ''x'') (fileAt fs ''src.img'')) fs)\<rparr>"

lemma busyOS_simps [simp]: "os_guest busyOS n fs = AList.update ''src.img'' (map (\<lambda>_. CHR ''x'') (fileAt fs ''src.img'')) fs"
  "os_fail busyOS n x = None" "os_chunk busyOS n = 4096" "os_ctxErr busyOS n = None" "os_elapsed busyOS n = 5"
  by (simp_all add: busyOS_def)

lemma busy_guestOk: "guestOk busyOS ''src.img'' ''dst.img''"
  by (simp add: guestOk_def fileAt_update)

definition busyRv :: "(demoRaw MemoryStore, demoRaw) renv" where
  "busyRv = demoRv\<lparr>rv_os := busyOS\<rparr>"

lemma busyRv_simps [simp]: "rv_env busyRv = demoEnv []" "rv_os busyRv = busyOS" "rv_store busyRv = False"
  by (simp_all add: busyRv_def)

lemma busy_steps:
  "osCall busyOS x w = (None, tick busyOS w)" "ctxCheck busyOS w = (None, tick busyOS w)"
  "wo_files (tick busyOS w) = AList.update ''src.img'' (map (\<lambda>_. CHR ''x'') (fileAt (wo_files w) ''src.img'')) (wo_files w)"
  "wo_sys (tick busyOS w) = wo_sys w"
  by (simp_all add: osCall_def ctxCheck_def tick_def)

lemma demo_warm:
  "\<exists>st w st1 w1 result st2 w2. StartInitialCopy demoRv demoReplicator (demoWorld ''disk'' []) = Some (None, st, w)
     \<and> fold warmStep [SyncRound busyRv] (st, w) = (st1, w1)
     \<and> Replicator_ExecuteCutover demoRv st1 w1 = (Inr result, st2, w2)
     \<and> fileAt (wo_files w1) ''src.img'' = ''xxxx''"
  by (simp add: replication_run busy_steps RunIncrementalSync_def Replicator_ExecuteCutover_def demoWorld_def blockSizeBytes_def Let_def)

theorem warm_replication_converges_witness:
  "\<exists>st w st1 w1 result st2 w2. StartInitialCopy demoRv demoReplicator (demoWorld ''disk'' []) = Some (None, st, w)
     \<and> fold warmStep [SyncRound busyRv] (st, w) = (st1, w1)
     \<and> Replicator_ExecuteCutover demoRv st1 w1 = (Inr result, st2, w2)
     \<and> fileAt (wo_files w2) ''dst.img'' = ''xxxx''"
proof -
  obtain st w st1 w1 result st2 w2 where
    run: "StartInitialCopy demoRv demoReplicator (demoWorld ''disk'' []) = Some (None, st, w)"
      "fold warmStep [SyncRound busyRv] (st, w) = (st1, w1)"
      "Replicator_ExecuteCutover demoRv st1 w1 = (Inr result, st2, w2)"
    and "fileAt (wo_files w1) ''src.img'' = ''xxxx''"
    using demo_warm by blast
  then show ?thesis
    using warm_replication_converges [OF run refl refl] by (auto simp: atRest_guestOk busy_guestOk)
qed

section \<open>A cutover that boots and one that does not\<close>

definition demoCutover :: "Connector \<Rightarrow> CutoverCoordinator" where
  "demoCutover target = \<lparr>co_source = demoSource, co_target = target, co_replicator = Some demoReplicator,
     co_rollback = Some (demoSource, target)\<rparr>"

definition demoCutoverPlan :: CutoverPlan where
  "demoCutoverPlan = \<lparr>cp_MigrationID = ''m1'', cp_SourceVM = demoVM ''vm-1'' ''web'', cp_TargetPlatform = PlatformProxmox,
     cp_ReplicationState = None, cp_NetworkMappings = [], cp_BootTimeout = 60, cp_AutoRollbackOnFailure = True\<rparr>"

definition deadTarget :: Connector where
  "deadTarget = (demoTarget [])\<lparr>con_verifier := Some (\<lambda>_ _. Some (Errorf ''no heartbeat'' []))\<rparr>"

lemma deadTarget_simps [simp]:
  "con_power deadTarget = Some demoPower" "con_networks deadTarget = None"
  "con_verifier deadTarget = Some (\<lambda>_ _. Some (Errorf ''no heartbeat'' []))"
  "con_importer deadTarget = con_importer (demoTarget [])" "con_remover deadTarget = con_remover (demoTarget [])"
  by (simp_all add: deadTarget_def)

lemmas cutover_run = ExecuteCutover_def persistCutoverState_def cutoverRecoveryPoint_def CreateRecoveryPoint_def cutoverPowerOff_def
  cutoverSync_def cutoverCreate_def cutoverNetworks_def cutoverPowerOn_def cutoverBoot_def WaitForBoot_def emitCutover_def
  Replicator_ExecuteCutover_def cutoverState_def cutoverWorkload_def mappedNICMap_def

lemma demo_cutover:
  "\<exists>rep ost w. ExecuteCutover demoRv (demoCutover (demoTarget [])) (Some demoCutoverPlan) 0 0 (demoWorld ''disk'' ''dusk'')
     = ((Some rep, None), ost, w)"
  by (simp add: cutover_run demoCutover_def demoCutoverPlan_def replication_run demoWorld_def blockSizeBytes_def Let_def demoSys_def)

theorem cutover_ordered_witness:
  "\<exists>rep ost w. ExecuteCutover demoRv (demoCutover (demoTarget [])) (Some demoCutoverPlan) 0 0 (demoWorld ''disk'' ''dusk'')
       = ((Some rep, None), ost, w)
     \<and> made demoSys [CPowerOff Source ''vm-1'', CCreateVM (demoVM ''vm-1'' ''web'') [''dst.img''] [] [],
                      CPowerOn Target (ct_TargetVMID rep)] (wo_sys w)
     \<and> ct_BootVerified rep \<and> fileAt (wo_files w) ''dst.img'' = ''disk''"
proof -
  obtain rep ost w where run:
    "ExecuteCutover demoRv (demoCutover (demoTarget [])) (Some demoCutoverPlan) 0 0 (demoWorld ''disk'' ''dusk'')
       = ((Some rep, None), ost, w)"
    using demo_cutover by blast
  have calls: "cutoverCalls (demoCutover (demoTarget [])) demoCutoverPlan ''dst.img'' v
      = [CPowerOff Source ''vm-1'', CCreateVM (demoVM ''vm-1'' ''web'') [''dst.img''] [] [], CPowerOn Target v]" for v
    by (simp add: cutoverCalls_def snapshotCalls_def powerOffCalls_def createCalls_def networkCalls_def bootCalls_def
        verifyCalls_def demoCutover_def demoCutoverPlan_def)
  have "\<exists>vmID. made demoSys (cutoverCalls (demoCutover (demoTarget [])) demoCutoverPlan ''dst.img'' vmID) (wo_sys w)
      \<and> ct_TargetVMID rep = vmID \<and> ct_BootVerified rep \<and> fileAt (wo_files w) ''dst.img'' = ''disk''"
    using cutover_ordered [OF run, of demoReplicator demoReplicator "''src.img''" "''dst.img''"]
    by (auto simp: demoCutover_def demoCutoverPlan_def demoWorld_def fileAt_def)
  then show ?thesis using run unfolding calls by blast
qed

lemma demo_cutover_dead:
  "\<exists>rep e ost w. ExecuteCutover demoRv (demoCutover deadTarget) (Some demoCutoverPlan) 0 0 (demoWorld ''disk'' ''dusk'')
     = ((Some rep, e), ost, w) \<and> ct_RolledBack rep"
  by (simp add: cutover_run demoCutover_def demoCutoverPlan_def replication_run demoWorld_def blockSizeBytes_def Let_def demoSys_def
      demo_rollback)

theorem cutover_rollback_leaves_target_witness:
  "\<exists>rep e ost w h. ExecuteCutover demoRv (demoCutover deadTarget) (Some demoCutoverPlan) 0 0 (demoWorld ''disk'' ''dusk'')
       = ((Some rep, e), ost, w) \<and> ct_RolledBack rep \<and> sy_hist (wo_sys w) = h
     \<and> (\<exists>disk. CCreateVM (demoVM ''vm-1'' ''web'') [disk] [] [] \<in> set h) \<and> (\<forall>v. CRemoveVM v \<notin> set h)"
proof -
  obtain rep e ost w where run:
    "ExecuteCutover demoRv (demoCutover deadTarget) (Some demoCutoverPlan) 0 0 (demoWorld ''disk'' ''dusk'')
       = ((Some rep, e), ost, w)" "ct_RolledBack rep"
    using demo_cutover_dead by blast
  show ?thesis
    using cutover_rollback_leaves_target [OF _ _ run, of demoReplicator] run
    by (auto simp: demo_store demo_json demoCutover_def demoCutoverPlan_def demoWorld_def demoSys_def)
qed

section \<open>A preflight that passes\<close>

lemma demo_matched: "MatchWorkloads demoLib demoVMs (spec_Workloads demoSpec) = demoVMs"
  by code_simp

lemma demo_gate: "\<exists>st'. validateExecutionReadiness st demoSpec 1000 = Inr st'"
  by (simp add: demoSpec_def validateExecutionReadiness_def isZero_def)

lemma demo_preflightOk: "preflightOk (demoEnv []) demoSpec (zeroDR\<lparr>dr_VMs := demoVMs\<rparr>) zeroDR 1000 1000"
proof -
  have "networksOk demoLib (spec_Workloads demoSpec) [] vm" if "vm \<in> set demoVMs" for vm
    using that unfolding demoVMs_def set_simps by (elim insertE emptyE; simp only:; code_simp)
  then show ?thesis
    using demo_gate by (simp add: preflightOk_def demo_matched demo_plan zeroDR_def)
qed

lemma demo_preflight_runs: "\<exists>report s. RunAll (demoEnv []) r demoSource (demoTarget []) (Some demoSpec) demoSys = (Inr report, s)"
  by (simp add: RunAll_def Let_def split: prod.splits)

theorem preflight_exact_witness:
  "\<exists>report s. RunAll (demoEnv []) (\<lambda>xs. [0..<length xs]) demoSource (demoTarget []) (Some demoSpec) demoSys = (Inr report, s)
     \<and> length (pf_Checks report) = 12 \<and> pf_CanProceed report \<and> pf_Plan report = Some demoPlan"
proof -
  obtain report s where run:
    "RunAll (demoEnv []) (\<lambda>xs. [0..<length xs]) demoSource (demoTarget []) (Some demoSpec) demoSys = (Inr report, s)"
    using demo_preflight_runs by blast
  show ?thesis
    using preflight_exact [OF run] run demo_preflightOk demo_plan by simp
qed

end
