(* ===== verification/DepGraph.thy ===== *)
theory DepGraph
  imports Models
begin

text \<open>
  The dependency graph of the dashboard, \<open>internal/deps/graph.go\<close>: nodes for machines, networks, datastores
  and backup jobs, edges between them. The local maps of the function are the fields of a builder; a map
  that is only asked for membership is the list of its keys.
\<close>

section \<open>Data\<close>

record GraphNode =
  gn_ID :: string
  gn_Label :: string
  gn_Type :: string
  gn_Platform :: Platform
  gn_Metadata :: "(string \<times> string) list"

record GraphEdge =
  ge_Source :: string
  ge_Target :: string
  ge_Type :: string
  ge_Label :: string

record DependencyGraph =
  dg_Nodes :: "GraphNode list"
  dg_Edges :: "GraphEdge list"

record graphBuilder =
  gb_graph :: DependencyGraph
  gb_nodeIndex :: "string list"
  gb_networkNodes :: "(string \<times> string) list"
  gb_datastoreNodes :: "(string \<times> string) list"

definition emptyGraph :: DependencyGraph where
  "emptyGraph = \<lparr>dg_Nodes = [], dg_Edges = []\<rparr>"

section \<open>Building\<close>

definition addNode :: "GraphNode \<Rightarrow> graphBuilder \<Rightarrow> graphBuilder" where
  "addNode node b =
     (if gn_ID node \<in> set (gb_nodeIndex b) then b
      else b\<lparr>gb_nodeIndex := gn_ID node # gb_nodeIndex b,
             gb_graph := (gb_graph b)\<lparr>dg_Nodes := dg_Nodes (gb_graph b) @ [node]\<rparr>\<rparr>)"

definition addEdge :: "GraphEdge \<Rightarrow> graphBuilder \<Rightarrow> graphBuilder" where
  "addEdge edge b = b\<lparr>gb_graph := (gb_graph b)\<lparr>dg_Edges := dg_Edges (gb_graph b) @ [edge]\<rparr>\<rparr>"

definition vmNodeID :: "VirtualMachine \<Rightarrow> string" where
  "vmNodeID vm = ''vm:'' @ (if vm_ID vm = [] then vm_Name vm else vm_ID vm)"

definition vmNode :: "VirtualMachine \<Rightarrow> GraphNode" where
  "vmNode vm = \<lparr>gn_ID = vmNodeID vm, gn_Label = vm_Name vm, gn_Type = ''vm'', gn_Platform = vm_Platform vm,
     gn_Metadata = [(''host'', vm_Host vm), (''cluster'', vm_Cluster vm)]\<rparr>"

definition networkNode :: "string \<Rightarrow> GraphNode" where
  "networkNode network = \<lparr>gn_ID = ''network:'' @ network, gn_Label = network, gn_Type = ''network'', gn_Platform = [],
     gn_Metadata = [(''network'', network)]\<rparr>"

definition datastoreNode :: "string \<Rightarrow> GraphNode" where
  "datastoreNode storage = \<lparr>gn_ID = ''datastore:'' @ storage, gn_Label = storage, gn_Type = ''datastore'', gn_Platform = [],
     gn_Metadata = [(''storage'', storage)]\<rparr>"

definition addNIC :: "string \<Rightarrow> NIC \<Rightarrow> graphBuilder \<Rightarrow> graphBuilder" where
  "addNIC vmID nic b =
     (let network = nic_Network nic in
      if network = [] then b
      else
        (let (networkNodeID, b1) =
               (case map_of (gb_networkNodes b) network of
                  Some known \<Rightarrow> (known, b)
                | None \<Rightarrow> (''network:'' @ network,
                     addNode (networkNode network)
                       (b\<lparr>gb_networkNodes := AList.update network (''network:'' @ network) (gb_networkNodes b)\<rparr>)))
         in addEdge \<lparr>ge_Source = vmID, ge_Target = networkNodeID, ge_Type = ''network'', ge_Label = network\<rparr> b1))"

definition addDisk :: "string \<Rightarrow> Disk \<Rightarrow> graphBuilder \<Rightarrow> graphBuilder" where
  "addDisk vmID disk b =
     (let storage = disk_StorageBackend disk in
      if storage = [] then b
      else
        (let (datastoreNodeID, b1) =
               (case map_of (gb_datastoreNodes b) storage of
                  Some known \<Rightarrow> (known, b)
                | None \<Rightarrow> (''datastore:'' @ storage,
                     addNode (datastoreNode storage)
                       (b\<lparr>gb_datastoreNodes := AList.update storage (''datastore:'' @ storage) (gb_datastoreNodes b)\<rparr>)))
         in addEdge \<lparr>ge_Source = vmID, ge_Target = datastoreNodeID, ge_Type = ''storage'', ge_Label = disk_Name disk\<rparr> b1))"

definition addVM :: "VirtualMachine \<Rightarrow> graphBuilder \<Rightarrow> graphBuilder" where
  "addVM vm b =
     fold (addDisk (vmNodeID vm)) (vm_Disks vm) (fold (addNIC (vmNodeID vm)) (vm_NICs vm) (addNode (vmNode vm) b))"

definition nameIndexOfVMs :: "VirtualMachine list \<Rightarrow> (string \<times> string) list" where
  "nameIndexOfVMs vms = fold (\<lambda>vm. AList.update (ToLower (vm_Name vm)) (vmNodeID vm)) vms []"

definition jobNodeID :: "BackupJob \<Rightarrow> string" where
  "jobNodeID job = ''backup:'' @
     (if job_ID job = [] then map (\<lambda>c. if c = CHR '' '' then CHR ''-'' else c) (ToLower (job_Name job)) else job_ID job)"

definition jobNode :: "BackupJob \<Rightarrow> GraphNode" where
  "jobNode job = \<lparr>gn_ID = jobNodeID job, gn_Label = job_Name job, gn_Type = ''backup-job'', gn_Platform = [],
     gn_Metadata = [(''repository'', job_TargetRepo job), (''schedule'', job_Schedule job)]\<rparr>"

definition addProtection :: "(string \<times> string) list \<Rightarrow> BackupJob \<Rightarrow> string \<Rightarrow> graphBuilder \<Rightarrow> graphBuilder" where
  "addProtection nameIndex job protectedVM b =
     (case map_of nameIndex (ToLower protectedVM) of
        None \<Rightarrow> b
      | Some vmID \<Rightarrow> addEdge \<lparr>ge_Source = vmID, ge_Target = jobNodeID job, ge_Type = ''backup'',
                             ge_Label = job_Name job @ '' protects '' @ protectedVM\<rparr> b)"

definition addJob :: "(string \<times> string) list \<Rightarrow> BackupJob \<Rightarrow> graphBuilder \<Rightarrow> graphBuilder" where
  "addJob nameIndex job b = fold (addProtection nameIndex job) (job_ProtectedVMs job) (addNode (jobNode job) b)"

definition BuildGraph :: "DiscoveryResult option \<Rightarrow> BackupDiscoveryResult option \<Rightarrow> DependencyGraph" where
  "BuildGraph oinventory obackups =
     (case oinventory of
        None \<Rightarrow> emptyGraph
      | Some inventory \<Rightarrow>
          (let b = fold addVM (dr_VMs inventory)
                     \<lparr>gb_graph = emptyGraph, gb_nodeIndex = [], gb_networkNodes = [], gb_datastoreNodes = []\<rparr>
           in case obackups of
                None \<Rightarrow> gb_graph b
              | Some backups \<Rightarrow> gb_graph (fold (addJob (nameIndexOfVMs (dr_VMs inventory))) (bdr_Jobs backups) b)))"

section \<open>What the graph should be\<close>

text \<open>The edges, declaratively: the machine a backup protects is the last one of that name.\<close>

definition vmEdges :: "VirtualMachine \<Rightarrow> GraphEdge list" where
  "vmEdges vm =
     [\<lparr>ge_Source = vmNodeID vm, ge_Target = ''network:'' @ nic_Network nic, ge_Type = ''network'', ge_Label = nic_Network nic\<rparr>.
        nic \<leftarrow> vm_NICs vm, nic_Network nic \<noteq> []]
     @ [\<lparr>ge_Source = vmNodeID vm, ge_Target = ''datastore:'' @ disk_StorageBackend disk, ge_Type = ''storage'', ge_Label = disk_Name disk\<rparr>.
        disk \<leftarrow> vm_Disks vm, disk_StorageBackend disk \<noteq> []]"

definition jobEdges :: "VirtualMachine list \<Rightarrow> BackupJob \<Rightarrow> GraphEdge list" where
  "jobEdges vms job =
     [\<lparr>ge_Source = vmNodeID vm, ge_Target = jobNodeID job, ge_Type = ''backup'', ge_Label = job_Name job @ '' protects '' @ name\<rparr>.
        name \<leftarrow> job_ProtectedVMs job, vm \<leftarrow> take 1 (filter (\<lambda>vm. ToLower (vm_Name vm) = ToLower name) (rev vms))]"

text \<open>The nodes in the order of their first mention, one per identifier.\<close>

definition vmNodes :: "VirtualMachine \<Rightarrow> GraphNode list" where
  "vmNodes vm = vmNode vm # [networkNode (nic_Network nic). nic \<leftarrow> vm_NICs vm, nic_Network nic \<noteq> []]
     @ [datastoreNode (disk_StorageBackend disk). disk \<leftarrow> vm_Disks vm, disk_StorageBackend disk \<noteq> []]"

definition firstOf :: "GraphNode list \<Rightarrow> GraphNode list" where
  "firstOf ns = fold (\<lambda>n acc. if gn_ID n \<in> gn_ID ` set acc then acc else acc @ [n]) ns []"

text \<open>An edge joins a machine with a node of the kind the edge speaks of.\<close>

definition edgeTyped :: "GraphNode list \<Rightarrow> GraphEdge \<Rightarrow> bool" where
  "edgeTyped nodes e =
     ((\<exists>n \<in> set nodes. gn_ID n = ge_Source e \<and> gn_Type n = ''vm'')
      \<and> (\<exists>n \<in> set nodes. gn_ID n = ge_Target e
           \<and> (ge_Type e, gn_Type n) \<in> {(''network'', ''network''), (''storage'', ''datastore''), (''backup'', ''backup-job'')}))"

section \<open>The builder\<close>

lemma firstOf_snoc: "firstOf (ns @ [n]) = (if gn_ID n \<in> gn_ID ` set (firstOf ns) then firstOf ns else firstOf ns @ [n])"
  by (simp add: firstOf_def)

lemma firstOf_simps [simp]:
  "firstOf [] = []" "gn_ID ` set (firstOf ns) = gn_ID ` set ns" "set (firstOf ns) \<subseteq> set ns"
  "distinct (map gn_ID (firstOf ns))"
proof -
  show "firstOf [] = []" by (simp add: firstOf_def)
  show "gn_ID ` set (firstOf ns) = gn_ID ` set ns" "set (firstOf ns) \<subseteq> set ns" "distinct (map gn_ID (firstOf ns))"
    by (induction ns rule: rev_induct) (auto simp: firstOf_snoc firstOf_def [of "[]"])
qed

text \<open>The builder holds the first mentions of the nodes \<open>ns\<close> and the edges \<open>es\<close>.\<close>

definition knownNodes :: "string \<Rightarrow> (string \<times> string) list \<Rightarrow> GraphNode list \<Rightarrow> bool" where
  "knownNodes kind m ns = (\<forall>k v. map_of m k = Some v \<longrightarrow> v = kind @ k \<and> v \<in> gn_ID ` set ns)"

definition builds :: "graphBuilder \<Rightarrow> GraphNode list \<Rightarrow> GraphEdge list \<Rightarrow> bool" where
  "builds b ns es =
     (dg_Nodes (gb_graph b) = firstOf ns \<and> dg_Edges (gb_graph b) = es \<and> set (gb_nodeIndex b) = gn_ID ` set ns
      \<and> knownNodes ''network:'' (gb_networkNodes b) ns \<and> knownNodes ''datastore:'' (gb_datastoreNodes b) ns)"

lemma builds_addNode [intro]: "builds b ns es \<Longrightarrow> builds (addNode n b) (ns @ [n]) es"
  by (auto simp: builds_def addNode_def firstOf_snoc knownNodes_def)

lemma builds_addEdge [intro]: "builds b ns es \<Longrightarrow> builds (addEdge e b) ns (es @ [e])"
  by (simp add: builds_def addEdge_def)

lemma builds_again: "builds b ns es \<Longrightarrow> gn_ID n \<in> gn_ID ` set ns \<Longrightarrow> builds b (ns @ [n]) es"
  by (auto simp: builds_def firstOf_snoc knownNodes_def)

lemma builds_addNIC:
  assumes "builds b ns es" "nic_Network nic \<noteq> []"
  shows "builds (addNIC v nic b) (ns @ [networkNode (nic_Network nic)])
    (es @ [\<lparr>ge_Source = v, ge_Target = ''network:'' @ nic_Network nic, ge_Type = ''network'', ge_Label = nic_Network nic\<rparr>])"
proof (cases "map_of (gb_networkNodes b) (nic_Network nic)")
  case None
  have "builds (addNode (networkNode (nic_Network nic))
      (b\<lparr>gb_networkNodes := AList.update (nic_Network nic) (''network:'' @ nic_Network nic) (gb_networkNodes b)\<rparr>))
      (ns @ [networkNode (nic_Network nic)]) es"
    using assms by (auto simp: builds_def addNode_def firstOf_snoc knownNodes_def networkNode_def)
  then show ?thesis using None assms(2) by (auto simp: addNIC_def Let_def)
next
  case (Some w)
  then have "w = ''network:'' @ nic_Network nic" "gn_ID (networkNode (nic_Network nic)) \<in> gn_ID ` set ns"
    using assms(1) by (auto simp: builds_def knownNodes_def networkNode_def)
  then show ?thesis using Some assms builds_again [OF assms(1)] by (auto simp: addNIC_def Let_def)
qed

lemma builds_addDisk:
  assumes "builds b ns es" "disk_StorageBackend disk \<noteq> []"
  shows "builds (addDisk v disk b) (ns @ [datastoreNode (disk_StorageBackend disk)])
    (es @ [\<lparr>ge_Source = v, ge_Target = ''datastore:'' @ disk_StorageBackend disk, ge_Type = ''storage'', ge_Label = disk_Name disk\<rparr>])"
proof (cases "map_of (gb_datastoreNodes b) (disk_StorageBackend disk)")
  case None
  have "builds (addNode (datastoreNode (disk_StorageBackend disk))
      (b\<lparr>gb_datastoreNodes := AList.update (disk_StorageBackend disk) (''datastore:'' @ disk_StorageBackend disk) (gb_datastoreNodes b)\<rparr>))
      (ns @ [datastoreNode (disk_StorageBackend disk)]) es"
    using assms by (auto simp: builds_def addNode_def firstOf_snoc knownNodes_def datastoreNode_def)
  then show ?thesis using None assms(2) by (auto simp: addDisk_def Let_def)
next
  case (Some w)
  then have "w = ''datastore:'' @ disk_StorageBackend disk"
    "gn_ID (datastoreNode (disk_StorageBackend disk)) \<in> gn_ID ` set ns"
    using assms(1) by (auto simp: builds_def knownNodes_def datastoreNode_def)
  then show ?thesis using Some assms builds_again [OF assms(1)] by (auto simp: addDisk_def Let_def)
qed

text \<open>A loop over items that each contribute nodes and edges.\<close>

lemma builds_fold:
  assumes "\<And>x b ns es. x \<in> set xs \<Longrightarrow> builds b ns es \<Longrightarrow> builds (f x b) (ns @ N x) (es @ E x)" "builds b ns es"
  shows "builds (fold f xs b) (ns @ concat (map N xs)) (es @ concat (map E xs))"
  using assms
proof (induction xs arbitrary: b ns es)
  case (Cons x xs)
  have "builds (f x b) (ns @ N x) (es @ E x)" by (rule Cons.prems) (use Cons.prems in simp_all)
  from Cons.IH [OF _ this] show ?case using Cons.prems by simp
qed simp

lemma builds_addVM:
  assumes "builds b ns es"
  shows "builds (addVM vm b) (ns @ vmNodes vm) (es @ vmEdges vm)"
proof -
  let ?v = "vmNodeID vm"
  have nics: "builds (addNIC ?v nic b) (ns @ (if nic_Network nic \<noteq> [] then [networkNode (nic_Network nic)] else []))
      (es @ (if nic_Network nic \<noteq> [] then [\<lparr>ge_Source = ?v, ge_Target = ''network:'' @ nic_Network nic, ge_Type = ''network'',
         ge_Label = nic_Network nic\<rparr>] else []))" if "builds b ns es" for b ns es nic
    using builds_addNIC [OF that] that by (auto simp: addNIC_def)
  have disks: "builds (addDisk ?v d b) (ns @ (if disk_StorageBackend d \<noteq> [] then [datastoreNode (disk_StorageBackend d)] else []))
      (es @ (if disk_StorageBackend d \<noteq> [] then [\<lparr>ge_Source = ?v, ge_Target = ''datastore:'' @ disk_StorageBackend d,
         ge_Type = ''storage'', ge_Label = disk_Name d\<rparr>] else []))" if "builds b ns es" for b ns es d
    using builds_addDisk [OF that] that by (auto simp: addDisk_def)
  from builds_fold [OF disks builds_fold [OF nics builds_addNode [OF assms, of "vmNode vm"]]] show ?thesis
    by (simp add: addVM_def vmNodes_def vmEdges_def)
qed

lemma map_of_nameIndex:
  "map_of (nameIndexOfVMs vms) k
     = map_option vmNodeID (case filter (\<lambda>vm. ToLower (vm_Name vm) = k) (rev vms) of [] \<Rightarrow> None | vm # _ \<Rightarrow> Some vm)"
  by (induction vms rule: rev_induct) (simp_all add: nameIndexOfVMs_def)

lemma builds_addJob:
  assumes "builds b ns es"
  shows "builds (addJob (nameIndexOfVMs vms) job b) (ns @ [jobNode job]) (es @ jobEdges vms job)"
proof -
  have step: "builds (addProtection (nameIndexOfVMs vms) job name b) (ns @ []) (es @ map (\<lambda>vm. \<lparr>ge_Source = vmNodeID vm,
      ge_Target = jobNodeID job, ge_Type = ''backup'', ge_Label = job_Name job @ '' protects '' @ name\<rparr>)
      (take 1 (filter (\<lambda>vm. ToLower (vm_Name vm) = ToLower name) (rev vms))))" if "builds b ns es" for b ns es name
    using that by (auto simp: addProtection_def map_of_nameIndex split: list.split)
  from builds_fold [where f = "addProtection (nameIndexOfVMs vms) job" and xs = "job_ProtectedVMs job",
      OF step builds_addNode [OF assms, of "jobNode job"]] show ?thesis
    by (simp add: addJob_def jobEdges_def map_replicate_const)
qed

text \<open>The kind of a node is the kind its identifier starts with, so two mentions of an identifier agree.\<close>

definition kindOf :: "string \<Rightarrow> string" where
  "kindOf i = (if HasPrefix i ''vm:'' then ''vm'' else if HasPrefix i ''network:'' then ''network''
     else if HasPrefix i ''datastore:'' then ''datastore'' else ''backup-job'')"

lemma node_kinds [simp]:
  "gn_Type (vmNode vm) = kindOf (gn_ID (vmNode vm))" "gn_Type (networkNode n) = kindOf (gn_ID (networkNode n))"
  "gn_Type (datastoreNode d) = kindOf (gn_ID (datastoreNode d))" "gn_Type (jobNode j) = kindOf (gn_ID (jobNode j))"
  by (simp_all add: vmNode_def networkNode_def datastoreNode_def jobNode_def kindOf_def vmNodeID_def jobNodeID_def)

lemma firstOf_kind:
  assumes "\<forall>n \<in> set ns. gn_Type n = kindOf (gn_ID n)" "n \<in> set ns"
  shows "\<exists>n' \<in> set (firstOf ns). gn_ID n' = gn_ID n \<and> gn_Type n' = gn_Type n"
proof -
  have "gn_ID n \<in> gn_ID ` set (firstOf ns)" using assms(2) by simp
  then show ?thesis using assms firstOf_simps(3) [of ns] by (smt (verit, best) image_iff subsetD)
qed

lemma edgeTyped_firstOf:
  assumes "\<forall>n \<in> set ns. gn_Type n = kindOf (gn_ID n)" "a \<in> set ns" "b \<in> set ns" "gn_ID a = ge_Source e" "gn_ID b = ge_Target e"
    "gn_Type a = ''vm''" "(ge_Type e, gn_Type b) \<in> {(''network'', ''network''), (''storage'', ''datastore''), (''backup'', ''backup-job'')}"
  shows "edgeTyped (firstOf ns) e"
  using firstOf_kind [OF assms(1,2)] firstOf_kind [OF assms(1,3)] assms(4-) unfolding edgeTyped_def by metis

lemma vmEdges_typed:
  assumes "\<forall>n \<in> set ns. gn_Type n = kindOf (gn_ID n)" "set (vmNodes vm) \<subseteq> set ns" "e \<in> set (vmEdges vm)"
  shows "edgeTyped (firstOf ns) e"
proof -
  consider nic where "nic \<in> set (vm_NICs vm)" "nic_Network nic \<noteq> []" "ge_Target e = gn_ID (networkNode (nic_Network nic))"
      "ge_Type e = ''network''"
    | disk where "disk \<in> set (vm_Disks vm)" "disk_StorageBackend disk \<noteq> []" "ge_Type e = ''storage''"
      "ge_Target e = gn_ID (datastoreNode (disk_StorageBackend disk))"
    using assms(3) by (auto simp: vmEdges_def networkNode_def datastoreNode_def split: if_splits)
  then have "\<exists>b \<in> set (vmNodes vm). gn_ID b = ge_Target e
      \<and> (ge_Type e, gn_Type b) \<in> {(''network'', ''network''), (''storage'', ''datastore''), (''backup'', ''backup-job'')}"
  proof cases
    case (1 nic)
    then show ?thesis
      by (intro bexI [of _ "networkNode (nic_Network nic)"]) (auto simp: vmNodes_def networkNode_def kindOf_def)
  next
    case (2 disk)
    then show ?thesis
      by (intro bexI [of _ "datastoreNode (disk_StorageBackend disk)"]) (auto simp: vmNodes_def datastoreNode_def kindOf_def)
  qed
  moreover have "vmNode vm \<in> set (vmNodes vm)" "gn_ID (vmNode vm) = ge_Source e" "gn_Type (vmNode vm) = ''vm''"
    using assms(3) by (auto simp: vmEdges_def vmNodes_def vmNode_def split: if_splits)
  ultimately show ?thesis using edgeTyped_firstOf [OF assms(1)] assms(2) by blast
qed

lemma jobEdges_typed:
  assumes "\<forall>n \<in> set ns. gn_Type n = kindOf (gn_ID n)" "vmNode ` set vms \<subseteq> set ns" "jobNode job \<in> set ns" "e \<in> set (jobEdges vms job)"
  shows "edgeTyped (firstOf ns) e"
proof -
  obtain vm where "vm \<in> set vms" "ge_Source e = vmNodeID vm" "ge_Target e = jobNodeID job" "ge_Type e = ''backup''"
    using assms(4) by (auto simp: jobEdges_def dest!: in_set_takeD)
  then show ?thesis
    using edgeTyped_firstOf [OF assms(1) _ assms(3), of "vmNode vm"] assms(2) by (auto simp: vmNode_def jobNode_def)
qed

section \<open>The graph\<close>

text \<open>
  C35 (graph_well_typed): for every inventory and backup catalogue, the nodes of the graph are the machines,
  networks, datastores and backup jobs mentioned, in the order of their first mention and one per
  identifier; the edges are exactly the networks and datastores the machines use and the machines the jobs
  protect by name; and every edge starts at a machine of the graph and ends at a node of the kind the edge
  speaks of.
\<close>

theorem graph_well_typed:
  fixes inventory :: "DiscoveryResult option" and backups :: "BackupDiscoveryResult option"
  defines "vms \<equiv> (case inventory of None \<Rightarrow> [] | Some i \<Rightarrow> dr_VMs i)"
    and "jobs \<equiv> (case (inventory, backups) of (Some i, Some b) \<Rightarrow> bdr_Jobs b | _ \<Rightarrow> [])"
  shows "dg_Nodes (BuildGraph inventory backups) = firstOf (concat (map vmNodes vms) @ map jobNode jobs)
    \<and> distinct (map gn_ID (dg_Nodes (BuildGraph inventory backups)))
    \<and> dg_Edges (BuildGraph inventory backups) = concat (map vmEdges vms) @ concat (map (jobEdges vms) jobs)
    \<and> list_all (edgeTyped (dg_Nodes (BuildGraph inventory backups))) (dg_Edges (BuildGraph inventory backups))"
proof -
  let ?ns = "concat (map vmNodes vms) @ map jobNode jobs"
  let ?b0 = "\<lparr>gb_graph = emptyGraph, gb_nodeIndex = [], gb_networkNodes = [], gb_datastoreNodes = []\<rparr>"
  have "builds ?b0 [] []" by (simp add: builds_def knownNodes_def emptyGraph_def)
  from builds_fold [OF builds_addVM this, of vms]
  have "builds (fold addVM vms ?b0) (concat (map vmNodes vms)) (concat (map vmEdges vms))" by simp
  from builds_fold [where f = "addJob (nameIndexOfVMs vms)" and xs = jobs, OF builds_addJob this]
  have "builds (fold (addJob (nameIndexOfVMs vms)) jobs (fold addVM vms ?b0)) ?ns
      (concat (map vmEdges vms) @ concat (map (jobEdges vms) jobs))"
    by (simp add: concat_map_singleton)
  moreover have "BuildGraph inventory backups = gb_graph (fold (addJob (nameIndexOfVMs vms)) jobs (fold addVM vms ?b0))"
    by (auto simp: BuildGraph_def vms_def jobs_def Let_def split: option.split)
  ultimately have shape: "dg_Nodes (BuildGraph inventory backups) = firstOf ?ns"
    "dg_Edges (BuildGraph inventory backups) = concat (map vmEdges vms) @ concat (map (jobEdges vms) jobs)"
    by (simp_all add: builds_def)
  have kinds: "\<forall>n \<in> set ?ns. gn_Type n = kindOf (gn_ID n)" by (auto simp: vmNodes_def)
  have "edgeTyped (firstOf ?ns) e" if "e \<in> set (concat (map vmEdges vms) @ concat (map (jobEdges vms) jobs))" for e
    using that vmEdges_typed [OF kinds] jobEdges_typed [OF kinds, of vms] by (fastforce simp: vmNodes_def)
  then show ?thesis unfolding shape by (auto simp: list_all_iff)
qed

end
