(* ===== verification/Discovery.thy ===== *)
theory Discovery
  imports Models
begin

text \<open>
  Inventory comparison, \<open>internal/discovery/diff.go\<close>, and the discovery engine, \<open>internal/discovery/engine.go\<close>,
  which asks all registered sources concurrently and merges their inventories.

  A goroutine of \<open>RunAll\<close> is a small machine; its steps are the calls on its connector and the sections it
  runs under the mutex. Any interleaving of the steps of all goroutines is a run. A message carries the same
  text as the error appended with it and is kept as that error. Spans are left out.
\<close>

section \<open>diff.go\<close>

record VMPair =
  vp_A :: VirtualMachine
  vp_B :: VirtualMachine

record InventoryDiff =
  id_OnlyInA :: "VirtualMachine list"
  id_OnlyInB :: "VirtualMachine list"
  id_InBoth :: "VMPair list"

fun diffLoopA ::
  "(string \<times> VirtualMachine) list \<Rightarrow> VirtualMachine list \<Rightarrow> InventoryDiff \<Rightarrow> string list \<Rightarrow> InventoryDiff \<times> string list" where
  "diffLoopA bByName [] diff seen = (diff, seen)"
| "diffLoopA bByName (vmA # vms) diff seen =
     (case map_of bByName (vm_Name vmA) of
        None \<Rightarrow> diffLoopA bByName vms (diff\<lparr>id_OnlyInA := id_OnlyInA diff @ [vmA]\<rparr>) seen
      | Some vmB \<Rightarrow> diffLoopA bByName vms (diff\<lparr>id_InBoth := id_InBoth diff @ [\<lparr>vp_A = vmA, vp_B = vmB\<rparr>]\<rparr>)
                    (vm_Name vmA # seen))"

definition DiffInventories :: "DiscoveryResult option \<Rightarrow> DiscoveryResult option \<Rightarrow> InventoryDiff" where
  "DiffInventories oa ob =
     (let diff = \<lparr>id_OnlyInA = [], id_OnlyInB = [], id_InBoth = []\<rparr> in
      case (oa, ob) of
        (None, None) \<Rightarrow> diff
      | (None, Some b) \<Rightarrow> diff\<lparr>id_OnlyInB := dr_VMs b\<rparr>
      | (Some a, None) \<Rightarrow> diff\<lparr>id_OnlyInA := dr_VMs a\<rparr>
      | (Some a, Some b) \<Rightarrow>
          (let bByName = fold (\<lambda>vm. AList.update (vm_Name vm) vm) (dr_VMs b) [];
               (diff1, seen) = diffLoopA bByName (dr_VMs a) diff []
           in diff1\<lparr>id_OnlyInB := filter (\<lambda>vmB. vm_Name vmB \<notin> set seen) (dr_VMs b)\<rparr>))"

section \<open>engine.go: data\<close>

text \<open>What a connector answers in this run; \<open>Discover\<close> may return a nil result.\<close>

record SourceConnector =
  sc_Connect :: "goerror option"
  sc_Discover :: "goerror + DiscoveryResult option"
  sc_Close :: "goerror option"

record Engine =
  en_connectors :: "(string \<times> SourceConnector) list"
  en_results :: "(string \<times> DiscoveryResult) list"

record PlatformSummary =
  ps_VMCount :: int
  ps_TotalCPU :: int
  ps_TotalMemoryMB :: int
  ps_Source :: string

record MergedResult =
  mg_Sources :: "DiscoveryResult list"
  mg_TotalVMs :: int
  mg_TotalCPU :: int
  mg_TotalMemoryMB :: int
  mg_ByPlatform :: "(Platform \<times> PlatformSummary) list"
  mg_Errors :: "goerror list"
  mg_Duration :: duration

definition NewEngine :: Engine where
  "NewEngine = \<lparr>en_connectors = [], en_results = []\<rparr>"

definition AddSource :: "string \<Rightarrow> SourceConnector option \<Rightarrow> Engine \<Rightarrow> Engine" where
  "AddSource name oconnector e =
     (case oconnector of
        None \<Rightarrow> e
      | Some connector \<Rightarrow>
          if name = [] then e else e\<lparr>en_connectors := AList.update name connector (en_connectors e)\<rparr>)"

section \<open>engine.go: merging\<close>

definition addVMTotals :: "VirtualMachine \<Rightarrow> MergedResult \<times> PlatformSummary \<Rightarrow> MergedResult \<times> PlatformSummary" where
  "addVMTotals vm = (\<lambda>(m, ps).
     (m\<lparr>mg_TotalCPU := mg_TotalCPU m + vm_CPUCount vm, mg_TotalMemoryMB := mg_TotalMemoryMB m + vm_MemoryMB vm\<rparr>,
      ps\<lparr>ps_VMCount := ps_VMCount ps + 1, ps_TotalCPU := ps_TotalCPU ps + vm_CPUCount vm,
         ps_TotalMemoryMB := ps_TotalMemoryMB ps + vm_MemoryMB vm\<rparr>))"

definition zeroSummary :: PlatformSummary where
  "zeroSummary = \<lparr>ps_VMCount = 0, ps_TotalCPU = 0, ps_TotalMemoryMB = 0, ps_Source = []\<rparr>"

definition summaryAt :: "(Platform \<times> PlatformSummary) list \<Rightarrow> Platform \<Rightarrow> PlatformSummary" where
  "summaryAt m p = (case map_of m p of None \<Rightarrow> zeroSummary | Some s \<Rightarrow> s)"

definition mergeResult :: "DiscoveryResult \<Rightarrow> MergedResult \<Rightarrow> MergedResult" where
  "mergeResult result m =
     (let m1 = m\<lparr>mg_Sources := mg_Sources m @ [result], mg_TotalVMs := mg_TotalVMs m + int (length (dr_VMs result))\<rparr>;
          summary = summaryAt (mg_ByPlatform m1) (dr_Platform result);
          summary1 = (if ps_Source summary = [] then summary\<lparr>ps_Source := dr_Source result\<rparr> else summary);
          (m2, summary2) = fold addVMTotals (dr_VMs result) (m1, summary1)
      in m2\<lparr>mg_ByPlatform := AList.update (dr_Platform result) summary2 (mg_ByPlatform m2)\<rparr>)"

text \<open>\<open>sort.Strings\<close> on the distinct names of a map has one result. A nil result is never stored.\<close>

definition buildMergedResult ::
  "(string \<times> DiscoveryResult) list \<Rightarrow> goerror list \<Rightarrow> duration \<Rightarrow> MergedResult" where
  "buildMergedResult results messages duration =
     fold (\<lambda>name m. case map_of results name of None \<Rightarrow> m | Some result \<Rightarrow> mergeResult result m)
       (sort (map fst results))
       \<lparr>mg_Sources = [], mg_TotalVMs = 0, mg_TotalCPU = 0, mg_TotalMemoryMB = 0, mg_ByPlatform = [],
        mg_Errors = messages, mg_Duration = duration\<rparr>"

section \<open>engine.go: the goroutines\<close>

text \<open>
  Where a goroutine stands: after a failed call comes the section under the mutex that appends the error, after
  a discovered inventory (\<open>Storing\<close>) the one that files it.
\<close>

datatype progress = Starting | ConnectFailed goerror | Connected | DiscoverFailed goerror
  | Storing DiscoveryResult | Closing | CloseFailed goerror | Finished

record runState =
  rn_pcs :: "(string \<times> progress) list"
  rn_results :: "(string \<times> DiscoveryResult) list"
  rn_errs :: "goerror list"
  rn_messages :: "goerror list"

definition startRun :: "Engine \<Rightarrow> runState" where
  "startRun e = \<lparr>rn_pcs = map (\<lambda>(name, _). (name, Starting)) (en_connectors e), rn_results = [], rn_errs = [], rn_messages = []\<rparr>"

definition reportErr :: "goerror \<Rightarrow> runState \<Rightarrow> runState" where
  "reportErr err st = st\<lparr>rn_errs := rn_errs st @ [err], rn_messages := rn_messages st @ [err]\<rparr>"

text \<open>One step of the goroutine of a source: \<open>None\<close> when it has returned.\<close>

fun advance :: "string \<Rightarrow> SourceConnector \<Rightarrow> progress \<Rightarrow> runState \<Rightarrow> (progress \<times> runState) option" where
  "advance name con Starting st =
     Some (case sc_Connect con of Some err \<Rightarrow> ConnectFailed err | None \<Rightarrow> Connected, st)"
| "advance name con (ConnectFailed err) st = Some (Finished, reportErr (Wrap ''%s: connect: %w'' [name] err) st)"
| "advance name con Connected st =
     Some (case sc_Discover con of Inl err \<Rightarrow> DiscoverFailed err | Inr None \<Rightarrow> Closing | Inr (Some result) \<Rightarrow> Storing result, st)"
| "advance name con (DiscoverFailed err) st = Some (Closing, reportErr (Wrap ''%s: discover: %w'' [name] err) st)"
| "advance name con (Storing result) st = Some (Closing, st\<lparr>rn_results := AList.update name result (rn_results st)\<rparr>)"
| "advance name con Closing st = Some (case sc_Close con of Some err \<Rightarrow> CloseFailed err | None \<Rightarrow> Finished, st)"
| "advance name con (CloseFailed err) st = Some (Finished, reportErr (Wrap ''%s: close: %w'' [name] err) st)"
| "advance name con Finished st = None"

definition stepSource :: "Engine \<Rightarrow> string \<Rightarrow> runState \<Rightarrow> runState option" where
  "stepSource e name st =
     (case (map_of (en_connectors e) name, map_of (rn_pcs st) name) of
        (Some con, Some pc) \<Rightarrow>
          (case advance name con pc st of
             None \<Rightarrow> None
           | Some (pc', st') \<Rightarrow> Some (st'\<lparr>rn_pcs := AList.update name pc' (rn_pcs st')\<rparr>))
      | _ \<Rightarrow> None)"

inductive engine_step :: "Engine \<Rightarrow> runState \<Rightarrow> runState \<Rightarrow> bool" for e where
  "stepSource e name st = Some st' \<Longrightarrow> engine_step e st st'"

inductive_simps engine_step_iff: "engine_step e st st'"

text \<open>After \<open>wg.Wait\<close>: the result and the joined errors.\<close>

definition finishRun :: "Engine \<Rightarrow> duration \<Rightarrow> runState \<Rightarrow> (MergedResult \<times> goerror option) \<times> Engine" where
  "finishRun e duration st =
     ((buildMergedResult (rn_results st) (rn_messages st) duration,
       if length (rn_errs st) > 0 then Some (ErrJoin (rn_errs st)) else None), e\<lparr>en_results := rn_results st\<rparr>)"

end
