(* ===== verification/Steps.thy ===== *)
theory Steps
  imports Main
begin

text \<open>
  Step relations with a measure: runs are bounded, and every run can be continued to its end. Used for the
  concurrent parts of the program, whose schedules are arbitrary.
\<close>

locale terminating_steps =
  fixes step :: "'s \<Rightarrow> 's \<Rightarrow> bool" and left :: "'s \<Rightarrow> nat"
  assumes step_less: "step s t \<Longrightarrow> left t < left s"
begin

lemma steps_bound: "(step ^^ n) s t \<Longrightarrow> n + left t \<le> left s"
proof (induction n arbitrary: t)
  case (Suc n)
  then obtain u where "(step ^^ n) s u" "step u t" by auto
  then show ?case using Suc.IH [of u] step_less [of u t] by simp
qed simp

lemma reaches_end: "\<exists>t. step\<^sup>*\<^sup>* s t \<and> (\<nexists>u. step t u)"
proof (induction "left s" arbitrary: s rule: less_induct)
  case less
  show ?case
  proof (cases "\<exists>t. step s t")
    case True
    then obtain t where t: "step s t" by blast
    then obtain u where "step\<^sup>*\<^sup>* t u" "\<nexists>v. step u v" using less step_less by blast
    then show ?thesis using t by (meson converse_rtranclp_into_rtranclp)
  qed blast
qed

lemma invariant_steps:
  assumes "\<And>s t. I s \<Longrightarrow> step s t \<Longrightarrow> I t" "step\<^sup>*\<^sup>* s t" "I s"
  shows "I t"
  using assms(2,3) by (induction rule: rtranclp_induct) (use assms(1) in blast)+

end

end
