(* ===== verification/DiscoveryCorrect.thy ===== *)
theory DiscoveryCorrect
  imports Discovery Steps
begin

text \<open>
  The discovery engine does not depend on the schedule of its goroutines; the comparison of two inventories.
\<close>

section \<open>What a source contributes\<close>

definition closeErrs :: "string \<Rightarrow> SourceConnector \<Rightarrow> goerror list" where
  "closeErrs name con = (case sc_Close con of None \<Rightarrow> [] | Some err \<Rightarrow> [Wrap ''%s: close: %w'' [name] err])"

definition sourceErrs :: "string \<Rightarrow> SourceConnector \<Rightarrow> goerror list" where
  "sourceErrs name con =
     (case sc_Connect con of
        Some err \<Rightarrow> [Wrap ''%s: connect: %w'' [name] err]
      | None \<Rightarrow> (case sc_Discover con of Inl err \<Rightarrow> [Wrap ''%s: discover: %w'' [name] err] | Inr _ \<Rightarrow> []) @ closeErrs name con)"

definition sourceResult :: "SourceConnector \<Rightarrow> DiscoveryResult option" where
  "sourceResult con = (if sc_Connect con = None then case sc_Discover con of Inr r \<Rightarrow> r | Inl _ \<Rightarrow> None else None)"

text \<open>What is still to come from a goroutine that stands at \<open>pc\<close>, and what it has filed.\<close>

fun pending :: "string \<Rightarrow> SourceConnector \<Rightarrow> progress \<Rightarrow> goerror list" where
  "pending name con Starting = sourceErrs name con"
| "pending name con (ConnectFailed err) = [Wrap ''%s: connect: %w'' [name] err]"
| "pending name con Connected = sourceErrs name con"
| "pending name con (DiscoverFailed err) = Wrap ''%s: discover: %w'' [name] err # closeErrs name con"
| "pending name con (Storing _) = closeErrs name con"
| "pending name con Closing = closeErrs name con"
| "pending name con (CloseFailed err) = [Wrap ''%s: close: %w'' [name] err]"
| "pending name con Finished = []"

fun filed :: "SourceConnector \<Rightarrow> progress \<Rightarrow> DiscoveryResult option" where
  "filed con Closing = sourceResult con"
| "filed con (CloseFailed _) = sourceResult con"
| "filed con Finished = sourceResult con"
| "filed con _ = None"

fun agrees :: "SourceConnector \<Rightarrow> progress \<Rightarrow> bool" where
  "agrees con (ConnectFailed err) = (sc_Connect con = Some err)"
| "agrees con Connected = (sc_Connect con = None)"
| "agrees con (DiscoverFailed err) = (sc_Connect con = None \<and> sc_Discover con = Inl err)"
| "agrees con (Storing r) = (sc_Connect con = None \<and> sc_Discover con = Inr (Some r))"
| "agrees con _ = True"

fun stepsLeft :: "progress \<Rightarrow> nat" where
  "stepsLeft Starting = 5"
| "stepsLeft (ConnectFailed _) = 1"
| "stepsLeft Connected = 4"
| "stepsLeft (DiscoverFailed _) = 3"
| "stepsLeft (Storing _) = 3"
| "stepsLeft Closing = 2"
| "stepsLeft (CloseFailed _) = 1"
| "stepsLeft Finished = 0"

definition pcOf :: "runState \<Rightarrow> string \<Rightarrow> progress" where
  "pcOf st name = (case map_of (rn_pcs st) name of None \<Rightarrow> Finished | Some pc \<Rightarrow> pc)"

definition remaining :: "Engine \<Rightarrow> runState \<Rightarrow> nat" where
  "remaining e st = (\<Sum>(name, con) \<leftarrow> en_connectors e. stepsLeft (pcOf st name))"

section \<open>A step\<close>

lemma stepSource_cases:
  assumes "stepSource e name st = Some st'"
  obtains con pc' st1 where "map_of (en_connectors e) name = Some con" "map_of (rn_pcs st) name = Some (pcOf st name)"
    "advance name con (pcOf st name) st = Some (pc', st1)" "st' = st1\<lparr>rn_pcs := AList.update name pc' (rn_pcs st1)\<rparr>"
  using assms by (auto simp: stepSource_def pcOf_def split: option.splits)

lemma advance_pcs: "advance name con pc st = Some (pc', st1) \<Longrightarrow> rn_pcs st1 = rn_pcs st"
  by (cases pc) (auto simp: reportErr_def)

lemma advance_left: "advance name con pc st = Some (pc', st1) \<Longrightarrow> stepsLeft pc' < stepsLeft pc"
  by (cases pc) (auto split: option.splits sum.splits)

lemma pcOf_step:
  assumes "advance name con pc st = Some (pc', st1)"
  shows "pcOf (st1\<lparr>rn_pcs := AList.update name pc' (rn_pcs st1)\<rparr>) n = (if n = name then pc' else pcOf st n)"
  using advance_pcs [OF assms] by (simp add: pcOf_def)

lemma sum_list_less:
  assumes "\<And>x. x \<in> set xs \<Longrightarrow> f x \<le> (g x :: nat)" "y \<in> set xs" "f y < g y"
  shows "(\<Sum>x\<leftarrow>xs. f x) < (\<Sum>x\<leftarrow>xs. g x)"
  using assms
proof (induction xs)
  case (Cons x xs)
  have le: "(\<Sum>x\<leftarrow>xs. f x) \<le> (\<Sum>x\<leftarrow>xs. g x)" using Cons.prems(1) by (intro sum_list_mono) simp
  show ?case
  proof (cases "y = x")
    case True
    then show ?thesis using le Cons.prems(3) by simp
  next
    case False
    then show ?thesis using Cons.IH Cons.prems by (simp add: add_le_less_mono)
  qed
qed simp

lemma engine_step_less: "engine_step e st st' \<Longrightarrow> remaining e st' < remaining e st"
proof -
  assume "engine_step e st st'"
  then obtain name con pc' st1 where s: "map_of (en_connectors e) name = Some con"
    "advance name con (pcOf st name) st = Some (pc', st1)" "st' = st1\<lparr>rn_pcs := AList.update name pc' (rn_pcs st1)\<rparr>"
    by (auto simp: engine_step_iff elim: stepSource_cases)
  show ?thesis unfolding remaining_def
    by (rule sum_list_less [where y = "(name, con)"])
       (use advance_left [OF s(2)] map_of_SomeD [OF s(1)] in \<open>auto simp: s(3) pcOf_step [OF s(2)]\<close>)
qed

interpretation runs: terminating_steps "engine_step e" "remaining e" for e
  by unfold_locales (rule engine_step_less)

section \<open>The invariant\<close>

definition run_inv :: "Engine \<Rightarrow> runState \<Rightarrow> bool" where
  "run_inv e st =
     (map fst (rn_pcs st) = map fst (en_connectors e) \<and> rn_messages st = rn_errs st
      \<and> (\<forall>(name, con) \<in> set (en_connectors e). agrees con (pcOf st name))
      \<and> mset (rn_errs st) + mset (concat (map (\<lambda>(name, con). pending name con (pcOf st name)) (en_connectors e)))
          = mset (concat (map (\<lambda>(name, con). sourceErrs name con) (en_connectors e)))
      \<and> (\<forall>name. map_of (rn_results st) name
            = (case map_of (en_connectors e) name of None \<Rightarrow> None | Some con \<Rightarrow> filed con (pcOf st name)))
      \<and> distinct (map fst (rn_results st)))"

lemma advance_agrees: "advance name con pc st = Some (pc', st1) \<Longrightarrow> agrees con pc \<Longrightarrow> agrees con pc'"
  by (cases pc) (auto split: option.splits sum.splits)

lemma advance_errs:
  "advance name con pc st = Some (pc', st1) \<Longrightarrow> agrees con pc \<Longrightarrow>
     (\<exists>es. rn_errs st1 = rn_errs st @ es \<and> mset (pending name con pc) = mset es + mset (pending name con pc'))
     \<and> (rn_messages st = rn_errs st \<longrightarrow> rn_messages st1 = rn_errs st1)"
  by (cases pc) (auto simp: reportErr_def sourceErrs_def closeErrs_def split: option.splits sum.splits)

lemma advance_results:
  "advance name con pc st = Some (pc', st1) \<Longrightarrow> agrees con pc \<Longrightarrow> map_of (rn_results st) name = filed con pc \<Longrightarrow>
     map_of (rn_results st1) n = (if n = name then filed con pc' else map_of (rn_results st) n)"
  by (cases pc) (auto simp: reportErr_def sourceResult_def split: option.splits sum.splits)

lemma advance_distinct:
  "advance name con pc st = Some (pc', st1) \<Longrightarrow> distinct (map fst (rn_results st)) \<Longrightarrow> distinct (map fst (rn_results st1))"
  by (cases pc) (auto simp: reportErr_def)

lemma mset_concat_update:
  assumes "distinct (map fst xs)" "(name, con) \<in> set xs"
    and "\<And>n c. n \<noteq> name \<Longrightarrow> f (n, c) = g (n, c)" "mset (f (name, con)) = A + mset (g (name, con))"
  shows "mset (concat (map f xs)) = A + mset (concat (map g xs))"
  using assms(1,2)
proof (induction xs)
  case (Cons x xs)
  obtain n c where x: "x = (n, c)" by fastforce
  show ?case
  proof (cases "n = name")
    case True
    have "map f xs = map g xs" using Cons.prems x True assms(3) by (auto simp: image_iff)
    then have "concat (map f xs) = concat (map g xs)" by (rule arg_cong)
    moreover have "c = con" using Cons.prems x True by (auto simp: image_iff)
    ultimately show ?thesis using x True assms(4) by simp
  next
    case False
    then show ?thesis using Cons x assms(3) by simp
  qed
qed simp

lemma run_inv_start: "run_inv e (startRun e)"
proof -
  have "pcOf (startRun e) name = Starting" if "(name, con) \<in> set (en_connectors e)" for name con
    using that by (force simp: pcOf_def startRun_def map_of_eq_None_iff split: option.split dest!: map_of_SomeD)
  moreover from this have "concat (map (\<lambda>(name, con). pending name con (pcOf (startRun e) name)) (en_connectors e))
      = concat (map (\<lambda>(name, con). sourceErrs name con) (en_connectors e))" by (intro arg_cong [where f = concat]) auto
  moreover have "map_of (en_connectors e) name = Some con \<Longrightarrow> filed con (pcOf (startRun e) name) = None" for name con
    using calculation(1) map_of_SomeD by fastforce
  ultimately show ?thesis
    unfolding run_inv_def by (auto simp: startRun_def [of e, THEN arg_cong, of rn_pcs] startRun_def [of e, THEN arg_cong, of rn_errs]
        startRun_def [of e, THEN arg_cong, of rn_messages] startRun_def [of e, THEN arg_cong, of rn_results] split: option.split)
qed

lemma run_inv_step:
  assumes "distinct (map fst (en_connectors e))" "run_inv e st" "engine_step e st st'"
  shows "run_inv e st'"
proof -
  obtain name con pc' st1 where s: "map_of (en_connectors e) name = Some con" "map_of (rn_pcs st) name = Some (pcOf st name)"
    "advance name con (pcOf st name) st = Some (pc', st1)" and st': "st' = st1\<lparr>rn_pcs := AList.update name pc' (rn_pcs st1)\<rparr>"
    using assms(3) by (auto simp: engine_step_iff elim: stepSource_cases)
  note con = map_of_SomeD [OF s(1)] and pcs = pcOf_step [OF s(3), folded st']
  have agree: "agrees con (pcOf st name)" using assms(2) con by (auto simp: run_inv_def)
  obtain es where es: "rn_errs st1 = rn_errs st @ es" "mset (pending name con (pcOf st name)) = mset es + mset (pending name con pc')"
    "rn_messages st = rn_errs st \<Longrightarrow> rn_messages st1 = rn_errs st1"
    using advance_errs [OF s(3) agree] by blast
  have "mset (concat (map (\<lambda>(name, con). pending name con (pcOf st name)) (en_connectors e)))
      = mset es + mset (concat (map (\<lambda>(name, con). pending name con (pcOf st' name)) (en_connectors e)))"
    by (rule mset_concat_update [OF assms(1) con]) (simp_all add: pcs es(2))
  moreover have "map fst (rn_pcs st') = map fst (rn_pcs st)"
    using map_of_SomeD [OF s(2)] advance_pcs [OF s(3)] by (force simp: st' update_keys)
  moreover have "map_of (rn_results st') n
      = (case map_of (en_connectors e) n of None \<Rightarrow> None | Some con \<Rightarrow> filed con (pcOf st' n))" for n
    using advance_results [OF s(3) agree, of n] assms(2) s(1) unfolding run_inv_def pcs by (simp add: st' split: option.split)
  moreover have "agrees c (pcOf st' n)" if "(n, c) \<in> set (en_connectors e)" for n c
  proof (cases "n = name")
    case True
    then have "c = con" using that con eq_key_imp_eq_value [OF assms(1)] by blast
    then show ?thesis using True advance_agrees [OF s(3) agree] by (simp add: pcs)
  next
    case False
    then show ?thesis using assms(2) that by (auto simp: run_inv_def pcs)
  qed
  ultimately show ?thesis
    using assms(2) es(1,3) advance_distinct [OF s(3)] unfolding run_inv_def by (auto simp: st' add.assoc)
qed

section \<open>The end of a run\<close>

lemma finished_pcs:
  assumes "run_inv e st" "\<nexists>st'. engine_step e st st'" "(name, con) \<in> set (en_connectors e)"
  shows "pcOf st name = Finished"
proof (rule ccontr)
  assume pc: "pcOf st name \<noteq> Finished"
  have "map fst (rn_pcs st) = map fst (en_connectors e)" using assms(1) by (simp add: run_inv_def)
  then have "set (map fst (rn_pcs st)) = set (map fst (en_connectors e))" by simp
  then have "name \<in> fst ` set (rn_pcs st)" using assms(3) by force
  then have "map_of (rn_pcs st) name = Some (pcOf st name)"
    by (cases "map_of (rn_pcs st) name") (auto simp: pcOf_def map_of_eq_None_iff)
  moreover obtain con' where "map_of (en_connectors e) name = Some con'"
    using assms(3) by (cases "map_of (en_connectors e) name") (force simp: map_of_eq_None_iff)+
  moreover obtain x where "advance name con' (pcOf st name) st = Some x" using pc by (cases "pcOf st name") auto
  ultimately have "\<exists>st'. stepSource e name st = Some st'" by (auto simp: stepSource_def split: prod.split)
  then show False using assms(2) by (auto simp: engine_step_iff)
qed

text \<open>The inventories a run finds, by name.\<close>

fun foundIn :: "(string \<times> SourceConnector) list \<Rightarrow> (string \<times> DiscoveryResult) list" where
  "foundIn [] = []"
| "foundIn ((name, con) # cs) = (case sourceResult con of None \<Rightarrow> foundIn cs | Some r \<Rightarrow> (name, r) # foundIn cs)"

definition found :: "Engine \<Rightarrow> (string \<times> DiscoveryResult) list" where
  "found e = sort_key fst (foundIn (en_connectors e))"

lemma foundIn_keys: "fst ` set (foundIn cs) \<subseteq> fst ` set cs"
  by (induction cs rule: foundIn.induct) (auto split: option.splits)

lemma foundIn_distinct: "distinct (map fst cs) \<Longrightarrow> distinct (map fst (foundIn cs))"
proof (induction cs rule: foundIn.induct)
  case (2 n con cs)
  then have "n \<notin> fst ` set (foundIn cs)" using foundIn_keys [of cs] by auto
  then show ?case using 2 by (simp split: option.split)
qed simp

lemma map_of_foundIn:
  "distinct (map fst cs) \<Longrightarrow>
     map_of (foundIn cs) name = (case map_of cs name of None \<Rightarrow> None | Some con \<Rightarrow> sourceResult con)"
proof (induction cs rule: foundIn.induct)
  case (2 n con cs)
  then have "map_of cs n = None" by (simp add: map_of_eq_None_iff)
  then show ?case using 2 by (auto split: option.split)
qed simp

lemma final_results:
  assumes "distinct (map fst (en_connectors e))" "run_inv e st" "\<nexists>st'. engine_step e st st'"
  shows "map_of (rn_results st) name = (case map_of (en_connectors e) name of None \<Rightarrow> None | Some con \<Rightarrow> sourceResult con)"
    and "mset (rn_errs st) = mset (concat (map (\<lambda>(name, con). sourceErrs name con) (en_connectors e)))"
proof -
  have finished: "pcOf st n = Finished" if "(n, c) \<in> set (en_connectors e)" for n c using finished_pcs [OF assms(2,3) that] .
  then show "map_of (rn_results st) name = (case map_of (en_connectors e) name of None \<Rightarrow> None | Some con \<Rightarrow> sourceResult con)"
    using assms(2) by (auto simp: run_inv_def split: option.split dest: map_of_SomeD)
  have "mset (concat (map (\<lambda>(name, con). pending name con (pcOf st name)) (en_connectors e))) = {#}"
    using finished by auto
  then show "mset (rn_errs st) = mset (concat (map (\<lambda>(name, con). sourceErrs name con) (en_connectors e)))"
    using assms(2) unfolding run_inv_def by (metis add.right_neutral)
qed

lemma merged_order:
  assumes "distinct (map fst rs)" "distinct (map fst fs)" "map_of rs = map_of fs" "sorted (map fst fs)"
  shows "buildMergedResult rs messages d = fold mergeResult (map snd fs)
    \<lparr>mg_Sources = [], mg_TotalVMs = 0, mg_TotalCPU = 0, mg_TotalMemoryMB = 0, mg_ByPlatform = [],
     mg_Errors = messages, mg_Duration = d\<rparr>"
proof -
  have "set rs = set fs" using assms(1-3) by (metis map_of_eqI map_of_inject_set)
  then have keys: "sort (map fst rs) = map fst fs"
    using assms(1,2,4) by (metis distinct_sort set_map sorted_distinct_set_unique sorted_sort set_sort)
  have "fold (\<lambda>name m. case map_of rs name of None \<Rightarrow> m | Some r \<Rightarrow> mergeResult r m) (map fst xs) m = fold mergeResult (map snd xs) m"
    if "set xs \<subseteq> set fs" for xs m
    using that
  proof (induction xs arbitrary: m)
    case (Cons x xs)
    then have "map_of rs (fst x) = Some (snd x)" using assms(2,3) by simp
    then show ?case using Cons by simp
  qed simp
  then show ?thesis by (simp add: buildMergedResult_def keys)
qed

lemma found_props:
  assumes "distinct (map fst (en_connectors e))"
  shows "distinct (map fst (found e))" "sorted (map fst (found e))"
    "map_of (found e) name = (case map_of (en_connectors e) name of None \<Rightarrow> None | Some con \<Rightarrow> sourceResult con)"
proof -
  show "sorted (map fst (found e))" by (simp add: found_def)
  show dist: "distinct (map fst (found e))" using foundIn_distinct [OF assms] by (simp add: found_def distinct_map)
  have "set (found e) = set (foundIn (en_connectors e))" by (simp add: found_def)
  then have "map_of (found e) = map_of (foundIn (en_connectors e))"
    using dist foundIn_distinct [OF assms] map_of_inject_set by blast
  then show "map_of (found e) name = (case map_of (en_connectors e) name of None \<Rightarrow> None | Some con \<Rightarrow> sourceResult con)"
    using map_of_foundIn [OF assms] by simp
qed

section \<open>The totals\<close>

fun firstNonEmpty :: "string list \<Rightarrow> string" where
  "firstNonEmpty [] = []"
| "firstNonEmpty (s # ss) = (if s = [] then firstNonEmpty ss else s)"

lemma firstNonEmpty_append: "firstNonEmpty (xs @ ys) = (if firstNonEmpty xs = [] then firstNonEmpty ys else firstNonEmpty xs)"
  by (induction xs) auto

definition platformSummary :: "DiscoveryResult list \<Rightarrow> Platform \<Rightarrow> PlatformSummary" where
  "platformSummary rs p =
     (let vms = concat (map dr_VMs (filter (\<lambda>r. dr_Platform r = p) rs)) in
      \<lparr>ps_VMCount = int (length vms), ps_TotalCPU = (\<Sum>vm\<leftarrow>vms. vm_CPUCount vm), ps_TotalMemoryMB = (\<Sum>vm\<leftarrow>vms. vm_MemoryMB vm),
       ps_Source = firstNonEmpty (map dr_Source (filter (\<lambda>r. dr_Platform r = p) rs))\<rparr>)"

definition totals :: "DiscoveryResult list \<Rightarrow> MergedResult \<Rightarrow> bool" where
  "totals rs m =
     (let vms = concat (map dr_VMs rs) in
      mg_Sources m = rs \<and> mg_TotalVMs m = int (length vms) \<and> mg_TotalCPU m = (\<Sum>vm\<leftarrow>vms. vm_CPUCount vm)
      \<and> mg_TotalMemoryMB m = (\<Sum>vm\<leftarrow>vms. vm_MemoryMB vm) \<and> (\<forall>p. summaryAt (mg_ByPlatform m) p = platformSummary rs p))"

lemma fold_addVMTotals:
  "fold addVMTotals vms (m, ps) =
     (m\<lparr>mg_TotalCPU := mg_TotalCPU m + (\<Sum>vm\<leftarrow>vms. vm_CPUCount vm), mg_TotalMemoryMB := mg_TotalMemoryMB m + (\<Sum>vm\<leftarrow>vms. vm_MemoryMB vm)\<rparr>,
      ps\<lparr>ps_VMCount := ps_VMCount ps + int (length vms), ps_TotalCPU := ps_TotalCPU ps + (\<Sum>vm\<leftarrow>vms. vm_CPUCount vm),
         ps_TotalMemoryMB := ps_TotalMemoryMB ps + (\<Sum>vm\<leftarrow>vms. vm_MemoryMB vm)\<rparr>)"
  by (induction vms arbitrary: m ps) (simp_all add: addVMTotals_def add.assoc)

lemma totals_merge: "totals rs m \<Longrightarrow> totals (rs @ [r]) (mergeResult r m)"
  by (auto simp: totals_def mergeResult_def Let_def fold_addVMTotals summaryAt_def platformSummary_def firstNonEmpty_append)

lemma totals_fold: "totals rs m \<Longrightarrow> totals (rs @ xs) (fold mergeResult xs m)"
  by (induction xs arbitrary: rs m) (simp, metis totals_merge append.assoc append_Cons append_Nil fold_simps(2))

lemma mergeResult_keeps: "mg_Errors (fold mergeResult xs m) = mg_Errors m" "mg_Duration (fold mergeResult xs m) = mg_Duration m"
  by (induction xs arbitrary: m) (simp_all add: mergeResult_def fold_addVMTotals Let_def)

section \<open>Properties\<close>

text \<open>
  C21 (discovery_any_schedule): however the goroutines of a discovery run are interleaved, the run ends
  within five steps per source, and when no goroutine can take a step any more the merged result holds
  exactly the inventories of the sources that could be connected and discovered, in the order of their
  names, with the totals and the summaries per platform of their machines; the errors reported are those of
  the failed calls, each once; and no error is returned exactly when every call succeeded.
\<close>

theorem discovery_any_schedule:
  assumes "distinct (map fst (en_connectors e))" "(engine_step e ^^ n) (startRun e) st"
  shows "n \<le> 5 * length (en_connectors e)
    \<and> ((\<nexists>st'. engine_step e st st') \<longrightarrow>
        (\<exists>m err e'. finishRun e d st = ((m, err), e') \<and> totals (map snd (found e)) m \<and> map_of (en_results e') = map_of (found e)
           \<and> mset (mg_Errors m) = mset (concat (map (\<lambda>(name, con). sourceErrs name con) (en_connectors e)))
           \<and> (err = None \<longleftrightarrow> (\<forall>(name, con) \<in> set (en_connectors e).
                 sc_Connect con = None \<and> (\<exists>r. sc_Discover con = Inr r) \<and> sc_Close con = None))))"
proof -
  have "stepsLeft (pcOf (startRun e) name) \<le> 5" for name by (cases "pcOf (startRun e) name") auto
  then have "remaining e (startRun e) \<le> (\<Sum>x \<leftarrow> en_connectors e. 5)"
    unfolding remaining_def by (intro sum_list_mono) auto
  then have bound: "n \<le> 5 * length (en_connectors e)" using runs.steps_bound [OF assms(2)] by (simp add: sum_list_triv)
  have "(engine_step e)\<^sup>*\<^sup>* (startRun e) st" using assms(2) by (rule relpowp_imp_rtranclp)
  from runs.invariant_steps [where I = "run_inv e", OF run_inv_step [OF assms(1)] this run_inv_start] have inv: "run_inv e st" .
  have "\<exists>m err e'. finishRun e d st = ((m, err), e') \<and> totals (map snd (found e)) m \<and> map_of (en_results e') = map_of (found e)
           \<and> mset (mg_Errors m) = mset (concat (map (\<lambda>(name, con). sourceErrs name con) (en_connectors e)))
           \<and> (err = None \<longleftrightarrow> (\<forall>(name, con) \<in> set (en_connectors e).
                 sc_Connect con = None \<and> (\<exists>r. sc_Discover con = Inr r) \<and> sc_Close con = None))"
    if stop: "\<nexists>st'. engine_step e st st'"
  proof -
    note fin = final_results [OF assms(1) inv stop] and fnd = found_props [OF assms(1)]
    have res: "map_of (rn_results st) = map_of (found e)" using fin(1) fnd(3) by auto
    define m where "m = buildMergedResult (rn_results st) (rn_messages st) d"
    have m: "m = fold mergeResult (map snd (found e)) \<lparr>mg_Sources = [], mg_TotalVMs = 0, mg_TotalCPU = 0, mg_TotalMemoryMB = 0,
        mg_ByPlatform = [], mg_Errors = rn_messages st, mg_Duration = d\<rparr>"
      unfolding m_def using inv by (intro merged_order fnd(1,2) res) (simp add: run_inv_def)
    have "totals [] \<lparr>mg_Sources = [], mg_TotalVMs = 0, mg_TotalCPU = 0, mg_TotalMemoryMB = 0,
        mg_ByPlatform = [], mg_Errors = rn_messages st, mg_Duration = d\<rparr>"
      by (simp add: totals_def platformSummary_def summaryAt_def zeroSummary_def)
    then have "totals (map snd (found e)) m" using totals_fold [of "[]"] unfolding m by fastforce
    moreover have "mg_Errors m = rn_errs st" using inv by (simp add: m mergeResult_keeps run_inv_def)
    moreover have "rn_errs st = [] \<longleftrightarrow> (\<forall>(name, con) \<in> set (en_connectors e).
        sc_Connect con = None \<and> (\<exists>r. sc_Discover con = Inr r) \<and> sc_Close con = None)"
    proof -
      have "rn_errs st = [] \<longleftrightarrow> (\<forall>(name, con) \<in> set (en_connectors e). sourceErrs name con = [])"
      proof -
        have "rn_errs st = [] \<longleftrightarrow> concat (map (\<lambda>(name, con). sourceErrs name con) (en_connectors e)) = []"
          using fin(2) by (metis mset_zero_iff)
        then show ?thesis by auto
      qed
      also have "\<dots> \<longleftrightarrow> (\<forall>(name, con) \<in> set (en_connectors e).
          sc_Connect con = None \<and> (\<exists>r. sc_Discover con = Inr r) \<and> sc_Close con = None)"
      proof -
        have "sourceErrs n c = [] \<longleftrightarrow> sc_Connect c = None \<and> (\<exists>r. sc_Discover c = Inr r) \<and> sc_Close c = None" for n c
          by (cases "sc_Connect c"; cases "sc_Discover c"; cases "sc_Close c") (simp_all add: sourceErrs_def closeErrs_def)
        then show ?thesis by simp
      qed
      finally show ?thesis .
    qed
    ultimately show ?thesis using fin(2) res by (simp add: finishRun_def m_def)
  qed
  then show ?thesis using bound by blast
qed

text \<open>A run with one healthy source and one that cannot be connected.\<close>

definition demoEngine :: Engine where
  "demoEngine = AddSource ''kvm'' (Some \<lparr>sc_Connect = Some (Errorf ''refused'' []), sc_Discover = Inr None, sc_Close = None\<rparr>)
     (AddSource ''esx'' (Some \<lparr>sc_Connect = None, sc_Discover = Inr (Some (zeroDR\<lparr>dr_VMs := [zeroVM, zeroVM]\<rparr>)), sc_Close = None\<rparr>)
       NewEngine)"

definition demoSchedule :: "string list" where
  "demoSchedule = [''esx'', ''kvm'', ''esx'', ''kvm'', ''esx'', ''esx'']"

fun runSchedule :: "Engine \<Rightarrow> string list \<Rightarrow> runState \<Rightarrow> runState option" where
  "runSchedule e [] st = Some st"
| "runSchedule e (name # names) st = (case stepSource e name st of None \<Rightarrow> None | Some st' \<Rightarrow> runSchedule e names st')"

lemma runSchedule_steps: "runSchedule e names st = Some st' \<Longrightarrow> (engine_step e ^^ length names) st st'"
proof (induction names arbitrary: st)
  case (Cons name names)
  then obtain st1 where "stepSource e name st = Some st1" "(engine_step e ^^ length names) st1 st'"
    by (auto split: option.splits)
  then have "engine_step e st st1" "(engine_step e ^^ length names) st1 st'" by (auto intro: engine_step.intros)
  then show ?case by (metis length_Cons relpowp_Suc_I2)
qed simp

lemma demo_stops: "runSchedule demoEngine demoSchedule (startRun demoEngine) = Some st \<Longrightarrow> \<nexists>st'. engine_step demoEngine st st'"
  by (auto simp: engine_step_iff demoSchedule_def demoEngine_def AddSource_def NewEngine_def startRun_def stepSource_def reportErr_def
      split: if_splits option.splits)

theorem discovery_any_schedule_witness:
  "\<exists>st m err e'. runSchedule demoEngine demoSchedule (startRun demoEngine) = Some st
     \<and> finishRun demoEngine 7 st = ((m, err), e') \<and> mg_TotalVMs m = 2 \<and> err \<noteq> None"
proof -
  obtain st where run: "runSchedule demoEngine demoSchedule (startRun demoEngine) = Some st"
    by (simp add: demoSchedule_def demoEngine_def AddSource_def NewEngine_def startRun_def stepSource_def reportErr_def)
  have "distinct (map fst (en_connectors demoEngine))" by (simp add: demoEngine_def AddSource_def NewEngine_def)
  from discovery_any_schedule [OF this runSchedule_steps [OF run], of 7] demo_stops [OF run] obtain m err e' where
    *: "finishRun demoEngine 7 st = ((m, err), e')" "totals (map snd (found demoEngine)) m"
      "err = None \<longleftrightarrow> (\<forall>(name, con) \<in> set (en_connectors demoEngine).
         sc_Connect con = None \<and> (\<exists>r. sc_Discover con = Inr r) \<and> sc_Close con = None)"
    by blast
  have "found demoEngine = [(''esx'', zeroDR\<lparr>dr_VMs := [zeroVM, zeroVM]\<rparr>)]"
    by (simp add: found_def demoEngine_def AddSource_def NewEngine_def sourceResult_def)
  then have "mg_TotalVMs m = 2" using *(2) by (simp add: totals_def Let_def)
  moreover have "err \<noteq> None" using *(3) by (simp add: demoEngine_def AddSource_def NewEngine_def)
  ultimately show ?thesis using run *(1) by blast
qed

section \<open>The comparison of two inventories\<close>

lemma map_of_byName:
  "map_of (fold (\<lambda>vm. AList.update (vm_Name vm) vm) vms []) n
     = (case filter (\<lambda>vm. vm_Name vm = n) (rev vms) of [] \<Rightarrow> None | vm # _ \<Rightarrow> Some vm)"
  by (induction vms rule: rev_induct) simp_all

lemma diffLoopA_result:
  "diffLoopA m vms d seen =
     (d\<lparr>id_OnlyInA := id_OnlyInA d @ filter (\<lambda>vm. map_of m (vm_Name vm) = None) vms,
        id_InBoth := id_InBoth d @ [\<lparr>vp_A = vm, vp_B = the (map_of m (vm_Name vm))\<rparr>. vm \<leftarrow> vms, map_of m (vm_Name vm) \<noteq> None]\<rparr>,
      rev [vm_Name vm. vm \<leftarrow> vms, map_of m (vm_Name vm) \<noteq> None] @ seen)"
  by (induction vms arbitrary: d seen) (auto split: option.split)

text \<open>
  The comparison is by name: a machine of A is alone exactly when no machine of B has its name, else it is
  paired with the last machine of B of that name; a machine of B is alone exactly when no machine of A has
  its name.
\<close>

theorem diff_by_name:
  "DiffInventories (Some a) (Some b) =
     \<lparr>id_OnlyInA = filter (\<lambda>vm. vm_Name vm \<notin> vm_Name ` set (dr_VMs b)) (dr_VMs a),
      id_OnlyInB = filter (\<lambda>vm. vm_Name vm \<notin> vm_Name ` set (dr_VMs a)) (dr_VMs b),
      id_InBoth = [\<lparr>vp_A = vm, vp_B = last (filter (\<lambda>v. vm_Name v = vm_Name vm) (dr_VMs b))\<rparr>.
         vm \<leftarrow> dr_VMs a, vm_Name vm \<in> vm_Name ` set (dr_VMs b)]\<rparr>"
proof -
  let ?m = "fold (\<lambda>vm. AList.update (vm_Name vm) vm) (dr_VMs b) []"
  have none: "map_of ?m n = None \<longleftrightarrow> n \<notin> vm_Name ` set (dr_VMs b)" for n
  proof -
    have "map_of ?m n = None \<longleftrightarrow> filter (\<lambda>vm. vm_Name vm = n) (rev (dr_VMs b)) = []"
      by (simp add: map_of_byName split: list.split)
    then show ?thesis by (auto simp: filter_empty_conv)
  qed
  have some: "the (map_of ?m n) = last (filter (\<lambda>v. vm_Name v = n) (dr_VMs b))" if "n \<in> vm_Name ` set (dr_VMs b)" for n
  proof -
    have "filter (\<lambda>v. vm_Name v = n) (dr_VMs b) \<noteq> []" using that by (auto simp: filter_empty_conv)
    moreover have "filter (\<lambda>v. vm_Name v = n) (rev (dr_VMs b)) = rev (filter (\<lambda>v. vm_Name v = n) (dr_VMs b))" by (simp add: rev_filter)
    ultimately show ?thesis unfolding map_of_byName by (metis (no_types, lifting) list.case(2) list.exhaust rev.simps(1) option.sel
          last_rev list.sel(1) rev_rev_ident)
  qed
  have pairs: "[\<lparr>vp_A = vm, vp_B = the (map_of ?m (vm_Name vm))\<rparr>. vm \<leftarrow> vms, map_of ?m (vm_Name vm) \<noteq> None]
      = [\<lparr>vp_A = vm, vp_B = last (filter (\<lambda>v. vm_Name v = vm_Name vm) (dr_VMs b))\<rparr>. vm \<leftarrow> vms, vm_Name vm \<in> vm_Name ` set (dr_VMs b)]" for vms
    by (intro arg_cong [where f = concat] map_cong refl) (simp add: none some)
  have seen: "vm_Name v \<notin> set (rev [vm_Name vm. vm \<leftarrow> dr_VMs a, map_of ?m (vm_Name vm) \<noteq> None])
      \<longleftrightarrow> vm_Name v \<notin> vm_Name ` set (dr_VMs a)" if "v \<in> set (dr_VMs b)" for v
    using that by (auto simp: none) (metis (mono_tags, lifting) IntI imageI mem_Collect_eq)
  have onlyB: "filter (\<lambda>v. vm_Name v \<notin> set (rev [vm_Name vm. vm \<leftarrow> dr_VMs a, map_of ?m (vm_Name vm) \<noteq> None] @ [])) (dr_VMs b)
      = filter (\<lambda>vm. vm_Name vm \<notin> vm_Name ` set (dr_VMs a)) (dr_VMs b)"
    by (rule filter_cong [OF refl]) (use seen in simp)
  show ?thesis
    unfolding DiffInventories_def Let_def prod.case option.case diffLoopA_result pairs onlyB by (simp add: none)
qed

end
