(* ===== verification/CredentialDigest.thy ===== *)
theory CredentialDigest
  imports Credentials "HOL-Library.Word"
begin

text \<open>
  Credential digests, \<open>internal/api/middleware.go\<close>: parsing, the comparison whose time does not depend on the
  digests, and the check of the administrator's key. A byte is a word of 8 bits, an \<open>int32\<close> one of 32 bits, and a
  digest a list of 32 bytes. \<open>subtle.ConstantTimeEq\<close> and \<open>ConstantTimeByteEq\<close> return 1 for equal arguments and 0
  otherwise, \<open>ConstantTimeCompare\<close> of two arrays of the same length 1 exactly when they are equal.
\<close>

unbundle bit_operations_syntax

type_synonym byte = "8 word"
type_synonym digest = "byte list"

section \<open>Hexadecimal digests\<close>

definition byteOf :: "char \<Rightarrow> byte" where
  "byteOf c = of_nat (charCode c)"

definition credentialHashPrefix :: string where "credentialHashPrefix = ''sha256:''"

definition zeroCredentialHash :: digest where "zeroCredentialHash = replicate 32 0"

definition invalidCredentialHash :: digest where "invalidCredentialHash = replicate 32 0xff"

definition constantTimeEq :: "32 word \<Rightarrow> 32 word \<Rightarrow> int" where
  "constantTimeEq x y = (if x = y then 1 else 0)"

definition isZeroCredentialHash :: "digest \<Rightarrow> bool" where
  "isZeroCredentialHash value = (value = zeroCredentialHash)"

definition boolToConstantTime :: "bool \<Rightarrow> 32 word" where
  "boolToConstantTime value = (if value then 1 else 0)"

definition credentialHashHexValid :: "byte \<Rightarrow> 32 word" where
  "credentialHashHexValid value =
     (let lower = value OR 0x20;
          digit = boolToConstantTime (value \<ge> byteOf (CHR ''0'') \<and> value \<le> byteOf (CHR ''9''));
          alpha = boolToConstantTime (lower \<ge> byteOf (CHR ''a'') \<and> lower \<le> byteOf (CHR ''f''))
      in digit OR alpha)"

definition newCredentialHashHexDecodeTable :: "byte list" where
  "newCredentialHashHexDecodeTable =
     (let table0 = replicate 256 (0xff :: byte);
          table1 = fold (\<lambda>index table. table[charCode (CHR ''0'') + index := of_nat index]) [0..<10] table0
      in fold (\<lambda>index table. (table[charCode (CHR ''a'') + index := 10 + of_nat index])
                               [charCode (CHR ''A'') + index := 10 + of_nat index]) [0..<6] table1)"

definition credentialHashHexDecode :: "byte \<Rightarrow> byte" where
  "credentialHashHexDecode b = newCredentialHashHexDecodeTable ! unat b"

definition hasCredentialHashPrefix :: "string \<Rightarrow> bool" where
  "hasCredentialHashPrefix value =
     (let trimmed = TrimSpace value in
      length trimmed \<ge> length credentialHashPrefix
      \<and> EqualFold (take (length credentialHashPrefix) trimmed) credentialHashPrefix)"

definition trimCredentialHashPrefix :: "string \<Rightarrow> string" where
  "trimCredentialHashPrefix value =
     (let trimmed = TrimSpace value in
      if hasCredentialHashPrefix trimmed then drop (length credentialHashPrefix) trimmed else trimmed)"

definition parseCredentialHash :: "string \<Rightarrow> digest \<times> bool" where
  "parseCredentialHash value =
     (let trimmed = trimCredentialHashPrefix value;
          normalized = map (\<lambda>index. if index < length trimmed then byteOf (trimmed ! index) else 0) [0..<64];
          valid = fold (\<lambda>index valid. valid AND credentialHashHexValid (normalized ! index)) [0..<64]
                    (boolToConstantTime (trimmed \<noteq> []) AND boolToConstantTime (length trimmed = 64))
      in if constantTimeEq valid 1 \<noteq> 1 then (invalidCredentialHash, False)
         else (map (\<lambda>index. push_bit 4 (credentialHashHexDecode (normalized ! (index * 2)))
                             OR credentialHashHexDecode (normalized ! (index * 2 + 1))) [0..<32], True))"

text \<open>\<open>%x\<close> of a byte slice.\<close>

definition hexDigit :: "nat \<Rightarrow> char" where
  "hexDigit n = (if n < 10 then char_of (48 + n) else char_of (87 + n))"

definition hexByte :: "byte \<Rightarrow> string" where
  "hexByte b = [hexDigit (unat b div 16), hexDigit (unat b mod 16)]"

definition hexString :: "digest \<Rightarrow> string" where
  "hexString d = concat (map hexByte d)"

definition credentialHashString :: "digest \<Rightarrow> string" where
  "credentialHashString value = (if isZeroCredentialHash value then [] else credentialHashPrefix @ hexString value)"

definition credentialHashPrefix8 :: "digest \<Rightarrow> string" where
  "credentialHashPrefix8 value = (if isZeroCredentialHash value then [] else hexString (take 4 value))"

section \<open>Comparison\<close>

definition normalizeCredentialHashForCompare :: "digest \<Rightarrow> bool \<Rightarrow> digest" where
  "normalizeCredentialHashForCompare value valid =
     (let nonZero = fold (\<lambda>element acc. acc OR element) value (0 :: byte);
          nonZeroResult = boolToConstantTime (nonZero \<noteq> 0);
          validResult = boolToConstantTime valid AND nonZeroResult;
          invalidMask = of_int ((1 - constantTimeEq validResult 1) * 0xff) :: byte
      in map (\<lambda>index. (value ! index AND NOT invalidMask) OR (invalidCredentialHash ! index AND invalidMask)) [0..<32])"

definition constantTimeNormalizedCredentialHashMatch :: "digest \<Rightarrow> digest \<Rightarrow> bool" where
  "constantTimeNormalizedCredentialHashMatch currentBuffer expectedBuffer =
     (fold (\<lambda>index diff. diff OR (currentBuffer ! index XOR expectedBuffer ! index)) [0..<32] (0 :: byte) = 0)"

definition constantTimeCredentialHashMatch :: "digest \<Rightarrow> bool \<Rightarrow> digest \<Rightarrow> bool \<Rightarrow> bool" where
  "constantTimeCredentialHashMatch current currentValid expected expectedValid =
     constantTimeNormalizedCredentialHashMatch
       (normalizeCredentialHashForCompare current currentValid) (normalizeCredentialHashForCompare expected expectedValid)"

section \<open>Stored and presented credentials\<close>

definition hashCredential :: "(string \<Rightarrow> string) \<Rightarrow> string \<Rightarrow> digest" where
  "hashCredential sha256hex key =
     (let canonicalHash = HashAPIKey sha256hex key in
      if canonicalHash = [] then zeroCredentialHash
      else (case parseCredentialHash canonicalHash of (d, ok) \<Rightarrow> if \<not> ok then zeroCredentialHash else d))"

definition storedCredentialHash :: "(string \<Rightarrow> string) \<Rightarrow> string \<Rightarrow> string \<Rightarrow> digest \<times> bool" where
  "storedCredentialHash sha256hex storedHash legacyRaw =
     (let normalizedHash = TrimSpace storedHash in
      if normalizedHash \<noteq> [] then parseCredentialHash normalizedHash
      else (hashCredential sha256hex legacyRaw, TrimSpace legacyRaw \<noteq> []))"

definition storedCredentialHashMatches :: "(string \<Rightarrow> string) \<Rightarrow> string \<Rightarrow> string \<Rightarrow> digest \<Rightarrow> bool" where
  "storedCredentialHashMatches sha256hex storedHash legacyRaw expectedHash =
     (case storedCredentialHash sha256hex storedHash legacyRaw of
        (current, ok) \<Rightarrow> constantTimeCredentialHashMatch current ok expectedHash True)"

definition adminStoredCredentialHash :: "(string \<Rightarrow> string) \<Rightarrow> string \<Rightarrow> digest \<times> bool \<times> bool" where
  "adminStoredCredentialHash sha256hex stored =
     (let trimmed = TrimSpace stored in
      if trimmed = [] then (zeroCredentialHash, False, False)
      else if hasCredentialHashPrefix trimmed
      then (case parseCredentialHash trimmed of (d, ok) \<Rightarrow> (d, ok, False))
      else (hashCredential sha256hex trimmed, True, True))"

definition adminCredentialMatches :: "(string \<Rightarrow> string) \<Rightarrow> string \<Rightarrow> string \<Rightarrow> bool \<times> bool" where
  "adminCredentialMatches sha256hex leftStoredHash rightPresented =
     (if TrimSpace leftStoredHash = [] \<or> TrimSpace rightPresented = [] then (False, False)
      else (case adminStoredCredentialHash sha256hex leftStoredHash of
              (leftHash, leftOK, plaintextFormat) \<Rightarrow>
                (let rightHash = hashCredential sha256hex rightPresented;
                     matched = constantTimeCredentialHashMatch leftHash leftOK rightHash (\<not> isZeroCredentialHash rightHash)
                 in (matched, matched \<and> plaintextFormat))))"

definition constantTimeEqual :: "(string \<Rightarrow> string) \<Rightarrow> string \<Rightarrow> string \<Rightarrow> bool" where
  "constantTimeEqual sha256hex leftStoredHash rightPresented = fst (adminCredentialMatches sha256hex leftStoredHash rightPresented)"

text \<open>\<open>AdminAuthMiddleware\<close>: whether the request reaches the handler, or the status it is refused with.\<close>

definition AdminAuthMiddleware :: "(string \<Rightarrow> string) \<Rightarrow> string \<Rightarrow> string \<Rightarrow> int option" where
  "AdminAuthMiddleware sha256hex adminAPIKey header =
     (if TrimSpace adminAPIKey = [] then Some 503
      else if \<not> fst (adminCredentialMatches sha256hex adminAPIKey header) then Some 401
      else None)"

section \<open>The comparison is equality of usable digests\<close>

lemma fold_or_eq_0: "fold (\<lambda>x acc. acc OR f x) xs (a :: byte) = 0 \<longleftrightarrow> a = 0 \<and> (\<forall>x \<in> set xs. f x = 0)"
  by (induction xs arbitrary: a) (auto simp: or_eq_0_iff)

lemma xor_eq_0_iff_eq: "(x :: byte) XOR y = 0 \<longleftrightarrow> x = y"
  by (auto simp: bit_eq_iff bit_xor_iff)

lemma constantTimeNormalized_iff:
  assumes "length a = 32" "length b = 32"
  shows "constantTimeNormalizedCredentialHashMatch a b \<longleftrightarrow> a = b"
proof -
  have "constantTimeNormalizedCredentialHashMatch a b \<longleftrightarrow> (\<forall>i \<in> set [0..<32]. a ! i = b ! i)"
    unfolding constantTimeNormalizedCredentialHashMatch_def fold_or_eq_0 by (simp add: xor_eq_0_iff_eq)
  also have "\<dots> \<longleftrightarrow> a = b" using assms by (auto intro: nth_equalityI)
  finally show ?thesis .
qed

text \<open>A digest counts when it was parsed and is not all zero; any other one is compared as all ones.\<close>

definition usable :: "digest \<Rightarrow> bool \<Rightarrow> bool" where
  "usable d valid = (valid \<and> d \<noteq> zeroCredentialHash)"

lemma nonZero_iff: "length d = 32 \<Longrightarrow> fold (\<lambda>element acc. acc OR element) d (0 :: byte) \<noteq> 0 \<longleftrightarrow> d \<noteq> zeroCredentialHash"
  using fold_or_eq_0 [of "\<lambda>x. x" d 0] by (auto simp: zeroCredentialHash_def list_eq_iff_nth_eq all_set_conv_all_nth)

lemma normalize_digest:
  assumes "length d = 32"
  shows "normalizeCredentialHashForCompare d valid = (if usable d valid then d else invalidCredentialHash)"
proof -
  have "map (\<lambda>i. (d ! i AND NOT (0 :: byte)) OR (invalidCredentialHash ! i AND 0)) [0..<32] = d"
    using assms by (auto intro: nth_equalityI)
  moreover have ones: "(0xff :: byte) = - 1" by simp
  have "map (\<lambda>i. (d ! i AND NOT (0xff :: byte)) OR (invalidCredentialHash ! i AND 0xff)) [0..<32] = invalidCredentialHash"
    unfolding ones by (auto intro!: nth_equalityI simp: invalidCredentialHash_def ones)
  ultimately show ?thesis
    by (simp add: normalizeCredentialHashForCompare_def Let_def nonZero_iff [OF assms] usable_def boolToConstantTime_def
        constantTimeEq_def)
qed

theorem constant_time_match_exact:
  assumes "length current = 32" "length expected = 32"
  shows "constantTimeCredentialHashMatch current currentValid expected expectedValid
    \<longleftrightarrow> (if usable current currentValid then current else invalidCredentialHash)
        = (if usable expected expectedValid then expected else invalidCredentialHash)"
proof -
  have "length (if usable d v then d else invalidCredentialHash) = 32" if "length d = 32" for d v
    using that by (simp add: invalidCredentialHash_def)
  then show ?thesis
    unfolding constantTimeCredentialHashMatch_def normalize_digest [OF assms(1)] normalize_digest [OF assms(2)]
    using assms by (intro constantTimeNormalized_iff) blast+
qed

section \<open>Parsing inverts printing\<close>

definition isHex :: "char \<Rightarrow> bool" where
  "isHex c = (c \<in> set ''0123456789abcdefABCDEF'')"

definition hexValue :: "char \<Rightarrow> nat" where
  "hexValue c = (if charCode c \<le> 57 then charCode c - 48 else if charCode c \<le> 70 then charCode c - 55 else charCode c - 87)"

lemma charCode_less: "charCode c < 256"
  by (simp add: charCode_def)

lemma charCode_inject: "charCode a = charCode b \<longleftrightarrow> a = b"
  by (simp add: charCode_def)

lemma unat_byteOf [simp]: "unat (byteOf c) = charCode c"
  using charCode_less [of c] by (simp add: byteOf_def unat_of_nat)

lemma isHex_code: "isHex c \<longleftrightarrow> charCode c \<in> {48..57} \<union> {65..70} \<union> {97..102}"
proof -
  have "isHex c \<longleftrightarrow> charCode c \<in> charCode ` set ''0123456789abcdefABCDEF''"
    by (auto simp: isHex_def charCode_inject)
  also have "charCode ` set ''0123456789abcdefABCDEF'' = {48..57} \<union> {65..70} \<union> {97..102}"
    by (auto simp: charCode_def, presburger+)
  finally show ?thesis .
qed

lemma or_32: "(n :: nat) OR 32 = n + (if even (n div 32) then 32 else 0)"
proof -
  have "n OR 32 = set_bit 5 n" by (simp add: set_bit_eq_or push_bit_eq_mult)
  also have "\<dots> = n + (if even (n div 32) then 32 else 0)" by (simp add: set_bit_eq bit_iff_odd)
  finally show ?thesis .
qed

lemma lower_range: "n < 256 \<Longrightarrow> (97 \<le> n OR 32 \<and> n OR 32 \<le> 102) \<longleftrightarrow> (65 \<le> n \<and> n \<le> 70 \<or> 97 \<le> n \<and> n \<le> (102 :: nat))"
proof -
  assume "n < 256"
  consider "n < 64" | "64 \<le> n" "n < 96" | "96 \<le> n" "n < 128" | "128 \<le> n" by linarith
  then show ?thesis
  proof cases
    case 2
    then have "n div 32 = 2" by simp
    then show ?thesis using 2 by (simp add: or_32)
  next
    case 3
    then have "n div 32 = 3" by simp
    then show ?thesis using 3 by (simp add: or_32)
  qed (auto simp: or_32)
qed

lemma charCode_literals:
  "charCode (CHR ''0'') = 48" "charCode (CHR ''9'') = 57" "charCode (CHR ''a'') = 97" "charCode (CHR ''f'') = 102"
  by (simp_all add: charCode_def)

lemma hexValid_iff: "credentialHashHexValid (byteOf c) = (if isHex c then 1 else 0)"
proof -
  have "unat (byteOf c OR 0x20) = charCode c OR 32" by (simp add: unsigned_or_eq)
  then have "credentialHashHexValid (byteOf c) = (if charCode c \<in> {48..57} \<union> {65..70} \<union> {97..102} then 1 else 0)"
    using lower_range [OF charCode_less [of c]]
    by (auto simp: credentialHashHexValid_def Let_def boolToConstantTime_def word_le_nat_alt charCode_literals)
  then show ?thesis by (simp add: isHex_code)
qed

lemma hexDecode_all:
  "list_all (\<lambda>c. credentialHashHexDecode (byteOf c) = of_nat (hexValue c) \<and> hexValue c < 16 \<and> hexDigit (hexValue c) = toLowerChar c)
     ''0123456789abcdefABCDEF''"
  by code_simp

lemma hexDecode:
  assumes "isHex c"
  shows "credentialHashHexDecode (byteOf c) = of_nat (hexValue c)" "hexValue c < 16" "hexDigit (hexValue c) = toLowerChar c"
  using hexDecode_all assms unfolding list_all_iff isHex_def by blast+

lemma nibbles:
  assumes "b < 16"
  shows "push_bit 4 (of_nat a :: byte) OR of_nat b = of_nat (16 * a + b)"
proof -
  have "\<not> bit b n" if "4 \<le> n" for n
  proof -
    have "(2 :: nat) ^ 4 \<le> 2 ^ n" using that by (rule power_increasing) simp
    then show ?thesis using assms by (simp add: bit_iff_odd)
  qed
  then have "push_bit 4 (of_nat a :: byte) AND of_nat b = 0"
    by (auto simp: bit_eq_iff bit_and_iff bit_push_bit_iff bit_of_nat_iff)
  then show ?thesis by (simp add: push_bit_eq_mult flip: disjunctive_add_eq_or)
qed

text \<open>The digest a string of 64 hexadecimal digits stands for.\<close>

definition decodeHex :: "string \<Rightarrow> digest" where
  "decodeHex s = map (\<lambda>i. of_nat (16 * hexValue (s ! (i * 2)) + hexValue (s ! (i * 2 + 1)))) [0..<32]"

definition wellFormedHex :: "string \<Rightarrow> bool" where
  "wellFormedHex s = (length s = 64 \<and> list_all isHex s)"

lemma fold_and_valid:
  "v \<in> {0, 1} \<Longrightarrow> (\<And>x. x \<in> set xs \<Longrightarrow> f x \<in> {0, 1}) \<Longrightarrow>
     fold (\<lambda>x acc. acc AND f x) xs (v :: 32 word) = (if v = 1 \<and> (\<forall>x \<in> set xs. f x = 1) then 1 else 0)"
proof (induction xs arbitrary: v)
  case (Cons x xs)
  have "v AND f x = (if v = 1 \<and> f x = 1 then 1 else 0)" using Cons.prems by force
  then show ?case using Cons.IH [of "v AND f x"] Cons.prems by auto
qed auto

lemma parseCredentialHash_cases:
  "parseCredentialHash value =
     (let s = trimCredentialHashPrefix value in
      if wellFormedHex s then (decodeHex s, True) else (invalidCredentialHash, False))"
proof -
  define s where "s = trimCredentialHashPrefix value"
  define norm where "norm = map (\<lambda>i. if i < length s then byteOf (s ! i) else 0) [0..<64]"
  have zero: "credentialHashHexValid 0 = 0" by code_simp
  have each: "credentialHashHexValid (norm ! i) = (if i < length s \<and> isHex (s ! i) then 1 else 0)" if "i < 64" for i
    using that by (simp add: norm_def hexValid_iff zero)
  have "fold (\<lambda>i v. v AND credentialHashHexValid (norm ! i)) [0..<64]
      (boolToConstantTime (s \<noteq> []) AND boolToConstantTime (length s = 64))
    = (if wellFormedHex s then 1 else 0)"
    by (subst fold_and_valid) (auto simp: each boolToConstantTime_def wellFormedHex_def list_all_length split: if_splits)
  moreover have "map (\<lambda>i. push_bit 4 (credentialHashHexDecode (norm ! (i * 2))) OR credentialHashHexDecode (norm ! (i * 2 + 1))) [0..<32]
      = decodeHex s" if ok: "wellFormedHex s"
  proof -
    have "push_bit 4 (credentialHashHexDecode (norm ! (i * 2))) OR credentialHashHexDecode (norm ! (i * 2 + 1))
        = of_nat (16 * hexValue (s ! (i * 2)) + hexValue (s ! (i * 2 + 1)))" if "i < 32" for i
    proof -
      have hex: "isHex (s ! (i * 2))" "isHex (s ! (i * 2 + 1))" using ok that by (auto simp: wellFormedHex_def list_all_length)
      have "norm ! (i * 2) = byteOf (s ! (i * 2))" "norm ! (i * 2 + 1) = byteOf (s ! (i * 2 + 1))"
        using that ok by (simp_all add: norm_def wellFormedHex_def)
      then show ?thesis by (simp only: hexDecode(1) [OF hex(1)] hexDecode(1) [OF hex(2)] nibbles [OF hexDecode(2) [OF hex(2)]])
    qed
    then show ?thesis by (simp add: decodeHex_def)
  qed
  ultimately show ?thesis
    unfolding parseCredentialHash_def Let_def s_def [symmetric] norm_def [symmetric] by (simp add: constantTimeEq_def)
qed

lemma map_pairs:
  "length s = n * 2 \<Longrightarrow> concat (map (\<lambda>i. [f (s ! (i * 2)), f (s ! (i * 2 + 1))]) [0..<n]) = map f s"
proof (induction n arbitrary: s)
  case (Suc n)
  obtain a b t where s: "s = a # b # t" using Suc.prems by (metis Suc_length_conv mult_Suc numeral_2_eq_2 add_Suc)
  have "concat (map (\<lambda>i. [f (s ! (i * 2)), f (s ! (i * 2 + 1))]) [0..<Suc n])
    = [f a, f b] @ concat (map (\<lambda>i. [f (t ! (i * 2)), f (t ! (i * 2 + 1))]) [0..<n])"
    unfolding upt_conv_Cons [OF zero_less_Suc] map_Suc_upt [symmetric] by (simp add: s comp_def)
  then show ?case using Suc by (simp add: s)
qed simp

lemma hexByte_of_nat: "a < 16 \<Longrightarrow> b < 16 \<Longrightarrow> hexByte (of_nat (16 * a + b)) = [hexDigit a, hexDigit b]"
  by (simp add: hexByte_def unat_of_nat del: of_nat_add of_nat_mult)

lemma hexString_decode: "wellFormedHex s \<Longrightarrow> hexString (decodeHex s) = ToLower s"
proof -
  assume ok: "wellFormedHex s"
  have "hexByte (of_nat (16 * hexValue (s ! (i * 2)) + hexValue (s ! (i * 2 + 1))))
      = [toLowerChar (s ! (i * 2)), toLowerChar (s ! (i * 2 + 1))]" if "i < 32" for i
  proof -
    have "isHex (s ! (i * 2))" "isHex (s ! (i * 2 + 1))" using ok that by (auto simp: wellFormedHex_def list_all_length)
    then show ?thesis by (simp only: hexByte_of_nat hexDecode)
  qed
  then have "hexString (decodeHex s) = concat (map (\<lambda>i. [toLowerChar (s ! (i * 2)), toLowerChar (s ! (i * 2 + 1))]) [0..<32])"
    unfolding hexString_def decodeHex_def map_map by (intro arg_cong [of _ _ concat]) simp
  then show ?thesis using map_pairs [of s 32 toLowerChar] ok by (simp add: wellFormedHex_def ToLower_def)
qed

lemma hexDigit_all: "list_all (\<lambda>n. isHex (hexDigit n) \<and> hexValue (hexDigit n) = n \<and> toLowerChar (hexDigit n) = hexDigit n) [0..<16]"
  by code_simp

lemma hexDigit_facts:
  assumes "n < 16"
  shows "isHex (hexDigit n)" "hexValue (hexDigit n) = n" "toLowerChar (hexDigit n) = hexDigit n"
  using hexDigit_all assms by (simp_all add: list_all_iff)

lemma byte_nibbles: "unat (b :: byte) div 16 < 16" "unat b mod 16 < 16" "of_nat (16 * (unat b div 16) + unat b mod 16) = b"
  using unsigned_less [of b, where ?'a = nat] by (simp_all del: of_nat_add of_nat_mult)

lemma hexString_nth:
  "i < length d \<Longrightarrow> hexString d ! (i * 2) = hexDigit (unat (d ! i) div 16) \<and> hexString d ! (i * 2 + 1) = hexDigit (unat (d ! i) mod 16)"
proof (induction d arbitrary: i)
  case (Cons b d)
  then show ?case by (cases i) (auto simp: hexString_def hexByte_def)
qed simp

lemma decode_hexString:
  assumes "length d = 32"
  shows "wellFormedHex (hexString d)" "decodeHex (hexString d) = d"
proof -
  have "length (hexString d) = length d * 2" by (induction d) (simp_all add: hexString_def hexByte_def)
  moreover have "list_all isHex (hexString d)"
    by (induction d) (simp_all add: hexString_def hexByte_def hexDigit_facts byte_nibbles)
  ultimately show "wellFormedHex (hexString d)" using assms by (simp add: wellFormedHex_def)
  show "decodeHex (hexString d) = d"
    using assms
    by (intro nth_equalityI)
       (simp_all add: decodeHex_def hexString_nth hexDigit_facts byte_nibbles del: of_nat_add of_nat_mult One_nat_def)
qed

text \<open>Trimming a printed digest.\<close>

lemma TrimSpace_fixed: "s \<noteq> [] \<Longrightarrow> \<not> isSpace (hd s) \<Longrightarrow> \<not> isSpace (last s) \<Longrightarrow> TrimSpace s = s"
proof -
  assume s: "s \<noteq> []" "\<not> isSpace (hd s)" "\<not> isSpace (last s)"
  then have "dropWhile isSpace s = s" "dropWhile isSpace (rev s) = rev s" by (auto simp: dropWhile_eq_self_iff hd_rev)
  then show ?thesis by (simp add: TrimSpace_def TrimLeftSpace_def)
qed

lemma isHex_not_space: "isHex c \<Longrightarrow> \<not> isSpace c"
  by (auto simp: isHex_code isSpace_def)

lemma printed_digest:
  assumes "wellFormedHex h"
  shows "TrimSpace (credentialHashPrefix @ h) = credentialHashPrefix @ h"
    "hasCredentialHashPrefix (credentialHashPrefix @ h)" "trimCredentialHashPrefix (credentialHashPrefix @ h) = h"
proof -
  have h: "h \<noteq> []" using assms by (auto simp: wellFormedHex_def)
  then have "isHex (last h)" using assms last_in_set by (auto simp: wellFormedHex_def list_all_iff)
  show trim: "TrimSpace (credentialHashPrefix @ h) = credentialHashPrefix @ h"
    using h isHex_not_space [OF \<open>isHex (last h)\<close>] by (intro TrimSpace_fixed) (auto simp: credentialHashPrefix_def isSpace_def charCode_def)
  then show has: "hasCredentialHashPrefix (credentialHashPrefix @ h)" by (simp add: hasCredentialHashPrefix_def)
  show "trimCredentialHashPrefix (credentialHashPrefix @ h) = h" by (simp add: trimCredentialHashPrefix_def trim has)
qed

lemma parse_printed: "wellFormedHex h \<Longrightarrow> parseCredentialHash (credentialHashPrefix @ h) = (decodeHex h, True)"
  by (simp add: parseCredentialHash_cases printed_digest)

text \<open>
  C36 (digest_roundtrip): A digest of 32 bytes other than the zero digest, printed by \<open>credentialHashString\<close>, is read
  back by \<open>parseCredentialHash\<close>; and a text that parses to a usable digest is printed as the canonical form of that
  text: the prefix \<open>sha256:\<close> and its 64 hexadecimal digits in lower case. Every other text is refused with the
  all-ones digest.
\<close>

theorem digest_roundtrip:
  assumes "length d = 32" "d \<noteq> zeroCredentialHash"
  shows "parseCredentialHash (credentialHashString d) = (d, True)
    \<and> (parseCredentialHash value = (d, True) \<longrightarrow>
         credentialHashString d = credentialHashPrefix @ ToLower (trimCredentialHashPrefix value))
    \<and> (\<not> wellFormedHex (trimCredentialHashPrefix value) \<longrightarrow> parseCredentialHash value = (invalidCredentialHash, False))"
proof (intro conjI impI)
  have print: "credentialHashString d = credentialHashPrefix @ hexString d"
    using assms(2) by (simp add: credentialHashString_def isZeroCredentialHash_def)
  show "parseCredentialHash (credentialHashString d) = (d, True)"
    unfolding print using parse_printed [OF decode_hexString(1) [OF assms(1)]] decode_hexString(2) [OF assms(1)] by simp
  show "credentialHashString d = credentialHashPrefix @ ToLower (trimCredentialHashPrefix value)"
    if "parseCredentialHash value = (d, True)"
    using that unfolding print by (auto simp: parseCredentialHash_cases Let_def hexString_decode split: if_splits)
qed (simp add: parseCredentialHash_cases)

theorem digest_roundtrip_witness:
  "parseCredentialHash (credentialHashString (replicate 31 0 @ [0xa7])) = (replicate 31 0 @ [0xa7], True)"
proof -
  have "last (replicate 31 0 @ [0xa7 :: byte]) \<noteq> last zeroCredentialHash" by (simp add: zeroCredentialHash_def)
  then have "replicate 31 0 @ [0xa7] \<noteq> zeroCredentialHash" by metis
  moreover have "length (replicate 31 0 @ [0xa7 :: byte]) = 32" by simp
  ultimately show ?thesis using digest_roundtrip by blast
qed

section \<open>The administrator's key\<close>

text \<open>What is known of the output of SHA-256 in hexadecimal: 64 lower case digits.\<close>

definition hexOutput :: "(string \<Rightarrow> string) \<Rightarrow> bool" where
  "hexOutput sha256hex = (\<forall>key. wellFormedHex (sha256hex key) \<and> ToLower (sha256hex key) = sha256hex key)"

lemma decodeHex_eq_iff:
  "wellFormedHex a \<Longrightarrow> wellFormedHex b \<Longrightarrow> decodeHex a = decodeHex b \<longleftrightarrow> ToLower a = ToLower b"
proof
  assume ok: "wellFormedHex a" "wellFormedHex b" and eq: "ToLower a = ToLower b"
  have len: "length (decodeHex a) = 32" for a by (simp add: decodeHex_def)
  have "hexString (decodeHex a) = hexString (decodeHex b)" using ok eq by (simp add: hexString_decode)
  then show "decodeHex a = decodeHex b" using decode_hexString(2) [OF len] by metis
qed (metis hexString_decode)

lemma isHex_toLower: "isHex (toLowerChar c) \<Longrightarrow> isHex c"
  by (auto simp: isHex_code toLowerChar_def charCode_def split: if_splits)

lemma wellFormedHex_lower: "wellFormedHex (ToLower h) \<Longrightarrow> wellFormedHex h"
  by (auto simp: wellFormedHex_def ToLower_def list_all_iff isHex_toLower)

lemma hashCredential_key:
  assumes "hexOutput sha256hex" "TrimSpace key \<noteq> []"
  shows "hashCredential sha256hex key = decodeHex (sha256hex (TrimSpace key))"
  using assms parse_printed [of "sha256hex (TrimSpace key)"]
  by (simp add: hashCredential_def HashAPIKey_def hexOutput_def Let_def apiKeyHashPrefix_def credentialHashPrefix_def)

lemma decodeHex_length [simp]: "length (decodeHex h) = 32"
  by (simp add: decodeHex_def)

lemma fixed_digest_lengths [simp]: "length zeroCredentialHash = 32" "length invalidCredentialHash = 32"
  by (simp_all add: zeroCredentialHash_def invalidCredentialHash_def)

lemma match_usable:
  assumes "length current = 32" "length expected = 32" "expected \<noteq> zeroCredentialHash" "expected \<noteq> invalidCredentialHash"
  shows "constantTimeCredentialHashMatch current ok expected True \<longleftrightarrow> ok \<and> current = expected"
  unfolding constant_time_match_exact [OF assms(1,2)] using assms(3,4) by (auto simp: usable_def)

text \<open>
  With an administrator's key configured, a request passes \<open>AdminAuthMiddleware\<close> exactly when it
  presents a key whose SHA-256 digest is the configured one: the hexadecimal digits after the prefix \<open>sha256:\<close>, in either
  case, when the configured value has that prefix, and else the digest of the configured plain key. The presented key
  must be non-empty, and its digest is assumed to be neither all zero nor all ones, the two values the comparison
  reserves. Without a configured key every request is refused with 503, and a request that does not pass with 401.
\<close>

theorem admin_key_exact:
  assumes "hexOutput sha256hex"
    and "decodeHex (sha256hex (TrimSpace header)) \<notin> {zeroCredentialHash, invalidCredentialHash}"
  shows "AdminAuthMiddleware sha256hex adminAPIKey header =
    (if TrimSpace adminAPIKey = [] then Some 503
     else if TrimSpace header \<noteq> [] \<and>
             (if hasCredentialHashPrefix adminAPIKey
              then ToLower (trimCredentialHashPrefix adminAPIKey) = sha256hex (TrimSpace header)
              else sha256hex (TrimSpace adminAPIKey) = sha256hex (TrimSpace header))
     then None else Some 401)"
proof (cases "TrimSpace adminAPIKey = [] \<or> TrimSpace header = []")
  case True
  then show ?thesis by (auto simp: AdminAuthMiddleware_def adminCredentialMatches_def)
next
  case False
  let ?right = "decodeHex (sha256hex (TrimSpace header))"
  have sha: "wellFormedHex (sha256hex k)" "ToLower (sha256hex k) = sha256hex k" for k
    using assms(1) by (simp_all add: hexOutput_def)
  have right: "hashCredential sha256hex header = ?right" using hashCredential_key [OF assms(1)] False by blast
  have usable: "\<not> isZeroCredentialHash ?right" using assms(2) by (simp add: isZeroCredentialHash_def)
  have match: "constantTimeCredentialHashMatch d ok ?right True \<longleftrightarrow> ok \<and> d = ?right" if "length d = 32" for d ok
    using match_usable [OF that] assms(2) by simp
  have prefix: "hasCredentialHashPrefix (TrimSpace adminAPIKey) = hasCredentialHashPrefix adminAPIKey"
    "trimCredentialHashPrefix (TrimSpace adminAPIKey) = trimCredentialHashPrefix adminAPIKey"
    by (simp_all add: hasCredentialHashPrefix_def trimCredentialHashPrefix_def)
  have "fst (adminCredentialMatches sha256hex adminAPIKey header) \<longleftrightarrow>
      (if hasCredentialHashPrefix adminAPIKey
       then ToLower (trimCredentialHashPrefix adminAPIKey) = sha256hex (TrimSpace header)
       else sha256hex (TrimSpace adminAPIKey) = sha256hex (TrimSpace header))"
  proof (cases "hasCredentialHashPrefix adminAPIKey")
    case True
    let ?h = "trimCredentialHashPrefix adminAPIKey"
    have "wellFormedHex ?h" if "ToLower ?h = sha256hex (TrimSpace header)" using that sha(1) wellFormedHex_lower by metis
    moreover have "decodeHex ?h = ?right \<longleftrightarrow> ToLower ?h = sha256hex (TrimSpace header)" if "wellFormedHex ?h"
      using decodeHex_eq_iff [OF that sha(1)] sha(2) by simp
    ultimately show ?thesis
      using False True
      by (auto simp: adminCredentialMatches_def adminStoredCredentialHash_def Let_def prefix right usable match
          parseCredentialHash_cases)
  next
    case plain: False
    then show ?thesis
      using False hashCredential_key [OF assms(1), of "TrimSpace adminAPIKey"]
      by (simp add: adminCredentialMatches_def adminStoredCredentialHash_def Let_def prefix right usable match
          decodeHex_eq_iff sha)
  qed
  then show ?thesis using False by (simp add: AdminAuthMiddleware_def)
qed

text \<open>A stand-in for SHA-256, and the two forms of a configured key.\<close>

definition lengthDigest :: "string \<Rightarrow> string" where
  "lengthDigest key = hexString (replicate 31 0 @ [of_nat (length key)])"

lemma hexString_lower: "ToLower (hexString d) = hexString d"
  by (induction d) (simp_all add: hexString_def hexByte_def ToLower_def hexDigit_facts byte_nibbles)

lemma lengthDigest_output: "hexOutput lengthDigest"
  unfolding hexOutput_def lengthDigest_def using decode_hexString(1) hexString_lower by simp

lemma decode_lengthDigest: "decodeHex (lengthDigest key) = replicate 31 0 @ [of_nat (length key)]"
  unfolding lengthDigest_def by (rule decode_hexString(2)) simp

theorem admin_key_exact_witness:
  "AdminAuthMiddleware lengthDigest ''root-key'' '' root-key '' = None
   \<and> AdminAuthMiddleware lengthDigest ''root-key'' ''guess'' = Some 401"
proof -
  have trim: "TrimSpace '' root-key '' = ''root-key''" "TrimSpace ''root-key'' = ''root-key''" "TrimSpace ''guess'' = ''guess''"
    "\<not> hasCredentialHashPrefix ''root-key''" by code_simp+
  have differ: "lengthDigest ''root-key'' \<noteq> lengthDigest ''guess''"
  proof
    assume "lengthDigest ''root-key'' = lengthDigest ''guess''"
    then have "last (decodeHex (lengthDigest ''root-key'')) = last (decodeHex (lengthDigest ''guess''))" by (rule arg_cong)
    then show False by (simp add: decode_lengthDigest)
  qed
  have ends: "last zeroCredentialHash = 0" "last invalidCredentialHash = 0xff"
    by (simp_all add: zeroCredentialHash_def invalidCredentialHash_def)
  have "decodeHex (lengthDigest ''root-key'') \<notin> {zeroCredentialHash, invalidCredentialHash}"
    "decodeHex (lengthDigest ''guess'') \<notin> {zeroCredentialHash, invalidCredentialHash}"
    unfolding decode_lengthDigest by (auto dest!: arg_cong [of _ _ last] simp: ends simp del: last.simps)
  then show ?thesis
    using differ admin_key_exact [OF lengthDigest_output, of "'' root-key ''" "''root-key''"]
      admin_key_exact [OF lengthDigest_output, of "''guess''" "''root-key''"] by (simp add: trim)
qed

end
