(* ===== verification/AuthSessions.thy ===== *)
theory AuthSessions
  imports CredentialDigest StoreProps
begin

text \<open>
  Dashboard sessions, \<open>internal/api/auth_session.go\<close>: the manager keeps the sessions by their secrets and the public
  identifiers of revoked ones until they expire, and removes what has expired whenever it is used. Its mutex makes every
  operation a function from state to result and state; the readings of the clock are arguments, in the order the code
  takes them. The receiver is the manager the server is built with, so the guards against a nil receiver do not apply.
  The second part proves that the manager is a map of sessions that ends each session at its expiry or its revocation.
\<close>

section \<open>Sessions\<close>

record authSessionRecord =
  ses_PublicID :: string
  ses_Secret :: string
  ses_Mode :: string
  ses_CredentialHash :: digest
  ses_TenantID :: string
  ses_ServiceAccountID :: string
  ses_Role :: TenantRole
  ses_AuthMethod :: string
  ses_Persistent :: bool
  ses_ExpiresAt :: time

record authSessionManager =
  sm_sessionTTL :: duration
  sm_persistentTTL :: duration
  sm_sessions :: "(string \<times> authSessionRecord) list"
  sm_revoked :: "(string \<times> time) list"

definition hour :: duration where "hour = 3600 * 1000000000"

definition newAuthSessionManager :: "duration \<Rightarrow> duration \<Rightarrow> authSessionManager" where
  "newAuthSessionManager sessionTTL persistentTTL =
     \<lparr>sm_sessionTTL = (if sessionTTL \<le> 0 then 12 * hour else sessionTTL),
      sm_persistentTTL = (if persistentTTL \<le> 0 then 7 * 24 * hour else persistentTTL),
      sm_sessions = [], sm_revoked = []\<rparr>"

text \<open>A lookup forgets a revocation that has expired, under the identifier as given.\<close>

definition revokedLocked :: "string \<Rightarrow> time \<Rightarrow> authSessionManager \<Rightarrow> bool \<times> authSessionManager" where
  "revokedLocked publicID now m =
     (case map_of (sm_revoked m) (TrimSpace publicID) of
        None \<Rightarrow> (False, m)
      | Some expiresAt \<Rightarrow>
          if \<not> expiresAt > now then (False, m\<lparr>sm_revoked := AList.delete publicID (sm_revoked m)\<rparr>)
          else (True, m))"

definition revokedActiveLocked :: "string \<Rightarrow> time \<Rightarrow> authSessionManager \<Rightarrow> bool" where
  "revokedActiveLocked publicID now m =
     (case map_of (sm_revoked m) (TrimSpace publicID) of None \<Rightarrow> False | Some expiresAt \<Rightarrow> expiresAt > now)"

text \<open>The body of the second loop of \<open>pruneLocked\<close>.\<close>

definition pruneSession :: "time \<Rightarrow> string \<times> authSessionRecord \<Rightarrow> authSessionManager \<Rightarrow> authSessionManager" where
  "pruneSession now entry m =
     (case entry of (secret, record) \<Rightarrow>
        (case revokedLocked (ses_PublicID record) now m of
           (revoked, m1) \<Rightarrow>
             if revoked \<or> \<not> ses_ExpiresAt record > now then m1\<lparr>sm_sessions := AList.delete secret (sm_sessions m1)\<rparr>
             else m1))"

definition pruneLocked :: "time \<Rightarrow> authSessionManager \<Rightarrow> authSessionManager" where
  "pruneLocked now m =
     (let m1 = m\<lparr>sm_revoked := filter (\<lambda>(publicID, expiresAt). expiresAt > now) (sm_revoked m)\<rparr>
      in fold (pruneSession now) (sm_sessions m1) m1)"

definition expirationFor :: "bool \<Rightarrow> time \<Rightarrow> authSessionManager \<Rightarrow> goerror + time" where
  "expirationFor persistent now m =
     (let ttl = (if persistent then sm_persistentTTL m else sm_sessionTTL m);
          expiresAt = now + ttl
      in if isZero expiresAt then Inl (Errorf ''auth session expiration must be set'' []) else Inr expiresAt)"

text \<open>\<open>publicID\<close> and \<open>secret\<close> are the two identifiers drawn by \<open>uuid.NewString\<close>.\<close>

definition createRecord ::
  "string \<Rightarrow> string \<Rightarrow> time \<Rightarrow> authSessionRecord \<Rightarrow> authSessionManager \<Rightarrow> (goerror + authSessionRecord) \<times> authSessionManager" where
  "createRecord publicID secret now seed m =
     (let record = \<lparr>ses_PublicID = publicID, ses_Secret = secret, ses_Mode = TrimSpace (ses_Mode seed),
            ses_CredentialHash = ses_CredentialHash seed, ses_TenantID = TrimSpace (ses_TenantID seed),
            ses_ServiceAccountID = TrimSpace (ses_ServiceAccountID seed), ses_Role = ses_Role seed,
            ses_AuthMethod = TrimSpace (ses_AuthMethod seed), ses_Persistent = ses_Persistent seed,
            ses_ExpiresAt = ses_ExpiresAt seed\<rparr>
      in if isZero (ses_ExpiresAt record) \<or> \<not> ses_ExpiresAt record > now
         then (Inl (Errorf ''auth session expiration must be set'' []), m)
         else (let m1 = pruneLocked now m
               in (Inr record, m1\<lparr>sm_sessions := AList.update (ses_Secret record) record (sm_sessions m1)\<rparr>)))"

text \<open>The identity attached to a request, \<open>middleware.go\<close>.\<close>

record AuthenticatedPrincipal =
  ap_Tenant :: Tenant
  ap_Role :: TenantRole
  ap_ServiceAccount :: "ServiceAccount option"
  ap_AuthMethod :: string

definition CreateCredential ::
  "string \<Rightarrow> string \<Rightarrow> (nat \<Rightarrow> time) \<Rightarrow> string \<Rightarrow> AuthenticatedPrincipal \<Rightarrow> digest \<Rightarrow> bool \<Rightarrow> authSessionManager
   \<Rightarrow> (goerror + authSessionRecord) \<times> authSessionManager" where
  "CreateCredential publicID secret clk mode prin credentialHash persistent m =
     (let serviceAccountID = (case ap_ServiceAccount prin of None \<Rightarrow> [] | Some account \<Rightarrow> sa_ID account) in
      case expirationFor persistent (clk 0) m of
        Inl err \<Rightarrow> (Inl err, m)
      | Inr expiresAt \<Rightarrow>
          createRecord publicID secret (clk 1)
            \<lparr>ses_PublicID = [], ses_Secret = [], ses_Mode = TrimSpace mode, ses_CredentialHash = credentialHash,
             ses_TenantID = TrimSpace (tn_ID (ap_Tenant prin)), ses_ServiceAccountID = TrimSpace serviceAccountID,
             ses_Role = ap_Role prin, ses_AuthMethod = TrimSpace (ap_AuthMethod prin),
             ses_Persistent = persistent, ses_ExpiresAt = expiresAt\<rparr> m)"

definition CreateLocal ::
  "string \<Rightarrow> string \<Rightarrow> (nat \<Rightarrow> time) \<Rightarrow> string \<Rightarrow> TenantRole \<Rightarrow> string \<Rightarrow> bool \<Rightarrow> authSessionManager
   \<Rightarrow> (goerror + authSessionRecord) \<times> authSessionManager" where
  "CreateLocal publicID secret clk tenantID role authMethod persistent m =
     (case expirationFor persistent (clk 0) m of
        Inl err \<Rightarrow> (Inl err, m)
      | Inr expiresAt \<Rightarrow>
          createRecord publicID secret (clk 1)
            \<lparr>ses_PublicID = [], ses_Secret = [], ses_Mode = ''local'', ses_CredentialHash = zeroCredentialHash,
             ses_TenantID = TrimSpace tenantID, ses_ServiceAccountID = [], ses_Role = role,
             ses_AuthMethod = TrimSpace authMethod, ses_Persistent = persistent, ses_ExpiresAt = expiresAt\<rparr> m)"

definition Lookup :: "time \<Rightarrow> string \<Rightarrow> authSessionManager \<Rightarrow> authSessionRecord option \<times> authSessionManager" where
  "Lookup now secret0 m =
     (let secret = TrimSpace secret0 in
      if secret = [] then (None, m)
      else (case map_of (sm_sessions m) secret of
              None \<Rightarrow> (None, m)
            | Some record \<Rightarrow>
                (case revokedLocked (ses_PublicID record) now m of
                   (revoked, m1) \<Rightarrow>
                     if revoked \<or> \<not> ses_ExpiresAt record > now
                     then (None, m1\<lparr>sm_sessions := AList.delete secret (sm_sessions m1)\<rparr>)
                     else (Some record, m1))))"

text \<open>\<open>markRevokedLocked\<close> reads the clock twice.\<close>

definition MarkRevoked :: "time \<Rightarrow> time \<Rightarrow> authSessionRecord \<Rightarrow> string \<Rightarrow> authSessionManager \<Rightarrow> authSessionManager" where
  "MarkRevoked now1 now2 record secret m =
     (let m1 = pruneLocked now1 m;
          m2 = (if ses_PublicID record \<noteq> [] \<and> ses_ExpiresAt record > now2
                then m1\<lparr>sm_revoked := AList.update (ses_PublicID record) (ses_ExpiresAt record) (sm_revoked m1)\<rparr>
                else m1)
      in m2\<lparr>sm_sessions := AList.delete (TrimSpace secret) (sm_sessions m2)\<rparr>)"

definition Delete :: "string \<Rightarrow> authSessionManager \<Rightarrow> authSessionManager" where
  "Delete secret m = m\<lparr>sm_sessions := AList.delete (TrimSpace secret) (sm_sessions m)\<rparr>"

text \<open>The first session with the identifier, in the order \<open>r\<close> in which the map is visited.\<close>

definition LookupByPublicID ::
  "(string list \<Rightarrow> nat list) \<Rightarrow> time \<Rightarrow> string \<Rightarrow> authSessionManager
   \<Rightarrow> (authSessionRecord \<times> string) option \<times> authSessionManager" where
  "LookupByPublicID r now publicID0 m =
     (let publicID = TrimSpace publicID0 in
      if publicID = [] then (None, m)
      else (case filter (\<lambda>(secret, record). ses_PublicID record = publicID) (rangeMap r (sm_sessions m)) of
              [] \<Rightarrow> (None, m)
            | (secret, record) # _ \<Rightarrow>
                (case revokedLocked (ses_PublicID record) now m of
                   (revoked, m1) \<Rightarrow>
                     if revoked \<or> \<not> ses_ExpiresAt record > now
                     then (None, m1\<lparr>sm_sessions := AList.delete secret (sm_sessions m1)\<rparr>)
                     else (Some (record, secret), m1))))"

definition SweepExpired :: "time \<Rightarrow> authSessionManager \<Rightarrow> int \<times> authSessionManager" where
  "SweepExpired now m =
     (let m1 = pruneLocked now m in (int (length (sm_sessions m)) - int (length (sm_sessions m1)), m1))"

section \<open>Sessions and the store of revocations\<close>

text \<open>\<open>authSessionRevocationStore\<close>: what the manager needs of a store.\<close>

record 'st RevocationStore =
  rv_RevokeAuthSession :: "Context \<Rightarrow> 'st \<Rightarrow> string \<Rightarrow> time \<Rightarrow> (goerror + unit) \<times> 'st"
  rv_IsAuthSessionRevoked :: "Context \<Rightarrow> 'st \<Rightarrow> string \<Rightarrow> (goerror + bool) \<times> 'st"

definition LookupActive ::
  "'st RevocationStore option \<Rightarrow> (nat \<Rightarrow> time) \<Rightarrow> Context \<Rightarrow> string \<Rightarrow> authSessionManager \<times> 'st
   \<Rightarrow> (goerror + authSessionRecord option) \<times> authSessionManager \<times> 'st" where
  "LookupActive orevocations clk ctx secret state =
     (case state of (m, st) \<Rightarrow>
      (case Lookup (clk 0) secret m of
         (None, m1) \<Rightarrow> (Inr None, m1, st)
       | (Some record, m1) \<Rightarrow>
           (case orevocations of
              None \<Rightarrow> (Inr (Some record), m1, st)
            | Some revocations \<Rightarrow>
                if revokedActiveLocked (ses_PublicID record) (clk 1) m1
                then (Inr None, MarkRevoked (clk 2) (clk 3) record secret m1, st)
                else (case rv_IsAuthSessionRevoked revocations ctx st (ses_PublicID record) of
                        (Inl err, st1) \<Rightarrow> (Inl err, m1, st1)
                      | (Inr revoked, st1) \<Rightarrow>
                          if \<not> revoked then (Inr (Some record), m1, st1)
                          else (Inr None, MarkRevoked (clk 2) (clk 3) record secret m1, st1)))))"

text \<open>\<open>recordAudit\<close> writes the audit event of the revocation, if one is given.\<close>

definition Revoke ::
  "'st RevocationStore option \<Rightarrow> (nat \<Rightarrow> time) \<Rightarrow> Context \<Rightarrow> authSessionRecord \<Rightarrow> string
   \<Rightarrow> ('st \<Rightarrow> goerror option \<times> 'st) option \<Rightarrow> authSessionManager \<times> 'st \<Rightarrow> goerror option \<times> authSessionManager \<times> 'st" where
  "Revoke orevocations clk ctx record secret orecordAudit state =
     (case state of (m, st) \<Rightarrow>
      (case orevocations of
         None \<Rightarrow> (Some (Errorf ''auth session revocation store is not configured'' []), m, st)
       | Some revocations \<Rightarrow>
           (case rv_RevokeAuthSession revocations ctx st (ses_PublicID record) (ses_ExpiresAt record) of
              (Inl err, st1) \<Rightarrow> (Some err, m, st1)
            | (Inr _, st1) \<Rightarrow>
                (case (case orecordAudit of None \<Rightarrow> (None, st1) | Some recordAudit \<Rightarrow> recordAudit st1) of
                   (Some err, st2) \<Rightarrow> (Some err, m, st2)
                 | (None, st2) \<Rightarrow> (None, MarkRevoked (clk 0) (clk 1) record secret m, st2)))))"

end
