(* ===== verification/AuditRetry.thy ===== *)
theory AuditRetry
  imports AuthSessions "HOL-Library.Multiset"
begin

text \<open>
  Audit events, \<open>internal/api/reports.go\<close> and \<open>audit_retry.go\<close>: an event is saved twice at most by the request that
  caused it, then appended to a queue file that a background task flushes. The state of the model is the store, the
  content of the queue file and the background saves that have not run yet. A call of the file system fails when
  \<open>os_fail\<close> says so at its number, and a failing write leaves a part of its bytes behind; \<open>marshal\<close> and \<open>unmarshal\<close> are
  \<open>encoding/json\<close>. The save operation of the store is an argument.
\<close>

section \<open>The context of a request\<close>

record RequestContext =
  rc_ctx :: Context
  rc_requestID :: string
  rc_principal :: "AuthenticatedPrincipal option"
  rc_tenant :: "Tenant option"
  rc_awaitAudit :: bool

definition withAwaitAudit :: "RequestContext \<Rightarrow> RequestContext" where
  "withAwaitAudit rc = rc\<lparr>rc_awaitAudit := True\<rparr>"

definition awaitAuditRequested :: "RequestContext \<Rightarrow> bool" where
  "awaitAuditRequested rc = rc_awaitAudit rc"

definition RequestIDFromContext :: "RequestContext \<Rightarrow> string" where
  "RequestIDFromContext rc = rc_requestID rc"

definition ContextWithRequestID :: "RequestContext \<Rightarrow> string \<Rightarrow> RequestContext" where
  "ContextWithRequestID rc requestID0 =
     (let requestID = TrimSpace requestID0 in if requestID = [] then rc else rc\<lparr>rc_requestID := requestID\<rparr>)"

definition RequirePrincipal :: "RequestContext \<Rightarrow> goerror + AuthenticatedPrincipal" where
  "RequirePrincipal rc =
     (case rc_principal rc of
        None \<Rightarrow> Inl (Errorf ''authenticated principal is missing from context'' [])
      | Some prin \<Rightarrow>
          Inr (prin\<lparr>ap_Tenant := cloneTenant (ap_Tenant prin),
                 ap_ServiceAccount := map_option (\<lambda>a. a\<lparr>sa_Metadata := copyMap (sa_Metadata a)\<rparr>) (ap_ServiceAccount prin)\<rparr>))"

definition actorFromContext :: "RequestContext \<Rightarrow> string" where
  "actorFromContext rc =
     (case RequirePrincipal rc of
        Inl _ \<Rightarrow> ''tenant:'' @ TenantIDFromContext (Some (rc_ctx rc))
      | Inr prin \<Rightarrow>
          (case ap_ServiceAccount prin of
             Some account \<Rightarrow> ''service-account:'' @ sa_ID account
           | None \<Rightarrow> ''tenant:'' @ tn_ID (ap_Tenant prin)))"

definition normalizeAuditEvent :: "string \<Rightarrow> time \<Rightarrow> RequestContext \<Rightarrow> AuditEvent \<Rightarrow> AuditEvent" where
  "normalizeAuditEvent uuid now rc event =
     event\<lparr>ae_ID := (if ae_ID event = [] then uuid else ae_ID event),
           ae_CreatedAt := (if isZero (ae_CreatedAt event) then now else ae_CreatedAt event),
           ae_TenantID := (if ae_TenantID event = [] then TenantIDFromContext (Some (rc_ctx rc)) else ae_TenantID event),
           ae_RequestID := (if ae_RequestID event = [] then RequestIDFromContext rc else ae_RequestID event),
           ae_Actor := (if ae_Actor event = [] then actorFromContext rc else ae_Actor event)\<rparr>"

section \<open>The queue file\<close>

record 'st auditState =
  au_store :: 'st
  au_queue :: "string option"
  au_pending :: "(Context \<times> AuditEvent) list"
  au_calls :: nat

record 'st auditEnv =
  ev_save :: "Context \<Rightarrow> 'st \<Rightarrow> AuditEvent \<Rightarrow> (goerror + unit) \<times> 'st"
  ev_marshal :: "AuditEvent \<Rightarrow> goerror + string"
  ev_unmarshal :: "string \<Rightarrow> goerror + AuditEvent"
  os_fail :: "nat \<Rightarrow> goerror option"
  os_partial :: "nat \<Rightarrow> nat"

text \<open>One call of the file system: its number, and the error it answers with, if any.\<close>

definition osStep :: "'st auditEnv \<Rightarrow> 'st auditState \<Rightarrow> goerror option \<times> nat \<times> 'st auditState" where
  "osStep env st = (os_fail env (au_calls st), au_calls st, st\<lparr>au_calls := Suc (au_calls st)\<rparr>)"

definition queueContent :: "'st auditState \<Rightarrow> string" where
  "queueContent st = (case au_queue st of None \<Rightarrow> [] | Some content \<Rightarrow> content)"

definition openAuditRetryRoot :: "'st auditEnv \<Rightarrow> 'st auditState \<Rightarrow> goerror option \<times> 'st auditState" where
  "openAuditRetryRoot env st =
     (case osStep env st of
        (Some err, _, st1) \<Rightarrow> (Some (Wrap ''create audit retry directory: %w'' [] err), st1)
      | (None, _, st1) \<Rightarrow>
          (case osStep env st1 of
             (Some err, _, st2) \<Rightarrow> (Some (Wrap ''open audit retry root: %w'' [] err), st2)
           | (None, _, st2) \<Rightarrow> (None, st2)))"

text \<open>Appending bytes: a failing write appends only a part of them.\<close>

definition appendQueue :: "'st auditEnv \<Rightarrow> string \<Rightarrow> 'st auditState \<Rightarrow> goerror option \<times> 'st auditState" where
  "appendQueue env bytes st =
     (case osStep env st of
        (Some err, n, st1) \<Rightarrow> (Some err, st1\<lparr>au_queue := Some (queueContent st1 @ take (os_partial env n) bytes)\<rparr>)
      | (None, _, st1) \<Rightarrow> (None, st1\<lparr>au_queue := Some (queueContent st1 @ bytes)\<rparr>))"

definition newline :: char where "newline = char_of (10 :: nat)"

definition queueAuditRetryEvent :: "'st auditEnv \<Rightarrow> AuditEvent \<Rightarrow> 'st auditState \<Rightarrow> goerror option \<times> 'st auditState" where
  "queueAuditRetryEvent env event st =
     (case openAuditRetryRoot env st of
        (Some err, st1) \<Rightarrow> (Some err, st1)
      | (None, st1) \<Rightarrow>
          (case ev_marshal env event of
             Inl err \<Rightarrow> (Some (Wrap ''marshal audit retry event: %w'' [] err), st1)
           | Inr payload \<Rightarrow>
               (case osStep env st1 of
                  (Some err, _, st2) \<Rightarrow> (Some (Wrap ''open audit retry queue: %w'' [] err), st2)
                | (None, _, st2) \<Rightarrow>
                    (case appendQueue env (payload @ [newline]) (st2\<lparr>au_queue := Some (queueContent st2)\<rparr>) of
                       (Some err, st3) \<Rightarrow> (Some (Wrap ''append audit retry queue: %w'' [] err), st3)
                     | (None, st3) \<Rightarrow>
                         (case osStep env st3 of
                            (Some err, _, st4) \<Rightarrow> (Some (Wrap ''close audit retry queue: %w'' [] err), st4)
                          | (None, _, st4) \<Rightarrow> (None, st4))))))"

section \<open>Saving\<close>

definition saveEvent :: "'st auditEnv \<Rightarrow> Context \<Rightarrow> AuditEvent \<Rightarrow> 'st auditState \<Rightarrow> goerror option \<times> 'st auditState" where
  "saveEvent env ctx event st =
     (case ev_save env ctx (au_store st) event of
        (Inl err, s1) \<Rightarrow> (Some err, st\<lparr>au_store := s1\<rparr>)
      | (Inr _, s1) \<Rightarrow> (None, st\<lparr>au_store := s1\<rparr>))"

definition persistAuditEvent :: "'st auditEnv \<Rightarrow> Context \<Rightarrow> AuditEvent \<Rightarrow> 'st auditState \<Rightarrow> goerror option \<times> 'st auditState" where
  "persistAuditEvent env ctx event st =
     (case saveEvent env ctx event st of
        (None, st1) \<Rightarrow> (None, st1)
      | (Some firstErr, st1) \<Rightarrow>
          (case saveEvent env ctx event st1 of
             (None, st2) \<Rightarrow> (None, st2)
           | (Some retryErr, st2) \<Rightarrow>
               (case queueAuditRetryEvent env event st2 of
                  (Some queueErr, st3) \<Rightarrow>
                    (Some (Wrap ''save audit event: %w; retry: %v; queue: %w'' [] (ErrJoin [firstErr, retryErr, queueErr])), st3)
                | (None, st3) \<Rightarrow> (None, st3))))"

text \<open>The context of a background save: the tenant and request of the event, under the background context \<open>bg\<close>.\<close>

definition backgroundTaskContext :: "Context \<Rightarrow> RequestContext \<Rightarrow> string \<Rightarrow> Context" where
  "backgroundTaskContext bg rc tenantID0 =
     (let tenantID = (if TrimSpace tenantID0 = [] then TenantIDFromContext (Some (rc_ctx rc)) else tenantID0)
      in ContextWithTenantID bg tenantID)"

text \<open>
  \<open>recordAuditEvent\<close>: at once when the caller waits for the audit, else as a goroutine, which is pending until
  \<open>runPending\<close> runs it. An error is only logged.
\<close>

definition recordAuditEvent ::
  "'st auditEnv \<Rightarrow> string \<Rightarrow> time \<Rightarrow> Context \<Rightarrow> RequestContext \<Rightarrow> AuditEvent \<Rightarrow> 'st auditState \<Rightarrow> 'st auditState" where
  "recordAuditEvent env uuid now bg rc event0 st =
     (let event = normalizeAuditEvent uuid now rc event0 in
      if awaitAuditRequested rc then snd (persistAuditEvent env (rc_ctx rc) event st)
      else st\<lparr>au_pending := au_pending st @ [(backgroundTaskContext bg rc (ae_TenantID event), event)]\<rparr>)"

definition runPending :: "'st auditEnv \<Rightarrow> nat \<Rightarrow> 'st auditState \<Rightarrow> 'st auditState" where
  "runPending env i st =
     (if i < length (au_pending st)
      then (case au_pending st ! i of (ctx, event) \<Rightarrow>
              snd (persistAuditEvent env ctx event (st\<lparr>au_pending := take i (au_pending st) @ drop (Suc i) (au_pending st)\<rparr>)))
      else st)"

section \<open>Flushing the queue\<close>

text \<open>The lines of the file, as \<open>bufio.Scanner\<close> gives them; it gives up at a line of 64 KiB.\<close>

fun splitLines :: "string \<Rightarrow> string list" where
  "splitLines [] = [[]]"
| "splitLines (c # cs) =
     (if c = newline then [] # splitLines cs
      else (case splitLines cs of [] \<Rightarrow> [[c]] | l # ls \<Rightarrow> (c # l) # ls))"

definition maxScanTokenSize :: nat where "maxScanTokenSize = 64 * 1024"

definition scanned :: "string \<Rightarrow> string list \<times> bool" where
  "scanned payload =
     (let ls = splitLines payload
      in (takeWhile (\<lambda>l. length l < maxScanTokenSize) ls, \<exists>l \<in> set ls. length l \<ge> maxScanTokenSize))"

definition auditRetryFlushContext :: "string \<Rightarrow> Context" where
  "auditRetryFlushContext tenantID = ContextWithTenantID \<lparr>ctx_Err = None, ctx_Tenant = None\<rparr> tenantID"

text \<open>The body of the scan loop: the lines to keep and the store.\<close>

definition flushLine :: "'st auditEnv \<Rightarrow> string \<Rightarrow> string list \<times> 'st auditState \<Rightarrow> string list \<times> 'st auditState" where
  "flushLine env line0 = (\<lambda>(failed, st).
     (let line = TrimSpace line0 in
      if line = [] then (failed, st)
      else (case ev_unmarshal env line of
              Inl err \<Rightarrow> (failed, st)
            | Inr event \<Rightarrow>
                (case saveEvent env (auditRetryFlushContext (ae_TenantID event)) event st of
                   (None, st1) \<Rightarrow> (failed, st1)
                 | (Some err, st1) \<Rightarrow> (failed @ [line], st1)))))"

definition joinLines :: "string list \<Rightarrow> string" where
  "joinLines ls = concat (map (\<lambda>l. l @ [newline]) ls)"

text \<open>Rewriting the file: it is truncated when it is opened.\<close>

definition rewriteQueue :: "'st auditEnv \<Rightarrow> string \<Rightarrow> 'st auditState \<Rightarrow> goerror option \<times> 'st auditState" where
  "rewriteQueue env buffer st =
     (case osStep env st of
        (Some err, _, st1) \<Rightarrow> (Some (Wrap ''open audit retry queue for rewrite: %w'' [] err), st1)
      | (None, _, st1) \<Rightarrow>
          (case appendQueue env buffer (st1\<lparr>au_queue := Some []\<rparr>) of
             (Some err, st2) \<Rightarrow> (Some (Wrap ''rewrite audit retry queue payload: %w'' [] err), st2)
           | (None, st2) \<Rightarrow>
               (case osStep env st2 of
                  (Some err, _, st3) \<Rightarrow> (Some (Wrap ''sync rewritten audit retry queue: %w'' [] err), st3)
                | (None, _, st3) \<Rightarrow>
                    (case osStep env st3 of
                       (Some err, _, st4) \<Rightarrow> (Some (Wrap ''close rewritten audit retry queue: %w'' [] err), st4)
                     | (None, _, st4) \<Rightarrow> (None, st4)))))"

definition removeQueue :: "'st auditEnv \<Rightarrow> 'st auditState \<Rightarrow> goerror option \<times> 'st auditState" where
  "removeQueue env st =
     (case osStep env st of
        (Some err, _, st1) \<Rightarrow> (Some (Wrap ''remove audit retry queue: %w'' [] err), st1)
      | (None, _, st1) \<Rightarrow> (None, st1\<lparr>au_queue := None\<rparr>))"

definition flushPayload :: "'st auditEnv \<Rightarrow> string \<Rightarrow> 'st auditState \<Rightarrow> goerror option \<times> 'st auditState" where
  "flushPayload env payload st =
     (case scanned payload of
        (ls, tooLong) \<Rightarrow>
          (case fold (flushLine env) ls ([], st) of
             (failed, st1) \<Rightarrow>
               if tooLong then (Some (Wrap ''scan audit retry queue: %w'' [] (Errorf ''bufio.Scanner: token too long'' [])), st1)
               else if failed = [] then removeQueue env st1
               else rewriteQueue env (joinLines failed) st1))"

definition flushAuditRetryQueue :: "'st auditEnv \<Rightarrow> 'st auditState \<Rightarrow> goerror option \<times> 'st auditState" where
  "flushAuditRetryQueue env st =
     (case openAuditRetryRoot env st of
        (Some err, st1) \<Rightarrow> (Some err, st1)
      | (None, st1) \<Rightarrow>
          (case au_queue st1 of
             None \<Rightarrow> (None, st1)
           | Some payload \<Rightarrow>
               (case osStep env st1 of
                  (Some err, _, st2) \<Rightarrow> (Some (Wrap ''read audit retry queue: %w'' [] err), st2)
                | (None, _, st2) \<Rightarrow>
                    (case osStep env st2 of
                       (readErr, _, st3) \<Rightarrow>
                         (case osStep env st3 of
                            (Some err, _, st4) \<Rightarrow> (Some (Wrap ''close audit retry queue reader: %w'' [] err), st4)
                          | (None, _, st4) \<Rightarrow>
                              (case readErr of
                                 Some err \<Rightarrow> (Some (Wrap ''read audit retry queue payload: %w'' [] err), st4)
                               | None \<Rightarrow> flushPayload env payload st4))))))"

end
