(* ===== verification/TenantAuth.thy ===== *)
theory TenantAuth
  imports AuditRetry
begin

text \<open>
  Authentication and authorization of API requests, \<open>internal/api/middleware.go\<close>: the tenant middleware, which
  authenticates a request by an API key, a service account key or a dashboard session, and the guards for roles and
  permissions. The store, the server's audit trail and the clock are arguments; \<open>AuthStore\<close> is what the middleware uses of
  the first two. A handler that is reached is the outcome \<open>Admitted\<close> with the context it is given, a response the
  outcome \<open>Refused\<close> with its status and code. Log lines and response bodies are left out.
\<close>

section \<open>The text of errors\<close>

fun sprintf :: "string \<Rightarrow> string list \<Rightarrow> string" where
  "sprintf [] args = []"
| "sprintf [c] args = [c]"
| "sprintf (c # v # cs) args =
     (if c = CHR ''%'' then
        (case args of [] \<Rightarrow> sprintf cs [] | a # as \<Rightarrow> (if v = CHR ''q'' then [CHR 0x22] @ a @ [CHR 0x22] else a) @ sprintf cs as)
      else c # sprintf (v # cs) args)"

fun errorText :: "goerror \<Rightarrow> string" where
  "errorText (Errorf f args) = sprintf f args"
| "errorText (ErrorfTime f t) = sprintf f []"
| "errorText (Wrap f args err) = sprintf f (args @ [errorText err])"
| "errorText (ErrJoin errs) = concat (map (\<lambda>err. errorText err @ [newline]) errs)"

definition IsNotFound :: "goerror \<Rightarrow> bool" where
  "IsNotFound err = Contains (ToLower (errorText err)) ''not found''"

definition firstNonEmpty :: "string list \<Rightarrow> string" where
  "firstNonEmpty vs = (case filter (\<lambda>v. TrimSpace v \<noteq> []) vs of [] \<Rightarrow> [] | v # _ \<Rightarrow> TrimSpace v)"

section \<open>The store the middleware uses\<close>

record 'st AuthStore =
  at_GetTenant :: "Context \<Rightarrow> 'st \<Rightarrow> string \<Rightarrow> (goerror + Tenant) \<times> 'st"
  at_ListTenants :: "Context \<Rightarrow> 'st \<Rightarrow> (goerror + Tenant list) \<times> 'st"
  at_LookupCredentialByHash :: "(Context \<Rightarrow> 'st \<Rightarrow> string \<Rightarrow> (goerror + CredentialLookupResult option) \<times> 'st) option"
  at_revocations :: "'st RevocationStore"
  at_persistAudit :: "Context \<Rightarrow> AuditEvent \<Rightarrow> 'st \<Rightarrow> goerror option \<times> 'st"

section \<open>Credentials\<close>

definition serviceAccountUsable :: "ServiceAccount \<Rightarrow> time \<Rightarrow> bool" where
  "serviceAccountUsable account now =
     (if \<not> sa_Active account then False
      else if \<not> isZero (sa_ExpiresAt account) \<and> now > sa_ExpiresAt account then False
      else True)"

text \<open>The inner loop of \<open>fallbackCredentialLookup\<close>: the first usable account that matches.\<close>

fun fallbackAccounts :: "(string \<Rightarrow> string) \<Rightarrow> time \<Rightarrow> digest \<Rightarrow> Tenant \<Rightarrow> ServiceAccount list \<Rightarrow> CredentialLookupResult option" where
  "fallbackAccounts sha256hex now expected tenant [] = None"
| "fallbackAccounts sha256hex now expected tenant (account # accounts) =
     (if \<not> serviceAccountUsable account now
         \<or> \<not> storedCredentialHashMatches sha256hex (sa_APIKeyHash account) (sa_APIKey account) expected
      then fallbackAccounts sha256hex now expected tenant accounts
      else (case filter (\<lambda>a. sa_ID a = sa_ID account) (tn_ServiceAccounts (cloneTenant tenant)) of
              [] \<Rightarrow> fallbackAccounts sha256hex now expected tenant accounts
            | clone # _ \<Rightarrow> Some \<lparr>cl_Tenant = cloneTenant tenant, cl_ServiceAccount = Some clone\<rparr>))"

fun fallbackCredentialLookup :: "(string \<Rightarrow> string) \<Rightarrow> time \<Rightarrow> Tenant list \<Rightarrow> digest \<Rightarrow> CredentialLookupResult option" where
  "fallbackCredentialLookup sha256hex now [] expected = None"
| "fallbackCredentialLookup sha256hex now (tenant # tenants) expected =
     (if \<not> tn_Active tenant then fallbackCredentialLookup sha256hex now tenants expected
      else if storedCredentialHashMatches sha256hex (tn_APIKeyHash tenant) (tn_APIKey tenant) expected
      then Some \<lparr>cl_Tenant = cloneTenant tenant, cl_ServiceAccount = None\<rparr>
      else (case fallbackAccounts sha256hex now expected tenant (tn_ServiceAccounts tenant) of
              Some res \<Rightarrow> Some res
            | None \<Rightarrow> fallbackCredentialLookup sha256hex now tenants expected))"

definition lookupCredentialResultByHash ::
  "(string \<Rightarrow> string) \<Rightarrow> 'st AuthStore \<Rightarrow> time \<Rightarrow> Context \<Rightarrow> digest \<Rightarrow> 'st \<Rightarrow> (goerror + CredentialLookupResult option) \<times> 'st" where
  "lookupCredentialResultByHash sha256hex sto now ctx value st =
     (if isZeroCredentialHash value then (Inr None, st)
      else (case at_LookupCredentialByHash sto of
              Some lookup \<Rightarrow> lookup ctx st (credentialHashString value)
            | None \<Rightarrow>
                (case at_ListTenants sto ctx st of
                   (Inl err, st1) \<Rightarrow> (Inl (Wrap ''list tenants for credential lookup: %w'' [] err), st1)
                 | (Inr tenants, st1) \<Rightarrow> (Inr (fallbackCredentialLookup sha256hex now tenants value), st1))))"

definition lookupCredentialResultByAPIKey ::
  "(string \<Rightarrow> string) \<Rightarrow> 'st AuthStore \<Rightarrow> time \<Rightarrow> Context \<Rightarrow> string \<Rightarrow> 'st \<Rightarrow> (goerror + CredentialLookupResult option) \<times> 'st" where
  "lookupCredentialResultByAPIKey sha256hex sto now ctx apiKey0 st =
     (let apiKey = TrimSpace apiKey0 in
      if apiKey = [] then (Inr None, st)
      else lookupCredentialResultByHash sha256hex sto now ctx (hashCredential sha256hex apiKey) st)"

definition findTenantPrincipalByAPIKey ::
  "(string \<Rightarrow> string) \<Rightarrow> 'st AuthStore \<Rightarrow> time \<Rightarrow> Context \<Rightarrow> string \<Rightarrow> 'st \<Rightarrow> (goerror + AuthenticatedPrincipal option) \<times> 'st" where
  "findTenantPrincipalByAPIKey sha256hex sto now ctx apiKey st =
     (case lookupCredentialResultByAPIKey sha256hex sto now ctx apiKey st of
        (Inl err, st1) \<Rightarrow> (Inl err, st1)
      | (Inr None, st1) \<Rightarrow> (Inr None, st1)
      | (Inr (Some result), st1) \<Rightarrow>
          (if cl_ServiceAccount result \<noteq> None then (Inr None, st1)
           else (Inr (Some \<lparr>ap_Tenant = cl_Tenant result, ap_Role = TenantRoleAdmin, ap_ServiceAccount = None,
                            ap_AuthMethod = ''tenant-api-key''\<rparr>), st1)))"

definition findServiceAccountPrincipalByAPIKey ::
  "(string \<Rightarrow> string) \<Rightarrow> 'st AuthStore \<Rightarrow> time \<Rightarrow> Context \<Rightarrow> string \<Rightarrow> 'st \<Rightarrow> (goerror + AuthenticatedPrincipal option) \<times> 'st" where
  "findServiceAccountPrincipalByAPIKey sha256hex sto now ctx apiKey st =
     (case lookupCredentialResultByAPIKey sha256hex sto now ctx apiKey st of
        (Inl err, st1) \<Rightarrow> (Inl err, st1)
      | (Inr None, st1) \<Rightarrow> (Inr None, st1)
      | (Inr (Some result), st1) \<Rightarrow>
          (case cl_ServiceAccount result of
             None \<Rightarrow> (Inr None, st1)
           | Some account \<Rightarrow>
               (Inr (Some \<lparr>ap_Tenant = cl_Tenant result,
                           ap_Role = (if sa_Role account = [] then TenantRoleViewer else sa_Role account),
                           ap_ServiceAccount = Some account, ap_AuthMethod = ''service-account''\<rparr>), st1)))"

text \<open>The three attempts, each only when the ones before found nobody.\<close>

definition authenticateTenantPrincipal ::
  "(string \<Rightarrow> string) \<Rightarrow> 'st AuthStore \<Rightarrow> time \<Rightarrow> Context \<Rightarrow> string \<Rightarrow> string \<Rightarrow> 'st \<Rightarrow> (goerror + AuthenticatedPrincipal option) \<times> 'st" where
  "authenticateTenantPrincipal sha256hex sto now ctx tenantAPIKey serviceAccountKey st =
     (case findTenantPrincipalByAPIKey sha256hex sto now ctx tenantAPIKey st of
        (Inl err, st1) \<Rightarrow> (Inl err, st1)
      | (Inr (Some prin), st1) \<Rightarrow> (Inr (Some prin), st1)
      | (Inr None, st1) \<Rightarrow>
          (case findServiceAccountPrincipalByAPIKey sha256hex sto now ctx serviceAccountKey st1 of
             (Inl err, st2) \<Rightarrow> (Inl err, st2)
           | (Inr (Some prin), st2) \<Rightarrow> (Inr (Some prin), st2)
           | (Inr None, st2) \<Rightarrow>
               if serviceAccountKey = [] then findServiceAccountPrincipalByAPIKey sha256hex sto now ctx tenantAPIKey st2
               else (Inr None, st2)))"

definition addMatches ::
  "(string \<Rightarrow> string) \<Rightarrow> 'st AuthStore \<Rightarrow> time \<Rightarrow> Context \<Rightarrow> string \<Rightarrow> string list \<Rightarrow> 'st \<Rightarrow> (goerror + string list) \<times> 'st" where
  "addMatches sha256hex sto now ctx apiKey tenantIDs st =
     (case lookupCredentialResultByAPIKey sha256hex sto now ctx apiKey st of
        (Inl err, st1) \<Rightarrow> (Inl err, st1)
      | (Inr None, st1) \<Rightarrow> (Inr tenantIDs, st1)
      | (Inr (Some result), st1) \<Rightarrow> (Inr (List.insert (tn_ID (cl_Tenant result)) tenantIDs), st1))"

definition lookupCredentialTenantIDs ::
  "(string \<Rightarrow> string) \<Rightarrow> 'st AuthStore \<Rightarrow> time \<Rightarrow> Context \<Rightarrow> string \<Rightarrow> string \<Rightarrow> 'st \<Rightarrow> (goerror + string list) \<times> 'st" where
  "lookupCredentialTenantIDs sha256hex sto now ctx tenantAPIKey serviceAccountKey st =
     (case addMatches sha256hex sto now ctx tenantAPIKey [] st of
        (Inl err, st1) \<Rightarrow> (Inl err, st1)
      | (Inr tenantIDs, st1) \<Rightarrow> addMatches sha256hex sto now ctx serviceAccountKey tenantIDs st1)"

definition tenantAuthMismatch :: "string \<Rightarrow> string \<Rightarrow> string list \<Rightarrow> bool" where
  "tenantAuthMismatch contextTenantID0 principalTenantID0 credentialTenantIDs =
     (let principalTenantID = TrimSpace principalTenantID0;
          context1 = TrimSpace contextTenantID0;
          contextTenantID = (if context1 = DefaultTenantID \<and> principalTenantID \<noteq> [] \<and> principalTenantID \<noteq> DefaultTenantID
                             then [] else context1)
      in if contextTenantID \<noteq> [] \<and> principalTenantID \<noteq> [] \<and> contextTenantID \<noteq> principalTenantID then True
         else list_ex (\<lambda>tenantID. principalTenantID \<noteq> [] \<and> tenantID \<noteq> [] \<and> tenantID \<noteq> principalTenantID
                        \<or> contextTenantID \<noteq> [] \<and> tenantID \<noteq> [] \<and> tenantID \<noteq> contextTenantID) credentialTenantIDs)"

definition defaultTenantFallback :: "Tenant list \<Rightarrow> Tenant option" where
  "defaultTenantFallback tenants =
     (let active = filter tn_Active tenants;
          defaults = filter (\<lambda>t. tn_ID t = DefaultTenantID) active;
          activeCustomTenants = length (filter (\<lambda>t. tn_ID t \<noteq> DefaultTenantID) active)
      in if tenants = [] \<or> activeCustomTenants \<noteq> 0 \<or> defaults = [] then None
         else if \<not> HasAPIKeyConfigured (tn_APIKeyHash (last defaults)) (tn_APIKey (last defaults)) then Some (last defaults)
         else None)"

section \<open>Principals of sessions\<close>

definition activeTenantFromStore :: "'st AuthStore \<Rightarrow> Context \<Rightarrow> string \<Rightarrow> 'st \<Rightarrow> (goerror + Tenant option) \<times> 'st" where
  "activeTenantFromStore sto ctx tenantID st =
     (case at_GetTenant sto ctx st tenantID of
        (Inl err, st1) \<Rightarrow>
          if IsNotFound err then (Inr None, st1)
          else (Inl (Wrap ''load tenant %s for auth session: %w'' [TrimSpace tenantID] err), st1)
      | (Inr tenant, st1) \<Rightarrow> if \<not> tn_Active tenant then (Inr None, st1) else (Inr (Some (cloneTenant tenant)), st1))"

text \<open>The stored digest must be usable and the one the session was created with.\<close>

definition sessionHashMatches :: "digest \<times> bool \<Rightarrow> authSessionRecord \<Rightarrow> bool" where
  "sessionHashMatches stored record =
     (case stored of (currentHash, hashOK) \<Rightarrow>
        \<not> (\<not> hashOK \<or> isZeroCredentialHash currentHash
           \<or> \<not> constantTimeCredentialHashMatch currentHash True (ses_CredentialHash record)
                 (\<not> isZeroCredentialHash (ses_CredentialHash record))))"

definition principalFromTenantSession ::
  "(string \<Rightarrow> string) \<Rightarrow> 'st AuthStore \<Rightarrow> Context \<Rightarrow> authSessionRecord \<Rightarrow> 'st
   \<Rightarrow> (goerror + AuthenticatedPrincipal option \<times> digest) \<times> 'st" where
  "principalFromTenantSession sha256hex sto ctx record st =
     (case activeTenantFromStore sto ctx (ses_TenantID record) st of
        (Inl err, st1) \<Rightarrow> (Inl err, st1)
      | (Inr None, st1) \<Rightarrow> (Inr (None, zeroCredentialHash), st1)
      | (Inr (Some tenant), st1) \<Rightarrow>
          (let stored = storedCredentialHash sha256hex (tn_APIKeyHash tenant) (tn_APIKey tenant) in
           if \<not> sessionHashMatches stored record then (Inr (None, fst stored), st1)
           else (Inr (Some \<lparr>ap_Tenant = tenant, ap_Role = TenantRoleAdmin, ap_ServiceAccount = None,
                            ap_AuthMethod = ''runtime-session''\<rparr>, fst stored), st1)))"

definition principalFromServiceAccountSession ::
  "(string \<Rightarrow> string) \<Rightarrow> 'st AuthStore \<Rightarrow> time \<Rightarrow> Context \<Rightarrow> authSessionRecord \<Rightarrow> 'st
   \<Rightarrow> (goerror + AuthenticatedPrincipal option \<times> digest) \<times> 'st" where
  "principalFromServiceAccountSession sha256hex sto now ctx record st =
     (case activeTenantFromStore sto ctx (ses_TenantID record) st of
        (Inl err, st1) \<Rightarrow> (Inl err, st1)
      | (Inr None, st1) \<Rightarrow> (Inr (None, zeroCredentialHash), st1)
      | (Inr (Some tenant), st1) \<Rightarrow>
          (case filter (\<lambda>a. sa_ID a = ses_ServiceAccountID record \<and> serviceAccountUsable a now) (tn_ServiceAccounts tenant) of
             [] \<Rightarrow> (Inr (None, zeroCredentialHash), st1)
           | account # _ \<Rightarrow>
               (let stored = storedCredentialHash sha256hex (sa_APIKeyHash account) (sa_APIKey account) in
                if \<not> sessionHashMatches stored record then (Inr (None, fst stored), st1)
                else (Inr (Some \<lparr>ap_Tenant = tenant,
                                 ap_Role = (if sa_Role account = [] then TenantRoleViewer else sa_Role account),
                                 ap_ServiceAccount = Some account, ap_AuthMethod = ''runtime-session''\<rparr>, fst stored), st1))))"

definition localPrincipalFromSession ::
  "'st AuthStore \<Rightarrow> Context \<Rightarrow> authSessionRecord \<Rightarrow> 'st \<Rightarrow> (goerror + AuthenticatedPrincipal option) \<times> 'st" where
  "localPrincipalFromSession sto ctx record st =
     (case activeTenantFromStore sto ctx (ses_TenantID record) st of
        (Inl err, st1) \<Rightarrow> (Inl err, st1)
      | (Inr None, st1) \<Rightarrow> (Inr None, st1)
      | (Inr (Some tenant), st1) \<Rightarrow>
          (Inr (Some \<lparr>ap_Tenant = tenant, ap_Role = ses_Role record, ap_ServiceAccount = None,
                      ap_AuthMethod = firstNonEmpty [ses_AuthMethod record, ''local-runtime-session'']\<rparr>), st1))"

section \<open>The middleware\<close>

record Request =
  rq_context :: RequestContext
  rq_apiKey :: string
  rq_serviceAccountKey :: string
  rq_sessionCookie :: "string option"

datatype authOutcome = Refused int string | Admitted RequestContext

definition readAuthSessionSecret :: "Request \<Rightarrow> string" where
  "readAuthSessionSecret r = (case rq_sessionCookie r of None \<Rightarrow> [] | Some value \<Rightarrow> TrimSpace value)"

text \<open>The readings of the clock in a request: the session lookup takes four, then one each for the account, the audit event
  and the two of the revocation.\<close>

definition revocationEvent :: "authSessionRecord \<Rightarrow> string \<Rightarrow> digest \<Rightarrow> AuditEvent" where
  "revocationEvent record reason currentHash =
     \<lparr>ae_ID = [], ae_TenantID = [], ae_Actor = [], ae_RequestID = [], ae_Category = ''tenant'',
      ae_Action = ''revoke-auth-session'', ae_Resource = ses_PublicID record, ae_Outcome = AuditOutcomeSuccess,
      ae_Message = ''dashboard auth session revoked after credential mismatch'',
      ae_Details = [(''session_id'', ses_PublicID record), (''auth_mode'', ses_Mode record), (''reason'', reason),
                    (''old_hash_prefix'', credentialHashPrefix8 (ses_CredentialHash record)),
                    (''new_hash_prefix'', credentialHashPrefix8 currentHash)], ae_CreatedAt = 0\<rparr>"

definition revokeCredentialBoundSession ::
  "'st AuthStore \<Rightarrow> string \<Rightarrow> (nat \<Rightarrow> time) \<Rightarrow> Request \<Rightarrow> authSessionRecord \<Rightarrow> string \<Rightarrow> string \<Rightarrow> digest
   \<Rightarrow> authSessionManager \<times> 'st \<Rightarrow> authSessionManager \<times> 'st" where
  "revokeCredentialBoundSession sto uuid clk r record secret reason currentHash state =
     (let rc = rq_context r;
          auditEvent = normalizeAuditEvent uuid (clk 5) (withAwaitAudit rc) (revocationEvent record reason currentHash)
      in snd (Revoke (Some (at_revocations sto)) (\<lambda>i. clk (6 + i)) (rc_ctx rc) record secret
                (Some (at_persistAudit sto (rc_ctx rc) auditEvent)) state))"

text \<open>
  The session of a request without keys: the principal, the method and whether the session turned out to be bound to a
  credential that is no longer the current one, in which case it is revoked.
\<close>

definition credentialSession ::
  "'st AuthStore \<Rightarrow> bool \<Rightarrow> string \<Rightarrow> (nat \<Rightarrow> time) \<Rightarrow> Request \<Rightarrow> authSessionRecord
   \<Rightarrow> (goerror + AuthenticatedPrincipal option \<times> digest) \<times> 'st \<Rightarrow> authSessionManager
   \<Rightarrow> (goerror + AuthenticatedPrincipal option \<times> string \<times> bool) \<times> authSessionManager \<times> 'st" where
  "credentialSession sto server uuid clk r record found m =
     (case found of
        (Inl err, st1) \<Rightarrow> (Inl err, m, st1)
      | (Inr (Some prin, _), st1) \<Rightarrow> (Inr (Some prin, ''runtime-session'', False), m, st1)
      | (Inr (None, currentHash), st1) \<Rightarrow>
          if server \<and> \<not> isZeroCredentialHash (ses_CredentialHash record)
          then (Inr (None, [], True),
                revokeCredentialBoundSession sto uuid clk r record (readAuthSessionSecret r) ''credential_rotated'' currentHash (m, st1))
          else (Inr (None, [], False), m, st1))"

definition sessionAuth ::
  "(string \<Rightarrow> string) \<Rightarrow> 'st AuthStore \<Rightarrow> bool \<Rightarrow> string \<Rightarrow> (nat \<Rightarrow> time) \<Rightarrow> Request \<Rightarrow> authSessionManager \<times> 'st
   \<Rightarrow> (goerror + AuthenticatedPrincipal option \<times> string \<times> bool) \<times> authSessionManager \<times> 'st" where
  "sessionAuth sha256hex sto server uuid clk r state =
     (let ctx = rc_ctx (rq_context r) in
      case LookupActive (Some (at_revocations sto)) clk ctx (readAuthSessionSecret r) state of
        (Inl err, m1, st1) \<Rightarrow> (Inl err, m1, st1)
      | (Inr None, m1, st1) \<Rightarrow> (Inr (None, [], False), m1, st1)
      | (Inr (Some record), m1, st1) \<Rightarrow>
          if ses_Mode record = ''tenant''
          then credentialSession sto server uuid clk r record (principalFromTenantSession sha256hex sto ctx record st1) m1
          else if ses_Mode record = ''service-account''
          then credentialSession sto server uuid clk r record
                 (principalFromServiceAccountSession sha256hex sto (clk 4) ctx record st1) m1
          else if ses_Mode record = ''local''
          then (case localPrincipalFromSession sto ctx record st1 of
                  (Inl err, st2) \<Rightarrow> (Inl err, m1, st2)
                | (Inr oprin, st2) \<Rightarrow>
                    (Inr (oprin, firstNonEmpty [ses_AuthMethod record, ''local-runtime-session''], False), m1, st2))
          else (Inr (None, [], False), m1, st1))"

definition withPrincipal :: "RequestContext \<Rightarrow> AuthenticatedPrincipal \<Rightarrow> RequestContext" where
  "withPrincipal rc prin =
     (let tenant = cloneTenant (ap_Tenant prin)
      in rc\<lparr>rc_ctx := ContextWithTenantID (rc_ctx rc) (tn_ID tenant), rc_tenant := Some tenant, rc_principal := Some prin\<rparr>)"

text \<open>The last part: the tenants of all credentials presented must be the one of the principal.\<close>

definition admitPrincipal ::
  "(string \<Rightarrow> string) \<Rightarrow> 'st AuthStore \<Rightarrow> time \<Rightarrow> Request \<Rightarrow> string \<Rightarrow> AuthenticatedPrincipal \<Rightarrow> 'st \<Rightarrow> authOutcome \<times> 'st" where
  "admitPrincipal sha256hex sto now r authMethod prin0 st =
     (let rc = rq_context r;
          prin = (if authMethod \<noteq> [] then prin0\<lparr>ap_AuthMethod := authMethod\<rparr> else prin0)
      in case lookupCredentialTenantIDs sha256hex sto now (rc_ctx rc) (TrimSpace (rq_apiKey r)) (TrimSpace (rq_serviceAccountKey r)) st of
           (Inl err, st1) \<Rightarrow> (Refused 500 ''internal_error'', st1)
         | (Inr credentialTenantIDs, st1) \<Rightarrow>
             if tenantAuthMismatch (TenantIDFromContext (Some (rc_ctx rc))) (tn_ID (ap_Tenant prin)) credentialTenantIDs
             then (Refused 403 ''tenant_mismatch'', st1)
             else (Admitted (withPrincipal rc prin), st1))"

definition authenticateRequest ::
  "(string \<Rightarrow> string) \<Rightarrow> 'st AuthStore \<Rightarrow> (nat \<Rightarrow> time) \<Rightarrow> Request \<Rightarrow> AuthenticatedPrincipal option \<times> string \<times> bool
   \<Rightarrow> 'st \<Rightarrow> authOutcome \<times> 'st" where
  "authenticateRequest sha256hex sto clk r session st =
     (case session of
        (Some prin, authMethod, _) \<Rightarrow> admitPrincipal sha256hex sto (clk 8) r authMethod prin st
      | (None, authMethod, staleCredentialSession) \<Rightarrow>
          (let apiKey = TrimSpace (rq_apiKey r); serviceAccountKey = TrimSpace (rq_serviceAccountKey r) in
           case authenticateTenantPrincipal sha256hex sto (clk 8) (rc_ctx (rq_context r)) apiKey serviceAccountKey st of
             (Inl err, st1) \<Rightarrow> (Refused 500 ''internal_error'', st1)
           | (Inr (Some prin), st1) \<Rightarrow> admitPrincipal sha256hex sto (clk 8) r authMethod prin st1
           | (Inr None, st1) \<Rightarrow>
               if staleCredentialSession then (Refused 401 ''invalid_credentials'', st1)
               else if apiKey = [] \<and> serviceAccountKey = [] then (Refused 401 ''missing_credentials'', st1)
               else (Refused 401 ''invalid_credentials'', st1)))"

definition tenantAuthMiddleware ::
  "(string \<Rightarrow> string) \<Rightarrow> 'st AuthStore option \<Rightarrow> bool \<Rightarrow> string \<Rightarrow> (nat \<Rightarrow> time) \<Rightarrow> Request \<Rightarrow> authSessionManager option \<times> 'st
   \<Rightarrow> authOutcome \<times> authSessionManager option \<times> 'st" where
  "tenantAuthMiddleware sha256hex ostore server uuid clk r state =
     (case (ostore, state) of
        (None, _) \<Rightarrow> (Refused 500 ''internal_error'', state)
      | (Some sto, osessions, st) \<Rightarrow>
          (case (osessions, TrimSpace (rq_apiKey r) = [] \<and> TrimSpace (rq_serviceAccountKey r) = []) of
             (Some m, True) \<Rightarrow>
               (case sessionAuth sha256hex sto server uuid clk r (m, st) of
                  (Inl err, m1, st1) \<Rightarrow> (Refused 500 ''internal_error'', Some m1, st1)
                | (Inr session, m1, st1) \<Rightarrow>
                    (case authenticateRequest sha256hex sto clk r session st1 of (outcome, st2) \<Rightarrow> (outcome, Some m1, st2)))
           | _ \<Rightarrow>
               (case authenticateRequest sha256hex sto clk r (None, [], False) st of (outcome, st1) \<Rightarrow> (outcome, osessions, st1))))"

section \<open>Authorization\<close>

definition RequireTenant :: "RequestContext \<Rightarrow> goerror + Tenant" where
  "RequireTenant rc =
     (case RequirePrincipal rc of
        Inr prin \<Rightarrow> Inr (cloneTenant (ap_Tenant prin))
      | Inl _ \<Rightarrow>
          (case rc_tenant rc of
             None \<Rightarrow> Inl (Errorf ''authenticated tenant is missing from context'' [])
           | Some tenant \<Rightarrow> Inr tenant))"

definition RequireTenantRole :: "TenantRole \<Rightarrow> RequestContext \<Rightarrow> authOutcome" where
  "RequireTenantRole required rc =
     (case RequirePrincipal rc of
        Inl err \<Rightarrow> Refused 401 ''invalid_credentials''
      | Inr prin \<Rightarrow> if \<not> TenantRole_Allows (ap_Role prin) required then Refused 403 ''permission_denied'' else Admitted rc)"

definition principalAllowsPermission :: "AuthenticatedPrincipal \<Rightarrow> TenantPermission \<Rightarrow> bool" where
  "principalAllowsPermission prin permission =
     (if \<not> TenantPermission_Valid permission then False
      else (case ap_ServiceAccount prin of
              Some account \<Rightarrow> ServiceAccount_Allows account permission
            | None \<Rightarrow> list_ex (\<lambda>granted. granted = permission) (DefaultPermissions (ap_Role prin))))"

definition RequireTenantPermission :: "TenantPermission \<Rightarrow> RequestContext \<Rightarrow> authOutcome" where
  "RequireTenantPermission required rc =
     (case RequirePrincipal rc of
        Inl err \<Rightarrow> Refused 401 ''invalid_credentials''
      | Inr prin \<Rightarrow> if \<not> principalAllowsPermission prin required then Refused 403 ''permission_denied'' else Admitted rc)"

definition RequireAnyTenantPermission :: "TenantPermission list \<Rightarrow> RequestContext \<Rightarrow> authOutcome" where
  "RequireAnyTenantPermission permissions rc =
     (case RequirePrincipal rc of
        Inl err \<Rightarrow> Refused 401 ''invalid_credentials''
      | Inr prin \<Rightarrow> if list_ex (principalAllowsPermission prin) permissions then Admitted rc else Refused 403 ''permission_denied'')"

definition isMutatingMethod :: "string \<Rightarrow> bool" where
  "isMutatingMethod m0 = (ToLower (TrimSpace m0) \<in> {''post'', ''put'', ''patch'', ''delete''})"

section \<open>The in-memory store behind the middleware\<close>

text \<open>The store of the server is part of its audit state; \<open>now\<close> is the reading the store takes in its own operations.\<close>

definition onStore :: "('s \<Rightarrow> 'a \<times> 's) \<Rightarrow> 's auditState \<Rightarrow> 'a \<times> 's auditState" where
  "onStore f st = (case f (au_store st) of (x, s1) \<Rightarrow> (x, st\<lparr>au_store := s1\<rparr>))"

definition memAuthStore ::
  "'raw MemoryStore auditEnv \<Rightarrow> (string list \<Rightarrow> nat list) \<Rightarrow> (int list \<Rightarrow> nat list) \<Rightarrow> time \<Rightarrow> 'raw MemoryStore auditState AuthStore" where
  "memAuthStore env r p now =
     \<lparr>at_GetTenant = (\<lambda>ctx st tenantID. onStore (\<lambda>s. GetTenant ctx s tenantID) st),
      at_ListTenants = (\<lambda>ctx st. onStore (\<lambda>s. ListTenants p ctx s) st),
      at_LookupCredentialByHash = Some (\<lambda>ctx st hash. onStore (\<lambda>s. LookupCredentialByHash r ctx now s hash) st),
      at_revocations =
        \<lparr>rv_RevokeAuthSession = (\<lambda>ctx st sessionID expiresAt. onStore (\<lambda>s. RevokeAuthSession ctx now s sessionID expiresAt) st),
         rv_IsAuthSessionRevoked = (\<lambda>ctx st sessionID. onStore (\<lambda>s. IsAuthSessionRevoked ctx now s sessionID) st)\<rparr>,
      at_persistAudit = (\<lambda>ctx event st. persistAuditEvent env ctx event st)\<rparr>"

end
