(* ===== verification/AuthSessionsCorrect.thy ===== *)
theory AuthSessionsCorrect
  imports AuthSessions
begin

text \<open>
  The session manager against its specification. The specification remembers every session that was created and the
  secrets that were ended, by a deletion or a revocation; a session is active from its creation until its expiry unless
  its secret was ended. The manager, which forgets expired entries at every turn, answers every lookup the same way.
\<close>

section \<open>Histories\<close>

text \<open>The identifiers of a new session are fresh, and as \<open>uuid.NewString\<close> writes them: nonempty, without blanks around.\<close>

definition freshIDs :: "authSessionRecord list \<Rightarrow> string list \<Rightarrow> string \<Rightarrow> string \<Rightarrow> bool" where
  "freshIDs created ended publicID secret =
     (publicID \<noteq> [] \<and> TrimSpace publicID = publicID \<and> secret \<noteq> [] \<and> TrimSpace secret = secret
      \<and> publicID \<notin> ses_PublicID ` set created \<and> secret \<notin> ses_Secret ` set created \<and> secret \<notin> set ended)"

text \<open>
  \<open>session_run t m created ended\<close>: the operations so far, at clock readings up to \<open>t\<close> that do not go back, have led to
  the manager \<open>m\<close>. A session is revoked with the record that was created for the secret, as all callers do.
\<close>

inductive session_run :: "time \<Rightarrow> authSessionManager \<Rightarrow> authSessionRecord list \<Rightarrow> string list \<Rightarrow> bool" where
  start: "session_run t (newAuthSessionManager ttl persistentTTL) [] []"
| credential: "session_run t m created ended \<Longrightarrow> t \<le> clk 0 \<Longrightarrow> clk 0 \<le> clk 1 \<Longrightarrow> freshIDs created ended publicID secret \<Longrightarrow>
    CreateCredential publicID secret clk mode prin hash persistent m = (Inr record, m') \<Longrightarrow>
    session_run (clk 1) m' (record # created) ended"
| localSession: "session_run t m created ended \<Longrightarrow> t \<le> clk 0 \<Longrightarrow> clk 0 \<le> clk 1 \<Longrightarrow> freshIDs created ended publicID secret \<Longrightarrow>
    CreateLocal publicID secret clk tenantID role authMethod persistent m = (Inr record, m') \<Longrightarrow>
    session_run (clk 1) m' (record # created) ended"
| lookup: "session_run t m created ended \<Longrightarrow> t \<le> now \<Longrightarrow> session_run now (snd (Lookup now secret m)) created ended"
| lookupID: "session_run t m created ended \<Longrightarrow> t \<le> now \<Longrightarrow>
    session_run now (snd (LookupByPublicID r now publicID m)) created ended"
| sweep: "session_run t m created ended \<Longrightarrow> t \<le> now \<Longrightarrow> session_run now (snd (SweepExpired now m)) created ended"
| delete: "session_run t m created ended \<Longrightarrow> session_run t (Delete secret m) created (TrimSpace secret # ended)"
| revoked: "session_run t m created ended \<Longrightarrow> t \<le> now1 \<Longrightarrow> now1 \<le> now2 \<Longrightarrow> record \<in> set created \<Longrightarrow>
    ses_Secret record = TrimSpace secret \<Longrightarrow>
    session_run now2 (MarkRevoked now1 now2 record secret m) created (TrimSpace secret # ended)"

definition activeAt :: "time \<Rightarrow> authSessionRecord list \<Rightarrow> string list \<Rightarrow> authSessionRecord \<Rightarrow> bool" where
  "activeAt now created ended record =
     (record \<in> set created \<and> ses_Secret record \<notin> set ended \<and> now < ses_ExpiresAt record)"

section \<open>The invariant\<close>

definition recordsOk :: "authSessionRecord list \<Rightarrow> bool" where
  "recordsOk created =
     ((\<forall>r \<in> set created. ses_PublicID r \<noteq> [] \<and> TrimSpace (ses_PublicID r) = ses_PublicID r
         \<and> ses_Secret r \<noteq> [] \<and> TrimSpace (ses_Secret r) = ses_Secret r)
      \<and> inj_on ses_PublicID (set created) \<and> inj_on ses_Secret (set created))"

definition sessions_ok :: "time \<Rightarrow> authSessionManager \<Rightarrow> authSessionRecord list \<Rightarrow> string list \<Rightarrow> bool" where
  "sessions_ok t m created ended =
     (distinct (map fst (sm_sessions m)) \<and> distinct (map fst (sm_revoked m))
      \<and> (\<forall>s r. map_of (sm_sessions m) s = Some r \<longrightarrow> r \<in> set created \<and> ses_Secret r = s \<and> s \<notin> set ended)
      \<and> (\<forall>r. activeAt t created ended r \<longrightarrow> map_of (sm_sessions m) (ses_Secret r) = Some r)
      \<and> (\<forall>p e. map_of (sm_revoked m) p = Some e \<longrightarrow> (\<exists>r \<in> set created. ses_PublicID r = p \<and> ses_Secret r \<in> set ended))
      \<and> recordsOk created)"

lemma sessions_okD:
  assumes "sessions_ok t m created ended"
  shows "distinct (map fst (sm_sessions m))" "distinct (map fst (sm_revoked m))"
    "map_of (sm_sessions m) s = Some r \<Longrightarrow> r \<in> set created \<and> ses_Secret r = s \<and> s \<notin> set ended"
    "activeAt t created ended r \<Longrightarrow> map_of (sm_sessions m) (ses_Secret r) = Some r"
    "map_of (sm_revoked m) p = Some e \<Longrightarrow> \<exists>r \<in> set created. ses_PublicID r = p \<and> ses_Secret r \<in> set ended"
    "recordsOk created"
  using assms unfolding sessions_ok_def by blast+

lemma sessions_okI:
  assumes "distinct (map fst (sm_sessions m))" "distinct (map fst (sm_revoked m))" "recordsOk created"
    and "\<And>s r. map_of (sm_sessions m) s = Some r \<Longrightarrow> r \<in> set created \<and> ses_Secret r = s \<and> s \<notin> set ended"
    and "\<And>r. activeAt t created ended r \<Longrightarrow> map_of (sm_sessions m) (ses_Secret r) = Some r"
    and "\<And>p e. map_of (sm_revoked m) p = Some e \<Longrightarrow> \<exists>r \<in> set created. ses_PublicID r = p \<and> ses_Secret r \<in> set ended"
  shows "sessions_ok t m created ended"
  using assms unfolding sessions_ok_def by blast

text \<open>No session that is kept is revoked: revoking removes it.\<close>

lemma kept_not_revoked:
  assumes ok: "sessions_ok t m created ended" and kept: "map_of (sm_sessions m) s = Some r"
  shows "map_of (sm_revoked m) (TrimSpace (ses_PublicID r)) = None"
proof -
  note r = sessions_okD(3) [OF ok kept]
  then have "TrimSpace (ses_PublicID r) = ses_PublicID r" using sessions_okD(6) [OF ok] by (simp add: recordsOk_def)
  moreover have "r' = r" if "r' \<in> set created" "ses_PublicID r' = ses_PublicID r" for r'
    using sessions_okD(6) [OF ok] that r unfolding recordsOk_def inj_on_def by blast
  ultimately show ?thesis using sessions_okD(5) [OF ok] r by (metis not_Some_eq)
qed

lemma kept_revokedLocked:
  assumes "sessions_ok t m created ended" "map_of (sm_sessions m) s = Some r"
  shows "revokedLocked (ses_PublicID r) now m = (False, m)"
  using kept_not_revoked [OF assms] by (simp add: revokedLocked_def)

lemma fold_pruneSession:
  assumes "\<And>s r. (s, r) \<in> set xs \<Longrightarrow> map_of (sm_revoked m) (TrimSpace (ses_PublicID r)) = None"
  shows "fold (pruneSession now) xs m
    = m\<lparr>sm_sessions := filter (\<lambda>(k, v). \<forall>(s, r) \<in> set xs. s = k \<longrightarrow> now < ses_ExpiresAt r) (sm_sessions m)\<rparr>"
  using assms
proof (induction xs arbitrary: m)
  case (Cons x xs)
  obtain s r where x: "x = (s, r)" by (cases x)
  define m1 where "m1 = pruneSession now (s, r) m"
  have m1: "m1 = m\<lparr>sm_sessions := filter (\<lambda>(k, v). s = k \<longrightarrow> now < ses_ExpiresAt r) (sm_sessions m)\<rparr>"
    using Cons.prems [of s r] unfolding m1_def
    by (auto simp: x pruneSession_def revokedLocked_def AList.delete_eq intro!: authSessionManager.equality filter_cong)
  have "fold (pruneSession now) xs m1
    = m1\<lparr>sm_sessions := filter (\<lambda>(k, v). \<forall>(s, r) \<in> set xs. s = k \<longrightarrow> now < ses_ExpiresAt r) (sm_sessions m1)\<rparr>"
    by (rule Cons.IH) (use Cons.prems in \<open>auto simp: m1\<close>)
  then show ?case
    unfolding x fold_simps(2) comp_apply m1_def [symmetric]
    by (auto simp: m1 intro!: authSessionManager.equality filter_cong)
qed (simp add: case_prod_beta)

lemma prune_sessions:
  assumes ok: "sessions_ok t m created ended"
  shows "pruneLocked now m = m\<lparr>sm_sessions := filter (\<lambda>(k, v). now < ses_ExpiresAt v) (sm_sessions m),
    sm_revoked := filter (\<lambda>(k, e). now < e) (sm_revoked m)\<rparr>"
proof -
  let ?m = "m\<lparr>sm_revoked := filter (\<lambda>(k, e). now < e) (sm_revoked m)\<rparr>"
  have kept: "map_of (sm_sessions m) s = Some r" if "(s, r) \<in> set (sm_sessions m)" for s r
    using sessions_okD(1) [OF ok] that by simp
  have "map_of (sm_revoked ?m) (TrimSpace (ses_PublicID r)) = None" if "(s, r) \<in> set (sm_sessions ?m)" for s r
    using kept_not_revoked [OF ok kept] that by (auto simp: map_of_eq_None_iff)
  note fold_pruneSession [OF this, of "sm_sessions ?m", simplified]
  moreover have "filter (\<lambda>(k, v). \<forall>(s, r) \<in> set (sm_sessions m). s = k \<longrightarrow> now < ses_ExpiresAt r) (sm_sessions m)
    = filter (\<lambda>(k, v). now < ses_ExpiresAt v) (sm_sessions m)"
  proof (rule filter_cong [OF refl])
    fix x assume "x \<in> set (sm_sessions m)"
    moreover have "r = r'" if "(s, r) \<in> set (sm_sessions m)" "(s, r') \<in> set (sm_sessions m)" for s r r'
      using kept [OF that(1)] kept [OF that(2)] by simp
    ultimately show "(case x of (k, v) \<Rightarrow> \<forall>(s, r) \<in> set (sm_sessions m). s = k \<longrightarrow> now < ses_ExpiresAt r)
        = (case x of (k, v) \<Rightarrow> now < ses_ExpiresAt v)" by fast
  qed
  ultimately show ?thesis by (simp add: pruneLocked_def)
qed

section \<open>Every operation keeps it\<close>

lemma ok_later: "sessions_ok t m created ended \<Longrightarrow> t \<le> now \<Longrightarrow> sessions_ok now m created ended"
  by (auto simp: sessions_ok_def activeAt_def)

lemma ok_prune:
  assumes ok: "sessions_ok now m created ended"
  shows "sessions_ok now (pruneLocked now m) created ended"
proof -
  have "map_of (sm_sessions m) (ses_Secret r) = Some r \<and> now < ses_ExpiresAt r" if "activeAt now created ended r" for r
    using sessions_okD(4) [OF ok that] that by (simp add: activeAt_def)
  then show ?thesis
    unfolding prune_sessions [OF ok] using sessions_okD [OF ok]
    by (auto simp: sessions_ok_def map_of_filter_snd distinct_map_filter simp del: map_of_eq_Some_iff
        split: option.splits if_splits)
qed

lemma ok_dropExpired:
  assumes ok: "sessions_ok now m created ended" and "map_of (sm_sessions m) s = Some r" "\<not> now < ses_ExpiresAt r"
  shows "sessions_ok now (m\<lparr>sm_sessions := AList.delete s (sm_sessions m)\<rparr>) created ended"
proof -
  have "map_of (sm_sessions m) (ses_Secret r') = Some r' \<and> ses_Secret r' \<noteq> s" if "activeAt now created ended r'" for r'
    using sessions_okD(4) [OF ok that] that assms(2,3) by (auto simp: activeAt_def)
  then show ?thesis using sessions_okD [OF ok] by (auto simp: sessions_ok_def distinct_delete delete_conv' simp del: map_of_eq_Some_iff)
qed

lemma ok_end:
  assumes ok: "sessions_ok t m created ended"
  shows "sessions_ok t (m\<lparr>sm_sessions := AList.delete s (sm_sessions m)\<rparr>) created (s # ended)"
proof (rule sessions_okI)
  fix s' r
  assume "map_of (sm_sessions (m\<lparr>sm_sessions := AList.delete s (sm_sessions m)\<rparr>)) s' = Some r"
  then have "s' \<noteq> s" "map_of (sm_sessions m) s' = Some r" by (auto simp: delete_conv' split: if_splits)
  then show "r \<in> set created \<and> ses_Secret r = s' \<and> s' \<notin> set (s # ended)" using sessions_okD(3) [OF ok] by simp
next
  fix r
  assume "activeAt t created (s # ended) r"
  then have "activeAt t created ended r" "ses_Secret r \<noteq> s" by (simp_all add: activeAt_def)
  then show "map_of (sm_sessions (m\<lparr>sm_sessions := AList.delete s (sm_sessions m)\<rparr>)) (ses_Secret r) = Some r"
    using sessions_okD(4) [OF ok] by (simp add: delete_conv' del: map_of_eq_Some_iff)
next
  fix p e
  assume "map_of (sm_revoked (m\<lparr>sm_sessions := AList.delete s (sm_sessions m)\<rparr>)) p = Some e"
  then have "map_of (sm_revoked m) p = Some e" by simp
  from sessions_okD(5) [OF ok this] show "\<exists>r \<in> set created. ses_PublicID r = p \<and> ses_Secret r \<in> set (s # ended)" by auto
qed (use sessions_okD [OF ok] in \<open>simp_all add: distinct_delete\<close>)

lemma ok_add:
  assumes ok: "sessions_ok now m created ended" and fresh: "freshIDs created ended (ses_PublicID r) (ses_Secret r)"
  shows "sessions_ok now (m\<lparr>sm_sessions := AList.update (ses_Secret r) r (sm_sessions m)\<rparr>) (r # created) ended"
proof (rule sessions_okI)
  show "recordsOk (r # created)"
    using fresh sessions_okD(6) [OF ok] by (simp add: recordsOk_def freshIDs_def) blast
  fix s r'
  assume "map_of (sm_sessions (m\<lparr>sm_sessions := AList.update (ses_Secret r) r (sm_sessions m)\<rparr>)) s = Some r'"
  then have "s = ses_Secret r \<and> r' = r \<or> map_of (sm_sessions m) s = Some r'" by (auto simp: update_conv' split: if_splits)
  then show "r' \<in> set (r # created) \<and> ses_Secret r' = s \<and> s \<notin> set ended"
    using sessions_okD(3) [OF ok] fresh by (auto simp: freshIDs_def)
next
  fix r'
  assume active: "activeAt now (r # created) ended r'"
  show "map_of (sm_sessions (m\<lparr>sm_sessions := AList.update (ses_Secret r) r (sm_sessions m)\<rparr>)) (ses_Secret r') = Some r'"
  proof (cases "r' = r")
    case False
    then have "activeAt now created ended r'" "ses_Secret r' \<noteq> ses_Secret r"
      using active fresh by (auto simp: activeAt_def freshIDs_def) (metis imageI)
    then show ?thesis using sessions_okD(4) [OF ok] by (simp add: update_conv' del: map_of_eq_Some_iff)
  qed (simp add: update_conv')
next
  fix p e
  assume "map_of (sm_revoked (m\<lparr>sm_sessions := AList.update (ses_Secret r) r (sm_sessions m)\<rparr>)) p = Some e"
  then have "map_of (sm_revoked m) p = Some e" by simp
  from sessions_okD(5) [OF ok this] show "\<exists>r' \<in> set (r # created). ses_PublicID r' = p \<and> ses_Secret r' \<in> set ended" by auto
qed (use sessions_okD [OF ok] in \<open>simp_all add: distinct_update\<close>)

lemma ok_mark:
  assumes ok: "sessions_ok t m created ended" and r: "r \<in> set created" "ses_Secret r \<in> set ended"
  shows "sessions_ok t (m\<lparr>sm_revoked := AList.update (ses_PublicID r) e (sm_revoked m)\<rparr>) created ended"
proof (rule sessions_okI)
  fix p e'
  assume "map_of (sm_revoked (m\<lparr>sm_revoked := AList.update (ses_PublicID r) e (sm_revoked m)\<rparr>)) p = Some e'"
  then have "p = ses_PublicID r \<or> map_of (sm_revoked m) p = Some e'" by (auto simp: update_conv' split: if_splits)
  then show "\<exists>r \<in> set created. ses_PublicID r = p \<and> ses_Secret r \<in> set ended"
    using sessions_okD(5) [OF ok] r by blast
qed (use sessions_okD [OF ok] in \<open>simp_all add: distinct_update del: map_of_eq_Some_iff\<close>)

lemma Lookup_ok:
  assumes ok: "sessions_ok now m created ended"
  shows "sessions_ok now (snd (Lookup now s m)) created ended"
    and "fst (Lookup now s m) = Some r \<longleftrightarrow> activeAt now created ended r \<and> ses_Secret r = TrimSpace s"
proof -
  have nonempty: "ses_Secret r \<noteq> []" if "r \<in> set created" for r
    using sessions_okD(6) [OF ok] that by (simp add: recordsOk_def)
  show "sessions_ok now (snd (Lookup now s m)) created ended"
    using ok kept_revokedLocked [OF ok] ok_dropExpired [OF ok]
    by (auto simp: Lookup_def Let_def split: option.splits prod.splits)
  show "fst (Lookup now s m) = Some r \<longleftrightarrow> activeAt now created ended r \<and> ses_Secret r = TrimSpace s"
  proof
    assume "fst (Lookup now s m) = Some r"
    then show "activeAt now created ended r \<and> ses_Secret r = TrimSpace s"
      using kept_revokedLocked [OF ok] sessions_okD(3) [OF ok]
      by (fastforce simp: Lookup_def Let_def activeAt_def split: option.splits prod.splits if_splits)
  next
    assume r: "activeAt now created ended r \<and> ses_Secret r = TrimSpace s"
    then have kept: "map_of (sm_sessions m) (TrimSpace s) = Some r" using sessions_okD(4) [OF ok, of r] by simp
    have "TrimSpace s \<noteq> []" using r nonempty by (auto simp: activeAt_def)
    then show "fst (Lookup now s m) = Some r"
      using kept_revokedLocked [OF ok kept] r by (simp add: Lookup_def Let_def kept activeAt_def)
  qed
qed

lemma createRecord_ok:
  assumes ok: "sessions_ok t m created ended" and "t \<le> now" and fresh: "freshIDs created ended publicID secret"
    and run: "createRecord publicID secret now seed m = (Inr record, m')"
  shows "sessions_ok now m' (record # created) ended"
proof -
  note pruned = ok_prune [OF ok_later [OF ok \<open>t \<le> now\<close>]]
  have ids: "ses_PublicID record = publicID" "ses_Secret record = secret"
    and m': "m' = (pruneLocked now m)\<lparr>sm_sessions := AList.update (ses_Secret record) record (sm_sessions (pruneLocked now m))\<rparr>"
    using run by (auto simp: createRecord_def Let_def split: if_splits)
  show ?thesis unfolding m' by (rule ok_add [OF pruned]) (use fresh in \<open>simp add: ids\<close>)
qed

lemma LookupByPublicID_ok:
  assumes ok: "sessions_ok now m created ended"
  shows "sessions_ok now (snd (LookupByPublicID r now p m)) created ended"
proof (cases "filter (\<lambda>(secret, record). ses_PublicID record = TrimSpace p) (rangeMap r (sm_sessions m))")
  case (Cons x xs)
  obtain s rec where x: "x = (s, rec)" by (cases x)
  have "x \<in> set (sm_sessions m)" using arg_cong [OF Cons, of set] by auto
  then have kept: "map_of (sm_sessions m) s = Some rec" using sessions_okD(1) [OF ok] x by simp
  then show ?thesis
    using ok kept_revokedLocked [OF ok kept] ok_dropExpired [OF ok kept]
    by (simp add: LookupByPublicID_def Let_def Cons x)
qed (use ok in \<open>simp add: LookupByPublicID_def Let_def\<close>)

lemma MarkRevoked_ok:
  assumes ok: "sessions_ok t m created ended" and "t \<le> now1" "now1 \<le> now2"
    and r: "r \<in> set created" "ses_Secret r = TrimSpace s"
  shows "sessions_ok now2 (MarkRevoked now1 now2 r s m) created (TrimSpace s # ended)"
proof -
  have "sessions_ok now1 (pruneLocked now1 m) created ended" by (rule ok_prune [OF ok_later [OF ok \<open>t \<le> now1\<close>]])
  note ended = ok_end [OF ok_later [OF this \<open>now1 \<le> now2\<close>], of "TrimSpace s"]
  have swap: "x\<lparr>sm_revoked := a, sm_sessions := b\<rparr> = x\<lparr>sm_sessions := b, sm_revoked := a\<rparr>" for x :: authSessionManager and a b
    by simp
  show ?thesis
    using ended ok_mark [OF ended r(1)] r(2) by (simp add: MarkRevoked_def Let_def swap)
qed

lemma session_run_ok: "session_run t m created ended \<Longrightarrow> sessions_ok t m created ended"
proof (induction rule: session_run.induct)
  case (credential t m created ended clk publicID secret mode prin hash persistent rcd m')
  then have "\<exists>seed. createRecord publicID secret (clk 1) seed m = (Inr rcd, m')"
    by (auto simp: CreateCredential_def Let_def split: sum.splits)
  then show ?case using createRecord_ok [OF credential.IH, of "clk 1"] credential.hyps by fastforce
next
  case (localSession t m created ended clk publicID secret tenantID role authMethod persistent rcd m')
  then have "\<exists>seed. createRecord publicID secret (clk 1) seed m = (Inr rcd, m')"
    by (auto simp: CreateLocal_def split: sum.splits)
  then show ?case using createRecord_ok [OF localSession.IH, of "clk 1"] localSession.hyps by fastforce
next
  case (delete t m created ended secret)
  then show ?case using ok_end by (simp add: Delete_def)
next
  case (sweep t m created ended now)
  then show ?case using ok_prune [OF ok_later] by (simp add: SweepExpired_def Let_def)
next
  case (lookup t m created ended now secret)
  then show ?case using Lookup_ok(1) [OF ok_later] by blast
next
  case (lookupID t m created ended now r publicID)
  then show ?case using LookupByPublicID_ok [OF ok_later] by blast
next
  case (revoked t m created ended now1 now2 rcd secret)
  then show ?case using MarkRevoked_ok by blast
qed (simp add: sessions_ok_def newAuthSessionManager_def activeAt_def recordsOk_def)

section \<open>The manager is its specification\<close>

lemma LookupByPublicID_iff:
  assumes ok: "sessions_ok now m created ended"
  shows "fst (LookupByPublicID r now p m) = Some (rcd, s) \<longleftrightarrow>
    activeAt now created ended rcd \<and> ses_PublicID rcd = TrimSpace p \<and> s = ses_Secret rcd"
proof -
  let ?hits = "filter (\<lambda>(secret, record). ses_PublicID record = TrimSpace p) (rangeMap r (sm_sessions m))"
  have kept: "(s, x) \<in> set (sm_sessions m) \<longleftrightarrow> map_of (sm_sessions m) s = Some x" for s x
    using sessions_okD(1) [OF ok] by simp
  have hit: "map_of (sm_sessions m) s = Some x" "ses_PublicID x = TrimSpace p" if "?hits = (s, x) # rest" for s x rest
    using arg_cong [OF that, of set] kept by auto
  have nonempty: "ses_PublicID x \<noteq> []" if "x \<in> set created" for x
    using sessions_okD(6) [OF ok] that by (simp add: recordsOk_def)
  show ?thesis
  proof
    assume run: "fst (LookupByPublicID r now p m) = Some (rcd, s)"
    have "\<exists>rest. ?hits = (s, rcd) # rest \<and> now < ses_ExpiresAt rcd"
    proof (cases ?hits)
      case Nil
      then show ?thesis using run by (simp add: LookupByPublicID_def Let_def split: if_splits)
    next
      case (Cons x rest)
      obtain s' y where x: "x = (s', y)" by (cases x)
      note y = kept_revokedLocked [OF ok hit(1) [OF Cons [unfolded x]]]
      show ?thesis using run by (simp add: LookupByPublicID_def Let_def Cons x y split: if_splits)
    qed
    then obtain rest where hits: "?hits = (s, rcd) # rest" and "now < ses_ExpiresAt rcd" by blast
    then show "activeAt now created ended rcd \<and> ses_PublicID rcd = TrimSpace p \<and> s = ses_Secret rcd"
      using hit(2) [OF hits] sessions_okD(3) [OF ok hit(1) [OF hits]] by (simp add: activeAt_def)
  next
    assume rcd: "activeAt now created ended rcd \<and> ses_PublicID rcd = TrimSpace p \<and> s = ses_Secret rcd"
    then have "map_of (sm_sessions m) s = Some rcd" using sessions_okD(4) [OF ok] by blast
    then have "(s, rcd) \<in> set ?hits" using rcd kept by simp
    then obtain s' x rest where hits: "?hits = (s', x) # rest" by (cases ?hits) auto
    note x = hit [OF hits]
    then have "x \<in> set created" "ses_Secret x = s'" using sessions_okD(3) [OF ok] by blast+
    moreover have "rcd \<in> set created" using rcd by (simp add: activeAt_def)
    ultimately have same: "x = rcd" "s' = s"
      using sessions_okD(6) [OF ok] x(2) rcd by (auto simp: recordsOk_def inj_on_def)
    have "TrimSpace p \<noteq> []" using nonempty [OF \<open>rcd \<in> set created\<close>] rcd by simp
    then show "fst (LookupByPublicID r now p m) = Some (rcd, s)"
      using kept_revokedLocked [OF ok x(1)] rcd by (simp add: LookupByPublicID_def Let_def hits same activeAt_def)
  qed
qed

lemma sweep_exact:
  assumes ok: "sessions_ok now m created ended"
  shows "snd ` set (sm_sessions (snd (SweepExpired now m))) = {rcd. activeAt now created ended rcd}"
proof (intro equalityI subsetI)
  fix rcd
  assume "rcd \<in> snd ` set (sm_sessions (snd (SweepExpired now m)))"
  then obtain s where "(s, rcd) \<in> set (sm_sessions m)" "now < ses_ExpiresAt rcd"
    by (auto simp: SweepExpired_def Let_def prune_sessions [OF ok])
  moreover from this have "map_of (sm_sessions m) s = Some rcd" using sessions_okD(1) [OF ok] by simp
  ultimately show "rcd \<in> {rcd. activeAt now created ended rcd}"
    using sessions_okD(3) [OF ok] by (fastforce simp: activeAt_def)
next
  fix rcd
  assume "rcd \<in> {rcd. activeAt now created ended rcd}"
  then have active: "activeAt now created ended rcd" by simp
  then have "(ses_Secret rcd, rcd) \<in> set (sm_sessions (snd (SweepExpired now m)))"
    using map_of_SomeD [OF sessions_okD(4) [OF ok active]]
    by (simp add: SweepExpired_def Let_def prune_sessions [OF ok] activeAt_def)
  then show "rcd \<in> snd ` set (sm_sessions (snd (SweepExpired now m)))" by force
qed

text \<open>
  C13 (sessions_exact): After any history of session creations, lookups, sweeps, deletions and revocations, with clock
  readings that do not go back, the manager finds a session by its secret, or by its public identifier, exactly while the
  session is active: created, not ended since and not expired. A sweep keeps exactly the active sessions, so that
  the memory of the manager is bounded by them.
\<close>

theorem sessions_exact:
  assumes "session_run t m created ended" "t \<le> now"
  shows "(fst (Lookup now secret m) = Some rcd \<longleftrightarrow> activeAt now created ended rcd \<and> ses_Secret rcd = TrimSpace secret)
    \<and> (fst (LookupByPublicID r now publicID m) = Some (rcd, secret) \<longleftrightarrow>
         activeAt now created ended rcd \<and> ses_PublicID rcd = TrimSpace publicID \<and> secret = ses_Secret rcd)
    \<and> snd ` set (sm_sessions (snd (SweepExpired now m))) = {rcd. activeAt now created ended rcd}"
proof -
  note ok = ok_later [OF session_run_ok [OF assms(1)] assms(2)]
  show ?thesis using Lookup_ok(2) [OF ok] LookupByPublicID_iff [OF ok] sweep_exact [OF ok] by blast
qed

text \<open>A session of a local operator, revoked at 30, and one that runs on.\<close>

definition demoSession :: "string \<Rightarrow> string \<Rightarrow> time \<Rightarrow> authSessionRecord" where
  "demoSession publicID secret expiresAt =
     \<lparr>ses_PublicID = publicID, ses_Secret = secret, ses_Mode = ''local'', ses_CredentialHash = zeroCredentialHash,
      ses_TenantID = ''acme'', ses_ServiceAccountID = [], ses_Role = ''admin'', ses_AuthMethod = ''local'',
      ses_Persistent = False, ses_ExpiresAt = expiresAt\<rparr>"

definition demoManager :: "(string \<times> authSessionRecord) list \<Rightarrow> (string \<times> time) list \<Rightarrow> authSessionManager" where
  "demoManager sessions revoked =
     \<lparr>sm_sessionTTL = 100, sm_persistentTTL = 1000, sm_sessions = sessions, sm_revoked = revoked\<rparr>"

lemmas session_defs = CreateLocal_def expirationFor_def createRecord_def newAuthSessionManager_def isZero_def Let_def
  pruneLocked_def pruneSession_def revokedLocked_def MarkRevoked_def demoSession_def demoManager_def go_string_defs

theorem sessions_exact_witness:
  "fst (Lookup 50 ''secret-1''
          (demoManager [(''secret-2'', demoSession ''id-2'' ''secret-2'' 120)] [(''id-1'', 110)])) = None
   \<and> fst (Lookup 50 ''secret-2''
          (demoManager [(''secret-2'', demoSession ''id-2'' ''secret-2'' 120)] [(''id-1'', 110)]))
      = Some (demoSession ''id-2'' ''secret-2'' 120)"
proof -
  let ?r1 = "demoSession ''id-1'' ''secret-1'' 110" and ?r2 = "demoSession ''id-2'' ''secret-2'' 120"
  have ids: "TrimSpace ''id-1'' = ''id-1''" "TrimSpace ''id-2'' = ''id-2''" "TrimSpace ''secret-1'' = ''secret-1''"
    "TrimSpace ''secret-2'' = ''secret-2''" by (simp_all add: go_string_defs)
  have c1: "CreateLocal ''id-1'' ''secret-1'' (\<lambda>_. 10) ''acme'' ''admin'' ''local'' False (newAuthSessionManager 100 1000)
      = (Inr ?r1, demoManager [(''secret-1'', ?r1)] [])" by (simp add: session_defs)
  have c2: "CreateLocal ''id-2'' ''secret-2'' (\<lambda>_. 20) ''acme'' ''admin'' ''local'' False (demoManager [(''secret-1'', ?r1)] [])
      = (Inr ?r2, demoManager [(''secret-1'', ?r1), (''secret-2'', ?r2)] [])" by (simp add: session_defs)
  have c3: "MarkRevoked 30 30 ?r1 ''secret-1'' (demoManager [(''secret-1'', ?r1), (''secret-2'', ?r2)] [])
      = demoManager [(''secret-2'', ?r2)] [(''id-1'', 110)]" by (simp add: session_defs)
  have "session_run 10 (demoManager [(''secret-1'', ?r1)] []) [?r1] []"
    by (rule session_run.localSession [OF session_run.start [of 0] _ _ _ c1]) (simp_all add: freshIDs_def ids)
  then have "session_run 20 (demoManager [(''secret-1'', ?r1), (''secret-2'', ?r2)] []) [?r2, ?r1] []"
    by (rule session_run.localSession [OF _ _ _ _ c2]) (simp_all add: freshIDs_def ids demoSession_def)
  then have "session_run 30 (demoManager [(''secret-2'', ?r2)] [(''id-1'', 110)]) [?r2, ?r1] [TrimSpace ''secret-1'']"
    unfolding c3 [symmetric] by (rule session_run.revoked) (simp_all add: demoSession_def ids)
  note rules = sessions_exact [OF this, of 50, THEN conjunct1]
  have "fst (Lookup 50 ''secret-1'' (demoManager [(''secret-2'', ?r2)] [(''id-1'', 110)])) \<noteq> Some r" for r
    using rules [of "''secret-1''" r] by (auto simp: activeAt_def ids demoSession_def)
  moreover have "fst (Lookup 50 ''secret-2'' (demoManager [(''secret-2'', ?r2)] [(''id-1'', 110)])) = Some ?r2"
    using rules [of "''secret-2''" ?r2] by (simp add: activeAt_def ids demoSession_def)
  ultimately show ?thesis by blast
qed

end
