(* ===== verification/TenantAuthCorrect.thy ===== *)
theory TenantAuthCorrect
  imports TenantAuth AuthSessionsCorrect
begin

text \<open>
  Who gets past the tenant middleware. The locale \<open>auth_store\<close> states what the middleware relies on in a store: it returns
  tenants it has, and a lookup by hash returns an active tenant with a live credential of that hash. Under it, a request
  that is admitted carries the identity of an active tenant and was authenticated by a key of that tenant, or by a session
  that has neither expired nor been revoked and is bound to the tenant's current credential. The in-memory store
  satisfies the locale.
\<close>

section \<open>Copies\<close>

lemma fold_update_fresh:
  "distinct (map fst m) \<Longrightarrow> fst ` set acc \<inter> fst ` set m = {} \<Longrightarrow> fold (\<lambda>(k, v). AList.update k v) m acc = acc @ m"
proof (induction m arbitrary: acc)
  case (Cons x m)
  obtain k v where x: "x = (k, v)" by (cases x)
  have "AList.update k v acc = acc @ [(k, v)]" using Cons.prems(2) x by (induction acc) auto
  then show ?case using Cons x by auto
qed simp

lemma copyMap_fold: "copyMap m = fold (\<lambda>(k, v). AList.update k v) m []"
  by (simp add: copyMap_def)

lemma copyMap_idem: "copyMap (copyMap m) = copyMap m"
proof -
  have "distinct (map fst (fold (\<lambda>(k, v). AList.update k v) m acc))" if "distinct (map fst acc)" for acc :: "(string \<times> string) list"
    using that by (induction m arbitrary: acc) (auto simp: distinct_update)
  from this [of "[]"] have "distinct (map fst (copyMap m))" by (simp add: copyMap_fold)
  from fold_update_fresh [OF this, of "[]"] show ?thesis by (simp add: copyMap_fold [of "copyMap m"])
qed

lemma cloneTenant_idem [simp]: "cloneTenant (cloneTenant t) = cloneTenant t"
  by (simp add: cloneTenant_def cloneServiceAccounts_def copyMap_idem comp_def)

lemma cloneAccount_simps [simp]:
  "sa_ID (cloneAccount a) = sa_ID a" "sa_Role (cloneAccount a) = sa_Role a" "sa_APIKey (cloneAccount a) = sa_APIKey a"
  "sa_APIKeyHash (cloneAccount a) = sa_APIKeyHash a" "serviceAccountUsable (cloneAccount a) now = serviceAccountUsable a now"
  by (simp_all add: cloneAccount_def serviceAccountUsable_def)

lemma cloneTenant_accounts: "tn_ServiceAccounts (cloneTenant t) = map cloneAccount (tn_ServiceAccounts t)"
  by (simp add: cloneTenant_def cloneServiceAccounts_def cloneAccount_def)

section \<open>Digests of sessions\<close>

lemma hashCredential_length: "length (hashCredential sha256hex key) = 32"
  by (auto simp: hashCredential_def Let_def parseCredentialHash_cases split: prod.splits)

lemma storedCredentialHash_length: "length (fst (storedCredentialHash sha256hex h raw)) = 32"
  by (simp add: storedCredentialHash_def Let_def parseCredentialHash_cases hashCredential_length)

text \<open>A session is bound to a digest: its own, or the reserved all-ones digest when it has none.\<close>

definition boundTo :: "digest \<Rightarrow> authSessionRecord \<Rightarrow> bool" where
  "boundTo current record =
     (current \<noteq> zeroCredentialHash
      \<and> current = (if ses_CredentialHash record = zeroCredentialHash then invalidCredentialHash else ses_CredentialHash record))"

lemma sessionHashMatches_iff:
  assumes "length (fst stored) = 32" "length (ses_CredentialHash record) = 32"
  shows "sessionHashMatches stored record \<longleftrightarrow> snd stored \<and> boundTo (fst stored) record"
  using constant_time_match_exact [OF assms, of True "ses_CredentialHash record \<noteq> zeroCredentialHash"]
  by (cases stored) (auto simp: sessionHashMatches_def boundTo_def isZeroCredentialHash_def usable_def split: if_splits)

section \<open>What grants a principal\<close>

text \<open>
  A key with the hash of the tenant itself, or of one of its live accounts; the identity is then the first account with
  the identifier of that one, which is the account itself when identifiers are distinct.
\<close>

definition keyGrants :: "(string \<Rightarrow> string) \<Rightarrow> time \<Rightarrow> string \<Rightarrow> Tenant \<Rightarrow> AuthenticatedPrincipal \<Rightarrow> bool" where
  "keyGrants sha256hex now key t prin =
     (let h = credentialHashString (hashCredential sha256hex key) in
      TrimSpace key \<noteq> []
      \<and> (case ap_ServiceAccount prin of
           None \<Rightarrow> ap_Role prin = TenantRoleAdmin \<and> credentialHashMatches (tn_APIKeyHash t) h
         | Some account \<Rightarrow>
             (\<exists>a \<in> set (tn_ServiceAccounts t). \<exists>b \<in> set (tn_ServiceAccounts t).
                serviceAccountCredentialActive a now \<and> credentialHashMatches (sa_APIKeyHash a) h
                \<and> account = cloneAccount b \<and> sa_ID b = sa_ID a
                \<and> ap_Role prin = (if sa_Role b = [] then TenantRoleViewer else sa_Role b))))"

text \<open>A session of the tenant itself, of a usable account, or of a local operator.\<close>

definition sessionGrants :: "(string \<Rightarrow> string) \<Rightarrow> time \<Rightarrow> authSessionRecord \<Rightarrow> Tenant \<Rightarrow> AuthenticatedPrincipal \<Rightarrow> bool" where
  "sessionGrants sha256hex now record t prin =
     (ses_Mode record = ''tenant'' \<and> ap_ServiceAccount prin = None \<and> ap_Role prin = TenantRoleAdmin
        \<and> snd (storedCredentialHash sha256hex (tn_APIKeyHash t) (tn_APIKey t))
        \<and> boundTo (fst (storedCredentialHash sha256hex (tn_APIKeyHash t) (tn_APIKey t))) record
      \<or> ses_Mode record = ''service-account''
        \<and> (\<exists>a \<in> set (tn_ServiceAccounts t). ap_ServiceAccount prin = Some (cloneAccount a) \<and> sa_ID a = ses_ServiceAccountID record
             \<and> serviceAccountUsable a now \<and> ap_Role prin = (if sa_Role a = [] then TenantRoleViewer else sa_Role a)
             \<and> snd (storedCredentialHash sha256hex (sa_APIKeyHash a) (sa_APIKey a))
             \<and> boundTo (fst (storedCredentialHash sha256hex (sa_APIKeyHash a) (sa_APIKey a))) record)
      \<or> ses_Mode record = ''local'' \<and> ap_ServiceAccount prin = None \<and> ap_Role prin = ses_Role record)"

lemma grants_authMethod [simp]:
  "keyGrants sha256hex now key t (prin\<lparr>ap_AuthMethod := m\<rparr>) = keyGrants sha256hex now key t prin"
  "sessionGrants sha256hex now record t (prin\<lparr>ap_AuthMethod := m\<rparr>) = sessionGrants sha256hex now record t prin"
  by (simp_all add: keyGrants_def sessionGrants_def Let_def split: option.split)

lemma keyGrants_trim [simp]: "keyGrants sha256hex now (TrimSpace key) t prin = keyGrants sha256hex now key t prin"
  by (simp add: keyGrants_def hashCredential_def HashAPIKey_def Let_def)

lemma LookupActive_sound:
  assumes "LookupActive (Some rv) clk ctx secret (m, st) = (Inr (Some rcd), m1, st1)"
  shows "map_of (sm_sessions m) (TrimSpace secret) = Some rcd \<and> clk 0 < ses_ExpiresAt rcd
    \<and> rv_IsAuthSessionRevoked rv ctx st (ses_PublicID rcd) = (Inr False, st1)"
proof -
  have found: "map_of (sm_sessions m) (TrimSpace secret) = Some r \<and> clk 0 < ses_ExpiresAt r"
    if "Lookup (clk 0) secret m = (Some r, m')" for r m'
    using that by (auto simp: Lookup_def Let_def split: option.splits prod.splits if_splits)
  obtain r m' where look: "Lookup (clk 0) secret m = (Some r, m')"
    using assms by (cases "Lookup (clk 0) secret m"; cases "fst (Lookup (clk 0) secret m)") (auto simp: LookupActive_def)
  then have "r = rcd \<and> rv_IsAuthSessionRevoked rv ctx st (ses_PublicID rcd) = (Inr False, st1)"
    using assms by (auto simp: LookupActive_def split: if_splits prod.splits sum.splits)
  then show ?thesis using found [OF look] by blast
qed

lemma not_mismatch:
  assumes "\<not> tenantAuthMismatch c p ids" "TrimSpace p \<noteq> []"
  shows "TrimSpace c \<in> {[], DefaultTenantID, TrimSpace p}" "\<forall>i \<in> set ids. i = [] \<or> i = TrimSpace p"
  using assms by (auto simp: tenantAuthMismatch_def Let_def list_ex_iff split: if_splits)

section \<open>Soundness\<close>

locale auth_store =
  fixes sto :: "'st AuthStore" and filed :: "'st \<Rightarrow> (string \<times> Tenant) set" and now :: time
  assumes get_sound: "at_GetTenant sto ctx st tenantID = (Inr t, st') \<Longrightarrow>
      \<exists>u. (normalizeTenantID tenantID, u) \<in> filed st \<and> t = cloneTenant u"
    and get_pure: "snd (at_GetTenant sto ctx st tenantID) = st"
    and has_lookup: "at_LookupCredentialByHash sto = Some lookup \<Longrightarrow> lookup ctx st h = (Inr (Some res), st') \<Longrightarrow>
      \<exists>t \<in> snd ` filed st. tn_Active t \<and> cl_Tenant res = cloneTenant t
        \<and> (case cl_ServiceAccount res of None \<Rightarrow> credentialHashMatches (tn_APIKeyHash t) h
           | Some account \<Rightarrow> \<exists>a \<in> set (tn_ServiceAccounts t). \<exists>b \<in> set (tn_ServiceAccounts t).
                serviceAccountCredentialActive a now \<and> credentialHashMatches (sa_APIKeyHash a) h
                \<and> account = cloneAccount b \<and> sa_ID b = sa_ID a)"
    and lookup_pure: "at_LookupCredentialByHash sto = Some lookup \<Longrightarrow> snd (lookup ctx st h) = st"
    and lookup_there: "at_LookupCredentialByHash sto \<noteq> None"
    and revoked_keeps: "filed (snd (rv_IsAuthSessionRevoked (at_revocations sto) ctx st sid)) = filed st"
begin

lemma lookupKey_pure: "snd (lookupCredentialResultByAPIKey sha256hex sto t ctx key st) = st"
  using lookup_there lookup_pure
  by (auto simp: lookupCredentialResultByAPIKey_def lookupCredentialResultByHash_def Let_def split: option.splits)

lemma lookupKey_sound:
  assumes "lookupCredentialResultByAPIKey sha256hex sto t0 ctx key st = (Inr (Some res), st')"
  shows "TrimSpace key \<noteq> [] \<and> (\<exists>t \<in> snd ` filed st. tn_Active t \<and> cl_Tenant res = cloneTenant t
        \<and> (case cl_ServiceAccount res of None \<Rightarrow> credentialHashMatches (tn_APIKeyHash t) (credentialHashString (hashCredential sha256hex key))
           | Some account \<Rightarrow> \<exists>a \<in> set (tn_ServiceAccounts t). \<exists>b \<in> set (tn_ServiceAccounts t).
                serviceAccountCredentialActive a now
                \<and> credentialHashMatches (sa_APIKeyHash a) (credentialHashString (hashCredential sha256hex key))
                \<and> account = cloneAccount b \<and> sa_ID b = sa_ID a))"
proof -
  obtain lookup where lookup: "at_LookupCredentialByHash sto = Some lookup" using lookup_there by auto
  have trim: "hashCredential sha256hex (TrimSpace key) = hashCredential sha256hex key"
    by (simp add: hashCredential_def HashAPIKey_def)
  have "TrimSpace key \<noteq> []"
    and "lookup ctx st (credentialHashString (hashCredential sha256hex key)) = (Inr (Some res), st')"
    using assms lookup
    by (auto simp: lookupCredentialResultByAPIKey_def lookupCredentialResultByHash_def Let_def trim split: if_splits)
  with has_lookup [OF lookup] show ?thesis by blast
qed

lemma authenticate_sound:
  assumes "authenticateTenantPrincipal sha256hex sto t0 ctx apiKey serviceAccountKey st = (Inr (Some prin), st')"
  shows "st' = st \<and> (\<exists>t \<in> snd ` filed st. \<exists>key \<in> {apiKey, serviceAccountKey}. tn_Active t \<and> ap_Tenant prin = cloneTenant t
    \<and> keyGrants sha256hex now key t prin)"
proof -
  let ?look = "\<lambda>key. lookupCredentialResultByAPIKey sha256hex sto t0 ctx key st"
  have pure: "snd (?look key) = st" for key by (rule lookupKey_pure)
  have tenant: "snd (findTenantPrincipalByAPIKey sha256hex sto t0 ctx key st) = st" for key
    using pure [of key] by (auto simp: findTenantPrincipalByAPIKey_def split: prod.splits sum.splits option.splits)
  have account: "snd (findServiceAccountPrincipalByAPIKey sha256hex sto t0 ctx key st) = st" for key
    using pure [of key] by (auto simp: findServiceAccountPrincipalByAPIKey_def split: prod.splits sum.splits option.splits)
  have tenant_sound: "\<exists>t \<in> snd ` filed st. tn_Active t \<and> ap_Tenant prin = cloneTenant t \<and> keyGrants sha256hex now key t prin"
    if "findTenantPrincipalByAPIKey sha256hex sto t0 ctx key st = (Inr (Some prin), st')" for key st'
    using that lookupKey_sound [of sha256hex t0 ctx key st]
    by (fastforce simp: findTenantPrincipalByAPIKey_def keyGrants_def Let_def split: prod.splits sum.splits option.splits if_splits)
  have account_sound: "\<exists>t \<in> snd ` filed st. tn_Active t \<and> ap_Tenant prin = cloneTenant t \<and> keyGrants sha256hex now key t prin"
    if "findServiceAccountPrincipalByAPIKey sha256hex sto t0 ctx key st = (Inr (Some prin), st')" for key st'
    using that lookupKey_sound [of sha256hex t0 ctx key st]
    by (fastforce simp: findServiceAccountPrincipalByAPIKey_def keyGrants_def Let_def cloneAccount_def
        split: prod.splits sum.splits option.splits if_splits)
  obtain x1 where r1: "findTenantPrincipalByAPIKey sha256hex sto t0 ctx apiKey st = (x1, st)"
    using tenant by (metis prod.collapse)
  obtain x2 where r2: "findServiceAccountPrincipalByAPIKey sha256hex sto t0 ctx serviceAccountKey st = (x2, st)"
    using account by (metis prod.collapse)
  obtain x3 where r3: "findServiceAccountPrincipalByAPIKey sha256hex sto t0 ctx apiKey st = (x3, st)"
    using account by (metis prod.collapse)
  have "st' = st \<and> (x1 = Inr (Some prin) \<or> x2 = Inr (Some prin) \<or> x3 = Inr (Some prin))"
    using assms by (auto simp: authenticateTenantPrincipal_def r1 r2 r3 split: sum.splits option.splits if_splits)
  then show ?thesis using tenant_sound [of apiKey] account_sound [of serviceAccountKey] account_sound [of apiKey] r1 r2 r3
    by blast
qed

lemma activeTenant_sound:
  assumes "activeTenantFromStore sto ctx tenantID st = (Inr (Some t), st')"
  shows "st' = st \<and> (\<exists>u. (normalizeTenantID tenantID, u) \<in> filed st \<and> t = cloneTenant u \<and> tn_Active u)"
proof -
  obtain x where x: "at_GetTenant sto ctx st tenantID = (x, st)" using get_pure by (metis prod.collapse)
  then obtain t0 where "x = Inr t0" "tn_Active t0" "t = cloneTenant t0" "st' = st"
    using assms by (auto simp: activeTenantFromStore_def split: sum.splits if_splits)
  then show ?thesis using get_sound x by fastforce
qed

lemma principalFromTenantSession_sound:
  assumes run: "principalFromTenantSession sha256hex sto ctx rcd st = (Inr (Some prin, d), st')"
    and mode: "ses_Mode rcd = ''tenant''" and len: "length (ses_CredentialHash rcd) = 32"
  shows "st' = st \<and> (\<exists>t. (normalizeTenantID (ses_TenantID rcd), t) \<in> filed st \<and> tn_Active t \<and> ap_Tenant prin = cloneTenant t
    \<and> sessionGrants sha256hex now' rcd t prin)"
proof -
  from run obtain t where t: "activeTenantFromStore sto ctx (ses_TenantID rcd) st = (Inr (Some t), st')"
    and hash: "sessionHashMatches (storedCredentialHash sha256hex (tn_APIKeyHash t) (tn_APIKey t)) rcd"
    and prin: "prin = \<lparr>ap_Tenant = t, ap_Role = TenantRoleAdmin, ap_ServiceAccount = None, ap_AuthMethod = ''runtime-session''\<rparr>"
    by (auto simp: principalFromTenantSession_def Let_def split: prod.splits sum.splits option.splits if_splits)
  show ?thesis
    using activeTenant_sound [OF t] hash sessionHashMatches_iff [OF storedCredentialHash_length len]
    by (auto simp: prin sessionGrants_def mode)
qed

lemma principalFromServiceAccountSession_sound:
  assumes run: "principalFromServiceAccountSession sha256hex sto now' ctx rcd st = (Inr (Some prin, d), st')"
    and mode: "ses_Mode rcd = ''service-account''" and len: "length (ses_CredentialHash rcd) = 32"
  shows "st' = st \<and> (\<exists>t. (normalizeTenantID (ses_TenantID rcd), t) \<in> filed st \<and> tn_Active t \<and> ap_Tenant prin = cloneTenant t
    \<and> sessionGrants sha256hex now' rcd t prin)"
proof -
  let ?hits = "\<lambda>t. filter (\<lambda>a. sa_ID a = ses_ServiceAccountID rcd \<and> serviceAccountUsable a now') (tn_ServiceAccounts t)"
  from run obtain t account rest where t: "activeTenantFromStore sto ctx (ses_TenantID rcd) st = (Inr (Some t), st')"
    and hits: "?hits t = account # rest"
    and hash: "sessionHashMatches (storedCredentialHash sha256hex (sa_APIKeyHash account) (sa_APIKey account)) rcd"
    and prin: "prin = \<lparr>ap_Tenant = t, ap_Role = (if sa_Role account = [] then TenantRoleViewer else sa_Role account),
                  ap_ServiceAccount = Some account, ap_AuthMethod = ''runtime-session''\<rparr>"
    by (auto simp: principalFromServiceAccountSession_def Let_def split: prod.splits sum.splits option.splits list.splits if_splits)
  obtain u where u: "st' = st" "(normalizeTenantID (ses_TenantID rcd), u) \<in> filed st" "t = cloneTenant u" "tn_Active u"
    using activeTenant_sound [OF t] by blast
  have "account \<in> set (?hits t)" by (simp add: hits)
  then obtain a where a: "a \<in> set (tn_ServiceAccounts u)" "account = cloneAccount a"
    "sa_ID account = ses_ServiceAccountID rcd" "serviceAccountUsable account now'"
    by (auto simp: u(3) cloneTenant_accounts)
  then have "sessionGrants sha256hex now' rcd u prin"
    using hash sessionHashMatches_iff [OF storedCredentialHash_length len]
    by (auto simp: prin sessionGrants_def mode intro!: bexI [of _ a])
  then show ?thesis using u by (auto simp: prin)
qed

lemma sessionAuth_sound:
  assumes run: "sessionAuth sha256hex sto server uuid clk r (m, st) = (Inr (Some prin, authMethod, stale), m1, st1)"
    and len: "\<And>s rcd. map_of (sm_sessions m) s = Some rcd \<Longrightarrow> length (ses_CredentialHash rcd) = 32"
  shows "filed st1 = filed st \<and> (\<exists>rcd t. (normalizeTenantID (ses_TenantID rcd), t) \<in> filed st \<and> map_of (sm_sessions m) (readAuthSessionSecret r) = Some rcd
    \<and> clk 0 < ses_ExpiresAt rcd
    \<and> fst (rv_IsAuthSessionRevoked (at_revocations sto) (rc_ctx (rq_context r)) st (ses_PublicID rcd)) = Inr False
    \<and> tn_Active t \<and> ap_Tenant prin = cloneTenant t \<and> sessionGrants sha256hex (clk 4) rcd t prin)"
proof -
  let ?ctx = "rc_ctx (rq_context r)"
  from run obtain rcd m2 st2 where active: "LookupActive (Some (at_revocations sto)) clk ?ctx (readAuthSessionSecret r) (m, st)
      = (Inr (Some rcd), m2, st2)"
    by (auto simp: sessionAuth_def Let_def split: prod.splits sum.splits option.splits)
  have secret: "TrimSpace (readAuthSessionSecret r) = readAuthSessionSecret r"
    by (simp add: readAuthSessionSecret_def split: option.split)
  note found = LookupActive_sound [OF active, unfolded secret]
  then have st2: "st2 = snd (rv_IsAuthSessionRevoked (at_revocations sto) ?ctx st (ses_PublicID rcd))" by simp
  have keep: "filed st2 = filed st" unfolding st2 by (rule revoked_keeps)
  have len: "length (ses_CredentialHash rcd) = 32" using found len by blast
  have "st1 = st2 \<and> (\<exists>t. (normalizeTenantID (ses_TenantID rcd), t) \<in> filed st2 \<and> tn_Active t \<and> ap_Tenant prin = cloneTenant t
    \<and> sessionGrants sha256hex (clk 4) rcd t prin)"
  proof (cases "ses_Mode rcd = ''local''")
    case True
    then obtain t where "activeTenantFromStore sto ?ctx (ses_TenantID rcd) st2 = (Inr (Some t), st1)"
      and "prin = \<lparr>ap_Tenant = t, ap_Role = ses_Role rcd, ap_ServiceAccount = None,
             ap_AuthMethod = firstNonEmpty [ses_AuthMethod rcd, ''local-runtime-session'']\<rparr>"
      using run active by (auto simp: sessionAuth_def Let_def localPrincipalFromSession_def split: prod.splits sum.splits option.splits)
    then show ?thesis using activeTenant_sound True by (fastforce simp: sessionGrants_def)
  next
    case False
    have "\<exists>d. ses_Mode rcd = ''tenant'' \<and> principalFromTenantSession sha256hex sto ?ctx rcd st2 = (Inr (Some prin, d), st1)
        \<or> ses_Mode rcd = ''service-account''
          \<and> principalFromServiceAccountSession sha256hex sto (clk 4) ?ctx rcd st2 = (Inr (Some prin, d), st1)"
      using run active False
      by (auto simp: sessionAuth_def Let_def credentialSession_def split: prod.splits sum.splits option.splits if_splits)
    then show ?thesis
      using principalFromTenantSession_sound [OF _ _ len] principalFromServiceAccountSession_sound [OF _ _ len] by blast
  qed
  then show ?thesis using found keep by auto
qed

lemma tenantIDs_found:
  assumes run: "lookupCredentialTenantIDs sha256hex sto t0 ctx apiKey serviceAccountKey st = (Inr ids, st')"
    and key: "key \<in> {apiKey, serviceAccountKey}"
    and look: "fst (lookupCredentialResultByAPIKey sha256hex sto t0 ctx key st) = Inr (Some res)"
  shows "tn_ID (cl_Tenant res) \<in> set ids"
proof -
  let ?look = "\<lambda>key. lookupCredentialResultByAPIKey sha256hex sto t0 ctx key st"
  obtain x1 x2 where x: "?look apiKey = (x1, st)" "?look serviceAccountKey = (x2, st)"
    using lookupKey_pure by (metis prod.collapse)
  have "key = apiKey \<and> x1 = Inr (Some res) \<or> key = serviceAccountKey \<and> x2 = Inr (Some res)" using key look x by auto
  then show ?thesis
    using run by (auto simp: lookupCredentialTenantIDs_def addMatches_def x split: option.splits sum.splits)
qed

lemma admit_sound:
  assumes "admitPrincipal sha256hex sto t0 r authMethod prin st = (Admitted rc', st')"
    and id: "TrimSpace (tn_ID (ap_Tenant prin)) \<noteq> []"
  shows "\<exists>meth. rc' = withPrincipal (rq_context r) (prin\<lparr>ap_AuthMethod := meth\<rparr>)
    \<and> TrimSpace (TenantIDFromContext (Some (rc_ctx (rq_context r)))) \<in> {[], DefaultTenantID, TrimSpace (tn_ID (ap_Tenant prin))}
    \<and> (\<forall>key \<in> {rq_apiKey r, rq_serviceAccountKey r}. \<forall>res.
         fst (lookupCredentialResultByAPIKey sha256hex sto t0 (rc_ctx (rq_context r)) key st) = Inr (Some res) \<longrightarrow>
         tn_ID (cl_Tenant res) \<in> {[], TrimSpace (tn_ID (ap_Tenant prin))})"
proof -
  let ?ctx = "rc_ctx (rq_context r)"
  let ?prin = "if authMethod \<noteq> [] then prin\<lparr>ap_AuthMethod := authMethod\<rparr> else prin"
  obtain ids where ids: "lookupCredentialTenantIDs sha256hex sto t0 ?ctx (TrimSpace (rq_apiKey r)) (TrimSpace (rq_serviceAccountKey r)) st = (Inr ids, st')"
    and ok: "\<not> tenantAuthMismatch (TenantIDFromContext (Some ?ctx)) (tn_ID (ap_Tenant prin)) ids"
    and rc': "rc' = withPrincipal (rq_context r) ?prin"
    using assms(1) by (auto simp: admitPrincipal_def Let_def split: prod.splits sum.splits if_splits)
  have trim: "lookupCredentialResultByAPIKey sha256hex sto t0 ?ctx (TrimSpace key) st
      = lookupCredentialResultByAPIKey sha256hex sto t0 ?ctx key st" for key
    by (simp add: lookupCredentialResultByAPIKey_def)
  have "tn_ID (cl_Tenant res) \<in> {[], TrimSpace (tn_ID (ap_Tenant prin))}"
    if "key \<in> {rq_apiKey r, rq_serviceAccountKey r}"
      "fst (lookupCredentialResultByAPIKey sha256hex sto t0 ?ctx key st) = Inr (Some res)" for key res
  proof -
    have "tn_ID (cl_Tenant res) \<in> set ids"
      by (rule tenantIDs_found [OF ids, of "TrimSpace key"]) (use that in \<open>auto simp: trim\<close>)
    then show ?thesis using not_mismatch(2) [OF ok id] by blast
  qed
  moreover obtain meth where "?prin = prin\<lparr>ap_AuthMethod := meth\<rparr>"
    by (cases prin; cases "authMethod = []") auto
  ultimately show ?thesis using rc' not_mismatch(1) [OF ok id] by (intro exI [of _ meth]) auto
qed

lemma no_key_no_principal:
  assumes "TrimSpace (rq_apiKey r) = []" "TrimSpace (rq_serviceAccountKey r) = []"
  shows "authenticateTenantPrincipal sha256hex sto t0 ctx (TrimSpace (rq_apiKey r)) (TrimSpace (rq_serviceAccountKey r)) st = (Inr None, st)"
  using assms by (simp add: authenticateTenantPrincipal_def findTenantPrincipalByAPIKey_def
      findServiceAccountPrincipalByAPIKey_def lookupCredentialResultByAPIKey_def)

text \<open>Who is admitted, with what identity.\<close>

lemma middleware_sound:
  assumes run: "tenantAuthMiddleware sha256hex (Some sto) server uuid clk r (osessions, st) = (Admitted rc', osessions', st')"
    and len: "\<And>m s rcd. osessions = Some m \<Longrightarrow> map_of (sm_sessions m) s = Some rcd \<Longrightarrow> length (ses_CredentialHash rcd) = 32"
    and ids: "\<And>t. t \<in> snd ` filed st \<Longrightarrow> TrimSpace (tn_ID t) = tn_ID t \<and> tn_ID t \<noteq> []"
  shows "\<exists>prin. \<exists>t \<in> snd ` filed st. tn_Active t \<and> ap_Tenant prin = cloneTenant t
    \<and> rc' = withPrincipal (rq_context r) prin
    \<and> TrimSpace (TenantIDFromContext (Some (rc_ctx (rq_context r)))) \<in> {[], DefaultTenantID, tn_ID t}
    \<and> (\<forall>key \<in> {rq_apiKey r, rq_serviceAccountKey r}. \<forall>res.
         fst (lookupCredentialResultByAPIKey sha256hex sto (clk 8) (rc_ctx (rq_context r)) key st) = Inr (Some res) \<longrightarrow>
         tn_ID (cl_Tenant res) \<in> {[], tn_ID t})
    \<and> ((\<exists>key \<in> {rq_apiKey r, rq_serviceAccountKey r}. keyGrants sha256hex now key t prin)
       \<or> TrimSpace (rq_apiKey r) = [] \<and> TrimSpace (rq_serviceAccountKey r) = []
         \<and> (\<exists>m rcd. osessions = Some m \<and> map_of (sm_sessions m) (readAuthSessionSecret r) = Some rcd \<and> clk 0 < ses_ExpiresAt rcd
              \<and> fst (rv_IsAuthSessionRevoked (at_revocations sto) (rc_ctx (rq_context r)) st (ses_PublicID rcd)) = Inr False
              \<and> (normalizeTenantID (ses_TenantID rcd), t) \<in> filed st \<and> sessionGrants sha256hex (clk 4) rcd t prin))"
proof (cases "osessions \<noteq> None \<and> TrimSpace (rq_apiKey r) = [] \<and> TrimSpace (rq_serviceAccountKey r) = []")
  case True
  then obtain m where m: "osessions = Some m" by blast
  have blank: "TrimSpace (rq_apiKey r) = []" "TrimSpace (rq_serviceAccountKey r) = []" using True by blast+
  obtain session m1 st1 where auth: "sessionAuth sha256hex sto server uuid clk r (m, st) = (Inr session, m1, st1)"
    and rest: "authenticateRequest sha256hex sto clk r session st1 = (Admitted rc', st')"
    using run blank m by (auto simp: tenantAuthMiddleware_def split: prod.splits sum.splits)
  obtain oprin meth stale where session: "session = (oprin, meth, stale)" by (cases session)
  obtain prin where prin: "oprin = Some prin"
    using rest no_key_no_principal [OF blank] session
    by (cases oprin) (auto simp: authenticateRequest_def Let_def split: if_splits)
  obtain rcd t where found: "filed st1 = filed st" "(normalizeTenantID (ses_TenantID rcd), t) \<in> filed st" "map_of (sm_sessions m) (readAuthSessionSecret r) = Some rcd"
    "clk 0 < ses_ExpiresAt rcd" "fst (rv_IsAuthSessionRevoked (at_revocations sto) (rc_ctx (rq_context r)) st (ses_PublicID rcd)) = Inr False"
    "tn_Active t" "ap_Tenant prin = cloneTenant t" "sessionGrants sha256hex (clk 4) rcd t prin"
    using sessionAuth_sound [OF auth [unfolded session prin]] len [OF m] by blast
  have t: "t \<in> snd ` filed st" using found(2) by force
  have "admitPrincipal sha256hex sto (clk 8) r meth prin st1 = (Admitted rc', st')"
    using rest by (simp add: authenticateRequest_def session prin)
  from admit_sound [OF this] obtain meth' where rc': "rc' = withPrincipal (rq_context r) (prin\<lparr>ap_AuthMethod := meth'\<rparr>)"
    "TrimSpace (TenantIDFromContext (Some (rc_ctx (rq_context r)))) \<in> {[], DefaultTenantID, tn_ID t}"
    using ids [OF t] found(7) by auto
  have "fst (lookupCredentialResultByAPIKey sha256hex sto (clk 8) (rc_ctx (rq_context r)) key st) \<noteq> Inr (Some res)"
    if "key \<in> {rq_apiKey r, rq_serviceAccountKey r}" for key res
    using that blank by (auto simp: lookupCredentialResultByAPIKey_def)
  then show ?thesis
    using found rc' blank m t by (intro exI [of _ "prin\<lparr>ap_AuthMethod := meth'\<rparr>"] bexI [of _ t]) auto
next
  case False
  then have rest: "authenticateRequest sha256hex sto clk r (None, [], False) st = (Admitted rc', st')"
    using run by (auto simp: tenantAuthMiddleware_def split: prod.splits option.splits bool.splits)
  then obtain prin st1 where auth: "authenticateTenantPrincipal sha256hex sto (clk 8) (rc_ctx (rq_context r))
      (TrimSpace (rq_apiKey r)) (TrimSpace (rq_serviceAccountKey r)) st = (Inr (Some prin), st1)"
    and admit: "admitPrincipal sha256hex sto (clk 8) r [] prin st1 = (Admitted rc', st')"
    by (auto simp: authenticateRequest_def Let_def split: prod.splits sum.splits option.splits if_splits)
  obtain t key where found: "st1 = st" "t \<in> snd ` filed st" "key \<in> {rq_apiKey r, rq_serviceAccountKey r}" "tn_Active t"
    "ap_Tenant prin = cloneTenant t" "keyGrants sha256hex now key t prin"
    using authenticate_sound [OF auth] by auto
  from admit_sound [OF admit] obtain meth where "rc' = withPrincipal (rq_context r) (prin\<lparr>ap_AuthMethod := meth\<rparr>)"
    "TrimSpace (TenantIDFromContext (Some (rc_ctx (rq_context r)))) \<in> {[], DefaultTenantID, tn_ID t}"
    "\<forall>key \<in> {rq_apiKey r, rq_serviceAccountKey r}. \<forall>res.
         fst (lookupCredentialResultByAPIKey sha256hex sto (clk 8) (rc_ctx (rq_context r)) key st) = Inr (Some res) \<longrightarrow>
         tn_ID (cl_Tenant res) \<in> {[], tn_ID t}"
    using ids [OF found(2)] found(1,5) by auto
  then show ?thesis
    using found by (intro exI [of _ "prin\<lparr>ap_AuthMethod := meth\<rparr>"] bexI [of _ t]) auto
qed

text \<open>A key the store knows as the key of a tenant is enough.\<close>

lemma lookup_admits:
  assumes look: "fst (lookupCredentialResultByAPIKey sha256hex sto (clk 8) (rc_ctx (rq_context r)) (rq_apiKey r) st) = Inr (Some res)"
    and own: "cl_ServiceAccount res = None" and only: "TrimSpace (rq_serviceAccountKey r) = []"
    and ctx: "TenantIDFromContext (Some (rc_ctx (rq_context r))) \<in> {DefaultTenantID, tn_ID (cl_Tenant res)}"
    and trimmed: "TrimSpace (TenantIDFromContext (Some (rc_ctx (rq_context r)))) = TenantIDFromContext (Some (rc_ctx (rq_context r)))"
      "TrimSpace (tn_ID (cl_Tenant res)) = tn_ID (cl_Tenant res)" "tn_ID (cl_Tenant res) \<noteq> []"
  shows "tenantAuthMiddleware sha256hex (Some sto) server uuid clk r (osessions, st)
    = (Admitted (withPrincipal (rq_context r) \<lparr>ap_Tenant = cl_Tenant res, ap_Role = TenantRoleAdmin, ap_ServiceAccount = None,
         ap_AuthMethod = ''tenant-api-key''\<rparr>), osessions, st)"
proof -
  let ?ctx = "rc_ctx (rq_context r)"
  let ?look = "\<lambda>key. lookupCredentialResultByAPIKey sha256hex sto (clk 8) ?ctx key st"
  have trim: "?look (TrimSpace (rq_apiKey r)) = (Inr (Some res), st)"
    using look lookupKey_pure [of sha256hex "clk 8" ?ctx "rq_apiKey r" st]
    by (simp add: lookupCredentialResultByAPIKey_def prod_eq_iff)
  have none: "?look [] = (Inr None, st)" by (simp add: lookupCredentialResultByAPIKey_def)
  have key: "TrimSpace (rq_apiKey r) \<noteq> []" using look by (auto simp: lookupCredentialResultByAPIKey_def)
  have "\<not> tenantAuthMismatch (TenantIDFromContext (Some ?ctx)) (tn_ID (cl_Tenant res)) [tn_ID (cl_Tenant res)]"
    using ctx trimmed by (auto simp: tenantAuthMismatch_def Let_def)
  then have "authenticateRequest sha256hex sto clk r (None, [], False) st
    = (Admitted (withPrincipal (rq_context r) \<lparr>ap_Tenant = cl_Tenant res, ap_Role = TenantRoleAdmin, ap_ServiceAccount = None,
         ap_AuthMethod = ''tenant-api-key''\<rparr>), st)"
    using own only by (simp add: authenticateRequest_def Let_def authenticateTenantPrincipal_def findTenantPrincipalByAPIKey_def
        admitPrincipal_def lookupCredentialTenantIDs_def addMatches_def trim none)
  then show ?thesis using key by (simp add: tenantAuthMiddleware_def split: option.split)
qed

end

section \<open>The in-memory store\<close>

definition filedTenants :: "'raw MemoryStore auditState \<Rightarrow> (string \<times> Tenant) set" where
  "filedTenants st = set (st_tenants (au_store st))"

lemma onStore_pure: "(\<And>s. snd (f s) = s) \<Longrightarrow> onStore f st = (fst (f (au_store st)), st)"
  by (simp add: onStore_def split_beta)

lemma GetTenant_pure: "snd (GetTenant ctx s tenantID) = s"
  by (auto simp: GetTenant_def op_defs split: option.splits)

lemma LookupCredentialByHash_pure: "snd (LookupCredentialByHash r ctx now s h) = s"
  by (auto simp: LookupCredentialByHash_def op_defs split: option.splits)

lemma lookup_filed:
  assumes "fst (LookupCredentialByHash r ctx now s h) = Inr (Some res)"
  shows "\<exists>t \<in> snd ` set (st_tenants s). tn_Active t \<and> cl_Tenant res = cloneTenant t
        \<and> (case cl_ServiceAccount res of None \<Rightarrow> credentialHashMatches (tn_APIKeyHash t) h
           | Some account \<Rightarrow> \<exists>a \<in> set (tn_ServiceAccounts t). \<exists>b \<in> set (tn_ServiceAccounts t).
                serviceAccountCredentialActive a now \<and> credentialHashMatches (sa_APIKeyHash a) h
                \<and> account = cloneAccount b \<and> sa_ID b = sa_ID a)"
proof -
  have run: "lookupLoop now (TrimSpace h) (map snd (rangeMap r (st_tenants s))) = Some res"
    using assms by (auto simp: LookupCredentialByHash_def op_defs split: option.splits if_splits)
  obtain t where t: "t \<in> snd ` set (st_tenants s)" "lookupOne now (TrimSpace h) t = Some res"
    using lookupLoop_Some [OF run] by auto
  have trim: "credentialHashMatches x (TrimSpace h) = credentialHashMatches x h" for x by (simp add: credentialHashMatches_iff)
  show ?thesis using t(1) lookupOne_Some [OF t(2)] unfolding trim by (intro bexI [OF _ t(1)]) (elim conjE disjE bexE; auto)
qed

interpretation memAuth: auth_store "memAuthStore env r p now" filedTenants now for env r p now
proof (unfold_locales, goal_cases)
  case (1 ctx st tenantID t st')
  then have "fst (GetTenant ctx (au_store st) tenantID) = Inr t"
    by (auto simp: memAuthStore_def onStore_pure GetTenant_pure)
  then show ?case
    by (auto simp: GetTenant_def op_defs filedTenants_def split: option.splits dest: map_of_SomeD)
next
  case (2 ctx st tenantID)
  show ?case by (simp add: memAuthStore_def onStore_pure GetTenant_pure)
next
  case (3 lookup ctx st h res st')
  then have "fst (LookupCredentialByHash r ctx now (au_store st) h) = Inr (Some res)"
    by (auto simp: memAuthStore_def onStore_pure LookupCredentialByHash_pure)
  from lookup_filed [OF this] show ?case by (simp add: filedTenants_def)
next
  case (4 lookup ctx st h)
  then show ?case by (auto simp: memAuthStore_def onStore_pure LookupCredentialByHash_pure)
next
  case 5
  show ?case by (simp add: memAuthStore_def)
next
  case (6 ctx st sid)
  show ?case
    by (auto simp: memAuthStore_def onStore_def filedTenants_def IsAuthSessionRevoked_def op_defs pruneRevokedSessionsLocked_def
        split: option.splits prod.splits if_splits)
qed

lemma TrimSpace_normalize: "TrimSpace (normalizeTenantID t) = normalizeTenantID t"
proof -
  have "TrimSpace DefaultTenantID = DefaultTenantID" by (simp add: DefaultTenantID_def go_string_defs)
  then show ?thesis by (simp add: normalizeTenantID_def Let_def)
qed

lemma filed_ids:
  assumes "store_ok (au_store st)" "(k, t) \<in> filedTenants st"
  shows "tn_ID t = k" "normalizeTenantID k = k" "TrimSpace k = k" "k \<noteq> []"
proof -
  have "tenant_ok k t" using assms by (auto simp: store_ok_def tenants_ok_def filedTenants_def)
  then show "tn_ID t = k" and norm: "normalizeTenantID k = k" by (simp_all add: tenant_ok_def)
  show "TrimSpace k = k" using norm TrimSpace_normalize by metis
  show "k \<noteq> []" using norm normalizeTenantID_nonempty by metis
qed

lemma TenantIDFromContext_facts:
  "TenantIDFromContext c \<noteq> []" "TrimSpace (TenantIDFromContext c) = TenantIDFromContext c"
proof -
  have "TrimSpace DefaultTenantID = DefaultTenantID" by (simp add: DefaultTenantID_def go_string_defs)
  then have "normalizeTenantID DefaultTenantID = DefaultTenantID" by (simp add: normalizeTenantID_def DefaultTenantID_def)
  then have "TenantIDFromContext c = normalizeTenantID (TenantIDFromContext c)"
    by (cases c) (simp_all add: TenantIDFromContext_def)
  then show "TenantIDFromContext c \<noteq> []" "TrimSpace (TenantIDFromContext c) = TenantIDFromContext c"
    using normalizeTenantID_nonempty TrimSpace_normalize by metis+
qed

text \<open>
  C9 (auth_sound): On an in-memory store that satisfies its invariant and a session manager in any reachable
  state, a request that passes the tenant middleware carries the identity of an active tenant, and the tenant of the context it
  is passed on with is that one. It presented a key whose digest is stored for the tenant or for one of its active,
  unexpired accounts, with the role that goes with it; or it presented no key and the secret of a session that was created,
  has not been ended and has not expired, is not revoked in the store and belongs to the tenant. A session
  of the tenant or of a service account is bound to the credential that is stored now; a local session is bound to no
  credential and has the role it was created with. The context of the request named this tenant or the default tenant; a
  request whose context names any other tenant, or one with a key of another tenant, does not pass.
\<close>

theorem auth_sound:
  assumes ok: "store_ok (au_store st)"
    and sessions: "session_run t0 m created ended" "t0 \<le> clk 0" "\<forall>rcd \<in> set created. length (ses_CredentialHash rcd) = 32"
    and run: "tenantAuthMiddleware sha256hex (Some (memAuthStore env r p now)) server uuid clk rq (Some m, st) = (Admitted rc', osessions', st')"
  shows "\<exists>prin t. (tn_ID t, t) \<in> filedTenants st \<and> tn_Active t \<and> ap_Tenant prin = cloneTenant t
    \<and> rc_principal rc' = Some prin \<and> TenantIDFromContext (Some (rc_ctx rc')) = tn_ID t
    \<and> TenantIDFromContext (Some (rc_ctx (rq_context rq))) \<in> {DefaultTenantID, tn_ID t}
    \<and> (\<forall>key \<in> {rq_apiKey rq, rq_serviceAccountKey rq}. \<forall>res.
         fst (lookupCredentialResultByAPIKey sha256hex (memAuthStore env r p now) (clk 8) (rc_ctx (rq_context rq)) key st) = Inr (Some res)
         \<longrightarrow> tn_ID (cl_Tenant res) = tn_ID t)
    \<and> ((\<exists>key \<in> {rq_apiKey rq, rq_serviceAccountKey rq}. keyGrants sha256hex now key t prin)
       \<or> TrimSpace (rq_apiKey rq) = [] \<and> TrimSpace (rq_serviceAccountKey rq) = []
         \<and> (\<exists>rcd. activeAt (clk 0) created ended rcd \<and> ses_Secret rcd = readAuthSessionSecret rq
              \<and> fst (IsAuthSessionRevoked (rc_ctx (rq_context rq)) now (au_store st) (ses_PublicID rcd)) = Inr False
              \<and> normalizeTenantID (ses_TenantID rcd) = tn_ID t \<and> sessionGrants sha256hex (clk 4) rcd t prin))"
proof -
  note sok = session_run_ok [OF sessions(1)]
  have kept: "rcd \<in> set created \<and> ses_Secret rcd = s \<and> s \<notin> set ended" if "map_of (sm_sessions m) s = Some rcd" for s rcd
    using sessions_okD(3) [OF sok that] .
  note ids = filed_ids [OF ok]
  obtain prin t where t: "t \<in> snd ` filedTenants st" "tn_Active t" "ap_Tenant prin = cloneTenant t"
      "rc' = withPrincipal (rq_context rq) prin"
      "TrimSpace (TenantIDFromContext (Some (rc_ctx (rq_context rq)))) \<in> {[], DefaultTenantID, tn_ID t}"
    and cross: "\<forall>key \<in> {rq_apiKey rq, rq_serviceAccountKey rq}. \<forall>res.
         fst (lookupCredentialResultByAPIKey sha256hex (memAuthStore env r p now) (clk 8) (rc_ctx (rq_context rq)) key st) = Inr (Some res)
         \<longrightarrow> tn_ID (cl_Tenant res) \<in> {[], tn_ID t}"
    and grants: "(\<exists>key \<in> {rq_apiKey rq, rq_serviceAccountKey rq}. keyGrants sha256hex now key t prin)
       \<or> TrimSpace (rq_apiKey rq) = [] \<and> TrimSpace (rq_serviceAccountKey rq) = []
         \<and> (\<exists>m' rcd. Some m = Some m' \<and> map_of (sm_sessions m') (readAuthSessionSecret rq) = Some rcd \<and> clk 0 < ses_ExpiresAt rcd
              \<and> fst (rv_IsAuthSessionRevoked (at_revocations (memAuthStore env r p now)) (rc_ctx (rq_context rq)) st (ses_PublicID rcd)) = Inr False
              \<and> (normalizeTenantID (ses_TenantID rcd), t) \<in> filedTenants st \<and> sessionGrants sha256hex (clk 4) rcd t prin)"
  proof -
    have "length (ses_CredentialHash rcd) = 32" if "Some m = Some m'" "map_of (sm_sessions m') s = Some rcd" for m' s rcd
      using that kept sessions(3) by auto
    moreover have "TrimSpace (tn_ID u) = tn_ID u \<and> tn_ID u \<noteq> []" if "u \<in> snd ` filedTenants st" for u
      using that ids by force
    ultimately show ?thesis using that memAuth.middleware_sound [OF run] by blast
  qed
  obtain k where k: "(k, t) \<in> filedTenants st" using t(1) by auto
  have filed: "(tn_ID t, t) \<in> filedTenants st" "TrimSpace (tn_ID t) = tn_ID t" "normalizeTenantID (tn_ID t) = tn_ID t"
    using k ids [OF k] by auto
  have nonempty: "tn_ID (cl_Tenant res) \<noteq> []"
    if look: "fst (lookupCredentialResultByAPIKey sha256hex (memAuthStore env r p now) (clk 8) (rc_ctx (rq_context rq)) key st) = Inr (Some res)" for key res
  proof -
    obtain st2 where "lookupCredentialResultByAPIKey sha256hex (memAuthStore env r p now) (clk 8) (rc_ctx (rq_context rq)) key st = (Inr (Some res), st2)"
      using look by (metis prod.collapse)
    from memAuth.lookupKey_sound [OF this] obtain u where "u \<in> snd ` filedTenants st" "cl_Tenant res = cloneTenant u" by blast
    then show ?thesis using ids by force
  qed
  have revoked: "fst (rv_IsAuthSessionRevoked (at_revocations (memAuthStore env r p now)) ctx st sid) = fst (IsAuthSessionRevoked ctx now (au_store st) sid)"
    for ctx sid by (simp add: memAuthStore_def onStore_def split_beta)
  have session: "activeAt (clk 0) created ended rcd \<and> ses_Secret rcd = readAuthSessionSecret rq"
    if "map_of (sm_sessions m) (readAuthSessionSecret rq) = Some rcd" "clk 0 < ses_ExpiresAt rcd" for rcd
    using kept [OF that(1)] that(2) by (simp add: activeAt_def)
  have sameTenant: "TenantIDFromContext (Some (rc_ctx (rq_context rq))) \<in> {DefaultTenantID, tn_ID t}"
    using t(5) TenantIDFromContext_facts by auto
  have "rc_principal rc' = Some prin" "TenantIDFromContext (Some (rc_ctx rc')) = tn_ID t"
    using t(3,4) filed(3) by (simp_all add: withPrincipal_def Let_def TenantIDFromContext_with)
  moreover have "(\<exists>key \<in> {rq_apiKey rq, rq_serviceAccountKey rq}. keyGrants sha256hex now key t prin)
       \<or> TrimSpace (rq_apiKey rq) = [] \<and> TrimSpace (rq_serviceAccountKey rq) = []
         \<and> (\<exists>rcd. activeAt (clk 0) created ended rcd \<and> ses_Secret rcd = readAuthSessionSecret rq
              \<and> fst (IsAuthSessionRevoked (rc_ctx (rq_context rq)) now (au_store st) (ses_PublicID rcd)) = Inr False
              \<and> normalizeTenantID (ses_TenantID rcd) = tn_ID t \<and> sessionGrants sha256hex (clk 4) rcd t prin)"
    using grants session ids(1) unfolding revoked by (elim disjE) (simp, metis option.inject)
  moreover have "\<forall>key \<in> {rq_apiKey rq, rq_serviceAccountKey rq}. \<forall>res.
         fst (lookupCredentialResultByAPIKey sha256hex (memAuthStore env r p now) (clk 8) (rc_ctx (rq_context rq)) key st) = Inr (Some res)
         \<longrightarrow> tn_ID (cl_Tenant res) = tn_ID t"
    using cross nonempty by blast
  ultimately show ?thesis using t(2,3) filed(1) sameTenant by (intro exI [of _ prin] exI [of _ t] conjI)
qed

lemma credentialHashString_key:
  assumes "hexOutput sha256hex" "TrimSpace key \<noteq> []" "decodeHex (sha256hex (TrimSpace key)) \<noteq> zeroCredentialHash"
  shows "credentialHashString (hashCredential sha256hex key) = HashAPIKey sha256hex key"
  using assms hashCredential_key [OF assms(1,2)]
  by (simp add: credentialHashString_def isZeroCredentialHash_def hexString_decode hexOutput_def HashAPIKey_def Let_def
      apiKeyHashPrefix_def credentialHashPrefix_def)

lemma tenant_key_lookup:
  assumes ok: "store_ok (au_store st)" and live: "ctx_Err ctx = None"
    and sha: "hexOutput sha256hex" "decodeHex (sha256hex (TrimSpace key)) \<noteq> zeroCredentialHash"
    and t: "(k, t) \<in> filedTenants st" "tn_Active t"
    and key: "TrimSpace key \<noteq> []" "TrimSpace (tn_APIKeyHash t) = HashAPIKey sha256hex key"
  shows "fst (lookupCredentialResultByAPIKey sha256hex (memAuthStore env r p now) t0 ctx key st)
    = Inr (Some \<lparr>cl_Tenant = cloneTenant t, cl_ServiceAccount = None\<rparr>)"
proof -
  let ?h = "HashAPIKey sha256hex key" and ?s = "au_store st"
  let ?res = "\<lparr>cl_Tenant = cloneTenant t, cl_ServiceAccount = None\<rparr>"
  have stored: "t \<in> snd ` set (st_tenants ?s)" using t(1) by (force simp: filedTenants_def)
  have h: "TrimSpace ?h = ?h" unfolding key(2) [symmetric] by simp
  have nonempty: "?h \<noteq> []" using key(1) by (simp add: HashAPIKey_def Let_def apiKeyHashPrefix_def)
  have "credentialHashMatches (tn_APIKeyHash t) ?h" using key(2) h nonempty by (simp add: credentialHashMatches_iff)
  then have one: "lookupOne now ?h t = Some ?res" using t(2) by (simp add: lookupOne_def)
  have "lookupLoop now ?h (map snd (rangeMap r (st_tenants ?s))) = Some ?res"
  proof (rule lookupLoop_unique [OF _ one])
    show "t \<in> set (map snd (rangeMap r (st_tenants ?s)))" using stored by simp
    show "u = t" if "u \<in> set (map snd (rangeMap r (st_tenants ?s)))" "lookupOne now ?h u \<noteq> None" for u
      using store_lookup_unique [OF ok stored] that one by auto
  qed
  then have "fst (LookupCredentialByHash r ctx now ?s ?h) = Inr (Some ?res)"
    using live h nonempty by (simp add: LookupCredentialByHash_def op_defs)
  moreover have "\<not> isZeroCredentialHash (hashCredential sha256hex (TrimSpace key))"
    using sha(2) hashCredential_key [OF sha(1), of "TrimSpace key"] key(1) by (simp add: isZeroCredentialHash_def)
  moreover have "credentialHashString (hashCredential sha256hex (TrimSpace key)) = ?h"
    using credentialHashString_key [OF sha(1), of "TrimSpace key"] sha(2) key(1) by (simp add: HashAPIKey_def)
  ultimately show ?thesis
    using key(1) by (simp add: lookupCredentialResultByAPIKey_def lookupCredentialResultByHash_def memAuthStore_def
        onStore_pure LookupCredentialByHash_pure)
qed

text \<open>
  C37 (auth_admits): On an in-memory store that satisfies its invariant, a request with the API key of an active
  tenant, whose hash is the one stored for the tenant, passes the middleware as an administrator of that tenant, whichever
  other credentials the store holds and in whichever order the tenants are visited, when it presents no service account
  key, its context is not done and names no other tenant than this or the default one. The digest of the key is assumed not to be
  all zero, the value that stands for no credential.
\<close>

theorem auth_admits:
  assumes ok: "store_ok (au_store st)" and live: "ctx_Err (rc_ctx (rq_context rq)) = None"
    and sha: "hexOutput sha256hex" "decodeHex (sha256hex (TrimSpace (rq_apiKey rq))) \<noteq> zeroCredentialHash"
    and t: "(k, t) \<in> filedTenants st" "tn_Active t"
    and key: "TrimSpace (rq_apiKey rq) \<noteq> []" "TrimSpace (tn_APIKeyHash t) = HashAPIKey sha256hex (rq_apiKey rq)"
    and only: "TrimSpace (rq_serviceAccountKey rq) = []"
    and ctx: "TenantIDFromContext (Some (rc_ctx (rq_context rq))) \<in> {DefaultTenantID, k}"
  shows "tenantAuthMiddleware sha256hex (Some (memAuthStore env r p now)) server uuid clk rq (osessions, st)
    = (Admitted (withPrincipal (rq_context rq) \<lparr>ap_Tenant = cloneTenant t, ap_Role = TenantRoleAdmin, ap_ServiceAccount = None,
         ap_AuthMethod = ''tenant-api-key''\<rparr>), osessions, st)"
proof -
  note look = tenant_key_lookup [OF ok live sha t key, of env r p now "clk 8"]
  show ?thesis
    using memAuth.lookup_admits [where clk = clk, OF look _ only] ctx filed_ids [OF ok t(1)] TenantIDFromContext_facts by simp
qed

end
