(* ===== verification/AuditCorrect.thy ===== *)
theory AuditCorrect
  imports AuditRetry
begin

text \<open>
  No audit event is lost or saved twice: as long as the calls of the file system succeed, every recorded event is in
  exactly one of three places, the store, the queue file or the background saves that have not run yet, whatever the
  store answers and however recording, background saves and flushes interleave. The contract of the store is the locale
  \<open>audit_store\<close>, interpreted on the in-memory store.
\<close>

section \<open>The encoding of the queue\<close>

definition encode :: "'st auditEnv \<Rightarrow> AuditEvent \<Rightarrow> string" where
  "encode env e = (case ev_marshal env e of Inr s \<Rightarrow> s | Inl _ \<Rightarrow> [])"

text \<open>What is known of \<open>encoding/json\<close>: one line without blanks around that decodes to the event.\<close>

definition lineCodec :: "'st auditEnv \<Rightarrow> bool" where
  "lineCodec env =
     (\<forall>e s. ev_marshal env e = Inr s \<longrightarrow> ev_unmarshal env s = Inr e \<and> TrimSpace s = s \<and> s \<noteq> [] \<and> newline \<notin> set s)"

definition fits :: "'st auditEnv \<Rightarrow> AuditEvent \<Rightarrow> bool" where
  "fits env e = (\<exists>s. ev_marshal env e = Inr s \<and> length s < maxScanTokenSize)"

definition reliable :: "'st auditEnv \<Rightarrow> bool" where
  "reliable env = (\<forall>n. os_fail env n = None)"

lemma encode_facts:
  assumes "lineCodec env" "fits env e"
  shows "ev_marshal env e = Inr (encode env e)" "ev_unmarshal env (encode env e) = Inr e"
    "TrimSpace (encode env e) = encode env e" "encode env e \<noteq> []" "newline \<notin> set (encode env e)"
    "length (encode env e) < maxScanTokenSize"
  using assms by (auto simp: lineCodec_def fits_def encode_def)

lemma splitLines_nonempty: "splitLines s \<noteq> []"
  by (induction s) (auto split: list.splits)

lemma splitLines_line: "newline \<notin> set l \<Longrightarrow> splitLines (l @ newline # rest) = l # splitLines rest"
  by (induction l) (auto split: list.splits)

lemma splitLines_join: "\<forall>l \<in> set ls. newline \<notin> set l \<Longrightarrow> splitLines (joinLines ls) = ls @ [[]]"
  by (induction ls) (auto simp: joinLines_def splitLines_line)

lemma scanned_join:
  assumes "\<forall>l \<in> set ls. newline \<notin> set l \<and> length l < maxScanTokenSize"
  shows "scanned (joinLines ls) = (ls @ [[]], False)"
proof -
  have "takeWhile (\<lambda>l. length l < maxScanTokenSize) (ls @ [[]]) = ls @ [[]]"
    using assms by (intro takeWhile_eq_all_conv [THEN iffD2]) (auto simp: maxScanTokenSize_def)
  moreover have "\<not> (\<exists>l \<in> set (ls @ [[]]). length l \<ge> maxScanTokenSize)"
    using assms by (auto simp: maxScanTokenSize_def)
  moreover have "splitLines (joinLines ls) = ls @ [[]]" using assms splitLines_join by blast
  ultimately show ?thesis by (simp only: scanned_def Let_def simp_thms)
qed

section \<open>Operations when the file system works\<close>

lemma osStep_ok: "reliable env \<Longrightarrow> osStep env st = (None, au_calls st, st\<lparr>au_calls := Suc (au_calls st)\<rparr>)"
  by (simp add: osStep_def reliable_def)

lemma queueContent_calls [simp]: "queueContent (st\<lparr>au_calls := n\<rparr>) = queueContent st"
  "queueContent (st\<lparr>au_store := s\<rparr>) = queueContent st" "queueContent (st\<lparr>au_queue := Some c\<rparr>) = c"
  "queueContent (st\<lparr>au_pending := ps\<rparr>) = queueContent st"
  by (simp_all add: queueContent_def)

lemma queueAuditRetryEvent_ok:
  assumes "reliable env" "lineCodec env" "fits env e"
  shows "\<exists>n. queueAuditRetryEvent env e st
    = (None, st\<lparr>au_queue := Some (queueContent st @ encode env e @ [newline]), au_calls := n\<rparr>)"
  using assms
  by (simp add: queueAuditRetryEvent_def openAuditRetryRoot_def appendQueue_def osStep_ok encode_facts) blast

lemma joinLines_simps [simp]: "joinLines [] = []" "joinLines (ls @ [l]) = joinLines ls @ l @ [newline]"
  by (simp_all add: joinLines_def)

section \<open>Runs\<close>

text \<open>
  \<open>audit_run env st0 recorded st\<close>: recording events, running background saves and flushing the queue, in any order, has
  led from \<open>st0\<close> to \<open>st\<close>; \<open>recorded\<close> are the events that were recorded, in the order of the calls.
\<close>

inductive audit_run :: "'st auditEnv \<Rightarrow> 'st auditState \<Rightarrow> AuditEvent list \<Rightarrow> 'st auditState \<Rightarrow> bool" for env st0 where
  start: "audit_run env st0 [] st0"
| recordEvent: "audit_run env st0 es st \<Longrightarrow> e = normalizeAuditEvent uuid now rc e0 \<Longrightarrow>
    audit_run env st0 (es @ [e]) (recordAuditEvent env uuid now bg rc e0 st)"
| background: "audit_run env st0 es st \<Longrightarrow> audit_run env st0 es (runPending env i st)"
| flush: "audit_run env st0 es st \<Longrightarrow> audit_run env st0 es (snd (flushAuditRetryQueue env st))"

section \<open>Conservation of events\<close>

locale audit_store =
  fixes save :: "Context \<Rightarrow> 'st \<Rightarrow> AuditEvent \<Rightarrow> (goerror + unit) \<times> 'st"
    and saved :: "'st \<Rightarrow> AuditEvent multiset"
    and norm :: "AuditEvent \<Rightarrow> AuditEvent"
  assumes save_ok: "save ctx s e = (Inr x, s') \<Longrightarrow> saved s' = add_mset (norm e) (saved s)"
    and save_failed: "save ctx s e = (Inl err, s') \<Longrightarrow> saved s' = saved s"
begin

text \<open>The events the state accounts for: saved, queued and pending.\<close>

definition balance :: "'st auditState \<Rightarrow> AuditEvent list \<Rightarrow> AuditEvent multiset" where
  "balance st queued = saved (au_store st) + image_mset norm (mset queued) + image_mset norm (mset (map snd (au_pending st)))"

lemma saveEvent_cases:
  assumes "ev_save env = save"
  obtains s' where "saveEvent env ctx e st = (None, st\<lparr>au_store := s'\<rparr>)" "saved s' = add_mset (norm e) (saved (au_store st))"
  | err s' where "saveEvent env ctx e st = (Some err, st\<lparr>au_store := s'\<rparr>)" "saved s' = saved (au_store st)"
proof (cases "save ctx (au_store st) e")
  case (Pair x s')
  then show ?thesis
    using that save_ok save_failed assms by (cases x) (fastforce simp: saveEvent_def)+
qed

lemma persist_balance:
  assumes env: "ev_save env = save" "reliable env" "lineCodec env" and e: "fits env e"
    and q: "queueContent st = joinLines (map (encode env) queued)"
  shows "\<exists>queued'. queueContent (snd (persistAuditEvent env ctx e st)) = joinLines (map (encode env) queued')
    \<and> set queued' \<subseteq> insert e (set queued) \<and> au_pending (snd (persistAuditEvent env ctx e st)) = au_pending st
    \<and> balance (snd (persistAuditEvent env ctx e st)) queued' = add_mset (norm e) (balance st queued)
    \<and> fst (persistAuditEvent env ctx e st) = None"
proof (cases rule: saveEvent_cases [OF env(1), of ctx e st])
  case (1 s1)
  then show ?thesis using q by (intro exI [of _ queued]) (auto simp: persistAuditEvent_def balance_def)
next
  case first: (2 err1 s1)
  let ?st1 = "st\<lparr>au_store := s1\<rparr>"
  show ?thesis
  proof (cases rule: saveEvent_cases [OF env(1), of ctx e ?st1])
    case (1 s2)
    then show ?thesis
      using q first by (intro exI [of _ queued]) (auto simp: persistAuditEvent_def balance_def)
  next
    case (2 err2 s2)
    obtain n where "queueAuditRetryEvent env e (?st1\<lparr>au_store := s2\<rparr>)
        = (None, (?st1\<lparr>au_store := s2\<rparr>)\<lparr>au_queue := Some (queueContent (?st1\<lparr>au_store := s2\<rparr>) @ encode env e @ [newline]), au_calls := n\<rparr>)"
      using queueAuditRetryEvent_ok [OF env(2,3) e] by blast
    then have run: "persistAuditEvent env ctx e st
        = (None, st\<lparr>au_store := s2, au_queue := Some (joinLines (map (encode env) (queued @ [e]))), au_calls := n\<rparr>)"
      using first 2 q by (simp add: persistAuditEvent_def)
    show ?thesis
      unfolding run using first 2 by (intro exI [of _ "queued @ [e]"]) (auto simp: balance_def queueContent_def)
  qed
qed

lemma flush_lines:
  assumes env: "ev_save env = save" "lineCodec env" and "\<forall>e \<in> set es. fits env e"
  shows "\<exists>s' kept. fold (flushLine env) (map (encode env) es) (failed, st) = (failed @ map (encode env) kept, st\<lparr>au_store := s'\<rparr>)
    \<and> set kept \<subseteq> set es \<and> saved s' + image_mset norm (mset kept) = saved (au_store st) + image_mset norm (mset es)"
  using assms(3)
proof (induction es arbitrary: failed st)
  case Nil
  show ?case by (rule exI [of _ "au_store st"], rule exI [of _ "[]"]) simp
next
  case (Cons e es)
  note enc = encode_facts [OF env(2), of e]
  let ?ctx = "auditRetryFlushContext (ae_TenantID e)"
  show ?case
  proof (cases rule: saveEvent_cases [OF env(1), of ?ctx e st])
    case (1 s1)
    then have "flushLine env (encode env e) (failed, st) = (failed, st\<lparr>au_store := s1\<rparr>)"
      using enc Cons.prems by (simp add: flushLine_def)
    with Cons.IH [of failed "st\<lparr>au_store := s1\<rparr>"] Cons.prems 1 show ?thesis by fastforce
  next
    case (2 err s1)
    then have line: "flushLine env (encode env e) (failed, st) = (failed @ [encode env e], st\<lparr>au_store := s1\<rparr>)"
      using enc Cons.prems by (simp add: flushLine_def)
    obtain s' kept where "fold (flushLine env) (map (encode env) es) (failed @ [encode env e], st\<lparr>au_store := s1\<rparr>)
        = ((failed @ [encode env e]) @ map (encode env) kept, (st\<lparr>au_store := s1\<rparr>)\<lparr>au_store := s'\<rparr>)"
      and "set kept \<subseteq> set es" "saved s' + image_mset norm (mset kept) = saved s1 + image_mset norm (mset es)"
      using Cons.IH [of "failed @ [encode env e]" "st\<lparr>au_store := s1\<rparr>"] Cons.prems by auto
    then show ?thesis using line 2 by (intro exI [of _ s'] exI [of _ "e # kept"]) auto
  qed
qed

lemma flush_balance:
  assumes env: "ev_save env = save" "reliable env" "lineCodec env" and fit: "\<forall>e \<in> set queued. fits env e"
    and q: "queueContent st = joinLines (map (encode env) queued)"
  shows "\<exists>queued'. queueContent (snd (flushAuditRetryQueue env st)) = joinLines (map (encode env) queued')
    \<and> set queued' \<subseteq> set queued \<and> au_pending (snd (flushAuditRetryQueue env st)) = au_pending st
    \<and> balance (snd (flushAuditRetryQueue env st)) queued' = balance st queued
    \<and> fst (flushAuditRetryQueue env st) = None"
proof (cases "au_queue st")
  case None
  then show ?thesis
    using q by (intro exI [of _ queued])
      (simp add: flushAuditRetryQueue_def openAuditRetryRoot_def osStep_ok [OF env(2)] balance_def)
next
  case (Some payload)
  define st1 where "st1 = st\<lparr>au_calls := au_calls st + 5\<rparr>"
  have run: "flushAuditRetryQueue env st = flushPayload env payload st1"
    using Some by (simp add: flushAuditRetryQueue_def openAuditRetryRoot_def osStep_ok [OF env(2)] st1_def numeral_eq_Suc)
  have payload: "payload = joinLines (map (encode env) queued)" using q Some by (simp add: queueContent_def)
  have scan: "scanned payload = (map (encode env) queued @ [[]], False)"
    unfolding payload using encode_facts(5,6) [OF env(3)] fit by (intro scanned_join) auto
  obtain s' kept where fold: "fold (flushLine env) (map (encode env) queued) ([], st1) = (map (encode env) kept, st1\<lparr>au_store := s'\<rparr>)"
    and kept: "set kept \<subseteq> set queued" "saved s' + image_mset norm (mset kept) = saved (au_store st1) + image_mset norm (mset queued)"
    using flush_lines [OF env(1,3) fit, of "[]" st1] by auto
  have blank: "flushLine env [] p = p" for p by (cases p) (simp add: flushLine_def)
  have "\<exists>n oq. flushPayload env payload st1 = (None, st1\<lparr>au_store := s', au_queue := oq, au_calls := n\<rparr>)
      \<and> (case oq of None \<Rightarrow> [] | Some c \<Rightarrow> c) = joinLines (map (encode env) kept)"
  proof (cases "kept = []")
    case True
    then show ?thesis
      by (intro exI [of _ "Suc (au_calls st1)"] exI [of _ None])
        (simp add: flushPayload_def scan fold blank removeQueue_def osStep_ok [OF env(2)])
  next
    case False
    then show ?thesis
      by (intro exI [of _ "au_calls st1 + 4"] exI [of _ "Some (joinLines (map (encode env) kept))"])
        (simp add: flushPayload_def scan fold blank rewriteQueue_def appendQueue_def osStep_ok [OF env(2)])
  qed
  then obtain n oq where end_state: "flushPayload env payload st1 = (None, st1\<lparr>au_store := s', au_queue := oq, au_calls := n\<rparr>)"
    and oq: "(case oq of None \<Rightarrow> [] | Some c \<Rightarrow> c) = joinLines (map (encode env) kept)" by blast
  show ?thesis
    unfolding run end_state using oq kept
    by (intro exI [of _ kept]) (simp add: queueContent_def balance_def st1_def)
qed

lemma run_balance:
  assumes env: "ev_save env = save" "reliable env" "lineCodec env"
    and start: "queueContent st0 = []" "au_pending st0 = []" and run: "audit_run env st0 es st"
    and fit: "\<forall>e \<in> set es. fits env e"
  shows "\<exists>queued. queueContent st = joinLines (map (encode env) queued) \<and> (\<forall>e \<in> set queued. fits env e)
    \<and> (\<forall>p \<in> set (au_pending st). fits env (snd p)) \<and> balance st queued = saved (au_store st0) + image_mset norm (mset es)"
  using run fit
proof (induction rule: audit_run.induct)
  case start
  then show ?case using assms(4,5) by (intro exI [of _ "[]"]) (simp add: balance_def)
next
  case (recordEvent es st e uuid now rc e0 bg)
  then have fe: "fits env e" and fes: "\<forall>e \<in> set es. fits env e" by simp_all
  from recordEvent.IH [OF fes] obtain queued where q: "queueContent st = joinLines (map (encode env) queued)" "\<forall>e \<in> set queued. fits env e"
    "\<forall>p \<in> set (au_pending st). fits env (snd p)" "balance st queued = saved (au_store st0) + image_mset norm (mset es)" by blast
  show ?case
  proof (cases "awaitAuditRequested rc")
    case True
    let ?st = "snd (persistAuditEvent env (rc_ctx rc) e st)"
    have run: "recordAuditEvent env uuid now bg rc e0 st = ?st"
      using True recordEvent.hyps(2) by (simp add: recordAuditEvent_def Let_def)
    obtain queued' where "queueContent ?st = joinLines (map (encode env) queued')" "set queued' \<subseteq> insert e (set queued)"
      "au_pending ?st = au_pending st" "balance ?st queued' = add_mset (norm e) (balance st queued)"
      using persist_balance [OF env fe q(1), of "rc_ctx rc"] by blast
    then show ?thesis
      unfolding run using q fe by (intro exI [of _ queued']) auto
  next
    case False
    then show ?thesis
      using q recordEvent.hyps fe by (intro exI [of _ queued]) (auto simp: recordAuditEvent_def balance_def Let_def)
  qed
next
  case (background es st i)
  then obtain queued where q: "queueContent st = joinLines (map (encode env) queued)" "\<forall>e \<in> set queued. fits env e"
    "\<forall>p \<in> set (au_pending st). fits env (snd p)" "balance st queued = saved (au_store st0) + image_mset norm (mset es)" by blast
  show ?case
  proof (cases "i < length (au_pending st)")
    case True
    obtain ctx e where e: "au_pending st ! i = (ctx, e)" by (cases "au_pending st ! i")
    define st1 where "st1 = st\<lparr>au_pending := take i (au_pending st) @ drop (Suc i) (au_pending st)\<rparr>"
    have split: "au_pending st = take i (au_pending st) @ (ctx, e) # drop (Suc i) (au_pending st)"
      using id_take_nth_drop [OF True] e by simp
    have "fits env e" using q(3) nth_mem [OF True] e by fastforce
    moreover have "queueContent st1 = joinLines (map (encode env) queued)" using q(1) by (simp add: st1_def)
    ultimately obtain queued' where q': "queueContent (snd (persistAuditEvent env ctx e st1)) = joinLines (map (encode env) queued')"
      "set queued' \<subseteq> insert e (set queued)" "au_pending (snd (persistAuditEvent env ctx e st1)) = au_pending st1"
      "balance (snd (persistAuditEvent env ctx e st1)) queued' = add_mset (norm e) (balance st1 queued)"
      using persist_balance [OF env, of e st1 queued ctx] by blast
    have "balance st queued = add_mset (norm e) (balance st1 queued)"
      unfolding balance_def st1_def by (subst split) simp
    moreover have "set (au_pending st1) \<subseteq> set (au_pending st)"
      using set_take_subset set_drop_subset by (fastforce simp: st1_def)
    ultimately show ?thesis
      using q' q \<open>fits env e\<close> True by (intro exI [of _ queued']) (auto simp: runPending_def e st1_def [symmetric])
  next
    case False
    then show ?thesis using q by (auto simp: runPending_def)
  qed
next
  case (flush es st)
  then obtain queued where q: "queueContent st = joinLines (map (encode env) queued)" "\<forall>e \<in> set queued. fits env e"
    "\<forall>p \<in> set (au_pending st). fits env (snd p)" "balance st queued = saved (au_store st0) + image_mset norm (mset es)" by blast
  let ?st = "snd (flushAuditRetryQueue env st)"
  obtain queued' where "queueContent ?st = joinLines (map (encode env) queued')" "set queued' \<subseteq> set queued"
    "au_pending ?st = au_pending st" "balance ?st queued' = balance st queued"
    using flush_balance [OF env q(2,1)] by blast
  then show ?case using q by (intro exI [of _ queued']) auto
qed

end

section \<open>The in-memory store\<close>

definition savedEvents :: "'raw MemoryStore \<Rightarrow> AuditEvent multiset" where
  "savedEvents s = mset (concat (map snd (st_auditEvents s)))"

text \<open>An event as \<open>SaveAuditEvent\<close> stores it.\<close>

definition storedEvent :: "string \<Rightarrow> time \<Rightarrow> AuditEvent \<Rightarrow> AuditEvent" where
  "storedEvent uuid now e =
     e\<lparr>ae_TenantID := normalizeTenantID (ae_TenantID e), ae_ID := (if ae_ID e = [] then uuid else ae_ID e),
       ae_CreatedAt := (if isZero (ae_CreatedAt e) then now else ae_CreatedAt e),
       ae_Outcome := (if ae_Outcome e = [] then AuditOutcomeSuccess else ae_Outcome e), ae_Details := copyMap (ae_Details e)\<rparr>"

lemma mset_append_at:
  "mset (concat (map snd (AList.update k ((case map_of m k of None \<Rightarrow> [] | Some es \<Rightarrow> es) @ [e]) m)))
     = add_mset e (mset (concat (map snd m)))"
  by (induction m) auto

lemma ensureTenantLocked_events: "st_auditEvents (snd (ensureTenantLocked s t)) = st_auditEvents s"
  by (auto simp: ensureTenantLocked_def split: option.splits)

lemma SaveAuditEvent_events:
  assumes run: "SaveAuditEvent ctx uuid now s e = (res, s')"
  shows "savedEvents s' = (case res of Inl _ \<Rightarrow> savedEvents s | Inr _ \<Rightarrow> add_mset (storedEvent uuid now e) (savedEvents s))"
proof (cases "ctx_Err ctx")
  case None
  let ?k = "normalizeTenantID (ae_TenantID e)"
  obtain x s1 where tenant: "ensureTenantLocked s ?k = (x, s1)" by (cases "ensureTenantLocked s ?k")
  then have events: "st_auditEvents s1 = st_auditEvents s" using ensureTenantLocked_events [of s ?k] by simp
  show ?thesis
  proof (cases x)
    case (Inl err)
    then have "res = Inl (storeErr ''save audit event'' err) \<and> s' = s1"
      using run tenant None by (simp add: SaveAuditEvent_def op_defs Let_def)
    then show ?thesis by (simp add: savedEvents_def events)
  next
    case (Inr t)
    let ?old = "case map_of (st_auditEvents s) ?k of None \<Rightarrow> [] | Some es \<Rightarrow> es"
    have "SaveAuditEvent ctx uuid now s e
      = (Inr (), s1\<lparr>st_auditEvents := AList.update ?k (?old @ [storedEvent uuid now e]) (st_auditEvents s)\<rparr>)"
      using tenant Inr None by (simp add: SaveAuditEvent_def op_defs Let_def events storedEvent_def)
    then have "res = Inr ()" "st_auditEvents s' = AList.update ?k (?old @ [storedEvent uuid now e]) (st_auditEvents s)"
      using run by auto
    then show ?thesis by (simp add: savedEvents_def mset_append_at)
  qed
next
  case (Some err)
  then show ?thesis using run by (auto simp: SaveAuditEvent_def op_defs)
qed

interpretation memAudit: audit_store "\<lambda>ctx s e. SaveAuditEvent ctx uuid now s e" savedEvents "storedEvent uuid now"
  for uuid now
  by unfold_locales (auto dest: SaveAuditEvent_events)

text \<open>
  C12 (audit_conserved): On the in-memory store, let the calls of the file system succeed, let an encoded event be one
  line that decodes to it, and let every recorded event be encoded in less than 64 KiB, the longest line the
  scanner of the retry queue takes. Then, from a state without a queue file and without pending saves, recording events, running
  background saves and flushing the retry queue in any order neither loses nor duplicates an event: the events
  in the store, in the lines of the queue file and in the pending saves are together exactly the ones that were there at
  the start and the recorded ones, whichever saves the store refuses.
\<close>

theorem audit_conserved:
  assumes "ev_save env = (\<lambda>ctx s e. SaveAuditEvent ctx uuid now s e)" "reliable env" "lineCodec env"
    and "au_queue st0 = None" "au_pending st0 = []" and "audit_run env st0 recorded st"
    and "\<forall>e \<in> set recorded. fits env e"
  shows "\<exists>queued. queueContent st = joinLines (map (encode env) queued)
    \<and> savedEvents (au_store st) + image_mset (storedEvent uuid now) (mset queued + mset (map snd (au_pending st)))
      = savedEvents (au_store st0) + image_mset (storedEvent uuid now) (mset recorded)"
proof -
  have "queueContent st0 = []" using assms(4) by (simp add: queueContent_def)
  from memAudit.run_balance [OF assms(1-3) this assms(5,6,7)] show ?thesis
    by (auto simp: memAudit.balance_def add.assoc)
qed

text \<open>A store that knows no tenant but the default one: an event of another tenant waits in the queue.\<close>

definition demoEvent :: "string \<Rightarrow> AuditEvent" where
  "demoEvent tenantID =
     \<lparr>ae_ID = ''e1'', ae_TenantID = tenantID, ae_Actor = ''tenant:acme'', ae_RequestID = ''r1'', ae_Category = ''tenant'',
      ae_Action = ''login'', ae_Resource = [], ae_Outcome = AuditOutcomeSuccess, ae_Message = [], ae_Details = [], ae_CreatedAt = 5\<rparr>"

definition demoAuditEnv :: "'raw MemoryStore auditEnv" where
  "demoAuditEnv =
     \<lparr>ev_save = (\<lambda>ctx s e. SaveAuditEvent ctx ''u'' 1 s e),
      ev_marshal = (\<lambda>e. if e = demoEvent ''acme'' then Inr ''{a}'' else if e = demoEvent ''default'' then Inr ''{b}''
                        else Inl (Errorf ''json: unsupported value'' [])),
      ev_unmarshal = (\<lambda>s. if s = ''{a}'' then Inr (demoEvent ''acme'') else if s = ''{b}'' then Inr (demoEvent ''default'')
                          else Inl (Errorf ''invalid character'' [])),
      os_fail = (\<lambda>_. None), os_partial = (\<lambda>_. 0)\<rparr>"

definition demoAuditStart :: "'raw MemoryStore auditState" where
  "demoAuditStart = \<lparr>au_store = NewMemoryStore, au_queue = None, au_pending = [], au_calls = 0\<rparr>"

definition demoRequest :: "bool \<Rightarrow> RequestContext" where
  "demoRequest await = \<lparr>rc_ctx = \<lparr>ctx_Err = None, ctx_Tenant = None\<rparr>, rc_requestID = ''r1'', rc_principal = None, rc_tenant = None, rc_awaitAudit = await\<rparr>"

definition demoAuditEnd :: "unit MemoryStore auditState" where
  "demoAuditEnd = recordAuditEvent demoAuditEnv ''u'' 1 \<lparr>ctx_Err = None, ctx_Tenant = None\<rparr> (demoRequest True)
     (demoEvent ''acme'') demoAuditStart"

lemma newline_differs: "newline \<noteq> CHR ''{''" "newline \<noteq> CHR ''a''" "newline \<noteq> CHR ''b''" "newline \<noteq> CHR ''}''"
  by (simp_all add: newline_def char_of_def)

theorem audit_conserved_witness:
  "queueContent demoAuditEnd = ''{a}'' @ [newline] \<and> savedEvents (au_store demoAuditEnd) = {#}
   \<and> (\<exists>queued. queueContent demoAuditEnd = joinLines (map (encode (demoAuditEnv :: unit MemoryStore auditEnv)) queued)
        \<and> image_mset (storedEvent ''u'' 1) (mset queued) = {#storedEvent ''u'' 1 (demoEvent ''acme'')#})"
proof -
  let ?env = "demoAuditEnv :: unit MemoryStore auditEnv" and ?e = "demoEvent ''acme''"
  have e: "normalizeAuditEvent ''u'' 1 (demoRequest True) ?e = ?e"
    by (simp add: normalizeAuditEvent_def demoEvent_def isZero_def)
  have save: "ev_save ?env = (\<lambda>ctx s e. SaveAuditEvent ctx ''u'' 1 s e)" and ok: "reliable ?env"
    and start: "au_queue demoAuditStart = None" "au_pending demoAuditStart = []"
    by (simp_all add: demoAuditEnv_def reliable_def demoAuditStart_def)
  have differ: "demoEvent ''default'' \<noteq> ?e" by (simp add: demoEvent_def)
  have trim: "TrimSpace ''{a}'' = ''{a}''" "TrimSpace ''{b}'' = ''{b}''" by (simp_all add: go_string_defs)
  have codec: "lineCodec ?env"
    unfolding lineCodec_def demoAuditEnv_def by (simp add: differ trim newline_differs)
  have fits: "fits ?env ?e" by (simp add: fits_def demoAuditEnv_def maxScanTokenSize_def)
  have run: "audit_run ?env demoAuditStart ([] @ [?e]) demoAuditEnd"
    unfolding demoAuditEnd_def by (rule audit_run.recordEvent [OF audit_run.start e [symmetric]])
  have refused: "SaveAuditEvent \<lparr>ctx_Err = None, ctx_Tenant = None\<rparr> ''u'' 1 (NewMemoryStore :: unit MemoryStore) ?e
      = (Inl (storeErr ''save audit event'' (Errorf ''tenant %s not found'' [''acme''])), NewMemoryStore)"
  proof -
    have "normalizeTenantID ''acme'' = ''acme''" by (simp add: normalizeTenantID_def go_string_defs)
    then show ?thesis
      by (simp add: SaveAuditEvent_def op_defs demoEvent_def ensureTenantLocked_def NewMemoryStore_def DefaultTenantID_def Let_def)
  qed
  have "demoAuditEnd = snd (persistAuditEvent ?env \<lparr>ctx_Err = None, ctx_Tenant = None\<rparr> ?e demoAuditStart)"
    unfolding demoAuditEnd_def recordAuditEvent_def Let_def e by (simp add: demoRequest_def awaitAuditRequested_def)
  also have "\<dots> = \<lparr>au_store = NewMemoryStore, au_queue = Some (''{a}'' @ [newline]), au_pending = [], au_calls = 5\<rparr>"
    using refused by (simp add: persistAuditEvent_def saveEvent_def demoAuditStart_def demoAuditEnv_def queueAuditRetryEvent_def
        openAuditRetryRoot_def osStep_def appendQueue_def queueContent_def)
  finally have final: "demoAuditEnd = \<lparr>au_store = NewMemoryStore, au_queue = Some (''{a}'' @ [newline]), au_pending = [], au_calls = 5\<rparr>" .
  have "queueContent demoAuditEnd = ''{a}'' @ [newline]" "savedEvents (au_store demoAuditEnd) = {#}"
    and "au_pending demoAuditEnd = []"
    unfolding final by (simp_all add: queueContent_def savedEvents_def NewMemoryStore_def)
  moreover have "savedEvents (au_store (demoAuditStart :: unit MemoryStore auditState)) = {#}"
    by (simp add: demoAuditStart_def savedEvents_def NewMemoryStore_def)
  ultimately show ?thesis using audit_conserved [OF save ok codec start run] fits by simp
qed

end
