(* ===== verification/ApiExamples.thy ===== *)
theory ApiExamples
  imports TenantAuthCorrect AuditCorrect Examples
begin

text \<open>
  The API properties at work: a store with a tenant whose API key is \<open>s3cret\<close>, with \<open>lengthDigest\<close> in place of SHA-256.
\<close>

definition keyedTenant :: Tenant where
  "keyedTenant = demoTenant\<lparr>tn_APIKeyHash := HashAPIKey lengthDigest ''s3cret'', tn_ServiceAccounts := []\<rparr>"

definition keyedState :: "unit MemoryStore auditState" where
  "keyedState =
     \<lparr>au_store = NewMemoryStore\<lparr>st_tenants := [(DefaultTenantID, defaultTenant), (''a'', keyedTenant)]\<rparr>,
      au_queue = None, au_pending = [], au_calls = 0\<rparr>"

definition keyedRequest :: Request where
  "keyedRequest =
     \<lparr>rq_context = \<lparr>rc_ctx = demoCtx, rc_requestID = ''r1'', rc_principal = None, rc_tenant = None, rc_awaitAudit = False\<rparr>,
      rq_apiKey = ''s3cret'', rq_serviceAccountKey = [], rq_sessionCookie = None\<rparr>"

lemma keyedState_ok: "store_ok (au_store keyedState)"
  by (simp add: keyedState_def NewMemoryStore_def store_ok_def tenants_ok_def tenant_ok_def owners_ok_def keyedTenant_def demoTenant_def
      defaultTenant_def tenantHashes_def normalize_default)
    (simp add: DefaultTenantID_def go_string_defs)

lemma keyed_filed: "(''a'', keyedTenant) \<in> filedTenants keyedState" "tn_Active keyedTenant"
  by (simp_all add: filedTenants_def keyedState_def keyedTenant_def demoTenant_def)

lemma keyed_ctx: "TenantIDFromContext (Some (rc_ctx (rq_context keyedRequest))) \<in> {DefaultTenantID, ''a''}"
  by (simp add: keyedRequest_def demoCtx_def TenantIDFromContext_def normalizeTenantID_def)

lemma keyed_key: "TrimSpace (rq_apiKey keyedRequest) = ''s3cret''"
  by (simp add: keyedRequest_def go_string_defs)

lemma keyed_hash: "TrimSpace (tn_APIKeyHash keyedTenant) = HashAPIKey lengthDigest (rq_apiKey keyedRequest)"
proof -
  have "wellFormedHex (lengthDigest ''s3cret'')" using lengthDigest_output by (simp add: hexOutput_def)
  from printed_digest(1) [OF this] show ?thesis
    using keyed_key
    by (simp add: keyedTenant_def keyedRequest_def HashAPIKey_def Let_def apiKeyHashPrefix_def credentialHashPrefix_def)
qed

lemma keyed_digest: "decodeHex (lengthDigest ''s3cret'') \<noteq> zeroCredentialHash"
proof
  assume "decodeHex (lengthDigest ''s3cret'') = zeroCredentialHash"
  then have "last (decodeHex (lengthDigest ''s3cret'')) = last zeroCredentialHash" by simp
  then show False by (simp add: decode_lengthDigest zeroCredentialHash_def)
qed

definition keyedPrincipal :: AuthenticatedPrincipal where
  "keyedPrincipal = \<lparr>ap_Tenant = cloneTenant keyedTenant, ap_Role = TenantRoleAdmin, ap_ServiceAccount = None,
     ap_AuthMethod = ''tenant-api-key''\<rparr>"

theorem auth_admits_witness:
  "tenantAuthMiddleware lengthDigest (Some (memAuthStore demoAuditEnv stable_perm stable_perm 5)) True ''u'' (\<lambda>_. 7) keyedRequest (None, keyedState)
    = (Admitted (withPrincipal (rq_context keyedRequest) keyedPrincipal), None, keyedState)"
  unfolding keyedPrincipal_def
proof (rule auth_admits [OF keyedState_ok _ lengthDigest_output _ keyed_filed _ keyed_hash _ keyed_ctx])
  show "ctx_Err (rc_ctx (rq_context keyedRequest)) = None" by (simp add: keyedRequest_def demoCtx_def)
  show "decodeHex (lengthDigest (TrimSpace (rq_apiKey keyedRequest))) \<noteq> zeroCredentialHash" using keyed_digest keyed_key by simp
qed (simp_all add: keyed_key, simp add: keyedRequest_def)

theorem auth_sound_witness:
  "\<exists>rc'. fst (tenantAuthMiddleware lengthDigest (Some (memAuthStore demoAuditEnv stable_perm stable_perm 5)) True ''u'' (\<lambda>_. 7)
        keyedRequest (Some (newAuthSessionManager 100 1000), keyedState)) = Admitted rc'
     \<and> (\<exists>prin t. rc_principal rc' = Some prin \<and> tn_Active t \<and> ap_Tenant prin = cloneTenant t
          \<and> TenantIDFromContext (Some (rc_ctx rc')) = tn_ID t)"
proof -
  let ?sto = "memAuthStore demoAuditEnv stable_perm stable_perm 5" and ?m = "newAuthSessionManager 100 1000"
  have live: "ctx_Err (rc_ctx (rq_context keyedRequest)) = None" by (simp add: keyedRequest_def demoCtx_def)
  have only: "TrimSpace (rq_serviceAccountKey keyedRequest) = []" by (simp add: keyedRequest_def)
  have look: "fst (lookupCredentialResultByAPIKey lengthDigest ?sto ((\<lambda>_. 7) 8) (rc_ctx (rq_context keyedRequest)) (rq_apiKey keyedRequest) keyedState)
      = Inr (Some \<lparr>cl_Tenant = cloneTenant keyedTenant, cl_ServiceAccount = None\<rparr>)"
    by (rule tenant_key_lookup [OF keyedState_ok live lengthDigest_output _ keyed_filed _ keyed_hash])
       (simp_all add: keyed_key keyed_digest)
  have run: "tenantAuthMiddleware lengthDigest (Some ?sto) True ''u'' (\<lambda>_. 7) keyedRequest (Some ?m, keyedState)
      = (Admitted (withPrincipal (rq_context keyedRequest) keyedPrincipal), Some ?m, keyedState)"
    using memAuth.lookup_admits [where clk = "\<lambda>_. 7", OF look _ only] keyed_ctx filed_ids [OF keyedState_ok keyed_filed(1)]
      TenantIDFromContext_facts by (simp add: keyedPrincipal_def)
  show ?thesis
    using auth_sound [OF keyedState_ok session_run.start [of 0] _ _ run] run by auto
qed

end
