(* ===== verification/LifecyclePolicy.thy ===== *)
theory LifecyclePolicy
  imports MigrationSpec "HOL-Library.AList"
begin

text \<open>
  Lifecycle cost and policy evaluation, \<open>internal/lifecycle/cost.go\<close> and \<open>policy.go\<close>. Floating-point arithmetic is the
  argument \<open>fl\<close> of type \<open>floats\<close>, over a type of its own; \<open>int\<close> values up to 53 bits are exact in it, so that the rounded
  division of \<open>estimatedSockets\<close> is integer division. Files, directories and YAML are arguments. A value of type
  \<open>interface{}\<close> is a \<open>goValue\<close>; \<open>VOther\<close> stands for the remaining dynamic types and carries the text \<open>%v\<close> gives.
\<close>

record 'f floats =
  fl_ofInt :: "int \<Rightarrow> 'f"
  fl_add :: "'f \<Rightarrow> 'f \<Rightarrow> 'f"
  fl_sub :: "'f \<Rightarrow> 'f \<Rightarrow> 'f"
  fl_mul :: "'f \<Rightarrow> 'f \<Rightarrow> 'f"
  fl_div :: "'f \<Rightarrow> 'f \<Rightarrow> 'f"
  fl_less :: "'f \<Rightarrow> 'f \<Rightarrow> bool"
  fl_le :: "'f \<Rightarrow> 'f \<Rightarrow> bool"
  fl_round :: "'f \<Rightarrow> 'f"
  fl_max :: 'f
  fl_parse :: "string \<Rightarrow> goerror + 'f"
  fl_show :: "'f \<Rightarrow> string"

section \<open>Cost\<close>

type_synonym LicenseModel = string

definition LicenseModelPerSocket :: LicenseModel where "LicenseModelPerSocket = ''per-socket''"
definition LicenseModelPerCore :: LicenseModel where "LicenseModelPerCore = ''per-core''"
definition LicenseModelPerVM :: LicenseModel where "LicenseModelPerVM = ''per-vm''"
definition LicenseModelNone :: LicenseModel where "LicenseModelNone = ''none''"

record 'f CostProfile =
  cp_Platform :: Platform
  cp_Name :: string
  cp_CPUCostPerCoreMonth :: 'f
  cp_MemoryCostPerGBMonth :: 'f
  cp_StorageCostPerGBMonth :: 'f
  cp_LicenseCostPerSocketMonth :: 'f
  cp_LicenseCostPerCoreMonth :: 'f
  cp_LicenseModel :: LicenseModel
  cp_SupportCostMonthly :: 'f
  cp_Notes :: string

record 'f VMCost =
  vc_VM :: VirtualMachine
  vc_MonthlyCPUCost :: 'f
  vc_MonthlyMemoryCost :: 'f
  vc_MonthlyStorageCost :: 'f
  vc_MonthlyLicenseCost :: 'f
  vc_MonthlyTotal :: 'f
  vc_AnnualTotal :: 'f

record 'f PlatformComparison =
  pc_VM :: VirtualMachine
  pc_CostByPlatform :: "(Platform \<times> 'f VMCost) list"
  pc_CheapestPlatform :: Platform
  pc_MonthlySavings :: 'f

record 'f FleetCost =
  fc_Platform :: Platform
  fc_TotalMonthly :: 'f
  fc_TotalAnnual :: 'f
  fc_VMCosts :: "'f VMCost list"
  fc_ByCluster :: "(string \<times> 'f) list"
  fc_ByFolder :: "(string \<times> 'f) list"

record 'f CostEngine =
  ce_profiles :: "(Platform \<times> 'f CostProfile) list"

definition NewCostEngine :: "'f CostEngine" where
  "NewCostEngine = \<lparr>ce_profiles = []\<rparr>"

definition AddProfile :: "'f CostProfile \<Rightarrow> 'f CostEngine \<Rightarrow> 'f CostEngine" where
  "AddProfile profile e =
     (if cp_Platform profile = [] then e else e\<lparr>ce_profiles := AList.update (cp_Platform profile) profile (ce_profiles e)\<rparr>)"

definition roundCurrency :: "'f floats \<Rightarrow> 'f \<Rightarrow> 'f" where
  "roundCurrency fl value = fl_div fl (fl_round fl (fl_mul fl value (fl_ofInt fl 100))) (fl_ofInt fl 100)"

definition estimatedSockets :: "int \<Rightarrow> int" where
  "estimatedSockets cpuCount = (if cpuCount \<le> 0 then 1 else (cpuCount + 7) div 8)"

definition calculateLicenseCost :: "'f floats \<Rightarrow> VirtualMachine \<Rightarrow> 'f CostProfile \<Rightarrow> 'f" where
  "calculateLicenseCost fl vm profile =
     (if cp_LicenseModel profile = LicenseModelPerSocket
      then fl_mul fl (fl_ofInt fl (estimatedSockets (vm_CPUCount vm))) (cp_LicenseCostPerSocketMonth profile)
      else if cp_LicenseModel profile = LicenseModelPerCore
      then fl_mul fl (fl_ofInt fl (vm_CPUCount vm)) (cp_LicenseCostPerCoreMonth profile)
      else if cp_LicenseModel profile = LicenseModelPerVM
      then (if fl_less fl (fl_ofInt fl 0) (cp_LicenseCostPerSocketMonth profile) then cp_LicenseCostPerSocketMonth profile
            else cp_LicenseCostPerCoreMonth profile)
      else fl_ofInt fl 0)"

definition CalculateVMCost :: "'f floats \<Rightarrow> 'f CostEngine \<Rightarrow> VirtualMachine \<Rightarrow> Platform \<Rightarrow> goerror + 'f VMCost" where
  "CalculateVMCost fl e vm platform =
     (case map_of (ce_profiles e) platform of
        None \<Rightarrow> Inl (Errorf ''calculate VM cost: missing profile for platform %q'' [platform])
      | Some profile \<Rightarrow>
          (let storageGB = fold (\<lambda>disk acc. fl_add fl acc (fl_div fl (fl_ofInt fl (disk_SizeMB disk)) (fl_ofInt fl 1024)))
                             (vm_Disks vm) (fl_ofInt fl 0);
               monthlyCPU = fl_mul fl (fl_ofInt fl (vm_CPUCount vm)) (cp_CPUCostPerCoreMonth profile);
               monthlyMemory = fl_mul fl (fl_div fl (fl_ofInt fl (vm_MemoryMB vm)) (fl_ofInt fl 1024)) (cp_MemoryCostPerGBMonth profile);
               monthlyStorage = fl_mul fl storageGB (cp_StorageCostPerGBMonth profile);
               monthlyLicense = calculateLicenseCost fl vm profile;
               monthlyTotal = roundCurrency fl
                 (fl_add fl (fl_add fl (fl_add fl (fl_add fl monthlyCPU monthlyMemory) monthlyStorage) monthlyLicense)
                    (cp_SupportCostMonthly profile))
           in Inr \<lparr>vc_VM = vm, vc_MonthlyCPUCost = roundCurrency fl monthlyCPU,
                   vc_MonthlyMemoryCost = roundCurrency fl monthlyMemory,
                   vc_MonthlyStorageCost = roundCurrency fl monthlyStorage,
                   vc_MonthlyLicenseCost = roundCurrency fl monthlyLicense,
                   vc_MonthlyTotal = monthlyTotal,
                   vc_AnnualTotal = roundCurrency fl (fl_mul fl monthlyTotal (fl_ofInt fl 12))\<rparr>))"

text \<open>The loop over the profiles, in the order the map is visited: the costs so far and the cheapest platform.\<close>

fun compareLoop ::
  "'f floats \<Rightarrow> 'f CostEngine \<Rightarrow> VirtualMachine \<Rightarrow> Platform list \<Rightarrow> (Platform \<times> 'f VMCost) list \<Rightarrow> Platform \<Rightarrow> 'f
   \<Rightarrow> goerror + (Platform \<times> 'f VMCost) list \<times> Platform \<times> 'f" where
  "compareLoop fl e vm [] costs cheapest cheapestCost = Inr (costs, cheapest, cheapestCost)"
| "compareLoop fl e vm (platform # platforms) costs cheapest cheapestCost =
     (case CalculateVMCost fl e vm platform of
        Inl err \<Rightarrow> Inl err
      | Inr cost \<Rightarrow>
          (let costs1 = AList.update platform cost costs in
           if fl_less fl (vc_MonthlyTotal cost) cheapestCost
           then compareLoop fl e vm platforms costs1 platform (vc_MonthlyTotal cost)
           else compareLoop fl e vm platforms costs1 cheapest cheapestCost))"

definition CompareVM ::
  "'f floats \<Rightarrow> (Platform list \<Rightarrow> nat list) \<Rightarrow> 'f CostEngine \<Rightarrow> VirtualMachine \<Rightarrow> goerror + 'f PlatformComparison" where
  "CompareVM fl r e vm =
     (if ce_profiles e = [] then Inl (Errorf ''compare VM: no cost profiles configured'' [])
      else (case compareLoop fl e vm (map fst (sort_slice r fst (ce_profiles e))) [] [] (fl_max fl) of
              Inl err \<Rightarrow> Inl err
            | Inr (costs, cheapestPlatform, cheapestCost) \<Rightarrow>
                (let currentTotal = (case CalculateVMCost fl e vm (vm_Platform vm) of
                                       Inl _ \<Rightarrow> fl_ofInt fl 0 | Inr cost \<Rightarrow> vc_MonthlyTotal cost);
                     savings = roundCurrency fl (fl_sub fl currentTotal cheapestCost)
                 in Inr \<lparr>pc_VM = vm, pc_CostByPlatform = costs, pc_CheapestPlatform = cheapestPlatform,
                         pc_MonthlySavings = (if fl_less fl savings (fl_ofInt fl 0) then fl_ofInt fl 0 else savings)\<rparr>)))"

definition addAt :: "'f floats \<Rightarrow> string \<Rightarrow> 'f \<Rightarrow> (string \<times> 'f) list \<Rightarrow> (string \<times> 'f) list" where
  "addAt fl key amount m =
     AList.update key (roundCurrency fl (fl_add fl (case map_of m key of None \<Rightarrow> fl_ofInt fl 0 | Some v \<Rightarrow> v) amount)) m"

fun fleetLoop :: "'f floats \<Rightarrow> 'f CostEngine \<Rightarrow> Platform \<Rightarrow> VirtualMachine list \<Rightarrow> 'f FleetCost \<Rightarrow> goerror + 'f FleetCost" where
  "fleetLoop fl e platform [] fleet = Inr fleet"
| "fleetLoop fl e platform (vm # vms) fleet =
     (case CalculateVMCost fl e vm platform of
        Inl err \<Rightarrow> Inl err
      | Inr cost \<Rightarrow>
          fleetLoop fl e platform vms
            (fleet\<lparr>fc_VMCosts := fc_VMCosts fleet @ [cost],
                   fc_TotalMonthly := fl_add fl (fc_TotalMonthly fleet) (vc_MonthlyTotal cost),
                   fc_TotalAnnual := fl_add fl (fc_TotalAnnual fleet) (vc_AnnualTotal cost),
                   fc_ByCluster := addAt fl (if vm_Cluster vm = [] then ''unassigned'' else vm_Cluster vm) (vc_MonthlyTotal cost) (fc_ByCluster fleet),
                   fc_ByFolder := addAt fl (if vm_Folder vm = [] then ''root'' else vm_Folder vm) (vc_MonthlyTotal cost) (fc_ByFolder fleet)\<rparr>))"

definition CalculateFleetCost ::
  "'f floats \<Rightarrow> 'f CostEngine \<Rightarrow> Platform \<Rightarrow> VirtualMachine list \<Rightarrow> goerror + 'f FleetCost" where
  "CalculateFleetCost fl e platform vms =
     (case fleetLoop fl e platform vms
             \<lparr>fc_Platform = platform, fc_TotalMonthly = fl_ofInt fl 0, fc_TotalAnnual = fl_ofInt fl 0, fc_VMCosts = [],
              fc_ByCluster = [], fc_ByFolder = []\<rparr> of
        Inl err \<Rightarrow> Inl err
      | Inr fleet \<Rightarrow> Inr (fleet\<lparr>fc_TotalMonthly := roundCurrency fl (fc_TotalMonthly fleet),
                                fc_TotalAnnual := roundCurrency fl (fc_TotalAnnual fleet)\<rparr>))"

text \<open>Files: \<open>readFile\<close> and \<open>readDir\<close> answer for a path, \<open>decode\<close> is the YAML decoder.\<close>

definition LoadCostProfile ::
  "(string \<Rightarrow> goerror + string) \<Rightarrow> (string \<Rightarrow> goerror + 'f CostProfile) \<Rightarrow> string \<Rightarrow> goerror + 'f CostProfile" where
  "LoadCostProfile readFile decode path =
     (case readFile path of
        Inl err \<Rightarrow> Inl (Wrap ''load cost profile: read %s: %w'' [path] err)
      | Inr payload \<Rightarrow>
          (case decode payload of
             Inl err \<Rightarrow> Inl (Wrap ''load cost profile: decode %s: %w'' [path] err)
           | Inr profile \<Rightarrow>
               if cp_Platform profile = [] then Inl (Errorf ''load cost profile: platform is required'' [])
               else Inr (profile\<lparr>cp_Name := (if cp_Name profile = [] then TrimSuffix (Base path) (Ext path) else cp_Name profile),
                                 cp_LicenseModel := (if cp_LicenseModel profile = [] then LicenseModelNone else cp_LicenseModel profile)\<rparr>)))"

definition isYamlEntry :: "string \<times> bool \<Rightarrow> bool" where
  "isYamlEntry entry = (case entry of (name, isDir) \<Rightarrow> \<not> (isDir \<or> \<not> HasSuffix name ''.yaml'' \<and> \<not> HasSuffix name ''.yml''))"

fun loadProfiles ::
  "(string \<Rightarrow> goerror + string) \<Rightarrow> (string \<Rightarrow> goerror + 'f CostProfile) \<Rightarrow> string \<Rightarrow> (string \<times> bool) list \<Rightarrow> goerror + 'f CostProfile list" where
  "loadProfiles readFile decode path [] = Inr []"
| "loadProfiles readFile decode path (entry # entries) =
     (if \<not> isYamlEntry entry then loadProfiles readFile decode path entries
      else (case LoadCostProfile readFile decode (filepathJoin [path, fst entry]) of
              Inl err \<Rightarrow> Inl err
            | Inr profile \<Rightarrow>
                (case loadProfiles readFile decode path entries of Inl err \<Rightarrow> Inl err | Inr profiles \<Rightarrow> Inr (profile # profiles))))"

definition LoadCostProfilesDir ::
  "(string \<Rightarrow> goerror + string) \<Rightarrow> (string \<Rightarrow> goerror + (string \<times> bool) list) \<Rightarrow> (string \<Rightarrow> goerror + 'f CostProfile) \<Rightarrow> string
   \<Rightarrow> goerror + 'f CostProfile list" where
  "LoadCostProfilesDir readFile readDir decode path =
     (case readDir path of
        Inl err \<Rightarrow> Inl (Wrap ''load cost profiles dir: read %s: %w'' [path] err)
      | Inr entries \<Rightarrow> loadProfiles readFile decode path entries)"

section \<open>Policies\<close>

datatype 'f goValue =
    VNil
  | VString string
  | VInt int
  | VFloat 'f
  | VStrings "string list"
  | VList "'f goValue list"
  | VMap "(string \<times> string) list"
  | VOther string

type_synonym PolicyType = string
type_synonym PolicySeverity = string

definition PlacementPolicy :: PolicyType where "PlacementPolicy = ''placement''"
definition AffinityPolicy :: PolicyType where "AffinityPolicy = ''affinity''"
definition CompliancePolicy :: PolicyType where "CompliancePolicy = ''compliance''"
definition CostPolicy :: PolicyType where "CostPolicy = ''cost''"
definition PolicySeverityEnforce :: PolicySeverity where "PolicySeverityEnforce = ''enforce''"
definition PolicySeverityWarn :: PolicySeverity where "PolicySeverityWarn = ''warn''"
definition PolicySeverityInfo :: PolicySeverity where "PolicySeverityInfo = ''info''"

record 'f PolicyRule =
  ru_Field :: string
  ru_Operator :: string
  ru_Value :: "'f goValue"
  ru_Message :: string

record 'f Policy =
  po_Name :: string
  po_Type :: PolicyType
  po_Description :: string
  po_Rules :: "'f PolicyRule list"
  po_Severity :: PolicySeverity

record 'f PolicyViolation =
  pv_Policy :: "'f Policy"
  pv_Rule :: "'f PolicyRule"
  pv_VM :: VirtualMachine
  pv_CurrentValue :: "'f goValue"
  pv_Severity :: PolicySeverity
  pv_Remediation :: string

record PolicyWaiver =
  wv_PolicyName :: string
  wv_VMID :: string
  wv_VMName :: string
  wv_Reason :: string
  wv_ExpiresAt :: time

record 'f PolicyReport =
  pr_Policies :: "'f Policy list"
  pr_Violations :: "'f PolicyViolation list"
  pr_CompliantVMs :: int
  pr_NonCompliantVMs :: int
  pr_WaivedViolations :: int
  pr_EvaluatedAt :: time

record 'f PolicyEngine =
  pe_policies :: "'f Policy list"
  pe_costEngine :: "'f CostEngine option"

definition NewPolicyEngine :: "'f CostEngine option \<Rightarrow> 'f PolicyEngine" where
  "NewPolicyEngine costEngine = \<lparr>pe_policies = [], pe_costEngine = costEngine\<rparr>"

definition PolicyCount :: "'f PolicyEngine \<Rightarrow> int" where
  "PolicyCount e = int (length (pe_policies e))"

definition AddPolicy :: "'f Policy \<Rightarrow> 'f PolicyEngine \<Rightarrow> 'f PolicyEngine" where
  "AddPolicy policy e =
     e\<lparr>pe_policies := pe_policies e @ [if po_Severity policy = [] then policy\<lparr>po_Severity := PolicySeverityWarn\<rparr> else policy]\<rparr>"

text \<open>\<open>decodeBundle\<close> and \<open>decodePolicy\<close> are the two attempts at the YAML of a file.\<close>

definition loadPolicyFile ::
  "(string \<Rightarrow> goerror + string) \<Rightarrow> (string \<Rightarrow> goerror + 'f Policy list) \<Rightarrow> (string \<Rightarrow> goerror + 'f Policy) \<Rightarrow> string
   \<Rightarrow> 'f PolicyEngine \<Rightarrow> goerror option \<times> 'f PolicyEngine" where
  "loadPolicyFile readFile decodeBundle decodePolicy path e =
     (case readFile path of
        Inl err \<Rightarrow> (Some (Wrap ''load policies: read %s: %w'' [path] err), e)
      | Inr payload \<Rightarrow>
          (case decodeBundle payload of
             Inr (policy # policies) \<Rightarrow> (None, fold AddPolicy (policy # policies) e)
           | _ \<Rightarrow>
               (case decodePolicy payload of
                  Inl err \<Rightarrow> (Some (Wrap ''load policies: decode %s: %w'' [path] err), e)
                | Inr policy \<Rightarrow> (None, AddPolicy policy e))))"

fun loadPolicyEntries ::
  "(string \<Rightarrow> goerror + string) \<Rightarrow> (string \<Rightarrow> goerror + 'f Policy list) \<Rightarrow> (string \<Rightarrow> goerror + 'f Policy) \<Rightarrow> string
   \<Rightarrow> (string \<times> bool) list \<Rightarrow> 'f PolicyEngine \<Rightarrow> goerror option \<times> 'f PolicyEngine" where
  "loadPolicyEntries readFile decodeBundle decodePolicy path [] e = (None, e)"
| "loadPolicyEntries readFile decodeBundle decodePolicy path (entry # entries) e =
     (if \<not> isYamlEntry entry then loadPolicyEntries readFile decodeBundle decodePolicy path entries e
      else (case loadPolicyFile readFile decodeBundle decodePolicy (filepathJoin [path, fst entry]) e of
              (Some err, e1) \<Rightarrow> (Some err, e1)
            | (None, e1) \<Rightarrow> loadPolicyEntries readFile decodeBundle decodePolicy path entries e1))"

definition LoadPolicies ::
  "(string \<Rightarrow> goerror + bool) \<Rightarrow> (string \<Rightarrow> goerror + (string \<times> bool) list) \<Rightarrow> (string \<Rightarrow> goerror + string)
   \<Rightarrow> (string \<Rightarrow> goerror + 'f Policy list) \<Rightarrow> (string \<Rightarrow> goerror + 'f Policy) \<Rightarrow> string
   \<Rightarrow> 'f PolicyEngine \<Rightarrow> goerror option \<times> 'f PolicyEngine" where
  "LoadPolicies statIsDir readDir readFile decodeBundle decodePolicy path e =
     (case statIsDir path of
        Inl err \<Rightarrow> (Some (Wrap ''load policies: stat %s: %w'' [path] err), e)
      | Inr isDir \<Rightarrow>
          if isDir
          then (case readDir path of
                  Inl err \<Rightarrow> (Some (Wrap ''load policies: read dir %s: %w'' [path] err), e)
                | Inr entries \<Rightarrow> loadPolicyEntries readFile decodeBundle decodePolicy path entries e)
          else loadPolicyFile readFile decodeBundle decodePolicy path e)"

section \<open>Comparing values\<close>

fun joinSpace :: "string list \<Rightarrow> string" where
  "joinSpace [] = []"
| "joinSpace [w] = w"
| "joinSpace (w # ws) = w @ CHR '' '' # joinSpace ws"

text \<open>Go's \<open><\<close> on strings, byte by byte.\<close>

fun bytesLess :: "string \<Rightarrow> string \<Rightarrow> bool" where
  "bytesLess _ [] = False"
| "bytesLess [] (_ # _) = True"
| "bytesLess (a # as) (b # bs) = (charCode a < charCode b \<or> a = b \<and> bytesLess as bs)"

fun insertPair :: "string \<times> string \<Rightarrow> (string \<times> string) list \<Rightarrow> (string \<times> string) list" where
  "insertPair p [] = [p]"
| "insertPair p (q # qs) = (if bytesLess (fst q) (fst p) then q # insertPair p qs else p # q # qs)"

text \<open>\<open>%v\<close> of a value; \<open>fmt\<close> prints a map as \<open>map[k:v ...]\<close> in the order of its keys.\<close>

fun formatValue :: "'f floats \<Rightarrow> 'f goValue \<Rightarrow> string" where
  "formatValue fl VNil = ''<nil>''"
| "formatValue fl (VString s) = s"
| "formatValue fl (VInt i) = itoaInt i"
| "formatValue fl (VFloat f) = fl_show fl f"
| "formatValue fl (VStrings ss) = ''['' @ joinSpace ss @ '']''"
| "formatValue fl (VList vs) = ''['' @ joinSpace (map (formatValue fl) vs) @ '']''"
| "formatValue fl (VMap m) = ''map['' @ joinSpace (map (\<lambda>(k, v). k @ '':'' @ v) (foldr insertPair m [])) @ '']''"
| "formatValue fl (VOther s) = s"

definition normalizeScalar :: "'f floats \<Rightarrow> 'f goValue \<Rightarrow> string" where
  "normalizeScalar fl value = (case value of VString s \<Rightarrow> s | _ \<Rightarrow> formatValue fl value)"

definition numericValue :: "'f floats \<Rightarrow> 'f goValue \<Rightarrow> goerror + 'f" where
  "numericValue fl value =
     (case value of
        VInt i \<Rightarrow> Inr (fl_ofInt fl i)
      | VFloat f \<Rightarrow> Inr f
      | VString s \<Rightarrow>
          (case fl_parse fl (TrimSpace s) of Inl err \<Rightarrow> Inl (Wrap ''numeric value %q: %w'' [s] err) | Inr f \<Rightarrow> Inr f)
      | _ \<Rightarrow> Inl (Errorf ''numeric value %T: unsupported type'' []))"

fun splitComma :: "string \<Rightarrow> string list" where
  "splitComma [] = [[]]"
| "splitComma (c # cs) =
     (if c = CHR '','' then [] # splitComma cs
      else (case splitComma cs of [] \<Rightarrow> [[c]] | w # ws \<Rightarrow> (c # w) # ws))"

definition stringList :: "'f floats \<Rightarrow> 'f goValue \<Rightarrow> string list" where
  "stringList fl value =
     (case value of
        VStrings ss \<Rightarrow> ss
      | VList vs \<Rightarrow> map (normalizeScalar fl) vs
      | VString s \<Rightarrow> filter (\<lambda>part. part \<noteq> []) (map TrimSpace (splitComma s))
      | _ \<Rightarrow> [normalizeScalar fl value])"

definition compareNumbers :: "'f floats \<Rightarrow> ('f \<Rightarrow> 'f \<Rightarrow> bool) \<Rightarrow> 'f goValue \<Rightarrow> 'f goValue \<Rightarrow> goerror + bool" where
  "compareNumbers fl rel currentValue expectedValue =
     (case numericValue fl currentValue of
        Inl err \<Rightarrow> Inl err
      | Inr current \<Rightarrow>
          (case numericValue fl expectedValue of Inl err \<Rightarrow> Inl err | Inr expected \<Rightarrow> Inr (rel current expected)))"

definition compareValues :: "patternLib \<Rightarrow> 'f floats \<Rightarrow> 'f goValue \<Rightarrow> string \<Rightarrow> 'f goValue \<Rightarrow> goerror + bool" where
  "compareValues lib fl currentValue operator expectedValue =
     (if operator = ''equals'' then Inr (normalizeScalar fl currentValue = normalizeScalar fl expectedValue)
      else if operator = ''not-equals'' then Inr (normalizeScalar fl currentValue \<noteq> normalizeScalar fl expectedValue)
      else if operator = ''in'' then Inr (normalizeScalar fl currentValue \<in> set (stringList fl expectedValue))
      else if operator = ''not-in'' then Inr (normalizeScalar fl currentValue \<notin> set (stringList fl expectedValue))
      else if operator = ''less-than'' then compareNumbers fl (fl_less fl) currentValue expectedValue
      else if operator = ''greater-than'' then compareNumbers fl (\<lambda>a b. fl_less fl b a) currentValue expectedValue
      else if operator = ''matches''
      then (case expectedValue of
              VString pattern \<Rightarrow>
                (case regexpCompile lib pattern of
                   Inl err \<Rightarrow> Inl (Wrap ''compare matches: %w'' [] err)
                 | Inr matches \<Rightarrow> Inr (matches (normalizeScalar fl currentValue)))
            | _ \<Rightarrow> Inl (Errorf ''compare matches: expected regex pattern string'' []))
      else Inl (Errorf ''compare values: unsupported operator %q'' [operator]))"

definition valueForField :: "'f floats \<Rightarrow> VirtualMachine \<Rightarrow> string \<Rightarrow> 'f CostEngine option \<Rightarrow> goerror + 'f goValue" where
  "valueForField fl vm field ocostEngine =
     (if field = ''platform'' then Inr (VString (vm_Platform vm))
      else if field = ''cluster'' then Inr (VString (vm_Cluster vm))
      else if field = ''folder'' then Inr (VString (vm_Folder vm))
      else if field = ''cost''
      then (case ocostEngine of
              None \<Rightarrow> Inl (Errorf ''value for field cost: cost engine is required'' [])
            | Some costEngine \<Rightarrow>
                (case CalculateVMCost fl costEngine vm (vm_Platform vm) of
                   Inl err \<Rightarrow> Inl err | Inr cost \<Rightarrow> Inr (VFloat (vc_MonthlyTotal cost))))
      else if HasPrefix field ''tag:''
      then Inr (VString (case map_of (vm_Tags vm) (TrimPrefix field ''tag:'') of None \<Rightarrow> [] | Some v \<Rightarrow> v))
      else Inl (Errorf ''value for field %q: unsupported policy field'' [field]))"

definition evaluateRule ::
  "patternLib \<Rightarrow> 'f floats \<Rightarrow> 'f PolicyEngine \<Rightarrow> VirtualMachine \<Rightarrow> 'f PolicyRule \<Rightarrow> goerror + bool \<times> 'f goValue" where
  "evaluateRule lib fl e vm rule =
     (case valueForField fl vm (ru_Field rule) (pe_costEngine e) of
        Inl err \<Rightarrow> Inl err
      | Inr currentValue \<Rightarrow>
          (case compareValues lib fl currentValue (ru_Operator rule) (ru_Value rule) of
             Inl err \<Rightarrow> Inl err | Inr passed \<Rightarrow> Inr (passed, currentValue)))"

section \<open>Evaluation\<close>

definition remediationForRule :: "'f floats \<Rightarrow> 'f PolicyRule \<Rightarrow> string" where
  "remediationForRule fl rule =
     (if ru_Message rule \<noteq> [] then ru_Message rule
      else ''Update '' @ ru_Field rule @ '' to satisfy '' @ ru_Operator rule @ '' '' @ formatValue fl (ru_Value rule) @ ''.'')"

definition vmKey :: "VirtualMachine \<Rightarrow> string" where
  "vmKey vm = (if vm_SourceRef vm \<noteq> [] then vm_SourceRef vm else if vm_ID vm \<noteq> [] then vm_ID vm else vm_Name vm)"

definition waiverApplies :: "'f Policy \<Rightarrow> VirtualMachine \<Rightarrow> time \<Rightarrow> PolicyWaiver \<Rightarrow> bool" where
  "waiverApplies policy vm now waiver =
     (if \<not> EqualFold (TrimSpace (wv_PolicyName waiver)) (TrimSpace (po_Name policy)) then False
      else if \<not> isZero (wv_ExpiresAt waiver) \<and> now > wv_ExpiresAt waiver then False
      else if TrimSpace (wv_VMID waiver) \<noteq> [] \<and> TrimSpace (wv_VMID waiver) \<noteq> TrimSpace (vm_ID vm) then False
      else if TrimSpace (wv_VMName waiver) \<noteq> [] \<and> \<not> EqualFold (TrimSpace (wv_VMName waiver)) (TrimSpace (vm_Name vm)) then False
      else True)"

definition matchingWaiver :: "'f Policy \<Rightarrow> VirtualMachine \<Rightarrow> PolicyWaiver list \<Rightarrow> time \<Rightarrow> PolicyWaiver option" where
  "matchingWaiver policy vm waivers now =
     (case filter (waiverApplies policy vm now) waivers of [] \<Rightarrow> None | waiver # _ \<Rightarrow> Some waiver)"

text \<open>The three nested loops: the report so far and the keys of the machines that failed.\<close>

definition violationOf :: "'f floats \<Rightarrow> VirtualMachine \<Rightarrow> 'f Policy \<Rightarrow> 'f PolicyRule \<Rightarrow> 'f goValue \<Rightarrow> 'f PolicyViolation" where
  "violationOf fl vm policy rule currentValue =
     \<lparr>pv_Policy = policy, pv_Rule = rule, pv_VM = vm, pv_CurrentValue = currentValue, pv_Severity = po_Severity policy,
      pv_Remediation = remediationForRule fl rule\<rparr>"

fun evaluateRules ::
  "patternLib \<Rightarrow> 'f floats \<Rightarrow> 'f PolicyEngine \<Rightarrow> PolicyWaiver list \<Rightarrow> VirtualMachine \<Rightarrow> 'f Policy \<Rightarrow> 'f PolicyRule list
   \<Rightarrow> 'f PolicyReport \<times> string list \<Rightarrow> goerror + 'f PolicyReport \<times> string list" where
  "evaluateRules lib fl e waivers vm policy [] acc = Inr acc"
| "evaluateRules lib fl e waivers vm policy (rule # rules) acc =
     (case evaluateRule lib fl e vm rule of
        Inl err \<Rightarrow> Inl err
      | Inr (passed, currentValue) \<Rightarrow>
          if passed then evaluateRules lib fl e waivers vm policy rules acc
          else (case acc of (report, nonCompliant) \<Rightarrow>
                  if matchingWaiver policy vm waivers (pr_EvaluatedAt report) \<noteq> None
                  then evaluateRules lib fl e waivers vm policy rules
                         (report\<lparr>pr_WaivedViolations := pr_WaivedViolations report + 1\<rparr>, nonCompliant)
                  else evaluateRules lib fl e waivers vm policy rules
                         (report\<lparr>pr_Violations := pr_Violations report @ [violationOf fl vm policy rule currentValue]\<rparr>,
                          List.insert (vmKey vm) nonCompliant)))"

fun evaluatePolicies ::
  "patternLib \<Rightarrow> 'f floats \<Rightarrow> 'f PolicyEngine \<Rightarrow> PolicyWaiver list \<Rightarrow> VirtualMachine \<Rightarrow> 'f Policy list
   \<Rightarrow> 'f PolicyReport \<times> string list \<Rightarrow> goerror + 'f PolicyReport \<times> string list" where
  "evaluatePolicies lib fl e waivers vm [] acc = Inr acc"
| "evaluatePolicies lib fl e waivers vm (policy # policies) acc =
     (case evaluateRules lib fl e waivers vm policy (po_Rules policy) acc of
        Inl err \<Rightarrow> Inl err | Inr acc1 \<Rightarrow> evaluatePolicies lib fl e waivers vm policies acc1)"

fun evaluateVMs ::
  "patternLib \<Rightarrow> 'f floats \<Rightarrow> 'f PolicyEngine \<Rightarrow> PolicyWaiver list \<Rightarrow> VirtualMachine list
   \<Rightarrow> 'f PolicyReport \<times> string list \<Rightarrow> goerror + 'f PolicyReport \<times> string list" where
  "evaluateVMs lib fl e waivers [] acc = Inr acc"
| "evaluateVMs lib fl e waivers (vm # vms) acc =
     (case evaluatePolicies lib fl e waivers vm (pe_policies e) acc of
        Inl err \<Rightarrow> Inl err | Inr acc1 \<Rightarrow> evaluateVMs lib fl e waivers vms acc1)"

definition EvaluateWithWaivers ::
  "patternLib \<Rightarrow> 'f floats \<Rightarrow> time \<Rightarrow> 'f PolicyEngine \<Rightarrow> DiscoveryResult option \<Rightarrow> PolicyWaiver list \<Rightarrow> goerror + 'f PolicyReport" where
  "EvaluateWithWaivers lib fl now e oinventory waivers =
     (case oinventory of
        None \<Rightarrow> Inl (Errorf ''evaluate policies: inventory is nil'' [])
      | Some inventory \<Rightarrow>
          (case evaluateVMs lib fl e waivers (dr_VMs inventory)
                  (\<lparr>pr_Policies = pe_policies e, pr_Violations = [], pr_CompliantVMs = 0, pr_NonCompliantVMs = 0,
                    pr_WaivedViolations = 0, pr_EvaluatedAt = now\<rparr>, []) of
             Inl err \<Rightarrow> Inl err
           | Inr (report, nonCompliant) \<Rightarrow>
               (let bad = int (length nonCompliant);
                    good = int (length (dr_VMs inventory)) - bad
                in Inr (report\<lparr>pr_NonCompliantVMs := bad, pr_CompliantVMs := (if good < 0 then 0 else good)\<rparr>))))"

definition Evaluate ::
  "patternLib \<Rightarrow> 'f floats \<Rightarrow> time \<Rightarrow> 'f PolicyEngine \<Rightarrow> DiscoveryResult option \<Rightarrow> goerror + 'f PolicyReport" where
  "Evaluate lib fl now e inventory = EvaluateWithWaivers lib fl now e inventory []"

definition Simulate ::
  "patternLib \<Rightarrow> 'f floats \<Rightarrow> time \<Rightarrow> 'f PolicyEngine \<Rightarrow> DiscoveryResult option \<Rightarrow> 'f Policy \<Rightarrow> goerror + 'f PolicyReport" where
  "Simulate lib fl now e inventory newPolicy = EvaluateWithWaivers lib fl now (AddPolicy newPolicy e) inventory []"

end
