(* ===== verification/LifecycleDrift.thy ===== *)
theory LifecycleDrift
  imports LifecyclePolicy MemoryStore
begin

text \<open>
  Drift detection and recommendations, \<open>internal/lifecycle/drift.go\<close> and \<open>recommendation.go\<close>. The baseline snapshot is
  read with the operation \<open>getSnapshot\<close> of the store; maps are visited in an order \<open>r\<close> the runtime chooses, and
  \<open>sort.Slice\<close> rearranges by an arbitrary permutation of the positions. \<open>clone\<close> is the copy of an inventory through JSON.
\<close>

section \<open>Drift\<close>

type_synonym DriftType = string
type_synonym DriftSeverity = string

definition DriftAdded :: DriftType where "DriftAdded = ''added''"
definition DriftRemoved :: DriftType where "DriftRemoved = ''removed''"
definition DriftModified :: DriftType where "DriftModified = ''modified''"
definition DriftPolicyViolation :: DriftType where "DriftPolicyViolation = ''policy_violation''"
definition DriftSeverityCritical :: DriftSeverity where "DriftSeverityCritical = ''critical''"
definition DriftSeverityWarning :: DriftSeverity where "DriftSeverityWarning = ''warning''"
definition DriftSeverityInfo :: DriftSeverity where "DriftSeverityInfo = ''info''"

record 'f DriftEvent =
  de_Type :: DriftType
  de_VM :: VirtualMachine
  de_Field :: string
  de_OldValue :: "'f goValue"
  de_NewValue :: "'f goValue"
  de_Severity :: DriftSeverity
  de_DetectedAt :: time

record DriftConfig =
  dc_IgnoreFields :: "string list"
  dc_MemoryThresholdMB :: int
  dc_CPUThreshold :: int
  dc_WebhookURL :: string

record 'f DriftReport =
  dp_Baseline :: SnapshotMeta
  dp_Current :: SnapshotMeta
  dp_Events :: "'f DriftEvent list"
  dp_AddedVMs :: int
  dp_RemovedVMs :: int
  dp_ModifiedVMs :: int
  dp_PolicyDrifts :: int
  dp_EvaluatedAt :: time

record 'f DriftDetector =
  dd_policyEngine :: "'f PolicyEngine option"
  dd_config :: DriftConfig

definition isIgnored :: "DriftConfig \<Rightarrow> string \<Rightarrow> bool" where
  "isIgnored config field = (field \<in> set (dc_IgnoreFields config))"

definition indexVMs :: "VirtualMachine list \<Rightarrow> (string \<times> VirtualMachine) list" where
  "indexVMs vms = fold (\<lambda>vm items. AList.update (vmKey vm) vm items) vms []"

definition driftSeverityFromPolicy :: "PolicySeverity \<Rightarrow> DriftSeverity" where
  "driftSeverityFromPolicy severity =
     (if severity = PolicySeverityEnforce then DriftSeverityCritical
      else if severity = PolicySeverityWarn then DriftSeverityWarning
      else DriftSeverityInfo)"

text \<open>A missing key of a Go map reads as the empty string.\<close>

definition mapsEqual :: "(string \<times> string) list \<Rightarrow> (string \<times> string) list \<Rightarrow> bool" where
  "mapsEqual left right =
     (if length left \<noteq> length right then False
      else list_all (\<lambda>(key, value). (case map_of right key of None \<Rightarrow> [] | Some v \<Rightarrow> v) = value) left)"

definition absInt :: "int \<Rightarrow> int" where
  "absInt value = (if value < 0 then - value else value)"

definition modifiedEvent ::
  "DriftConfig \<Rightarrow> VirtualMachine \<Rightarrow> time \<Rightarrow> string \<Rightarrow> 'f goValue \<Rightarrow> 'f goValue \<Rightarrow> DriftSeverity \<Rightarrow> 'f DriftEvent list" where
  "modifiedEvent config currentVM detectedAt field oldValue newValue severity =
     (if isIgnored config field then []
      else [\<lparr>de_Type = DriftModified, de_VM = currentVM, de_Field = field, de_OldValue = oldValue, de_NewValue = newValue,
             de_Severity = severity, de_DetectedAt = detectedAt\<rparr>])"

definition compareVMs :: "DriftConfig \<Rightarrow> VirtualMachine \<Rightarrow> VirtualMachine \<Rightarrow> time \<Rightarrow> 'f DriftEvent list" where
  "compareVMs config old new at =
     (let ev = modifiedEvent config new at in
      (if vm_CPUCount old \<noteq> vm_CPUCount new \<and> absInt (vm_CPUCount old - vm_CPUCount new) > dc_CPUThreshold config
       then ev ''cpu_count'' (VInt (vm_CPUCount old)) (VInt (vm_CPUCount new)) DriftSeverityWarning else [])
      @ (if vm_MemoryMB old \<noteq> vm_MemoryMB new \<and> absInt (vm_MemoryMB old - vm_MemoryMB new) > dc_MemoryThresholdMB config
         then ev ''memory_mb'' (VInt (vm_MemoryMB old)) (VInt (vm_MemoryMB new)) DriftSeverityWarning else [])
      @ (if vm_PowerState old \<noteq> vm_PowerState new
         then ev ''power_state'' (VOther (vm_PowerState old)) (VOther (vm_PowerState new)) DriftSeverityInfo else [])
      @ (if vm_Host old \<noteq> vm_Host new then ev ''host'' (VString (vm_Host old)) (VString (vm_Host new)) DriftSeverityInfo else [])
      @ (if vm_Cluster old \<noteq> vm_Cluster new
         then ev ''cluster'' (VString (vm_Cluster old)) (VString (vm_Cluster new)) DriftSeverityInfo else [])
      @ (if vm_Folder old \<noteq> vm_Folder new
         then ev ''folder'' (VString (vm_Folder old)) (VString (vm_Folder new)) DriftSeverityInfo else [])
      @ (if \<not> mapsEqual (vm_Tags old) (vm_Tags new)
         then ev ''tags'' (VMap (vm_Tags old)) (VMap (vm_Tags new)) DriftSeverityInfo else []))"

text \<open>The loops of \<open>Compare\<close>, each on the report and the keys of the modified machines.\<close>

definition compareCurrent ::
  "DriftConfig \<Rightarrow> (string \<times> VirtualMachine) list \<Rightarrow> string \<times> VirtualMachine \<Rightarrow> 'f DriftReport \<times> string list \<Rightarrow> 'f DriftReport \<times> string list" where
  "compareCurrent config baselineVMs = (\<lambda>(key, currentVM) (report, modifiedSet).
     (case map_of baselineVMs key of
        None \<Rightarrow>
          (report\<lparr>dp_AddedVMs := dp_AddedVMs report + 1,
             dp_Events := dp_Events report @ [\<lparr>de_Type = DriftAdded, de_VM = currentVM, de_Field = ''vm'', de_OldValue = VNil,
               de_NewValue = VString (vm_Name currentVM), de_Severity = DriftSeverityInfo,
               de_DetectedAt = dp_EvaluatedAt report\<rparr>]\<rparr>, modifiedSet)
      | Some baselineVM \<Rightarrow>
          (let events = compareVMs config baselineVM currentVM (dp_EvaluatedAt report)
           in (report\<lparr>dp_Events := dp_Events report @ events\<rparr>,
               if events = [] then modifiedSet else List.insert key modifiedSet))))"

definition compareBaseline :: "(string \<times> VirtualMachine) list \<Rightarrow> string \<times> VirtualMachine \<Rightarrow> 'f DriftReport \<Rightarrow> 'f DriftReport" where
  "compareBaseline currentVMs = (\<lambda>(key, baselineVM) report.
     (if map_of currentVMs key \<noteq> None then report
      else report\<lparr>dp_RemovedVMs := dp_RemovedVMs report + 1,
             dp_Events := dp_Events report @ [\<lparr>de_Type = DriftRemoved, de_VM = baselineVM, de_Field = ''vm'',
               de_OldValue = VString (vm_Name baselineVM), de_NewValue = VNil, de_Severity = DriftSeverityCritical,
               de_DetectedAt = dp_EvaluatedAt report\<rparr>]\<rparr>))"

definition policyDrift :: "'f PolicyViolation \<Rightarrow> 'f DriftReport \<Rightarrow> 'f DriftReport" where
  "policyDrift violation report =
     report\<lparr>dp_PolicyDrifts := dp_PolicyDrifts report + 1,
       dp_Events := dp_Events report @ [\<lparr>de_Type = DriftPolicyViolation, de_VM = pv_VM violation, de_Field = ru_Field (pv_Rule violation),
         de_OldValue = VNil, de_NewValue = pv_CurrentValue violation, de_Severity = driftSeverityFromPolicy (pv_Severity violation),
         de_DetectedAt = dp_EvaluatedAt report\<rparr>]\<rparr>"

definition snapshotMeta :: "string \<Rightarrow> string \<Rightarrow> DiscoveryResult \<Rightarrow> SnapshotMeta" where
  "snapshotMeta ident tenantID result =
     \<lparr>sm_ID = ident, sm_TenantID = tenantID, sm_Source = dr_Source result, sm_Platform = dr_Platform result,
      sm_VMCount = int (length (dr_VMs result)), sm_DiscoveredAt = dr_DiscoveredAt result\<rparr>"

definition Compare ::
  "patternLib \<Rightarrow> 'f floats \<Rightarrow> (nat \<Rightarrow> string list \<Rightarrow> nat list) \<Rightarrow> (Context \<Rightarrow> string \<Rightarrow> string \<Rightarrow> goerror + DiscoveryResult)
   \<Rightarrow> (nat \<Rightarrow> time) \<Rightarrow> 'f DriftDetector \<Rightarrow> Context \<Rightarrow> string \<Rightarrow> DiscoveryResult option \<Rightarrow> goerror + 'f DriftReport" where
  "Compare lib fl r getSnapshot clk d ctx baselineID ocurrent =
     (case ocurrent of
        None \<Rightarrow> Inl (Errorf ''compare drift: current result is nil'' [])
      | Some current \<Rightarrow>
          (let tenantID = TenantIDFromContext (Some ctx) in
           case getSnapshot ctx tenantID baselineID of
             Inl err \<Rightarrow> Inl (Wrap ''compare drift: %w'' [] err)
           | Inr baseline \<Rightarrow>
               (let report0 = \<lparr>dp_Baseline = snapshotMeta baselineID tenantID baseline,
                      dp_Current = snapshotMeta ''current'' tenantID current, dp_Events = [], dp_AddedVMs = 0, dp_RemovedVMs = 0,
                      dp_ModifiedVMs = 0, dp_PolicyDrifts = 0, dp_EvaluatedAt = clk 0\<rparr>;
                    baselineVMs = indexVMs (dr_VMs baseline);
                    currentVMs = indexVMs (dr_VMs current);
                    (report1, modifiedSet) = fold (compareCurrent (dd_config d) baselineVMs) (rangeMap (r 0) currentVMs) (report0, []);
                    report2 = fold (compareBaseline currentVMs) (rangeMap (r 1) baselineVMs) report1;
                    report3 = report2\<lparr>dp_ModifiedVMs := int (length modifiedSet)\<rparr>
                in case dd_policyEngine d of
                     None \<Rightarrow> Inr report3
                   | Some policyEngine \<Rightarrow>
                       (case Evaluate lib fl (clk 1) policyEngine (Some current) of
                          Inl err \<Rightarrow> Inl (Wrap ''compare drift: evaluate policy drift: %w'' [] err)
                        | Inr policyReport \<Rightarrow> Inr (fold policyDrift (pr_Violations policyReport) report3)))))"

text \<open>\<open>marshal\<close> is the JSON encoder; \<open>post\<close> builds and sends the request and gives the status of the answer, \<open>Inl (err, sent)\<close>
  when building it (\<open>sent = False\<close>) or sending it fails.\<close>

definition NotifyWebhook ::
  "('f DriftReport \<Rightarrow> goerror + string) \<Rightarrow> (string \<Rightarrow> string \<Rightarrow> goerror \<times> bool + int) \<Rightarrow> 'f DriftDetector
   \<Rightarrow> 'f DriftReport option \<Rightarrow> goerror option" where
  "NotifyWebhook marshal post d oreport =
     (case oreport of
        None \<Rightarrow> Some (Errorf ''notify webhook: report is nil'' [])
      | Some rep \<Rightarrow>
          if dc_WebhookURL (dd_config d) = [] then None
          else (case marshal rep of
                  Inl err \<Rightarrow> Some (Wrap ''notify webhook: marshal report: %w'' [] err)
                | Inr payload \<Rightarrow>
                    (case post (dc_WebhookURL (dd_config d)) payload of
                       Inl (err, False) \<Rightarrow> Some (Wrap ''notify webhook: build request: %w'' [] err)
                     | Inl (err, True) \<Rightarrow> Some (Wrap ''notify webhook: %w'' [] err)
                     | Inr statusCode \<Rightarrow>
                         if 400 \<le> statusCode then Some (Errorf ''notify webhook: status %d'' [itoaInt statusCode]) else None)))"

section \<open>Recommendations\<close>

type_synonym RecommendationType = string

definition RecommendationTypePlacement :: RecommendationType where "RecommendationTypePlacement = ''placement''"
definition RecommendationTypePolicy :: RecommendationType where "RecommendationTypePolicy = ''policy''"
definition RecommendationTypeDrift :: RecommendationType where "RecommendationTypeDrift = ''drift''"

record 'f RemediationRecommendation =
  re_VM :: VirtualMachine
  re_Type :: RecommendationType
  re_Severity :: string
  re_Summary :: string
  re_Action :: string
  re_TargetPlatform :: Platform
  re_MonthlySavings :: 'f
  re_WaiverEligible :: bool
  re_Sources :: "string list"

record 'f RecommendationReport =
  rr_Recommendations :: "'f RemediationRecommendation list"
  rr_GeneratedAt :: time

record 'f RecommendationEngine =
  reng_costEngine :: "'f CostEngine option"
  reng_policyEngine :: "'f PolicyEngine option"

definition recommendationKey :: "'f RemediationRecommendation \<Rightarrow> string" where
  "recommendationKey rec = re_Type rec @ ''|'' @ vm_ID (re_VM rec) @ ''|'' @ re_TargetPlatform rec @ ''|'' @ re_Summary rec"

definition addRecommendation ::
  "'f RemediationRecommendation \<Rightarrow> 'f RemediationRecommendation list \<times> string list \<Rightarrow> 'f RemediationRecommendation list \<times> string list" where
  "addRecommendation rec = (\<lambda>(recs, seen).
     if recommendationKey rec \<in> set seen then (recs, seen) else (recs @ [rec], recommendationKey rec # seen))"

definition policyRecommendation :: "'f floats \<Rightarrow> 'f PolicyViolation \<Rightarrow> 'f RemediationRecommendation" where
  "policyRecommendation fl violation =
     \<lparr>re_VM = pv_VM violation, re_Type = RecommendationTypePolicy, re_Severity = pv_Severity violation,
      re_Summary = ''Policy '' @ po_Name (pv_Policy violation) @ '' is violated'', re_Action = pv_Remediation violation,
      re_TargetPlatform = [], re_MonthlySavings = fl_ofInt fl 0,
      re_WaiverEligible = (pv_Severity violation \<noteq> PolicySeverityEnforce), re_Sources = [''policy'']\<rparr>"

definition placementRecommendation :: "VirtualMachine \<Rightarrow> 'f PlatformComparison \<Rightarrow> 'f RemediationRecommendation" where
  "placementRecommendation vm comparison =
     \<lparr>re_VM = vm, re_Type = RecommendationTypePlacement, re_Severity = ''info'',
      re_Summary = ''Move '' @ vm_Name vm @ '' to '' @ pc_CheapestPlatform comparison @ '' for lower monthly run cost'',
      re_Action = ''Plan a placement change to '' @ pc_CheapestPlatform comparison @ '' and validate dependent policy controls.'',
      re_TargetPlatform = pc_CheapestPlatform comparison, re_MonthlySavings = pc_MonthlySavings comparison,
      re_WaiverEligible = False, re_Sources = [''cost'', ''policy'']\<rparr>"

definition driftAction :: "'f DriftEvent \<Rightarrow> string" where
  "driftAction event =
     (if de_Type event = DriftPolicyViolation
      then ''Review the policy mismatch, remediate the workload, or apply a temporary waiver with an expiration.''
      else if de_Type event = DriftRemoved
      then ''Confirm whether the removal was expected and restore the baseline or workload state if needed.''
      else ''Investigate the drift cause and reconcile the workload with the approved baseline.'')"

definition driftRecommendation :: "'f floats \<Rightarrow> 'f DriftEvent \<Rightarrow> 'f RemediationRecommendation" where
  "driftRecommendation fl event =
     \<lparr>re_VM = de_VM event, re_Type = RecommendationTypeDrift, re_Severity = de_Severity event,
      re_Summary = ''Investigate '' @ map (\<lambda>c. if c = CHR ''_'' then CHR '' '' else c) (de_Type event) @ '' drift on '' @ vm_Name (de_VM event),
      re_Action = driftAction event, re_TargetPlatform = [], re_MonthlySavings = fl_ofInt fl 0,
      re_WaiverEligible = (de_Type event = DriftPolicyViolation), re_Sources = [''drift'']\<rparr>"

text \<open>The candidate is evaluated on its own, as if it were the whole inventory; \<open>clk\<close> gives the readings taken from here on.\<close>

definition placementAllowed ::
  "patternLib \<Rightarrow> 'f floats \<Rightarrow> (nat \<Rightarrow> time) \<Rightarrow> 'f RecommendationEngine \<Rightarrow> VirtualMachine \<Rightarrow> Platform \<Rightarrow> PolicyWaiver list \<Rightarrow> bool" where
  "placementAllowed lib fl clk e vm targetPlatform waivers =
     (case reng_policyEngine e of
        None \<Rightarrow> True
      | Some policyEngine \<Rightarrow>
          (case EvaluateWithWaivers lib fl (clk 1) policyEngine
                  (Some (zeroDR\<lparr>dr_Platform := targetPlatform, dr_DiscoveredAt := clk 0,
                                dr_VMs := [vm\<lparr>vm_Platform := targetPlatform\<rparr>]\<rparr>)) waivers of
             Inl err \<Rightarrow> False
           | Inr report \<Rightarrow> \<not> list_ex (\<lambda>violation. pv_Severity violation = PolicySeverityEnforce) (pr_Violations report)))"

text \<open>The \<open>i\<close>-th machine: the map of profiles is visited in the order \<open>r i\<close>, the clock has been read \<open>2 + 2 * i\<close> times at most.\<close>

fun placementLoop ::
  "patternLib \<Rightarrow> 'f floats \<Rightarrow> (nat \<Rightarrow> Platform list \<Rightarrow> nat list) \<Rightarrow> (nat \<Rightarrow> time) \<Rightarrow> 'f RecommendationEngine \<Rightarrow> 'f CostEngine
   \<Rightarrow> PolicyWaiver list \<Rightarrow> nat \<Rightarrow> VirtualMachine list \<Rightarrow> 'f RemediationRecommendation list \<times> string list
   \<Rightarrow> goerror + 'f RemediationRecommendation list \<times> string list" where
  "placementLoop lib fl r clk e costEngine waivers i [] acc = Inr acc"
| "placementLoop lib fl r clk e costEngine waivers i (vm # vms) acc =
     (case CompareVM fl (r i) costEngine vm of
        Inl err \<Rightarrow> Inl (Wrap ''generate recommendations: %w'' [] err)
      | Inr comparison \<Rightarrow>
          if pc_CheapestPlatform comparison = [] \<or> pc_CheapestPlatform comparison = vm_Platform vm
             \<or> fl_le fl (pc_MonthlySavings comparison) (fl_ofInt fl 0)
          then placementLoop lib fl r clk e costEngine waivers (Suc i) vms acc
          else if \<not> placementAllowed lib fl (\<lambda>k. clk (2 + 2 * i + k)) e vm (pc_CheapestPlatform comparison) waivers
          then placementLoop lib fl r clk e costEngine waivers (Suc i) vms acc
          else placementLoop lib fl r clk e costEngine waivers (Suc i) vms (addRecommendation (placementRecommendation vm comparison) acc))"

definition recommendationSeverityRank :: "string \<Rightarrow> int" where
  "recommendationSeverityRank severity =
     (let s = ToLower (TrimSpace severity) in
      if s = PolicySeverityEnforce \<or> s = DriftSeverityCritical then 0
      else if s = PolicySeverityWarn \<or> s = DriftSeverityWarning then 1
      else 2)"

text \<open>The comparison \<open>sort.Slice\<close> is given.\<close>

definition recommendationLess :: "'f RemediationRecommendation \<Rightarrow> 'f RemediationRecommendation \<Rightarrow> bool" where
  "recommendationLess a b =
     (if re_Severity a = re_Severity b
      then bytesLess (ToLower (vm_Name (re_VM a))) (ToLower (vm_Name (re_VM b)))
      else recommendationSeverityRank (re_Severity a) < recommendationSeverityRank (re_Severity b))"

text \<open>The three sources of recommendations, each on the recommendations so far and the keys seen.\<close>

definition generatePolicy ::
  "patternLib \<Rightarrow> 'f floats \<Rightarrow> time \<Rightarrow> 'f RecommendationEngine \<Rightarrow> DiscoveryResult \<Rightarrow> PolicyWaiver list
   \<Rightarrow> goerror + 'f RemediationRecommendation list \<times> string list" where
  "generatePolicy lib fl now e inventory waivers =
     (case reng_policyEngine e of
        None \<Rightarrow> Inr ([], [])
      | Some policyEngine \<Rightarrow>
          (case EvaluateWithWaivers lib fl now policyEngine (Some inventory) waivers of
             Inl err \<Rightarrow> Inl (Wrap ''generate recommendations: %w'' [] err)
           | Inr policyReport \<Rightarrow> Inr (fold (\<lambda>v. addRecommendation (policyRecommendation fl v)) (pr_Violations policyReport) ([], []))))"

definition generatePlacement ::
  "patternLib \<Rightarrow> 'f floats \<Rightarrow> (nat \<Rightarrow> Platform list \<Rightarrow> nat list) \<Rightarrow> (nat \<Rightarrow> time) \<Rightarrow> 'f RecommendationEngine \<Rightarrow> DiscoveryResult
   \<Rightarrow> PolicyWaiver list \<Rightarrow> 'f RemediationRecommendation list \<times> string list \<Rightarrow> goerror + 'f RemediationRecommendation list \<times> string list" where
  "generatePlacement lib fl r clk e inventory waivers acc =
     (case reng_costEngine e of
        None \<Rightarrow> Inr acc
      | Some costEngine \<Rightarrow>
          if ce_profiles costEngine = [] then Inr acc
          else placementLoop lib fl r clk e costEngine waivers 0 (dr_VMs inventory) acc)"

definition generateDrift ::
  "'f floats \<Rightarrow> 'f DriftReport option \<Rightarrow> 'f RemediationRecommendation list \<times> string list \<Rightarrow> 'f RemediationRecommendation list \<times> string list" where
  "generateDrift fl odrift acc =
     (case odrift of
        None \<Rightarrow> acc
      | Some drift \<Rightarrow>
          fold (\<lambda>event. addRecommendation (driftRecommendation fl event))
            (filter (\<lambda>event. de_Severity event \<noteq> DriftSeverityInfo) (dp_Events drift)) acc)"

definition Generate ::
  "patternLib \<Rightarrow> 'f floats \<Rightarrow> (nat \<Rightarrow> Platform list \<Rightarrow> nat list) \<Rightarrow> ((string \<times> string) list \<Rightarrow> nat list) \<Rightarrow> (nat \<Rightarrow> time) \<Rightarrow> 'f RecommendationEngine
   \<Rightarrow> DiscoveryResult option \<Rightarrow> 'f DriftReport option \<Rightarrow> PolicyWaiver list \<Rightarrow> goerror + 'f RecommendationReport" where
  "Generate lib fl r p clk e oinventory odrift waivers =
     (case oinventory of
        None \<Rightarrow> Inl (Errorf ''generate recommendations: inventory is nil'' [])
      | Some inventory \<Rightarrow>
          (case generatePolicy lib fl (clk 1) e inventory waivers of
             Inl err \<Rightarrow> Inl err
           | Inr acc1 \<Rightarrow>
               (case generatePlacement lib fl r clk e inventory waivers acc1 of
                  Inl err \<Rightarrow> Inl err
                | Inr acc2 \<Rightarrow>
                    Inr \<lparr>rr_Recommendations = sort_slice p (\<lambda>rec. (re_Severity rec, ToLower (vm_Name (re_VM rec))))
                                                 (fst (generateDrift fl odrift acc2)),
                         rr_GeneratedAt = clk 0\<rparr>)))"

section \<open>Simulation\<close>

record SimulationRequest =
  sq_TargetPlatform :: Platform
  sq_VMIDs :: "string list"
  sq_IncludeAll :: bool
  sq_Waivers :: "PolicyWaiver list"

record 'f SimulationResult =
  sr_TargetPlatform :: Platform
  sr_MovedVMs :: int
  sr_CurrentMonthlyCost :: 'f
  sr_SimulatedMonthlyCost :: 'f
  sr_MonthlyDelta :: 'f
  sr_PolicyReport :: "'f PolicyReport option"
  sr_RecommendationReport :: "'f RecommendationReport option"
  sr_SimulatedInventory :: "DiscoveryResult option"

definition workloadIDOrName :: "VirtualMachine \<Rightarrow> string" where
  "workloadIDOrName vm = (if TrimSpace (vm_ID vm) \<noteq> [] then vm_ID vm else vm_Name vm)"

definition selectedVMKeys :: "SimulationRequest \<Rightarrow> VirtualMachine list \<Rightarrow> string list" where
  "selectedVMKeys request vms =
     (if sq_IncludeAll request then remdups (map workloadIDOrName vms)
      else (let scope = map (\<lambda>item. ToLower (TrimSpace item)) (sq_VMIDs request)
            in remdups (map workloadIDOrName
                 (filter (\<lambda>vm. ToLower (vm_ID vm) \<in> set scope \<or> ToLower (vm_Name vm) \<in> set scope) vms))))"

fun fleetTotal :: "'f floats \<Rightarrow> 'f CostEngine \<Rightarrow> VirtualMachine list \<Rightarrow> 'f \<Rightarrow> goerror + 'f" where
  "fleetTotal fl costEngine [] acc = Inr (roundCurrency fl acc)"
| "fleetTotal fl costEngine (vm # vms) acc =
     (case CalculateVMCost fl costEngine vm (vm_Platform vm) of
        Inl err \<Rightarrow> Inl err | Inr cost \<Rightarrow> fleetTotal fl costEngine vms (fl_add fl acc (vc_MonthlyTotal cost)))"

definition monthlyFleetCost :: "'f floats \<Rightarrow> 'f CostEngine \<Rightarrow> VirtualMachine list \<Rightarrow> goerror + 'f" where
  "monthlyFleetCost fl costEngine vms = fleetTotal fl costEngine vms (fl_ofInt fl 0)"

definition moveVM :: "SimulationRequest \<Rightarrow> string list \<Rightarrow> VirtualMachine \<Rightarrow> VirtualMachine" where
  "moveVM request selected vm =
     (if \<not> sq_IncludeAll request \<and> workloadIDOrName vm \<notin> set selected then vm else vm\<lparr>vm_Platform := sq_TargetPlatform request\<rparr>)"

definition RecommendationEngine_Simulate ::
  "patternLib \<Rightarrow> 'f floats \<Rightarrow> (nat \<Rightarrow> Platform list \<Rightarrow> nat list) \<Rightarrow> ((string \<times> string) list \<Rightarrow> nat list)
   \<Rightarrow> (DiscoveryResult \<Rightarrow> goerror + DiscoveryResult) \<Rightarrow> (nat \<Rightarrow> time) \<Rightarrow> 'f RecommendationEngine
   \<Rightarrow> DiscoveryResult option \<Rightarrow> SimulationRequest \<Rightarrow> goerror + 'f SimulationResult" where
  "RecommendationEngine_Simulate lib fl r p clone clk e oinventory request =
     (case (oinventory, reng_costEngine e) of
        (None, _) \<Rightarrow> Inl (Errorf ''simulate lifecycle: inventory is nil'' [])
      | (Some _, None) \<Rightarrow> Inl (Errorf ''simulate lifecycle: cost engine is required'' [])
      | (Some inventory, Some costEngine) \<Rightarrow>
          if sq_TargetPlatform request = [] then Inl (Errorf ''simulate lifecycle: target platform is required'' [])
          else (case clone inventory of
                  Inl err \<Rightarrow> Inl (Wrap ''simulate lifecycle: %w'' [] err)
                | Inr cloned0 \<Rightarrow>
                    (let selected = selectedVMKeys request (dr_VMs cloned0) in
                     if \<not> sq_IncludeAll request \<and> selected = []
                     then Inl (Errorf ''simulate lifecycle: no workloads matched simulation scope'' [])
                     else (case monthlyFleetCost fl costEngine (dr_VMs inventory) of
                             Inl err \<Rightarrow> Inl (Wrap ''simulate lifecycle: %w'' [] err)
                           | Inr currentMonthly \<Rightarrow>
                               (let moved = length (filter (\<lambda>vm. sq_IncludeAll request \<or> workloadIDOrName vm \<in> set selected) (dr_VMs cloned0));
                                    cloned = cloned0\<lparr>dr_VMs := map (moveVM request selected) (dr_VMs cloned0)\<rparr>
                                in case monthlyFleetCost fl costEngine (dr_VMs cloned) of
                                     Inl err \<Rightarrow> Inl (Wrap ''simulate lifecycle: %w'' [] err)
                                   | Inr simulatedMonthly \<Rightarrow>
                                       (case (case reng_policyEngine e of
                                                None \<Rightarrow> Inr None
                                              | Some policyEngine \<Rightarrow>
                                                  (case EvaluateWithWaivers lib fl (clk 0) policyEngine (Some cloned) (sq_Waivers request) of
                                                     Inl err \<Rightarrow> Inl (Wrap ''simulate lifecycle: %w'' [] err)
                                                   | Inr report \<Rightarrow> Inr (Some report))) of
                                          Inl err \<Rightarrow> Inl err
                                        | Inr policyReport \<Rightarrow>
                                            (case Generate lib fl r p (\<lambda>i. clk (1 + i)) e (Some cloned) None (sq_Waivers request) of
                                               Inl err \<Rightarrow> Inl (Wrap ''simulate lifecycle: %w'' [] err)
                                             | Inr recommendationReport \<Rightarrow>
                                                 Inr \<lparr>sr_TargetPlatform = sq_TargetPlatform request, sr_MovedVMs = int moved,
                                                      sr_CurrentMonthlyCost = currentMonthly, sr_SimulatedMonthlyCost = simulatedMonthly,
                                                      sr_MonthlyDelta = roundCurrency fl (fl_sub fl simulatedMonthly currentMonthly),
                                                      sr_PolicyReport = policyReport,
                                                      sr_RecommendationReport = Some recommendationReport,
                                                      sr_SimulatedInventory = Some cloned\<rparr>)))))))"

end
