(* ===== verification/LifecycleCorrect.thy ===== *)
theory LifecycleCorrect
  imports LifecycleDrift
begin

text \<open>
  What the lifecycle engines compute: the report of a policy evaluation is the reference \<open>policyReference\<close> over the
  flat list of checks, the report of a drift comparison depends on the two inventories and not on the order in which
  their maps are visited, and every placement recommendation is a cheaper platform on which no enforced policy fails.
\<close>

section \<open>Policy evaluation\<close>

text \<open>The checks of an evaluation, one per machine, policy and rule.\<close>

definition policyChecks :: "'f Policy list \<Rightarrow> VirtualMachine list \<Rightarrow> (VirtualMachine \<times> 'f Policy \<times> 'f PolicyRule) list" where
  "policyChecks policies vms =
     concat (map (\<lambda>vm. concat (map (\<lambda>policy. map (\<lambda>rule. (vm, policy, rule)) (po_Rules policy)) policies)) vms)"

definition failedCheck ::
  "patternLib \<Rightarrow> 'f floats \<Rightarrow> 'f PolicyEngine \<Rightarrow> VirtualMachine \<times> 'f Policy \<times> 'f PolicyRule \<Rightarrow> 'f PolicyViolation list" where
  "failedCheck lib fl e = (\<lambda>(vm, policy, rule).
     (case evaluateRule lib fl e vm rule of Inr (False, value) \<Rightarrow> [violationOf fl vm policy rule value] | _ \<Rightarrow> []))"

text \<open>A waiver covers a violation of its policy while it has not expired, on the machine it names, or on any when it names none.\<close>

definition covers :: "time \<Rightarrow> 'f PolicyViolation \<Rightarrow> PolicyWaiver \<Rightarrow> bool" where
  "covers now v w \<longleftrightarrow>
     EqualFold (TrimSpace (wv_PolicyName w)) (TrimSpace (po_Name (pv_Policy v)))
     \<and> (wv_ExpiresAt w = 0 \<or> now \<le> wv_ExpiresAt w)
     \<and> TrimSpace (wv_VMID w) \<in> {[], TrimSpace (vm_ID (pv_VM v))}
     \<and> (TrimSpace (wv_VMName w) = [] \<or> EqualFold (TrimSpace (wv_VMName w)) (TrimSpace (vm_Name (pv_VM v))))"

definition waived :: "PolicyWaiver list \<Rightarrow> time \<Rightarrow> 'f PolicyViolation \<Rightarrow> bool" where
  "waived waivers now v = list_ex (covers now v) waivers"

lemma covers_iff: "covers now v w \<longleftrightarrow> waiverApplies (pv_Policy v) (pv_VM v) now w"
  by (auto simp: covers_def waiverApplies_def isZero_def)

definition checkErrors ::
  "patternLib \<Rightarrow> 'f floats \<Rightarrow> 'f PolicyEngine \<Rightarrow> (VirtualMachine \<times> 'f Policy \<times> 'f PolicyRule) list \<Rightarrow> goerror list" where
  "checkErrors lib fl e checks =
     map projl (filter isl (map (\<lambda>(vm, policy, rule). evaluateRule lib fl e vm rule) checks))"

definition policyReference ::
  "patternLib \<Rightarrow> 'f floats \<Rightarrow> time \<Rightarrow> 'f PolicyEngine \<Rightarrow> VirtualMachine list \<Rightarrow> PolicyWaiver list \<Rightarrow> goerror + 'f PolicyReport" where
  "policyReference lib fl now e vms waivers =
     (let checks = policyChecks (pe_policies e) vms;
          failed = concat (map (failedCheck lib fl e) checks);
          violations = filter (\<lambda>v. \<not> waived waivers now v) failed;
          bad = card ((\<lambda>v. vmKey (pv_VM v)) ` set violations)
      in case checkErrors lib fl e checks of
           err # _ \<Rightarrow> Inl err
         | [] \<Rightarrow> Inr \<lparr>pr_Policies = pe_policies e, pr_Violations = violations, pr_CompliantVMs = int (length vms - bad),
                     pr_NonCompliantVMs = int bad, pr_WaivedViolations = int (length (filter (waived waivers now) failed)),
                     pr_EvaluatedAt = now\<rparr>)"

text \<open>The three loops are one loop over the checks.\<close>

fun evaluateChecks ::
  "patternLib \<Rightarrow> 'f floats \<Rightarrow> 'f PolicyEngine \<Rightarrow> PolicyWaiver list \<Rightarrow> (VirtualMachine \<times> 'f Policy \<times> 'f PolicyRule) list
   \<Rightarrow> 'f PolicyReport \<times> string list \<Rightarrow> goerror + 'f PolicyReport \<times> string list" where
  "evaluateChecks lib fl e waivers [] acc = Inr acc"
| "evaluateChecks lib fl e waivers ((vm, policy, rule) # checks) acc =
     (case evaluateRules lib fl e waivers vm policy [rule] acc of
        Inl err \<Rightarrow> Inl err | Inr acc1 \<Rightarrow> evaluateChecks lib fl e waivers checks acc1)"

lemma evaluateChecks_append:
  "evaluateChecks lib fl e waivers (as @ bs) acc =
     (case evaluateChecks lib fl e waivers as acc of
        Inl err \<Rightarrow> Inl err | Inr acc1 \<Rightarrow> evaluateChecks lib fl e waivers bs acc1)"
  by (induction lib fl e waivers as acc rule: evaluateChecks.induct) (simp_all split: sum.split)

lemma evaluateRules_checks:
  "evaluateRules lib fl e waivers vm policy rules acc
     = evaluateChecks lib fl e waivers (map (\<lambda>rule. (vm, policy, rule)) rules) acc"
  by (induction rules arbitrary: acc) (auto split: sum.split prod.split)

lemma evaluatePolicies_checks:
  "evaluatePolicies lib fl e waivers vm policies acc
     = evaluateChecks lib fl e waivers (policyChecks policies [vm]) acc"
  by (induction policies arbitrary: acc)
     (auto simp: policyChecks_def evaluateChecks_append evaluateRules_checks split: sum.split)

lemma evaluateVMs_checks:
  "evaluateVMs lib fl e waivers vms acc = evaluateChecks lib fl e waivers (policyChecks (pe_policies e) vms) acc"
proof (induction vms arbitrary: acc)
  case (Cons vm vms)
  have "policyChecks (pe_policies e) (vm # vms) = policyChecks (pe_policies e) [vm] @ policyChecks (pe_policies e) vms"
    by (simp add: policyChecks_def)
  then show ?case
    using Cons.IH by (simp add: evaluateChecks_append evaluatePolicies_checks split: sum.split)
qed (simp add: policyChecks_def)

lemma matchingWaiver_iff: "matchingWaiver policy vm waivers now = None \<longleftrightarrow> \<not> list_ex (waiverApplies policy vm now) waivers"
  by (induction waivers) (auto simp: matchingWaiver_def)

text \<open>One check: an error, a pass, a waived failure or a violation.\<close>

lemma evaluateRules_single:
  "evaluateRules lib fl e waivers vm policy [rule] (rep, bad) =
     (case evaluateRule lib fl e vm rule of
        Inl err \<Rightarrow> Inl err
      | Inr _ \<Rightarrow>
          (let failed = failedCheck lib fl e (vm, policy, rule);
               violations = filter (\<lambda>v. \<not> waived waivers (pr_EvaluatedAt rep) v) failed
           in Inr (rep\<lparr>pr_Violations := pr_Violations rep @ violations,
                       pr_WaivedViolations := pr_WaivedViolations rep + int (length (filter (waived waivers (pr_EvaluatedAt rep)) failed))\<rparr>,
                   fold (\<lambda>v. List.insert (vmKey (pv_VM v))) violations bad)))"
  by (auto simp: failedCheck_def waived_def covers_iff violationOf_def matchingWaiver_iff list_ex_iff split: sum.split prod.split bool.split)

lemma evaluateChecks_exact:
  "evaluateChecks lib fl e waivers checks (rep, bad) =
     (case checkErrors lib fl e checks of
        err # _ \<Rightarrow> Inl err
      | [] \<Rightarrow>
          (let failed = concat (map (failedCheck lib fl e) checks);
               violations = filter (\<lambda>v. \<not> waived waivers (pr_EvaluatedAt rep) v) failed
           in Inr (rep\<lparr>pr_Violations := pr_Violations rep @ violations,
                       pr_WaivedViolations := pr_WaivedViolations rep + int (length (filter (waived waivers (pr_EvaluatedAt rep)) failed))\<rparr>,
                   fold (\<lambda>v. List.insert (vmKey (pv_VM v))) violations bad)))"
proof (induction checks arbitrary: rep bad)
  case Nil
  show ?case by (simp add: checkErrors_def)
next
  case (Cons c checks)
  obtain vm policy rule where c: "c = (vm, policy, rule)" by (cases c) auto
  show ?case
  proof (cases "evaluateRule lib fl e vm rule")
    case (Inl err)
    then show ?thesis by (simp add: c evaluateRules_single checkErrors_def del: evaluateRules.simps)
  next
    case (Inr out)
    then have "checkErrors lib fl e (c # checks) = checkErrors lib fl e checks" by (simp add: c checkErrors_def)
    with Inr show ?thesis
      by (simp add: c evaluateRules_single Cons.IH Let_def del: evaluateRules.simps split: list.split)
  qed
qed

lemma fold_insert_keys:
  "distinct bad \<Longrightarrow> distinct (fold (\<lambda>v. List.insert (f v)) vs bad) \<and> set (fold (\<lambda>v. List.insert (f v)) vs bad) = set bad \<union> f ` set vs"
  by (induction vs arbitrary: bad) auto

lemma length_insert_keys: "length (fold (\<lambda>v. List.insert (f v)) vs []) = card (f ` set vs)"
  using fold_insert_keys [of "[]" f vs] by (metis distinct.simps(1) distinct_card empty_set sup_bot_left)

text \<open>
  C23 (policy_report_exact): evaluating the policies over an inventory is the reference evaluation: it fails with the error
  of the first check, in the order machine, policy, rule, that cannot be evaluated; otherwise the violations are exactly
  the failing checks no waiver covers at the time of the evaluation, in that order, the waived failures are counted, a
  machine is non-compliant exactly when a violation has its key, and the compliant count never goes below zero.
\<close>

theorem policy_report_exact:
  "EvaluateWithWaivers lib fl now e (Some inventory) waivers = policyReference lib fl now e (dr_VMs inventory) waivers"
  by (auto simp: EvaluateWithWaivers_def policyReference_def evaluateVMs_checks evaluateChecks_exact length_insert_keys Let_def
        of_nat_diff split: list.split)

section \<open>Drift\<close>

text \<open>The machine of an inventory with a key (the last one wins) and the drift between two inventories at a key.\<close>

definition vmAt :: "VirtualMachine list \<Rightarrow> string \<Rightarrow> VirtualMachine option" where
  "vmAt vms key = find (\<lambda>vm. vmKey vm = key) (rev vms)"

definition addedEvent :: "time \<Rightarrow> VirtualMachine \<Rightarrow> 'f DriftEvent" where
  "addedEvent at vm = \<lparr>de_Type = DriftAdded, de_VM = vm, de_Field = ''vm'', de_OldValue = VNil, de_NewValue = VString (vm_Name vm),
     de_Severity = DriftSeverityInfo, de_DetectedAt = at\<rparr>"

definition removedEvent :: "time \<Rightarrow> VirtualMachine \<Rightarrow> 'f DriftEvent" where
  "removedEvent at vm = \<lparr>de_Type = DriftRemoved, de_VM = vm, de_Field = ''vm'', de_OldValue = VString (vm_Name vm), de_NewValue = VNil,
     de_Severity = DriftSeverityCritical, de_DetectedAt = at\<rparr>"

definition violationEvent :: "time \<Rightarrow> 'f PolicyViolation \<Rightarrow> 'f DriftEvent" where
  "violationEvent at v = \<lparr>de_Type = DriftPolicyViolation, de_VM = pv_VM v, de_Field = ru_Field (pv_Rule v), de_OldValue = VNil,
     de_NewValue = pv_CurrentValue v, de_Severity = driftSeverityFromPolicy (pv_Severity v), de_DetectedAt = at\<rparr>"

text \<open>
  The reference for modifications: a table of the compared fields with their severity, the value reported
  and when two values count as different. Numbers differ when they are apart by more than the
  threshold, tags when their numbers differ or some old tag is not found with its value, where a missing
  tag passes for one with an empty value.
\<close>

definition apart :: "int \<Rightarrow> int \<Rightarrow> int \<Rightarrow> bool" where
  "apart threshold old new = (max 0 threshold < \<bar>old - new\<bar>)"

definition tagsDiffer :: "(string \<times> string) list \<Rightarrow> (string \<times> string) list \<Rightarrow> bool" where
  "tagsDiffer old new = (length old \<noteq> length new
     \<or> (\<exists>(key, value) \<in> set old. map_of new key \<noteq> Some value \<and> (map_of new key \<noteq> None \<or> value \<noteq> [])))"

definition driftFields ::
  "DriftConfig \<Rightarrow> (string \<times> DriftSeverity \<times> (VirtualMachine \<Rightarrow> 'f goValue) \<times> (VirtualMachine \<Rightarrow> VirtualMachine \<Rightarrow> bool)) list" where
  "driftFields config =
     [(''cpu_count'', DriftSeverityWarning, \<lambda>vm. VInt (vm_CPUCount vm),
         \<lambda>old new. apart (dc_CPUThreshold config) (vm_CPUCount old) (vm_CPUCount new)),
      (''memory_mb'', DriftSeverityWarning, \<lambda>vm. VInt (vm_MemoryMB vm),
         \<lambda>old new. apart (dc_MemoryThresholdMB config) (vm_MemoryMB old) (vm_MemoryMB new)),
      (''power_state'', DriftSeverityInfo, \<lambda>vm. VOther (vm_PowerState vm), \<lambda>old new. vm_PowerState old \<noteq> vm_PowerState new),
      (''host'', DriftSeverityInfo, \<lambda>vm. VString (vm_Host vm), \<lambda>old new. vm_Host old \<noteq> vm_Host new),
      (''cluster'', DriftSeverityInfo, \<lambda>vm. VString (vm_Cluster vm), \<lambda>old new. vm_Cluster old \<noteq> vm_Cluster new),
      (''folder'', DriftSeverityInfo, \<lambda>vm. VString (vm_Folder vm), \<lambda>old new. vm_Folder old \<noteq> vm_Folder new),
      (''tags'', DriftSeverityInfo, \<lambda>vm. VMap (vm_Tags vm), \<lambda>old new. tagsDiffer (vm_Tags old) (vm_Tags new))]"

definition reportDiffering ::
  "DriftConfig \<Rightarrow> time \<Rightarrow> VirtualMachine \<Rightarrow> VirtualMachine
   \<Rightarrow> (string \<times> DriftSeverity \<times> (VirtualMachine \<Rightarrow> 'f goValue) \<times> (VirtualMachine \<Rightarrow> VirtualMachine \<Rightarrow> bool)) list \<Rightarrow> 'f DriftEvent list" where
  "reportDiffering config at old new entries =
     map (\<lambda>(field, severity, value, differ).
            \<lparr>de_Type = DriftModified, de_VM = new, de_Field = field, de_OldValue = value old, de_NewValue = value new,
             de_Severity = severity, de_DetectedAt = at\<rparr>)
       (filter (\<lambda>(field, severity, value, differ). differ old new \<and> field \<notin> set (dc_IgnoreFields config)) entries)"

definition fieldDrifts :: "DriftConfig \<Rightarrow> time \<Rightarrow> VirtualMachine \<Rightarrow> VirtualMachine \<Rightarrow> 'f DriftEvent list" where
  "fieldDrifts config at old new = reportDiffering config at old new (driftFields config)"

lemma apart_iff: "apart threshold old new \<longleftrightarrow> old \<noteq> new \<and> absInt (old - new) > threshold"
  by (auto simp: apart_def absInt_def)

lemma tagsDiffer_iff: "tagsDiffer old new \<longleftrightarrow> \<not> mapsEqual old new"
proof -
  have "(map_of new key \<noteq> Some x \<and> (map_of new key \<noteq> None \<or> x \<noteq> []))
      \<longleftrightarrow> (case map_of new key of None \<Rightarrow> [] | Some v \<Rightarrow> v) \<noteq> x" for key x
    by (cases "map_of new key") auto
  then show ?thesis by (simp add: tagsDiffer_def mapsEqual_def list_all_iff case_prod_beta)
qed

lemma reportDiffering_Cons:
  "reportDiffering config at old new ((field, severity, value, differ) # entries) =
     (if differ old new then modifiedEvent config new at field (value old) (value new) severity else [])
     @ reportDiffering config at old new entries"
  by (simp add: reportDiffering_def modifiedEvent_def isIgnored_def)

lemma reportDiffering_Nil: "reportDiffering config at old new [] = []"
  by (simp add: reportDiffering_def)

lemma compareVMs_fields: "compareVMs config old new at = fieldDrifts config at old new"
  unfolding fieldDrifts_def driftFields_def reportDiffering_Cons reportDiffering_Nil
  by (simp only: compareVMs_def apart_iff tagsDiffer_iff Let_def append_Nil2)

definition driftAt :: "DriftConfig \<Rightarrow> time \<Rightarrow> VirtualMachine option \<Rightarrow> VirtualMachine option \<Rightarrow> 'f DriftEvent list" where
  "driftAt config at before after =
     (case (before, after) of
        (None, Some vm) \<Rightarrow> [addedEvent at vm]
      | (Some vm, None) \<Rightarrow> [removedEvent at vm]
      | (Some old, Some new) \<Rightarrow> fieldDrifts config at old new
      | (None, None) \<Rightarrow> [])"

lemma driftAt_simps [simp]:
  "driftAt config at None (Some vm) = [addedEvent at vm]" "driftAt config at (Some vm) None = [removedEvent at vm]"
  "driftAt config at (Some old) (Some new) = compareVMs config old new at" "driftAt config at None None = []"
  by (simp_all add: driftAt_def compareVMs_fields)

lemma indexVMs_snoc: "indexVMs (vms @ [vm]) = AList.update (vmKey vm) vm (indexVMs vms)"
  by (simp add: indexVMs_def)

lemma distinct_indexVMs [simp]: "distinct (map fst (indexVMs vms))"
  by (induction vms rule: rev_induct) (simp_all add: indexVMs_snoc distinct_update, simp add: indexVMs_def)

lemma map_of_indexVMs: "map_of (indexVMs vms) = vmAt vms"
proof (induction vms rule: rev_induct)
  case Nil
  show ?case by (simp add: indexVMs_def vmAt_def fun_eq_iff)
next
  case (snoc vm vms)
  then show ?case by (auto simp: indexVMs_snoc update_conv' vmAt_def fun_eq_iff)
qed

lemma keys_indexVMs: "fst ` set (indexVMs vms) = vmKey ` set vms"
  by (induction vms rule: rev_induct) (simp_all add: indexVMs_snoc dom_update, simp add: indexVMs_def)

lemma compareCurrent_step:
  "map_of base key = None \<Longrightarrow> compareCurrent config base (key, vm) (rep, modified) =
     (rep\<lparr>dp_AddedVMs := dp_AddedVMs rep + 1, dp_Events := dp_Events rep @ [addedEvent (dp_EvaluatedAt rep) vm]\<rparr>, modified)"
  "map_of base key = Some old \<Longrightarrow> compareCurrent config base (key, vm) (rep, modified) =
     (let events = compareVMs config old vm (dp_EvaluatedAt rep)
      in (rep\<lparr>dp_Events := dp_Events rep @ events\<rparr>, if events = [] then modified else List.insert key modified))"
  by (simp_all add: compareCurrent_def addedEvent_def)

lemma compareBaseline_step:
  "compareBaseline cur (key, vm) rep =
     (if map_of cur key = None
      then rep\<lparr>dp_RemovedVMs := dp_RemovedVMs rep + 1, dp_Events := dp_Events rep @ [removedEvent (dp_EvaluatedAt rep) vm]\<rparr> else rep)"
  by (simp add: compareBaseline_def removedEvent_def)

lemma compareCurrent_fold:
  "fold (compareCurrent config base) items (rep, modified) =
     (rep\<lparr>dp_AddedVMs := dp_AddedVMs rep + int (length (filter (\<lambda>(key, vm). map_of base key = None) items)),
          dp_Events := dp_Events rep @ concat (map (\<lambda>(key, vm). driftAt config (dp_EvaluatedAt rep) (map_of base key) (Some vm)) items)\<rparr>,
      fold (\<lambda>kv. List.insert (fst kv))
        (filter (\<lambda>(key, vm). map_of base key \<noteq> None \<and> driftAt config (dp_EvaluatedAt rep) (map_of base key) (Some vm)
                                 \<noteq> ([] :: 'f DriftEvent list)) items) modified)"
  for rep :: "'f DriftReport"
proof (induction items arbitrary: rep modified)
  case (Cons kv items)
  obtain key vm where kv: "kv = (key, vm)" by (cases kv)
  show ?case
    by (cases "map_of base key") (simp_all add: kv compareCurrent_step Cons.IH Let_def)
qed simp

lemma compareBaseline_fold:
  "fold (compareBaseline cur) items rep =
     rep\<lparr>dp_RemovedVMs := dp_RemovedVMs rep + int (length (filter (\<lambda>(key, vm). map_of cur key = None) items)),
         dp_Events := dp_Events rep
           @ map (\<lambda>(key, vm). removedEvent (dp_EvaluatedAt rep) vm) (filter (\<lambda>(key, vm). map_of cur key = None) items)\<rparr>"
  by (induction items arbitrary: rep) (auto simp: compareBaseline_step)

lemma policyDrift_fold:
  "fold policyDrift vs rep =
     rep\<lparr>dp_PolicyDrifts := dp_PolicyDrifts rep + int (length vs),
         dp_Events := dp_Events rep @ map (violationEvent (dp_EvaluatedAt rep)) vs\<rparr>"
  by (induction vs arbitrary: rep) (auto simp: policyDrift_def violationEvent_def)

text \<open>Sums over an indexed inventory are sums over its keys, whatever the order of the visit.\<close>

lemma mset_rangeMap: "mset (rangeMap r m) = mset m"
  by (simp add: rangeMap_def mset_sort_slice)

lemma mset_concat_map: "mset (concat (map f xs)) = (\<Sum>x\<leftarrow>xs. mset (f x))"
  by (induction xs) simp_all

lemma sum_index:
  "(\<Sum>kv\<leftarrow>rangeMap r (indexVMs vms). g (fst kv) (Some (snd kv))) = (\<Sum>key\<in>vmKey ` set vms. g key (vmAt vms key))"
  for g :: "string \<Rightarrow> VirtualMachine option \<Rightarrow> 'b::comm_monoid_add"
proof -
  have dist: "distinct (indexVMs vms)" using distinct_indexVMs [of vms] unfolding distinct_map by blast
  have "(\<Sum>kv\<leftarrow>rangeMap r (indexVMs vms). g (fst kv) (Some (snd kv))) = (\<Sum>kv\<leftarrow>indexVMs vms. g (fst kv) (Some (snd kv)))"
    by (metis (no_types, lifting) mset_rangeMap mset_map sum_mset_sum_list)
  also have "\<dots> = (\<Sum>kv\<in>set (indexVMs vms). g (fst kv) (Some (snd kv)))"
    using dist by (simp add: sum_list_distinct_conv_sum_set)
  also have "\<dots> = (\<Sum>kv\<in>set (indexVMs vms). g (fst kv) (vmAt vms (fst kv)))"
    by (intro sum.cong refl) (metis distinct_indexVMs map_of_is_SomeI map_of_indexVMs prod.collapse)
  also have "\<dots> = (\<Sum>key\<in>fst ` set (indexVMs vms). g key (vmAt vms key))"
    by (subst sum.reindex) (use distinct_indexVMs in \<open>auto simp: distinct_map\<close>)
  finally show ?thesis by (simp add: keys_indexVMs)
qed

lemma vmAt_None: "vmAt vms key = None \<longleftrightarrow> key \<notin> vmKey ` set vms"
  by (auto simp: vmAt_def find_None_iff)

lemma keys_filter_index:
  "fst ` set (filter (\<lambda>(key, vm). P key (Some vm)) (rangeMap r (indexVMs vms))) = {key \<in> vmKey ` set vms. P key (vmAt vms key)}"
proof -
  have "(key, vm) \<in> set (indexVMs vms) \<longleftrightarrow> vmAt vms key = Some vm" for key vm
    by (metis distinct_indexVMs map_of_eq_Some_iff map_of_indexVMs)
  then have "fst ` set (filter (\<lambda>(key, vm). P key (Some vm)) (rangeMap r (indexVMs vms))) = {key. \<exists>vm. vmAt vms key = Some vm \<and> P key (Some vm)}"
    by (auto simp: image_iff)
  also have "\<dots> = {key \<in> vmKey ` set vms. P key (vmAt vms key)}"
  proof (rule Collect_cong)
    show "(\<exists>vm. vmAt vms key = Some vm \<and> P key (Some vm)) = (key \<in> vmKey ` set vms \<and> P key (vmAt vms key))" for key
      by (cases "vmAt vms key") (use vmAt_None [of vms key] in auto)
  qed
  finally show ?thesis .
qed

lemma card_filter_index:
  "length (filter (\<lambda>(key, vm). P key (Some vm)) (rangeMap r (indexVMs vms))) = card {key \<in> vmKey ` set vms. P key (vmAt vms key)}"
proof -
  have "distinct (map fst (rangeMap r (indexVMs vms)))" by (simp add: rangeMap_def)
  then have "distinct (map fst (filter (\<lambda>(key, vm). P key (Some vm)) (rangeMap r (indexVMs vms))))"
    by (rule distinct_map_filter)
  from distinct_card [OF this] show ?thesis by (simp only: set_map length_map keys_filter_index)
qed

lemma mset_events_current:
  "mset (concat (map (\<lambda>(key, vm). driftAt config at (vmAt base key) (Some vm)) (rangeMap r (indexVMs vms))))
     = (\<Sum>key\<in>vmKey ` set vms. mset (driftAt config at (vmAt base key) (vmAt vms key)))"
  unfolding mset_concat_map case_prod_beta'
  by (rule sum_index [where g = "\<lambda>key v. mset (driftAt config at (vmAt base key) v)"])

lemma map_filter_concat: "map f (filter P xs) = concat (map (\<lambda>x. if P x then [f x] else []) xs)"
  by (induction xs) simp_all

lemma mset_events_baseline:
  fixes config :: DriftConfig and cur :: "VirtualMachine list"
  shows "mset (map (\<lambda>(key, vm). removedEvent at vm) (filter (\<lambda>(key, vm). vmAt cur key = None) (rangeMap r (indexVMs vms))))
     = (\<Sum>key\<in>vmKey ` set vms - vmKey ` set cur. mset (driftAt config at (vmAt vms key) (vmAt cur key)))"
    (is "?lhs = _")
proof -
  have "?lhs = (\<Sum>key\<in>vmKey ` set vms. if vmAt cur key = None then mset (driftAt config at (vmAt vms key) None) else {#})"
    unfolding map_filter_concat mset_concat_map case_prod_beta'
    by (subst sum_index [where g = "\<lambda>key v. if vmAt cur key = None then mset (driftAt config at v None) else {#}" and r = r, symmetric])
       (rule arg_cong [where f = sum_list], simp)
  also have "\<dots> = (\<Sum>key\<in>vmKey ` set vms - vmKey ` set cur. mset (driftAt config at (vmAt vms key) (vmAt cur key)))"
    by (rule sum.mono_neutral_cong_right) (auto simp: vmAt_None, auto simp flip: vmAt_None)
  finally show ?thesis .
qed

lemma Compare_eq:
  fixes fl :: "'f floats" and r :: "nat \<Rightarrow> string list \<Rightarrow> nat list"
  assumes "getSnapshot ctx (TenantIDFromContext (Some ctx)) baselineID = Inr baseline"
    and "(case dd_policyEngine d of None \<Rightarrow> Inr [] | Some pe \<Rightarrow>
           (case Evaluate lib fl (clk 1) pe (Some current) of Inl err \<Rightarrow> Inl err | Inr prep \<Rightarrow> Inr (pr_Violations prep))) = Inr vs"
  defines "items \<equiv> rangeMap (r 0) (indexVMs (dr_VMs current))" and "old \<equiv> rangeMap (r 1) (indexVMs (dr_VMs baseline))"
  shows "Compare lib fl r getSnapshot clk d ctx baselineID (Some current) = Inr
    \<lparr>dp_Baseline = snapshotMeta baselineID (TenantIDFromContext (Some ctx)) baseline,
     dp_Current = snapshotMeta ''current'' (TenantIDFromContext (Some ctx)) current,
     dp_Events = concat (map (\<lambda>(key, vm). driftAt (dd_config d) (clk 0) (vmAt (dr_VMs baseline) key) (Some vm)) items)
       @ map (\<lambda>(key, vm). removedEvent (clk 0) vm) (filter (\<lambda>(key, vm). vmAt (dr_VMs current) key = None) old)
       @ map (violationEvent (clk 0)) vs,
     dp_AddedVMs = int (length (filter (\<lambda>(key, vm). vmAt (dr_VMs baseline) key = None) items)),
     dp_RemovedVMs = int (length (filter (\<lambda>(key, vm). vmAt (dr_VMs current) key = None) old)),
     dp_ModifiedVMs = int (card (fst ` set (filter (\<lambda>(key, vm). vmAt (dr_VMs baseline) key \<noteq> None
         \<and> driftAt (dd_config d) (clk 0) (vmAt (dr_VMs baseline) key) (Some vm) \<noteq> ([] :: 'f DriftEvent list)) items))),
     dp_PolicyDrifts = int (length vs), dp_EvaluatedAt = clk 0\<rparr>"
  using assms(1,2)
  by (cases "dd_policyEngine d")
     (auto simp: Compare_def compareCurrent_fold compareBaseline_fold policyDrift_fold map_of_indexVMs length_insert_keys
        Let_def items_def old_def split: sum.splits)

text \<open>
  C24 (drift_exact): comparing the current inventory with a stored baseline succeeds once the snapshot is read and the
  policies can be evaluated. Up to their order, the events before the policy violations do not depend on the order in which the
  maps are visited: for every key of the two inventories they hold one addition, one removal, or one modification
  for each field of the table that differs and is not ignored, namely processors and memory by more than their
  thresholds, power state, host, cluster, folder and tags. One event per policy violation follows, in the order
  of the violations, and the counters are the numbers of keys added, removed and modified and of the violations. A key
  stands for the last machine of an inventory that has it.
\<close>

theorem drift_exact:
  fixes fl :: "'f floats" and r :: "nat \<Rightarrow> string list \<Rightarrow> nat list"
  assumes "getSnapshot ctx (TenantIDFromContext (Some ctx)) baselineID = Inr baseline"
    and "(case dd_policyEngine d of None \<Rightarrow> Inr [] | Some pe \<Rightarrow>
           (case Evaluate lib fl (clk 1) pe (Some current) of Inl err \<Rightarrow> Inl err | Inr prep \<Rightarrow> Inr (pr_Violations prep))) = Inr vs"
  defines "B \<equiv> vmKey ` set (dr_VMs baseline)" and "C \<equiv> vmKey ` set (dr_VMs current)"
    and "drift \<equiv> \<lambda>key. driftAt (dd_config d) (clk 0) (vmAt (dr_VMs baseline) key) (vmAt (dr_VMs current) key)"
  shows "\<exists>rep. Compare lib fl r getSnapshot clk d ctx baselineID (Some current) = Inr rep
    \<and> (\<exists>es. dp_Events rep = es @ map (violationEvent (clk 0)) vs \<and> mset es = (\<Sum>key\<in>B \<union> C. mset (drift key)))
    \<and> dp_AddedVMs rep = int (card (C - B)) \<and> dp_RemovedVMs rep = int (card (B - C))
    \<and> dp_ModifiedVMs rep = int (card {key \<in> B \<inter> C. drift key \<noteq> []})
    \<and> dp_PolicyDrifts rep = int (length vs) \<and> dp_EvaluatedAt rep = clk 0"
proof -
  let ?items = "rangeMap (r 0) (indexVMs (dr_VMs current))" and ?old = "rangeMap (r 1) (indexVMs (dr_VMs baseline))"
  have union: "(\<Sum>key\<in>B \<union> C. mset (drift key)) = (\<Sum>key\<in>C. mset (drift key)) + (\<Sum>key\<in>B - C. mset (drift key))"
    by (subst sum.union_disjoint [symmetric]) (auto simp: B_def C_def intro!: arg_cong2 [where f = sum])
  have added: "length (filter (\<lambda>(key, vm). vmAt (dr_VMs baseline) key = None) ?items) = card (C - B)"
    unfolding card_filter_index [where P = "\<lambda>key _. vmAt (dr_VMs baseline) key = None"]
    by (auto simp: vmAt_None B_def C_def intro!: arg_cong [where f = card])
  have removed: "length (filter (\<lambda>(key, vm). vmAt (dr_VMs current) key = None) ?old) = card (B - C)"
    unfolding card_filter_index [where P = "\<lambda>key _. vmAt (dr_VMs current) key = None"]
    by (auto simp: vmAt_None B_def C_def intro!: arg_cong [where f = card])
  have modified: "card (fst ` set (filter (\<lambda>(key, vm). vmAt (dr_VMs baseline) key \<noteq> None
         \<and> driftAt (dd_config d) (clk 0) (vmAt (dr_VMs baseline) key) (Some vm) \<noteq> ([] :: 'f DriftEvent list)) ?items))
       = card {key \<in> B \<inter> C. drift key \<noteq> []}"
    unfolding keys_filter_index [where P = "\<lambda>key v. vmAt (dr_VMs baseline) key \<noteq> None
         \<and> driftAt (dd_config d) (clk 0) (vmAt (dr_VMs baseline) key) v \<noteq> ([] :: 'f DriftEvent list)"]
    by (auto simp: vmAt_None B_def C_def drift_def intro!: arg_cong [where f = card])
  have current: "mset (concat (map (\<lambda>(key, vm). driftAt (dd_config d) (clk 0) (vmAt (dr_VMs baseline) key) (Some vm)) ?items))
      = (\<Sum>key\<in>C. mset (drift key))"
    unfolding C_def drift_def by (rule mset_events_current)
  have baseline: "mset (map (\<lambda>(key, vm). removedEvent (clk 0) vm) (filter (\<lambda>(key, vm). vmAt (dr_VMs current) key = None) ?old))
      = (\<Sum>key\<in>B - C. mset (drift key))"
    unfolding B_def C_def drift_def by (rule mset_events_baseline)
  have front: "\<exists>es. xs @ ys @ zs = es @ zs \<and> mset es = M + N" if "mset xs = M" "mset ys = N" for xs ys zs :: "'f DriftEvent list" and M N
    using that by (intro exI [of _ "xs @ ys"]) simp
  show ?thesis
    unfolding Compare_eq [where clk = clk and getSnapshot = getSnapshot and ctx = ctx and d = d and lib = lib and fl = fl and current = current and r = r, OF assms(1,2)] Inr_inject union
    by (rule exI, rule conjI, rule refl)
       (simp only: DriftReport.simps front [OF current baseline] added removed modified simp_thms)
qed

section \<open>Placement\<close>

lemma compareLoop_cheapest:
  assumes "compareLoop fl e vm platforms costs cheapest best = Inr (costs', cheapest', best')"
    and trans: "transp (fl_less fl)" and irrefl: "irreflp (fl_less fl)"
    and "cheapest = [] \<or> (\<exists>cost. CalculateVMCost fl e vm cheapest = Inr cost \<and> vc_MonthlyTotal cost = best)"
  shows "(cheapest' = [] \<or> (\<exists>cost. CalculateVMCost fl e vm cheapest' = Inr cost \<and> vc_MonthlyTotal cost = best'))
    \<and> (\<forall>x. \<not> fl_less fl x best \<longrightarrow> \<not> fl_less fl x best')
    \<and> (\<forall>platform cost. platform \<in> set platforms \<longrightarrow> CalculateVMCost fl e vm platform = Inr cost \<longrightarrow> \<not> fl_less fl (vc_MonthlyTotal cost) best')"
  using assms(1,4)
proof (induction platforms arbitrary: costs cheapest best)
  case (Cons platform platforms)
  from Cons.prems obtain cost where cost: "CalculateVMCost fl e vm platform = Inr cost"
    by (auto split: sum.splits)
  define c b where "c = (if fl_less fl (vc_MonthlyTotal cost) best then platform else cheapest)"
    and "b = (if fl_less fl (vc_MonthlyTotal cost) best then vc_MonthlyTotal cost else best)"
  have "compareLoop fl e vm platforms (AList.update platform cost costs) c b = Inr (costs', cheapest', best')"
    using Cons.prems(1) cost by (simp add: c_def b_def Let_def split: if_splits)
  moreover have "c = [] \<or> (\<exists>cost. CalculateVMCost fl e vm c = Inr cost \<and> vc_MonthlyTotal cost = b)"
    using Cons.prems(2) cost by (simp add: c_def b_def)
  ultimately have IH: "cheapest' = [] \<or> (\<exists>cost. CalculateVMCost fl e vm cheapest' = Inr cost \<and> vc_MonthlyTotal cost = best')"
    "\<And>x. \<not> fl_less fl x b \<Longrightarrow> \<not> fl_less fl x best'"
    "\<And>platform cost. platform \<in> set platforms \<Longrightarrow> CalculateVMCost fl e vm platform = Inr cost \<Longrightarrow> \<not> fl_less fl (vc_MonthlyTotal cost) best'"
    using Cons.IH by blast+
  have keep: "\<not> fl_less fl x b" if "\<not> fl_less fl x best" for x
    using that by (auto simp: b_def dest: transpD [OF trans])
  moreover have "\<not> fl_less fl (vc_MonthlyTotal cost) b"
    using irreflpD [OF irrefl] by (simp add: b_def)
  ultimately have "\<not> fl_less fl (vc_MonthlyTotal c') best'"
    if "platform' \<in> set (platform # platforms)" "CalculateVMCost fl e vm platform' = Inr c'" for platform' c'
    using that IH(2,3) cost by (cases "platform' = platform") simp_all
  with keep IH(1,2) show ?case by blast
qed simp

lemma CompareVM_cheapest:
  assumes "CompareVM fl r e vm = Inr comparison" "pc_CheapestPlatform comparison \<noteq> []"
    and "transp (fl_less fl)" "irreflp (fl_less fl)"
  shows "\<exists>best. CalculateVMCost fl e vm (pc_CheapestPlatform comparison) = Inr best
    \<and> (\<forall>platform cost. CalculateVMCost fl e vm platform = Inr cost \<longrightarrow> \<not> fl_less fl (vc_MonthlyTotal cost) (vc_MonthlyTotal best))"
proof -
  let ?ps = "map fst (sort_slice r fst (ce_profiles e))"
  obtain costs best where loop: "compareLoop fl e vm ?ps [] [] (fl_max fl) = Inr (costs, pc_CheapestPlatform comparison, best)"
    using assms(1) by (auto simp: CompareVM_def Let_def split: if_splits sum.splits)
  have known: "platform \<in> set ?ps" if "CalculateVMCost fl e vm platform = Inr cost" for platform cost
    using that by (auto simp: CalculateVMCost_def image_iff split: option.splits dest: map_of_SomeD) (metis fst_conv map_of_SomeD)
  show ?thesis
    using compareLoop_cheapest [OF loop assms(3,4)] assms(2) known by blast
qed

text \<open>A placement the engine may recommend.\<close>

definition soundPlacement ::
  "patternLib \<Rightarrow> 'f floats \<Rightarrow> (nat \<Rightarrow> time) \<Rightarrow> 'f RecommendationEngine \<Rightarrow> PolicyWaiver list \<Rightarrow> VirtualMachine list
   \<Rightarrow> 'f RemediationRecommendation \<Rightarrow> bool" where
  "soundPlacement lib fl clk e waivers vms rec =
     (re_VM rec \<in> set vms \<and> re_TargetPlatform rec \<noteq> vm_Platform (re_VM rec) \<and> \<not> fl_le fl (re_MonthlySavings rec) (fl_ofInt fl 0)
      \<and> (\<exists>costEngine best. reng_costEngine e = Some costEngine
           \<and> CalculateVMCost fl costEngine (re_VM rec) (re_TargetPlatform rec) = Inr best
           \<and> (\<forall>platform cost. CalculateVMCost fl costEngine (re_VM rec) platform = Inr cost
                  \<longrightarrow> \<not> fl_less fl (vc_MonthlyTotal cost) (vc_MonthlyTotal best)))
      \<and> (\<forall>policyEngine. reng_policyEngine e = Some policyEngine \<longrightarrow>
           (\<exists>k rep. EvaluateWithWaivers lib fl (clk (Suc k)) policyEngine
                (Some (zeroDR\<lparr>dr_Platform := re_TargetPlatform rec, dr_DiscoveredAt := clk k,
                              dr_VMs := [(re_VM rec)\<lparr>vm_Platform := re_TargetPlatform rec\<rparr>]\<rparr>)) waivers = Inr rep
              \<and> PolicySeverityEnforce \<notin> pv_Severity ` set (pr_Violations rep))))"

lemma recommendation_types:
  "re_Type (policyRecommendation fl v) \<noteq> RecommendationTypePlacement" "re_Type (driftRecommendation fl event) \<noteq> RecommendationTypePlacement"
  by (simp_all add: policyRecommendation_def driftRecommendation_def RecommendationTypePolicy_def RecommendationTypeDrift_def
       RecommendationTypePlacement_def)

lemma set_addRecommendation: "set (fst (addRecommendation rec acc)) \<subseteq> insert rec (set (fst acc))"
  by (cases acc) (auto simp: addRecommendation_def)

lemma set_fold_addRecommendation:
  "set (fst (fold (\<lambda>x. addRecommendation (f x)) xs acc)) \<subseteq> f ` set xs \<union> set (fst acc)"
proof (induction xs arbitrary: acc)
  case (Cons x xs)
  show ?case using Cons.IH [of "addRecommendation (f x) acc"] set_addRecommendation [of "f x" acc] by auto
qed simp

lemma placementLoop_sound:
  assumes "placementLoop lib fl r clk e costEngine waivers i vms acc = Inr acc'" "rec \<in> set (fst acc')"
    and "reng_costEngine e = Some costEngine" "transp (fl_less fl)" "irreflp (fl_less fl)"
  shows "rec \<in> set (fst acc) \<or> soundPlacement lib fl clk e waivers vms rec"
  using assms(1)
proof (induction vms arbitrary: i acc)
  case Nil
  then show ?case using assms(2) by simp
next
  case (Cons vm vms)
  have more: "soundPlacement lib fl clk e waivers vms rec \<Longrightarrow> soundPlacement lib fl clk e waivers (vm # vms) rec"
    by (simp add: soundPlacement_def)
  obtain comparison where cmp: "CompareVM fl (r i) costEngine vm = Inr comparison"
    using Cons.prems by (auto split: sum.splits)
  let ?skip = "pc_CheapestPlatform comparison = [] \<or> pc_CheapestPlatform comparison = vm_Platform vm
      \<or> fl_le fl (pc_MonthlySavings comparison) (fl_ofInt fl 0)
      \<or> \<not> placementAllowed lib fl (\<lambda>k. clk (2 + 2 * i + k)) e vm (pc_CheapestPlatform comparison) waivers"
  show ?case
  proof (cases ?skip)
    case True
    then have "placementLoop lib fl r clk e costEngine waivers (Suc i) vms acc = Inr acc'"
      using Cons.prems cmp by (simp split: if_splits)
    then show ?thesis using Cons.IH more by blast
  next
    case False
    then have "placementLoop lib fl r clk e costEngine waivers (Suc i) vms (addRecommendation (placementRecommendation vm comparison) acc) = Inr acc'"
      using Cons.prems cmp by simp
    then have "rec \<in> set (fst (addRecommendation (placementRecommendation vm comparison) acc)) \<or> soundPlacement lib fl clk e waivers vms rec"
      by (rule Cons.IH)
    then have "rec = placementRecommendation vm comparison \<or> rec \<in> set (fst acc) \<or> soundPlacement lib fl clk e waivers vms rec"
      using set_addRecommendation by fastforce
    moreover have allowed: "\<exists>k rep. EvaluateWithWaivers lib fl (clk (Suc k)) policyEngine
          (Some (zeroDR\<lparr>dr_Platform := pc_CheapestPlatform comparison, dr_DiscoveredAt := clk k,
                        dr_VMs := [vm\<lparr>vm_Platform := pc_CheapestPlatform comparison\<rparr>]\<rparr>)) waivers = Inr rep
        \<and> PolicySeverityEnforce \<notin> pv_Severity ` set (pr_Violations rep)"
      if "reng_policyEngine e = Some policyEngine" for policyEngine
      by (rule exI [of _ "2 + 2 * i"])
         (use False that in \<open>auto simp: placementAllowed_def list_ex_iff split: sum.splits\<close>)
    moreover have "soundPlacement lib fl clk e waivers (vm # vms) (placementRecommendation vm comparison)"
      using CompareVM_cheapest [OF cmp _ assms(4,5)] False assms(3) allowed
      by (auto simp: soundPlacement_def placementRecommendation_def)
    ultimately show ?thesis using more by blast
  qed
qed

text \<open>
  C22 (placement_safe): every placement the engine recommends moves a machine of the inventory to another platform, where its
  monthly total is beaten by that of no platform with a cost profile and the savings are not zero or negative, and on which
  the policies, evaluated for the moved machine with the given waivers, report no violation of severity \<open>enforce\<close>.
\<close>

theorem placement_safe:
  assumes "Generate lib fl r p clk e (Some inventory) drift waivers = Inr rep"
    and "rec \<in> set (rr_Recommendations rep)" "re_Type rec = RecommendationTypePlacement"
    and "transp (fl_less fl)" "irreflp (fl_less fl)"
  shows "soundPlacement lib fl clk e waivers (dr_VMs inventory) rec"
proof -
  obtain acc1 acc2 where acc1: "generatePolicy lib fl (clk 1) e inventory waivers = Inr acc1"
    and acc2: "generatePlacement lib fl r clk e inventory waivers acc1 = Inr acc2"
    and rec: "rec \<in> set (fst (generateDrift fl drift acc2))"
    using assms(1,2) by (auto simp: Generate_def split: sum.splits)
  have "rec \<in> set (fst acc2)"
    using rec assms(3)
    by (auto simp: generateDrift_def recommendation_types split: option.splits dest!: subsetD [OF set_fold_addRecommendation])
  moreover have "rec \<notin> set (fst acc1)"
    using acc1 assms(3)
    by (auto simp: generatePolicy_def recommendation_types split: option.splits sum.splits dest!: subsetD [OF set_fold_addRecommendation])
  ultimately show ?thesis
    using acc2 by (auto simp: generatePlacement_def split: option.splits if_splits dest: placementLoop_sound [OF _ _ _ assms(4,5)])
qed

end
