(* ===== verification/LifecycleExamples.thy ===== *)
theory LifecycleExamples
  imports LifecycleCorrect Scenario
begin

text \<open>Concrete runs of the lifecycle engines, with amounts as whole numbers.\<close>

definition wholeFloats :: "int floats" where
  "wholeFloats = \<lparr>fl_ofInt = (\<lambda>i. i), fl_add = (+), fl_sub = (-), fl_mul = (*), fl_div = (div), fl_less = (<), fl_le = (\<le>),
     fl_round = (\<lambda>i. i), fl_max = 1000000000, fl_parse = (\<lambda>s. Inl (Errorf ''parse'' [s])), fl_show = itoaInt\<rparr>"

lemma wholeFloats_order: "transp (fl_less wholeFloats)" "irreflp (fl_less wholeFloats)"
  by (simp_all add: wholeFloats_def)

definition wholeProfile :: "Platform \<Rightarrow> int \<Rightarrow> int CostProfile" where
  "wholeProfile platform core = \<lparr>cp_Platform = platform, cp_Name = platform, cp_CPUCostPerCoreMonth = core, cp_MemoryCostPerGBMonth = 0,
     cp_StorageCostPerGBMonth = 0, cp_LicenseCostPerSocketMonth = 0, cp_LicenseCostPerCoreMonth = 0, cp_LicenseModel = LicenseModelNone,
     cp_SupportCostMonthly = 0, cp_Notes = []\<rparr>"

definition demoCosts :: "int CostEngine" where
  "demoCosts = fold AddProfile [wholeProfile PlatformVMware 10, wholeProfile PlatformKVM 1, wholeProfile PlatformProxmox 2] NewCostEngine"

definition demoPolicies :: "int PolicyEngine" where
  "demoPolicies = AddPolicy \<lparr>po_Name = ''no proxmox'', po_Type = PlacementPolicy, po_Description = [],
     po_Rules = [\<lparr>ru_Field = ''platform'', ru_Operator = ''not-equals'', ru_Value = VString PlatformProxmox, ru_Message = []\<rparr>],
     po_Severity = PolicySeverityEnforce\<rparr> (NewPolicyEngine (Some demoCosts))"

definition demoAdvisor :: "int RecommendationEngine" where
  "demoAdvisor = \<lparr>reng_costEngine = Some demoCosts, reng_policyEngine = Some demoPolicies\<rparr>"

definition demoFleet :: DiscoveryResult where
  "demoFleet = zeroDR\<lparr>dr_VMs := [(demoVM ''1'' ''web'')\<lparr>vm_CPUCount := 4\<rparr>, (demoVM ''2'' ''db'')\<lparr>vm_CPUCount := 8\<rparr>]\<rparr>"

definition demoBaseline :: DiscoveryResult where
  "demoBaseline = zeroDR\<lparr>dr_VMs := [(demoVM ''1'' ''web'')\<lparr>vm_CPUCount := 2\<rparr>, demoVM ''3'' ''old'']\<rparr>"

definition demoDetector :: "int DriftDetector" where
  "demoDetector = \<lparr>dd_policyEngine = Some demoPolicies,
     dd_config = \<lparr>dc_IgnoreFields = [], dc_MemoryThresholdMB = 0, dc_CPUThreshold = 0, dc_WebhookURL = []\<rparr>\<rparr>"

lemma demoRecommendations_run:
  "(case Generate demoLib wholeFloats (\<lambda>_ _. []) (\<lambda>_. []) int demoAdvisor (Some demoFleet) None [] of
      Inl _ \<Rightarrow> False
    | Inr rep \<Rightarrow> map (\<lambda>rec. (re_Type rec, vm_ID (re_VM rec), re_TargetPlatform rec, re_MonthlySavings rec)) (rr_Recommendations rep)
        = [(RecommendationTypePlacement, ''1'', PlatformKVM, 36), (RecommendationTypePlacement, ''2'', PlatformKVM, 72)])"
  by code_simp

theorem placement_safe_witness:
  "\<exists>rep rec. Generate demoLib wholeFloats (\<lambda>_ _. []) (\<lambda>_. []) int demoAdvisor (Some demoFleet) None [] = Inr rep
     \<and> rec \<in> set (rr_Recommendations rep) \<and> re_TargetPlatform rec = PlatformKVM
     \<and> soundPlacement demoLib wholeFloats int demoAdvisor [] (dr_VMs demoFleet) rec"
proof -
  obtain rep where rep: "Generate demoLib wholeFloats (\<lambda>_ _. []) (\<lambda>_. []) int demoAdvisor (Some demoFleet) None [] = Inr rep"
    and recs: "map (\<lambda>rec. (re_Type rec, vm_ID (re_VM rec), re_TargetPlatform rec, re_MonthlySavings rec)) (rr_Recommendations rep)
        = [(RecommendationTypePlacement, ''1'', PlatformKVM, 36), (RecommendationTypePlacement, ''2'', PlatformKVM, 72)]"
    using demoRecommendations_run by (auto split: sum.splits)
  from recs obtain rec where "rec \<in> set (rr_Recommendations rep)" "re_Type rec = RecommendationTypePlacement"
    and "re_TargetPlatform rec = PlatformKVM"
    by (cases "rr_Recommendations rep") auto
  with placement_safe [OF rep _ _ wholeFloats_order] rep show ?thesis by blast
qed

lemma demoDrift_policies:
  "(case dd_policyEngine demoDetector of None \<Rightarrow> Inr [] | Some pe \<Rightarrow>
     (case Evaluate demoLib wholeFloats (int 1) pe (Some demoFleet) of Inl err \<Rightarrow> Inl err | Inr prep \<Rightarrow> Inr (pr_Violations prep))) = Inr []"
  by code_simp

lemma demoDrift_keys:
  "vmKey ` set (dr_VMs demoBaseline) = {''1'', ''3''}" "vmKey ` set (dr_VMs demoFleet) = {''1'', ''2''}"
  by code_simp+

lemma demoDrift_modified:
  "{key \<in> {''1'', ''3''} \<inter> {''1'', ''2''}. driftAt (dd_config demoDetector) (int 0) (vmAt (dr_VMs demoBaseline) key)
      (vmAt (dr_VMs demoFleet) key) \<noteq> ([] :: int DriftEvent list)} = {''1''}"
proof -
  have "driftAt (dd_config demoDetector) (int 0) (vmAt (dr_VMs demoBaseline) ''1'') (vmAt (dr_VMs demoFleet) ''1'') \<noteq> ([] :: int DriftEvent list)"
    by code_simp
  then show ?thesis by auto
qed

theorem drift_exact_witness:
  "\<exists>rep. Compare demoLib wholeFloats (\<lambda>_ _. []) (\<lambda>_ _ _. Inr demoBaseline) int demoDetector \<lparr>ctx_Err = None, ctx_Tenant = None\<rparr>
       ''base'' (Some demoFleet) = Inr rep
     \<and> dp_AddedVMs rep = 1 \<and> dp_RemovedVMs rep = 1 \<and> dp_ModifiedVMs rep = 1 \<and> dp_PolicyDrifts rep = 0"
proof -
  have keys: "{''1'', ''2''} - {''1'', ''3''} = {''2''}" "{''1'', ''3''} - {''1'', ''2''} = {''3''}" by auto
  show ?thesis
    using drift_exact [where getSnapshot = "\<lambda>_ _ _. Inr demoBaseline" and ctx = "\<lparr>ctx_Err = None, ctx_Tenant = None\<rparr>"
        and clk = int and d = demoDetector and lib = demoLib and fl = wholeFloats and current = demoFleet and r = "\<lambda>_ _. []"
        and baselineID = "''base''" and vs = "[]" and baseline = demoBaseline, OF refl demoDrift_policies]
    unfolding demoDrift_keys demoDrift_modified keys by auto
qed

end
