(* ===== verification/JobExecutor.thy ===== *)
theory JobExecutor
  imports Prelude "HOL-Library.AList"
begin

text \<open>
  The executor of workspace jobs, \<open>internal/api/workspace_executor.go\<close>: callers of \<open>Enqueue\<close>, one dispatcher and a pool of
  workers that communicate over unbuffered channels. A communication is one step of both sides; what a goroutine does
  between two blocking operations is one step. A call of \<open>Enqueue\<close> is known by its position in \<open>ex_calls\<close>, and so are the
  request it sends, its wait context, its result channel and the \<open>release\<close> function of its task. \<open>ex_released\<close> and
  \<open>ex_started\<close> record the calls of \<open>cleanup\<close> and of \<open>run\<close>.
\<close>

definition ErrExecutorShuttingDown :: goerror where
  "ErrExecutorShuttingDown = Errorf ''workspace job executor is shutting down'' []"

definition ErrTenantQueueFull :: goerror where
  "ErrTenantQueueFull = Errorf ''workspace job executor tenant queue share is full'' []"

definition ErrEnqueueTimeout :: goerror where
  "ErrEnqueueTimeout = Errorf ''workspace job executor enqueue timed out'' []"

definition DeadlineExceeded :: goerror where
  "DeadlineExceeded = Errorf ''context deadline exceeded'' []"

definition Canceled :: goerror where
  "Canceled = Errorf ''context canceled'' []"

record workspaceJobTask =
  tk_tenantID :: string
  tk_workspaceID :: string
  tk_jobID :: string

record workspaceJobEnqueueRequest =
  er_task :: workspaceJobTask
  er_call :: nat
  er_result :: bool
  er_enqueuedAt :: time

datatype callerPC = Sending | Awaiting | Returned "goerror option"

record enqueueCall =
  ca_task :: workspaceJobTask
  ca_pc :: callerPC
  ca_ctxErr :: "goerror option"
  ca_waitErr :: "goerror option"

datatype workerPC = Offering | Listening | Got nat | Running nat | Stopped

text \<open>Where the dispatcher stands, and where it goes on after a response.\<close>

datatype afterRespond =
    ToLoop
  | ToAdmitted
  | ToShutdown
  | ToRefuse workspaceJobEnqueueRequest
  | ToReject "workspaceJobEnqueueRequest list"
  | ToDrain

datatype dispatchPC =
    Loop
  | Received workspaceJobEnqueueRequest
  | Full workspaceJobEnqueueRequest
  | Admit workspaceJobEnqueueRequest
  | Respond workspaceJobEnqueueRequest "goerror option" afterRespond
  | Assign nat workspaceJobEnqueueRequest "workspaceJobEnqueueRequest option"
  | Reject "workspaceJobEnqueueRequest list"
  | Drain
  | Exited

record workspaceJobExecutor =
  ex_queueCapacity :: int
  ex_ctxDone :: bool
  ex_done :: bool
  ex_queuedByTenant :: "(string \<times> int) list"
  ex_pc :: dispatchPC
  ex_queue :: "workspaceJobEnqueueRequest list"
  ex_idle :: "nat list"
  ex_workers :: "workerPC list"
  ex_calls :: "enqueueCall list"
  ex_released :: "nat list"
  ex_started :: "nat list"

section \<open>The functions\<close>

definition defaultWorkspaceJobConcurrency :: int where
  "defaultWorkspaceJobConcurrency = 4"

definition newWorkspaceJobExecutorWithTimeout :: "int \<Rightarrow> workspaceJobExecutor" where
  "newWorkspaceJobExecutorWithTimeout concurrency0 =
     (let concurrency = (if concurrency0 \<le> 0 then defaultWorkspaceJobConcurrency else concurrency0);
          queueCapacity = wrap64 (concurrency * 2)
      in \<lparr>ex_queueCapacity = (if queueCapacity \<le> 0 then concurrency else queueCapacity), ex_ctxDone = False, ex_done = False,
          ex_queuedByTenant = [], ex_pc = Loop, ex_queue = [], ex_idle = [],
          ex_workers = replicate (nat concurrency) Offering, ex_calls = [], ex_released = [], ex_started = []\<rparr>)"

definition depthOf :: "(string \<times> int) list \<Rightarrow> string \<Rightarrow> int" where
  "depthOf depths tenantID = (case map_of depths tenantID of None \<Rightarrow> 0 | Some n \<Rightarrow> n)"

definition tenantQueueLimitExceeded :: "string \<Rightarrow> workspaceJobExecutor \<Rightarrow> bool" where
  "tenantQueueLimitExceeded tenantID0 e =
     (let tenantID = TrimSpace tenantID0 in
      if tenantID = [] \<or> ex_queueCapacity e \<le> 0 then False
      else (let half = ex_queueCapacity e div 2;
                maxTenantDepth = (if half \<le> 0 then 1 else half)
            in depthOf (ex_queuedByTenant e) tenantID + 1 > maxTenantDepth))"

definition adjustTenantQueueDepth :: "string \<Rightarrow> int \<Rightarrow> (string \<times> int) list \<Rightarrow> (string \<times> int) list" where
  "adjustTenantQueueDepth tenantID0 delta depths =
     (let tenantID = TrimSpace tenantID0 in
      if tenantID = [] \<or> delta = 0 then depths
      else (let next = depthOf depths tenantID + delta
            in if next \<le> 0 then AList.delete tenantID depths else AList.update tenantID next depths))"

definition removeQueuedRequest :: "workspaceJobEnqueueRequest \<Rightarrow> (string \<times> int) list \<Rightarrow> (string \<times> int) list" where
  "removeQueuedRequest request depths =
     (if isZero (er_enqueuedAt request) then depths else adjustTenantQueueDepth (tk_tenantID (er_task request)) (- 1) depths)"

definition QueueDepthByTenant :: "workspaceJobExecutor \<Rightarrow> (string \<times> int) list option" where
  "QueueDepthByTenant e = (if ex_queuedByTenant e = [] then None else Some (ex_queuedByTenant e))"

definition executorErr :: "workspaceJobExecutor \<Rightarrow> goerror" where
  "executorErr e =
     (if ex_ctxDone e then ErrExecutorShuttingDown else Errorf ''workspace job executor is not accepting new work'' [])"

text \<open>The call of \<open>Enqueue\<close> returns and its deferred \<open>cancel\<close> ends the wait context.\<close>

definition returnCall :: "nat \<Rightarrow> goerror option \<Rightarrow> workspaceJobExecutor \<Rightarrow> workspaceJobExecutor" where
  "returnCall i err e =
     (let c = ex_calls e ! i in
      e\<lparr>ex_calls := (ex_calls e)[i := c\<lparr>ca_pc := Returned err,
         ca_waitErr := (case ca_waitErr c of None \<Rightarrow> Some Canceled | Some w \<Rightarrow> Some w)\<rparr>]\<rparr>)"

definition cleanup :: "nat \<Rightarrow> workspaceJobExecutor \<Rightarrow> workspaceJobExecutor" where
  "cleanup i e = e\<lparr>ex_released := ex_released e @ [i]\<rparr>"

definition waitErr :: "goerror option \<Rightarrow> goerror" where
  "waitErr err = (case err of None \<Rightarrow> ErrEnqueueTimeout | Some w \<Rightarrow> if w = DeadlineExceeded then ErrEnqueueTimeout else w)"

definition newRequest :: "nat \<Rightarrow> workspaceJobExecutor \<Rightarrow> workspaceJobEnqueueRequest" where
  "newRequest i e = \<lparr>er_task = ca_task (ex_calls e ! i), er_call = i, er_result = True, er_enqueuedAt = 0\<rparr>"

definition setCall :: "nat \<Rightarrow> callerPC \<Rightarrow> workspaceJobExecutor \<Rightarrow> workspaceJobExecutor" where
  "setCall i pc e = e\<lparr>ex_calls := (ex_calls e)[i := (ex_calls e ! i)\<lparr>ca_pc := pc\<rparr>]\<rparr>"

definition setWorker :: "nat \<Rightarrow> workerPC \<Rightarrow> workspaceJobExecutor \<Rightarrow> workspaceJobExecutor" where
  "setWorker w pc e = e\<lparr>ex_workers := (ex_workers e)[w := pc]\<rparr>"

definition goto :: "dispatchPC \<Rightarrow> workspaceJobExecutor \<Rightarrow> workspaceJobExecutor" where
  "goto pc e = e\<lparr>ex_pc := pc\<rparr>"

text \<open>\<open>rejectPending\<close> is entered with the queue, which is not used afterwards.\<close>

definition shutdown :: "workspaceJobExecutor \<Rightarrow> workspaceJobExecutor" where
  "shutdown e = e\<lparr>ex_pc := Reject (ex_queue e), ex_queue := []\<rparr>"

definition refuseRequest :: "workspaceJobEnqueueRequest \<Rightarrow> goerror \<Rightarrow> afterRespond \<Rightarrow> workspaceJobExecutor \<Rightarrow> workspaceJobExecutor" where
  "refuseRequest request err k e = goto (Respond request (Some err) k) (cleanup (er_call request) e)"

definition dequeue :: "workspaceJobExecutor \<Rightarrow> workspaceJobExecutor" where
  "dequeue e = e\<lparr>ex_queue := tl (ex_queue e),
     ex_queuedByTenant := removeQueuedRequest (hd (ex_queue e)) (ex_queuedByTenant e)\<rparr>"

text \<open>What follows a response, by whether it was delivered.\<close>

fun continue :: "bool \<Rightarrow> workspaceJobEnqueueRequest \<Rightarrow> afterRespond \<Rightarrow> workspaceJobExecutor \<Rightarrow> workspaceJobExecutor" where
  "continue ok request ToLoop e = goto Loop e"
| "continue ok request ToShutdown e = shutdown e"
| "continue ok request (ToRefuse pending) e = refuseRequest pending ErrExecutorShuttingDown ToShutdown e"
| "continue ok request (ToReject rest) e = goto (Reject rest) e"
| "continue ok request ToDrain e = goto Drain e"
| "continue ok request ToAdmitted e =
     (if ok then goto Loop (e\<lparr>ex_queue := butlast (ex_queue e) @ [(last (ex_queue e))\<lparr>er_result := False\<rparr>]\<rparr>)
      else goto Loop (cleanup (er_call request)
             (e\<lparr>ex_queue := butlast (ex_queue e),
                ex_queuedByTenant := removeQueuedRequest (last (ex_queue e)) (ex_queuedByTenant e)\<rparr>)))"

definition enqueueRequest :: "time \<Rightarrow> workspaceJobEnqueueRequest \<Rightarrow> workspaceJobExecutor \<Rightarrow> workspaceJobExecutor" where
  "enqueueRequest now request e =
     e\<lparr>ex_queue := ex_queue e @ [request\<lparr>er_enqueuedAt := now\<rparr>],
       ex_queuedByTenant := adjustTenantQueueDepth (tk_tenantID (er_task request)) 1 (ex_queuedByTenant e),
       ex_pc := Respond request None ToAdmitted\<rparr>"

section \<open>The goroutines\<close>

text \<open>The environment: a new call, the end of a caller's context or of its timeout, the end of the executor's context.\<close>

inductive outside_step :: "workspaceJobExecutor \<Rightarrow> workspaceJobExecutor \<Rightarrow> bool" where
  call: "outside_step e (e\<lparr>ex_calls := ex_calls e @ [\<lparr>ca_task = task, ca_pc = Sending, ca_ctxErr = None, ca_waitErr = None\<rparr>]\<rparr>)"
| stop: "outside_step e (e\<lparr>ex_ctxDone := True\<rparr>)"

inductive exec_step :: "workspaceJobExecutor \<Rightarrow> workspaceJobExecutor \<Rightarrow> bool" where
  ctx_ends:
    "i < length (ex_calls e) \<Longrightarrow> ca_ctxErr (ex_calls e ! i) = None \<Longrightarrow> exec_step e (e\<lparr>ex_calls := (ex_calls e)[i :=
       (ex_calls e ! i)\<lparr>ca_ctxErr := Some err,
         ca_waitErr := (case ca_waitErr (ex_calls e ! i) of None \<Rightarrow> Some err | Some w \<Rightarrow> Some w)\<rparr>]\<rparr>)"
| deadline:
    "i < length (ex_calls e) \<Longrightarrow> ca_waitErr (ex_calls e ! i) = None \<Longrightarrow>
     exec_step e (e\<lparr>ex_calls := (ex_calls e)[i := (ex_calls e ! i)\<lparr>ca_waitErr := Some DeadlineExceeded\<rparr>]\<rparr>)"

| caller_done:
    "i < length (ex_calls e) \<Longrightarrow> ca_pc (ex_calls e ! i) \<in> {Sending, Awaiting} \<Longrightarrow> ex_done e \<Longrightarrow>
     exec_step e (returnCall i (Some (executorErr e)) e)"
| caller_ctx:
    "i < length (ex_calls e) \<Longrightarrow> ca_pc (ex_calls e ! i) \<in> {Sending, Awaiting} \<Longrightarrow> ca_ctxErr (ex_calls e ! i) = Some err \<Longrightarrow>
     exec_step e (returnCall i (Some err) e)"
| caller_wait:
    "i < length (ex_calls e) \<Longrightarrow> ca_pc (ex_calls e ! i) \<in> {Sending, Awaiting} \<Longrightarrow> ca_waitErr (ex_calls e ! i) = Some err \<Longrightarrow>
     exec_step e (returnCall i (Some (if ca_ctxErr (ex_calls e ! i) = None \<and> err = DeadlineExceeded then ErrEnqueueTimeout else err)) e)"

| loop_assign:
    "ex_pc e = Loop \<Longrightarrow> ex_idle e = w # ws \<Longrightarrow> ex_queue e = request # queue \<Longrightarrow>
     exec_step e (goto (Assign w request None) (dequeue (e\<lparr>ex_idle := ws\<rparr>)))"
| loop_stop:
    "ex_pc e = Loop \<Longrightarrow> ex_idle e = [] \<or> ex_queue e = [] \<Longrightarrow> ex_ctxDone e \<Longrightarrow> exec_step e (shutdown e)"
| loop_worker:
    "ex_pc e = Loop \<Longrightarrow> ex_idle e = [] \<or> ex_queue e = [] \<Longrightarrow> w < length (ex_workers e) \<Longrightarrow> ex_workers e ! w = Offering \<Longrightarrow>
     exec_step e (setWorker w Listening (e\<lparr>ex_idle := ex_idle e @ [w]\<rparr>))"
| loop_request:
    "ex_pc e = Loop \<Longrightarrow> ex_idle e = [] \<or> ex_queue e = [] \<Longrightarrow> i < length (ex_calls e) \<Longrightarrow> ca_pc (ex_calls e ! i) = Sending \<Longrightarrow>
     exec_step e (goto (Received (newRequest i e)) (setCall i Awaiting e))"

| received_stop:
    "ex_pc e = Received request \<Longrightarrow> ex_ctxDone e \<Longrightarrow>
     exec_step e (goto (Respond request (Some ErrExecutorShuttingDown) ToShutdown) e)"
| received_limit:
    "ex_pc e = Received request \<Longrightarrow> \<not> ex_ctxDone e \<Longrightarrow> tenantQueueLimitExceeded (tk_tenantID (er_task request)) e \<Longrightarrow>
     exec_step e (refuseRequest request ErrTenantQueueFull ToLoop e)"
| received_ok:
    "ex_pc e = Received request \<Longrightarrow> \<not> ex_ctxDone e \<Longrightarrow> \<not> tenantQueueLimitExceeded (tk_tenantID (er_task request)) e \<Longrightarrow>
     exec_step e (goto (Full request) e)"

| full_stop:
    "ex_pc e = Full request \<Longrightarrow> int (length (ex_queue e)) \<ge> ex_queueCapacity e \<Longrightarrow> ex_ctxDone e \<Longrightarrow>
     exec_step e (refuseRequest request ErrExecutorShuttingDown ToShutdown e)"
| full_wait:
    "ex_pc e = Full request \<Longrightarrow> int (length (ex_queue e)) \<ge> ex_queueCapacity e \<Longrightarrow>
     ca_waitErr (ex_calls e ! er_call request) = Some err \<Longrightarrow>
     exec_step e (refuseRequest request (waitErr (Some err)) ToLoop e)"
| full_worker:
    "ex_pc e = Full request \<Longrightarrow> int (length (ex_queue e)) \<ge> ex_queueCapacity e \<Longrightarrow> w < length (ex_workers e) \<Longrightarrow>
     ex_workers e ! w = Offering \<Longrightarrow> ex_queue e = oldest # queue \<Longrightarrow>
     exec_step e (goto (Assign w oldest (Some request)) (dequeue (setWorker w Listening e)))"
| full_room:
    "ex_pc e = Full request \<Longrightarrow> int (length (ex_queue e)) < ex_queueCapacity e \<Longrightarrow> exec_step e (goto (Admit request) e)"

| admit_wait:
    "ex_pc e = Admit request \<Longrightarrow> ca_waitErr (ex_calls e ! er_call request) = Some err \<Longrightarrow>
     exec_step e (refuseRequest request (waitErr (Some err)) ToLoop e)"
| admit_stop:
    "ex_pc e = Admit request \<Longrightarrow> ca_waitErr (ex_calls e ! er_call request) = None \<Longrightarrow> ex_ctxDone e \<Longrightarrow>
     exec_step e (refuseRequest request ErrExecutorShuttingDown ToShutdown e)"
| admit:
    "ex_pc e = Admit request \<Longrightarrow> ca_waitErr (ex_calls e ! er_call request) = None \<Longrightarrow> \<not> ex_ctxDone e \<Longrightarrow> 0 < now \<Longrightarrow>
     exec_step e (enqueueRequest now request e)"

| respond_nil:
    "ex_pc e = Respond request err k \<Longrightarrow> \<not> er_result request \<Longrightarrow> exec_step e (continue False request k e)"
| respond_wait:
    "ex_pc e = Respond request err k \<Longrightarrow> er_result request \<Longrightarrow> ca_waitErr (ex_calls e ! er_call request) \<noteq> None \<Longrightarrow>
     exec_step e (continue False request k e)"
| respond_send:
    "ex_pc e = Respond request err k \<Longrightarrow> er_result request \<Longrightarrow> ca_pc (ex_calls e ! er_call request) = Awaiting \<Longrightarrow>
     exec_step e (continue True request k (returnCall (er_call request) err e))"

| assign_stop:
    "ex_pc e = Assign w request pending \<Longrightarrow> ex_ctxDone e \<or> ex_workers e ! w = Stopped \<Longrightarrow>
     exec_step e (refuseRequest request ErrExecutorShuttingDown (case pending of None \<Rightarrow> ToShutdown | Some p \<Rightarrow> ToRefuse p) e)"
| assign_send:
    "ex_pc e = Assign w request pending \<Longrightarrow> ex_workers e ! w = Listening \<Longrightarrow>
     exec_step e (goto (case pending of None \<Rightarrow> Loop | Some p \<Rightarrow> Full p) (setWorker w (Got (er_call request)) e))"

| reject_next:
    "ex_pc e = Reject (request # rest) \<Longrightarrow>
     exec_step e (refuseRequest request ErrExecutorShuttingDown (ToReject rest)
       (e\<lparr>ex_queuedByTenant := removeQueuedRequest request (ex_queuedByTenant e)\<rparr>))"
| reject_end:
    "ex_pc e = Reject [] \<Longrightarrow> exec_step e (goto Drain (e\<lparr>ex_queuedByTenant := []\<rparr>))"
| drain_request:
    "ex_pc e = Drain \<Longrightarrow> i < length (ex_calls e) \<Longrightarrow> ca_pc (ex_calls e ! i) = Sending \<Longrightarrow>
     exec_step e (refuseRequest (newRequest i e) ErrExecutorShuttingDown ToDrain (setCall i Awaiting e))"
| drain_end:
    "ex_pc e = Drain \<Longrightarrow> exec_step e (goto Exited (e\<lparr>ex_queuedByTenant := [], ex_done := True\<rparr>))"

| worker_stop:
    "w < length (ex_workers e) \<Longrightarrow> ex_workers e ! w \<in> {Offering, Listening} \<Longrightarrow> ex_ctxDone e \<Longrightarrow> exec_step e (setWorker w Stopped e)"
| worker_skip:
    "w < length (ex_workers e) \<Longrightarrow> ex_workers e ! w = Got i \<Longrightarrow> ex_ctxDone e \<Longrightarrow> exec_step e (setWorker w Stopped (cleanup i e))"
| worker_run:
    "w < length (ex_workers e) \<Longrightarrow> ex_workers e ! w = Got i \<Longrightarrow> \<not> ex_ctxDone e \<Longrightarrow>
     exec_step e (setWorker w (Running i) (e\<lparr>ex_started := ex_started e @ [i]\<rparr>))"
| worker_finish:
    "w < length (ex_workers e) \<Longrightarrow> ex_workers e ! w = Running i \<Longrightarrow>
     exec_step e (setWorker w (if ex_ctxDone e then Stopped else Offering) (cleanup i e))"

inductive executor_run :: "int \<Rightarrow> workspaceJobExecutor \<Rightarrow> bool" for concurrency where
  start: "executor_run concurrency (newWorkspaceJobExecutorWithTimeout concurrency)"
| outside: "executor_run concurrency e \<Longrightarrow> outside_step e e' \<Longrightarrow> executor_run concurrency e'"
| inside: "executor_run concurrency e \<Longrightarrow> exec_step e e' \<Longrightarrow> executor_run concurrency e'"

end
