(* ===== verification/JobExecutorCorrect.thy ===== *)
theory JobExecutorCorrect
  imports JobExecutor Steps "HOL-Library.Multiset"
begin

text \<open>
  The executor of workspace jobs under every interleaving: the queue stays within its capacity and the share of each
  tenant, the counters of the tenants are those of the queue, a task runs at most once and only if its call of \<open>Enqueue\<close>
  reported success, and after the executor's context has ended everything stops with every accepted task released.
\<close>

lemmas executor_defs = goto_def cleanup_def setWorker_def setCall_def shutdown_def refuseRequest_def dequeue_def returnCall_def
  newRequest_def enqueueRequest_def Let_def

section \<open>Capacity and shares\<close>

definition tenantOfRequest :: "workspaceJobEnqueueRequest \<Rightarrow> string" where
  "tenantOfRequest r = TrimSpace (tk_tenantID (er_task r))"

definition tenantCount :: "string \<Rightarrow> workspaceJobEnqueueRequest list \<Rightarrow> nat" where
  "tenantCount t rs = length (filter (\<lambda>r. tenantOfRequest r = t) rs)"

definition depths_match :: "(string \<times> int) list \<Rightarrow> workspaceJobEnqueueRequest list \<Rightarrow> bool" where
  "depths_match depths rs \<longleftrightarrow> (\<forall>t. t \<noteq> [] \<longrightarrow> map_of depths t = (if tenantCount t rs = 0 then None else Some (int (tenantCount t rs))))"

definition share :: "int \<Rightarrow> int" where
  "share capacity = max 1 (capacity div 2)"

lemma tenantCount_simps [simp]:
  "tenantCount t [] = 0" "tenantCount t (r # rs) = (if tenantOfRequest r = t then 1 else 0) + tenantCount t rs"
  "tenantCount t (xs @ ys) = tenantCount t xs + tenantCount t ys"
  by (simp_all add: tenantCount_def)

lemma tenantOfRequest_update [simp]:
  "tenantOfRequest (r\<lparr>er_enqueuedAt := x\<rparr>) = tenantOfRequest r" "tenantOfRequest (r\<lparr>er_result := b\<rparr>) = tenantOfRequest r"
  by (simp_all add: tenantOfRequest_def)

lemma match_Nil [simp]: "depths_match [] []"
  by (simp add: depths_match_def)

lemma match_depthOf: "depths_match d rs \<Longrightarrow> t \<noteq> [] \<Longrightarrow> depthOf d t = int (tenantCount t rs)"
  by (simp add: depths_match_def depthOf_def)

lemma match_add:
  fixes r r' :: workspaceJobEnqueueRequest
  assumes "depths_match d rs" "er_task r' = er_task r"
  shows "depths_match (adjustTenantQueueDepth (tk_tenantID (er_task r)) 1 d) (rs @ [r'])"
proof -
  have "tenantOfRequest r' = tenantOfRequest r" using assms(2) by (simp add: tenantOfRequest_def)
  then show ?thesis
    using assms match_depthOf [OF assms(1), of "tenantOfRequest r"]
    by (auto simp: depths_match_def adjustTenantQueueDepth_def Let_def update_conv' tenantOfRequest_def [of r, symmetric])
qed

lemma match_remove:
  assumes "depths_match d (r # rs)" "0 < er_enqueuedAt r"
  shows "depths_match (removeQueuedRequest r d) rs"
  using assms match_depthOf [OF assms(1), of "tenantOfRequest r"]
  by (auto simp: depths_match_def removeQueuedRequest_def isZero_def adjustTenantQueueDepth_def Let_def update_conv' delete_conv'
        tenantOfRequest_def [of r, symmetric])

lemma match_perm: "depths_match d rs \<longleftrightarrow> depths_match d rs'" if "\<And>t. tenantCount t rs = tenantCount t rs'"
  using that by (simp add: depths_match_def)

text \<open>The requests the counters stand for: the queue, and on shutdown the rest of the queue that is being rejected.\<close>

fun rejecting :: "dispatchPC \<Rightarrow> workspaceJobEnqueueRequest list" where
  "rejecting (Reject rs) = rs"
| "rejecting (Respond _ _ (ToReject rs)) = rs"
| "rejecting _ = []"

fun closing :: "dispatchPC \<Rightarrow> bool" where
  "closing (Reject _) = True"
| "closing (Respond _ _ (ToReject _)) = True"
| "closing (Respond _ _ ToDrain) = True"
| "closing Drain = True"
| "closing Exited = True"
| "closing _ = False"

text \<open>A request that has passed the check of its tenant's share and is not queued yet.\<close>

fun passed :: "dispatchPC \<Rightarrow> workspaceJobEnqueueRequest list" where
  "passed (Full r) = [r]"
| "passed (Admit r) = [r]"
| "passed (Assign _ _ (Some r)) = [r]"
| "passed _ = []"

definition queue_ok :: "workspaceJobExecutor \<Rightarrow> bool" where
  "queue_ok e \<longleftrightarrow>
     0 < ex_queueCapacity e \<and> int (length (ex_queue e)) \<le> ex_queueCapacity e
     \<and> (\<forall>r. ex_pc e = Admit r \<longrightarrow> int (length (ex_queue e)) < ex_queueCapacity e)
     \<and> (\<forall>r \<in> set (ex_queue e @ rejecting (ex_pc e)). 0 < er_enqueuedAt r)
     \<and> depths_match (ex_queuedByTenant e) (ex_queue e @ rejecting (ex_pc e))
     \<and> (\<forall>t. t \<noteq> [] \<longrightarrow> int (tenantCount t (ex_queue e @ rejecting (ex_pc e))) \<le> share (ex_queueCapacity e))
     \<and> (\<forall>r \<in> set (passed (ex_pc e)). tenantOfRequest r \<noteq> [] \<longrightarrow>
          int (tenantCount (tenantOfRequest r) (ex_queue e)) + 1 \<le> share (ex_queueCapacity e))
     \<and> (closing (ex_pc e) \<longrightarrow> ex_queue e = [])
     \<and> (\<forall>r err. ex_pc e = Respond r err ToAdmitted \<longrightarrow> ex_queue e \<noteq> [] \<and> (\<exists>now. last (ex_queue e) = r\<lparr>er_enqueuedAt := now\<rparr>))"

lemma start_queue_ok: "queue_ok (newWorkspaceJobExecutorWithTimeout concurrency)"
  by (auto simp: newWorkspaceJobExecutorWithTimeout_def queue_ok_def Let_def defaultWorkspaceJobConcurrency_def share_def)

lemma limit_share:
  assumes "queue_ok e" "ex_pc e = Received r" "\<not> tenantQueueLimitExceeded (tk_tenantID (er_task r)) e" "tenantOfRequest r \<noteq> []"
  shows "int (tenantCount (tenantOfRequest r) (ex_queue e)) + 1 \<le> share (ex_queueCapacity e)"
  using assms match_depthOf [of "ex_queuedByTenant e" "ex_queue e" "tenantOfRequest r"]
  by (auto simp: queue_ok_def tenantQueueLimitExceeded_def Let_def share_def tenantOfRequest_def [symmetric] split: if_splits)

text \<open>Taking the first request of the queue, or dropping the last one.\<close>

lemma dequeue_match:
  assumes "queue_ok e" "ex_queue e = r # rs" "rejecting (ex_pc e) = []"
  shows "depths_match (removeQueuedRequest r (ex_queuedByTenant e)) rs"
  using assms match_remove by (auto simp: queue_ok_def)

lemma drop_last_match:
  assumes "queue_ok e" "ex_queue e \<noteq> []" "rejecting (ex_pc e) = []"
  shows "depths_match (removeQueuedRequest (last (ex_queue e)) (ex_queuedByTenant e)) (butlast (ex_queue e))"
proof (rule match_remove)
  have "tenantCount t (ex_queue e) = tenantCount t (last (ex_queue e) # butlast (ex_queue e))" for t
    using assms(2) by (cases "ex_queue e" rule: rev_cases) simp_all
  from match_perm [OF this] show "depths_match (ex_queuedByTenant e) (last (ex_queue e) # butlast (ex_queue e))"
    using assms(1,3) by (simp add: queue_ok_def)
  show "0 < er_enqueuedAt (last (ex_queue e))" using assms by (simp add: queue_ok_def)
qed

lemma continue_queue_ok:
  assumes "queue_ok e" "ex_pc e = Respond r err k"
  shows "queue_ok (continue ok r k e)"
proof (cases k)
  case ToAdmitted
  then have ne: "ex_queue e \<noteq> []" using assms by (auto simp: queue_ok_def)
  then obtain q l where q: "ex_queue e = q @ [l]" by (cases "ex_queue e" rule: rev_cases) auto
  show ?thesis
  proof (cases ok)
    case True
    have "depths_match (ex_queuedByTenant e) (q @ [l\<lparr>er_result := False\<rparr>])"
      using assms ToAdmitted q match_perm [of "q @ [l\<lparr>er_result := False\<rparr>]" "q @ [l]"] by (simp add: queue_ok_def)
    then show ?thesis using assms ToAdmitted q True by (auto simp: queue_ok_def executor_defs)
  next
    case False
    have "depths_match (removeQueuedRequest l (ex_queuedByTenant e)) q"
      using drop_last_match [OF assms(1) ne] assms(2) ToAdmitted q by simp
    moreover have "int (tenantCount t q) \<le> share (ex_queueCapacity e)" if "t \<noteq> []" for t
    proof -
      have "int (tenantCount t (ex_queue e)) \<le> share (ex_queueCapacity e)"
        using assms ToAdmitted that by (simp add: queue_ok_def)
      then show ?thesis by (simp add: q)
    qed
    ultimately show ?thesis using assms ToAdmitted q False by (auto simp: queue_ok_def executor_defs)
  qed
qed (use assms in \<open>auto simp: queue_ok_def executor_defs\<close>)

lemma queue_ok_fields [simp]:
  "queue_ok (e\<lparr>ex_calls := calls\<rparr>) = queue_ok e" "queue_ok (e\<lparr>ex_workers := ws\<rparr>) = queue_ok e" "queue_ok (e\<lparr>ex_idle := xs\<rparr>) = queue_ok e"
  "queue_ok (e\<lparr>ex_released := ys\<rparr>) = queue_ok e" "queue_ok (e\<lparr>ex_started := zs\<rparr>) = queue_ok e" "queue_ok (e\<lparr>ex_ctxDone := b\<rparr>) = queue_ok e"
  "queue_ok (e\<lparr>ex_done := b\<rparr>) = queue_ok e"
  by (simp_all add: queue_ok_def)

lemma queue_ok_ops [simp]:
  "queue_ok (returnCall i err e) = queue_ok e" "queue_ok (setCall i pc e) = queue_ok e" "queue_ok (setWorker w x e) = queue_ok e"
  "queue_ok (cleanup i e) = queue_ok e"
  by (simp_all add: returnCall_def setCall_def setWorker_def cleanup_def Let_def)

lemma op_fields [simp]:
  "ex_pc (returnCall i err e) = ex_pc e" "ex_pc (setCall i pc e) = ex_pc e" "ex_pc (setWorker w x e) = ex_pc e" "ex_pc (cleanup i e) = ex_pc e"
  "ex_queue (setWorker w x e) = ex_queue e" "ex_queuedByTenant (setWorker w x e) = ex_queuedByTenant e"
  by (simp_all add: returnCall_def setCall_def setWorker_def cleanup_def Let_def)

lemma goto_queue_ok:
  assumes "queue_ok e" "rejecting pc = rejecting (ex_pc e)" "set (passed pc) \<subseteq> set (passed (ex_pc e))"
    and "closing pc \<longrightarrow> closing (ex_pc e)" "\<forall>r. pc \<noteq> Admit r" "\<forall>r err. pc \<noteq> Respond r err ToAdmitted"
  shows "queue_ok (goto pc e)"
  using assms by (auto simp: queue_ok_def goto_def)

lemma refuse_queue_ok:
  assumes "queue_ok e" "rejecting (ex_pc e) = []" "k = ToLoop \<or> k = ToShutdown \<or> (\<exists>r'. k = ToRefuse r')"
  shows "queue_ok (refuseRequest r err k e)"
  unfolding refuseRequest_def using assms by (auto intro!: goto_queue_ok)

lemma shutdown_queue_ok: "queue_ok e \<Longrightarrow> rejecting (ex_pc e) = [] \<Longrightarrow> queue_ok (shutdown e)"
  by (auto simp: queue_ok_def shutdown_def)

lemma dequeue_queue_ok:
  assumes "queue_ok e" "ex_queue e = r # rs" "rejecting (ex_pc e) = []" "set (passed pc) \<subseteq> set (passed (ex_pc e))" "pc = Assign w r p"
  shows "queue_ok (goto pc (dequeue e))"
proof -
  note dequeue_match [OF assms(1-3)]
  moreover have "int (tenantCount t rs) \<le> int (tenantCount t (ex_queue e))" for t by (simp add: assms(2))
  moreover have "rejecting pc = []" "\<not> closing pc" using assms(5) by simp_all
  ultimately show ?thesis
    using assms(1,3-5) unfolding queue_ok_def dequeue_def goto_def
    by (auto simp: assms(2))
qed

lemma admit_queue_ok:
  assumes "queue_ok e" "ex_pc e = Admit r" "0 < now"
  shows "queue_ok (enqueueRequest now r e)"
  using assms match_add [of "ex_queuedByTenant e" "ex_queue e" "r\<lparr>er_enqueuedAt := now\<rparr>" r]
  unfolding queue_ok_def enqueueRequest_def by auto

lemma exec_step_queue_ok:
  assumes step: "exec_step e e'" and ok: "queue_ok e"
  shows "queue_ok e'"
  using step
proof (cases rule: exec_step.cases)
  case (loop_assign w ws request queue)
  then show ?thesis using ok by (auto intro!: dequeue_queue_ok)
next
  case (full_worker request w oldest queue)
  then show ?thesis using ok by (auto intro!: dequeue_queue_ok)
next
  case (received_ok request)
  then show ?thesis using limit_share [OF ok] ok by (auto simp: queue_ok_def goto_def)
next
  case (full_room request)
  then show ?thesis using ok by (auto simp: queue_ok_def goto_def)
next
  case (admit request now)
  then show ?thesis using admit_queue_ok [OF ok] by simp
next
  case (reject_next request rest)
  then show ?thesis using ok match_remove [of "ex_queuedByTenant e" request rest]
    by (auto simp: queue_ok_def executor_defs)
next
  case reject_end
  then show ?thesis using ok by (auto simp: queue_ok_def goto_def)
next
  case (respond_send request err k)
  then show ?thesis using continue_queue_ok [of "returnCall (er_call request) err e" request err k] ok by simp
next
  case (respond_nil request err k)
  then show ?thesis using continue_queue_ok [OF ok] by simp
next
  case (respond_wait request err k)
  then show ?thesis using continue_queue_ok [OF ok] by simp
next
  case (assign_send w request p)
  then show ?thesis using ok by (auto intro!: goto_queue_ok split: option.splits)
next
  case (assign_stop w request p)
  then show ?thesis using ok by (auto intro!: refuse_queue_ok split: option.splits)
next
  case (drain_request i)
  then show ?thesis using ok unfolding refuseRequest_def by (auto intro!: goto_queue_ok)
next
  case drain_end
  then show ?thesis using ok by (auto simp: queue_ok_def goto_def)
qed (use ok in \<open>auto intro!: goto_queue_ok refuse_queue_ok shutdown_queue_ok\<close>)

section \<open>Ownership of tasks\<close>

text \<open>
  The tasks whose call has reported success, by where they are: waiting in the queue, with the dispatcher or in a channel, or
  running; and the requests the dispatcher holds whose call has no answer yet.
\<close>

fun assigned :: "dispatchPC \<Rightarrow> nat list" where
  "assigned (Assign _ r _) = [er_call r]"
| "assigned pc = map er_call (rejecting pc)"

fun taken :: "workerPC \<Rightarrow> nat list" where
  "taken (Got i) = [i]"
| "taken _ = []"

fun running :: "workerPC \<Rightarrow> nat list" where
  "running (Running i) = [i]"
| "running _ = []"

fun acceptedOf :: "dispatchPC \<Rightarrow> workspaceJobEnqueueRequest list \<Rightarrow> workspaceJobEnqueueRequest list" where
  "acceptedOf (Respond _ _ ToAdmitted) queue = butlast queue"
| "acceptedOf _ queue = queue"

definition accepted :: "workspaceJobExecutor \<Rightarrow> workspaceJobEnqueueRequest list" where
  "accepted e = acceptedOf (ex_pc e) (ex_queue e)"

definition waitingTasks :: "workspaceJobExecutor \<Rightarrow> nat multiset" where
  "waitingTasks e = mset (map er_call (accepted e)) + mset (assigned (ex_pc e)) + mset (concat (map taken (ex_workers e)))"

definition runningTasks :: "workspaceJobExecutor \<Rightarrow> nat multiset" where
  "runningTasks e = mset (concat (map running (ex_workers e)))"

fun undecided :: "dispatchPC \<Rightarrow> workspaceJobEnqueueRequest list" where
  "undecided (Received r) = [r]"
| "undecided (Full r) = [r]"
| "undecided (Admit r) = [r]"
| "undecided (Assign _ _ (Some r)) = [r]"
| "undecided (Respond r _ ToAdmitted) = [r]"
| "undecided (Respond _ _ (ToRefuse r)) = [r]"
| "undecided _ = []"

fun answering :: "dispatchPC \<Rightarrow> workspaceJobEnqueueRequest list" where
  "answering (Respond r err k) = (if er_result r then [r] else [])"
| "answering _ = []"

definition callPC :: "workspaceJobExecutor \<Rightarrow> nat \<Rightarrow> callerPC" where
  "callPC e i = ca_pc (ex_calls e ! i)"

definition known :: "workspaceJobExecutor \<Rightarrow> nat \<Rightarrow> bool" where
  "known e i \<longleftrightarrow> i < length (ex_calls e) \<and> callPC e i \<noteq> Sending"

text \<open>No task is in two places, a task in one of them has been accepted and not released, a started task is running or released.\<close>

definition owner_ok :: "workspaceJobExecutor \<Rightarrow> bool" where
  "owner_ok e \<longleftrightarrow>
     (\<forall>i. count (waitingTasks e + runningTasks e) i \<le> 1)
     \<and> (\<forall>i. i \<in># waitingTasks e + runningTasks e \<longrightarrow> known e i \<and> callPC e i = Returned None \<and> i \<notin> set (ex_released e))
     \<and> (\<forall>i. i < length (ex_calls e) \<longrightarrow> callPC e i = Returned None \<longrightarrow> i \<in># waitingTasks e + runningTasks e \<or> i \<in> set (ex_released e))
     \<and> (\<forall>i. i \<in> set (ex_started e) \<longrightarrow> known e i \<and> callPC e i = Returned None \<and> i \<notin># waitingTasks e)
     \<and> distinct (ex_started e)
     \<and> (\<forall>i. i \<in> set (ex_released e) \<longrightarrow> known e i)"

text \<open>What the dispatcher holds.\<close>

definition held_ok :: "workspaceJobExecutor \<Rightarrow> bool" where
  "held_ok e \<longleftrightarrow>
     (\<forall>r \<in> set (accepted e @ rejecting (ex_pc e)). \<not> er_result r)
     \<and> (\<forall>w r p. ex_pc e = Assign w r p \<longrightarrow> \<not> er_result r)
     \<and> (\<forall>r \<in> set (undecided (ex_pc e)). er_result r \<and> er_call r \<notin> set (ex_released e))
     \<and> (\<forall>r \<in> set (undecided (ex_pc e) @ answering (ex_pc e)). known e (er_call r) \<and> callPC e (er_call r) \<noteq> Returned None)
     \<and> (\<forall>r err k. ex_pc e = Respond r err k \<longrightarrow> (err = None \<longleftrightarrow> k = ToAdmitted))
     \<and> (\<forall>i. i < length (ex_calls e) \<longrightarrow> (\<exists>err. callPC e i = Returned err) \<longrightarrow> ca_waitErr (ex_calls e ! i) \<noteq> None)
     \<and> (ex_pc e = Exited \<longleftrightarrow> ex_done e)
     \<and> (\<forall>w \<in> set (ex_idle e). w < length (ex_workers e)) \<and> (\<forall>w r p. ex_pc e = Assign w r p \<longrightarrow> w < length (ex_workers e))"

lemma concat_update:
  assumes "w < length ws"
  shows "mset (concat (map f (ws[w := x]))) + mset (f (ws ! w)) = mset (concat (map f ws)) + mset (f x)"
proof -
  have "ws = take w ws @ ws ! w # drop (Suc w) ws" using assms by (rule id_take_nth_drop)
  then have "mset (concat (map f ws)) = mset (concat (map f (take w ws))) + mset (f (ws ! w)) + mset (concat (map f (drop (Suc w) ws)))"
    by (metis concat.simps(2) concat_append list.simps(9) map_append mset_append add.assoc)
  then show ?thesis using assms by (simp add: upd_conv_take_nth_drop)
qed

lemma start_owner_ok:
  "owner_ok (newWorkspaceJobExecutorWithTimeout concurrency)" "held_ok (newWorkspaceJobExecutorWithTimeout concurrency)"
proof -
  have none: "concat (map f (replicate n Offering)) = []" if "f Offering = []" for f :: "workerPC \<Rightarrow> nat list" and n
    using that by (induction n) simp_all
  show "owner_ok (newWorkspaceJobExecutorWithTimeout concurrency)"
    by (auto simp: newWorkspaceJobExecutorWithTimeout_def owner_ok_def waitingTasks_def runningTasks_def accepted_def Let_def none)
  show "held_ok (newWorkspaceJobExecutorWithTimeout concurrency)"
    by (auto simp: newWorkspaceJobExecutorWithTimeout_def held_ok_def accepted_def Let_def)
qed

text \<open>The five ways in which a step changes the ownership.\<close>

lemma owner_frame:
  assumes "owner_ok e" "waitingTasks e' = waitingTasks e" "runningTasks e' = runningTasks e" "ex_started e' = ex_started e"
    and "length (ex_calls e') \<ge> length (ex_calls e)" "\<forall>i < length (ex_calls e). callPC e' i = callPC e i \<or> callPC e i \<noteq> Returned None \<and> callPC e' i \<noteq> Sending"
    and "\<forall>i < length (ex_calls e'). callPC e' i = Returned None \<longrightarrow> i < length (ex_calls e) \<and> callPC e i = Returned None"
    and "ex_released e' = ex_released e @ xs" "\<forall>i \<in> set xs. known e' i \<and> i \<notin># waitingTasks e + runningTasks e"
  shows "owner_ok e'"
proof -
  have "known e' i" if "known e i" for i
    using that assms(5,6) by (auto simp: known_def)
  moreover have "callPC e' i = Returned None" if "known e i" "callPC e i = Returned None" for i
    using that assms(6) by (auto simp: known_def)
  ultimately show ?thesis using assms unfolding owner_ok_def by auto
qed

lemma owner_lose:
  assumes ok: "owner_ok e" and tasks: "waitingTasks e + runningTasks e = add_mset i (waitingTasks e' + runningTasks e')"
    and sub: "waitingTasks e' \<subseteq># waitingTasks e"
    and same: "ex_calls e' = ex_calls e" "ex_started e' = ex_started e" "ex_released e' = ex_released e @ [i]"
  shows "owner_ok e'"
proof -
  have le: "count (waitingTasks e' + runningTasks e') j \<le> count (waitingTasks e + runningTasks e) j" for j
    unfolding tasks by simp
  have calls: "known e' = known e" "callPC e' = callPC e" by (simp_all add: known_def callPC_def same fun_eq_iff)
  have "count (waitingTasks e + runningTasks e) i \<le> 1" using ok unfolding owner_ok_def by blast
  then have gone: "i \<notin># waitingTasks e' + runningTasks e'" unfolding tasks by (simp add: not_in_iff)
  have mem: "j \<in># waitingTasks e + runningTasks e \<longleftrightarrow> j = i \<or> j \<in># waitingTasks e' + runningTasks e'" for j
    unfolding tasks by simp
  have "count (waitingTasks e' + runningTasks e') j \<le> 1" for j
    using ok le [of j] unfolding owner_ok_def by (meson order_trans)
  then show ?thesis
    using ok gone mset_subset_eqD [OF sub] unfolding owner_ok_def mem calls same by auto
qed

lemma owner_start:
  assumes "owner_ok e" "waitingTasks e = add_mset i (waitingTasks e')" "runningTasks e' = add_mset i (runningTasks e)"
    and "ex_calls e' = ex_calls e" "ex_started e' = ex_started e @ [i]" "ex_released e' = ex_released e"
  shows "owner_ok e'"
proof -
  have same: "waitingTasks e' + runningTasks e' = waitingTasks e + runningTasks e" using assms(2,3) by simp
  have "count (waitingTasks e + runningTasks e) i \<le> 1" using assms(1) unfolding owner_ok_def by blast
  then have "i \<notin># waitingTasks e'" using assms(2) by (simp add: not_in_iff)
  moreover have "i \<notin> set (ex_started e)" using assms(1,2) unfolding owner_ok_def by auto
  ultimately show ?thesis using assms(1,2,4-6) unfolding owner_ok_def known_def callPC_def same by auto
qed

lemma owner_accept:
  assumes "owner_ok e" "waitingTasks e' = add_mset i (waitingTasks e)" "runningTasks e' = runningTasks e"
    and "ex_started e' = ex_started e" "ex_released e' = ex_released e" "i \<notin> set (ex_released e)" "known e i" "callPC e i \<noteq> Returned None"
    and "length (ex_calls e') = length (ex_calls e)" "callPC e' i = Returned None" "\<forall>j. j \<noteq> i \<longrightarrow> callPC e' j = callPC e j"
  shows "owner_ok e'"
proof -
  have new: "i \<notin># waitingTasks e + runningTasks e" "i \<notin> set (ex_started e)"
    using assms(1,8) unfolding owner_ok_def by blast+
  have known: "known e' j \<longleftrightarrow> known e j" for j
    using assms(7,9-11) by (cases "j = i") (simp_all add: known_def)
  have "count (waitingTasks e' + runningTasks e') j \<le> 1" for j
    using assms(1-3) new(1) by (cases "j = i") (simp_all add: owner_ok_def not_in_iff)
  moreover have "known e' j \<and> callPC e' j = Returned None \<and> j \<notin> set (ex_released e')" if "j \<in># waitingTasks e' + runningTasks e'" for j
    using that assms known unfolding owner_ok_def by (cases "j = i") auto
  moreover have "j \<in># waitingTasks e' + runningTasks e' \<or> j \<in> set (ex_released e')"
    if "j < length (ex_calls e')" "callPC e' j = Returned None" for j
    using that assms unfolding owner_ok_def by (cases "j = i") auto
  moreover have "known e' j \<and> callPC e' j = Returned None \<and> j \<notin># waitingTasks e'" if "j \<in> set (ex_started e')" for j
    using that new assms known unfolding owner_ok_def by (cases "j = i") auto
  ultimately show ?thesis using assms(1,4,5) known unfolding owner_ok_def by auto
qed

section \<open>Every step keeps the ownership\<close>

lemmas task_defs = waitingTasks_def runningTasks_def accepted_def

lemma owned_not_undecided:
  assumes "owner_ok e" "callPC e i \<noteq> Returned None"
  shows "i \<notin># waitingTasks e + runningTasks e"
  using assms unfolding owner_ok_def by blast

lemma nth_update_if: "xs[i := x] ! j = (if j = i \<and> i < length xs then x else xs ! j)"
  by (cases "i < length xs") (auto simp: nth_list_update not_less list_update_beyond)

lemma callPC_fields [simp]:
  "callPC (returnCall i err e) j = (if j = i \<and> i < length (ex_calls e) then Returned err else callPC e j)"
  "callPC (setCall i pc e) j = (if j = i \<and> i < length (ex_calls e) then pc else callPC e j)"
  by (simp_all add: callPC_def returnCall_def setCall_def Let_def nth_update_if)

lemma op_tasks [simp]:
  "waitingTasks (returnCall i err e) = waitingTasks e" "runningTasks (returnCall i err e) = runningTasks e"
  "waitingTasks (setCall i pc e) = waitingTasks e" "runningTasks (setCall i pc e) = runningTasks e"
  by (simp_all add: task_defs returnCall_def setCall_def Let_def)

lemma return_owner_ok:
  assumes "owner_ok e" "i < length (ex_calls e)" "ca_pc (ex_calls e ! i) \<in> {Sending, Awaiting}"
  shows "owner_ok (returnCall i (Some err) e)"
  by (rule owner_frame [OF assms(1), where xs = "[]"])
     (use assms(2,3) in \<open>auto simp: callPC_def [of e], auto simp: returnCall_def Let_def callPC_def\<close>)

lemma send_owner_ok:
  assumes "owner_ok e" "i < length (ex_calls e)" "ca_pc (ex_calls e ! i) = Sending"
  shows "owner_ok (setCall i Awaiting e)"
  by (rule owner_frame [OF assms(1), where xs = "[]"])
     (use assms(2,3) in \<open>auto simp: callPC_def [of e], auto simp: setCall_def Let_def callPC_def\<close>)

text \<open>A move of the dispatcher that keeps the calls, with the cleanups it makes.\<close>

lemma move_owner_ok:
  assumes "owner_ok e" "waitingTasks e' = waitingTasks e" "runningTasks e' = runningTasks e"
    and "ex_calls e' = ex_calls e" "ex_started e' = ex_started e" "ex_released e' = ex_released e @ xs"
    and "\<forall>i \<in> set xs. known e i \<and> callPC e i \<noteq> Returned None"
  shows "owner_ok e'"
proof (rule owner_frame [OF assms(1-3,5), where xs = xs])
  show "\<forall>i \<in> set xs. known e' i \<and> i \<notin># waitingTasks e + runningTasks e"
    using assms(4,7) owned_not_undecided [OF assms(1)] by (auto simp: known_def callPC_def)
qed (use assms(4,6) in \<open>simp_all add: callPC_def\<close>)

lemma undecidedD:
  assumes "held_ok e" "r \<in> set (undecided (ex_pc e))"
  shows "known e (er_call r) \<and> callPC e (er_call r) \<noteq> Returned None"
  using assms unfolding held_ok_def by auto

lemma refuse_owner_ok:
  assumes "owner_ok e" "held_ok e" "r \<in> set (undecided (ex_pc e))" "k = ToLoop \<or> k = ToShutdown \<or> (\<exists>r'. k = ToRefuse r')"
    and "assigned (ex_pc e) = []" "accepted e = ex_queue e"
  shows "owner_ok (refuseRequest r err k e)"
proof (rule move_owner_ok [OF assms(1), where xs = "[er_call r]"])
  show "waitingTasks (refuseRequest r err k e) = waitingTasks e"
    using assms(4-6) by (auto simp: waitingTasks_def accepted_def refuseRequest_def goto_def cleanup_def)
  show "\<forall>i \<in> set [er_call r]. known e i \<and> callPC e i \<noteq> Returned None" using undecidedD [OF assms(2,3)] by simp
qed (simp_all add: refuseRequest_def goto_def cleanup_def runningTasks_def)

lemma continue_owner_ok:
  assumes ok: "owner_ok e" "held_ok e" and pc: "ex_pc e = Respond r err k" and ret: "k \<noteq> ToAdmitted \<or> \<not> b"
  shows "owner_ok (continue b r k e)"
proof (cases k)
  case (ToRefuse p)
  have "known e (er_call p) \<and> callPC e (er_call p) \<noteq> Returned None" using undecidedD [OF ok(2)] pc ToRefuse by simp
  then show ?thesis
    by (intro move_owner_ok [OF ok(1), where xs = "[er_call p]"])
       (auto simp: ToRefuse task_defs pc refuseRequest_def goto_def cleanup_def)
next
  case ToAdmitted
  have "known e (er_call r) \<and> callPC e (er_call r) \<noteq> Returned None" using undecidedD [OF ok(2)] pc ToAdmitted by simp
  then show ?thesis
    using ret by (intro move_owner_ok [OF ok(1), where xs = "[er_call r]"]) (auto simp: ToAdmitted task_defs pc goto_def cleanup_def)
qed (intro move_owner_ok [OF ok(1), where xs = "[]"]; simp add: task_defs pc goto_def shutdown_def)+

lemma known_return:
  "known (returnCall i err e) j \<longleftrightarrow> j < length (ex_calls e) \<and> (j = i \<or> callPC e j \<noteq> Sending)"
  by (auto simp: known_def) (auto simp: returnCall_def Let_def)

lemma waitErr_return:
  "i < length (ex_calls e) \<Longrightarrow> ca_waitErr (ex_calls (returnCall i err e) ! j)
     = (if j = i then Some (case ca_waitErr (ex_calls e ! i) of None \<Rightarrow> Canceled | Some w \<Rightarrow> w) else ca_waitErr (ex_calls e ! j))"
  by (auto simp: returnCall_def Let_def nth_update_if split: option.split)

lemma return_fields [simp]:
  "length (ex_calls (returnCall i err e)) = length (ex_calls e)" "accepted (returnCall i err e) = accepted e"
  "ex_released (returnCall i err e) = ex_released e" "ex_idle (returnCall i err e) = ex_idle e"
  "ex_workers (returnCall i err e) = ex_workers e" "ex_done (returnCall i err e) = ex_done e" "ex_queue (returnCall i err e) = ex_queue e"
  "ex_started (returnCall i err e) = ex_started e"
  by (simp_all add: returnCall_def Let_def accepted_def)

lemma return_held_ok:
  assumes "held_ok e" "i < length (ex_calls e)"
  shows "held_ok (returnCall i (Some err) e)"
  using assms unfolding held_ok_def by (auto simp: known_return waitErr_return known_def)

lemma respond_send_owner_ok:
  assumes ok: "owner_ok e" "held_ok e" "queue_ok e" and pc: "ex_pc e = Respond r err k" "er_result r"
    and call: "ca_pc (ex_calls e ! er_call r) = Awaiting"
  shows "owner_ok (continue True r k (returnCall (er_call r) err e))"
proof -
  have r: "known e (er_call r)" "callPC e (er_call r) \<noteq> Returned None" and err: "err = None \<longleftrightarrow> k = ToAdmitted"
    using ok(2) pc unfolding held_ok_def by auto
  show ?thesis
  proof (cases "k = ToAdmitted")
    case False
    then obtain x where "err = Some x" using err by blast
    then have "owner_ok (returnCall (er_call r) err e)" "held_ok (returnCall (er_call r) err e)"
      using return_owner_ok [OF ok(1)] return_held_ok [OF ok(2)] r(1) call by (simp_all add: known_def)
    then show ?thesis using continue_owner_ok pc(1) False by simp
  next
    case True
    then have q: "ex_queue e \<noteq> []" "er_call (last (ex_queue e)) = er_call r" "er_call r \<notin> set (ex_released e)"
      using ok(2,3) pc(1) by (auto simp: queue_ok_def held_ok_def)
    show ?thesis
      by (rule owner_accept [OF ok(1), of _ "er_call r"])
         (use True err r q in \<open>auto simp: known_def callPC_def task_defs pc goto_def returnCall_def Let_def nth_update_if\<close>)
  qed
qed

lemma goto_owner_ok:
  assumes "owner_ok e" "assigned pc = assigned (ex_pc e)" "acceptedOf pc (ex_queue e) = acceptedOf (ex_pc e) (ex_queue e)"
  shows "owner_ok (goto pc e)"
  by (rule move_owner_ok [OF assms(1), where xs = "[]"]) (use assms(2,3) in \<open>simp_all add: task_defs goto_def\<close>)

lemma owner_ok_fields [simp]:
  "owner_ok (e\<lparr>ex_queuedByTenant := d\<rparr>) = owner_ok e" "owner_ok (e\<lparr>ex_done := b\<rparr>) = owner_ok e" "owner_ok (e\<lparr>ex_ctxDone := b\<rparr>) = owner_ok e"
  by (simp_all add: owner_ok_def task_defs known_def callPC_def)

lemma exec_step_owner_ok:
  assumes step: "exec_step e e'" and ok: "owner_ok e" "held_ok e" "queue_ok e"
  shows "owner_ok e'"
  using step
proof (cases rule: exec_step.cases)
  case (ctx_ends i err)
  then show ?thesis by (intro owner_frame [OF ok(1), where xs = "[]"]) (auto simp: task_defs callPC_def nth_update_if)
next
  case (deadline i)
  then show ?thesis by (intro owner_frame [OF ok(1), where xs = "[]"]) (auto simp: task_defs callPC_def nth_update_if)
next
  case (loop_assign w ws r q)
  then show ?thesis by (intro move_owner_ok [OF ok(1), where xs = "[]"]) (auto simp: task_defs goto_def dequeue_def)
next
  case (loop_worker w)
  then show ?thesis
    using concat_update [of w "ex_workers e" taken Listening] concat_update [of w "ex_workers e" running Listening]
    by (intro move_owner_ok [OF ok(1), where xs = "[]"]) (auto simp: task_defs setWorker_def)
next
  case (loop_request i)
  then have sent: "owner_ok (setCall i Awaiting e)" using send_owner_ok [OF ok(1)] by simp
  from loop_request show ?thesis
    by (intro move_owner_ok [OF sent, where xs = "[]"]) (auto simp: task_defs goto_def setCall_def)
next
  case (full_worker r w old q)
  then show ?thesis
    using concat_update [of w "ex_workers e" taken Listening] concat_update [of w "ex_workers e" running Listening]
    by (intro move_owner_ok [OF ok(1), where xs = "[]"]) (auto simp: task_defs setWorker_def goto_def dequeue_def)
next
  case (admit r now)
  then show ?thesis by (intro move_owner_ok [OF ok(1), where xs = "[]"]) (auto simp: task_defs enqueueRequest_def)
next
  case (respond_send r err k)
  then show ?thesis using respond_send_owner_ok [OF ok] by simp
next
  case (assign_stop w r p)
  then show ?thesis by (intro owner_lose [OF ok(1), of "er_call r"])
    (auto simp: task_defs refuseRequest_def goto_def cleanup_def split: option.splits)
next
  case (assign_send w r p)
  then have "w < length (ex_workers e)" using ok(2) by (auto simp: held_ok_def)
  with assign_send show ?thesis
    using concat_update [of w "ex_workers e" taken "Got (er_call r)"] concat_update [of w "ex_workers e" running "Got (er_call r)"]
    by (intro move_owner_ok [OF ok(1), where xs = "[]"]) (auto simp: task_defs setWorker_def goto_def split: option.splits)
next
  case (reject_next r rest)
  then show ?thesis by (intro owner_lose [OF ok(1), of "er_call r"]) (auto simp: task_defs refuseRequest_def goto_def cleanup_def)
next
  case (drain_request i)
  then have sent: "owner_ok (setCall i Awaiting e)" using send_owner_ok [OF ok(1)] by simp
  from drain_request show ?thesis
    by (intro move_owner_ok [OF sent, where xs = "[i]"])
       (auto simp: task_defs refuseRequest_def goto_def cleanup_def newRequest_def known_def, auto simp: setCall_def)
next
  case (worker_stop w)
  then show ?thesis
    using concat_update [of w "ex_workers e" taken Stopped] concat_update [of w "ex_workers e" running Stopped]
    by (intro move_owner_ok [OF ok(1), where xs = "[]"]) (auto simp: task_defs setWorker_def)
next
  case (worker_skip w i)
  then have "waitingTasks e = add_mset i (waitingTasks e')" "runningTasks e' = runningTasks e"
    using concat_update [of w "ex_workers e" taken Stopped] concat_update [of w "ex_workers e" running Stopped]
    by (simp_all add: task_defs setWorker_def cleanup_def)
  with worker_skip show ?thesis by (intro owner_lose [OF ok(1), of i]) (simp_all add: setWorker_def cleanup_def)
next
  case (worker_run w i)
  then show ?thesis
    using concat_update [of w "ex_workers e" taken "Running i"] concat_update [of w "ex_workers e" running "Running i"]
    by (intro owner_start [OF ok(1), of i]) (simp_all add: task_defs setWorker_def)
next
  case (worker_finish w i)
  let ?x = "if ex_ctxDone e then Stopped else Offering"
  from worker_finish show ?thesis
    using concat_update [of w "ex_workers e" taken ?x] concat_update [of w "ex_workers e" running ?x]
    by (intro owner_lose [OF ok(1), of i]) (simp_all add: task_defs setWorker_def cleanup_def split: if_splits)
next
  case (loop_stop)
  then show ?thesis by (intro move_owner_ok [OF ok(1), where xs = "[]"]) (auto simp: task_defs shutdown_def)
next
  case (respond_nil r err k)
  then show ?thesis using continue_owner_ok [OF ok(1,2)] by simp
next
  case (respond_wait r err k)
  then show ?thesis using continue_owner_ok [OF ok(1,2)] by simp
qed (use ok(1) return_owner_ok [OF ok(1)] refuse_owner_ok [OF ok(1,2)] in \<open>auto simp: accepted_def intro!: goto_owner_ok\<close>)

lemma held_ok_fields [simp]:
  "held_ok (e\<lparr>ex_queuedByTenant := d\<rparr>) = held_ok e" "held_ok (e\<lparr>ex_ctxDone := b\<rparr>) = held_ok e" "held_ok (e\<lparr>ex_started := xs\<rparr>) = held_ok e"
  by (simp_all add: held_ok_def accepted_def known_def callPC_def)

lemma held_ok_worker: "held_ok (setWorker w x e) = held_ok e"
  by (simp add: held_ok_def accepted_def known_def callPC_def setWorker_def)

lemma goto_held_ok:
  assumes "held_ok e" "set (acceptedOf pc (ex_queue e)) \<union> set (rejecting pc) \<subseteq> set (accepted e) \<union> set (rejecting (ex_pc e))"
    and "\<forall>w r p. pc \<noteq> Assign w r p" "set (undecided pc) \<subseteq> set (undecided (ex_pc e))"
    and "set (answering pc) \<subseteq> set (undecided (ex_pc e)) \<union> set (answering (ex_pc e))"
    and "\<forall>r err k. pc = Respond r err k \<longrightarrow> (err = None \<longleftrightarrow> k = ToAdmitted)" "pc \<noteq> Exited" "ex_pc e \<noteq> Exited"
  shows "held_ok (goto pc e)"
proof -
  have calls: "known (goto pc e) = known e" "callPC (goto pc e) = callPC e" by (simp_all add: goto_def known_def callPC_def fun_eq_iff)
  show ?thesis using assms unfolding held_ok_def calls accepted_def by (simp add: goto_def subset_iff ball_Un) meson
qed

text \<open>A cleanup of a call the dispatcher does not decide on any more.\<close>

lemma cleanup_held_ok:
  assumes "held_ok (goto pc e)" "\<forall>r \<in> set (undecided pc). er_call r \<noteq> i"
  shows "held_ok (goto pc (cleanup i e))"
  using assms unfolding held_ok_def known_def callPC_def accepted_def by (simp add: goto_def cleanup_def)

lemma refuse_held_ok:
  assumes "held_ok e" "r \<in> set (undecided (ex_pc e))" "k = ToLoop \<or> k = ToShutdown" "accepted e = ex_queue e"
  shows "held_ok (refuseRequest r err k e)"
proof -
  have "ex_pc e \<noteq> Exited" "er_result r" using assms(1,2) by (auto simp: held_ok_def)
  then show ?thesis unfolding refuseRequest_def
    using assms by (intro cleanup_held_ok goto_held_ok) auto
qed

lemma shutdown_held_ok:
  assumes "held_ok e" "accepted e = ex_queue e" "ex_pc e \<noteq> Exited"
  shows "held_ok (shutdown e)"
  using assms unfolding held_ok_def accepted_def known_def callPC_def by (simp add: shutdown_def)

lemma continue_held_ok:
  assumes ok: "held_ok e" and pc: "ex_pc e = Respond r err k" and ret: "k \<noteq> ToAdmitted \<or> \<not> b"
  shows "held_ok (continue b r k e)"
proof (cases k)
  case ToShutdown
  then show ?thesis using shutdown_held_ok [OF ok] pc by (simp add: accepted_def)
next
  case (ToRefuse p)
  have "er_result p" using ok pc ToRefuse by (auto simp: held_ok_def)
  then show ?thesis unfolding ToRefuse continue.simps refuseRequest_def
    by (intro cleanup_held_ok goto_held_ok) (use ok pc ToRefuse in \<open>auto simp: accepted_def\<close>)
next
  case ToAdmitted
  have "held_ok (goto Loop (e\<lparr>ex_queue := butlast (ex_queue e)\<rparr>))"
    using ok pc ToAdmitted unfolding held_ok_def accepted_def known_def callPC_def by (simp add: goto_def)
  moreover have "goto Loop (cleanup i (e\<lparr>ex_queue := q, ex_queuedByTenant := d\<rparr>))
      = (goto Loop (cleanup i (e\<lparr>ex_queue := q\<rparr>)))\<lparr>ex_queuedByTenant := d\<rparr>" for i q d
    by (simp add: goto_def cleanup_def)
  ultimately show ?thesis using ret ToAdmitted by (simp add: cleanup_held_ok)
qed (use ok pc in \<open>auto simp: accepted_def intro!: goto_held_ok\<close>)

lemma send_fields [simp]:
  "length (ex_calls (setCall i pc e)) = length (ex_calls e)" "accepted (setCall i pc e) = accepted e"
  "ex_released (setCall i pc e) = ex_released e" "ex_idle (setCall i pc e) = ex_idle e" "ex_workers (setCall i pc e) = ex_workers e"
  "ex_done (setCall i pc e) = ex_done e" "ex_queue (setCall i pc e) = ex_queue e" "ca_waitErr (ex_calls (setCall i pc e) ! j) = ca_waitErr (ex_calls e ! j)"
  by (simp_all add: setCall_def accepted_def nth_update_if)

lemma send_held_ok:
  assumes "held_ok e" "i < length (ex_calls e)"
  shows "held_ok (setCall i Awaiting e)"
  using assms unfolding held_ok_def by (auto simp: known_def)

lemma respond_send_held_ok:
  assumes ok: "held_ok e" "queue_ok e" and pc: "ex_pc e = Respond r err k" "er_result r"
    and call: "ca_pc (ex_calls e ! er_call r) = Awaiting"
  shows "held_ok (continue True r k (returnCall (er_call r) err e))"
proof -
  have r: "er_call r < length (ex_calls e)" and err: "err = None \<longleftrightarrow> k = ToAdmitted"
    using ok(1) pc unfolding held_ok_def by (auto simp: known_def)
  show ?thesis
  proof (cases "k = ToAdmitted")
    case False
    then obtain x where "err = Some x" using err by blast
    then have "held_ok (returnCall (er_call r) err e)" using return_held_ok [OF ok(1) r] by simp
    then show ?thesis using continue_held_ok pc(1) False by simp
  next
    case True
    have "ca_waitErr (ex_calls (returnCall (er_call r) err e) ! j) \<noteq> None"
      if "j < length (ex_calls e)" "callPC (returnCall (er_call r) err e) j = Returned x" for j x
      using that ok(1) r unfolding held_ok_def by (auto simp: waitErr_return split: if_splits)
    then show ?thesis using ok(1) pc(1) True unfolding held_ok_def
      by (auto simp: goto_def accepted_def callPC_def)
  qed
qed

lemma calls_held_ok:
  assumes "held_ok e" "length cs = length (ex_calls e)" "\<forall>i < length cs. ca_pc (cs ! i) = ca_pc (ex_calls e ! i)"
    and "\<forall>i < length cs. ca_waitErr (ex_calls e ! i) \<noteq> None \<longrightarrow> ca_waitErr (cs ! i) \<noteq> None"
  shows "held_ok (e\<lparr>ex_calls := cs\<rparr>)"
proof -
  have calls: "known (e\<lparr>ex_calls := cs\<rparr>) i = known e i" "known e i \<Longrightarrow> callPC (e\<lparr>ex_calls := cs\<rparr>) i = callPC e i"
    "i < length (ex_calls e) \<Longrightarrow> callPC (e\<lparr>ex_calls := cs\<rparr>) i = callPC e i" for i
    using assms(2,3) by (auto simp: known_def callPC_def)
  show ?thesis using assms calls unfolding held_ok_def by (auto simp: accepted_def)
qed

lemma dequeue_held_ok:
  assumes "held_ok e" "ex_queue e = r # q" "accepted e = ex_queue e" "undecided (ex_pc e) = (case p of None \<Rightarrow> [] | Some x \<Rightarrow> [x])"
    and "w < length (ex_workers e)" "ex_pc e \<noteq> Exited"
  shows "held_ok (goto (Assign w r p) (dequeue e))"
  using assms unfolding held_ok_def known_def callPC_def accepted_def
  by (auto simp: goto_def dequeue_def split: option.splits)

lemma owned_call:
  assumes "owner_ok e" "held_ok e" "i \<in># waitingTasks e + runningTasks e"
  shows "\<forall>r \<in> set (undecided (ex_pc e)). er_call r \<noteq> i"
  using owned_not_undecided [OF assms(1)] undecidedD [OF assms(2)] assms(3) by blast

lemma cleanup_owned:
  assumes "owner_ok e" "held_ok e" "i \<in># waitingTasks e + runningTasks e"
  shows "held_ok (cleanup i e)"
  using cleanup_held_ok [of "ex_pc e" e i] assms(2) owned_call [OF assms] by (simp add: goto_def cleanup_def)

lemma exec_step_held_ok:
  assumes step: "exec_step e e'" and ok: "owner_ok e" "held_ok e" "queue_ok e"
  shows "held_ok e'"
  using step
proof (cases rule: exec_step.cases)
  case (ctx_ends i err)
  then show ?thesis using calls_held_ok [OF ok(2)] by (auto simp: nth_update_if split: option.split)
next
  case (deadline i)
  then show ?thesis using calls_held_ok [OF ok(2)] by (auto simp: nth_update_if)
next
  case (loop_assign w ws r q)
  have "held_ok (e\<lparr>ex_idle := ws\<rparr>)" "w < length (ex_workers e)"
    using ok(2) loop_assign unfolding held_ok_def by (auto simp: accepted_def known_def callPC_def)
  then show ?thesis using loop_assign
    by (auto simp: accepted_def intro!: dequeue_held_ok [of "e\<lparr>ex_idle := ws\<rparr>" r q None, simplified])
next
  case (loop_worker w)
  have "held_ok (e\<lparr>ex_idle := ex_idle e @ [w]\<rparr>)"
    using ok(2) loop_worker unfolding held_ok_def by (auto simp: accepted_def known_def callPC_def)
  then show ?thesis using loop_worker by (simp add: held_ok_worker)
next
  case (loop_request i)
  have sent: "held_ok (setCall i Awaiting e)" using send_held_ok [OF ok(2)] loop_request by simp
  have "i \<notin> set (ex_released e)" using ok(1) loop_request unfolding owner_ok_def by (auto simp: known_def callPC_def)
  moreover have "known (setCall i Awaiting e) i \<and> callPC (setCall i Awaiting e) i \<noteq> Returned None"
    using loop_request by (simp add: known_def)
  ultimately show ?thesis using sent loop_request unfolding held_ok_def known_def callPC_def accepted_def
    by (simp add: goto_def newRequest_def)
next
  case (full_worker r w old q)
  then show ?thesis using ok(2)
    by (auto simp: held_ok_worker accepted_def intro!: dequeue_held_ok [of "setWorker w Listening e" old q "Some r"])
       (auto simp: setWorker_def)
next
  case (admit r now)
  then show ?thesis using ok(2) unfolding held_ok_def known_def callPC_def accepted_def by (simp add: enqueueRequest_def)
next
  case (respond_send r err k)
  then show ?thesis using respond_send_held_ok [OF ok(2,3)] by simp
next
  case (respond_nil r err k)
  then show ?thesis using continue_held_ok [OF ok(2)] by simp
next
  case (respond_wait r err k)
  then show ?thesis using continue_held_ok [OF ok(2)] by simp
next
  case (assign_stop w r p)
  have "\<not> er_result r" using ok(2) assign_stop by (auto simp: held_ok_def)
  moreover have "\<forall>x \<in> set (undecided (ex_pc e)). er_call x \<noteq> er_call r"
    using owned_call [OF ok(1,2), of "er_call r"] assign_stop by (simp add: task_defs)
  ultimately show ?thesis using assign_stop ok(2) unfolding refuseRequest_def assign_stop(1)
    by (intro cleanup_held_ok goto_held_ok) (auto simp: accepted_def split: option.splits)
next
  case (assign_send w r p)
  then show ?thesis using ok(2)
    by (auto simp: accepted_def held_ok_worker intro!: goto_held_ok split: option.splits)
next
  case (reject_next r rest)
  have "\<not> er_result r" using ok(2) reject_next by (auto simp: held_ok_def)
  then show ?thesis using reject_next ok(2) unfolding refuseRequest_def
    by (auto simp: accepted_def intro!: cleanup_held_ok goto_held_ok)
next
  case (drain_request i)
  have sent: "held_ok (setCall i Awaiting e)" using send_held_ok [OF ok(2)] drain_request by simp
  moreover have "known (setCall i Awaiting e) i \<and> callPC (setCall i Awaiting e) i \<noteq> Returned None"
    using drain_request by (simp add: known_def)
  ultimately have "held_ok (goto (Respond (newRequest i e) (Some ErrExecutorShuttingDown) ToDrain) (setCall i Awaiting e))"
    using drain_request unfolding held_ok_def known_def callPC_def accepted_def by (simp add: goto_def newRequest_def)
  then show ?thesis using drain_request unfolding refuseRequest_def by (auto intro!: cleanup_held_ok)
next
  case drain_end
  then show ?thesis using ok(2) unfolding held_ok_def known_def callPC_def accepted_def by (simp add: goto_def)
next
  case (worker_skip w i)
  then have "i \<in># waitingTasks e" by (auto simp: task_defs in_set_conv_nth intro!: bexI [of _ "Got i"])
  then show ?thesis using worker_skip cleanup_owned [OF ok(1,2)] by (simp add: held_ok_worker)
next
  case (worker_finish w i)
  then have "i \<in># runningTasks e" by (auto simp: task_defs in_set_conv_nth intro!: bexI [of _ "Running i"])
  then show ?thesis using worker_finish cleanup_owned [OF ok(1,2)] by (simp add: held_ok_worker)
qed (use ok(2) return_held_ok [OF ok(2)] refuse_held_ok [OF ok(2)] shutdown_held_ok [OF ok(2)] in
      \<open>auto simp: accepted_def held_ok_worker intro!: goto_held_ok\<close>)

definition exec_ok :: "workspaceJobExecutor \<Rightarrow> bool" where
  "exec_ok e \<longleftrightarrow> queue_ok e \<and> owner_ok e \<and> held_ok e"

lemma exec_step_ok: "exec_step e e' \<Longrightarrow> exec_ok e \<Longrightarrow> exec_ok e'"
  using exec_step_queue_ok exec_step_owner_ok exec_step_held_ok by (auto simp: exec_ok_def)

lemma outside_step_ok:
  assumes "outside_step e e'" "exec_ok e"
  shows "exec_ok e'"
  using assms(1)
proof cases
  case (call task)
  let ?cs = "ex_calls e @ [\<lparr>ca_task = task, ca_pc = Sending, ca_ctxErr = None, ca_waitErr = None\<rparr>]"
  have old: "known (e\<lparr>ex_calls := ?cs\<rparr>) i = known e i" "known e i \<Longrightarrow> callPC (e\<lparr>ex_calls := ?cs\<rparr>) i = callPC e i" for i
    by (auto simp: known_def callPC_def nth_append)
  have "owner_ok e'" unfolding call
    by (rule owner_frame [where e = e and xs = "[]"])
       (use assms(2) in \<open>auto simp: exec_ok_def task_defs callPC_def nth_append split: if_splits\<close>)
  moreover have "held_ok e'"
    using assms(2) old unfolding call exec_ok_def held_ok_def by (auto simp: accepted_def) (auto simp: callPC_def nth_append split: if_splits)
  ultimately show ?thesis using assms(2) call by (simp add: exec_ok_def)
next
  case stop
  then show ?thesis using assms(2) by (simp add: exec_ok_def)
qed

lemma executor_run_ok: "executor_run concurrency e \<Longrightarrow> exec_ok e"
proof (induction rule: executor_run.induct)
  case start
  show ?case using start_queue_ok start_owner_ok by (simp add: exec_ok_def)
qed (use outside_step_ok exec_step_ok in blast)+

text \<open>
  C15 (executor_fair): in every reachable state of the executor the queue is within its capacity, the counters reported per tenant
  are the numbers of queued requests (on shutdown, of the requests still to be rejected), and no named tenant has more than
  half of the capacity in the queue, or one request when the capacity is one.
\<close>

theorem executor_fair:
  assumes "executor_run concurrency e"
  defines "queued \<equiv> ex_queue e @ rejecting (ex_pc e)"
  shows "int (length (ex_queue e)) \<le> ex_queueCapacity e
    \<and> (\<forall>t. t \<noteq> [] \<longrightarrow> depthOf (ex_queuedByTenant e) t = int (tenantCount t queued)
         \<and> depthOf (ex_queuedByTenant e) t \<le> max 1 (ex_queueCapacity e div 2))"
proof -
  have ok: "queue_ok e" using executor_run_ok [OF assms(1)] by (simp add: exec_ok_def)
  then have "depths_match (ex_queuedByTenant e) queued" by (simp add: queue_ok_def queued_def)
  from match_depthOf [OF this] show ?thesis using ok by (auto simp: queue_ok_def queued_def share_def)
qed

text \<open>
  C14 (executor_once): under every interleaving a task is run at most once, and only when its call of \<open>Enqueue\<close> has returned without an
  error; a task whose call has returned without an error is in exactly one place (queued, on its way to a worker or
  running) and not released yet, or it is released; none is lost.
\<close>

theorem executor_once:
  assumes "executor_run concurrency e"
  shows "distinct (ex_started e)
    \<and> (\<forall>i. i \<in> set (ex_started e) \<longrightarrow> i < length (ex_calls e) \<and> ca_pc (ex_calls e ! i) = Returned None)
    \<and> (\<forall>i. i < length (ex_calls e) \<longrightarrow> ca_pc (ex_calls e ! i) = Returned None \<longrightarrow>
         (count (waitingTasks e + runningTasks e) i = 1 \<longleftrightarrow> i \<notin> set (ex_released e)))
    \<and> (\<forall>i. i \<in># waitingTasks e \<longrightarrow> i \<notin> set (ex_started e))"
proof -
  have ok: "owner_ok e" using executor_run_ok [OF assms] by (simp add: exec_ok_def)
  have "count (waitingTasks e + runningTasks e) i = 1 \<longleftrightarrow> i \<notin> set (ex_released e)"
    if "i < length (ex_calls e)" "callPC e i = Returned None" for i
  proof -
    have "count (waitingTasks e + runningTasks e) i \<le> 1" using ok unfolding owner_ok_def by blast
    moreover have "i \<in># waitingTasks e + runningTasks e \<longleftrightarrow> i \<notin> set (ex_released e)" using ok that unfolding owner_ok_def by blast
    moreover have "count M i = 1 \<longleftrightarrow> i \<in># M" if "count M i \<le> 1" for M :: "nat multiset"
      using that by (metis One_nat_def count_eq_zero_iff le_SucE le_zero_eq zero_neq_one)
    ultimately show ?thesis by blast
  qed
  then show ?thesis using ok by (auto simp: owner_ok_def known_def callPC_def)
qed

section \<open>Shutdown\<close>

text \<open>What is left to do once the context of the executor has ended.\<close>

fun afterLeft :: "afterRespond \<Rightarrow> nat \<Rightarrow> nat" where
  "afterLeft ToLoop q = 4 * q + 6"
| "afterLeft ToAdmitted q = 4 * q + 6"
| "afterLeft ToShutdown q = 2 * q + 3"
| "afterLeft (ToRefuse _) q = 2 * q + 4"
| "afterLeft (ToReject rs) q = 2 * length rs + 3"
| "afterLeft ToDrain q = 2"

fun pcLeft :: "dispatchPC \<Rightarrow> nat \<Rightarrow> nat" where
  "pcLeft Loop q = 4 * q + 5"
| "pcLeft (Received _) q = 4 * q + 8"
| "pcLeft (Full _) q = 4 * q + 9"
| "pcLeft (Admit _) q = 4 * q + 8"
| "pcLeft (Respond _ _ k) q = afterLeft k q"
| "pcLeft (Assign _ _ None) q = 4 * q + 8"
| "pcLeft (Assign _ _ (Some _)) q = 4 * q + 11"
| "pcLeft (Reject rs) q = 2 * length rs + 2"
| "pcLeft Drain q = 1"
| "pcLeft Exited q = 0"

fun workerLeft :: "workerPC \<Rightarrow> nat" where
  "workerLeft Offering = 3"
| "workerLeft Listening = 2"
| "workerLeft Stopped = 0"
| "workerLeft _ = 1"

definition callLeft :: "enqueueCall \<Rightarrow> nat" where
  "callLeft c = (case ca_pc c of Sending \<Rightarrow> 6 | Awaiting \<Rightarrow> 1 | Returned _ \<Rightarrow> 0)
     + (if ca_ctxErr c = None then 1 else 0) + (if ca_waitErr c = None then 1 else 0)"

definition workLeft :: "workspaceJobExecutor \<Rightarrow> nat" where
  "workLeft e = pcLeft (ex_pc e) (length (ex_queue e)) + sum_list (map workerLeft (ex_workers e)) + sum_list (map callLeft (ex_calls e))"

definition stopping_step :: "workspaceJobExecutor \<Rightarrow> workspaceJobExecutor \<Rightarrow> bool" where
  "stopping_step e e' \<longleftrightarrow> exec_ok e \<and> ex_ctxDone e \<and> exec_step e e'"

lemma sum_update:
  fixes f :: "'a \<Rightarrow> nat"
  assumes "i < length xs"
  shows "sum_list (map f (xs[i := x])) + f (xs ! i) = sum_list (map f xs) + f x"
proof -
  have "f (xs ! i) \<le> sum_list (map f xs)" using assms by (simp add: member_le_sum_list)
  then show ?thesis using assms by (simp add: map_update sum_list_update)
qed

lemma return_left:
  assumes "i < length (ex_calls e)"
  shows "sum_list (map callLeft (ex_calls (returnCall i err e))) \<le> sum_list (map callLeft (ex_calls e))"
    "ca_pc (ex_calls e ! i) \<in> {Sending, Awaiting} \<Longrightarrow>
     sum_list (map callLeft (ex_calls (returnCall i err e))) < sum_list (map callLeft (ex_calls e))"
  using sum_update [OF assms, of callLeft "(ex_calls e ! i)\<lparr>ca_pc := Returned err,
         ca_waitErr := (case ca_waitErr (ex_calls e ! i) of None \<Rightarrow> Some Canceled | Some w \<Rightarrow> Some w)\<rparr>"]
  by (auto simp: returnCall_def Let_def callLeft_def split: callerPC.splits option.splits)

lemma send_left:
  assumes "i < length (ex_calls e)" "ca_pc (ex_calls e ! i) = Sending"
  shows "sum_list (map callLeft (ex_calls (setCall i Awaiting e))) + 5 = sum_list (map callLeft (ex_calls e))"
  using sum_update [OF assms(1), of callLeft "(ex_calls e ! i)\<lparr>ca_pc := Awaiting\<rparr>"] assms(2)
  by (simp add: setCall_def callLeft_def)

lemma continue_left:
  assumes "queue_ok e" "ex_pc e = Respond r err k"
  shows "workLeft (continue b r k e) < workLeft e"
proof (cases k)
  case ToAdmitted
  then have "ex_queue e \<noteq> []" using assms by (auto simp: queue_ok_def)
  then show ?thesis using assms ToAdmitted by (cases "ex_queue e") (auto simp: workLeft_def goto_def cleanup_def)
qed (use assms in \<open>auto simp: workLeft_def executor_defs\<close>)

lemma worker_left:
  assumes "w < length (ex_workers e)" "workerLeft x < workerLeft (ex_workers e ! w)"
  shows "sum_list (map workerLeft ((ex_workers e)[w := x])) < sum_list (map workerLeft (ex_workers e))"
  using sum_update [OF assms(1), of workerLeft x] assms(2) by simp

lemma stopping_left:
  assumes "stopping_step e e'"
  shows "workLeft e' < workLeft e"
proof -
  have ok: "queue_ok e" "held_ok e" and ended: "ex_ctxDone e" and step: "exec_step e e'"
    using assms by (simp_all add: stopping_step_def exec_ok_def)
  from step show ?thesis
  proof (cases rule: exec_step.cases)
    case (ctx_ends i err)
    then show ?thesis using sum_update [of i "ex_calls e" callLeft "(ex_calls e ! i)\<lparr>ca_ctxErr := Some err,
         ca_waitErr := (case ca_waitErr (ex_calls e ! i) of None \<Rightarrow> Some err | Some w \<Rightarrow> Some w)\<rparr>"]
      by (auto simp: workLeft_def callLeft_def split: option.splits)
  next
    case (deadline i)
    then show ?thesis using sum_update [of i "ex_calls e" callLeft "(ex_calls e ! i)\<lparr>ca_waitErr := Some DeadlineExceeded\<rparr>"]
      by (auto simp: workLeft_def callLeft_def)
  next
    case (loop_worker w)
    then show ?thesis using worker_left [of w e Listening] by (simp add: workLeft_def setWorker_def)
  next
    case (loop_request i)
    then show ?thesis using send_left [of i e] by (simp add: workLeft_def goto_def)
  next
    case (full_worker r w old q)
    then show ?thesis using worker_left [of w e Listening] by (simp add: workLeft_def setWorker_def goto_def dequeue_def)
  next
    case (respond_nil r err k)
    then show ?thesis using continue_left [OF ok(1)] by simp
  next
    case (respond_wait r err k)
    then show ?thesis using continue_left [OF ok(1)] by simp
  next
    case (respond_send r err k)
    then have "er_call r < length (ex_calls e)" using ok(2) by (auto simp: held_ok_def known_def)
    from return_left(1) [OF this, of err] have "workLeft (returnCall (er_call r) err e) \<le> workLeft e" by (simp add: workLeft_def)
    moreover have "workLeft e' < workLeft (returnCall (er_call r) err e)" using respond_send continue_left ok(1) by simp
    ultimately show ?thesis by simp
  next
    case (assign_stop w r p)
    then show ?thesis by (cases p) (simp_all add: workLeft_def refuseRequest_def goto_def cleanup_def)
  next
    case (assign_send w r p)
    then have "w < length (ex_workers e)" using ok(2) by (auto simp: held_ok_def)
    then show ?thesis using assign_send worker_left [of w e "Got (er_call r)"]
      by (cases p) (simp_all add: workLeft_def goto_def setWorker_def)
  next
    case (drain_request i)
    then show ?thesis using send_left [of i e] by (simp add: workLeft_def refuseRequest_def goto_def cleanup_def)
  next
    case (worker_stop w)
    then show ?thesis using worker_left [of w e Stopped] by (auto simp: workLeft_def setWorker_def)
  next
    case (worker_skip w i)
    then show ?thesis using worker_left [of w e Stopped] by (simp add: workLeft_def setWorker_def cleanup_def)
  next
    case (worker_finish w i)
    then show ?thesis using worker_left [of w e Stopped] ended by (simp add: workLeft_def setWorker_def cleanup_def)
  qed (use ended return_left(2) in \<open>auto simp: workLeft_def goto_def refuseRequest_def cleanup_def dequeue_def shutdown_def\<close>)
qed

interpretation stopping: terminating_steps stopping_step workLeft
  by unfold_locales (rule stopping_left)

text \<open>As long as anything is running, something can move on.\<close>

lemma stopping_progress:
  assumes ok: "exec_ok e" and ended: "ex_ctxDone e" and stuck: "\<nexists>e'. exec_step e e'"
  shows "ex_pc e = Exited \<and> (\<forall>w < length (ex_workers e). ex_workers e ! w = Stopped)
    \<and> (\<forall>i < length (ex_calls e). \<exists>err. ca_pc (ex_calls e ! i) = Returned err)"
proof -
  have held: "held_ok e" using ok by (simp add: exec_ok_def)
  have exited: "ex_pc e = Exited"
  proof (cases "ex_pc e")
    case Loop
    then show ?thesis using stuck ended exec_step.loop_stop exec_step.loop_assign by (metis neq_Nil_conv)
  next
    case (Received r)
    then show ?thesis using stuck ended exec_step.received_stop by blast
  next
    case (Full r)
    then show ?thesis using stuck ended exec_step.full_stop exec_step.full_room by (meson not_less)
  next
    case (Admit r)
    then show ?thesis using stuck ended exec_step.admit_stop exec_step.admit_wait by (metis option.exhaust)
  next
    case (Respond r err k)
    show ?thesis
    proof (cases "er_result r")
      case True
      then have "er_call r < length (ex_calls e)" "callPC e (er_call r) \<noteq> Sending"
        using held Respond by (auto simp: held_ok_def known_def)
      then have "ca_pc (ex_calls e ! er_call r) = Awaiting \<or> ca_waitErr (ex_calls e ! er_call r) \<noteq> None"
        using held unfolding held_ok_def callPC_def by (metis callerPC.exhaust)
      then show ?thesis using stuck Respond True exec_step.respond_send exec_step.respond_wait by blast
    qed (use stuck Respond exec_step.respond_nil in blast)
  next
    case (Assign w r p)
    then show ?thesis using stuck ended exec_step.assign_stop by blast
  next
    case (Reject rs)
    then show ?thesis using stuck exec_step.reject_next exec_step.reject_end by (cases rs) blast+
  next
    case Drain
    then show ?thesis using stuck exec_step.drain_end by blast
  qed simp
  moreover have "ex_workers e ! w = Stopped" if "w < length (ex_workers e)" for w
    using stuck ended that exec_step.worker_stop exec_step.worker_skip exec_step.worker_finish
    by (cases "ex_workers e ! w") blast+
  moreover have "\<exists>err. ca_pc (ex_calls e ! i) = Returned err" if "i < length (ex_calls e)" for i
  proof -
    have "ex_done e" using held exited by (simp add: held_ok_def)
    then show ?thesis using stuck that exec_step.caller_done by (cases "ca_pc (ex_calls e ! i)") blast+
  qed
  ultimately show ?thesis by blast
qed

lemma continue_ctxDone: "ex_ctxDone (continue b r k e) = ex_ctxDone e"
  by (cases k) (simp_all add: executor_defs)

lemma exec_step_ctxDone: "exec_step e e' \<Longrightarrow> ex_ctxDone e' = ex_ctxDone e"
  by (erule exec_step.cases) (simp_all add: continue_ctxDone executor_defs)

lemma stopping_steps:
  assumes "exec_ok e" "ex_ctxDone e" "(exec_step ^^ n) e e'"
  shows "(stopping_step ^^ n) e e' \<and> exec_ok e' \<and> ex_ctxDone e'"
  using assms(3)
proof (induction n arbitrary: e')
  case (Suc n)
  then obtain u where "(exec_step ^^ n) e u" "exec_step u e'" by auto
  then show ?case using Suc.IH [of u] exec_step_ok exec_step_ctxDone by (auto simp: stopping_step_def)
qed (use assms(1,2) in simp)

lemma stopped_released:
  assumes "exec_ok e" "ex_pc e = Exited" "\<forall>w < length (ex_workers e). ex_workers e ! w = Stopped"
    and "i < length (ex_calls e)" "ca_pc (ex_calls e ! i) = Returned None"
  shows "i \<in> set (ex_released e)"
proof -
  have "concat (map f (ex_workers e)) = []" if "f Stopped = []" for f :: "workerPC \<Rightarrow> nat list"
    using assms(3) that by (auto simp: in_set_conv_nth)
  moreover have "ex_queue e = []" using assms(1,2) by (simp add: exec_ok_def queue_ok_def)
  ultimately have "waitingTasks e + runningTasks e = {#}" using assms(2) by (simp add: task_defs)
  then show ?thesis using assms(1,4,5) unfolding exec_ok_def owner_ok_def callPC_def by auto
qed

text \<open>
  C16 (executor_shuts_down): once the context of the executor has ended and no further call is made, every interleaving of
  dispatcher, workers and callers ends, within a number of steps that is known beforehand. At the end the dispatcher has exited,
  every worker has stopped, every call has returned, and every task whose call returned without an error has been released.
\<close>

theorem executor_shuts_down:
  assumes "executor_run concurrency e" "ex_ctxDone e"
  shows "(\<forall>n e'. (exec_step ^^ n) e e' \<longrightarrow> n \<le> workLeft e)
    \<and> (\<exists>e'. exec_step\<^sup>*\<^sup>* e e' \<and> (\<nexists>e''. exec_step e' e''))
    \<and> (\<forall>e'. exec_step\<^sup>*\<^sup>* e e' \<and> (\<nexists>e''. exec_step e' e'') \<longrightarrow>
         ex_pc e' = Exited \<and> ex_done e' \<and> (\<forall>w < length (ex_workers e'). ex_workers e' ! w = Stopped)
         \<and> (\<forall>i < length (ex_calls e'). (\<exists>err. ca_pc (ex_calls e' ! i) = Returned err)
              \<and> (ca_pc (ex_calls e' ! i) = Returned None \<longrightarrow> i \<in> set (ex_released e'))))"
proof (intro conjI allI impI)
  note ok = executor_run_ok [OF assms(1)]
  show "n \<le> workLeft e" if "(exec_step ^^ n) e e'" for n e'
    using stopping.steps_bound stopping_steps [OF ok assms(2) that] by (metis add_leD1)
  have run: "exec_ok e' \<and> ex_ctxDone e'" if "exec_step\<^sup>*\<^sup>* e e'" for e'
    using that stopping_steps [OF ok assms(2)] by (auto dest!: rtranclp_imp_relpowp)
  obtain t where t: "stopping_step\<^sup>*\<^sup>* e t" "\<nexists>u. stopping_step t u" using stopping.reaches_end by blast
  then have "exec_step\<^sup>*\<^sup>* e t" by (metis mono_rtranclp stopping_step_def)
  then show "\<exists>e'. exec_step\<^sup>*\<^sup>* e e' \<and> (\<nexists>e''. exec_step e' e'')" using t(2) run unfolding stopping_step_def by blast
  fix e' assume end': "exec_step\<^sup>*\<^sup>* e e' \<and> (\<nexists>e''. exec_step e' e'')"
  then have ok': "exec_ok e'" "ex_ctxDone e'" using run by blast+
  note final = stopping_progress [OF ok'] end'
  show "ex_pc e' = Exited" "ex_done e'" using final ok'(1) by (auto simp: exec_ok_def held_ok_def)
  show "ex_workers e' ! w = Stopped" if "w < length (ex_workers e')" for w using final that by blast
  show "\<exists>err. ca_pc (ex_calls e' ! i) = Returned err" if "i < length (ex_calls e')" for i using final that by blast
  show "i \<in> set (ex_released e')" if "i < length (ex_calls e')" "ca_pc (ex_calls e' ! i) = Returned None" for i
    using stopped_released [OF ok'(1)] final that by blast
qed

end
