(* ===== verification/JobExecutorExamples.thy ===== *)
theory JobExecutorExamples
  imports JobExecutorCorrect
begin

text \<open>A run of the executor with one worker and two jobs of a tenant: the first one runs, the second one waits in the queue.\<close>

definition demoTask :: "string \<Rightarrow> workspaceJobTask" where
  "demoTask job = \<lparr>tk_tenantID = ''acme'', tk_workspaceID = ''w1'', tk_jobID = job\<rparr>"

definition newCall :: "string \<Rightarrow> workspaceJobExecutor \<Rightarrow> workspaceJobExecutor" where
  "newCall job e = e\<lparr>ex_calls := ex_calls e @ [\<lparr>ca_task = demoTask job, ca_pc = Sending, ca_ctxErr = None, ca_waitErr = None\<rparr>]\<rparr>"

text \<open>The steps from a call that is sending to its admission.\<close>

definition admitted :: "nat \<Rightarrow> workspaceJobExecutor \<Rightarrow> workspaceJobExecutor" where
  "admitted i e =
     (let r = newRequest i e; e1 = goto (Received r) (setCall i Awaiting e); e2 = goto (Full r) e1; e3 = goto (Admit r) e2;
          e4 = enqueueRequest 7 r e3
      in continue True r ToAdmitted (returnCall i None e4))"

lemma admitted_run:
  assumes run: "executor_run c e" and pc: "ex_pc e = Loop" "ex_idle e = [] \<or> ex_queue e = []" "\<not> ex_ctxDone e"
    and call: "i < length (ex_calls e)" "ca_pc (ex_calls e ! i) = Sending" "ca_waitErr (ex_calls e ! i) = None"
    and room: "\<not> tenantQueueLimitExceeded (tk_tenantID (ca_task (ex_calls e ! i))) e" "int (length (ex_queue e)) < ex_queueCapacity e"
  shows "executor_run c (admitted i e)"
proof -
  let ?r = "newRequest i e"
  have 1: "executor_run c (goto (Received ?r) (setCall i Awaiting e))"
    by (rule executor_run.inside [OF run exec_step.loop_request [OF pc(1,2) call(1,2)]])
  have 2: "executor_run c (goto (Full ?r) (goto (Received ?r) (setCall i Awaiting e)))"
    by (rule executor_run.inside [OF 1 exec_step.received_ok])
       (use pc room(1) in \<open>auto simp: goto_def setCall_def newRequest_def tenantQueueLimitExceeded_def Let_def\<close>)
  have 3: "executor_run c (goto (Admit ?r) (goto (Full ?r) (goto (Received ?r) (setCall i Awaiting e))))"
    by (rule executor_run.inside [OF 2 exec_step.full_room]) (use room(2) in \<open>simp_all add: goto_def setCall_def\<close>)
  have 4: "executor_run c (enqueueRequest 7 ?r (goto (Admit ?r) (goto (Full ?r) (goto (Received ?r) (setCall i Awaiting e)))))"
    by (rule executor_run.inside [OF 3 exec_step.admit]) (use pc(3) call in \<open>simp_all add: goto_def setCall_def newRequest_def\<close>)
  have "executor_run c (continue True ?r ToAdmitted (returnCall (er_call ?r) None
      (enqueueRequest 7 ?r (goto (Admit ?r) (goto (Full ?r) (goto (Received ?r) (setCall i Awaiting e)))))))"
    by (rule executor_run.inside [OF 4 exec_step.respond_send])
       (use call in \<open>simp_all add: enqueueRequest_def goto_def setCall_def newRequest_def\<close>)
  then show ?thesis by (simp add: admitted_def Let_def newRequest_def)
qed

definition demoIdle :: workspaceJobExecutor where
  "demoIdle = (let e = newCall ''j1'' (newWorkspaceJobExecutorWithTimeout 1) in setWorker 0 Listening (e\<lparr>ex_idle := ex_idle e @ [0]\<rparr>))"

definition demoQueued :: workspaceJobExecutor where
  "demoQueued = admitted 0 demoIdle"

definition demoAssigned :: workspaceJobExecutor where
  "demoAssigned = goto (Assign 0 (hd (ex_queue demoQueued)) None) (dequeue (demoQueued\<lparr>ex_idle := []\<rparr>))"

definition demoTaken :: workspaceJobExecutor where
  "demoTaken = goto Loop (setWorker 0 (Got 0) demoAssigned)"

definition demoBusy :: workspaceJobExecutor where
  "demoBusy = newCall ''j2'' (setWorker 0 (Running 0) (demoTaken\<lparr>ex_started := ex_started demoTaken @ [0]\<rparr>))"

definition demoPair :: workspaceJobExecutor where
  "demoPair = admitted 1 demoBusy"

lemma demoQueued_run: "executor_run 1 demoQueued"
proof -
  have "executor_run 1 (newCall ''j1'' (newWorkspaceJobExecutorWithTimeout 1))"
    unfolding newCall_def by (rule executor_run.outside [OF executor_run.start outside_step.call])
  then have "executor_run 1 demoIdle"
    unfolding demoIdle_def Let_def by (rule executor_run.inside, intro exec_step.loop_worker) (code_simp+)
  then show ?thesis unfolding demoQueued_def by (rule admitted_run) (code_simp+)
qed

lemma demoPair_run: "executor_run 1 demoPair"
proof -
  have queue: "ex_pc demoQueued = Loop" "ex_idle demoQueued = [0]" "ex_queue demoQueued = [hd (ex_queue demoQueued)]" by code_simp+
  have "executor_run 1 demoAssigned"
    using executor_run.inside [OF demoQueued_run exec_step.loop_assign [OF queue]] by (simp add: demoAssigned_def)
  moreover have "ex_pc demoAssigned = Assign 0 (hd (ex_queue demoQueued)) None" "ex_workers demoAssigned ! 0 = Listening"
      "er_call (hd (ex_queue demoQueued)) = 0"
    by code_simp+
  ultimately have "executor_run 1 demoTaken"
    using executor_run.inside [OF _ exec_step.assign_send [of demoAssigned]] by (fastforce simp: demoTaken_def)
  then have "executor_run 1 (setWorker 0 (Running 0) (demoTaken\<lparr>ex_started := ex_started demoTaken @ [0]\<rparr>))"
    by (rule executor_run.inside, intro exec_step.worker_run) (code_simp+)
  then have "executor_run 1 demoBusy" unfolding demoBusy_def newCall_def by (rule executor_run.outside [OF _ outside_step.call])
  then show ?thesis unfolding demoPair_def by (rule admitted_run) (code_simp+)
qed

theorem executor_fair_witness:
  "depthOf (ex_queuedByTenant demoPair) ''acme'' = 1 \<and> tenantCount ''acme'' (ex_queue demoPair @ rejecting (ex_pc demoPair)) = 1"
proof -
  have "depthOf (ex_queuedByTenant demoPair) ''acme'' = 1" by code_simp
  with executor_fair [OF demoPair_run] show ?thesis by auto
qed

theorem executor_once_witness:
  "ex_started demoPair = [0] \<and> ca_pc (ex_calls demoPair ! 0) = Returned None \<and> count (waitingTasks demoPair + runningTasks demoPair) 1 = 1"
proof -
  have "ex_started demoPair = [0]" "length (ex_calls demoPair) = 2" "ca_pc (ex_calls demoPair ! 1) = Returned None" "ex_released demoPair = []"
    by code_simp+
  with executor_once [OF demoPair_run] show ?thesis by auto
qed

theorem executor_shuts_down_witness:
  "\<exists>e'. exec_step\<^sup>*\<^sup>* (demoPair\<lparr>ex_ctxDone := True\<rparr>) e' \<and> ex_pc e' = Exited"
proof -
  have "executor_run 1 (demoPair\<lparr>ex_ctxDone := True\<rparr>)" by (rule executor_run.outside [OF demoPair_run outside_step.stop])
  from executor_shuts_down [OF this] show ?thesis by auto
qed

end
