(* ===== verification/WorkspacePlan.thy ===== *)
theory WorkspacePlan
  imports Orchestrator LifecycleDrift TenantAuth
begin

text \<open>
  Assessment workspaces of the API: \<open>internal/api/workspace_validation.go\<close> and the functions of \<open>internal/api/workspaces.go\<close>
  that turn a workspace into a migration specification, a readiness verdict and approvals. The clock and the identifier
  generator are arguments; \<open>regexp\<close> and \<open>filepath.Match\<close> are the parameters of the matcher.
\<close>

section \<open>Constants of the model\<close>

definition PilotWorkspaceStatusDiscovered :: PilotWorkspaceStatus where
  "PilotWorkspaceStatusDiscovered = ''discovered''"
definition PilotWorkspaceStatusGraphReady :: PilotWorkspaceStatus where
  "PilotWorkspaceStatusGraphReady = ''graph-ready''"
definition PilotWorkspaceStatusSimulated :: PilotWorkspaceStatus where
  "PilotWorkspaceStatusSimulated = ''simulated''"
definition PilotWorkspaceStatusPlanned :: PilotWorkspaceStatus where
  "PilotWorkspaceStatusPlanned = ''planned''"
definition PilotWorkspaceStatusReported :: PilotWorkspaceStatus where
  "PilotWorkspaceStatusReported = ''reported''"
definition WorkspaceJobTypeDiscovery :: WorkspaceJobType where
  "WorkspaceJobTypeDiscovery = ''discovery''"
definition WorkspaceJobTypeGraph :: WorkspaceJobType where
  "WorkspaceJobTypeGraph = ''graph''"
definition WorkspaceJobTypeSimulation :: WorkspaceJobType where
  "WorkspaceJobTypeSimulation = ''simulation''"
definition WorkspaceJobTypePlan :: WorkspaceJobType where
  "WorkspaceJobTypePlan = ''plan''"
definition WorkspaceReadinessStatusReady :: WorkspaceReadinessStatus where
  "WorkspaceReadinessStatusReady = ''ready''"
definition WorkspaceReadinessStatusAttention :: WorkspaceReadinessStatus where
  "WorkspaceReadinessStatusAttention = ''attention''"
definition WorkspaceReadinessStatusBlocked :: WorkspaceReadinessStatus where
  "WorkspaceReadinessStatusBlocked = ''blocked''"
definition WorkspaceApprovalStatusApproved :: WorkspaceApprovalStatus where
  "WorkspaceApprovalStatusApproved = ''approved''"
definition WorkspaceApprovalStatusRejected :: WorkspaceApprovalStatus where
  "WorkspaceApprovalStatusRejected = ''rejected''"
definition WorkspaceNoteKindSystem :: WorkspaceNoteKind where
  "WorkspaceNoteKindSystem = ''system''"

lemmas job_types = WorkspaceJobTypeDiscovery_def WorkspaceJobTypeGraph_def WorkspaceJobTypeSimulation_def WorkspaceJobTypePlan_def

lemmas readiness_statuses = WorkspaceReadinessStatusReady_def WorkspaceReadinessStatusAttention_def WorkspaceReadinessStatusBlocked_def

lemmas workspace_statuses = PilotWorkspaceStatusDraft_def PilotWorkspaceStatusDiscovered_def PilotWorkspaceStatusGraphReady_def
  PilotWorkspaceStatusSimulated_def PilotWorkspaceStatusPlanned_def PilotWorkspaceStatusReported_def

section \<open>Validation of requests\<close>

record apiFieldError =
  fe_Path :: string
  fe_Message :: string

record requestValidationError =
  rv_message :: string
  rv_fieldErrors :: "apiFieldError list"

record workspaceJobCreateRequest =
  jr_Type :: WorkspaceJobType
  jr_RequestedBy :: string
  jr_SourceConnectionIDs :: "string list"
  jr_SelectedWorkloadIDs :: "string list"
  jr_Simulation :: "SimulationRequest option"

record workspaceReportExportRequest =
  xr_Name :: string
  xr_Format :: string

definition fieldError :: "bool \<Rightarrow> string \<Rightarrow> string \<Rightarrow> apiFieldError list" where
  "fieldError bad path message = (if bad then [\<lparr>fe_Path = path, fe_Message = message\<rparr>] else [])"

definition indexed :: "string \<Rightarrow> nat \<Rightarrow> string" where
  "indexed field index = field @ ''['' @ itoa index @ '']''"

definition validationFailure :: "string \<Rightarrow> apiFieldError list \<Rightarrow> requestValidationError option" where
  "validationFailure message fieldErrors =
     (if length fieldErrors > 0 then Some \<lparr>rv_message = message, rv_fieldErrors = fieldErrors\<rparr> else None)"

fun validateSources :: "nat \<Rightarrow> string list \<Rightarrow> WorkspaceSourceConnection list \<Rightarrow> apiFieldError list" where
  "validateSources index sourceIDs [] = []"
| "validateSources index sourceIDs (source # sources) =
     (let pathPrefix = indexed ''source_connections'' index; sourceID = TrimSpace (wsc_ID source) in
      fieldError (TrimSpace (wsc_Name source) = []) (pathPrefix @ ''.name'') ''source connection name is required''
      @ fieldError (\<not> Platform_Valid (wsc_Platform source)) (pathPrefix @ ''.platform'')
          ''source connection platform must be one of vmware, proxmox, hyperv, kvm, or nutanix''
      @ fieldError (TrimSpace (wsc_Address source) = []) (pathPrefix @ ''.address'') ''source connection address is required''
      @ fieldError (sourceID \<noteq> [] \<and> sourceID \<in> set sourceIDs) (pathPrefix @ ''.id'')
          ''source connection IDs must be unique within a workspace''
      @ validateSources (Suc index) (if sourceID \<noteq> [] then sourceID # sourceIDs else sourceIDs) sources)"

fun validateSelectedIDs :: "nat \<Rightarrow> string list \<Rightarrow> string list \<Rightarrow> apiFieldError list" where
  "validateSelectedIDs index selected [] = []"
| "validateSelectedIDs index selected (workloadID # workloadIDs) =
     (let path = indexed ''selected_workload_ids'' index; trimmed = TrimSpace workloadID in
      if trimmed = [] then fieldError True path ''selected workload identifiers cannot be blank''
        @ validateSelectedIDs (Suc index) selected workloadIDs
      else if trimmed \<in> set selected then fieldError True path ''selected workload identifiers must be unique''
        @ validateSelectedIDs (Suc index) selected workloadIDs
      else validateSelectedIDs (Suc index) (trimmed # selected) workloadIDs)"

fun validateApprovals :: "nat \<Rightarrow> WorkspaceApproval list \<Rightarrow> apiFieldError list" where
  "validateApprovals index [] = []"
| "validateApprovals index (approval # approvals) =
     (let pathPrefix = indexed ''approvals'' index in
      fieldError (TrimSpace (wa_Stage approval) = []) (pathPrefix @ ''.stage'') ''approval stage is required''
      @ fieldError (wa_Status approval \<notin> {[], WorkspaceApprovalStatusPending, WorkspaceApprovalStatusApproved,
                      WorkspaceApprovalStatusRejected}) (pathPrefix @ ''.status'')
          ''approval status must be pending, approved, or rejected''
      @ validateApprovals (Suc index) approvals)"

fun validateNotes :: "nat \<Rightarrow> WorkspaceNote list \<Rightarrow> apiFieldError list" where
  "validateNotes index [] = []"
| "validateNotes index (note # notes) =
     (let pathPrefix = indexed ''notes'' index in
      fieldError (wn_Kind note \<notin> {[], WorkspaceNoteKindOperator, WorkspaceNoteKindSystem}) (pathPrefix @ ''.kind'')
        ''note kind must be operator or system''
      @ fieldError (TrimSpace (wn_Author note) = []) (pathPrefix @ ''.author'') ''note author is required''
      @ fieldError (TrimSpace (wn_Body note) = []) (pathPrefix @ ''.body'') ''note body is required''
      @ validateNotes (Suc index) notes)"

definition validateWorkspace :: "PilotWorkspace \<Rightarrow> requestValidationError option" where
  "validateWorkspace workspace =
     (let settings = wk_PlanSettings workspace; platform = wta_Platform (wk_TargetAssumptions workspace) in
      validationFailure ''workspace request contains invalid fields''
       (fieldError (TrimSpace (wk_Name workspace) = []) ''name'' ''workspace name is required''
        @ validateSources 0 [] (wk_SourceConnections workspace)
        @ fieldError (platform \<noteq> [] \<and> \<not> Platform_Valid platform) ''target_assumptions.platform''
            ''target platform must be one of vmware, proxmox, hyperv, kvm, or nutanix''
        @ fieldError (wps_Parallel settings < 0) ''plan_settings.parallel'' ''plan parallelism cannot be negative''
        @ fieldError (wps_WaveSize settings < 0) ''plan_settings.wave_size'' ''plan wave size cannot be negative''
        @ fieldError (\<not> isZero (wps_WindowStart settings) \<and> \<not> isZero (wps_WindowEnd settings)
                      \<and> wps_WindowEnd settings < wps_WindowStart settings) ''plan_settings.window_end''
            ''plan window end must be after the window start''
        @ validateSelectedIDs 0 [] (wk_SelectedWorkloadIDs workspace)
        @ validateApprovals 0 (wk_Approvals workspace)
        @ validateNotes 0 (wk_Notes workspace)))"

fun validateSourceIDs :: "nat \<Rightarrow> string list \<Rightarrow> string list \<Rightarrow> apiFieldError list" where
  "validateSourceIDs index known [] = []"
| "validateSourceIDs index known (sourceID # sourceIDs) =
     (let path = indexed ''source_connection_ids'' index; trimmed = TrimSpace sourceID in
      (if trimmed = [] then fieldError True path ''source connection identifiers cannot be blank''
       else fieldError (trimmed \<notin> set known) path ''source connection must belong to the workspace'')
      @ validateSourceIDs (Suc index) known sourceIDs)"

definition knownSourceConnections :: "PilotWorkspace \<Rightarrow> string list" where
  "knownSourceConnections workspace =
     filter (\<lambda>sourceID. sourceID \<noteq> []) (map (\<lambda>source. TrimSpace (wsc_ID source)) (wk_SourceConnections workspace))"

definition validateJobType :: "PilotWorkspace \<Rightarrow> workspaceJobCreateRequest \<Rightarrow> apiFieldError list" where
  "validateJobType workspace request =
     (let target = wk_TargetAssumptions workspace; noSnapshots = (length (wk_Snapshots workspace) = 0) in
      if jr_Type request = WorkspaceJobTypeDiscovery then
        fieldError (length (wk_SourceConnections workspace) = 0) ''source_connection_ids''
          ''workspace discovery requires at least one source connection''
      else if jr_Type request = WorkspaceJobTypeGraph then
        fieldError noSnapshots ''type'' ''graph generation requires at least one saved discovery snapshot''
      else if jr_Type request = WorkspaceJobTypeSimulation then
        fieldError noSnapshots ''type'' ''simulation requires at least one saved discovery snapshot''
        @ fieldError (wta_Platform target = []
            \<and> (case jr_Simulation request of None \<Rightarrow> True | Some simulation \<Rightarrow> sq_TargetPlatform simulation = []))
            ''simulation.target_platform'' ''simulation requires a target platform in the workspace or job request''
      else if jr_Type request = WorkspaceJobTypePlan then
        fieldError noSnapshots ''type'' ''plan generation requires at least one saved discovery snapshot''
        @ fieldError (\<not> Platform_Valid (wta_Platform target)) ''target_assumptions.platform''
            ''plan generation requires a valid target platform on the workspace''
        @ fieldError (TrimSpace (wta_Address target) = []) ''target_assumptions.address''
            ''plan generation requires a target address on the workspace''
      else [])"

definition validateWorkspaceJobRequest :: "PilotWorkspace \<Rightarrow> workspaceJobCreateRequest \<Rightarrow> requestValidationError option" where
  "validateWorkspaceJobRequest workspace request =
     validationFailure ''workspace job request contains invalid fields''
       ((if jr_Type request \<in> {WorkspaceJobTypeDiscovery, WorkspaceJobTypeGraph, WorkspaceJobTypeSimulation, WorkspaceJobTypePlan}
         then []
         else if jr_Type request = [] then fieldError True ''type'' ''workspace job type is required''
         else fieldError True ''type'' ''workspace job type must be discovery, graph, simulation, or plan'')
        @ (if length (jr_SourceConnectionIDs request) > 0
           then validateSourceIDs 0 (knownSourceConnections workspace) (jr_SourceConnectionIDs request) else [])
        @ validateSelectedIDs 0 [] (jr_SelectedWorkloadIDs request)
        @ (case jr_Simulation request of
             None \<Rightarrow> []
           | Some simulation \<Rightarrow>
               fieldError (sq_TargetPlatform simulation \<noteq> [] \<and> \<not> Platform_Valid (sq_TargetPlatform simulation))
                 ''simulation.target_platform''
                 ''simulation target platform must be one of vmware, proxmox, hyperv, kvm, or nutanix'')
        @ validateJobType workspace request)"

definition validateWorkspaceReportExportRequest :: "workspaceReportExportRequest \<Rightarrow> requestValidationError option" where
  "validateWorkspaceReportExportRequest request =
     (let format = ToLower (TrimSpace (xr_Format request)) in
      validationFailure ''workspace report export request contains invalid fields''
       (fieldError (xr_Name request \<noteq> [] \<and> TrimSpace (xr_Name request) = []) ''name'' ''report name cannot be blank''
        @ fieldError (format \<noteq> [] \<and> format \<noteq> ''markdown'' \<and> format \<noteq> ''json'') ''format''
            ''supported report formats are markdown and json''))"

section \<open>From a workspace to a migration specification\<close>

definition backslash :: char where
  "backslash = CHR 0x5C"

definition metaChars :: string where
  "metaChars = backslash # ''.+*?()|[]{}^$''"

text \<open>\<open>regexp.QuoteMeta\<close>: the metacharacters are escaped with a backslash.\<close>

definition QuoteMeta :: "string \<Rightarrow> string" where
  "QuoteMeta s = concat (map (\<lambda>c. if c \<in> set metaChars then [backslash, c] else [c]) s)"

definition approvalTime :: "time \<Rightarrow> WorkspacePlanSettings \<Rightarrow> time" where
  "approvalTime now settings = (if TrimSpace (wps_ApprovedBy settings) = [] then 0 else now)"

definition foldKey :: "string \<Rightarrow> string" where
  "foldKey s = ToLower (TrimSpace s)"

definition indexWorkloads :: "VirtualMachine list \<Rightarrow> (string \<times> VirtualMachine) list" where
  "indexWorkloads vms =
     fold (\<lambda>vm vmIndex. AList.update (foldKey (vm_Name vm)) vm (AList.update (foldKey (vm_ID vm)) vm vmIndex)) vms []"

definition workspaceOverrides :: "PilotWorkspace \<Rightarrow> WorkloadOverrides" where
  "workspaceOverrides workspace =
     (let target = wk_TargetAssumptions workspace in
      emptyOverrides\<lparr>wo_TargetHost := wta_DefaultHost target, wo_TargetStorage := wta_DefaultStorage target,
        wo_NetworkMap := (if TrimSpace (wta_DefaultNetwork target) \<noteq> []
                          then [(''default'', TrimSpace (wta_DefaultNetwork target))] else [])\<rparr>)"

definition nameSelector :: "WorkloadOverrides \<Rightarrow> string \<Rightarrow> WorkloadSelector" where
  "nameSelector overrides pattern =
     \<lparr>ws_Match = \<lparr>mc_NamePattern = pattern, mc_Tags = [], mc_Folder = [], mc_PowerState = [], mc_Exclude = []\<rparr>,
      ws_Overrides = overrides\<rparr>"

definition exactPattern :: "string \<Rightarrow> string" where
  "exactPattern name = ''regex:^'' @ QuoteMeta name @ ''$''"

fun selectWorkloads ::
  "WorkloadOverrides \<Rightarrow> (string \<times> VirtualMachine) list \<Rightarrow> string list \<Rightarrow> string list \<Rightarrow> goerror + WorkloadSelector list" where
  "selectWorkloads overrides vmIndex seenNames [] = Inr []"
| "selectWorkloads overrides vmIndex seenNames (selectedID # selectedIDs) =
     (case map_of vmIndex (foldKey selectedID) of
        None \<Rightarrow> Inl (Errorf ''selected workload %q was not found in workspace inventory'' [selectedID])
      | Some vm \<Rightarrow>
          if foldKey (vm_Name vm) \<in> set seenNames then selectWorkloads overrides vmIndex seenNames selectedIDs
          else (case selectWorkloads overrides vmIndex (foldKey (vm_Name vm) # seenNames) selectedIDs of
                  Inl err \<Rightarrow> Inl err
                | Inr selectors \<Rightarrow> Inr (nameSelector overrides (exactPattern (vm_Name vm)) # selectors)))"

definition buildWorkspaceSelectors ::
  "PilotWorkspace \<Rightarrow> DiscoveryResult \<Rightarrow> string list \<Rightarrow> goerror + WorkloadSelector list" where
  "buildWorkspaceSelectors workspace inventory selectedIDs =
     (if length selectedIDs = 0 then Inr [nameSelector (workspaceOverrides workspace) ''*'']
      else selectWorkloads (workspaceOverrides workspace) (indexWorkloads (dr_VMs inventory)) [] selectedIDs)"

definition workspaceSpec :: "time \<Rightarrow> PilotWorkspace \<Rightarrow> WorkspaceSourceConnection \<Rightarrow> WorkloadSelector list \<Rightarrow> MigrationSpec" where
  "workspaceSpec now workspace source selectors =
     (let target = wk_TargetAssumptions workspace; settings = wk_PlanSettings workspace;
          planName = (if TrimSpace (wps_Name settings) = [] then wk_Name workspace else TrimSpace (wps_Name settings));
          parallel = (if wps_Parallel settings \<le> 0 then 1 else wps_Parallel settings);
          waveSize = (if wps_WaveSize settings \<le> 0 then parallel else wps_WaveSize settings)
      in \<lparr>spec_Name = planName,
          spec_Source = \<lparr>src_Address = wsc_Address source, src_Platform = wsc_Platform source,
            src_CredentialRef = wsc_CredentialRef source\<rparr>,
          spec_Target = \<lparr>tgt_Address = wta_Address target, tgt_Platform = wta_Platform target,
            tgt_CredentialRef = wta_CredentialRef target, tgt_DefaultHost = wta_DefaultHost target,
            tgt_DefaultStorage = wta_DefaultStorage target\<rparr>,
          spec_Workloads = selectors,
          spec_Options = \<lparr>opt_DryRun = True, opt_Parallel = parallel, opt_ShutdownSource = False,
            opt_RemoveSource = False, opt_VerifyBoot = wps_VerifyBoot settings,
            opt_Window = \<lparr>win_NotBefore = wps_WindowStart settings, win_NotAfter = wps_WindowEnd settings\<rparr>,
            opt_Approval = \<lparr>ag_Required = wps_ApprovalRequired settings, ag_ApprovedBy = wps_ApprovedBy settings,
              ag_ApprovedAt = approvalTime now settings, ag_Ticket = wps_ApprovalTicket settings\<rparr>,
            opt_Waves = \<lparr>wv_Size = waveSize, wv_DependencyAware = wps_DependencyAware settings\<rparr>\<rparr>\<rparr>)"

definition buildWorkspaceMigrationSpec ::
  "time \<Rightarrow> PilotWorkspace \<Rightarrow> DiscoveryResult option \<Rightarrow> string list \<Rightarrow> goerror + MigrationSpec" where
  "buildWorkspaceMigrationSpec now workspace oinventory selectedIDs =
     (case oinventory of
        None \<Rightarrow> Inl (Errorf ''inventory is required'' [])
      | Some inventory \<Rightarrow>
          (case wk_SourceConnections workspace of
             [] \<Rightarrow> Inl (Errorf ''at least one source connection is required'' [])
           | source # _ \<Rightarrow>
               if wta_Platform (wk_TargetAssumptions workspace) = []
               then Inl (Errorf ''target assumptions platform is required'' [])
               else if TrimSpace (wta_Address (wk_TargetAssumptions workspace)) = []
               then Inl (Errorf ''target assumptions address is required'' [])
               else (case buildWorkspaceSelectors workspace inventory selectedIDs of
                       Inl err \<Rightarrow> Inl err
                     | Inr selectors \<Rightarrow> Inr (workspaceSpec now workspace source selectors))))"

section \<open>Readiness, approvals, status\<close>

definition violationIssue :: "'f PolicyViolation \<Rightarrow> string" where
  "violationIssue violation =
     (if pv_Severity violation = PolicySeverityEnforce
      then vm_Name (pv_VM violation) @ '' violates enforce-level policy '' @ po_Name (pv_Policy violation)
      else vm_Name (pv_VM violation) @ '' requires review for policy '' @ po_Name (pv_Policy violation))"

definition deriveWorkspaceReadiness ::
  "time \<Rightarrow> 'f SimulationResult option \<Rightarrow> nat \<Rightarrow> bool \<Rightarrow> nat \<Rightarrow> WorkspaceReadinessResult option" where
  "deriveWorkspaceReadiness now oresult selectedCount includeAll totalInventory =
     (case oresult of
        None \<Rightarrow> None
      | Some result \<Rightarrow>
          (let recommendations = (case sr_RecommendationReport result of
                                    None \<Rightarrow> 0 | Some rep \<Rightarrow> length (rr_Recommendations rep));
               violations = (case sr_PolicyReport result of None \<Rightarrow> [] | Some rep \<Rightarrow> pr_Violations rep);
               warnings = (if recommendations > 0
                           then [itoa recommendations @ '' remediation recommendation(s) remain open''] else [])
                          @ map violationIssue (filter (\<lambda>v. pv_Severity v \<noteq> PolicySeverityEnforce) violations);
               blockers = map violationIssue (filter (\<lambda>v. pv_Severity v = PolicySeverityEnforce) violations)
                          @ (if sr_MovedVMs result = 0 then [''No workloads matched the simulation scope''] else [])
           in Some \<lparr>wrr_GeneratedAt = now,
                wrr_Status = (if length blockers > 0 then WorkspaceReadinessStatusBlocked
                              else if length warnings > 0 then WorkspaceReadinessStatusAttention
                              else WorkspaceReadinessStatusReady),
                wrr_SelectedWorkloadCount = int (if includeAll then totalInventory else selectedCount),
                wrr_RecommendationCount = int recommendations, wrr_PolicyViolationCount = int (length violations),
                wrr_BlockingIssues = blockers, wrr_WarningIssues = warnings\<rparr>))"

fun syncApproval :: "WorkspaceApproval \<Rightarrow> WorkspaceApproval list \<Rightarrow> WorkspaceApproval list" where
  "syncApproval approval [] = [approval]"
| "syncApproval approval (a # as) =
     (if EqualFold (wa_Stage a) ''plan''
      then a\<lparr>wa_Status := wa_Status approval, wa_ApprovedBy := wa_ApprovedBy approval, wa_Ticket := wa_Ticket approval,
             wa_CreatedAt := (if isZero (wa_CreatedAt a) then wa_CreatedAt approval else wa_CreatedAt a)\<rparr> # as
      else a # syncApproval approval as)"

definition syncWorkspacePlanApproval :: "string \<Rightarrow> time \<Rightarrow> PilotWorkspace \<Rightarrow> PilotWorkspace" where
  "syncWorkspacePlanApproval uuid createdAt workspace =
     (let settings = wk_PlanSettings workspace in
      if \<not> wps_ApprovalRequired settings then workspace
      else workspace\<lparr>wk_Approvals := syncApproval
             \<lparr>wa_ID = uuid, wa_Stage = ''plan'',
              wa_Status = (if TrimSpace (wps_ApprovedBy settings) \<noteq> [] then WorkspaceApprovalStatusApproved
                           else WorkspaceApprovalStatusPending),
              wa_ApprovedBy = TrimSpace (wps_ApprovedBy settings), wa_Ticket = TrimSpace (wps_ApprovalTicket settings),
              wa_Notes = [], wa_CreatedAt = createdAt\<rparr> (wk_Approvals workspace)\<rparr>)"

definition statusWeight :: "PilotWorkspaceStatus \<Rightarrow> nat" where
  "statusWeight status =
     (if status = PilotWorkspaceStatusDraft then 0
      else if status = PilotWorkspaceStatusDiscovered then 1
      else if status = PilotWorkspaceStatusGraphReady then 2
      else if status = PilotWorkspaceStatusSimulated then 3
      else if status = PilotWorkspaceStatusPlanned then 4
      else if status = PilotWorkspaceStatusReported then 5
      else 0)"

definition advanceWorkspaceStatus :: "PilotWorkspaceStatus \<Rightarrow> PilotWorkspaceStatus \<Rightarrow> PilotWorkspaceStatus" where
  "advanceWorkspaceStatus current next =
     (if current = [] then next else if statusWeight next > statusWeight current then next else current)"

fun upsertSnapshot :: "WorkspaceSnapshot \<Rightarrow> WorkspaceSnapshot list \<Rightarrow> WorkspaceSnapshot list" where
  "upsertSnapshot snapshot [] = [snapshot]"
| "upsertSnapshot snapshot (s # ss) =
     (if wss_SourceConnectionID s = wss_SourceConnectionID snapshot \<and> wss_SourceConnectionID snapshot \<noteq> []
      then snapshot # ss else s # upsertSnapshot snapshot ss)"

definition upsertWorkspaceSnapshot :: "WorkspaceSnapshot \<Rightarrow> PilotWorkspace \<Rightarrow> PilotWorkspace" where
  "upsertWorkspaceSnapshot snapshot workspace =
     workspace\<lparr>wk_Snapshots := upsertSnapshot snapshot (wk_Snapshots workspace)\<rparr>"

fun updateSourceDiscovery :: "WorkspaceSnapshot \<Rightarrow> WorkspaceSourceConnection list \<Rightarrow> WorkspaceSourceConnection list" where
  "updateSourceDiscovery snapshot [] = []"
| "updateSourceDiscovery snapshot (source # sources) =
     (if wsc_ID source \<noteq> wss_SourceConnectionID snapshot then source # updateSourceDiscovery snapshot sources
      else source\<lparr>wsc_LastSnapshotID := wss_SnapshotID snapshot, wsc_LastDiscoveredAt := wss_DiscoveredAt snapshot\<rparr> # sources)"

definition updateWorkspaceSourceConnectionDiscovery :: "WorkspaceSnapshot \<Rightarrow> PilotWorkspace \<Rightarrow> PilotWorkspace" where
  "updateWorkspaceSourceConnectionDiscovery snapshot workspace =
     workspace\<lparr>wk_SourceConnections := updateSourceDiscovery snapshot (wk_SourceConnections workspace)\<rparr>"

section \<open>Scope and messages of a job\<close>

definition workspaceSourceConnections :: "PilotWorkspace \<Rightarrow> string list \<Rightarrow> WorkspaceSourceConnection list" where
  "workspaceSourceConnections workspace selectedIDs =
     (if length selectedIDs = 0 then wk_SourceConnections workspace
      else filter (\<lambda>source. wsc_ID source \<in> TrimSpace ` set selectedIDs) (wk_SourceConnections workspace))"

definition workspaceSelectedWorkloadIDs :: "PilotWorkspace \<Rightarrow> string list \<Rightarrow> string list" where
  "workspaceSelectedWorkloadIDs workspace selectedIDs =
     (if length selectedIDs > 0 then selectedIDs else wk_SelectedWorkloadIDs workspace)"

definition workspaceJobQueuedMessage :: "WorkspaceJobType \<Rightarrow> string" where
  "workspaceJobQueuedMessage jobType =
     (if jobType = WorkspaceJobTypeDiscovery then ''Discovery job queued.''
      else if jobType = WorkspaceJobTypeGraph then ''Dependency graph job queued.''
      else if jobType = WorkspaceJobTypeSimulation then ''Simulation job queued.''
      else if jobType = WorkspaceJobTypePlan then ''Plan generation job queued.''
      else ''Workspace job queued.'')"

definition workspaceJobRunningMessage :: "WorkspaceJobType \<Rightarrow> string" where
  "workspaceJobRunningMessage jobType =
     (if jobType = WorkspaceJobTypeDiscovery then ''Running discovery across workspace sources.''
      else if jobType = WorkspaceJobTypeGraph then ''Generating workspace dependency graph.''
      else if jobType = WorkspaceJobTypeSimulation then ''Running workspace readiness simulation.''
      else if jobType = WorkspaceJobTypePlan then ''Generating saved migration plan.''
      else ''Running workspace job.'')"

definition workspaceJobCanCancel :: "WorkspaceJobStatus \<Rightarrow> bool" where
  "workspaceJobCanCancel status = (status = WorkspaceJobStatusQueued \<or> status = WorkspaceJobStatusRunning)"

definition workspaceJobCancelKey :: "string \<Rightarrow> string \<Rightarrow> string \<Rightarrow> string" where
  "workspaceJobCancelKey tenantID workspaceID jobID =
     TrimSpace tenantID @ '':'' @ TrimSpace workspaceID @ '':'' @ TrimSpace jobID"

text \<open>\<open>parseLimitQuery\<close> with the value of the query; \<open>atoi\<close> is \<open>strconv.Atoi\<close>.\<close>

definition parseLimitQuery :: "(string \<Rightarrow> int option) \<Rightarrow> string \<Rightarrow> int \<Rightarrow> int" where
  "parseLimitQuery atoi query fallback =
     (let value = TrimSpace query in
      if value = [] then fallback
      else (case atoi value of None \<Rightarrow> fallback | Some parsed \<Rightarrow> if parsed \<le> 0 then fallback else parsed))"

definition workspaceReportExtension :: "string \<Rightarrow> string" where
  "workspaceReportExtension format = (if format = ''json'' then ''json'' else ''md'')"

end
