(* ===== verification/WorkspacePlanCorrect.thy ===== *)
theory WorkspacePlanCorrect
  imports WorkspacePlan OrchestratorProps
begin

text \<open>
  What an assessment workspace plans: a workspace and a request that pass validation give a valid specification and, with the
  planner of the engine, a plan for the machines that were selected; the settings that have no such effect are stated too.
\<close>

section \<open>Validation\<close>

lemma fieldError_Nil [simp]: "fieldError bad path message = [] \<longleftrightarrow> \<not> bad"
  by (simp add: fieldError_def)

lemma validationFailure_None [simp]: "validationFailure message errs = None \<longleftrightarrow> errs = []"
  by (simp add: validationFailure_def)

lemma validateSources_Nil:
  "validateSources i seen sources = [] \<longleftrightarrow>
     (\<forall>s \<in> set sources. TrimSpace (wsc_Name s) \<noteq> [] \<and> Platform_Valid (wsc_Platform s) \<and> TrimSpace (wsc_Address s) \<noteq> [])
     \<and> distinct (filter (\<lambda>k. k \<noteq> []) (map (\<lambda>s. TrimSpace (wsc_ID s)) sources))
     \<and> (\<forall>s \<in> set sources. TrimSpace (wsc_ID s) \<noteq> [] \<longrightarrow> TrimSpace (wsc_ID s) \<notin> set seen)"
  by (induction i seen sources rule: validateSources.induct) (auto simp: Let_def image_iff)

lemma validateSelectedIDs_Nil:
  "validateSelectedIDs i seen ids = [] \<longleftrightarrow>
     (\<forall>k \<in> set ids. TrimSpace k \<noteq> [] \<and> TrimSpace k \<notin> set seen) \<and> distinct (map TrimSpace ids)"
  by (induction i seen ids rule: validateSelectedIDs.induct) (auto simp: Let_def image_iff)

lemma validateApprovals_Nil:
  "validateApprovals i approvals = [] \<longleftrightarrow>
     (\<forall>a \<in> set approvals. TrimSpace (wa_Stage a) \<noteq> []
        \<and> wa_Status a \<in> {[], WorkspaceApprovalStatusPending, WorkspaceApprovalStatusApproved, WorkspaceApprovalStatusRejected})"
  by (induction i approvals rule: validateApprovals.induct) (auto simp: Let_def)

lemma validateNotes_Nil:
  "validateNotes i ns = [] \<longleftrightarrow>
     (\<forall>n \<in> set ns. wn_Kind n \<in> {[], WorkspaceNoteKindOperator, WorkspaceNoteKindSystem}
        \<and> TrimSpace (wn_Author n) \<noteq> [] \<and> TrimSpace (wn_Body n) \<noteq> [])"
  by (induction i ns rule: validateNotes.induct) (auto simp: Let_def)

lemma validWorkspace_fields:
  assumes "validateWorkspace w = None"
  shows "TrimSpace (wk_Name w) \<noteq> []"
    and "\<forall>s \<in> set (wk_SourceConnections w). Platform_Valid (wsc_Platform s) \<and> TrimSpace (wsc_Address s) \<noteq> []"
    and "wps_WindowStart (wk_PlanSettings w) = 0 \<or> wps_WindowEnd (wk_PlanSettings w) = 0
         \<or> wps_WindowStart (wk_PlanSettings w) \<le> wps_WindowEnd (wk_PlanSettings w)"
  using assms by (auto simp: validateWorkspace_def Let_def validateSources_Nil)

lemma validPlanJob_fields:
  assumes "validateWorkspaceJobRequest w request = None" "jr_Type request = WorkspaceJobTypePlan"
  shows "Platform_Valid (wta_Platform (wk_TargetAssumptions w))" "TrimSpace (wta_Address (wk_TargetAssumptions w)) \<noteq> []"
  using assms by (auto simp: validateWorkspaceJobRequest_def validateJobType_def Let_def job_types)

section \<open>Selection\<close>

definition resolveWorkload :: "VirtualMachine list \<Rightarrow> string \<Rightarrow> VirtualMachine option" where
  "resolveWorkload vms selectedID =
     find (\<lambda>vm. foldKey (vm_Name vm) = foldKey selectedID \<or> foldKey (vm_ID vm) = foldKey selectedID) (rev vms)"

lemma indexWorkloads_lookup: "map_of (indexWorkloads vms) (foldKey k) = resolveWorkload vms k"
  by (induction vms rule: rev_induct) (auto simp: indexWorkloads_def resolveWorkload_def)

lemma resolveWorkload_in: "resolveWorkload vms k = Some vm \<Longrightarrow> vm \<in> set vms"
  using nth_mem [of _ "rev vms"] by (auto simp: resolveWorkload_def find_Some_iff)

lemma selectWorkloads_ok:
  assumes "\<forall>k \<in> set ids. resolveWorkload vms k \<noteq> None"
  shows "\<exists>names. selectWorkloads overrides (indexWorkloads vms) seen ids = Inr (map (\<lambda>n. nameSelector overrides (exactPattern n)) names)
    \<and> set names \<subseteq> {vm_Name v | v k. k \<in> set ids \<and> resolveWorkload vms k = Some v}
    \<and> (\<forall>k \<in> set ids. foldKey (vm_Name (the (resolveWorkload vms k))) \<in> set seen \<union> foldKey ` set names)"
  using assms
proof (induction ids arbitrary: seen)
  case (Cons k ids)
  then obtain v where v: "resolveWorkload vms k = Some v" by auto
  show ?case
  proof (cases "foldKey (vm_Name v) \<in> set seen")
    case True
    from Cons.IH [of seen] Cons.prems obtain names where
      "selectWorkloads overrides (indexWorkloads vms) seen ids = Inr (map (\<lambda>n. nameSelector overrides (exactPattern n)) names)"
      and "set names \<subseteq> {vm_Name v | v k. k \<in> set ids \<and> resolveWorkload vms k = Some v}"
      and "\<forall>k \<in> set ids. foldKey (vm_Name (the (resolveWorkload vms k))) \<in> set seen \<union> foldKey ` set names"
      by auto
    with True v show ?thesis by (intro exI [of _ names]) (auto simp: indexWorkloads_lookup)
  next
    case False
    from Cons.IH [of "foldKey (vm_Name v) # seen"] Cons.prems obtain names where
      "selectWorkloads overrides (indexWorkloads vms) (foldKey (vm_Name v) # seen) ids
         = Inr (map (\<lambda>n. nameSelector overrides (exactPattern n)) names)"
      and "set names \<subseteq> {vm_Name v | v k. k \<in> set ids \<and> resolveWorkload vms k = Some v}"
      and "\<forall>k \<in> set ids. foldKey (vm_Name (the (resolveWorkload vms k))) \<in> set (foldKey (vm_Name v) # seen) \<union> foldKey ` set names"
      by auto
    with False v show ?thesis
      by (intro exI [of _ "vm_Name v # names"]) (auto simp: indexWorkloads_lookup)
  qed
qed simp

lemma selectWorkloads_unknown:
  "k \<in> set ids \<Longrightarrow> resolveWorkload vms k = None \<Longrightarrow> \<exists>err. selectWorkloads overrides (indexWorkloads vms) seen ids = Inl err"
proof (induction ids arbitrary: seen)
  case (Cons k' ids)
  show ?case
  proof (cases "resolveWorkload vms k'")
    case (Some v)
    then have "k \<in> set ids" using Cons.prems by auto
    with Cons.IH [of seen] Cons.IH [of "foldKey (vm_Name v) # seen"] Cons.prems Some
    show ?thesis by (auto simp: indexWorkloads_lookup)
  qed (simp add: indexWorkloads_lookup)
qed simp

text \<open>What the code relies on in \<open>regexp\<close> and \<open>filepath.Match\<close>.\<close>

definition exactRegexp :: "patternLib \<Rightarrow> VirtualMachine list \<Rightarrow> bool" where
  "exactRegexp lib vms \<longleftrightarrow>
     (\<forall>vm \<in> set vms. \<exists>f. regexpCompile lib (''^'' @ QuoteMeta (vm_Name vm) @ ''$'') = Inr f \<and> (\<forall>s. f s \<longleftrightarrow> s = vm_Name vm))"

definition starGlob :: "patternLib \<Rightarrow> bool" where
  "starGlob lib \<longleftrightarrow> (\<forall>s. filepathMatch lib ''*'' s = Inr (slash \<notin> set s))"

lemma nameSelector_matches:
  "pattern \<noteq> [] \<Longrightarrow> selectorMatches lib vm (nameSelector overrides pattern) \<longleftrightarrow> matchPattern lib (vm_Name vm) pattern"
  by (simp add: selectorMatches_def nameSelector_def Let_def matchTags_def)

lemma exactPattern_prefix:
  "HasPrefix (exactPattern n) regexPrefix" "TrimPrefix (exactPattern n) regexPrefix = ''^'' @ QuoteMeta n @ ''$''" "exactPattern n \<noteq> []"
  by (simp_all add: exactPattern_def regexPrefix_def TrimPrefix_def)

lemma exactPattern_matches:
  assumes "exactRegexp lib vms" "v \<in> set vms"
  shows "matchPattern lib s (exactPattern (vm_Name v)) \<longleftrightarrow> s = vm_Name v"
  using assms by (auto simp: exactRegexp_def matchPattern_def exactPattern_prefix)

lemma star_matches: "starGlob lib \<Longrightarrow> matchPattern lib s ''*'' \<longleftrightarrow> slash \<notin> set s"
  by (simp add: starGlob_def matchPattern_def matchGlob_def regexPrefix_def)

definition chosen :: "VirtualMachine list \<Rightarrow> string list \<Rightarrow> VirtualMachine set" where
  "chosen vms ids =
     {vm \<in> set vms. if ids = [] then slash \<notin> set (vm_Name vm)
                    else \<exists>k \<in> set ids. \<exists>v. resolveWorkload vms k = Some v \<and> vm_Name vm = vm_Name v}"

text \<open>No two machines have names that differ only in case or in the white space around them.\<close>

definition namesApart :: "VirtualMachine list \<Rightarrow> bool" where
  "namesApart vms \<longleftrightarrow> (\<forall>v \<in> set vms. \<forall>w \<in> set vms. foldKey (vm_Name v) = foldKey (vm_Name w) \<longrightarrow> vm_Name v = vm_Name w)"

lemma selectors_choose:
  assumes lib: "exactRegexp lib (dr_VMs inventory)" "starGlob lib" and apart: "namesApart (dr_VMs inventory)"
    and known: "\<forall>k \<in> set ids. resolveWorkload (dr_VMs inventory) k \<noteq> None"
  shows "\<exists>selectors. buildWorkspaceSelectors w inventory ids = Inr selectors \<and> selectors \<noteq> []
    \<and> (\<forall>s \<in> set selectors. selector_ok lib s \<and> ws_Overrides s = workspaceOverrides w)
    \<and> {vm \<in> set (dr_VMs inventory). matchesAnySelector lib vm selectors} = chosen (dr_VMs inventory) ids"
proof (cases "ids = []")
  case True
  have "selector_ok lib (nameSelector (workspaceOverrides w) ''*'')"
    using lib(2) by (simp add: selector_ok_def nameSelector_def regexPrefix_def starGlob_def workspaceOverrides_def
        emptyOverrides_def Let_def)
  then show ?thesis
    using True lib(2) by (auto simp: buildWorkspaceSelectors_def chosen_def matchesAnySelector_iff nameSelector_matches
        star_matches, simp add: nameSelector_def)
next
  case False
  let ?vms = "dr_VMs inventory" and ?o = "workspaceOverrides w"
  from selectWorkloads_ok [OF known, of ?o "[]"] obtain names where
    sel: "selectWorkloads ?o (indexWorkloads ?vms) [] ids = Inr (map (\<lambda>n. nameSelector ?o (exactPattern n)) names)"
    and from_ids: "set names \<subseteq> {vm_Name v | v k. k \<in> set ids \<and> resolveWorkload ?vms k = Some v}"
    and all_ids: "\<forall>k \<in> set ids. foldKey (vm_Name (the (resolveWorkload ?vms k))) \<in> foldKey ` set names" by auto
  have names: "\<exists>v \<in> set ?vms. n = vm_Name v" if "n \<in> set names" for n
    using from_ids that resolveWorkload_in by fastforce
  have names_eq: "set names = {vm_Name v | v k. k \<in> set ids \<and> resolveWorkload ?vms k = Some v}"
  proof (rule equalityI [OF from_ids], rule subsetI)
    fix n assume "n \<in> {vm_Name v | v k. k \<in> set ids \<and> resolveWorkload ?vms k = Some v}"
    then obtain v k where v: "n = vm_Name v" "k \<in> set ids" "resolveWorkload ?vms k = Some v" by auto
    with all_ids obtain m where m: "m \<in> set names" "foldKey (vm_Name v) = foldKey m" by fastforce
    from names [OF m(1)] m(2) v(3) apart have "vm_Name v = m" by (auto simp: namesApart_def dest: resolveWorkload_in)
    with v m show "n \<in> set names" by simp
  qed
  have ok: "selector_ok lib (nameSelector ?o (exactPattern n))" if "n \<in> set names" for n
    using names [OF that] lib(1) by (auto simp: selector_ok_def nameSelector_def exactPattern_prefix exactRegexp_def
        workspaceOverrides_def emptyOverrides_def Let_def)
  have matches: "matchPattern lib s (exactPattern n) \<longleftrightarrow> s = n" if "n \<in> set names" for s n
    using names [OF that] exactPattern_matches [OF lib(1)] by auto
  have "names \<noteq> []" using False all_ids by (cases ids) auto
  with False show ?thesis
    using sel ok by (auto simp: buildWorkspaceSelectors_def chosen_def matchesAnySelector_iff nameSelector_matches
        exactPattern_prefix matches names_eq, auto simp: nameSelector_def)
qed

section \<open>The plan of a workspace\<close>

lemma same_overrides:
  assumes "\<forall>s \<in> set selectors. ws_Overrides s = o'" "wo_Dependencies o' = []" "wo_Dependencies acc = []"
  shows "wo_Dependencies (fst (mergeLoop lib vm selectors acc b)) = []"
  using assms
proof (induction selectors arbitrary: acc b)
  case (Cons s ss)
  then show ?case by (cases "selectorMatches lib vm s") (simp_all add: mergeOverride_def)
qed simp

lemma plan_without_deps:
  assumes ids: "idsNotBlank vms"
    and over: "\<forall>s \<in> set (spec_Workloads spec). ws_Overrides s = o'" "wo_Dependencies o' = []"
  shows "\<exists>plan. BuildExecutionPlan lib p now (Some spec) vms = Inr plan"
proof -
  let ?ws = "sortedPlanned lib p spec vms" and ?opts = "spec_Options spec"
  have nodeps: "\<forall>w \<in> set (plannedWorkloads lib spec vms). pw_Dependencies w = []"
    using same_overrides [OF over, of emptyOverrides lib]
    by (auto simp: plannedWorkloads_def List.map_filter_def planWorkload_def mergedOverridesForVM_def emptyOverrides_def
        split: prod.splits if_splits) (metis fst_conv)+
  then have "\<forall>w \<in> set ?ws. pw_Dependencies w = []" by (simp add: sortedPlanned_def)
  from no_deps_resolve [OF this] waves_complete [OF sortedPlanned_simps(3) [OF ids], of p lib p spec]
  have "\<exists>waves. buildDependencyAwareWaves p ?ws (wv_Size (normalizedWaveStrategy ?opts)) = Inr waves" by blast
  with nodeps normalizedWaveStrategy_pos [of ?opts] show ?thesis
    by (auto simp: BuildExecutionPlan_def Let_def list_ex_iff chunkWorkloads_def sortedPlanned_def)
qed

lemma workspaceOverrides_deps [simp]: "wo_Dependencies (workspaceOverrides w) = []"
  by (simp add: workspaceOverrides_def emptyOverrides_def Let_def)

lemma state_of_spec:
  assumes ids: "idsNotBlank (dr_VMs inventory)" and dist: "distinct (map matchKey (dr_VMs inventory))"
    and over: "\<forall>s \<in> set (spec_Workloads spec). ws_Overrides s = o'" "wo_Dependencies o' = []"
    and some: "{vm \<in> set (dr_VMs inventory). matchesAnySelector lib vm (spec_Workloads spec)} \<noteq> {}"
    and mid: "TrimSpace migrationID \<noteq> []"
  shows "\<exists>state. BuildStateFromInventory lib p clock (Some spec) (Some inventory) migrationID generatedAt = Inr state
    \<and> wm_VM ` set (ms_Workloads state) = {vm \<in> set (dr_VMs inventory). matchesAnySelector lib vm (spec_Workloads spec)}
    \<and> distinct (map wmKey (ms_Workloads state)) \<and> ms_Phase state = PhasePlan \<and> ms_ID state = migrationID"
proof -
  let ?vms = "dr_VMs inventory" and ?ss = "spec_Workloads spec"
  let ?ws = "buildWorkloadMigrations lib ?vms ?ss"
  obtain plan where plan: "BuildExecutionPlan lib p (clock 1) (Some spec) ?vms = Inr plan"
    using plan_without_deps [OF ids over] by blast
  have keys: "distinct (map wmKey ?ws)"
    by (simp only: buildWorkloadMigrations_keys matched_keys [OF ids]) (simp add: MatchWorkloads_def matchLoop_distinct)
  have "set (MatchWorkloads lib ?vms ?ss) = {vm \<in> set ?vms. matchesAnySelector lib vm ?ss}"
  proof -
    have "vm \<in> set (matchLoop lib ?ss ?vms [])" if "vm \<in> set ?vms" "matchesAnySelector lib vm ?ss" for vm
      using matchLoop_complete [OF that, of "[]"] matchLoop_subseq_set [of lib ?ss ?vms "[]"] that dist
      by (auto simp: distinct_map dest: inj_onD)
    then show ?thesis using matchLoop_subseq_set [of lib ?ss ?vms "[]"] by (auto simp: MatchWorkloads_def)
  qed
  moreover have "wm_VM ` set ?ws = set (MatchWorkloads lib ?vms ?ss)"
    by (metis buildLoop_vms buildWorkloadMigrations_def MatchWorkloads_def list.set_map)
  moreover have "set (reorderWorkloadsByPlan ?ws (Some plan)) = set ?ws"
    using reorder_mset [OF keys, of "Some plan"] by (rule mset_eq_setD)
  moreover have "distinct (map wmKey (reorderWorkloadsByPlan ?ws (Some plan)))"
    using keys reorder_mset [OF keys, of "Some plan"] by (metis mset_eq_imp_distinct_iff mset_map)
  ultimately show ?thesis
    using plan some mid by (auto simp: BuildStateFromInventory_def Let_def)
qed

lemma workspaceSpec_fields [simp]:
  "spec_Workloads (workspaceSpec now w source selectors) = selectors"
  "opt_DryRun (spec_Options (workspaceSpec now w source selectors))"
  "src_Address (spec_Source (workspaceSpec now w source selectors)) = wsc_Address source"
  "tgt_Address (spec_Target (workspaceSpec now w source selectors)) = wta_Address (wk_TargetAssumptions w)"
  by (simp_all add: workspaceSpec_def Let_def)

lemma built_spec_ok:
  assumes valid: "validateWorkspace w = None" "validateWorkspaceJobRequest w request = None" "jr_Type request = WorkspaceJobTypePlan"
    and source: "wk_SourceConnections w \<noteq> []" and now: "0 < now"
    and sel: "buildWorkspaceSelectors w inventory ids = Inr selectors" "selectors \<noteq> []" "\<forall>s \<in> set selectors. selector_ok lib s"
  shows "buildWorkspaceMigrationSpec now w (Some inventory) ids = Inr (workspaceSpec now w (hd (wk_SourceConnections w)) selectors)"
    and "spec_ok lib (workspaceSpec now w (hd (wk_SourceConnections w)) selectors)"
proof -
  note w = validWorkspace_fields [OF valid(1)] and t = validPlanJob_fields [OF valid(2,3)]
  have "wta_Platform (wk_TargetAssumptions w) \<noteq> []" using t(1) by (auto simp: Platform_Valid_def platform_defs)
  with source t(2) sel(1)
  show "buildWorkspaceMigrationSpec now w (Some inventory) ids = Inr (workspaceSpec now w (hd (wk_SourceConnections w)) selectors)"
    by (auto simp: buildWorkspaceMigrationSpec_def neq_Nil_conv)
  show "spec_ok lib (workspaceSpec now w (hd (wk_SourceConnections w)) selectors)"
    using w t sel(2,3) now hd_in_set [OF source] by (simp add: workspaceSpec_def spec_ok_def approvalTime_def Let_def)
qed

lemma unknown_refused:
  assumes "k \<in> set ids" "resolveWorkload (dr_VMs inventory) k = None"
  shows "\<exists>err. buildWorkspaceMigrationSpec now w (Some inventory) ids = Inl err"
  using assms selectWorkloads_unknown [OF assms, of "workspaceOverrides w" "[]"]
  by (auto simp: buildWorkspaceMigrationSpec_def buildWorkspaceSelectors_def split: list.splits)

text \<open>
  C18 (workspace_plan_exact): let a workspace and a plan request pass validation, the workspace have a source connection, the
  clock be positive and the migration identifier not blank; let no two machines of the inventory have names that differ only in case or
  surrounding white space, all have different keys and none an identifier of white space only; and let a quoted, anchored name
  match itself only and a star any text without a slash. Then an unknown selected identifier is refused. Otherwise the generated
  specification is a valid dry run for the first source and the target of the workspace, and, when the choice is not empty, the
  saved plan covers exactly the machines of the inventory with the name of a selected one, or, when none is selected,
  those whose name has no slash.
\<close>

theorem workspace_plan_exact:
  fixes w request inventory
  defines "ids \<equiv> workspaceSelectedWorkloadIDs w (jr_SelectedWorkloadIDs request)" and "vms \<equiv> dr_VMs inventory"
  assumes valid: "validateWorkspace w = None" "validateWorkspaceJobRequest w request = None" "jr_Type request = WorkspaceJobTypePlan"
    and source: "wk_SourceConnections w \<noteq> []" and now: "0 < now" and lib: "exactRegexp lib vms" "starGlob lib"
    and inv_ok: "namesApart vms" "idsNotBlank vms" "distinct (map matchKey vms)" and mid: "TrimSpace migrationID \<noteq> []"
  shows "if \<exists>k \<in> set ids. resolveWorkload vms k = None
    then \<exists>err. buildWorkspaceMigrationSpec now w (Some inventory) ids = Inl err
    else \<exists>spec. buildWorkspaceMigrationSpec now w (Some inventory) ids = Inr spec \<and> ValidateSpec lib (Some spec) = []
      \<and> opt_DryRun (spec_Options spec) \<and> src_Address (spec_Source spec) = wsc_Address (hd (wk_SourceConnections w))
      \<and> tgt_Address (spec_Target spec) = wta_Address (wk_TargetAssumptions w)
      \<and> (chosen vms ids \<noteq> {} \<longrightarrow>
           (\<exists>state. BuildStateFromInventory lib p clock (Some spec) (Some inventory) migrationID generatedAt = Inr state
              \<and> wm_VM ` set (ms_Workloads state) = chosen vms ids \<and> distinct (map wmKey (ms_Workloads state))))"
proof (cases "\<exists>k \<in> set ids. resolveWorkload vms k = None")
  case True
  then show ?thesis using unknown_refused by (auto simp: vms_def)
next
  case False
  then have "\<forall>k \<in> set ids. resolveWorkload (dr_VMs inventory) k \<noteq> None" by (simp add: vms_def)
  from selectors_choose [OF lib [unfolded vms_def] inv_ok(1) [unfolded vms_def] this, of w] obtain selectors where
    sel: "buildWorkspaceSelectors w inventory ids = Inr selectors" "selectors \<noteq> []" "\<forall>s \<in> set selectors. selector_ok lib s"
    and over: "\<forall>s \<in> set selectors. ws_Overrides s = workspaceOverrides w"
    and choice: "{vm \<in> set vms. matchesAnySelector lib vm selectors} = chosen vms ids" unfolding vms_def by blast
  note built = built_spec_ok [OF valid source now sel]
  have "\<exists>state. BuildStateFromInventory lib p clock (Some (workspaceSpec now w (hd (wk_SourceConnections w)) selectors)) (Some inventory)
        migrationID generatedAt = Inr state
      \<and> wm_VM ` set (ms_Workloads state) = chosen vms ids \<and> distinct (map wmKey (ms_Workloads state))"
    if "chosen vms ids \<noteq> {}"
    using state_of_spec [OF inv_ok(2,3) [unfolded vms_def], of "workspaceSpec now w (hd (wk_SourceConnections w)) selectors"
        "workspaceOverrides w" lib migrationID p clock generatedAt] over mid that
    unfolding choice [unfolded vms_def] workspaceSpec_fields vms_def by auto
  with False built show ?thesis by (simp add: ValidateSpec_Nil)
qed

section \<open>Settings that do not do what they say\<close>

lemma mergeStringMap_keys: "fst ` set (mergeStringMap m m') = fst ` set m \<union> fst ` set m'"
proof (induction m' arbitrary: m)
  case (Cons kv m')
  then show ?case by (cases kv) (simp add: mergeStringMap_def dom_update)
qed (simp add: mergeStringMap_def)

lemma merged_networks:
  assumes "\<forall>s \<in> set selectors. fst ` set (wo_NetworkMap (ws_Overrides s)) \<subseteq> K" "fst ` set (wo_NetworkMap acc) \<subseteq> K"
  shows "fst ` set (wo_NetworkMap (fst (mergeLoop lib vm selectors acc b))) \<subseteq> K"
  using assms
proof (induction selectors arbitrary: acc b)
  case (Cons s ss)
  have "fst ` set (wo_NetworkMap (mergeOverride acc (ws_Overrides s))) \<subseteq> K"
    using Cons.prems by (simp add: mergeOverride_def mergeStringMap_keys)
  then show ?case using Cons by (cases "selectorMatches lib vm s") simp_all
qed simp

lemma selectWorkloads_overrides:
  "selectWorkloads overrides vmIndex seen ids = Inr selectors \<Longrightarrow> s \<in> set selectors \<Longrightarrow> ws_Overrides s = overrides"
  by (induction overrides vmIndex seen ids arbitrary: selectors rule: selectWorkloads.induct)
    (auto simp: nameSelector_def split: option.splits sum.splits if_splits)

lemma built_overrides:
  assumes "buildWorkspaceMigrationSpec now w oinventory ids = Inr spec" "s \<in> set (spec_Workloads spec)"
  shows "ws_Overrides s = workspaceOverrides w"
proof -
  from assms(1) obtain inventory selectors where
    "buildWorkspaceSelectors w inventory ids = Inr selectors" "spec_Workloads spec = selectors"
    by (auto simp: buildWorkspaceMigrationSpec_def split: option.splits sum.splits if_splits list.splits)
  with assms(2) show ?thesis
    by (cases "ids = []") (auto simp: buildWorkspaceSelectors_def nameSelector_def dest: selectWorkloads_overrides)
qed

text \<open>
  C38 (workspace_default_network): the default network of a workspace maps only a source network that is itself called
  \<open>default\<close>: whatever the workspace, the selection and the networks of the target, a machine with an interface on any other
  network has no mapping for it in the specification, and mapping its interfaces reports an error.
\<close>

theorem workspace_default_network:
  assumes "buildWorkspaceMigrationSpec now w oinventory ids = Inr spec"
    and "nic \<in> set (vm_NICs vm)" "nic_Network nic \<noteq> ''default''"
  shows "snd (MapAllNICs (NewNetworkMapper (wo_NetworkMap (fst (mergedOverridesForVM lib vm (spec_Workloads spec)))) networks)
           (vm_NICs vm)) \<noteq> []"
proof -
  let ?m = "wo_NetworkMap (fst (mergedOverridesForVM lib vm (spec_Workloads spec)))"
  have "fst ` set ?m \<subseteq> {''default''}"
    unfolding mergedOverridesForVM_def using built_overrides [OF assms(1)]
    by (intro merged_networks) (auto simp: workspaceOverrides_def emptyOverrides_def Let_def)
  then have "fst ` set (copyStringMap ?m) \<subseteq> {''default''}"
    by (simp add: copyStringMap_merge mergeStringMap_keys)
  then have "map_of (copyStringMap ?m) (nic_Network nic) = None"
    using assms(3) by (auto simp: map_of_eq_None_iff)
  then show ?thesis
    using assms(2) by (auto simp: MapAllNICs_no_errors MapNIC_exists NewNetworkMapper_def intro!: bexI [of _ nic])
qed

text \<open>
  The spelling of a name that counts in a list of names: the name occurs, and no name before its first
  occurrence is the same up to case and surrounding white space.
\<close>

definition firstSpelling :: "string list \<Rightarrow> string \<Rightarrow> bool" where
  "firstSpelling names n \<longleftrightarrow> n \<in> set names \<and> (\<forall>m \<in> set (takeWhile (\<lambda>m. m \<noteq> n) names). foldKey m \<noteq> foldKey n)"

lemma firstSpelling_Cons:
  "firstSpelling (m # names) n \<longleftrightarrow> n = m \<or> foldKey m \<noteq> foldKey n \<and> firstSpelling names n"
  by (auto simp: firstSpelling_def)

lemma selectWorkloads_spellings:
  assumes "selectWorkloads overrides (indexWorkloads vms) seen ids = Inr selectors"
  shows "s \<in> set selectors \<longleftrightarrow> (\<exists>n. s = nameSelector overrides (exactPattern n) \<and> foldKey n \<notin> set seen
    \<and> firstSpelling (map (\<lambda>k. vm_Name (the (resolveWorkload vms k))) ids) n)"
  using assms
proof (induction ids arbitrary: seen selectors)
  case Nil
  then show ?case by (simp add: firstSpelling_def)
next
  case (Cons k ids)
  then obtain v where v: "resolveWorkload vms k = Some v" by (auto simp: indexWorkloads_lookup split: option.splits)
  show ?case
  proof (cases "foldKey (vm_Name v) \<in> set seen")
    case True
    then have "selectWorkloads overrides (indexWorkloads vms) seen ids = Inr selectors"
      using Cons.prems v by (simp add: indexWorkloads_lookup)
    from Cons.IH [OF this] True v show ?thesis by (auto simp: firstSpelling_Cons)
  next
    case False
    then obtain rest where rest: "selectWorkloads overrides (indexWorkloads vms) (foldKey (vm_Name v) # seen) ids = Inr rest"
      "selectors = nameSelector overrides (exactPattern (vm_Name v)) # rest"
      using Cons.prems v by (auto simp: indexWorkloads_lookup split: sum.splits)
    from Cons.IH [OF rest(1)] False v show ?thesis by (auto simp: rest(2) firstSpelling_Cons)
  qed
qed

lemma selectWorkloads_known:
  "selectWorkloads overrides (indexWorkloads vms) seen ids = Inr selectors \<Longrightarrow> k \<in> set ids \<Longrightarrow> resolveWorkload vms k \<noteq> None"
  by (auto dest: selectWorkloads_unknown [where seen = seen and overrides = overrides])

text \<open>
  C39 (workspace_selection_drops): selectors are generated once per name up to case and surrounding white space, but each matches
  one spelling only. For every inventory and every non-empty selection from which a specification is built, a machine of the
  inventory is covered exactly when its name is spelled as that of the first selected machine among those with this name up to
  case and space; a selected machine whose name differs only in case from the name of one selected before every
  machine of its own spelling is left out of the planned machines without an error.
\<close>

theorem workspace_selection_drops:
  assumes lib: "exactRegexp lib (dr_VMs inventory)" and ids: "ids \<noteq> []"
    and spec: "buildWorkspaceMigrationSpec now w (Some inventory) ids = Inr spec"
  defines "names \<equiv> map (\<lambda>k. vm_Name (the (resolveWorkload (dr_VMs inventory) k))) ids"
  shows "(\<forall>v \<in> set (dr_VMs inventory). matchesAnySelector lib v (spec_Workloads spec) \<longleftrightarrow> firstSpelling names (vm_Name v))
    \<and> (\<forall>v m. m \<in> set (takeWhile (\<lambda>n. n \<noteq> vm_Name v) names) \<and> foldKey m = foldKey (vm_Name v) \<longrightarrow>
         v \<notin> set (MatchWorkloads lib (dr_VMs inventory) (spec_Workloads spec)))"
proof -
  have "selectWorkloads (workspaceOverrides w) (indexWorkloads (dr_VMs inventory)) [] ids = Inr (spec_Workloads spec)"
    using spec ids by (auto simp: buildWorkspaceMigrationSpec_def buildWorkspaceSelectors_def workspaceSpec_def Let_def
        split: list.splits if_splits sum.splits)
  note sel = selectWorkloads_spellings [OF this, folded names_def] selectWorkloads_known [OF this]
  have name: "\<exists>u \<in> set (dr_VMs inventory). n = vm_Name u" if first: "firstSpelling names n" for n
  proof -
    obtain k where "k \<in> set ids" "n = vm_Name (the (resolveWorkload (dr_VMs inventory) k))"
      using first by (auto simp: firstSpelling_def names_def)
    with sel(2) resolveWorkload_in show ?thesis by fastforce
  qed
  have "matchPattern lib s (exactPattern n) \<longleftrightarrow> s = n" if "firstSpelling names n" for s n
    using name [OF that] exactPattern_matches [OF lib] by auto
  then have covers: "matchesAnySelector lib v (spec_Workloads spec) \<longleftrightarrow> firstSpelling names (vm_Name v)" for v
    unfolding matchesAnySelector_iff Bex_def sel(1) by (auto simp: nameSelector_matches exactPattern_prefix)
  have "matchesAnySelector lib v (spec_Workloads spec)" if "v \<in> set (MatchWorkloads lib (dr_VMs inventory) (spec_Workloads spec))" for v
    using that matchLoop_subseq_set unfolding MatchWorkloads_def by blast
  then show ?thesis using covers by (auto simp: firstSpelling_def)
qed

section \<open>Readiness\<close>

text \<open>
  A workspace is judged blocked exactly when the simulation has an enforced violation or moved no machine,
  ready exactly when it moved one and left no recommendation and no violation, and every violation appears as one blocking or one
  warning issue.
\<close>

theorem readiness_exact:
  fixes result :: "'f SimulationResult"
  defines "violations \<equiv> (case sr_PolicyReport result of None \<Rightarrow> [] | Some rep \<Rightarrow> pr_Violations rep)"
    and "recommendations \<equiv> (case sr_RecommendationReport result of None \<Rightarrow> [] | Some rep \<Rightarrow> rr_Recommendations rep)"
  shows "\<exists>r. deriveWorkspaceReadiness now (Some result) selected includeAll everything = Some r
    \<and> (wrr_Status r = WorkspaceReadinessStatusBlocked \<longleftrightarrow>
         (\<exists>v \<in> set violations. pv_Severity v = PolicySeverityEnforce) \<or> sr_MovedVMs result = 0)
    \<and> (wrr_Status r = WorkspaceReadinessStatusReady \<longleftrightarrow> violations = [] \<and> recommendations = [] \<and> sr_MovedVMs result \<noteq> 0)
    \<and> wrr_Status r \<in> {WorkspaceReadinessStatusBlocked, WorkspaceReadinessStatusReady, WorkspaceReadinessStatusAttention}
    \<and> length (wrr_BlockingIssues r) + length (wrr_WarningIssues r) = length violations
        + (if recommendations = [] then 0 else 1) + (if sr_MovedVMs result = 0 then 1 else 0)
    \<and> violationIssue ` set violations \<subseteq> set (wrr_BlockingIssues r) \<union> set (wrr_WarningIssues r)"
proof -
  have split: "length (filter (\<lambda>v. pv_Severity v = PolicySeverityEnforce) vs)
      + length (filter (\<lambda>v. pv_Severity v \<noteq> PolicySeverityEnforce) vs) = length vs" for vs :: "'f PolicyViolation list"
    by (rule sum_length_filter_compl)
  have rec: "(case sr_RecommendationReport result of None \<Rightarrow> 0 | Some rep \<Rightarrow> length (rr_Recommendations rep)) = length recommendations"
    by (simp add: recommendations_def split: option.splits)
  show ?thesis
    unfolding deriveWorkspaceReadiness_def option.case Let_def rec violations_def [symmetric]
    by (rule exI, rule conjI, rule refl, insert split [of violations])
      (simp add: readiness_statuses filter_empty_conv, auto)
qed

end
