(* ===== verification/WorkspaceExamples.thy ===== *)
theory WorkspaceExamples
  imports WorkspacePlanCorrect
begin

text \<open>
  A workspace with one source and an inventory of three machines on which the theorems about workspaces are applied. The
  pattern engine of the examples matches an anchored, quoted name exactly and lets a star stand for any text without a slash.
\<close>

lemma QuoteMeta_Cons: "QuoteMeta (c # s) = (if c \<in> set metaChars then [backslash, c] else [c]) @ QuoteMeta s"
  by (simp add: QuoteMeta_def)

lemma QuoteMeta_eq [simp]: "QuoteMeta s = QuoteMeta t \<longleftrightarrow> s = t"
proof (induction s arbitrary: t)
  case Nil
  then show ?case by (cases t) (simp_all add: QuoteMeta_def)
next
  case (Cons c s)
  have b: "backslash \<in> set metaChars" by (simp add: metaChars_def)
  show ?case
  proof (cases t)
    case (Cons d t')
    then show ?thesis using Cons.IH [of t'] b by (auto simp: QuoteMeta_Cons)
  qed (simp add: QuoteMeta_def)
qed

definition pilotLib :: patternLib where
  "pilotLib = \<lparr>regexpCompile = (\<lambda>p. Inr (\<lambda>s. p = ''^'' @ QuoteMeta s @ ''$'')),
     filepathMatch = (\<lambda>pattern s. Inr (if pattern = ''*'' then slash \<notin> set s else pattern = s))\<rparr>"

lemma pilotLib_ok: "exactRegexp pilotLib vms" "starGlob pilotLib"
  by (auto simp: exactRegexp_def starGlob_def pilotLib_def)

definition pilotNIC :: NIC where
  "pilotNIC = \<lparr>nic_ID = ''nic-1'', nic_Name = ''eth0'', nic_MACAddress = [], nic_Network = ''VM Network'', nic_Connected = True,
     nic_IPAddresses = []\<rparr>"

definition pilotVM :: "string \<Rightarrow> string \<Rightarrow> VirtualMachine" where
  "pilotVM i name = zeroVM\<lparr>vm_ID := i, vm_Name := name, vm_NICs := [pilotNIC]\<rparr>"

lemma pilotVM_simps [simp]: "vm_ID (pilotVM i n) = i" "vm_Name (pilotVM i n) = n" "vm_NICs (pilotVM i n) = [pilotNIC]"
  by (simp_all add: pilotVM_def zeroVM_def)

definition pilotInventory :: DiscoveryResult where
  "pilotInventory = zeroDR\<lparr>dr_VMs := [pilotVM ''vm-1'' ''web'', pilotVM ''vm-2'' ''db'', pilotVM ''vm-3'' ''lab/old'']\<rparr>"

definition pilotWorkspace :: PilotWorkspace where
  "pilotWorkspace = zeroWorkspace\<lparr>wk_ID := ''ws-1'', wk_Name := ''Pilot'',
     wk_SourceConnections := [\<lparr>wsc_ID = ''src-1'', wsc_Name = ''vCenter'', wsc_Platform = PlatformVMware, wsc_Address = ''vc.local'',
       wsc_CredentialRef = [], wsc_LastSnapshotID = [], wsc_LastDiscoveredAt = 0\<rparr>],
     wk_Snapshots := [\<lparr>wss_SnapshotID = ''snap-1'', wss_SourceConnectionID = ''src-1'', wss_Source = ''vc.local'',
       wss_Platform = PlatformVMware, wss_VMCount = 3, wss_DiscoveredAt = 5\<rparr>],
     wk_TargetAssumptions := \<lparr>wta_Platform = PlatformProxmox, wta_Address = ''pve.local'', wta_CredentialRef = [],
       wta_DefaultHost = ''pve-1'', wta_DefaultStorage = ''ceph'', wta_DefaultNetwork = ''vmbr0'', wta_Notes = []\<rparr>\<rparr>"

definition pilotRequest :: workspaceJobCreateRequest where
  "pilotRequest = \<lparr>jr_Type = WorkspaceJobTypePlan, jr_RequestedBy = ''operator'', jr_SourceConnectionIDs = [],
     jr_SelectedWorkloadIDs = [''VM-2''], jr_Simulation = None\<rparr>"

lemma pilot_valid: "validateWorkspace pilotWorkspace = None" "validateWorkspaceJobRequest pilotWorkspace pilotRequest = None"
  by code_simp+

lemma pilot_inventory_ok:
  "namesApart (dr_VMs pilotInventory)" "idsNotBlank (dr_VMs pilotInventory)" "distinct (map matchKey (dr_VMs pilotInventory))"
  by code_simp+

lemma pilot_resolves: "resolveWorkload (dr_VMs pilotInventory) ''VM-2'' = Some (pilotVM ''vm-2'' ''db'')"
  by code_simp

lemma pilot_chosen: "chosen (dr_VMs pilotInventory) [''VM-2''] = {pilotVM ''vm-2'' ''db''}"
  using pilot_resolves by (auto simp: chosen_def, auto simp: pilotInventory_def zeroDR_def)

text \<open>A plan for one machine, selected by its identifier in another spelling.\<close>

theorem workspace_plan_exact_witness:
  "\<exists>spec state. buildWorkspaceMigrationSpec 9 pilotWorkspace (Some pilotInventory) [''VM-2''] = Inr spec
     \<and> ValidateSpec pilotLib (Some spec) = []
     \<and> BuildStateFromInventory pilotLib stable_perm (\<lambda>_. 9) (Some spec) (Some pilotInventory) ''m-1'' 9 = Inr state
     \<and> wm_VM ` set (ms_Workloads state) = {pilotVM ''vm-2'' ''db''}"
proof -
  have sel: "workspaceSelectedWorkloadIDs pilotWorkspace (jr_SelectedWorkloadIDs pilotRequest) = [''VM-2'']"
    by (simp add: workspaceSelectedWorkloadIDs_def pilotRequest_def)
  have "jr_Type pilotRequest = WorkspaceJobTypePlan" "wk_SourceConnections pilotWorkspace \<noteq> []" "(0 :: int) < 9"
    "TrimSpace ''m-1'' \<noteq> []" by (simp_all add: pilotRequest_def pilotWorkspace_def go_string_defs)
  from workspace_plan_exact [OF pilot_valid this(1-3) pilotLib_ok pilot_inventory_ok this(4), of stable_perm "\<lambda>_. 9" 9]
  show ?thesis unfolding sel pilot_chosen by (simp add: pilot_resolves) blast
qed

theorem workspace_default_network_witness:
  "\<exists>spec. buildWorkspaceMigrationSpec 9 pilotWorkspace (Some pilotInventory) [] = Inr spec
     \<and> snd (MapAllNICs (NewNetworkMapper (wo_NetworkMap (fst (mergedOverridesForVM pilotLib (pilotVM ''vm-1'' ''web'') (spec_Workloads spec))))
            [\<lparr>net_ID = ''n1'', net_Name = ''vmbr0'', net_Type = ''bridge'', net_VlanID = 0, net_Switch = []\<rparr>])
          (vm_NICs (pilotVM ''vm-1'' ''web''))) \<noteq> []"
proof -
  obtain spec where "buildWorkspaceMigrationSpec 9 pilotWorkspace (Some pilotInventory) [] = Inr spec"
    by (simp add: buildWorkspaceMigrationSpec_def pilotWorkspace_def buildWorkspaceSelectors_def go_string_defs platform_defs)
  from workspace_default_network [OF this, of pilotNIC "pilotVM ''vm-1'' ''web''"] this show ?thesis
    by (simp add: pilotNIC_def)
qed

definition caseInventory :: DiscoveryResult where
  "caseInventory = zeroDR\<lparr>dr_VMs := [pilotVM ''vm-1'' ''Web'', pilotVM ''vm-2'' ''web'', pilotVM ''vm-3'' ''db'']\<rparr>"

lemma case_selected:
  "map (\<lambda>k. vm_Name (the (resolveWorkload (dr_VMs caseInventory) k))) [''vm-3'', ''vm-1'', ''vm-2''] = [''db'', ''Web'', ''web'']"
  "foldKey ''Web'' = foldKey ''web''"
  by code_simp+

theorem workspace_selection_drops_witness:
  "\<exists>spec. buildWorkspaceMigrationSpec 9 pilotWorkspace (Some caseInventory) [''vm-3'', ''vm-1'', ''vm-2''] = Inr spec
     \<and> pilotVM ''vm-2'' ''web'' \<notin> set (MatchWorkloads pilotLib (dr_VMs caseInventory) (spec_Workloads spec))"
proof -
  have "\<not> isl (buildWorkspaceMigrationSpec 9 pilotWorkspace (Some caseInventory) [''vm-3'', ''vm-1'', ''vm-2''])" by code_simp
  then obtain spec where spec: "buildWorkspaceMigrationSpec 9 pilotWorkspace (Some caseInventory) [''vm-3'', ''vm-1'', ''vm-2''] = Inr spec"
    by (auto simp: isl_def) (metis sum.exhaust)
  have "''Web'' \<in> set (takeWhile (\<lambda>n. n \<noteq> vm_Name (pilotVM ''vm-2'' ''web'')) [''db'', ''Web'', ''web''])"
    "foldKey ''Web'' = foldKey (vm_Name (pilotVM ''vm-2'' ''web''))" by code_simp+
  with workspace_selection_drops [OF pilotLib_ok(1) _ spec] spec show ?thesis unfolding case_selected(1) by blast
qed

end
