(* ===== verification/WorkspaceJobs.thy ===== *)
theory WorkspaceJobs
  imports WorkspacePlan DepGraph Discovery JobExecutor
begin

text \<open>
  Background jobs of assessment workspaces, \<open>internal/api/workspaces.go\<close>: loading a job, marking it running, executing it and
  recording its outcome; recovery of jobs after a restart; cancellation. What the outside answers (the context of the job, the
  clock, identifiers, connectors) is a function of the number of the consultation, \<open>jo_tick\<close>: in particular the context may end
  at any point. The encoders of JSON are parameters. Panics of the executed code and telemetry are left out.
\<close>

section \<open>The outside\<close>

record 'st JobStore =
  js_GetWorkspaceJob :: "Context \<Rightarrow> 'st \<Rightarrow> string \<Rightarrow> string \<Rightarrow> string \<Rightarrow> (goerror + WorkspaceJob) \<times> 'st"
  js_SaveWorkspaceJob :: "nat \<Rightarrow> Context \<Rightarrow> 'st \<Rightarrow> string \<Rightarrow> WorkspaceJob \<Rightarrow> (goerror + unit) \<times> 'st"
  js_GetWorkspace :: "Context \<Rightarrow> 'st \<Rightarrow> string \<Rightarrow> string \<Rightarrow> (goerror + PilotWorkspace) \<times> 'st"
  js_UpdateWorkspace :: "nat \<Rightarrow> Context \<Rightarrow> 'st \<Rightarrow> string \<Rightarrow> PilotWorkspace \<Rightarrow> (goerror + unit) \<times> 'st"
  js_SaveDiscovery :: "nat \<Rightarrow> Context \<Rightarrow> 'st \<Rightarrow> string \<Rightarrow> DiscoveryResult option \<Rightarrow> (goerror + string) \<times> 'st"
  js_GetSnapshot :: "Context \<Rightarrow> 'st \<Rightarrow> string \<Rightarrow> string \<Rightarrow> (goerror + DiscoveryResult) \<times> 'st"
  js_SaveMigration :: "Context \<Rightarrow> 'st \<Rightarrow> string \<Rightarrow> string MigrationRecord \<Rightarrow> (goerror + unit) \<times> 'st"
  js_ListTenants :: "Context \<Rightarrow> 'st \<Rightarrow> (goerror + Tenant list) \<times> 'st"
  js_ListWorkspaces :: "Context \<Rightarrow> 'st \<Rightarrow> string \<Rightarrow> int \<Rightarrow> (goerror + PilotWorkspace list) \<times> 'st"
  js_ListWorkspaceJobs :: "Context \<Rightarrow> 'st \<Rightarrow> string \<Rightarrow> string \<Rightarrow> int \<Rightarrow> (goerror + WorkspaceJob list) \<times> 'st"

record ('st, 'f) jobEnv =
  je_store :: "'st JobStore"
  je_ctxErr :: "nat \<Rightarrow> goerror option"
  je_clock :: "nat \<Rightarrow> time"
  je_uuid :: "nat \<Rightarrow> string"
  je_catalog :: "goerror option"
  je_buildConnector :: "nat \<Rightarrow> Platform \<Rightarrow> string \<Rightarrow> string \<Rightarrow> goerror + SourceConnector"
  je_runAll :: "nat \<Rightarrow> Engine \<Rightarrow> runState"
  je_duration :: "nat \<Rightarrow> duration"
  je_backups :: "BackupDiscoveryResult option"
  je_recommendationEngine :: "'f RecommendationEngine"
  je_floats :: "'f floats"
  je_profileOrder :: "nat \<Rightarrow> Platform list \<Rightarrow> nat list"
  je_sortRecommendations :: "(string \<times> string) list \<Rightarrow> nat list"
  je_cloneInventory :: "DiscoveryResult \<Rightarrow> goerror + DiscoveryResult"
  je_patterns :: patternLib
  je_sortNames :: "string list \<Rightarrow> nat list"
  je_sortTimes :: "int list \<Rightarrow> nat list"
  je_unmarshalRequest :: "string \<Rightarrow> goerror + workspaceJobCreateRequest"
  je_marshalDiscovery :: "string list \<Rightarrow> WorkspaceSnapshot list \<Rightarrow> goerror list \<Rightarrow> goerror + string"
  je_marshalGraph :: "DependencyGraph \<Rightarrow> goerror + string"
  je_marshalSimulation :: "'f SimulationResult \<Rightarrow> goerror + string"
  je_marshalState :: "MigrationState \<Rightarrow> goerror + string"
  je_marshalSpec :: "MigrationSpec \<Rightarrow> goerror + string"
  je_marshalPreview :: "string \<Rightarrow> nat \<Rightarrow> goerror + string"
  je_marshalError :: "string \<Rightarrow> goerror + string"

record 'st jobSys =
  jo_store :: 'st
  jo_tick :: nat

definition nextTick :: "'st jobSys \<Rightarrow> 'st jobSys" where
  "nextTick sys = sys\<lparr>jo_tick := Suc (jo_tick sys)\<rparr>"

definition jobNow :: "('st, 'f) jobEnv \<Rightarrow> 'st jobSys \<Rightarrow> time \<times> 'st jobSys" where
  "jobNow e sys = (je_clock e (jo_tick sys), nextTick sys)"

text \<open>The contexts: the one of the job, and \<open>context.WithoutCancel\<close>; a call of the store.\<close>

definition storeCtx :: "('st, 'f) jobEnv \<Rightarrow> string \<Rightarrow> 'st jobSys \<Rightarrow> Context" where
  "storeCtx e tenantID sys = ContextWithTenantID \<lparr>ctx_Err = je_ctxErr e (jo_tick sys), ctx_Tenant = None\<rparr> tenantID"

definition persistCtx :: "string \<Rightarrow> Context" where
  "persistCtx tenantID = ContextWithTenantID \<lparr>ctx_Err = None, ctx_Tenant = None\<rparr> tenantID"

definition callStore :: "('st \<Rightarrow> (goerror + 'a) \<times> 'st) \<Rightarrow> 'st jobSys \<Rightarrow> (goerror + 'a) \<times> 'st jobSys" where
  "callStore f sys = (case f (jo_store sys) of (res, st) \<Rightarrow> (res, (nextTick sys)\<lparr>jo_store := st\<rparr>))"

section \<open>Recording the outcome\<close>

definition workspaceJobOutputMaxBytes :: nat where
  "workspaceJobOutputMaxBytes = 1048576"

definition workspaceJobOutputPreviewBytes :: nat where
  "workspaceJobOutputPreviewBytes = 768 * 1024"

definition workspaceJobOutputTruncateMarker :: string where
  "workspaceJobOutputTruncateMarker = newline # ''...[truncated by viaduct]''"

definition capWorkspaceJobOutput :: "('st, 'f) jobEnv \<Rightarrow> string \<Rightarrow> goerror + string \<times> bool" where
  "capWorkspaceJobOutput e output =
     (if length output = 0 then Inr ([], False)
      else if length output \<le> workspaceJobOutputMaxBytes then Inr (output, False)
      else (let previewBytes = (if length output > workspaceJobOutputPreviewBytes then take workspaceJobOutputPreviewBytes output
                                else output)
            in case je_marshalPreview e (previewBytes @ workspaceJobOutputTruncateMarker) (length output) of
                 Inl err \<Rightarrow> Inl (Wrap ''truncate workspace job output: %w'' [] err)
               | Inr payload \<Rightarrow> Inr (payload, True)))"

definition quoted :: "string \<Rightarrow> string" where
  "quoted s = CHR 0x22 # s @ [CHR 0x22]"

definition workspaceJobErrorOutput :: "('st, 'f) jobEnv \<Rightarrow> goerror \<Rightarrow> string" where
  "workspaceJobErrorOutput e failure =
     (case je_marshalError e (errorText failure) of
        Inl _ \<Rightarrow> ''{'' @ quoted ''error'' @ '':'' @ quoted ''workspace job failed'' @ ''}''
      | Inr payload \<Rightarrow> payload)"

definition workspaceJobFailurePlaceholder ::
  "('st, 'f) jobEnv \<Rightarrow> string \<Rightarrow> string \<Rightarrow> string \<Rightarrow> 'st jobSys \<Rightarrow> WorkspaceJob \<times> 'st jobSys" where
  "workspaceJobFailurePlaceholder e tenantID workspaceID jobID sys =
     (case jobNow e sys of (now, sys1) \<Rightarrow>
        (zeroJob\<lparr>wj_ID := TrimSpace jobID, wj_TenantID := TrimSpace tenantID, wj_WorkspaceID := TrimSpace workspaceID,
                 wj_RequestedAt := now, wj_UpdatedAt := now\<rparr>, sys1))"

definition failWorkspaceJob ::
  "('st, 'f) jobEnv \<Rightarrow> Context \<Rightarrow> string \<Rightarrow> WorkspaceJob \<Rightarrow> bool \<Rightarrow> goerror \<Rightarrow> 'st jobSys \<Rightarrow> (goerror + unit) \<times> 'st jobSys" where
  "failWorkspaceJob e ctx tenantID job retryable failure sys =
     (case jobNow e sys of (now, sys1) \<Rightarrow>
        callStore (\<lambda>st. js_SaveWorkspaceJob (je_store e) (jo_tick sys1) ctx st tenantID
          (job\<lparr>wj_Status := WorkspaceJobStatusFailed, wj_Retryable := retryable, wj_Truncated := False,
               wj_Error := errorText failure, wj_Message := errorText failure,
               wj_OutputJSON := workspaceJobErrorOutput e failure, wj_UpdatedAt := now, wj_CompletedAt := now\<rparr>)) sys1)"

text \<open>\<open>recordWorkspaceJobFailure\<close> adds a log line to \<open>failWorkspaceJob\<close>; the callers that pass the context of the job do so
  with the context as it is when the failure is saved.\<close>

definition recordWorkspaceJobFailure ::
  "('st, 'f) jobEnv \<Rightarrow> ('st jobSys \<Rightarrow> Context) \<Rightarrow> string \<Rightarrow> WorkspaceJob \<Rightarrow> bool \<Rightarrow> goerror \<Rightarrow> 'st jobSys
   \<Rightarrow> (goerror + unit) \<times> 'st jobSys" where
  "recordWorkspaceJobFailure e ctx tenantID job retryable failure sys =
     failWorkspaceJob e (ctx (nextTick sys)) tenantID job retryable failure sys"

text \<open>\<open>errors.Is\<close>: the error, one that it wraps, or one of a joined list.\<close>

fun errorsIs :: "goerror \<Rightarrow> goerror \<Rightarrow> bool" where
  "errorsIs (Errorf f args) target = (Errorf f args = target)"
| "errorsIs (ErrorfTime f t) target = (ErrorfTime f t = target)"
| "errorsIs (Wrap f args err) target = (Wrap f args err = target \<or> errorsIs err target)"
| "errorsIs (ErrJoin errs) target = (ErrJoin errs = target \<or> (\<exists>err \<in> set errs. errorsIs err target))"

definition isRetryableWorkspaceJobError :: "goerror \<Rightarrow> bool" where
  "isRetryableWorkspaceJobError err =
     (if errorsIs err DeadlineExceeded then True
      else (let message = ToLower (TrimSpace (errorText err)) in Contains message ''timeout'' \<or> Contains message ''tempor''))"

section \<open>The inventory of a workspace\<close>

definition appendInventory :: "DiscoveryResult \<Rightarrow> DiscoveryResult \<Rightarrow> DiscoveryResult" where
  "appendInventory merged result =
     merged\<lparr>dr_VMs := dr_VMs merged @ dr_VMs result, dr_Networks := dr_Networks merged @ dr_Networks result,
            dr_Datastores := dr_Datastores merged @ dr_Datastores result, dr_Hosts := dr_Hosts merged @ dr_Hosts result,
            dr_Clusters := dr_Clusters merged @ dr_Clusters result,
            dr_ResourcePools := dr_ResourcePools merged @ dr_ResourcePools result\<rparr>"

fun loadSnapshots ::
  "('st, 'f) jobEnv \<Rightarrow> string \<Rightarrow> WorkspaceSnapshot list \<Rightarrow> DiscoveryResult \<Rightarrow> 'st jobSys \<Rightarrow> (goerror + DiscoveryResult) \<times> 'st jobSys" where
  "loadSnapshots e tenantID [] merged sys = (Inr merged, sys)"
| "loadSnapshots e tenantID (snapshot # snapshots) merged sys =
     (case callStore (\<lambda>st. js_GetSnapshot (je_store e) (storeCtx e tenantID sys) st tenantID (wss_SnapshotID snapshot)) sys of
        (Inl err, sys1) \<Rightarrow> (Inl (Wrap ''load workspace snapshot %s: %w'' [wss_SnapshotID snapshot] err), sys1)
      | (Inr result, sys1) \<Rightarrow> loadSnapshots e tenantID snapshots (appendInventory merged result) sys1)"

definition workspaceInventory ::
  "('st, 'f) jobEnv \<Rightarrow> string \<Rightarrow> PilotWorkspace \<Rightarrow> 'st jobSys \<Rightarrow> (goerror + DiscoveryResult) \<times> 'st jobSys" where
  "workspaceInventory e tenantID workspace sys =
     (if length (wk_Snapshots workspace) = 0
      then (case jobNow e sys of (now, sys1) \<Rightarrow> (Inr (zeroDR\<lparr>dr_DiscoveredAt := now\<rparr>), sys1))
      else (let items = sort_slice (je_sortTimes e) (\<lambda>s. - wss_DiscoveredAt s) (wk_Snapshots workspace)
            in loadSnapshots e tenantID items (zeroDR\<lparr>dr_DiscoveredAt := wss_DiscoveredAt (hd items)\<rparr>) sys))"

section \<open>Executing a job\<close>

text \<open>An executed job gives its output and message, or an error.\<close>

type_synonym jobResult = "goerror + string \<times> string"

definition decodeWorkspaceJobRequest :: "('st, 'f) jobEnv \<Rightarrow> string \<Rightarrow> goerror + workspaceJobCreateRequest" where
  "decodeWorkspaceJobRequest e payload =
     (if length payload = 0
      then Inr \<lparr>jr_Type = [], jr_RequestedBy = [], jr_SourceConnectionIDs = [], jr_SelectedWorkloadIDs = [], jr_Simulation = None\<rparr>
      else (case je_unmarshalRequest e payload of
              Inl err \<Rightarrow> Inl (Wrap ''decode workspace job input: %w'' [] err)
            | Inr request \<Rightarrow> Inr request))"

text \<open>\<open>UpdateWorkspace\<close> at the end of every kind of job.\<close>

definition updateWorkspace ::
  "('st, 'f) jobEnv \<Rightarrow> string \<Rightarrow> PilotWorkspace \<Rightarrow> 'st jobSys \<Rightarrow> (goerror + unit) \<times> 'st jobSys" where
  "updateWorkspace e tenantID workspace sys =
     callStore (\<lambda>st. js_UpdateWorkspace (je_store e) (jo_tick sys) (storeCtx e tenantID sys) st tenantID workspace) sys"

fun addSources ::
  "('st, 'f) jobEnv \<Rightarrow> WorkspaceSourceConnection list \<Rightarrow> Engine \<Rightarrow> (string \<times> string) list \<Rightarrow> 'st jobSys
   \<Rightarrow> (goerror + Engine \<times> (string \<times> string) list) \<times> 'st jobSys" where
  "addSources e [] engine addresses sys = (Inr (engine, addresses), sys)"
| "addSources e (source # sources) engine addresses sys =
     (case je_buildConnector e (jo_tick sys) (wsc_Platform source) (wsc_Address source) (wsc_CredentialRef source) of
        Inl err \<Rightarrow> (Inl (Wrap ''workspace discovery: build %s connector: %w'' [wsc_Platform source] err), nextTick sys)
      | Inr connector \<Rightarrow>
          addSources e sources (AddSource (wsc_ID source) (Some connector) engine)
            (AList.update (ToLower (TrimSpace (wsc_Address source))) (wsc_ID source) addresses) (nextTick sys))"

fun saveSources ::
  "('st, 'f) jobEnv \<Rightarrow> string \<Rightarrow> (string \<times> string) list \<Rightarrow> DiscoveryResult list \<Rightarrow> 'st jobSys
   \<Rightarrow> (goerror + WorkspaceSnapshot list) \<times> 'st jobSys" where
  "saveSources e tenantID addresses [] sys = (Inr [], sys)"
| "saveSources e tenantID addresses (result # results) sys =
     (case callStore (\<lambda>st. js_SaveDiscovery (je_store e) (jo_tick sys) (storeCtx e tenantID sys) st tenantID (Some result)) sys of
        (Inl err, sys1) \<Rightarrow> (Inl (Wrap ''workspace discovery: save discovery snapshot: %w'' [] err), sys1)
      | (Inr snapshotID, sys1) \<Rightarrow>
          (case saveSources e tenantID addresses results sys1 of
             (Inl err, sys2) \<Rightarrow> (Inl err, sys2)
           | (Inr snapshots, sys2) \<Rightarrow>
               (Inr (\<lparr>wss_SnapshotID = snapshotID,
                      wss_SourceConnectionID = (case map_of addresses (ToLower (TrimSpace (dr_Source result))) of
                                                  None \<Rightarrow> [] | Some sourceID \<Rightarrow> sourceID),
                      wss_Source = dr_Source result, wss_Platform = dr_Platform result, wss_VMCount = int (length (dr_VMs result)),
                      wss_DiscoveredAt = dr_DiscoveredAt result\<rparr> # snapshots), sys2)))"

definition applySnapshots :: "WorkspaceSnapshot list \<Rightarrow> PilotWorkspace \<Rightarrow> PilotWorkspace" where
  "applySnapshots snapshots workspace =
     (let w = fold (\<lambda>snapshot w. updateWorkspaceSourceConnectionDiscovery snapshot (upsertWorkspaceSnapshot snapshot w)) snapshots
                workspace
      in if length snapshots > 0
         then w\<lparr>wk_Status := advanceWorkspaceStatus (wk_Status w) PilotWorkspaceStatusDiscovered\<rparr> else w)"

definition finishDiscovery ::
  "('st, 'f) jobEnv \<Rightarrow> string \<Rightarrow> PilotWorkspace \<Rightarrow> MergedResult \<Rightarrow> goerror option \<Rightarrow> WorkspaceSnapshot list \<Rightarrow> 'st jobSys
   \<Rightarrow> jobResult \<times> 'st jobSys" where
  "finishDiscovery e tenantID workspace merged runErr snapshots sys =
     (case updateWorkspace e tenantID (applySnapshots snapshots workspace) sys of
        (Inl err, sys1) \<Rightarrow> (Inl (Wrap ''workspace discovery: update workspace: %w'' [] err), sys1)
      | (Inr _, sys1) \<Rightarrow>
          (case je_marshalDiscovery e (map wss_SnapshotID snapshots) snapshots (mg_Errors merged) of
             Inl err \<Rightarrow> (Inl (Wrap ''workspace discovery: marshal output: %w'' [] err), sys1)
           | Inr output \<Rightarrow>
               (case runErr of
                  Some err \<Rightarrow> (Inl (Wrap ''workspace discovery: %w'' [] err), sys1)
                | None \<Rightarrow> (Inr (output, ''Discovery saved '' @ itoa (length snapshots) @ '' snapshot(s).''), sys1))))"

definition executeWorkspaceDiscoveryJob ::
  "('st, 'f) jobEnv \<Rightarrow> string \<Rightarrow> PilotWorkspace \<Rightarrow> workspaceJobCreateRequest \<Rightarrow> 'st jobSys \<Rightarrow> jobResult \<times> 'st jobSys" where
  "executeWorkspaceDiscoveryJob e tenantID workspace request sys =
     (let sourceConnections = workspaceSourceConnections workspace (jr_SourceConnectionIDs request) in
      if length sourceConnections = 0
      then (Inl (Errorf ''workspace discovery: at least one source connection is required'' []), sys)
      else (case je_catalog e of
              Some err \<Rightarrow> (Inl (Wrap ''workspace discovery: %w'' [] (Wrap ''open connector catalog: %w'' [] err)), sys)
            | None \<Rightarrow>
                (case addSources e sourceConnections NewEngine [] sys of
                   (Inl err, sys1) \<Rightarrow> (Inl err, sys1)
                 | (Inr (engine, addresses), sys1) \<Rightarrow>
                     (case finishRun engine (je_duration e (jo_tick sys1)) (je_runAll e (jo_tick sys1) engine) of
                        ((merged, runErr), _) \<Rightarrow>
                          (case saveSources e tenantID addresses (mg_Sources merged) (nextTick sys1) of
                             (Inl err, sys2) \<Rightarrow> (Inl err, sys2)
                           | (Inr snapshots, sys2) \<Rightarrow> finishDiscovery e tenantID workspace merged runErr snapshots sys2)))))"

definition executeWorkspaceGraphJob ::
  "('st, 'f) jobEnv \<Rightarrow> string \<Rightarrow> PilotWorkspace \<Rightarrow> 'st jobSys \<Rightarrow> jobResult \<times> 'st jobSys" where
  "executeWorkspaceGraphJob e tenantID workspace sys =
     (case workspaceInventory e tenantID workspace sys of
        (Inl err, sys1) \<Rightarrow> (Inl (Wrap ''workspace graph: %w'' [] err), sys1)
      | (Inr inventory, sys1) \<Rightarrow>
          (let graph = BuildGraph (Some inventory) (je_backups e);
               nodes = length (dg_Nodes graph); edges = length (dg_Edges graph)
           in case je_marshalGraph e graph of
                Inl err \<Rightarrow> (Inl (Wrap ''workspace graph: %w'' [] err), sys1)
              | Inr output \<Rightarrow>
                  (case jobNow e sys1 of (now, sys2) \<Rightarrow>
                   (case updateWorkspace e tenantID (workspace\<lparr>wk_Graph := Some \<lparr>wga_GeneratedAt = now, wga_NodeCount = int nodes,
                           wga_EdgeCount = int edges, wga_RawJSON = output\<rparr>,
                           wk_Status := advanceWorkspaceStatus (wk_Status workspace) PilotWorkspaceStatusGraphReady\<rparr>) sys2 of
                      (Inl err, sys3) \<Rightarrow> (Inl (Wrap ''workspace graph: update workspace: %w'' [] err), sys3)
                    | (Inr _, sys3) \<Rightarrow>
                        (Inr (output, ''Dependency graph generated with '' @ itoa nodes @ '' nodes and '' @ itoa edges @ '' edges.''),
                         sys3)))))"

definition simulationScope :: "PilotWorkspace \<Rightarrow> workspaceJobCreateRequest \<Rightarrow> SimulationRequest" where
  "simulationScope workspace request =
     (case jr_Simulation request of
        None \<Rightarrow> (let selectedIDs = workspaceSelectedWorkloadIDs workspace (jr_SelectedWorkloadIDs request)
                 in \<lparr>sq_TargetPlatform = wta_Platform (wk_TargetAssumptions workspace), sq_VMIDs = selectedIDs,
                     sq_IncludeAll = (length selectedIDs = 0), sq_Waivers = []\<rparr>)
      | Some simulation \<Rightarrow>
          if length (jr_SelectedWorkloadIDs request) > 0
          then simulation\<lparr>sq_VMIDs := jr_SelectedWorkloadIDs request, sq_IncludeAll := False\<rparr> else simulation)"

definition applySimulation ::
  "workspaceJobCreateRequest \<Rightarrow> SimulationRequest \<Rightarrow> 'f SimulationResult \<Rightarrow> string \<Rightarrow> time \<Rightarrow> time \<Rightarrow> nat \<Rightarrow> PilotWorkspace
   \<Rightarrow> PilotWorkspace" where
  "applySimulation request simulationRequest result output now now2 inventorySize workspace =
     workspace\<lparr>wk_SelectedWorkloadIDs :=
         (if length (jr_SelectedWorkloadIDs request) > 0 then jr_SelectedWorkloadIDs request
          else if length (wk_SelectedWorkloadIDs workspace) = 0 \<and> \<not> sq_IncludeAll simulationRequest then sq_VMIDs simulationRequest
          else wk_SelectedWorkloadIDs workspace),
       wk_Simulation := Some \<lparr>wsa_GeneratedAt = now, wsa_TargetPlatform = sr_TargetPlatform result,
         wsa_SelectedWorkloadIDs = sq_VMIDs simulationRequest, wsa_MovedVMs = sr_MovedVMs result, wsa_RawJSON = output\<rparr>,
       wk_Readiness := deriveWorkspaceReadiness now2 (Some result) (length (sq_VMIDs simulationRequest))
         (sq_IncludeAll simulationRequest) inventorySize,
       wk_Status := advanceWorkspaceStatus (wk_Status workspace) PilotWorkspaceStatusSimulated\<rparr>"

definition executeWorkspaceSimulationJob ::
  "('st, 'f) jobEnv \<Rightarrow> string \<Rightarrow> PilotWorkspace \<Rightarrow> workspaceJobCreateRequest \<Rightarrow> 'st jobSys \<Rightarrow> jobResult \<times> 'st jobSys" where
  "executeWorkspaceSimulationJob e tenantID workspace request sys =
     (case workspaceInventory e tenantID workspace sys of
        (Inl err, sys1) \<Rightarrow> (Inl (Wrap ''workspace simulation: %w'' [] err), sys1)
      | (Inr inventory, sys1) \<Rightarrow>
          (let simulationRequest = simulationScope workspace request in
           if sq_TargetPlatform simulationRequest = []
           then (Inl (Errorf ''workspace simulation: target platform is required'' []), sys1)
           else (case RecommendationEngine_Simulate (je_patterns e) (je_floats e) (je_profileOrder e) (je_sortRecommendations e)
                        (je_cloneInventory e) (\<lambda>i. je_clock e (jo_tick sys1 + i)) (je_recommendationEngine e) (Some inventory)
                        simulationRequest of
                   Inl err \<Rightarrow> (Inl (Wrap ''workspace simulation: %w'' [] err), nextTick sys1)
                 | Inr result \<Rightarrow>
                     (case je_marshalSimulation e result of
                        Inl err \<Rightarrow> (Inl (Wrap ''workspace simulation: %w'' [] err), nextTick sys1)
                      | Inr output \<Rightarrow>
                          (case jobNow e (nextTick sys1) of (now, sys2) \<Rightarrow>
                           (case jobNow e sys2 of (now2, sys3) \<Rightarrow>
                            (case updateWorkspace e tenantID (applySimulation request simulationRequest result output now now2
                                    (length (dr_VMs inventory)) workspace) sys3 of
                               (Inl err, sys4) \<Rightarrow> (Inl (Wrap ''workspace simulation: update workspace: %w'' [] err), sys4)
                             | (Inr _, sys4) \<Rightarrow>
                                 (Inr (output, ''Simulation completed for '' @ itoaInt (sr_MovedVMs result) @ '' workload(s).''),
                                  sys4))))))))"

definition planRecord :: "string \<Rightarrow> string \<Rightarrow> MigrationState \<Rightarrow> string \<Rightarrow> string MigrationRecord" where
  "planRecord tenantID migrationID state statePayload =
     \<lparr>mr_ID = migrationID, mr_TenantID = tenantID, mr_SpecName = ms_SpecName state, mr_Phase = phaseString (ms_Phase state),
      mr_StartedAt = ms_StartedAt state, mr_UpdatedAt = ms_UpdatedAt state, mr_CompletedAt = 0, mr_RawJSON = statePayload\<rparr>"

definition applyPlan ::
  "string \<Rightarrow> time \<Rightarrow> string \<Rightarrow> MigrationSpec \<Rightarrow> MigrationState \<Rightarrow> string list \<Rightarrow> string \<Rightarrow> string \<Rightarrow> PilotWorkspace \<Rightarrow> PilotWorkspace" where
  "applyPlan migrationID generatedAt uuid spec state selectedIDs specPayload statePayload workspace =
     (let w1 = (if length selectedIDs > 0 then workspace\<lparr>wk_SelectedWorkloadIDs := selectedIDs\<rparr> else workspace);
          w2 = w1\<lparr>wk_SavedPlan := Some \<lparr>wsp_MigrationID = migrationID, wsp_GeneratedAt = generatedAt, wsp_SpecName = spec_Name spec,
                 wsp_SourcePlatform = src_Platform (spec_Source spec), wsp_TargetPlatform = tgt_Platform (spec_Target spec),
                 wsp_WorkloadCount = int (length (ms_Workloads state)), wsp_SelectedWorkloadIDs = selectedIDs,
                 wsp_SpecJSON = specPayload, wsp_StateJSON = statePayload\<rparr>\<rparr>;
          w3 = syncWorkspacePlanApproval uuid generatedAt w2
      in w3\<lparr>wk_Status := advanceWorkspaceStatus (wk_Status w3) PilotWorkspaceStatusPlanned\<rparr>)"

text \<open>The last part of \<open>executeWorkspacePlanJob\<close>, once the state is built.\<close>

definition savePlan ::
  "('st, 'f) jobEnv \<Rightarrow> string \<Rightarrow> PilotWorkspace \<Rightarrow> string list \<Rightarrow> string \<Rightarrow> time \<Rightarrow> MigrationSpec \<Rightarrow> MigrationState \<Rightarrow> 'st jobSys
   \<Rightarrow> jobResult \<times> 'st jobSys" where
  "savePlan e tenantID workspace selectedIDs migrationID generatedAt spec state sys =
     (case je_marshalState e state of
        Inl err \<Rightarrow> (Inl (Wrap ''workspace plan: marshal migration state: %w'' [] err), sys)
      | Inr statePayload \<Rightarrow>
          (case callStore (\<lambda>st. js_SaveMigration (je_store e) (storeCtx e tenantID sys) st tenantID
                  (planRecord tenantID migrationID state statePayload)) sys of
             (Inl err, sys1) \<Rightarrow> (Inl (Wrap ''workspace plan: save migration record: %w'' [] err), sys1)
           | (Inr _, sys1) \<Rightarrow>
               (case je_marshalSpec e spec of
                  Inl err \<Rightarrow> (Inl (Wrap ''workspace plan: marshal migration spec: %w'' [] err), sys1)
                | Inr specPayload \<Rightarrow>
                    (case updateWorkspace e tenantID (applyPlan migrationID generatedAt (je_uuid e (jo_tick sys1)) spec state
                            selectedIDs specPayload statePayload workspace) (nextTick sys1) of
                       (Inl err, sys2) \<Rightarrow> (Inl (Wrap ''workspace plan: update workspace: %w'' [] err), sys2)
                     | (Inr _, sys2) \<Rightarrow>
                         (Inr (statePayload, ''Saved migration plan '' @ migrationID @ '' with '' @ itoa (length (ms_Workloads state))
                                 @ '' workload(s).''), sys2)))))"

definition executeWorkspacePlanJob ::
  "('st, 'f) jobEnv \<Rightarrow> string \<Rightarrow> PilotWorkspace \<Rightarrow> workspaceJobCreateRequest \<Rightarrow> 'st jobSys \<Rightarrow> jobResult \<times> 'st jobSys" where
  "executeWorkspacePlanJob e tenantID workspace request sys =
     (case workspaceInventory e tenantID workspace sys of
        (Inl err, sys1) \<Rightarrow> (Inl (Wrap ''workspace plan: %w'' [] err), sys1)
      | (Inr inventory, sys1) \<Rightarrow>
          (let selectedIDs = workspaceSelectedWorkloadIDs workspace (jr_SelectedWorkloadIDs request) in
           case jobNow e sys1 of (approvedAt, sys2) \<Rightarrow>
           (case buildWorkspaceMigrationSpec approvedAt workspace (Some inventory) selectedIDs of
              Inl err \<Rightarrow> (Inl (Wrap ''workspace plan: %w'' [] err), sys2)
            | Inr spec \<Rightarrow>
                (let migrationID = je_uuid e (jo_tick sys2) in
                 case jobNow e (nextTick sys2) of (generatedAt, sys3) \<Rightarrow>
                 (case BuildStateFromInventory (je_patterns e) (je_sortNames e) (\<lambda>i. je_clock e (jo_tick sys3 + i)) (Some spec)
                         (Some inventory) migrationID generatedAt of
                    Inl err \<Rightarrow> (Inl (Wrap ''workspace plan: %w'' [] err), nextTick sys3)
                  | Inr state \<Rightarrow> savePlan e tenantID workspace selectedIDs migrationID generatedAt spec state (nextTick sys3))))))"

section \<open>Running a job\<close>

definition executeJob ::
  "('st, 'f) jobEnv \<Rightarrow> string \<Rightarrow> WorkspaceJob \<Rightarrow> PilotWorkspace \<Rightarrow> workspaceJobCreateRequest \<Rightarrow> 'st jobSys \<Rightarrow> jobResult \<times> 'st jobSys" where
  "executeJob e tenantID job workspace request sys =
     (if wj_Type job = WorkspaceJobTypeDiscovery then executeWorkspaceDiscoveryJob e tenantID workspace request sys
      else if wj_Type job = WorkspaceJobTypeGraph then executeWorkspaceGraphJob e tenantID workspace sys
      else if wj_Type job = WorkspaceJobTypeSimulation then executeWorkspaceSimulationJob e tenantID workspace request sys
      else if wj_Type job = WorkspaceJobTypePlan then executeWorkspacePlanJob e tenantID workspace request sys
      else (Inl (Errorf ''unsupported workspace job type %q'' [wj_Type job]), sys))"

definition finishJob ::
  "('st, 'f) jobEnv \<Rightarrow> string \<Rightarrow> WorkspaceJob \<Rightarrow> jobResult \<times> 'st jobSys \<Rightarrow> 'st jobSys" where
  "finishJob e tenantID job executed =
     (case executed of
        (Inl err, sys) \<Rightarrow>
          snd (recordWorkspaceJobFailure e (storeCtx e tenantID) tenantID job (isRetryableWorkspaceJobError err) err sys)
      | (Inr (output0, message), sys) \<Rightarrow>
          (case capWorkspaceJobOutput e output0 of
             Inl err \<Rightarrow> snd (recordWorkspaceJobFailure e (storeCtx e tenantID) tenantID job False err sys)
           | Inr (output, truncated) \<Rightarrow>
               (case jobNow e sys of (now, sys1) \<Rightarrow>
                (let job1 = job\<lparr>wj_Status := WorkspaceJobStatusSucceeded, wj_Message := message, wj_Error := [], wj_Retryable := False,
                        wj_Truncated := truncated, wj_OutputJSON := output, wj_UpdatedAt := now, wj_CompletedAt := now\<rparr>
                 in case callStore (\<lambda>st. js_SaveWorkspaceJob (je_store e) (jo_tick sys1) (storeCtx e tenantID sys1) st tenantID job1)
                         sys1 of
                      (Inr _, sys2) \<Rightarrow> sys2
                    | (Inl err, sys2) \<Rightarrow>
                        snd (recordWorkspaceJobFailure e (storeCtx e tenantID) tenantID job1 True
                               (Wrap ''persist workspace job %s result: %w'' [wj_ID job1] err) sys2)))))"

definition startJob ::
  "('st, 'f) jobEnv \<Rightarrow> string \<Rightarrow> WorkspaceJob \<Rightarrow> PilotWorkspace \<Rightarrow> 'st jobSys \<Rightarrow> 'st jobSys" where
  "startJob e tenantID job0 workspace sys =
     (case jobNow e sys of (now, sys1) \<Rightarrow>
      (let job = job0\<lparr>wj_Status := WorkspaceJobStatusRunning, wj_StartedAt := now, wj_UpdatedAt := now,
                      wj_Message := workspaceJobRunningMessage (wj_Type job0)\<rparr>
       in case callStore (\<lambda>st. js_SaveWorkspaceJob (je_store e) (jo_tick sys1) (storeCtx e tenantID sys1) st tenantID job) sys1 of
            (Inl err, sys2) \<Rightarrow>
              snd (recordWorkspaceJobFailure e (storeCtx e tenantID) tenantID job True
                     (Wrap ''mark workspace job %s running: %w'' [wj_ID job] err) sys2)
          | (Inr _, sys2) \<Rightarrow>
              (case decodeWorkspaceJobRequest e (wj_InputJSON job) of
                 Inl err \<Rightarrow> snd (recordWorkspaceJobFailure e (storeCtx e tenantID) tenantID job False err sys2)
               | Inr request \<Rightarrow> finishJob e tenantID job (executeJob e tenantID job workspace request sys2))))"

definition runWorkspaceJob ::
  "('st, 'f) jobEnv \<Rightarrow> string \<Rightarrow> string \<Rightarrow> string \<Rightarrow> 'st jobSys \<Rightarrow> 'st jobSys" where
  "runWorkspaceJob e tenantID workspaceID jobID sys0 =
     (case workspaceJobFailurePlaceholder e tenantID workspaceID jobID sys0 of (_, sys) \<Rightarrow>
      (case callStore (\<lambda>st. js_GetWorkspaceJob (je_store e) (storeCtx e tenantID sys) st tenantID workspaceID jobID) sys of
         (Inl err, sys1) \<Rightarrow>
           (case workspaceJobFailurePlaceholder e tenantID workspaceID jobID sys1 of (placeholder, sys2) \<Rightarrow>
              snd (recordWorkspaceJobFailure e (storeCtx e tenantID) tenantID placeholder False
                     (Wrap ''load workspace job %s: %w'' [jobID] err) sys2))
       | (Inr job, sys1) \<Rightarrow>
           if wj_Status job \<noteq> WorkspaceJobStatusQueued \<and> wj_Status job \<noteq> WorkspaceJobStatusRunning then sys1
           else if je_ctxErr e (jo_tick sys1) \<noteq> None
           then snd (recordWorkspaceJobFailure e (\<lambda>_. persistCtx tenantID) tenantID job True (Errorf ''workspace job canceled'' [])
                       (nextTick sys1))
           else (case callStore (\<lambda>st. js_GetWorkspace (je_store e) (storeCtx e tenantID (nextTick sys1)) st tenantID workspaceID) (nextTick sys1) of
                   (Inl err, sys2) \<Rightarrow>
                     snd (recordWorkspaceJobFailure e (storeCtx e tenantID) tenantID job False
                            (Wrap ''load workspace %s: %w'' [workspaceID] err) sys2)
                 | (Inr workspace, sys2) \<Rightarrow> startJob e tenantID job workspace sys2)))"

end
