(* ===== verification/WorkspaceHandlers.thy ===== *)
theory WorkspaceHandlers
  imports WorkspaceJobs
begin

text \<open>
  The handlers of \<open>internal/api/workspaces.go\<close> that change workspaces and their jobs: creating, updating and deleting a
  workspace, queueing and cancelling a job, recovering jobs after a restart, and the registry of cancel functions. A body that
  could not be decoded is the error of the decoder; a response is its status and body. The events handed to
  \<open>recordAuditEvent\<close> are collected in \<open>ap_audit\<close>; tracing and log lines are left out.
\<close>

record workspaceCreateRequest =
  cr_ID :: string
  cr_Name :: string
  cr_Description :: string
  cr_SourceConnections :: "WorkspaceSourceConnection list"
  cr_SelectedWorkloadIDs :: "string list"
  cr_TargetAssumptions :: WorkspaceTargetAssumptions
  cr_PlanSettings :: WorkspacePlanSettings
  cr_Approvals :: "WorkspaceApproval list"
  cr_Notes :: "WorkspaceNote list"

record workspaceUpdateRequest =
  ur_Name :: "string option"
  ur_Description :: "string option"
  ur_SourceConnections :: "WorkspaceSourceConnection list option"
  ur_SelectedWorkloadIDs :: "string list option"
  ur_TargetAssumptions :: "WorkspaceTargetAssumptions option"
  ur_PlanSettings :: "WorkspacePlanSettings option"
  ur_Approvals :: "WorkspaceApproval list option"
  ur_Notes :: "WorkspaceNote list option"

datatype responseBody =
    NoBody
  | WorkspaceBody PilotWorkspace
  | JobBody WorkspaceJob
  | InvalidBody requestValidationError
  | ErrorBody string goerror

type_synonym response = "nat \<times> responseBody"

text \<open>The operations of the store that only the handlers use, the executor, and the state of the server.\<close>

record ('st, 'f) apiEnv =
  av_job :: "('st, 'f) jobEnv"
  av_CreateWorkspace :: "nat \<Rightarrow> Context \<Rightarrow> 'st \<Rightarrow> string \<Rightarrow> PilotWorkspace \<Rightarrow> (goerror + unit) \<times> 'st"
  av_DeleteWorkspace :: "Context \<Rightarrow> 'st \<Rightarrow> string \<Rightarrow> string \<Rightarrow> (goerror + unit) \<times> 'st"
  av_enqueue :: "(nat \<Rightarrow> workspaceJobTask \<Rightarrow> goerror option) option"
  av_marshalRequest :: "workspaceJobCreateRequest \<Rightarrow> goerror + string"
  av_actor :: string
  av_requestID :: string

record 'st apiSys =
  ap_sys :: "'st jobSys"
  ap_cancels :: "string list"
  ap_audit :: "AuditEvent list"

definition liftCall :: "('st jobSys \<Rightarrow> 'a \<times> 'st jobSys) \<Rightarrow> 'st apiSys \<Rightarrow> 'a \<times> 'st apiSys" where
  "liftCall f api = (case f (ap_sys api) of (res, sys) \<Rightarrow> (res, api\<lparr>ap_sys := sys\<rparr>))"

definition requestCtx :: "('st, 'f) apiEnv \<Rightarrow> string \<Rightarrow> 'st apiSys \<Rightarrow> Context" where
  "requestCtx a tenantID api = storeCtx (av_job a) tenantID (ap_sys api)"

definition auditWorkspace ::
  "string \<Rightarrow> string \<Rightarrow> string \<Rightarrow> (string \<times> string) list \<Rightarrow> 'st apiSys \<Rightarrow> 'st apiSys" where
  "auditWorkspace action resource message details api =
     api\<lparr>ap_audit := ap_audit api @ [\<lparr>ae_ID = [], ae_TenantID = [], ae_Actor = [], ae_RequestID = [], ae_Category = ''workspace'',
       ae_Action = action, ae_Resource = resource, ae_Outcome = AuditOutcomeSuccess, ae_Message = message, ae_Details = details,
       ae_CreatedAt = 0\<rparr>]\<rparr>"

section \<open>The registry of cancel functions and the queue\<close>

definition registerWorkspaceJobCancel :: "string \<Rightarrow> string \<Rightarrow> string \<Rightarrow> 'st apiSys \<Rightarrow> 'st apiSys" where
  "registerWorkspaceJobCancel tenantID workspaceID jobID api =
     api\<lparr>ap_cancels := List.insert (workspaceJobCancelKey tenantID workspaceID jobID) (ap_cancels api)\<rparr>"

definition unregisterWorkspaceJobCancel :: "string \<Rightarrow> string \<Rightarrow> string \<Rightarrow> 'st apiSys \<Rightarrow> 'st apiSys" where
  "unregisterWorkspaceJobCancel tenantID workspaceID jobID api =
     api\<lparr>ap_cancels := removeAll (workspaceJobCancelKey tenantID workspaceID jobID) (ap_cancels api)\<rparr>"

definition cancelWorkspaceJob :: "string \<Rightarrow> string \<Rightarrow> string \<Rightarrow> 'st apiSys \<Rightarrow> bool \<times> 'st apiSys" where
  "cancelWorkspaceJob tenantID workspaceID jobID api =
     (workspaceJobCancelKey tenantID workspaceID jobID \<in> set (ap_cancels api),
      unregisterWorkspaceJobCancel tenantID workspaceID jobID api)"

definition enqueueWorkspaceJob :: "('st, 'f) apiEnv \<Rightarrow> WorkspaceJob \<Rightarrow> 'st apiSys \<Rightarrow> goerror option \<times> 'st apiSys" where
  "enqueueWorkspaceJob a job api =
     (case av_enqueue a of
        None \<Rightarrow> (Some (Errorf ''workspace job executor is not configured'' []), api)
      | Some enqueue \<Rightarrow>
          (let api1 = registerWorkspaceJobCancel (wj_TenantID job) (wj_WorkspaceID job) (wj_ID job) api;
               task = \<lparr>tk_tenantID = wj_TenantID job, tk_workspaceID = wj_WorkspaceID job, tk_jobID = wj_ID job\<rparr>;
               api2 = api1\<lparr>ap_sys := nextTick (ap_sys api1)\<rparr>
           in case enqueue (jo_tick (ap_sys api1)) task of
                None \<Rightarrow> (None, api2)
              | Some err \<Rightarrow>
                  (Some err, unregisterWorkspaceJobCancel (wj_TenantID job) (wj_WorkspaceID job) (wj_ID job) api2)))"

section \<open>Workspaces\<close>

definition requestedWorkspace :: "string \<Rightarrow> string \<Rightarrow> workspaceCreateRequest \<Rightarrow> PilotWorkspace" where
  "requestedWorkspace uuid tenantID request =
     zeroWorkspace\<lparr>wk_ID := (if TrimSpace (cr_ID request) = [] then uuid else TrimSpace (cr_ID request)), wk_TenantID := tenantID,
       wk_Name := TrimSpace (cr_Name request), wk_Description := TrimSpace (cr_Description request),
       wk_Status := PilotWorkspaceStatusDraft, wk_SourceConnections := cr_SourceConnections request,
       wk_SelectedWorkloadIDs := cr_SelectedWorkloadIDs request, wk_TargetAssumptions := cr_TargetAssumptions request,
       wk_PlanSettings := cr_PlanSettings request, wk_Approvals := cr_Approvals request, wk_Notes := cr_Notes request\<rparr>"

definition createWorkspace ::
  "('st, 'f) apiEnv \<Rightarrow> string \<Rightarrow> goerror + workspaceCreateRequest \<Rightarrow> 'st apiSys \<Rightarrow> response \<times> 'st apiSys" where
  "createWorkspace a tenantID body api0 =
     (case body of
        Inl err \<Rightarrow> ((400, ErrorBody ''invalid_request'' (Wrap ''decode workspace request: %w'' [] err)), api0)
      | Inr request \<Rightarrow>
          (let workspace = requestedWorkspace (je_uuid (av_job a) (jo_tick (ap_sys api0))) tenantID request;
               api = api0\<lparr>ap_sys := nextTick (ap_sys api0)\<rparr>
           in case validateWorkspace workspace of
                Some err \<Rightarrow> ((400, InvalidBody err), api)
              | None \<Rightarrow>
                  (case liftCall (callStore (\<lambda>st. av_CreateWorkspace a (jo_tick (ap_sys api)) (requestCtx a tenantID api) st tenantID
                          workspace)) api of
                     (Inl err, api1) \<Rightarrow>
                       (if Contains (ToLower (errorText err)) ''already exists'' then (409, ErrorBody ''conflict'' err)
                        else (400, ErrorBody ''invalid_request'' err), api1)
                   | (Inr _, api1) \<Rightarrow>
                       (case liftCall (callStore (\<lambda>st. js_GetWorkspace (je_store (av_job a)) (requestCtx a tenantID api1) st tenantID
                               (wk_ID workspace))) api1 of
                          (Inl err, api2) \<Rightarrow> ((500, ErrorBody ''internal_error'' err), api2)
                        | (Inr created, api2) \<Rightarrow>
                            ((201, WorkspaceBody created), auditWorkspace ''create'' (wk_ID created) ''assessment created'' [] api2)))))"

definition patch :: "'a option \<Rightarrow> 'a \<Rightarrow> 'a" where
  "patch new old = (case new of None \<Rightarrow> old | Some v \<Rightarrow> v)"

definition patchWorkspace :: "workspaceUpdateRequest \<Rightarrow> PilotWorkspace \<Rightarrow> PilotWorkspace" where
  "patchWorkspace request w =
     w\<lparr>wk_Name := patch (map_option TrimSpace (ur_Name request)) (wk_Name w),
       wk_Description := patch (map_option TrimSpace (ur_Description request)) (wk_Description w),
       wk_SourceConnections := patch (ur_SourceConnections request) (wk_SourceConnections w),
       wk_SelectedWorkloadIDs := patch (ur_SelectedWorkloadIDs request) (wk_SelectedWorkloadIDs w),
       wk_TargetAssumptions := patch (ur_TargetAssumptions request) (wk_TargetAssumptions w),
       wk_PlanSettings := patch (ur_PlanSettings request) (wk_PlanSettings w),
       wk_Approvals := patch (ur_Approvals request) (wk_Approvals w), wk_Notes := patch (ur_Notes request) (wk_Notes w)\<rparr>"

definition getWorkspaceCall ::
  "('st, 'f) apiEnv \<Rightarrow> string \<Rightarrow> string \<Rightarrow> 'st apiSys \<Rightarrow> (goerror + PilotWorkspace) \<times> 'st apiSys" where
  "getWorkspaceCall a tenantID workspaceID api =
     liftCall (callStore (\<lambda>st. js_GetWorkspace (je_store (av_job a)) (requestCtx a tenantID api) st tenantID workspaceID)) api"

definition updateWorkspaceDocument ::
  "('st, 'f) apiEnv \<Rightarrow> string \<Rightarrow> string \<Rightarrow> goerror + workspaceUpdateRequest \<Rightarrow> 'st apiSys \<Rightarrow> response \<times> 'st apiSys" where
  "updateWorkspaceDocument a tenantID workspaceID body api =
     (case getWorkspaceCall a tenantID workspaceID api of
        (Inl err, api1) \<Rightarrow> ((404, ErrorBody ''workspace_not_found'' err), api1)
      | (Inr workspace0, api1) \<Rightarrow>
          (case body of
             Inl err \<Rightarrow> ((400, ErrorBody ''invalid_request'' (Wrap ''decode workspace update: %w'' [] err)), api1)
           | Inr request \<Rightarrow>
               (let workspace = patchWorkspace request workspace0 in
                case validateWorkspace workspace of
                  Some err \<Rightarrow> ((400, InvalidBody err), api1)
                | None \<Rightarrow>
                    (case liftCall (updateWorkspace (av_job a) tenantID workspace) api1 of
                       (Inl err, api2) \<Rightarrow> ((500, ErrorBody ''internal_error'' err), api2)
                     | (Inr _, api2) \<Rightarrow>
                         (case getWorkspaceCall a tenantID workspaceID api2 of
                            (Inl err, api3) \<Rightarrow> ((500, ErrorBody ''internal_error'' err), api3)
                          | (Inr updated, api3) \<Rightarrow>
                              ((200, WorkspaceBody updated), auditWorkspace ''update'' workspaceID ''assessment updated'' [] api3))))))"

definition deleteWorkspaceDocument :: "('st, 'f) apiEnv \<Rightarrow> string \<Rightarrow> string \<Rightarrow> 'st apiSys \<Rightarrow> response \<times> 'st apiSys" where
  "deleteWorkspaceDocument a tenantID workspaceID api =
     (case liftCall (callStore (\<lambda>st. av_DeleteWorkspace a (requestCtx a tenantID api) st tenantID workspaceID)) api of
        (Inl err, api1) \<Rightarrow> ((404, ErrorBody ''workspace_not_found'' err), api1)
      | (Inr _, api1) \<Rightarrow> ((204, NoBody), auditWorkspace ''delete'' workspaceID ''assessment deleted'' [] api1))"

section \<open>Jobs\<close>

definition newJob ::
  "('st, 'f) apiEnv \<Rightarrow> string \<Rightarrow> string \<Rightarrow> string \<Rightarrow> time \<Rightarrow> workspaceJobCreateRequest \<Rightarrow> string \<Rightarrow> WorkspaceJob" where
  "newJob a jobID tenantID workspaceID now request payload =
     zeroJob\<lparr>wj_ID := jobID, wj_TenantID := tenantID, wj_WorkspaceID := workspaceID, wj_Type := jr_Type request,
       wj_Status := WorkspaceJobStatusQueued, wj_RequestedBy := firstNonEmpty [TrimSpace (jr_RequestedBy request), av_actor a],
       wj_RequestedAt := now, wj_UpdatedAt := now, wj_CorrelationID := av_requestID a,
       wj_Message := workspaceJobQueuedMessage (jr_Type request), wj_InputJSON := payload\<rparr>"

text \<open>From the saved job on: the audit event, the queue, and the failure that is recorded when the queue refuses.\<close>

definition queueJob :: "('st, 'f) apiEnv \<Rightarrow> string \<Rightarrow> string \<Rightarrow> WorkspaceJob \<Rightarrow> 'st apiSys \<Rightarrow> response \<times> 'st apiSys" where
  "queueJob a tenantID workspaceID job api =
     (case enqueueWorkspaceJob a job (auditWorkspace ''enqueue-job'' (wj_ID job) (''workspace '' @ wj_Type job @ '' job queued'')
             [(''workspace_id'', workspaceID), (''job_type'', wj_Type job)] api) of
        (Some err, api1) \<Rightarrow>
          ((503, ErrorBody ''internal_error'' err),
           snd (liftCall (recordWorkspaceJobFailure (av_job a) (\<lambda>_. persistCtx tenantID) tenantID job True err) api1))
      | (None, api1) \<Rightarrow> ((202, JobBody job), api1))"

definition createWorkspaceJob ::
  "('st, 'f) apiEnv \<Rightarrow> string \<Rightarrow> string \<Rightarrow> goerror + workspaceJobCreateRequest \<Rightarrow> 'st apiSys \<Rightarrow> response \<times> 'st apiSys" where
  "createWorkspaceJob a tenantID workspaceID body api =
     (case getWorkspaceCall a tenantID workspaceID api of
        (Inl err, api1) \<Rightarrow> ((404, ErrorBody ''workspace_not_found'' err), api1)
      | (Inr workspace, api1) \<Rightarrow>
          (case body of
             Inl err \<Rightarrow> ((400, ErrorBody ''invalid_request'' (Wrap ''decode workspace job request: %w'' [] err)), api1)
           | Inr request \<Rightarrow>
               (case validateWorkspaceJobRequest workspace request of
                  Some err \<Rightarrow> ((400, InvalidBody err), api1)
                | None \<Rightarrow>
                    (case av_marshalRequest a request of
                       Inl err \<Rightarrow> ((500, ErrorBody ''internal_error'' err), api1)
                     | Inr payload \<Rightarrow>
                         (case liftCall (jobNow (av_job a)) api1 of (now, api2) \<Rightarrow>
                          (let job = newJob a (je_uuid (av_job a) (jo_tick (ap_sys api2))) tenantID workspaceID now request payload;
                               api3 = api2\<lparr>ap_sys := nextTick (ap_sys api2)\<rparr>
                           in case liftCall (callStore (\<lambda>st. js_SaveWorkspaceJob (je_store (av_job a)) (jo_tick (ap_sys api3))
                                     (requestCtx a tenantID api3) st tenantID job)) api3 of
                                (Inl err, api4) \<Rightarrow> ((500, ErrorBody ''internal_error'' err), api4)
                              | (Inr _, api4) \<Rightarrow> queueJob a tenantID (wk_ID workspace) job api4))))))"

definition getJobCall ::
  "('st, 'f) apiEnv \<Rightarrow> string \<Rightarrow> string \<Rightarrow> string \<Rightarrow> 'st apiSys \<Rightarrow> (goerror + WorkspaceJob) \<times> 'st apiSys" where
  "getJobCall a tenantID workspaceID jobID api =
     liftCall (callStore (\<lambda>st. js_GetWorkspaceJob (je_store (av_job a)) (requestCtx a tenantID api) st tenantID workspaceID jobID)) api"

text \<open>The second part of the handler, after the registered cancel function has been called.\<close>

definition cancelCurrent ::
  "('st, 'f) apiEnv \<Rightarrow> string \<Rightarrow> string \<Rightarrow> string \<Rightarrow> WorkspaceJobType \<Rightarrow> 'st apiSys \<Rightarrow> response \<times> 'st apiSys" where
  "cancelCurrent a tenantID workspaceID jobID jobType api =
     (case getJobCall a tenantID workspaceID jobID api of
        (Inl err, api1) \<Rightarrow> ((500, ErrorBody ''internal_error'' err), api1)
      | (Inr current, api1) \<Rightarrow>
          if \<not> workspaceJobCanCancel (wj_Status current) then ((200, JobBody current), api1)
          else (case liftCall (\<lambda>sys. failWorkspaceJob (av_job a) (storeCtx (av_job a) tenantID (nextTick sys)) tenantID current True
                       (Errorf ''workspace job canceled'' []) sys) api1 of
                  (Inl err, api2) \<Rightarrow> ((500, ErrorBody ''internal_error'' err), api2)
                | (Inr _, api2) \<Rightarrow>
                    (case getJobCall a tenantID workspaceID jobID api2 of
                       (Inl err, api3) \<Rightarrow> ((500, ErrorBody ''internal_error'' err), api3)
                     | (Inr updated, api3) \<Rightarrow>
                         ((202, JobBody updated), auditWorkspace ''cancel-job'' jobID ''assessment job canceled''
                            [(''workspace_id'', workspaceID), (''job_type'', jobType)] api3))))"

definition handleWorkspaceJobCancel ::
  "('st, 'f) apiEnv \<Rightarrow> string \<Rightarrow> string \<Rightarrow> string \<Rightarrow> 'st apiSys \<Rightarrow> response \<times> 'st apiSys" where
  "handleWorkspaceJobCancel a tenantID workspaceID jobID api =
     (case getJobCall a tenantID workspaceID jobID api of
        (Inl err, api1) \<Rightarrow> ((404, ErrorBody ''workspace_job_not_found'' err), api1)
      | (Inr job, api1) \<Rightarrow>
          if \<not> workspaceJobCanCancel (wj_Status job) then ((200, JobBody job), api1)
          else cancelCurrent a tenantID workspaceID jobID (wj_Type job) (snd (cancelWorkspaceJob tenantID workspaceID jobID api1)))"

section \<open>Recovery after a restart\<close>

definition recoveredJob :: "time \<Rightarrow> WorkspaceJob \<Rightarrow> WorkspaceJob" where
  "recoveredJob now job =
     job\<lparr>wj_Status := WorkspaceJobStatusQueued, wj_StartedAt := 0, wj_CompletedAt := 0, wj_UpdatedAt := now,
         wj_Message := ''Recovered queued workspace job after API restart.'', wj_Error := [], wj_Retryable := False\<rparr>"

fun recoverJobs :: "('st, 'f) apiEnv \<Rightarrow> string \<Rightarrow> WorkspaceJob list \<Rightarrow> 'st apiSys \<Rightarrow> (goerror + unit) \<times> 'st apiSys" where
  "recoverJobs a tenantID [] api = (Inr (), api)"
| "recoverJobs a tenantID (job0 # jobs) api =
     (if \<not> workspaceJobCanCancel (wj_Status job0) then recoverJobs a tenantID jobs api
      else (case liftCall (jobNow (av_job a)) api of (now, api1) \<Rightarrow>
            (let job = recoveredJob now job0 in
             case liftCall (callStore (\<lambda>st. js_SaveWorkspaceJob (je_store (av_job a)) (jo_tick (ap_sys api1))
                     (requestCtx a tenantID api1) st tenantID job)) api1 of
               (Inl err, api2) \<Rightarrow> (Inl (Wrap ''recover workspace jobs: save recovered job %s: %w'' [wj_ID job] err), api2)
             | (Inr _, api2) \<Rightarrow>
                 (case enqueueWorkspaceJob a job api2 of
                    (Some err, api3) \<Rightarrow>
                      (case liftCall (recordWorkspaceJobFailure (av_job a) (\<lambda>_. persistCtx tenantID) tenantID job True err) api3 of
                         (Inl persistErr, api4) \<Rightarrow>
                           (Inl (Wrap ''recover workspace jobs: enqueue job %s: %v (persist failure: %w)'' [wj_ID job, errorText err]
                                   persistErr), api4)
                       | (Inr _, api4) \<Rightarrow> (Inl (Wrap ''recover workspace jobs: enqueue job %s: %w'' [wj_ID job] err), api4))
                  | (None, api3) \<Rightarrow> recoverJobs a tenantID jobs api3))))"

fun recoverWorkspaces :: "('st, 'f) apiEnv \<Rightarrow> string \<Rightarrow> PilotWorkspace list \<Rightarrow> 'st apiSys \<Rightarrow> (goerror + unit) \<times> 'st apiSys" where
  "recoverWorkspaces a tenantID [] api = (Inr (), api)"
| "recoverWorkspaces a tenantID (workspace # workspaces) api =
     (case liftCall (callStore (\<lambda>st. js_ListWorkspaceJobs (je_store (av_job a)) (requestCtx a tenantID api) st tenantID
             (wk_ID workspace) 0)) api of
        (Inl err, api1) \<Rightarrow> (Inl (Wrap ''recover workspace jobs: list jobs for workspace %s: %w'' [wk_ID workspace] err), api1)
      | (Inr jobs, api1) \<Rightarrow>
          (case recoverJobs a tenantID jobs api1 of
             (Inl err, api2) \<Rightarrow> (Inl err, api2)
           | (Inr _, api2) \<Rightarrow> recoverWorkspaces a tenantID workspaces api2))"

fun recoverTenants :: "('st, 'f) apiEnv \<Rightarrow> Tenant list \<Rightarrow> 'st apiSys \<Rightarrow> (goerror + unit) \<times> 'st apiSys" where
  "recoverTenants a [] api = (Inr (), api)"
| "recoverTenants a (tenant # tenants) api =
     (case liftCall (callStore (\<lambda>st. js_ListWorkspaces (je_store (av_job a)) (requestCtx a (tn_ID tenant) api) st (tn_ID tenant) 0)) api of
        (Inl err, api1) \<Rightarrow> (Inl (Wrap ''recover workspace jobs: list workspaces for tenant %s: %w'' [tn_ID tenant] err), api1)
      | (Inr workspaces, api1) \<Rightarrow>
          (case recoverWorkspaces a (tn_ID tenant) workspaces api1 of
             (Inl err, api2) \<Rightarrow> (Inl err, api2)
           | (Inr _, api2) \<Rightarrow> recoverTenants a tenants api2))"

definition recoverWorkspaceJobs :: "('st, 'f) apiEnv \<Rightarrow> 'st apiSys \<Rightarrow> (goerror + unit) \<times> 'st apiSys" where
  "recoverWorkspaceJobs a api =
     (case liftCall (callStore (\<lambda>st. js_ListTenants (je_store (av_job a)) \<lparr>ctx_Err = je_ctxErr (av_job a) (jo_tick (ap_sys api)),
             ctx_Tenant = None\<rparr> st)) api of
        (Inl err, api1) \<Rightarrow> (Inl (Wrap ''recover workspace jobs: list tenants: %w'' [] err), api1)
      | (Inr tenants, api1) \<Rightarrow> recoverTenants a tenants api1)"

end
