(* ===== verification/WorkspaceJobsCorrect.thy ===== *)
theory WorkspaceJobsCorrect
  imports WorkspaceJobs MemoryStoreCorrect
begin

text \<open>
  The life of a workspace job: what the server needs of a store is the locale \<open>job_store\<close>, interpreted on the in-memory store.
  While the context of the job lives, a job that is run ends as succeeded or failed, whatever connectors, encoders and the
  rest of the store answer; when the context ends, nothing records it.
\<close>

definition settled :: "WorkspaceJob \<Rightarrow> bool" where
  "settled job \<longleftrightarrow> wj_Status job \<in> {WorkspaceJobStatusSucceeded, WorkspaceJobStatusFailed}
     \<and> (wj_Status job = WorkspaceJobStatusSucceeded \<and> \<not> wj_Truncated job \<longrightarrow> length (wj_OutputJSON job) \<le> workspaceJobOutputMaxBytes)"

lemmas job_statuses = WorkspaceJobStatusQueued_def WorkspaceJobStatusRunning_def WorkspaceJobStatusSucceeded_def
  WorkspaceJobStatusFailed_def

lemma ctx_simps [simp]:
  "ctx_Err (storeCtx e t sys) = je_ctxErr e (jo_tick sys)" "ctx_Err (persistCtx t) = None"
  "jo_tick (nextTick sys) = Suc (jo_tick sys)" "jo_store (nextTick sys) = jo_store sys"
  by (simp_all add: storeCtx_def persistCtx_def ContextWithTenantID_def nextTick_def)

lemma capped: "capWorkspaceJobOutput e output0 = Inr (output, False) \<Longrightarrow> length output \<le> workspaceJobOutputMaxBytes"
  by (auto simp: capWorkspaceJobOutput_def Let_def split: if_splits sum.splits)

section \<open>What the server needs of a store\<close>

locale job_store =
  fixes ops :: "'st JobStore" and jobAt :: "'st \<Rightarrow> string \<Rightarrow> string \<Rightarrow> string \<Rightarrow> WorkspaceJob option"
  assumes stored_ids: "jobAt st t w j = Some job \<Longrightarrow> wj_ID job = j \<and> wj_WorkspaceID job = w"
    and get_job: "jobAt st t w j = Some job \<Longrightarrow> ctx_Err ctx = None \<Longrightarrow> js_GetWorkspaceJob ops ctx st t w j = (Inr job, st)"
    and get_any: "jobAt st t w j = Some job \<Longrightarrow> \<exists>res. js_GetWorkspaceJob ops ctx st t w j = (res, st) \<and> (\<forall>got. res = Inr got \<longrightarrow> got = job)"
    and save_ended: "ctx_Err ctx \<noteq> None \<Longrightarrow> \<exists>err. js_SaveWorkspaceJob ops n ctx st t job = (Inl err, st)"
    and save_job: "jobAt st t w j = Some old \<Longrightarrow> ctx_Err ctx = None \<Longrightarrow> wj_ID job = j \<Longrightarrow> wj_WorkspaceID job = w \<Longrightarrow> wj_Status job \<noteq> []
      \<Longrightarrow> \<exists>st' job'. js_SaveWorkspaceJob ops n ctx st t job = (Inr (), st') \<and> jobAt st' t w j = Some job'
            \<and> wj_Status job' = wj_Status job \<and> wj_CompletedAt job' = wj_CompletedAt job \<and> wj_OutputJSON job' = wj_OutputJSON job
            \<and> wj_Truncated job' = wj_Truncated job \<and> wj_Type job' = wj_Type job \<and> wj_InputJSON job' = wj_InputJSON job"
    and keep_GetWorkspace: "jobAt st t w j = Some job \<Longrightarrow> jobAt (snd (js_GetWorkspace ops ctx st t' w')) t w j = Some job"
    and keep_UpdateWorkspace: "jobAt st t w j = Some job \<Longrightarrow> jobAt (snd (js_UpdateWorkspace ops n ctx st t' ws)) t w j = Some job"
    and keep_SaveDiscovery: "jobAt st t w j = Some job \<Longrightarrow> jobAt (snd (js_SaveDiscovery ops n ctx st t' dr)) t w j = Some job"
    and keep_GetSnapshot: "jobAt st t w j = Some job \<Longrightarrow> jobAt (snd (js_GetSnapshot ops ctx st t' k)) t w j = Some job"
    and keep_SaveMigration: "jobAt st t w j = Some job \<Longrightarrow> jobAt (snd (js_SaveMigration ops ctx st t' rec)) t w j = Some job"
begin

text \<open>No stored job is changed and time goes forward.\<close>

definition later :: "'st jobSys \<Rightarrow> 'st jobSys \<Rightarrow> bool" where
  "later sys sys' \<longleftrightarrow> jo_tick sys \<le> jo_tick sys'
     \<and> (\<forall>t w j job. jobAt (jo_store sys) t w j = Some job \<longrightarrow> jobAt (jo_store sys') t w j = Some job)"

lemma later_refl [simp]: "later sys sys"
  by (simp add: later_def)

lemma later_trans [trans]: "later sys sys1 \<Longrightarrow> later sys1 sys2 \<Longrightarrow> later sys sys2"
  by (auto simp: later_def)

lemma later_tick [simp]: "later sys (nextTick sys)"
  by (simp add: later_def nextTick_def)

lemma later_before: "later (nextTick sys) sys' \<Longrightarrow> later sys sys'"
  by (rule later_trans [OF later_tick])

lemma later_jobNow: "jobNow e sys = (now, sys') \<Longrightarrow> later sys sys'"
  by (auto simp: jobNow_def)

lemma later_call:
  assumes "\<And>st t w j job. jobAt st t w j = Some job \<Longrightarrow> jobAt (snd (f st)) t w j = Some job" "callStore f sys = (res, sys')"
  shows "later sys sys'"
  using assms by (auto simp: callStore_def later_def nextTick_def split: prod.splits) (metis snd_conv)

definition on_ops :: "('st, 'f) jobEnv \<Rightarrow> bool" where
  "on_ops e \<longleftrightarrow> je_store e = ops"

lemmas later_calls = later_call [OF keep_GetWorkspace] later_call [OF keep_UpdateWorkspace] later_call [OF keep_SaveDiscovery]
  later_call [OF keep_GetSnapshot] later_call [OF keep_SaveMigration]

lemma later_updateWorkspace:
  "updateWorkspace e t ws sys = (res, sys') \<Longrightarrow> on_ops e \<Longrightarrow> later sys sys'"
  unfolding updateWorkspace_def on_ops_def by (auto intro: later_calls)

lemma later_loadSnapshots:
  "loadSnapshots e t snapshots merged sys = (res, sys') \<Longrightarrow> on_ops e \<Longrightarrow> later sys sys'"
proof (induction e t snapshots merged sys rule: loadSnapshots.induct)
  case (2 e t snapshot snapshots merged sys)
  obtain r sys1 where call: "callStore (\<lambda>st. js_GetSnapshot (je_store e) (storeCtx e t sys) st t (wss_SnapshotID snapshot)) sys = (r, sys1)"
    by force
  then have "later sys sys1" using 2(3) by (auto simp: on_ops_def intro: later_calls)
  with 2 call show ?case by (auto split: sum.splits intro: later_trans)
qed simp

lemma later_inventory: "workspaceInventory e t ws sys = (res, sys') \<Longrightarrow> on_ops e \<Longrightarrow> later sys sys'"
  by (auto simp: workspaceInventory_def Let_def split: if_splits prod.splits dest: later_jobNow later_loadSnapshots)

lemma later_addSources: "addSources e sources engine addresses sys = (res, sys') \<Longrightarrow> later sys sys'"
  by (induction e sources engine addresses sys rule: addSources.induct) (auto split: sum.splits intro: later_before)

lemma later_saveSources:
  "saveSources e t addresses results sys = (res, sys') \<Longrightarrow> on_ops e \<Longrightarrow> later sys sys'"
proof (induction e t addresses results sys arbitrary: res sys' rule: saveSources.induct)
  case (2 e t addresses result results sys)
  obtain r sys1 where call: "callStore (\<lambda>st. js_SaveDiscovery (je_store e) (jo_tick sys) (storeCtx e t sys) st t (Some result)) sys = (r, sys1)"
    by force
  then have "later sys sys1" using 2(3) by (auto simp: on_ops_def intro: later_calls)
  with 2 call show ?case by (auto split: sum.splits prod.splits intro: later_trans)
qed simp

lemma later_finishDiscovery:
  "finishDiscovery e t ws merged runErr snapshots sys = (res, sys') \<Longrightarrow> on_ops e \<Longrightarrow> later sys sys'"
  by (auto simp: finishDiscovery_def split: sum.splits prod.splits option.splits dest: later_updateWorkspace)

lemma later_discovery: "executeWorkspaceDiscoveryJob e t ws request sys = (res, sys') \<Longrightarrow> on_ops e \<Longrightarrow> later sys sys'"
  by (auto simp: executeWorkspaceDiscoveryJob_def Let_def split: if_splits sum.splits prod.splits option.splits
      dest!: later_addSources later_saveSources later_finishDiscovery) (meson later_trans later_before)+

lemma later_graph: "executeWorkspaceGraphJob e t ws sys = (res, sys') \<Longrightarrow> on_ops e \<Longrightarrow> later sys sys'"
  by (auto simp: executeWorkspaceGraphJob_def Let_def split: sum.splits prod.splits
      dest!: later_inventory later_jobNow later_updateWorkspace) (meson later_trans)+

lemma later_simulation: "executeWorkspaceSimulationJob e t ws request sys = (res, sys') \<Longrightarrow> on_ops e \<Longrightarrow> later sys sys'"
  by (auto simp: executeWorkspaceSimulationJob_def Let_def split: if_splits sum.splits prod.splits
      dest!: later_inventory later_jobNow later_updateWorkspace) (meson later_trans later_before later_tick)+

lemma later_savePlan: "savePlan e t ws ids mid at spec state sys = (res, sys') \<Longrightarrow> on_ops e \<Longrightarrow> later sys sys'"
proof -
  assume run: "savePlan e t ws ids mid at spec state sys = (res, sys')" and e: "on_ops e"
  have saved: "later sys sys1" if "callStore (\<lambda>st. js_SaveMigration (je_store e) (storeCtx e t sys) st t rec) sys = (r, sys1)" for rec r sys1
    using that e by (auto simp: on_ops_def intro: later_calls)
  show ?thesis
    using run e by (auto simp: savePlan_def split: sum.splits prod.splits dest!: later_updateWorkspace saved)
      (meson later_trans later_before)+
qed

lemma later_plan: "executeWorkspacePlanJob e t ws request sys = (res, sys') \<Longrightarrow> on_ops e \<Longrightarrow> later sys sys'"
  by (auto simp: executeWorkspacePlanJob_def Let_def split: sum.splits prod.splits
      dest!: later_inventory later_jobNow later_savePlan) (meson later_trans later_before later_tick)+

lemma later_execute: "executeJob e t job ws request sys = (res, sys') \<Longrightarrow> on_ops e \<Longrightarrow> later sys sys'"
  by (auto simp: executeJob_def split: if_splits dest: later_discovery later_graph later_simulation later_plan)

section \<open>While the context lives\<close>

lemma save_live:
  assumes e: "on_ops e" and at: "jobAt (jo_store sys) t w j = Some old" and ctx: "ctx_Err ctx = None"
    and ids: "wj_ID job = j" "wj_WorkspaceID job = w" "wj_Status job \<noteq> []"
  shows "\<exists>sys' job'. callStore (\<lambda>st. js_SaveWorkspaceJob (je_store e) n ctx st t job) sys = (Inr (), sys')
    \<and> jobAt (jo_store sys') t w j = Some job' \<and> jo_tick sys' = Suc (jo_tick sys) \<and> wj_Status job' = wj_Status job
    \<and> wj_OutputJSON job' = wj_OutputJSON job \<and> wj_Truncated job' = wj_Truncated job \<and> wj_CompletedAt job' = wj_CompletedAt job"
proof -
  from save_job [OF at ctx ids, of n] e obtain st' job' where
    "js_SaveWorkspaceJob (je_store e) n ctx (jo_store sys) t job = (Inr (), st')" "jobAt st' t w j = Some job'"
    "wj_Status job' = wj_Status job" "wj_OutputJSON job' = wj_OutputJSON job" "wj_Truncated job' = wj_Truncated job"
    "wj_CompletedAt job' = wj_CompletedAt job" unfolding on_ops_def by auto
  then show ?thesis by (simp add: callStore_def)
qed

lemma record_live:
  assumes "on_ops e" "jobAt (jo_store sys) t w j = Some old" "ctx_Err (ctx (nextTick sys)) = None" "wj_ID job = j" "wj_WorkspaceID job = w"
  shows "\<exists>job'. jobAt (jo_store (snd (recordWorkspaceJobFailure e ctx t job r err sys))) t w j = Some job' \<and> settled job'"
proof -
  let ?job = "job\<lparr>wj_Status := WorkspaceJobStatusFailed, wj_Retryable := r, wj_Truncated := False,
    wj_Error := errorText err, wj_Message := errorText err, wj_OutputJSON := workspaceJobErrorOutput e err,
    wj_UpdatedAt := je_clock e (jo_tick sys), wj_CompletedAt := je_clock e (jo_tick sys)\<rparr>"
  have "jobAt (jo_store (nextTick sys)) t w j = Some old" "wj_ID ?job = j" "wj_WorkspaceID ?job = w" "wj_Status ?job \<noteq> []"
    using assms by (simp_all add: job_statuses)
  from save_live [OF assms(1) this(1) assms(3) this(2-4), of "Suc (jo_tick sys)"] obtain sys' job' where
    "callStore (\<lambda>st. js_SaveWorkspaceJob (je_store e) (Suc (jo_tick sys)) (ctx (nextTick sys)) st t ?job) (nextTick sys) = (Inr (), sys')"
    "jobAt (jo_store sys') t w j = Some job'" "wj_Status job' = WorkspaceJobStatusFailed" by auto
  then show ?thesis
    by (simp add: recordWorkspaceJobFailure_def failWorkspaceJob_def jobNow_def settled_def job_statuses)
qed

lemma finish_live:
  assumes e: "on_ops e" and live: "\<forall>n. je_ctxErr e n = None" and at: "jobAt (jo_store sys) t w j = Some old"
    and ids: "wj_ID job = j" "wj_WorkspaceID job = w"
  shows "\<exists>job'. jobAt (jo_store (finishJob e t job (res, sys))) t w j = Some job' \<and> settled job'"
proof (cases "\<exists>out message payload truncated. res = Inr (out, message) \<and> capWorkspaceJobOutput e out = Inr (payload, truncated)")
  case False
  then show ?thesis
    using record_live [OF e at, of "storeCtx e t" job] live ids by (auto simp: finishJob_def split: sum.splits prod.splits)
next
  case True
  then obtain out message payload truncated where
    res: "res = Inr (out, message)" and cap: "capWorkspaceJobOutput e out = Inr (payload, truncated)" by auto
  let ?job = "job\<lparr>wj_Status := WorkspaceJobStatusSucceeded, wj_Message := message, wj_Error := [], wj_Retryable := False,
    wj_Truncated := truncated, wj_OutputJSON := payload, wj_UpdatedAt := je_clock e (jo_tick sys),
    wj_CompletedAt := je_clock e (jo_tick sys)\<rparr>"
  have "jobAt (jo_store (nextTick sys)) t w j = Some old" "ctx_Err (storeCtx e t (nextTick sys)) = None" "wj_ID ?job = j"
    "wj_WorkspaceID ?job = w" "wj_Status ?job \<noteq> []"
    using at ids live by (simp_all add: job_statuses)
  from save_live [OF e this, of "Suc (jo_tick sys)"] obtain sys' job' where
    "callStore (\<lambda>st. js_SaveWorkspaceJob (je_store e) (Suc (jo_tick sys)) (storeCtx e t (nextTick sys)) st t ?job) (nextTick sys) = (Inr (), sys')"
    "jobAt (jo_store sys') t w j = Some job'" "wj_Status job' = WorkspaceJobStatusSucceeded" "wj_OutputJSON job' = payload"
    "wj_Truncated job' = truncated" by auto
  then show ?thesis
    using capped cap by (auto simp: finishJob_def res jobNow_def settled_def)
qed

lemma start_live:
  assumes e: "on_ops e" and live: "\<forall>n. je_ctxErr e n = None" and at: "jobAt (jo_store sys) t w j = Some old"
    and ids: "wj_ID job = j" "wj_WorkspaceID job = w"
  shows "\<exists>job'. jobAt (jo_store (startJob e t job ws sys)) t w j = Some job' \<and> settled job'"
proof -
  let ?job = "job\<lparr>wj_Status := WorkspaceJobStatusRunning, wj_StartedAt := je_clock e (jo_tick sys),
    wj_UpdatedAt := je_clock e (jo_tick sys), wj_Message := workspaceJobRunningMessage (wj_Type job)\<rparr>"
  have "jobAt (jo_store (nextTick sys)) t w j = Some old" "ctx_Err (storeCtx e t (nextTick sys)) = None" "wj_ID ?job = j"
    "wj_WorkspaceID ?job = w" "wj_Status ?job \<noteq> []"
    using at ids live by (simp_all add: job_statuses)
  from save_live [OF e this, of "Suc (jo_tick sys)"] obtain sys' job' where
    saved: "callStore (\<lambda>st. js_SaveWorkspaceJob (je_store e) (Suc (jo_tick sys)) (storeCtx e t (nextTick sys)) st t ?job) (nextTick sys) = (Inr (), sys')"
    and at': "jobAt (jo_store sys') t w j = Some job'" by blast
  show ?thesis
  proof (cases "decodeWorkspaceJobRequest e (wj_InputJSON job)")
    case (Inl err)
    then show ?thesis
      using record_live [OF e at', of "storeCtx e t" ?job] live ids saved by (simp add: startJob_def jobNow_def)
  next
    case (Inr request)
    obtain res sys2 where run: "executeJob e t ?job ws request sys' = (res, sys2)" by force
    with at' have "jobAt (jo_store sys2) t w j = Some job'" using later_execute [OF run e] by (simp add: later_def)
    then show ?thesis
      using finish_live [OF e live, of sys2 t w j job' ?job res] ids saved run Inr by (simp add: startJob_def jobNow_def)
  qed
qed

lemma run_live:
  assumes e: "on_ops e" and live: "\<forall>n. je_ctxErr e n = None" and at: "jobAt (jo_store sys) t w j = Some job"
    and open_job: "workspaceJobCanCancel (wj_Status job)"
  shows "\<exists>job'. jobAt (jo_store (runWorkspaceJob e t w j sys)) t w j = Some job' \<and> settled job'"
proof -
  let ?sys1 = "nextTick (nextTick (nextTick sys))"
  have ids: "wj_ID job = j" "wj_WorkspaceID job = w" using stored_ids [OF at] by auto
  have got: "callStore (\<lambda>st. js_GetWorkspaceJob (je_store e) (storeCtx e t (nextTick sys)) st t w j) (nextTick sys) = (Inr job, nextTick (nextTick sys))"
    using get_job [OF at, of "storeCtx e t (nextTick sys)"] e live by (simp add: callStore_def on_ops_def nextTick_def)
  obtain r sys2 where ws: "callStore (\<lambda>st. js_GetWorkspace (je_store e) (storeCtx e t ?sys1) st t w) ?sys1 = (r, sys2)" by force
  then have "later ?sys1 sys2" using e by (auto simp: on_ops_def intro: later_calls)
  with at have at2: "jobAt (jo_store sys2) t w j = Some job" by (simp add: later_def)
  show ?thesis
    using got ws open_job live start_live [OF e live at2 ids] record_live [OF e at2, of "storeCtx e t" job] ids
    by (cases r) (auto simp: runWorkspaceJob_def workspaceJobFailurePlaceholder_def jobNow_def workspaceJobCanCancel_def)
qed

section \<open>When the context has ended\<close>

lemma call_ended:
  assumes "on_ops e" "ctx_Err ctx \<noteq> None"
  shows "\<exists>err sys'. callStore (\<lambda>st. js_SaveWorkspaceJob (je_store e) n ctx st t job) sys = (Inl err, sys') \<and> later sys sys'
    \<and> jo_tick sys' = Suc (jo_tick sys)"
  using save_ended [OF assms(2), of n "jo_store sys" t job] assms(1) by (auto simp: callStore_def on_ops_def later_def nextTick_def)

lemma record_ended:
  assumes "on_ops e" "ctx_Err (ctx (nextTick sys)) \<noteq> None"
  shows "later sys (snd (recordWorkspaceJobFailure e ctx t job r err sys))"
proof -
  have "later (nextTick sys) (snd (recordWorkspaceJobFailure e ctx t job r err sys))"
    unfolding recordWorkspaceJobFailure_def failWorkspaceJob_def jobNow_def prod.case
    using call_ended [OF assms] by (metis snd_conv)
  then show ?thesis by (rule later_before)
qed

lemma finish_ended:
  assumes e: "on_ops e" and ended: "\<forall>n \<ge> jo_tick sys. je_ctxErr e n \<noteq> None"
  shows "later sys (finishJob e t job (res, sys))"
proof (cases "\<exists>out message payload truncated. res = Inr (out, message) \<and> capWorkspaceJobOutput e out = Inr (payload, truncated)")
  case False
  then show ?thesis
    using record_ended [OF e, of "storeCtx e t" sys] ended by (auto simp: finishJob_def split: sum.splits prod.splits)
next
  case True
  then obtain out message payload truncated where
    res: "res = Inr (out, message)" and cap: "capWorkspaceJobOutput e out = Inr (payload, truncated)" by auto
  let ?job = "job\<lparr>wj_Status := WorkspaceJobStatusSucceeded, wj_Message := message, wj_Error := [], wj_Retryable := False,
    wj_Truncated := truncated, wj_OutputJSON := payload, wj_UpdatedAt := je_clock e (jo_tick sys),
    wj_CompletedAt := je_clock e (jo_tick sys)\<rparr>"
  have "ctx_Err (storeCtx e t (nextTick sys)) \<noteq> None" using ended by simp
  from call_ended [OF e this, of "Suc (jo_tick sys)" t ?job "nextTick sys"] obtain err sys2 where
    call: "callStore (\<lambda>st. js_SaveWorkspaceJob (je_store e) (Suc (jo_tick sys)) (storeCtx e t (nextTick sys)) st t ?job) (nextTick sys) = (Inl err, sys2)"
    and sys2: "later (nextTick sys) sys2" "jo_tick sys2 = Suc (Suc (jo_tick sys))" by auto
  let ?final = "finishJob e t job (res, sys)"
  have "?final = snd (recordWorkspaceJobFailure e (storeCtx e t) t ?job True
      (Wrap ''persist workspace job %s result: %w'' [wj_ID ?job] err) sys2)"
    using call by (simp add: finishJob_def res cap jobNow_def)
  also have "later sys2 \<dots>" by (rule record_ended [OF e]) (use ended sys2 in simp)
  finally show ?thesis using sys2(1) by (meson later_trans later_before)
qed

lemma run_ended:
  assumes e: "on_ops e" and ends: "\<forall>n. je_ctxErr e n = None \<longleftrightarrow> n \<le> jo_tick sys + 5"
    and at: "jobAt (jo_store sys) t w j = Some job" and open_job: "workspaceJobCanCancel (wj_Status job)"
    and ws: "\<And>ctx. ctx_Err ctx = None \<Longrightarrow> js_GetWorkspace ops ctx (jo_store sys) t w = (Inr ws, jo_store sys)"
  shows "\<exists>job'. jobAt (jo_store (runWorkspaceJob e t w j sys)) t w j = Some job' \<and> wj_Status job' = WorkspaceJobStatusRunning
    \<and> wj_CompletedAt job' = wj_CompletedAt job"
proof -
  let ?sys1 = "nextTick (nextTick (nextTick sys))"
  have ids: "wj_ID job = j" "wj_WorkspaceID job = w" using stored_ids [OF at] by auto
  have got: "callStore (\<lambda>st. js_GetWorkspaceJob (je_store e) (storeCtx e t (nextTick sys)) st t w j) (nextTick sys) = (Inr job, nextTick (nextTick sys))"
    using get_job [OF at, of "storeCtx e t (nextTick sys)"] e ends by (simp add: callStore_def on_ops_def nextTick_def)
  have found: "callStore (\<lambda>st. js_GetWorkspace (je_store e) (storeCtx e t ?sys1) st t w) ?sys1 = (Inr ws, nextTick ?sys1)"
    using ws [of "storeCtx e t ?sys1"] e ends by (simp add: callStore_def on_ops_def nextTick_def)
  let ?job = "job\<lparr>wj_Status := WorkspaceJobStatusRunning, wj_StartedAt := je_clock e (jo_tick (nextTick ?sys1)),
    wj_UpdatedAt := je_clock e (jo_tick (nextTick ?sys1)), wj_Message := workspaceJobRunningMessage (wj_Type job)\<rparr>"
  let ?sys4 = "nextTick (nextTick ?sys1)"
  have "jobAt (jo_store ?sys4) t w j = Some job" "ctx_Err (storeCtx e t ?sys4) = None" "wj_ID ?job = j" "wj_WorkspaceID ?job = w"
    "wj_Status ?job \<noteq> []" using at ids ends by (simp_all add: job_statuses)
  from save_live [OF e this, of "jo_tick ?sys4"] obtain sys5 job' where
    saved: "callStore (\<lambda>st. js_SaveWorkspaceJob (je_store e) (jo_tick ?sys4) (storeCtx e t ?sys4) st t ?job) ?sys4 = (Inr (), sys5)"
    and at5: "jobAt (jo_store sys5) t w j = Some job'" "jo_tick sys5 = Suc (jo_tick ?sys4)"
      "wj_Status job' = WorkspaceJobStatusRunning" "wj_CompletedAt job' = wj_CompletedAt job" by auto
  have ended: "\<forall>n \<ge> jo_tick sys5. je_ctxErr e n \<noteq> None" using ends at5(2) by auto
  have run: "runWorkspaceJob e t w j sys = startJob e t job ws (nextTick ?sys1)"
    using got found open_job ends
    by (auto simp: runWorkspaceJob_def workspaceJobFailurePlaceholder_def jobNow_def workspaceJobCanCancel_def)
  have "later sys5 (startJob e t job ws (nextTick ?sys1))"
  proof (cases "decodeWorkspaceJobRequest e (wj_InputJSON job)")
    case (Inl err)
    then show ?thesis
      using record_ended [OF e, of "storeCtx e t" sys5] ended saved by (simp add: startJob_def jobNow_def)
  next
    case (Inr request)
    obtain res sys6 where exec: "executeJob e t ?job ws request sys5 = (res, sys6)" by force
    then have step: "later sys5 sys6" by (rule later_execute [OF _ e])
    then have "\<forall>n \<ge> jo_tick sys6. je_ctxErr e n \<noteq> None" using ended by (auto simp: later_def)
    from later_trans [OF step finish_ended [OF e this, of t ?job res]] show ?thesis
      using Inr saved exec by (simp add: startJob_def jobNow_def)
  qed
  with at5 run show ?thesis by (auto simp: later_def)
qed

end

section \<open>The in-memory store\<close>

text \<open>The operations of the in-memory store; \<open>uuid n\<close> and \<open>clock n\<close> are what it draws and reads in the \<open>n\<close>-th consultation.\<close>

definition memJobStore ::
  "jsonLib \<Rightarrow> (nat \<Rightarrow> string \<Rightarrow> nat \<Rightarrow> string) \<Rightarrow> (nat \<Rightarrow> nat \<Rightarrow> time) \<Rightarrow> (string list \<Rightarrow> nat list) \<Rightarrow> (int list \<Rightarrow> nat list)
   \<Rightarrow> string MemoryStore JobStore" where
  "memJobStore lib uuid clock r p =
     \<lparr>js_GetWorkspaceJob = GetWorkspaceJob lib, js_SaveWorkspaceJob = (\<lambda>n ctx st. SaveWorkspaceJob lib ctx (clock n 0) st),
      js_GetWorkspace = GetWorkspace lib,
      js_UpdateWorkspace = (\<lambda>n ctx st. UpdateWorkspace lib (uuid n) ctx (clock n 0) (clock n 1) st),
      js_SaveDiscovery = (\<lambda>n ctx st. SaveDiscovery lib ctx (uuid n ''snapshot'' 0) st),
      js_GetSnapshot = GetSnapshot lib, js_SaveMigration = SaveMigration, js_ListTenants = ListTenants p,
      js_ListWorkspaces = ListWorkspaces lib r p, js_ListWorkspaceJobs = ListWorkspaceJobs lib r p\<rparr>"

definition memJobAt :: "string MemoryStore \<Rightarrow> string \<Rightarrow> string \<Rightarrow> string \<Rightarrow> WorkspaceJob option" where
  "memJobAt st t w j =
     (case map_of (st_workspaceJobs st) (tenantWorkspaceJobKey (normalizeTenantID t) w j) of
        None \<Rightarrow> None
      | Some item \<Rightarrow>
          if so_tenantID item = normalizeTenantID t \<and> map_of (st_tenants st) (normalizeTenantID t) \<noteq> None
             \<and> wj_ID (so_value item) = j \<and> wj_WorkspaceID (so_value item) = w \<and> TrimSpace w = w \<and> w \<noteq> [] \<and> TrimSpace j \<noteq> []
          then Some (so_value item) else None)"

definition jobs_frame :: "string MemoryStore \<Rightarrow> string MemoryStore \<Rightarrow> bool" where
  "jobs_frame st st' \<longleftrightarrow> st_workspaceJobs st' = st_workspaceJobs st
     \<and> (\<forall>t. map_of (st_tenants st) t \<noteq> None \<longrightarrow> map_of (st_tenants st') t \<noteq> None)"

lemma memJobAt_frame: "jobs_frame st st' \<Longrightarrow> memJobAt st t w j = Some job \<Longrightarrow> memJobAt st' t w j = Some job"
  by (auto simp: memJobAt_def jobs_frame_def split: option.splits if_splits)

lemma frame_ensure: "ensureTenantLocked st t = (res, st') \<Longrightarrow> jobs_frame st st'"
  by (auto simp: ensureTenantLocked_def jobs_frame_def split: option.splits if_splits)

lemma frame_simps [simp]:
  "jobs_frame st st" "jobs_frame st (st1\<lparr>st_workspaces := ws\<rparr>) = jobs_frame st st1"
  "jobs_frame st (st1\<lparr>st_snapshots := ss\<rparr>) = jobs_frame st st1" "jobs_frame st (st1\<lparr>st_migrations := ms\<rparr>) = jobs_frame st st1"
  by (simp_all add: jobs_frame_def)

lemma frame_reads:
  "jobs_frame st (snd (GetWorkspace lib ctx st t w))" "jobs_frame st (snd (GetSnapshot lib ctx st t k))"
  by (simp_all add: GetWorkspace_def GetSnapshot_def onDone_def Let_def split: option.splits sum.splits)

lemma frame_UpdateWorkspace: "jobs_frame st (snd (UpdateWorkspace lib uuid ctx now now2 st t ws))"
proof (cases "ensureTenantLocked st (normalizeTenantID t)")
  case (Pair res st1)
  from frame_ensure [OF this] show ?thesis
    by (cases res) (simp_all add: UpdateWorkspace_def onDone_def Let_def Pair split: option.splits sum.splits)
qed

lemma frame_SaveDiscovery: "jobs_frame st (snd (SaveDiscovery lib ctx k st t dr))"
proof (cases "ensureTenantLocked st (normalizeTenantID t)")
  case (Pair res st1)
  from frame_ensure [OF this] show ?thesis
    by (cases res) (simp_all add: SaveDiscovery_def onDone_def Let_def Pair split: option.splits sum.splits)
qed

lemma frame_SaveMigration: "jobs_frame st (snd (SaveMigration ctx st t rec))"
proof (cases "ensureTenantLocked st (normalizeTenantID t)")
  case (Pair res st1)
  from frame_ensure [OF this] show ?thesis
    by (cases res) (simp_all add: SaveMigration_def onDone_def Let_def Pair split: option.splits)
qed

lemmas frame_ops = frame_reads frame_UpdateWorkspace frame_SaveDiscovery frame_SaveMigration

text \<open>Encoding a job as JSON and decoding it copies it.\<close>

locale json_copies =
  fixes lib :: jsonLib and uuid :: "nat \<Rightarrow> string \<Rightarrow> nat \<Rightarrow> string" and clock :: "nat \<Rightarrow> nat \<Rightarrow> time"
    and r :: "string list \<Rightarrow> nat list" and p :: "int list \<Rightarrow> nat list"
  assumes copies: "jsonJob lib job = Inr job"
begin

lemma clone_job [simp]: "cloneWorkspaceJob lib job = Inr job"
  by (simp add: cloneWorkspaceJob_def copies)

lemma mem_save:
  assumes at: "memJobAt st t w j = Some old" and live: "ctx_Err ctx = None"
    and ids: "wj_ID job = j" "wj_WorkspaceID job = w" "wj_Status job \<noteq> []"
  shows "\<exists>st'. SaveWorkspaceJob lib ctx now st t job = (Inr (), st')
    \<and> memJobAt st' t w j = Some (normalizeWorkspaceJob now (normalizeTenantID t) job)"
proof -
  let ?t = "normalizeTenantID t"
  from at have w: "TrimSpace w = w" "w \<noteq> []" "TrimSpace j \<noteq> []" and known: "map_of (st_tenants st) ?t \<noteq> None"
    and key: "map_of (st_workspaceJobs st) (tenantWorkspaceJobKey ?t w j) \<noteq> None"
    by (auto simp: memJobAt_def split: option.splits if_splits)
  from known obtain tenant where "ensureTenantLocked st ?t = (Inr tenant, st)" by (auto simp: ensureTenantLocked_def)
  then show ?thesis
    using w known key live ids
    by (simp add: SaveWorkspaceJob_def onDone_def Let_def normalizeWorkspaceJob_def memJobAt_def)
qed

end

sublocale json_copies \<subseteq> jobs: job_store "memJobStore lib uuid clock r p" memJobAt
proof (unfold_locales, goal_cases)
  case (1 st t w j job)
  then show ?case by (auto simp: memJobAt_def split: option.splits if_splits)
next
  case (2 st t w j job ctx)
  then show ?case
    by (auto simp: memJobAt_def memJobStore_def GetWorkspaceJob_def onDone_def Let_def split: option.splits if_splits)
next
  case (3 st t w j job ctx)
  then show ?case
    by (auto simp: memJobAt_def memJobStore_def GetWorkspaceJob_def onDone_def Let_def split: option.splits if_splits)
next
  case (4 ctx n st t job)
  then show ?case by (auto simp: memJobStore_def SaveWorkspaceJob_def onDone_def)
next
  case (5 st t w j old ctx job n)
  from mem_save [OF this, of "clock n 0"] 5(5) show ?case
    by (auto simp: memJobStore_def normalizeWorkspaceJob_def Let_def)
qed (simp_all add: memJobStore_def memJobAt_frame [OF frame_ops(1)] memJobAt_frame [OF frame_ops(2)] memJobAt_frame [OF frame_ops(3)]
    memJobAt_frame [OF frame_ops(4)] memJobAt_frame [OF frame_ops(5)])

definition copyLib :: jsonLib where
  "copyLib = \<lparr>jsonDR = Inr, jsonWorkspace = Inr, jsonJob = Inr\<rparr>"

interpretation plainJson: json_copies copyLib "\<lambda>n kind i. kind @ itoa n @ itoa i" "\<lambda>n i. int n + int i + 1" "\<lambda>xs. [0..<length xs]" stable_perm
  by unfold_locales (simp add: copyLib_def)

context json_copies begin

lemma outcome:
  assumes "je_store e = memJobStore lib uuid clock r p" "\<forall>n. je_ctxErr e n = None"
    and "memJobAt (jo_store sys) t w j = Some job" "workspaceJobCanCancel (wj_Status job)"
  shows "\<exists>job'. memJobAt (jo_store (runWorkspaceJob e t w j sys)) t w j = Some job' \<and> settled job'"
  using assms by (intro jobs.run_live) (simp_all add: jobs.on_ops_def)

lemma left_running:
  assumes "je_store e = memJobStore lib uuid clock r p" "\<forall>n. je_ctxErr e n = None \<longleftrightarrow> n \<le> jo_tick sys + 5"
    and "memJobAt (jo_store sys) t w j = Some job" "workspaceJobCanCancel (wj_Status job)"
    and ws: "fst (GetWorkspace lib \<lparr>ctx_Err = None, ctx_Tenant = None\<rparr> (jo_store sys) t w) = Inr ws"
  shows "\<exists>job'. memJobAt (jo_store (runWorkspaceJob e t w j sys)) t w j = Some job' \<and> wj_Status job' = WorkspaceJobStatusRunning
    \<and> wj_CompletedAt job' = wj_CompletedAt job"
proof -
  have "js_GetWorkspace (memJobStore lib uuid clock r p) ctx (jo_store sys) t w = (Inr ws, jo_store sys)" if "ctx_Err ctx = None" for ctx
    using ws that by (auto simp: memJobStore_def GetWorkspace_def onDone_def Let_def split: option.splits sum.splits if_splits)
  with assms show ?thesis by (intro jobs.run_ended) (simp_all add: jobs.on_ops_def)
qed

end

section \<open>The outcome of a job\<close>

text \<open>
  C17 (job_outcome): while the context of a workspace job lives and jobs are copied unchanged through JSON, running a job that is
  stored as queued or running on the in-memory store leaves it succeeded or failed, whatever its type and input are and whatever
  connectors, encoders, clocks and the other operations of the store answer; the stored output of a job that succeeded is
  within the limit of a mebibyte unless it is marked as truncated. The output of a failed job is not bounded.
\<close>

theorem job_outcome:
  assumes json: "\<forall>job. jsonJob lib job = Inr job" and store: "je_store e = memJobStore lib uuid clock r p"
    and live: "\<forall>n. je_ctxErr e n = None"
    and stored: "memJobAt (jo_store sys) t w j = Some job" "workspaceJobCanCancel (wj_Status job)"
  shows "\<exists>job'. memJobAt (jo_store (runWorkspaceJob e t w j sys)) t w j = Some job' \<and> settled job'"
proof -
  have "json_copies lib" using json by unfold_locales simp
  then show ?thesis by (rule json_copies.outcome [OF _ store live stored])
qed

text \<open>
  C20 (job_timeout_stuck): when the context of a job ends right after the job was marked as running, for instance by the timeout
  of jobs, no outcome is recorded: whatever the job does, the failure is saved with the ended context, the store refuses it, and
  the job stays running without a completion time.
\<close>

theorem job_timeout_stuck:
  assumes json: "\<forall>job. jsonJob lib job = Inr job" and store: "je_store e = memJobStore lib uuid clock r p"
    and ends: "\<forall>n. je_ctxErr e n = None \<longleftrightarrow> n \<le> jo_tick sys + 5"
    and stored: "memJobAt (jo_store sys) t w j = Some job" "workspaceJobCanCancel (wj_Status job)"
    and workspace: "fst (GetWorkspace lib \<lparr>ctx_Err = None, ctx_Tenant = None\<rparr> (jo_store sys) t w) = Inr ws"
  shows "\<exists>job'. memJobAt (jo_store (runWorkspaceJob e t w j sys)) t w j = Some job'
    \<and> wj_Status job' = WorkspaceJobStatusRunning \<and> wj_CompletedAt job' = wj_CompletedAt job"
proof -
  have "json_copies lib" using json by unfold_locales simp
  then show ?thesis by (rule json_copies.left_running [OF _ store ends stored workspace])
qed

end
