(* ===== verification/WorkspaceHandlersCorrect.thy ===== *)
theory WorkspaceHandlersCorrect
  imports WorkspaceHandlers WorkspaceJobsCorrect WorkspacePlanCorrect
begin

text \<open>
  The handlers for workspaces and jobs: a cancelled job stays cancelled; a simulation can leave a workspace that no update passes.
\<close>

lemma liftCall_simps [simp]:
  "f (ap_sys api) = (res, sys) \<Longrightarrow> liftCall f api = (res, api\<lparr>ap_sys := sys\<rparr>)"
  by (simp add: liftCall_def)

context job_store begin

lemma getJob_live:
  assumes "on_ops (av_job a)" "je_ctxErr (av_job a) (jo_tick (ap_sys api)) = None" "jobAt (jo_store (ap_sys api)) t w j = Some job"
  shows "getJobCall a t w j api = (Inr job, api\<lparr>ap_sys := nextTick (ap_sys api)\<rparr>)"
  using get_job [OF assms(3), of "requestCtx a t api"] assms(1,2)
  by (simp add: getJobCall_def callStore_def on_ops_def requestCtx_def nextTick_def)

lemma fail_live:
  assumes "on_ops e" "\<forall>n. je_ctxErr e n = None" "jobAt (jo_store sys) t w j = Some job"
  shows "\<exists>sys' job'. failWorkspaceJob e (storeCtx e t (nextTick sys)) t job r err sys = (Inr (), sys')
    \<and> jobAt (jo_store sys') t w j = Some job' \<and> wj_Status job' = WorkspaceJobStatusFailed"
proof -
  let ?job = "job\<lparr>wj_Status := WorkspaceJobStatusFailed, wj_Retryable := r, wj_Truncated := False,
    wj_Error := errorText err, wj_Message := errorText err, wj_OutputJSON := workspaceJobErrorOutput e err,
    wj_UpdatedAt := je_clock e (jo_tick sys), wj_CompletedAt := je_clock e (jo_tick sys)\<rparr>"
  have "jobAt (jo_store (nextTick sys)) t w j = Some job" "ctx_Err (storeCtx e t (nextTick sys)) = None" "wj_ID ?job = j" "wj_WorkspaceID ?job = w"
    "wj_Status ?job \<noteq> []" using assms stored_ids [OF assms(3)] by (simp_all add: job_statuses)
  from save_live [OF assms(1) this, of "Suc (jo_tick sys)"] show ?thesis
    by (auto simp: failWorkspaceJob_def jobNow_def)
qed

lemma cancel_live:
  assumes a: "on_ops (av_job a)" and live: "\<forall>n. je_ctxErr (av_job a) n = None"
    and at: "jobAt (jo_store (ap_sys api)) t w j = Some job" and open_job: "workspaceJobCanCancel (wj_Status job)"
  shows "\<exists>job' api'. handleWorkspaceJobCancel a t w j api = ((202, JobBody job'), api')
    \<and> jobAt (jo_store (ap_sys api')) t w j = Some job' \<and> wj_Status job' = WorkspaceJobStatusFailed
    \<and> workspaceJobCancelKey t w j \<notin> set (ap_cancels api')"
proof -
  let ?sys1 = "nextTick (ap_sys api)"
  let ?api1 = "unregisterWorkspaceJobCancel t w j (api\<lparr>ap_sys := ?sys1\<rparr>)"
  have first: "getJobCall a t w j api = (Inr job, api\<lparr>ap_sys := ?sys1\<rparr>)" using getJob_live a live at by blast
  have sys1: "ap_sys ?api1 = ?sys1" by (simp add: unregisterWorkspaceJobCancel_def)
  then have second: "getJobCall a t w j ?api1 = (Inr job, ?api1\<lparr>ap_sys := nextTick ?sys1\<rparr>)"
    using getJob_live [OF a, of ?api1 t w j job] live at by simp
  have "jobAt (jo_store (nextTick ?sys1)) t w j = Some job" using at by simp
  from fail_live [OF a live this, of True "Errorf ''workspace job canceled'' []"] obtain sys3 job' where
    failed: "failWorkspaceJob (av_job a) (storeCtx (av_job a) t (nextTick (nextTick ?sys1))) t job True (Errorf ''workspace job canceled'' [])
      (nextTick ?sys1) = (Inr (), sys3)"
    and at3: "jobAt (jo_store sys3) t w j = Some job'" "wj_Status job' = WorkspaceJobStatusFailed" by blast
  have third: "getJobCall a t w j (?api1\<lparr>ap_sys := sys3\<rparr>) = (Inr job', ?api1\<lparr>ap_sys := nextTick sys3\<rparr>)"
    using getJob_live [OF a, of "?api1\<lparr>ap_sys := sys3\<rparr>" t w j job'] live at3 by simp
  show ?thesis
    using first second failed third open_job at3
    by (simp add: handleWorkspaceJobCancel_def cancelCurrent_def cancelWorkspaceJob_def auditWorkspace_def)
      (simp add: unregisterWorkspaceJobCancel_def)
qed

lemma run_closed:
  assumes e: "on_ops e" and ctx: "\<forall>n m. n \<le> m \<longrightarrow> je_ctxErr e n \<noteq> None \<longrightarrow> je_ctxErr e m \<noteq> None"
    and at: "jobAt (jo_store sys) t w j = Some job" and closed: "\<not> workspaceJobCanCancel (wj_Status job)"
  shows "jobAt (jo_store (runWorkspaceJob e t w j sys)) t w j = Some job"
proof -
  from get_any [OF at, of "storeCtx e t (nextTick sys)"] e obtain res where
    get: "callStore (\<lambda>st. js_GetWorkspaceJob (je_store e) (storeCtx e t (nextTick sys)) st t w j) (nextTick sys) = (res, nextTick (nextTick sys))"
    and got: "\<forall>got. res = Inr got \<longrightarrow> got = job"
    by (auto simp: callStore_def on_ops_def nextTick_def)
  show ?thesis
  proof (cases res)
    case (Inr job')
    with got get at closed show ?thesis
      by (simp add: runWorkspaceJob_def workspaceJobFailurePlaceholder_def jobNow_def workspaceJobCanCancel_def)
  next
    case (Inl err)
    have "je_ctxErr e (Suc (jo_tick sys)) \<noteq> None"
    proof
      assume "je_ctxErr e (Suc (jo_tick sys)) = None"
      with get Inl get_job [OF at, of "storeCtx e t (nextTick sys)"] e show False by (simp add: callStore_def on_ops_def)
    qed
    then have "je_ctxErr e n \<noteq> None" if "Suc (jo_tick sys) \<le> n" for n using ctx that by blast
    then have "later (nextTick (nextTick (nextTick sys))) (runWorkspaceJob e t w j sys)"
      using get Inl record_ended [OF e, of "storeCtx e t" "nextTick (nextTick (nextTick sys))"]
      by (simp add: runWorkspaceJob_def workspaceJobFailurePlaceholder_def jobNow_def)
    with at show ?thesis by (simp add: later_def)
  qed
qed

end

context json_copies begin

lemma cancelled_stays:
  assumes "je_store (av_job a) = memJobStore lib uuid clock r p" "\<forall>n. je_ctxErr (av_job a) n = None"
    and "memJobAt (jo_store (ap_sys api)) t w j = Some job" "workspaceJobCanCancel (wj_Status job)"
    and "je_store e = memJobStore lib uuid clock r p" "\<forall>n m. n \<le> m \<longrightarrow> je_ctxErr e n \<noteq> None \<longrightarrow> je_ctxErr e m \<noteq> None"
  shows "\<exists>job' api'. handleWorkspaceJobCancel a t w j api = ((202, JobBody job'), api') \<and> wj_Status job' = WorkspaceJobStatusFailed
    \<and> workspaceJobCancelKey t w j \<notin> set (ap_cancels api') \<and> memJobAt (jo_store (ap_sys api')) t w j = Some job'
    \<and> memJobAt (jo_store (runWorkspaceJob e t w j (ap_sys api'))) t w j = Some job'"
proof -
  from jobs.cancel_live [of a api t w j job] assms obtain job' api' where
    cancel: "handleWorkspaceJobCancel a t w j api = ((202, JobBody job'), api')" "memJobAt (jo_store (ap_sys api')) t w j = Some job'"
      "wj_Status job' = WorkspaceJobStatusFailed" "workspaceJobCancelKey t w j \<notin> set (ap_cancels api')"
    by (auto simp: jobs.on_ops_def)
  moreover have "memJobAt (jo_store (runWorkspaceJob e t w j (ap_sys api'))) t w j = Some job'"
    using jobs.run_closed [of e "ap_sys api'" t w j job'] assms(5,6) cancel(2,3)
    by (simp add: jobs.on_ops_def workspaceJobCanCancel_def job_statuses)
  ultimately show ?thesis by blast
qed

end

section \<open>Cancellation\<close>

text \<open>
  C19 (job_cancel_final): cancelling a queued or running job with a living request stores it as failed, answers with the stored job
  and removes its cancel function; when a worker picks the job up afterwards, it leaves the job as it is, whether or not the
  context of the job has ended by then.
\<close>

theorem job_cancel_final:
  assumes json: "\<forall>job. jsonJob lib job = Inr job"
    and request: "je_store (av_job a) = memJobStore lib uuid clock r p" "\<forall>n. je_ctxErr (av_job a) n = None"
    and stored: "memJobAt (jo_store (ap_sys api)) t w j = Some job" "workspaceJobCanCancel (wj_Status job)"
    and worker: "je_store e = memJobStore lib uuid clock r p" "\<forall>n m. n \<le> m \<longrightarrow> je_ctxErr e n \<noteq> None \<longrightarrow> je_ctxErr e m \<noteq> None"
  shows "\<exists>job' api'. handleWorkspaceJobCancel a t w j api = ((202, JobBody job'), api') \<and> wj_Status job' = WorkspaceJobStatusFailed
    \<and> workspaceJobCancelKey t w j \<notin> set (ap_cancels api') \<and> memJobAt (jo_store (ap_sys api')) t w j = Some job'
    \<and> memJobAt (jo_store (runWorkspaceJob e t w j (ap_sys api'))) t w j = Some job'"
proof -
  have "json_copies lib" using json by unfold_locales simp
  then show ?thesis by (rule json_copies.cancelled_stays [OF _ request stored worker])
qed

section \<open>What a simulation leaves behind\<close>

section \<open>The selection a simulation leaves\<close>

text \<open>The workspace a simulation job stores, with the selection it was given.\<close>

lemma update_stores_selection:
  assumes json: "\<forall>w. jsonWorkspace lib w = Inr w" and run: "UpdateWorkspace lib uuid ctx now now2 st t w = (Inr (), st')"
  shows "\<exists>stored. map_of (st_workspaces st') (tenantWorkspaceKey (normalizeTenantID t) (wk_ID w))
      = Some \<lparr>so_tenantID = normalizeTenantID t, so_value = stored\<rparr> \<and> wk_SelectedWorkloadIDs stored = wk_SelectedWorkloadIDs w"
  using run json
  by (auto simp: UpdateWorkspace_def onDone_def Let_def cloneWorkspace_def normalizeWorkspace_def update_conv'
      split: if_splits prod.splits sum.splits option.splits)

lemma simulation_stores:
  fixes e :: "(string MemoryStore, 'f) jobEnv"
  assumes store: "je_store e = memJobStore lib uuid clock r p"
    and run: "executeWorkspaceSimulationJob e t w request sys = (Inr out, sys')"
  shows "\<exists>result output now now2 n n' ctx st. UpdateWorkspace lib (uuid n') ctx (clock n' 0) (clock n' 1) st t
      (applySimulation request (simulationScope w request) (result :: 'f SimulationResult) output now now2 n w) = (Inr (), jo_store sys')"
  using run unfolding executeWorkspaceSimulationJob_def
  by (auto simp: Let_def updateWorkspace_def callStore_def store memJobStore_def split: prod.splits sum.splits if_splits) blast

text \<open>
  C40 (simulation_blocks_updates): let the workspace have no selection and the request ask for a simulation, with no selection of its
  own, of listed machines and not of all. The machines listed are not validated: the verdict on the request is the same for every
  list. On the in-memory store, with workspaces copied unchanged through JSON and contexts that are not done, a simulation job
  that succeeds stores them as the selection of the workspace; when they name a machine twice or contain a blank, every later update of
  this workspace that does not replace the selection is refused as invalid, whatever else it changes.
\<close>

theorem simulation_blocks_updates:
  fixes a :: "(string MemoryStore, 'f) apiEnv"
  assumes json: "\<forall>w. jsonWorkspace lib w = Inr w" and store: "je_store (av_job a) = memJobStore lib uuid clock r p"
    and live: "\<forall>n. je_ctxErr (av_job a) n = None"
    and request: "jr_SelectedWorkloadIDs request = []" "jr_Simulation request = Some simulation" "\<not> sq_IncludeAll simulation"
    and ws: "wk_SelectedWorkloadIDs w = []"
    and scope: "\<not> distinct (map TrimSpace (sq_VMIDs simulation)) \<or> (\<exists>k \<in> set (sq_VMIDs simulation). TrimSpace k = [])"
    and run: "executeWorkspaceSimulationJob (av_job a) t w request sys = (Inr out, sys')" and api: "ap_sys api = sys'"
    and update: "ur_SelectedWorkloadIDs change = None"
  shows "(\<forall>ids. validateWorkspaceJobRequest w (request\<lparr>jr_Simulation := Some (simulation\<lparr>sq_VMIDs := ids\<rparr>)\<rparr>)
             = validateWorkspaceJobRequest w request)
    \<and> (\<exists>stored. map_of (st_workspaces (jo_store sys')) (tenantWorkspaceKey (normalizeTenantID t) (wk_ID w))
           = Some \<lparr>so_tenantID = normalizeTenantID t, so_value = stored\<rparr> \<and> wk_SelectedWorkloadIDs stored = sq_VMIDs simulation)
    \<and> (\<exists>err api'. updateWorkspaceDocument a t (wk_ID w) (Inr change) api = ((400, InvalidBody err), api'))"
proof -
  obtain result :: "'f SimulationResult" and doc now now2 n uuid' ctx c c' st where
    "UpdateWorkspace lib uuid' ctx c c' st t (applySimulation request (simulationScope w request) result doc now now2 n w)
       = (Inr (), jo_store sys')"
    using simulation_stores [OF store run] by blast
  from update_stores_selection [OF json this] request ws obtain stored where
    at: "map_of (st_workspaces (jo_store sys')) (tenantWorkspaceKey (normalizeTenantID t) (wk_ID w))
        = Some \<lparr>so_tenantID = normalizeTenantID t, so_value = stored\<rparr>" and sel: "wk_SelectedWorkloadIDs stored = sq_VMIDs simulation"
    by (auto simp: applySimulation_def simulationScope_def)
  have "fst (getWorkspaceCall a t (wk_ID w) api) = Inr stored"
    using at json live api store by (simp add: getWorkspaceCall_def liftCall_def callStore_def memJobStore_def GetWorkspace_def
        onDone_def requestCtx_def cloneWorkspace_def Let_def)
  then obtain api1 where get: "getWorkspaceCall a t (wk_ID w) api = (Inr stored, api1)" by (metis prod.collapse)
  have "validateSelectedIDs 0 [] (wk_SelectedWorkloadIDs (patchWorkspace change stored)) \<noteq> []"
    using scope update sel by (auto simp: validateSelectedIDs_Nil patchWorkspace_def patch_def)
  then have "validateWorkspace (patchWorkspace change stored) \<noteq> None" by (simp add: validateWorkspace_def Let_def)
  then have "\<exists>err api'. updateWorkspaceDocument a t (wk_ID w) (Inr change) api = ((400, InvalidBody err), api')"
    using get by (auto simp: updateWorkspaceDocument_def Let_def)
  moreover have "validateWorkspaceJobRequest w (request\<lparr>jr_Simulation := Some (simulation\<lparr>sq_VMIDs := ids\<rparr>)\<rparr>)
      = validateWorkspaceJobRequest w request" for ids
  proof -
    have "validateJobType w (request\<lparr>jr_Simulation := Some (simulation\<lparr>sq_VMIDs := ids\<rparr>)\<rparr>) = validateJobType w request"
      unfolding validateJobType_def Let_def using request(2) by (simp cong: if_cong)
    then show ?thesis unfolding validateWorkspaceJobRequest_def by (simp add: request(2))
  qed
  ultimately show ?thesis using at sel by blast
qed

end
