(* ===== verification/WorkspaceJobExamples.thy ===== *)
theory WorkspaceJobExamples
  imports WorkspaceExamples WorkspaceHandlersCorrect LifecycleExamples
begin

text \<open>
  A store with the workspace of \<open>WorkspaceExamples\<close>, its snapshot and a queued job that generates a plan, on which the theorems
  about jobs are applied. The encoders of the examples give a fixed text.
\<close>

definition pilotJob :: WorkspaceJob where
  "pilotJob = zeroJob\<lparr>wj_ID := ''job-1'', wj_TenantID := DefaultTenantID, wj_WorkspaceID := ''ws-1'', wj_Type := WorkspaceJobTypePlan,
     wj_Status := WorkspaceJobStatusQueued, wj_RequestedAt := 7, wj_UpdatedAt := 7, wj_InputJSON := ''{}''\<rparr>"

definition pilotStore :: "string MemoryStore" where
  "pilotStore = NewMemoryStore\<lparr>
     st_snapshots := [(''snap-1'', \<lparr>so_tenantID = DefaultTenantID, so_value = pilotInventory\<rparr>)],
     st_workspaces := [(tenantWorkspaceKey DefaultTenantID ''ws-1'', \<lparr>so_tenantID = DefaultTenantID, so_value = pilotWorkspace\<rparr>)],
     st_workspaceJobs := [(tenantWorkspaceJobKey DefaultTenantID ''ws-1'' ''job-1'',
       \<lparr>so_tenantID = DefaultTenantID, so_value = pilotJob\<rparr>)]\<rparr>"

definition pilotOps :: "string MemoryStore JobStore" where
  "pilotOps = memJobStore copyLib (\<lambda>n kind i. kind @ itoa n) (\<lambda>n i. int n + int i + 1) (\<lambda>xs. [0..<length xs]) stable_perm"

definition pilotEnv :: "(nat \<Rightarrow> goerror option) \<Rightarrow> (string MemoryStore, int) jobEnv" where
  "pilotEnv ctx =
     \<lparr>je_store = pilotOps, je_ctxErr = ctx, je_clock = (\<lambda>n. int n + 10), je_uuid = (\<lambda>n. ''id-'' @ itoa n), je_catalog = None,
      je_buildConnector = (\<lambda>n platform address ref. Inr \<lparr>sc_Connect = None, sc_Discover = Inr (Some pilotInventory), sc_Close = None\<rparr>),
      je_runAll = (\<lambda>n. startRun), je_duration = int, je_backups = None, je_recommendationEngine = demoAdvisor,
      je_floats = wholeFloats, je_profileOrder = (\<lambda>_ _. []), je_sortRecommendations = (\<lambda>_. []), je_cloneInventory = Inr,
      je_patterns = pilotLib, je_sortNames = stable_perm, je_sortTimes = stable_perm,
      je_unmarshalRequest = (\<lambda>_. Inr pilotRequest), je_marshalDiscovery = (\<lambda>_ _ _. Inr ''{}''), je_marshalGraph = (\<lambda>_. Inr ''{}''),
      je_marshalSimulation = (\<lambda>_. Inr ''{}''), je_marshalState = (\<lambda>_. Inr ''{}''), je_marshalSpec = (\<lambda>_. Inr ''{}''),
      je_marshalPreview = (\<lambda>_ _. Inr ''{}''), je_marshalError = Inr\<rparr>"

definition pilotSys :: "string MemoryStore jobSys" where
  "pilotSys = \<lparr>jo_store = pilotStore, jo_tick = 0\<rparr>"

lemma copyLib_copies: "\<forall>job. jsonJob copyLib job = Inr job"
  by (simp add: copyLib_def)

lemma pilotEnv_simps [simp]: "je_store (pilotEnv ctx) = pilotOps" "je_ctxErr (pilotEnv ctx) = ctx"
  by (simp_all add: pilotEnv_def)

lemma pilotEnv_store: "je_store (pilotEnv ctx)
    = memJobStore copyLib (\<lambda>n kind i. kind @ itoa n) (\<lambda>n i. int n + int i + 1) (\<lambda>xs. [0..<length xs]) stable_perm"
  by (simp add: pilotOps_def)

lemma pilot_stored: "memJobAt (jo_store pilotSys) DefaultTenantID ''ws-1'' ''job-1'' = Some pilotJob" "workspaceJobCanCancel (wj_Status pilotJob)"
  by code_simp+

lemma pilot_workspace: "fst (GetWorkspace copyLib \<lparr>ctx_Err = None, ctx_Tenant = None\<rparr> (jo_store pilotSys) DefaultTenantID ''ws-1'') = Inr pilotWorkspace"
  by code_simp

theorem job_outcome_witness:
  "\<exists>job'. memJobAt (jo_store (runWorkspaceJob (pilotEnv (\<lambda>_. None)) DefaultTenantID ''ws-1'' ''job-1'' pilotSys)) DefaultTenantID ''ws-1''
     ''job-1'' = Some job' \<and> settled job'"
  by (rule job_outcome [OF copyLib_copies pilotEnv_store _ pilot_stored]) simp

theorem job_timeout_stuck_witness:
  "\<exists>job'. memJobAt (jo_store (runWorkspaceJob (pilotEnv (\<lambda>n. if n \<le> 5 then None else Some DeadlineExceeded)) DefaultTenantID ''ws-1''
     ''job-1'' pilotSys)) DefaultTenantID ''ws-1'' ''job-1'' = Some job' \<and> wj_Status job' = WorkspaceJobStatusRunning"
proof -
  have "\<forall>n. je_ctxErr (pilotEnv (\<lambda>n. if n \<le> 5 then None else Some DeadlineExceeded)) n = None \<longleftrightarrow> n \<le> jo_tick pilotSys + 5"
    by (simp add: pilotSys_def)
  from job_timeout_stuck [OF copyLib_copies pilotEnv_store this pilot_stored pilot_workspace] show ?thesis by blast
qed

definition pilotApi :: "(string MemoryStore, int) apiEnv" where
  "pilotApi = \<lparr>av_job = pilotEnv (\<lambda>_. None), av_CreateWorkspace = (\<lambda>n ctx st. CreateWorkspace copyLib (\<lambda>kind i. kind @ itoa n) ctx (int n + 1) st),
     av_DeleteWorkspace = DeleteWorkspace, av_enqueue = Some (\<lambda>_ _. None), av_marshalRequest = (\<lambda>_. Inr ''{}''), av_actor = ''operator'',
     av_requestID = ''req-1''\<rparr>"

definition pilotServer :: "string MemoryStore apiSys" where
  "pilotServer = \<lparr>ap_sys = pilotSys, ap_cancels = [workspaceJobCancelKey DefaultTenantID ''ws-1'' ''job-1''], ap_audit = []\<rparr>"

theorem job_cancel_final_witness:
  "\<exists>job' api'. handleWorkspaceJobCancel pilotApi DefaultTenantID ''ws-1'' ''job-1'' pilotServer = ((202, JobBody job'), api')
     \<and> wj_Status job' = WorkspaceJobStatusFailed
     \<and> memJobAt (jo_store (runWorkspaceJob (pilotEnv (\<lambda>n. if n \<le> 5 then None else Some Canceled)) DefaultTenantID ''ws-1'' ''job-1''
          (ap_sys api'))) DefaultTenantID ''ws-1'' ''job-1'' = Some job'"
proof -
  let ?e = "pilotEnv (\<lambda>n. if n \<le> 5 then None else Some Canceled)"
  have api: "av_job pilotApi = pilotEnv (\<lambda>_. None)" by (simp add: pilotApi_def)
  have "\<forall>n. je_ctxErr (av_job pilotApi) n = None" by (simp add: api)
  moreover have "memJobAt (jo_store (ap_sys pilotServer)) DefaultTenantID ''ws-1'' ''job-1'' = Some pilotJob"
    using pilot_stored by (simp add: pilotServer_def)
  moreover have "\<forall>n m. n \<le> m \<longrightarrow> je_ctxErr ?e n \<noteq> None \<longrightarrow> je_ctxErr ?e m \<noteq> None" by simp
  ultimately show ?thesis
    using job_cancel_final [OF copyLib_copies pilotEnv_store [of "\<lambda>_. None", folded api] _ _ pilot_stored(2) pilotEnv_store] by blast
qed

definition twiceRequest :: workspaceJobCreateRequest where
  "twiceRequest = \<lparr>jr_Type = WorkspaceJobTypeSimulation, jr_RequestedBy = [], jr_SourceConnectionIDs = [], jr_SelectedWorkloadIDs = [],
     jr_Simulation = Some \<lparr>sq_TargetPlatform = PlatformProxmox, sq_VMIDs = [''1'', ''1''], sq_IncludeAll = False, sq_Waivers = []\<rparr>\<rparr>"

definition renameOnly :: workspaceUpdateRequest where
  "renameOnly = \<lparr>ur_Name = Some ''Renamed'', ur_Description = None, ur_SourceConnections = None, ur_SelectedWorkloadIDs = None,
     ur_TargetAssumptions = None, ur_PlanSettings = None, ur_Approvals = None, ur_Notes = None\<rparr>"

definition fleetSys :: "string MemoryStore jobSys" where
  "fleetSys = pilotSys\<lparr>jo_store := pilotStore\<lparr>st_snapshots := [(''snap-1'', \<lparr>so_tenantID = DefaultTenantID, so_value = demoFleet\<rparr>)]\<rparr>\<rparr>"

definition twiceRun :: "jobResult \<times> string MemoryStore jobSys" where
  "twiceRun = executeWorkspaceSimulationJob (pilotEnv (\<lambda>_. None)) DefaultTenantID pilotWorkspace twiceRequest fleetSys"

lemma twice_valid: "validateWorkspaceJobRequest pilotWorkspace twiceRequest = None" "\<not> isl (fst twiceRun)"
  by code_simp+

text \<open>The request passes validation and the job succeeds; afterwards the workspace cannot be renamed.\<close>

theorem simulation_blocks_updates_witness:
  "validateWorkspaceJobRequest pilotWorkspace twiceRequest = None \<and> \<not> isl (fst twiceRun)
   \<and> (\<exists>err api'. updateWorkspaceDocument pilotApi DefaultTenantID ''ws-1'' (Inr renameOnly) (pilotServer\<lparr>ap_sys := snd twiceRun\<rparr>)
        = ((400, InvalidBody err), api'))"
proof -
  have api: "av_job pilotApi = pilotEnv (\<lambda>_. None)" by (simp add: pilotApi_def)
  obtain out where "fst twiceRun = Inr out" using twice_valid(2) by (cases "fst twiceRun") auto
  then have run: "executeWorkspaceSimulationJob (av_job pilotApi) DefaultTenantID pilotWorkspace twiceRequest fleetSys = (Inr out, snd twiceRun)"
    unfolding api twiceRun_def [symmetric] by (metis prod.collapse)
  have json: "\<forall>w. jsonWorkspace copyLib w = Inr w" by (simp add: copyLib_def)
  have live: "\<forall>n. je_ctxErr (av_job pilotApi) n = None" by (simp add: api)
  have "wk_ID pilotWorkspace = ''ws-1''" "wk_SelectedWorkloadIDs pilotWorkspace = []"
    by (simp_all add: pilotWorkspace_def zeroWorkspace_def)
  with simulation_blocks_updates [OF json pilotEnv_store [of "\<lambda>_. None", folded api] live _ _ _ _ _ run, of _
      "pilotServer\<lparr>ap_sys := snd twiceRun\<rparr>" renameOnly] twice_valid show ?thesis
    by (simp add: twiceRequest_def renameOnly_def)
qed

end
