(* ===== verification/Spec2Isabelle.thy ===== *)
theory Spec2Isabelle
  imports Examples ImportOrder CircuitCorrect WarmExamples DepGraph DiscoveryCorrect ApiExamples AuthSessionsCorrect LifecycleExamples JobExecutorExamples WorkspaceJobExamples
begin

text \<open>
  A model of Viaduct, a control plane that migrates virtual machines between hypervisors (Go, under
  \<open>src/\<close>), with the properties that make its core correct.

  \<^bold>\<open>The program.\<close> An operator writes a migration specification (\<open>internal/migrate/spec.go\<close>). The engine
  discovers the inventories of the source and the target, selects machines (\<open>matcher.go\<close>), plans waves that
  respect the declared dependencies (\<open>plan.go\<close>) and runs the phases export, convert, import, configure and
  verify (\<open>orchestrator.go\<close>), taking a recovery point before each of them; a failed migration can be resumed
  or rolled back (\<open>rollback.go\<close>). States and recovery points are kept as JSON in a multi-tenant store
  (\<open>internal/store\<close>), which also keeps tenants and their credentials, inventory snapshots, workspaces, jobs,
  audit events and revoked sessions.

  \<^bold>\<open>The theories.\<close>
  \<^item> \<open>Prelude\<close>: what the code uses of the Go language and library: byte strings, \<open>strings\<close>, \<open>path/filepath\<close>,
    errors as values, \<open>sort.Slice\<close> (an arbitrary sorting permutation, the locale \<open>go_sort\<close>), 64-bit wrap-around.
  \<^item> \<open>Models\<close>, \<open>Workspace\<close>: the structs of \<open>internal/models\<close> as records, roles and permissions.
  \<^item> \<open>MigrationSpec\<close> (\<open>spec.go\<close>), \<open>MigrationData\<close>, \<open>Matcher\<close> (\<open>matcher.go\<close>), \<open>Plan\<close> (\<open>plan.go\<close>), \<open>NetMap\<close>
    (\<open>netmap.go\<close>, the disk formats of \<open>diskconv.go\<close> and the paths of \<open>runtime.go\<close>): definitions and first
    properties. \<open>PlanCorrect\<close> proves the wave loop correct (an invariant of Kahn's algorithm), \<open>PlanExecution\<close>
    the whole plan, the reordering and the checkpoints.
  \<^item> \<open>Credentials\<close> (\<open>credentials.go\<close>, \<open>auth_lookup.go\<close>), \<open>MemoryStore\<close> (\<open>memory.go\<close>, every operation),
    \<open>MemoryStoreCorrect\<close> (the invariant \<open>store_ok\<close>, kept by every operation), \<open>StoreProps\<close> (reachable states as an
    inductive relation, round trips, isolation, quotas, deletion, lookup, sessions, paging). The interface the
    engine uses of a store is the locale \<open>migration_store\<close>, interpreted on the in-memory store as \<open>mem\<close>.
  \<^item> \<open>Runtime\<close> (\<open>runtime.go\<close>): connectors, environment, persistence. \<open>Orchestrator\<close> (\<open>orchestrator.go\<close>,
    \<open>rollback.go\<close>, \<open>workspace_plan.go\<close>): the engine. \<open>OrchestratorTrace\<close> describes the calls each function makes,
    \<open>OrchestratorProps\<close> and \<open>ResumeRollback\<close> the runs, \<open>ImportOrder\<close> the order of the created machines.
  \<^item> \<open>Preflight\<close> (\<open>preflight.go\<close>): the checks before a run, related to what the engine needs. \<open>Replication\<close>
    (\<open>replication.go\<close>) and \<open>Cutover\<close> (\<open>cutover.go\<close>, \<open>verify.go\<close>, \<open>cbt.go\<close>): warm migration over a small file system
    with a running guest; \<open>ReplicationCorrect\<close> and \<open>CutoverCorrect\<close> prove convergence and the order of the calls.
  \<^item> \<open>CircuitBreaker\<close> (\<open>internal/api/circuit_breaker.go\<close>) and \<open>CircuitCorrect\<close>: the registry of circuits refines an
    abstract breaker (the locale \<open>timed_simulation\<close>, interpreted as \<open>breaker\<close>).
  \<^item> \<open>DepGraph\<close> (\<open>internal/deps/graph.go\<close>): the dependency graph of the dashboard. \<open>Discovery\<close>
    (\<open>internal/discovery\<close>): the concurrent discovery run as a step relation; \<open>DiscoveryCorrect\<close> proves it independent
    of the interleaving with the locale \<open>terminating_steps\<close> of \<open>Steps\<close>.
  \<^item> \<open>CredentialDigest\<close> (\<open>internal/api/middleware.go\<close>): digests of credentials on 8-bit words, the administrator's key.
  \<^item> \<open>AuthSessions\<close> (\<open>internal/api/auth_session.go\<close>) and \<open>AuthSessionsCorrect\<close>: the session manager against the
    history of its sessions. \<open>AuditRetry\<close> (\<open>audit_retry.go\<close>, \<open>reports.go\<close>) and \<open>AuditCorrect\<close>: audit events and the file
    of those that could not be saved; the interface to the store is the locale \<open>audit_store\<close>, interpreted as \<open>memAudit\<close>.
    \<open>TenantAuth\<close> (\<open>middleware.go\<close>) and \<open>TenantAuthCorrect\<close>: authentication of tenant requests over the locale
    \<open>auth_store\<close>, interpreted as \<open>memAuth\<close>. \<open>ApiExamples\<close> runs both.
  \<^item> \<open>LifecyclePolicy\<close> (\<open>internal/lifecycle/cost.go\<close>, \<open>policy.go\<close>), \<open>LifecycleDrift\<close> (\<open>drift.go\<close>, \<open>recommendation.go\<close>):
    cost, policies with waivers, drift and recommendations; \<open>LifecycleCorrect\<close> has their properties and
    \<open>LifecycleExamples\<close> concrete runs.
  \<^item> \<open>JobExecutor\<close> (\<open>internal/api/workspace_executor.go\<close>): the executor of workspace jobs, its callers, dispatcher and workers
    as a step relation; \<open>JobExecutorCorrect\<close> has its invariants and its termination (\<open>terminating_steps\<close> again, interpreted as
    \<open>stopping\<close>), \<open>JobExecutorExamples\<close> concrete runs.
  \<^item> \<open>WorkspacePlan\<close> (\<open>workspace_validation.go\<close>, \<open>workspaces.go\<close>): validation of workspaces and the specification generated from one,
    with its properties in \<open>WorkspacePlanCorrect\<close>. \<open>WorkspaceJobs\<close> (\<open>workspaces.go\<close>): running the jobs; \<open>WorkspaceJobsCorrect\<close> proves
    their outcome over the locale \<open>job_store\<close>, which the in-memory store satisfies (\<open>json_copies\<close> as a sublocale, interpreted as
    \<open>plainJson\<close>). \<open>WorkspaceHandlers\<close> and \<open>WorkspaceHandlersCorrect\<close>: the handlers that change workspaces and jobs.
    \<open>WorkspaceExamples\<close> and \<open>WorkspaceJobExamples\<close> run them.
  \<^item> \<open>Scenario\<close>, \<open>Examples\<close> and \<open>WarmExamples\<close>: a concrete installation with two machines on which the models are
    run and the theorems applied.

  \<^bold>\<open>How state and effects correspond.\<close> A Go struct is a record whose fields carry a short prefix; a map is an
  association list with distinct keys; an error is a value of \<open>goerror\<close>, which keeps the format, the arguments
  and the wrapped cause; a fallible function returns \<open>goerror + 'a\<close>. Every operation of the in-memory store runs
  under its mutex and is one function from state to result and state. The engine changes the migration state in
  place and calls connectors, a clock, an identifier generator and a store: its functions return the state they
  leave behind, and a system record keeps the history of calls and the state of the store. What the outside
  answers is an arbitrary function of the history, so that the theorems hold for every behaviour of the
  connectors, including failures at any call.

  \<^bold>\<open>Parameters.\<close> Code outside the repository is a parameter: regular expressions and globs (\<open>patternLib\<close>),
  JSON and YAML, SHA-256, UUIDs, the clock, \<open>qemu-img\<close>, connectors. Named hypotheses on them are \<open>json_roundtrips\<close>
  (decoding inverts encoding), \<open>go_sort\<close> (the result is a sorted permutation), \<open>hexOutput\<close> (a digest is printed as
  64 hexadecimal digits), \<open>exactRegexp\<close> and \<open>starGlob\<close> (a quoted, anchored name matches itself only, a star any text
  without a slash), \<open>lineCodec\<close> (an encoded event has no line break and decodes to itself); each holds for the
  instances of the witnesses. Floating point is a parameter as well; the one theorem that needs a law of it
  asks that \<open><\<close> is transitive and irreflexive, as it is with NaN.

  \<^bold>\<open>Termination.\<close> The wave loop and the batching loop are total functions with measures. The copy loop of the
  replicator has no bound of its own and is a partial function, proved to return while the guest does not
  resize the disk. Every other loop is structural. No fuel is used.

  \<^bold>\<open>What the theorems show.\<close> Planning: exactness of selection and merging, correctness of waves, existence of a
  plan exactly for resolvable acyclic dependencies. Execution: the gate, the order of phases and recovery
  points, the final state, the order of created machines. Resume and rollback: no completed phase runs again, the
  exact errors and counts of a rollback, and the target machines it leaves behind after a failed import. Store: the
  invariant of all reachable states, round trips, isolation of tenants, quotas, deletion, lookup of credentials,
  session revocation, paging and sorting; and two defects (colliding keys, widened permissions). Warm migration:
  the copy returns, a round is the blockwise difference, the disks converge, the cutover keeps its order; the
  rollback of a cutover leaves the target machine. Preflight: the report allows exactly what the engine can run.
  Circuit breaker: refinement, protection and recovery. Discovery and dependency graph: independence of the
  schedule, well-typed edges. API: round trip of digests, the administrator's key, exactness of sessions, no
  loss of audit events, soundness of tenant authentication and admission of valid keys. Lifecycle: policy reports against a
  reference, drift independent of the map order, safety of recommended placements. Job executor: at most one run of a
  task and no loss of an accepted one, the shares of tenants in the queue, termination of the shutdown. Workspaces: the plan
  covers exactly the selected machines, a job ends as succeeded or failed while its context lives, a cancelled job stays
  cancelled; and four defects (timed-out jobs, names that differ in case, the default network, unvalidated simulations).

  \<^bold>\<open>Not modelled.\<close> The SQL of the PostgreSQL store, HTTP handlers and request parsing, loopback and proxy trust,
  rate limiting and metrics, the export of reports, the clients of the hypervisors, telemetry, log lines, the command
  line and the dashboard. Execution within a phase is sequential in the code. Time is an
  integer whose zero is Go's zero time. Strings are byte strings; \<open>ToLower\<close> and \<open>EqualFold\<close> fold ASCII letters
  only. A nil map and an empty map are the same association list.

  \<^bold>\<open>Simplifications.\<close> The engine, the cutover and the drift detector are modelled with a store: the branches for a nil
  store, a nil receiver and a nil cutover are left out. Counters of a Go \<open>int\<close> that only add up sizes of an inventory (the capacity
  sums of \<open>preflight.go\<close>, \<open>absInt\<close> of \<open>drift.go\<close>) are unbounded integers. A clock that is read only under a condition is
  read always (\<open>setPhase\<close>, \<open>failState\<close>, \<open>completeCheckpoint\<close>), and one reading serves all lookups of an authenticated request.
  During one discovery run of \<open>engine.go\<close> the answer of a connector does not depend on the interleaving. The random order of the ready
  workloads in a wave is part of the permutation of the sort that follows. In the job executor a running task returns, and the loop
  that drains the queue may also end while a caller is sending, which allows more runs than the code has. Cancelling a job removes it
  from the registry; the effect of \<open>cancel()\<close> is that the context of the job is done from some call on. The recovery from a
  panic in a job is left out.
\<close>

section \<open>From the specification to the calls on the target\<close>

text \<open>
  C1 (execute_dependency_order): let the target connector be one that creates machines (it implements the
  importer interface with \<open>CreateVM\<close>), and let no machine the source answers to the discovery of this run have
  an identifier of white space only. A run of \<open>Execute\<close> that is no dry run and reports no error has then
  asked the target connector to create exactly the machines the specification selects from the inventory
  discovered in this run, each once, and every machine after all the machines its merged overrides name as
  dependencies.
\<close>

theorem execute_dependency_order:
  assumes con: "env_source env = Some src" "env_target env = Some tgt" and imp: "con_importer tgt = Some createVM"
    and ids: "\<forall>sr. discoveredIn src (sy_hist s) (sy_hist s') sr \<longrightarrow> idsNotBlank (dr_VMs sr)"
    and real: "\<not> opt_DryRun (spec_Options spec)" and run: "Execute env (Some spec) s = ((Some st, None), s')"
  shows "\<exists>sr vs. discoveredIn src (sy_hist s) (sy_hist s') sr \<and> created s' = created s @ vs
    \<and> mset vs = mset (MatchWorkloads (env_patterns env) (dr_VMs sr) (spec_Workloads spec))
    \<and> (\<forall>i < length vs.
         \<forall>d \<in> set (wo_Dependencies (fst (mergedOverridesForVM (env_patterns env) (vs ! i) (spec_Workloads spec)))).
           \<exists>j < i. EqualFold (workloadKey (vs ! j)) (TrimSpace d) \<or> EqualFold (vm_Name (vs ! j)) (TrimSpace d))"
proof -
  have "executeWith env src tgt spec s = ((Some st, None), s')" using run con by (simp add: Execute_def)
  then show ?thesis
  proof (cases rule: executeWith_cases)
    case stopped
    then show ?thesis by simp
  next
    case (planned tr st2 s4 s5 sr now plan)
    let ?lib = "env_patterns env" and ?items = "concat (map wave_Workloads (plan_Waves plan))"
    define vs where "vs = map wm_VM (ms_Workloads st2)"
    obtain cs where "sy_hist s' = sy_hist s5 @ cs" using executePlanned_trace [OF planned(6)] by blast
    then have disc: "discoveredIn src (sy_hist s) (sy_hist s') sr" using discoveredIn_append [OF planned(7)] by simp
    have blank: "idsNotBlank (dr_VMs sr)" using ids disc by blast
    note m = plan_machines [OF blank planned(8), folded planned(9) vs_def]
    have len: "length vs = length ?items" using arg_cong [OF m(1), of length] by simp
    have nth: "planWorkload ?lib spec (vs ! j) = Some (?items ! j)" if "j < length vs" for j
      using m(1) that len by (metis nth_map)
    have order: "\<exists>j < i. EqualFold (workloadKey (vs ! j)) (TrimSpace d) \<or> EqualFold (vm_Name (vs ! j)) (TrimSpace d)"
      if i: "i < length vs" and d: "d \<in> set (wo_Dependencies (fst (mergedOverridesForVM ?lib (vs ! i) (spec_Workloads spec))))"
      for i d
    proof -
      have "d \<in> set (pw_Dependencies (?items ! i))" using d planWorkload_fields [OF nth [OF i]] by simp
      from waves_position [OF plan_waves_ok [OF blank planned(8)] i [unfolded len] refl this] obtain j
        where j: "j < i" "EqualFold (pw_VMID (?items ! j)) (TrimSpace d) \<or> EqualFold (pw_Name (?items ! j)) (TrimSpace d)"
        by blast
      then show ?thesis using planWorkload_fields [OF nth, of j] i by (intro exI [of _ j]) simp
    qed
    have "created s5 = created s" by (rule created_bookkeeping [OF planned(1)])
    then have "created s' = created s @ vs"
      using executePlanned_created [OF imp real planned(6)] by (simp add: vs_def)
    then show ?thesis using disc m(2) order by blast
  qed
qed

theorem execute_dependency_order_witness:
  "\<exists>vs. created demoDone = vs \<and> mset vs = mset (MatchWorkloads demoLib demoVMs (spec_Workloads demoSpec))
    \<and> (\<forall>i < length vs.
         \<forall>d \<in> set (wo_Dependencies (fst (mergedOverridesForVM demoLib (vs ! i) (spec_Workloads demoSpec)))).
           \<exists>j < i. EqualFold (workloadKey (vs ! j)) (TrimSpace d) \<or> EqualFold (vm_Name (vs ! j)) (TrimSpace d))"
proof -
  obtain st where run: "Execute (demoEnv []) (Some demoSpec) demoSys = ((Some st, None), demoDone)"
    using demo_execute by blast
  have src: "sr = zeroDR\<lparr>dr_VMs := demoVMs\<rparr>" if "discoveredIn demoSource (sy_hist demoSys) (sy_hist demoDone) sr" for sr
    using that by (auto simp: discoveredIn_def)
  then have ids: "\<forall>sr. discoveredIn demoSource (sy_hist demoSys) (sy_hist demoDone) sr \<longrightarrow> idsNotBlank (dr_VMs sr)"
    using demo_ids by force
  have "\<not> opt_DryRun (spec_Options demoSpec)" by simp
  from execute_dependency_order [OF demoEnv_simps(1) demoEnv_simps(2) demoTarget_simps(4) ids this run]
  show ?thesis using src by (fastforce simp: created_def demoSys_def List.map_filter_simps)
qed

end
